(* ===== verification/Prelude.thy ===== *)
theory Prelude
  imports "HOL-Library.Word" "HOL-Library.Char_ord" "HOL-Library.List_Lexorder"
begin

text \<open>
  Shared vocabulary of the development: the machine integers of the code, strings
  as byte strings, the collections of rewrite rules the component theories extend,
  and the generic facts on lists, options and words that several components need.
\<close>

section \<open>Types and collections\<close>

type_synonym u8 = "8 word"
type_synonym u16 = "16 word"
type_synonym u32 = "32 word"
type_synonym u64 = "64 word"
type_synonym bytes = "u8 list"

abbreviation u64_max :: u64 where
  "u64_max \<equiv> - 1"

named_theorems codec_defs \<open>definitions of the canonical encoders and decoders\<close>
named_theorems reads_intros \<open>introduction rules for: this decoder reads what that encoder wrote\<close>
named_theorems frame_simps \<open>which parts of the state an operation leaves alone\<close>

section \<open>Ordinals of enumerators\<close>

definition ordinal :: "'a list \<Rightarrow> 'a \<Rightarrow> nat" where
  "ordinal xs x = length (takeWhile (\<lambda>y. y \<noteq> x) xs)"

lemma ordinal_less: "x \<in> set xs \<Longrightarrow> ordinal xs x < length xs"
  by (induction xs) (auto simp: ordinal_def)

lemma nth_ordinal: "x \<in> set xs \<Longrightarrow> xs ! ordinal xs x = x"
  by (induction xs) (auto simp: ordinal_def)

lemma ordinal_nth: "distinct xs \<Longrightarrow> i < length xs \<Longrightarrow> ordinal xs (xs ! i) = i"
proof (induction xs arbitrary: i)
  case (Cons a xs)
  then show ?case by (cases i) (auto simp: ordinal_def)
qed simp

section \<open>Bytes and characters\<close>

definition byte_of :: "char \<Rightarrow> u8" where
  "byte_of c = of_nat (of_char c)"

definition char_of_byte :: "u8 \<Rightarrow> char" where
  "char_of_byte b = char_of (unat b)"

definition bytes_of :: "string \<Rightarrow> bytes" where
  "bytes_of s = map byte_of s"

definition string_of :: "bytes \<Rightarrow> string" where
  "string_of bs = map char_of_byte bs"

lemma unat_byte_of: "unat (byte_of c) = of_char c"
  by (simp add: byte_of_def unat_of_nat)

lemma char_of_byte_of [simp]: "char_of_byte (byte_of c) = c"
  by (simp add: char_of_byte_def unat_byte_of)

lemma byte_of_char_of [simp]: "byte_of (char_of_byte b) = b"
proof -
  have "unat b < 256" using unsigned_less [of b, where ?'a = nat] by simp
  then show ?thesis by (simp add: char_of_byte_def byte_of_def)
qed

lemma string_of_bytes_of [simp]: "string_of (bytes_of s) = s"
  by (simp add: string_of_def bytes_of_def comp_def)

lemma bytes_of_string_of [simp]: "bytes_of (string_of s) = s"
  by (simp add: string_of_def bytes_of_def comp_def)

lemma length_bytes_of [simp]: "length (bytes_of s) = length s"
  by (simp add: bytes_of_def)

lemma bytes_of_append [simp]: "bytes_of (s @ t) = bytes_of s @ bytes_of t"
  by (simp add: bytes_of_def)

lemma bytes_of_Nil [simp]: "bytes_of [] = []"
  by (simp add: bytes_of_def)

lemma bytes_of_inj [simp]: "bytes_of s = bytes_of t \<longleftrightarrow> s = t"
  by (metis string_of_bytes_of)

end
