(* ===== verification/Status.thy ===== *)
theory Status
  imports Prelude
begin

text \<open>
  The typed outcomes of \<^verbatim>\<open>include/cif/status.hpp\<close> and
  \<^verbatim>\<open>src/status.cpp\<close>: the status code of an operation, the outcome of an
  authority decision, the typed reasons of a decision, the outcome each reason
  stands for, and the \<^verbatim>\<open>Status\<close> value every fallible operation returns.
  The enumerators keep their order, because their ordinals are what the canonical
  encodings write.
\<close>

section \<open>Enumerations\<close>

datatype status_code =
    ScOk
  | ScInvalidArgument
  | ScNotFound
  | ScAlreadyExists
  | ScDuplicateIdentity
  | ScCapacityExhausted
  | ScLimitExceeded
  | ScIntegrityFailure
  | ScCorruption
  | ScTruncated
  | ScVersionMismatch
  | ScIoFailure
  | ScUnsupported
  | ScConflict
  | ScStateMismatch
  | ScFenced
  | ScCancelled
  | ScIndeterminate
  | ScBusy
  | ScBackpressure
  | ScClosed
  | ScTimeout
  | ScRemoteError
  | ScInternal

datatype authority_outcome =
    OutGranted
  | OutDegraded
  | OutRefused
  | OutFenced
  | OutStale
  | OutConflicting
  | OutIncomplete
  | OutIndeterminate
  | OutUnknown
  | OutUnsupported
  | OutCancelled
  | OutInvalid

datatype (plugins only: size code) reason_code =
    RcNone
  | RcClusterNotFound
  | RcClusterGenerationStale
  | RcClusterGenerationAhead
  | RcPolicyGenerationStale
  | RcEpochStale
  | RcEpochAhead
  | RcIncarnationStale
  | RcIncarnationUnknown
  | RcMemberNotFound
  | RcMemberDeleted
  | RcMemberNotActive
  | RcMemberDraining
  | RcMemberMaintenance
  | RcMemberFaulted
  | RcMemberPartitioned
  | RcMemberGenerationStale
  | RcMemberGenerationAhead
  | RcMemberDigestMismatch
  | RcMemberDigestMissing
  | RcMemberDomainUnknown
  | RcMemberDomainMismatch
  | RcEndpointNotFound
  | RcServiceGroupNotFound
  | RcServiceGroupNotServed
  | RcPathNotFound
  | RcPathGenerationStale
  | RcPathNotOperational
  | RcPathAlreadyBound
  | RcNoEligiblePath
  | RcResourceNotFound
  | RcReservationGenerationStale
  | RcReservationGenerationMissing
  | RcCapacityExhausted
  | RcCapacityInsufficient
  | RcCapacityOverCommitted
  | RcCapacityAccountedToOtherGrant
  | RcContractNotFound
  | RcContractGenerationStale
  | RcContractUnsatisfied
  | RcLocalityConstraintViolated
  | RcFailureDomainConflict
  | RcMaintenanceExclusionActive
  | RcGrantNotFound
  | RcGrantAlreadyActive
  | RcGrantAlreadyReleased
  | RcGrantExpired
  | RcGrantFenced
  | RcLeaseExpired
  | RcLeaseUnknown
  | RcAttemptUnknown
  | RcAttemptAlreadyCommitted
  | RcAttemptAlreadyReleased
  | RcAttemptCancelled
  | RcAttemptConflict
  | RcAttemptMismatch
  | RcCommitAmbiguous
  | RcCommitIndeterminate
  | RcCommitDurable
  | RcCommitNotDurable
  | RcRecoveredHistoricalState
  | RcRecoveryTruncatedJournal
  | RcRecoveryIntegrityFailure
  | RcControllerRestarted
  | RcUnsupportedCapability
  | RcHardwareSemanticsUnsupported
  | RcInterClusterUnsupported
  | RcProtocolVersionUnsupported
  | RcMalformedRequest
  | RcLimitExceeded
  | RcArithmeticOverflow
  | RcReservedIdentity
  | RcDegradedByMemberState
  | RcDegradedByCapacity
  | RcDegradedByLocality
  | RcDegradedByMaintenance
  | RcDegradedByRedundancyLoss

text \<open>The enumerators in declaration order; an enumerator's ordinal is its position.\<close>

definition authority_outcomes :: "authority_outcome list" where
  "authority_outcomes = [OutGranted, OutDegraded, OutRefused, OutFenced, OutStale, OutConflicting, OutIncomplete, OutIndeterminate, OutUnknown, OutUnsupported, OutCancelled, OutInvalid]"

definition reason_codes :: "reason_code list" where
  "reason_codes = [
    RcNone, RcClusterNotFound, RcClusterGenerationStale, RcClusterGenerationAhead,
    RcPolicyGenerationStale, RcEpochStale, RcEpochAhead, RcIncarnationStale,
    RcIncarnationUnknown, RcMemberNotFound, RcMemberDeleted, RcMemberNotActive,
    RcMemberDraining, RcMemberMaintenance, RcMemberFaulted, RcMemberPartitioned,
    RcMemberGenerationStale, RcMemberGenerationAhead, RcMemberDigestMismatch,
    RcMemberDigestMissing, RcMemberDomainUnknown, RcMemberDomainMismatch, RcEndpointNotFound,
    RcServiceGroupNotFound, RcServiceGroupNotServed, RcPathNotFound, RcPathGenerationStale,
    RcPathNotOperational, RcPathAlreadyBound, RcNoEligiblePath, RcResourceNotFound,
    RcReservationGenerationStale, RcReservationGenerationMissing, RcCapacityExhausted,
    RcCapacityInsufficient, RcCapacityOverCommitted, RcCapacityAccountedToOtherGrant,
    RcContractNotFound, RcContractGenerationStale, RcContractUnsatisfied,
    RcLocalityConstraintViolated, RcFailureDomainConflict, RcMaintenanceExclusionActive,
    RcGrantNotFound, RcGrantAlreadyActive, RcGrantAlreadyReleased, RcGrantExpired,
    RcGrantFenced, RcLeaseExpired, RcLeaseUnknown, RcAttemptUnknown, RcAttemptAlreadyCommitted,
    RcAttemptAlreadyReleased, RcAttemptCancelled, RcAttemptConflict, RcAttemptMismatch,
    RcCommitAmbiguous, RcCommitIndeterminate, RcCommitDurable, RcCommitNotDurable,
    RcRecoveredHistoricalState, RcRecoveryTruncatedJournal, RcRecoveryIntegrityFailure,
    RcControllerRestarted, RcUnsupportedCapability, RcHardwareSemanticsUnsupported,
    RcInterClusterUnsupported, RcProtocolVersionUnsupported, RcMalformedRequest,
    RcLimitExceeded, RcArithmeticOverflow, RcReservedIdentity, RcDegradedByMemberState,
    RcDegradedByCapacity, RcDegradedByLocality, RcDegradedByMaintenance,
    RcDegradedByRedundancyLoss]"

section \<open>Names and classification\<close>

primrec status_code_to_string :: "status_code \<Rightarrow> string" where
  "status_code_to_string ScOk = ''OK''"
| "status_code_to_string ScInvalidArgument = ''INVALID_ARGUMENT''"
| "status_code_to_string ScNotFound = ''NOT_FOUND''"
| "status_code_to_string ScAlreadyExists = ''ALREADY_EXISTS''"
| "status_code_to_string ScDuplicateIdentity = ''DUPLICATE_IDENTITY''"
| "status_code_to_string ScCapacityExhausted = ''CAPACITY_EXHAUSTED''"
| "status_code_to_string ScLimitExceeded = ''LIMIT_EXCEEDED''"
| "status_code_to_string ScIntegrityFailure = ''INTEGRITY_FAILURE''"
| "status_code_to_string ScCorruption = ''CORRUPTION''"
| "status_code_to_string ScTruncated = ''TRUNCATED''"
| "status_code_to_string ScVersionMismatch = ''VERSION_MISMATCH''"
| "status_code_to_string ScIoFailure = ''IO_FAILURE''"
| "status_code_to_string ScUnsupported = ''UNSUPPORTED''"
| "status_code_to_string ScConflict = ''CONFLICT''"
| "status_code_to_string ScStateMismatch = ''STATE_MISMATCH''"
| "status_code_to_string ScFenced = ''FENCED''"
| "status_code_to_string ScCancelled = ''CANCELLED''"
| "status_code_to_string ScIndeterminate = ''INDETERMINATE''"
| "status_code_to_string ScBusy = ''BUSY''"
| "status_code_to_string ScBackpressure = ''BACKPRESSURE''"
| "status_code_to_string ScClosed = ''CLOSED''"
| "status_code_to_string ScTimeout = ''TIMEOUT''"
| "status_code_to_string ScRemoteError = ''REMOTE_ERROR''"
| "status_code_to_string ScInternal = ''INTERNAL''"

primrec outcome_to_string :: "authority_outcome \<Rightarrow> string" where
  "outcome_to_string OutGranted = ''GRANTED''"
| "outcome_to_string OutDegraded = ''DEGRADED''"
| "outcome_to_string OutRefused = ''REFUSED''"
| "outcome_to_string OutFenced = ''FENCED''"
| "outcome_to_string OutStale = ''STALE''"
| "outcome_to_string OutConflicting = ''CONFLICTING''"
| "outcome_to_string OutIncomplete = ''INCOMPLETE''"
| "outcome_to_string OutIndeterminate = ''INDETERMINATE''"
| "outcome_to_string OutUnknown = ''UNKNOWN''"
| "outcome_to_string OutUnsupported = ''UNSUPPORTED''"
| "outcome_to_string OutCancelled = ''CANCELLED''"
| "outcome_to_string OutInvalid = ''INVALID''"

primrec reason_code_to_string :: "reason_code \<Rightarrow> string" where
  "reason_code_to_string RcNone = ''NONE''"
| "reason_code_to_string RcClusterNotFound = ''CLUSTER_NOT_FOUND''"
| "reason_code_to_string RcClusterGenerationStale = ''CLUSTER_GENERATION_STALE''"
| "reason_code_to_string RcClusterGenerationAhead = ''CLUSTER_GENERATION_AHEAD''"
| "reason_code_to_string RcPolicyGenerationStale = ''POLICY_GENERATION_STALE''"
| "reason_code_to_string RcEpochStale = ''EPOCH_STALE''"
| "reason_code_to_string RcEpochAhead = ''EPOCH_AHEAD''"
| "reason_code_to_string RcIncarnationStale = ''INCARNATION_STALE''"
| "reason_code_to_string RcIncarnationUnknown = ''INCARNATION_UNKNOWN''"
| "reason_code_to_string RcMemberNotFound = ''MEMBER_NOT_FOUND''"
| "reason_code_to_string RcMemberDeleted = ''MEMBER_DELETED''"
| "reason_code_to_string RcMemberNotActive = ''MEMBER_NOT_ACTIVE''"
| "reason_code_to_string RcMemberDraining = ''MEMBER_DRAINING''"
| "reason_code_to_string RcMemberMaintenance = ''MEMBER_MAINTENANCE''"
| "reason_code_to_string RcMemberFaulted = ''MEMBER_FAULTED''"
| "reason_code_to_string RcMemberPartitioned = ''MEMBER_PARTITIONED''"
| "reason_code_to_string RcMemberGenerationStale = ''MEMBER_GENERATION_STALE''"
| "reason_code_to_string RcMemberGenerationAhead = ''MEMBER_GENERATION_AHEAD''"
| "reason_code_to_string RcMemberDigestMismatch = ''MEMBER_DIGEST_MISMATCH''"
| "reason_code_to_string RcMemberDigestMissing = ''MEMBER_DIGEST_MISSING''"
| "reason_code_to_string RcMemberDomainUnknown = ''MEMBER_DOMAIN_UNKNOWN''"
| "reason_code_to_string RcMemberDomainMismatch = ''MEMBER_DOMAIN_MISMATCH''"
| "reason_code_to_string RcEndpointNotFound = ''ENDPOINT_NOT_FOUND''"
| "reason_code_to_string RcServiceGroupNotFound = ''SERVICE_GROUP_NOT_FOUND''"
| "reason_code_to_string RcServiceGroupNotServed = ''SERVICE_GROUP_NOT_SERVED''"
| "reason_code_to_string RcPathNotFound = ''PATH_NOT_FOUND''"
| "reason_code_to_string RcPathGenerationStale = ''PATH_GENERATION_STALE''"
| "reason_code_to_string RcPathNotOperational = ''PATH_NOT_OPERATIONAL''"
| "reason_code_to_string RcPathAlreadyBound = ''PATH_ALREADY_BOUND''"
| "reason_code_to_string RcNoEligiblePath = ''NO_ELIGIBLE_PATH''"
| "reason_code_to_string RcResourceNotFound = ''RESOURCE_NOT_FOUND''"
| "reason_code_to_string RcReservationGenerationStale = ''RESERVATION_GENERATION_STALE''"
| "reason_code_to_string RcReservationGenerationMissing = ''RESERVATION_GENERATION_MISSING''"
| "reason_code_to_string RcCapacityExhausted = ''CAPACITY_EXHAUSTED''"
| "reason_code_to_string RcCapacityInsufficient = ''CAPACITY_INSUFFICIENT''"
| "reason_code_to_string RcCapacityOverCommitted = ''CAPACITY_OVER_COMMITTED''"
| "reason_code_to_string RcCapacityAccountedToOtherGrant = ''CAPACITY_ACCOUNTED_TO_OTHER_GRANT''"
| "reason_code_to_string RcContractNotFound = ''CONTRACT_NOT_FOUND''"
| "reason_code_to_string RcContractGenerationStale = ''CONTRACT_GENERATION_STALE''"
| "reason_code_to_string RcContractUnsatisfied = ''CONTRACT_UNSATISFIED''"
| "reason_code_to_string RcLocalityConstraintViolated = ''LOCALITY_CONSTRAINT_VIOLATED''"
| "reason_code_to_string RcFailureDomainConflict = ''FAILURE_DOMAIN_CONFLICT''"
| "reason_code_to_string RcMaintenanceExclusionActive = ''MAINTENANCE_EXCLUSION_ACTIVE''"
| "reason_code_to_string RcGrantNotFound = ''GRANT_NOT_FOUND''"
| "reason_code_to_string RcGrantAlreadyActive = ''GRANT_ALREADY_ACTIVE''"
| "reason_code_to_string RcGrantAlreadyReleased = ''GRANT_ALREADY_RELEASED''"
| "reason_code_to_string RcGrantExpired = ''GRANT_EXPIRED''"
| "reason_code_to_string RcGrantFenced = ''GRANT_FENCED''"
| "reason_code_to_string RcLeaseExpired = ''LEASE_EXPIRED''"
| "reason_code_to_string RcLeaseUnknown = ''LEASE_UNKNOWN''"
| "reason_code_to_string RcAttemptUnknown = ''ATTEMPT_UNKNOWN''"
| "reason_code_to_string RcAttemptAlreadyCommitted = ''ATTEMPT_ALREADY_COMMITTED''"
| "reason_code_to_string RcAttemptAlreadyReleased = ''ATTEMPT_ALREADY_RELEASED''"
| "reason_code_to_string RcAttemptCancelled = ''ATTEMPT_CANCELLED''"
| "reason_code_to_string RcAttemptConflict = ''ATTEMPT_CONFLICT''"
| "reason_code_to_string RcAttemptMismatch = ''ATTEMPT_MISMATCH''"
| "reason_code_to_string RcCommitAmbiguous = ''COMMIT_AMBIGUOUS''"
| "reason_code_to_string RcCommitIndeterminate = ''COMMIT_INDETERMINATE''"
| "reason_code_to_string RcCommitDurable = ''COMMIT_DURABLE''"
| "reason_code_to_string RcCommitNotDurable = ''COMMIT_NOT_DURABLE''"
| "reason_code_to_string RcRecoveredHistoricalState = ''RECOVERED_HISTORICAL_STATE''"
| "reason_code_to_string RcRecoveryTruncatedJournal = ''RECOVERY_TRUNCATED_JOURNAL''"
| "reason_code_to_string RcRecoveryIntegrityFailure = ''RECOVERY_INTEGRITY_FAILURE''"
| "reason_code_to_string RcControllerRestarted = ''CONTROLLER_RESTARTED''"
| "reason_code_to_string RcUnsupportedCapability = ''UNSUPPORTED_CAPABILITY''"
| "reason_code_to_string RcHardwareSemanticsUnsupported = ''HARDWARE_SEMANTICS_UNSUPPORTED''"
| "reason_code_to_string RcInterClusterUnsupported = ''INTER_CLUSTER_UNSUPPORTED''"
| "reason_code_to_string RcProtocolVersionUnsupported = ''PROTOCOL_VERSION_UNSUPPORTED''"
| "reason_code_to_string RcMalformedRequest = ''MALFORMED_REQUEST''"
| "reason_code_to_string RcLimitExceeded = ''LIMIT_EXCEEDED''"
| "reason_code_to_string RcArithmeticOverflow = ''ARITHMETIC_OVERFLOW''"
| "reason_code_to_string RcReservedIdentity = ''RESERVED_IDENTITY''"
| "reason_code_to_string RcDegradedByMemberState = ''DEGRADED_BY_MEMBER_STATE''"
| "reason_code_to_string RcDegradedByCapacity = ''DEGRADED_BY_CAPACITY''"
| "reason_code_to_string RcDegradedByLocality = ''DEGRADED_BY_LOCALITY''"
| "reason_code_to_string RcDegradedByMaintenance = ''DEGRADED_BY_MAINTENANCE''"
| "reason_code_to_string RcDegradedByRedundancyLoss = ''DEGRADED_BY_REDUNDANCY_LOSS''"

definition is_authoritative :: "authority_outcome \<Rightarrow> bool" where
  "is_authoritative oc = (oc = OutGranted \<or> oc = OutDegraded)"

fun is_retryable :: "authority_outcome \<Rightarrow> bool" where
  "is_retryable OutDegraded = True"
| "is_retryable OutStale = True"
| "is_retryable OutConflicting = True"
| "is_retryable OutIncomplete = True"
| "is_retryable OutIndeterminate = True"
| "is_retryable OutRefused = True"
| "is_retryable _ = False"

primrec default_outcome_for :: "reason_code \<Rightarrow> authority_outcome" where
  "default_outcome_for RcNone = OutGranted"
| "default_outcome_for RcClusterNotFound = OutUnknown"
| "default_outcome_for RcClusterGenerationStale = OutStale"
| "default_outcome_for RcClusterGenerationAhead = OutInvalid"
| "default_outcome_for RcPolicyGenerationStale = OutStale"
| "default_outcome_for RcEpochStale = OutFenced"
| "default_outcome_for RcEpochAhead = OutInvalid"
| "default_outcome_for RcIncarnationStale = OutFenced"
| "default_outcome_for RcIncarnationUnknown = OutUnknown"
| "default_outcome_for RcMemberNotFound = OutUnknown"
| "default_outcome_for RcMemberDeleted = OutStale"
| "default_outcome_for RcMemberNotActive = OutRefused"
| "default_outcome_for RcMemberDraining = OutRefused"
| "default_outcome_for RcMemberMaintenance = OutRefused"
| "default_outcome_for RcMemberFaulted = OutRefused"
| "default_outcome_for RcMemberPartitioned = OutRefused"
| "default_outcome_for RcMemberGenerationStale = OutStale"
| "default_outcome_for RcMemberGenerationAhead = OutFenced"
| "default_outcome_for RcMemberDigestMismatch = OutFenced"
| "default_outcome_for RcMemberDigestMissing = OutIncomplete"
| "default_outcome_for RcMemberDomainUnknown = OutUnknown"
| "default_outcome_for RcMemberDomainMismatch = OutRefused"
| "default_outcome_for RcEndpointNotFound = OutUnknown"
| "default_outcome_for RcServiceGroupNotFound = OutUnknown"
| "default_outcome_for RcServiceGroupNotServed = OutRefused"
| "default_outcome_for RcPathNotFound = OutUnknown"
| "default_outcome_for RcPathGenerationStale = OutStale"
| "default_outcome_for RcPathNotOperational = OutRefused"
| "default_outcome_for RcPathAlreadyBound = OutConflicting"
| "default_outcome_for RcNoEligiblePath = OutRefused"
| "default_outcome_for RcResourceNotFound = OutUnknown"
| "default_outcome_for RcReservationGenerationStale = OutStale"
| "default_outcome_for RcReservationGenerationMissing = OutIncomplete"
| "default_outcome_for RcCapacityExhausted = OutRefused"
| "default_outcome_for RcCapacityInsufficient = OutRefused"
| "default_outcome_for RcCapacityOverCommitted = OutRefused"
| "default_outcome_for RcCapacityAccountedToOtherGrant = OutConflicting"
| "default_outcome_for RcContractNotFound = OutUnknown"
| "default_outcome_for RcContractGenerationStale = OutStale"
| "default_outcome_for RcContractUnsatisfied = OutRefused"
| "default_outcome_for RcLocalityConstraintViolated = OutRefused"
| "default_outcome_for RcFailureDomainConflict = OutConflicting"
| "default_outcome_for RcMaintenanceExclusionActive = OutRefused"
| "default_outcome_for RcGrantNotFound = OutUnknown"
| "default_outcome_for RcGrantAlreadyActive = OutConflicting"
| "default_outcome_for RcGrantAlreadyReleased = OutRefused"
| "default_outcome_for RcGrantExpired = OutRefused"
| "default_outcome_for RcGrantFenced = OutFenced"
| "default_outcome_for RcLeaseExpired = OutRefused"
| "default_outcome_for RcLeaseUnknown = OutUnknown"
| "default_outcome_for RcAttemptUnknown = OutUnknown"
| "default_outcome_for RcAttemptAlreadyCommitted = OutRefused"
| "default_outcome_for RcAttemptAlreadyReleased = OutRefused"
| "default_outcome_for RcAttemptCancelled = OutCancelled"
| "default_outcome_for RcAttemptConflict = OutConflicting"
| "default_outcome_for RcAttemptMismatch = OutRefused"
| "default_outcome_for RcCommitAmbiguous = OutIndeterminate"
| "default_outcome_for RcCommitIndeterminate = OutIndeterminate"
| "default_outcome_for RcCommitDurable = OutGranted"
| "default_outcome_for RcCommitNotDurable = OutRefused"
| "default_outcome_for RcRecoveredHistoricalState = OutStale"
| "default_outcome_for RcRecoveryTruncatedJournal = OutRefused"
| "default_outcome_for RcRecoveryIntegrityFailure = OutRefused"
| "default_outcome_for RcControllerRestarted = OutStale"
| "default_outcome_for RcUnsupportedCapability = OutUnsupported"
| "default_outcome_for RcHardwareSemanticsUnsupported = OutUnsupported"
| "default_outcome_for RcInterClusterUnsupported = OutUnsupported"
| "default_outcome_for RcProtocolVersionUnsupported = OutUnsupported"
| "default_outcome_for RcMalformedRequest = OutInvalid"
| "default_outcome_for RcLimitExceeded = OutInvalid"
| "default_outcome_for RcArithmeticOverflow = OutInvalid"
| "default_outcome_for RcReservedIdentity = OutRefused"
| "default_outcome_for RcDegradedByMemberState = OutDegraded"
| "default_outcome_for RcDegradedByCapacity = OutDegraded"
| "default_outcome_for RcDegradedByLocality = OutDegraded"
| "default_outcome_for RcDegradedByMaintenance = OutDegraded"
| "default_outcome_for RcDegradedByRedundancyLoss = OutDegraded"

section \<open>Reasons and statuses\<close>

record reason =
  rs_code :: reason_code
  rs_detail :: string

definition reason_empty :: "reason \<Rightarrow> bool" where
  "reason_empty r = (rs_code r = RcNone)"

definition reason_to_string :: "reason \<Rightarrow> string" where
  "reason_to_string r =
     reason_code_to_string (rs_code r) @ (if rs_detail r = [] then [] else '': '' @ rs_detail r)"

record status =
  st_code :: status_code
  st_message :: string

definition success :: status where
  "success = \<lparr>st_code = ScOk, st_message = []\<rparr>"

definition status_error :: "status_code \<Rightarrow> string \<Rightarrow> status" where
  "status_error c m = \<lparr>st_code = c, st_message = m\<rparr>"

definition ok :: "status \<Rightarrow> bool" where
  "ok s = (st_code s = ScOk)"

definition status_to_string :: "status \<Rightarrow> string" where
  "status_to_string s =
     (if ok s then ''OK''
      else status_code_to_string (st_code s) @ (if st_message s = [] then [] else '': '' @ st_message s))"

text \<open>
  \<^verbatim>\<open>CIF_TRY\<close>: run a state-changing step; when its status is not ok the caller returns
  that status at once, with whatever the step has done to the state.
\<close>

definition cif_try :: "(status \<times> 's) \<Rightarrow> ('s \<Rightarrow> status \<times> 's) \<Rightarrow> status \<times> 's" where
  "cif_try m k = (case m of (st, s) \<Rightarrow> if ok st then k s else (st, s))"

lemma ok_success [simp]: "ok success"
  by (simp add: ok_def success_def)

lemma ok_status_error [simp]: "ok (status_error c m) = (c = ScOk)"
  by (simp add: ok_def status_error_def)

lemma st_code_status_error [simp]: "st_code (status_error c m) = c"
  by (simp add: status_error_def)

lemma cif_try_ok [simp]: "ok st \<Longrightarrow> cif_try (st, s) k = k s"
  by (simp add: cif_try_def)

lemma cif_try_fail [simp]: "\<not> ok st \<Longrightarrow> cif_try (st, s) k = (st, s)"
  by (simp add: cif_try_def)

lemma cif_try_okE:
  assumes "cif_try m k = (st, s')" "ok st"
  obtains st0 s0 where "m = (st0, s0)" "ok st0" "k s0 = (st, s')"
  using assms by (cases m) (auto simp: cif_try_def split: if_splits)

text \<open>A step that keeps a relation between the state before and after composes under \<open>cif_try\<close>.\<close>

lemma cif_try_rel:
  assumes "snd m = s0 \<Longrightarrow> R s s0" "\<And>s1. R s s1 \<Longrightarrow> R s (snd (k s1))"
  shows "snd m = s0 \<Longrightarrow> R s (snd (cif_try m k))"
  using assms by (cases m) (auto simp: cif_try_def)

lemma distinct_reason_codes: "distinct reason_codes"
  by (simp add: reason_codes_def)

lemma reason_codes_complete: "r \<in> set reason_codes"
  by (cases r) (simp_all add: reason_codes_def)

lemma distinct_authority_outcomes: "distinct authority_outcomes"
  by (simp add: authority_outcomes_def)

lemma authority_outcomes_complete: "r \<in> set authority_outcomes"
  by (cases r) (simp_all add: authority_outcomes_def)

definition reason_ordinal :: "reason_code \<Rightarrow> nat" where
  "reason_ordinal = ordinal reason_codes"

definition outcome_ordinal :: "authority_outcome \<Rightarrow> nat" where
  "outcome_ordinal = ordinal authority_outcomes"

end
