(* ===== verification/Text.thy ===== *)
theory Text
  imports Status
begin

text \<open>
  Text handling (\<^verbatim>\<open>src/text.cpp\<close>) and the size limits (\<^verbatim>\<open>include/cif/limits.hpp\<close>):
  the UTF-8 validator, the identifier grammar, the display sanitiser and the decimal
  printer and parser that identifiers are minted and recovered with.
  \<^verbatim>\<open>is_finite\<close> and \<^verbatim>\<open>format_fixed3\<close> work on doubles and are not modelled.
\<close>

unbundle bit_operations_syntax

section \<open>Limits\<close>

definition kMaxIdentifierBytes :: nat where "kMaxIdentifierBytes = 128"
definition kMaxNoteBytes :: nat where "kMaxNoteBytes = 512"
definition kMaxLocalityDepth :: nat where "kMaxLocalityDepth = 16"
definition kMaxReasonDetailBytes :: nat where "kMaxReasonDetailBytes = 256"
definition kMaxReasons :: nat where "kMaxReasons = 24"
definition kMaxMembers :: nat where "kMaxMembers = 4096"
definition kMaxEndpointsPerMember :: nat where "kMaxEndpointsPerMember = 256"
definition kMaxServicesPerMember :: nat where "kMaxServicesPerMember = 256"
definition kMaxResourcesPerMember :: nat where "kMaxResourcesPerMember = 256"
definition kMaxPaths :: nat where "kMaxPaths = 16384"
definition kMaxResourcesPerPath :: nat where "kMaxResourcesPerPath = 16"
definition kMaxExclusions :: nat where "kMaxExclusions = 1024"
definition kMaxExclusionMembers :: nat where "kMaxExclusionMembers = 512"
definition kMaxObligations :: nat where "kMaxObligations = 1024"
definition kMaxContracts :: nat where "kMaxContracts = 4096"
definition kMaxRequiredCapabilities :: nat where "kMaxRequiredCapabilities = 8"
definition kMaxGrants :: nat where "kMaxGrants = 65536"
definition kMaxAttempts :: nat where "kMaxAttempts = 65536"
definition kMaxCapacityUnits :: u64 where "kMaxCapacityUnits = 2 ^ 40"
definition kMaxLeaseTicks :: u64 where "kMaxLeaseTicks = 2 ^ 32"
definition kMaxRequestedUnits :: u64 where "kMaxRequestedUnits = kMaxCapacityUnits"
definition kMaxJournalRecordBytes :: nat where "kMaxJournalRecordBytes = 2 ^ 20"
definition kMaxJournalBytes :: nat where "kMaxJournalBytes = 64 * 2 ^ 20"
definition kMaxJournalRecords :: u64 where "kMaxJournalRecords = 2 ^ 20"

lemmas limit_defs = kMaxIdentifierBytes_def kMaxNoteBytes_def kMaxLocalityDepth_def
  kMaxReasonDetailBytes_def kMaxReasons_def kMaxMembers_def kMaxEndpointsPerMember_def
  kMaxServicesPerMember_def kMaxResourcesPerMember_def kMaxPaths_def kMaxResourcesPerPath_def
  kMaxExclusions_def kMaxExclusionMembers_def kMaxObligations_def kMaxContracts_def
  kMaxRequiredCapabilities_def kMaxGrants_def kMaxAttempts_def kMaxCapacityUnits_def
  kMaxLeaseTicks_def kMaxRequestedUnits_def kMaxJournalRecordBytes_def kMaxJournalBytes_def
  kMaxJournalRecords_def

section \<open>UTF-8\<close>

text \<open>One scalar at position \<open>i\<close>: the number of bytes consumed (0 when malformed) and the code point.\<close>

definition decode_scalar :: "bytes \<Rightarrow> nat \<Rightarrow> nat \<times> u32" where
  "decode_scalar t i = (
     let byte = (\<lambda>k. ucast (t ! k) :: u32);
         b0 = byte i in
     if b0 < 0x80 then (1, b0)
     else if 0xC2 \<le> b0 \<and> b0 \<le> 0xDF then
       (if i + 1 \<ge> length t then (0, 0)
        else let b1 = byte (i + 1) in
          if (b1 AND 0xC0) \<noteq> 0x80 then (0, 0)
          else (2, push_bit 6 (b0 AND 0x1F) OR (b1 AND 0x3F)))
     else if 0xE0 \<le> b0 \<and> b0 \<le> 0xEF then
       (if i + 2 \<ge> length t then (0, 0)
        else let b1 = byte (i + 1); b2 = byte (i + 2) in
          if (b1 AND 0xC0) \<noteq> 0x80 \<or> (b2 AND 0xC0) \<noteq> 0x80 then (0, 0)
          else if b0 = 0xE0 \<and> b1 < 0xA0 then (0, 0)
          else if b0 = 0xED \<and> b1 \<ge> 0xA0 then (0, 0)
          else (3, push_bit 12 (b0 AND 0x0F) OR push_bit 6 (b1 AND 0x3F) OR (b2 AND 0x3F)))
     else if 0xF0 \<le> b0 \<and> b0 \<le> 0xF4 then
       (if i + 3 \<ge> length t then (0, 0)
        else let b1 = byte (i + 1); b2 = byte (i + 2); b3 = byte (i + 3) in
          if (b1 AND 0xC0) \<noteq> 0x80 \<or> (b2 AND 0xC0) \<noteq> 0x80 \<or> (b3 AND 0xC0) \<noteq> 0x80 then (0, 0)
          else if b0 = 0xF0 \<and> b1 < 0x90 then (0, 0)
          else if b0 = 0xF4 \<and> b1 > 0x8F then (0, 0)
          else (4, push_bit 18 (b0 AND 0x07) OR push_bit 12 (b1 AND 0x3F)
                   OR push_bit 6 (b2 AND 0x3F) OR (b3 AND 0x3F)))
     else (0, 0))"

function utf8_from :: "bytes \<Rightarrow> nat \<Rightarrow> bool" where
  "utf8_from t i =
     (if i < length t then
        (case decode_scalar t i of (consumed, cp) \<Rightarrow>
           if consumed = 0 then False
           else if cp = 0 then False
           else utf8_from t (i + consumed))
      else True)"
  by pat_completeness auto
termination
  by (relation "measure (\<lambda>(t, i). length t - i)") auto

declare utf8_from.simps [simp del]

definition is_valid_utf8 :: "string \<Rightarrow> bool" where
  "is_valid_utf8 s = utf8_from (bytes_of s) 0"

definition contains_nul :: "string \<Rightarrow> bool" where
  "contains_nul s = (CHR 0x00 \<in> set s)"

section \<open>Identifiers and display\<close>

definition identifier_char :: "char \<Rightarrow> bool" where
  "identifier_char c =
     ((CHR ''A'' \<le> c \<and> c \<le> CHR ''Z'') \<or> (CHR ''a'' \<le> c \<and> c \<le> CHR ''z'') \<or> (CHR ''0'' \<le> c \<and> c \<le> CHR ''9'')
      \<or> c = CHR ''-'' \<or> c = CHR ''_'' \<or> c = CHR ''.'' \<or> c = CHR '':'' \<or> c = CHR ''@'' \<or> c = CHR ''+''
      \<or> c = CHR ''/'')"

definition is_valid_identifier :: "string \<Rightarrow> nat \<Rightarrow> bool" where
  "is_valid_identifier s max_len =
     (if s = [] \<or> length s > max_len then False else list_all identifier_char s)"

definition display_char :: "char \<Rightarrow> char" where
  "display_char raw =
     (let c = (of_char raw :: nat) in if c < 0x20 \<or> c = 0x7F \<or> c \<ge> 0x80 then CHR ''?'' else raw)"

fun sanitise_loop :: "string \<Rightarrow> string \<Rightarrow> nat \<Rightarrow> string" where
  "sanitise_loop acc [] max_len = acc"
| "sanitise_loop acc (raw # rest) max_len =
     (if length acc \<ge> max_len then acc else sanitise_loop (acc @ [display_char raw]) rest max_len)"

definition sanitise_for_display :: "string \<Rightarrow> nat \<Rightarrow> string" where
  "sanitise_for_display s max_len = sanitise_loop [] s max_len"

section \<open>Decimal numbers\<close>

definition digit_char :: "nat \<Rightarrow> char" where
  "digit_char d = char_of (48 + d)"

definition is_digit :: "char \<Rightarrow> bool" where
  "is_digit c = (\<not> (c < CHR ''0'' \<or> c > CHR ''9''))"

definition digit_value :: "char \<Rightarrow> u64" where
  "digit_value c = of_nat (of_char c - 48)"

text \<open>The buffer is filled from its end: \<open>acc\<close> is \<^verbatim>\<open>buffer[pos..]\<close>.\<close>

function decimal_loop :: "u64 \<Rightarrow> string \<Rightarrow> string" where
  "decimal_loop value acc =
     (if value = 0 then acc
      else decimal_loop (value div 10) (digit_char (unat (value mod 10)) # acc))"
  by pat_completeness auto
termination
proof (relation "measure (\<lambda>(v, acc). unat v)")
  fix v :: u64 and acc :: string
  assume "v \<noteq> 0"
  then have "unat v > 0" by (simp add: unat_gt_0)
  then show "((v div 10, digit_char (unat (v mod 10)) # acc), v, acc)
      \<in> measure (\<lambda>(v, acc). unat v)"
    by (simp add: unat_div)
qed simp

declare decimal_loop.simps [simp del]

definition to_decimal :: "u64 \<Rightarrow> string" where
  "to_decimal value = (if value = 0 then ''0'' else decimal_loop value [])"

fun parse_loop :: "string \<Rightarrow> u64 \<Rightarrow> u64 option" where
  "parse_loop [] value = Some value"
| "parse_loop (c # cs) value =
     (if \<not> is_digit c then None
      else let digit = digit_value c in
        if value > (u64_max - digit) div 10 then None
        else parse_loop cs (value * 10 + digit))"

definition parse_decimal_u64 :: "string \<Rightarrow> u64 option" where
  "parse_decimal_u64 s =
     (if s = [] \<or> length s > 20 then None else parse_loop s 0)"

section \<open>Properties\<close>

text \<open>The value a digit string denotes, without any bound.\<close>

definition digits_value :: "string \<Rightarrow> nat \<Rightarrow> nat" where
  "digits_value cs a = foldl (\<lambda>v c. v * 10 + (of_char c - 48)) a cs"

lemma is_digit_iff: "is_digit c \<longleftrightarrow> (48::nat) \<le> of_char c \<and> (of_char c :: nat) \<le> 57"
  by (auto simp: is_digit_def less_char_def less_eq_char_def not_less)

lemma digit_value_unat: "is_digit c \<Longrightarrow> unat (digit_value c) = of_char c - 48"
  unfolding digit_value_def is_digit_iff
  by (subst unat_of_nat, subst mod_less) auto

lemma digits_value_mono: "a \<le> digits_value cs a"
proof (induction cs arbitrary: a)
  case (Cons c cs)
  have "a \<le> a * 10 + (of_char c - 48)" by simp
  also have "\<dots> \<le> digits_value cs (a * 10 + (of_char c - 48))" by (rule Cons.IH)
  finally show ?case by (simp add: digits_value_def)
qed (simp add: digits_value_def)

lemma unat_u64_max: "unat u64_max = 2 ^ 64 - 1"
  by (simp add: unsigned_minus_1_eq_mask mask_eq_exp_minus_1)

lemma step_overflow_iff:
  fixes v d :: u64
  assumes "unat d \<le> 9"
  shows "v > (u64_max - d) div 10 \<longleftrightarrow> unat v * 10 + unat d \<ge> (2 :: nat) ^ 64"
proof -
  have "unat (u64_max - d) = 2 ^ 64 - 1 - unat d"
    by (subst unat_sub) (simp_all add: unat_u64_max)
  then have "v > (u64_max - d) div 10 \<longleftrightarrow> (2 ^ 64 - 1 - unat d) div 10 < unat v"
    by (simp add: word_less_nat_alt unat_div)
  also have "\<dots> \<longleftrightarrow> unat v * 10 + unat d \<ge> 2 ^ 64"
    using assms by (auto simp: div_less_iff_less_mult)
  finally show ?thesis .
qed

lemma parse_loop_Some_iff:
  assumes "list_all is_digit cs"
  shows "parse_loop cs v =
    (if digits_value cs (unat v) < 2 ^ 64 then Some (of_nat (digits_value cs (unat v))) else None)"
  using assms
proof (induction cs arbitrary: v)
  case Nil
  show ?case using unsigned_less [of v, where ?'a = nat] by (simp add: digits_value_def)
next
  case (Cons c cs)
  have dig: "is_digit c" and rest: "list_all is_digit cs" using Cons.prems by auto
  have d9: "unat (digit_value c) \<le> 9" using dig by (auto simp: digit_value_unat is_digit_iff)
  have step: "digits_value (c # cs) (unat v) = digits_value cs (unat v * 10 + unat (digit_value c))"
    by (simp add: digits_value_def digit_value_unat [OF dig])
  show ?case
  proof (cases "unat v * 10 + unat (digit_value c) \<ge> 2 ^ 64")
    case True
    then have "\<not> digits_value (c # cs) (unat v) < 2 ^ 64"
      using digits_value_mono [of "unat v * 10 + unat (digit_value c)" cs] step by linarith
    then show ?thesis using dig True step_overflow_iff [OF d9] by (simp add: Let_def)
  next
    case False
    have "unat (v * 10 + digit_value c) = unat v * 10 + unat (digit_value c)"
      using False by (simp add: unat_word_ariths)
    then show ?thesis
      using dig False step_overflow_iff [OF d9] Cons.IH [OF rest] step by (simp add: Let_def)
  qed
qed

lemma parse_loop_bad: "\<not> list_all is_digit cs \<Longrightarrow> parse_loop cs v = None"
  by (induction cs arbitrary: v) (auto simp: Let_def)

lemma of_char_digit_char: "d \<le> 9 \<Longrightarrow> of_char (digit_char d) = (48 + d :: nat)"
  by (simp add: digit_char_def)

lemma is_digit_digit_char: "d \<le> 9 \<Longrightarrow> is_digit (digit_char d)"
  by (simp add: is_digit_iff of_char_digit_char)

lemma digits_value_Cons: "digits_value (c # cs) a = digits_value cs (a * 10 + (of_char c - 48))"
  by (simp add: digits_value_def)

lemma unat_mod10: "unat (v mod 10) = unat v mod 10" for v :: u64
  by (simp add: unat_mod)

lemma unat_div10: "unat (v div 10) = unat v div 10" for v :: u64
  by (simp add: unat_div)

lemma decimal_loop_value:
  "digits_value (decimal_loop v acc) 0 = digits_value acc (unat v)"
proof (induction v acc rule: decimal_loop.induct)
  case (1 v acc)
  show ?case
  proof (cases "v = 0")
    case True
    then show ?thesis by (simp add: decimal_loop.simps)
  next
    case False
    have d: "unat (v mod 10) \<le> 9" by (simp add: unat_mod10)
    have "digits_value (decimal_loop v acc) 0
        = digits_value (digit_char (unat (v mod 10)) # acc) (unat (v div 10))"
      by (subst decimal_loop.simps) (simp add: False "1.IH" [OF False])
    also have "\<dots> = digits_value acc (unat v div 10 * 10 + unat v mod 10)"
      using of_char_digit_char [OF d] by (simp add: digits_value_Cons unat_div10 unat_mod10)
    finally show ?thesis by simp
  qed
qed

lemma decimal_loop_digits: "list_all is_digit acc \<Longrightarrow> list_all is_digit (decimal_loop v acc)"
proof (induction v acc rule: decimal_loop.induct)
  case (1 v acc)
  have d: "unat (v mod 10) \<le> 9" by (simp add: unat_mod10)
  show ?case
    by (subst decimal_loop.simps) (simp add: "1.IH" "1.prems" is_digit_digit_char [OF d])
qed

lemma decimal_loop_length:
  "unat v < 10 ^ n \<Longrightarrow> length (decimal_loop v acc) \<le> n + length acc"
proof (induction n arbitrary: v acc)
  case 0
  then have "v = 0" by (simp add: unat_eq_zero)
  then show ?case by (simp add: decimal_loop.simps)
next
  case (Suc n)
  have "unat (v div 10) < 10 ^ n" using Suc.prems by (simp add: unat_div10 div_less_iff_less_mult mult.commute)
  from Suc.IH [OF this, of "digit_char (unat (v mod 10)) # acc"] show ?case
    by (subst decimal_loop.simps) simp
qed

lemma decimal_loop_nonempty: "v \<noteq> 0 \<or> acc \<noteq> [] \<Longrightarrow> decimal_loop v acc \<noteq> []"
proof (induction v acc rule: decimal_loop.induct)
  case (1 v acc)
  then show ?case by (subst decimal_loop.simps) auto
qed

lemma to_decimal_digits: "list_all is_digit (to_decimal v)"
  by (simp add: to_decimal_def decimal_loop_digits is_digit_def)

lemma to_decimal_nonempty: "to_decimal v \<noteq> []"
  by (simp add: to_decimal_def decimal_loop_nonempty)

lemma to_decimal_length: "length (to_decimal v) \<le> 20"
proof -
  have "unat v < 10 ^ 20" using unsigned_less [of v, where ?'a = nat] by simp
  from decimal_loop_length [OF this, of "[]"] show ?thesis by (simp add: to_decimal_def)
qed

lemma parse_to_decimal: "parse_decimal_u64 (to_decimal v) = Some v"
proof -
  have val: "digits_value (to_decimal v) 0 = unat v"
    by (auto simp: to_decimal_def decimal_loop_value) (simp_all add: digits_value_def)
  have "unat v < 2 ^ 64" using unsigned_less [of v, where ?'a = nat] by simp
  then show ?thesis
    using parse_loop_Some_iff [OF to_decimal_digits, of v 0] val to_decimal_nonempty [of v]
      to_decimal_length [of v]
    by (simp add: parse_decimal_u64_def)
qed

lemma to_decimal_inj: "to_decimal v = to_decimal w \<longleftrightarrow> v = w"
  by (metis option.inject parse_to_decimal)

lemma is_digit_identifier_char: "is_digit c \<Longrightarrow> identifier_char c"
  by (simp add: identifier_char_def is_digit_def not_less)

text \<open>C20. The decimal printer and parser agree on every 64-bit value, and the parser
  accepts exactly the digit strings of at most 20 characters that denote one: no wrap-around,
  and nothing but digits.\<close>

theorem parse_decimal_exact:
  "parse_decimal_u64 (to_decimal v) = Some v
   \<and> parse_decimal_u64 s =
       (if s \<noteq> [] \<and> length s \<le> 20 \<and> list_all is_digit s \<and> digits_value s 0 < 2 ^ 64
        then Some (of_nat (digits_value s 0)) else None)"
proof (cases "list_all is_digit s")
  case True
  then show ?thesis
    using parse_loop_Some_iff [OF True, of 0] parse_to_decimal [of v]
    by (simp add: parse_decimal_u64_def [of s])
next
  case False
  then show ?thesis
    using parse_loop_bad [OF False, of 0] parse_to_decimal [of v]
    by (simp add: parse_decimal_u64_def [of s])
qed

lemma ascii_utf8: "list_all (\<lambda>b. b \<noteq> 0 \<and> b < 0x80) t \<Longrightarrow> utf8_from t i"
proof (induction t i rule: utf8_from.induct)
  case (1 t i)
  show ?case
  proof (cases "i < length t")
    case True
    then have "t ! i \<noteq> 0" "t ! i < 0x80" using 1(2) by (auto simp: list_all_length)
    moreover have wide: "unat (ucast (t ! i) :: u32) = unat (t ! i)"
      using unsigned_less [of "t ! i", where ?'a = nat] by (simp add: unsigned_ucast_eq take_bit_nat_eq_self)
    ultimately have "decode_scalar t i = (1, ucast (t ! i))" "(ucast (t ! i) :: u32) \<noteq> 0"
      by (simp_all add: decode_scalar_def Let_def word_less_nat_alt word_unat_eq_iff)
    then show ?thesis using 1 True by (subst utf8_from.simps) simp
  qed (subst utf8_from.simps, simp)
qed

end
