(* ===== verification/Bytes.thy ===== *)
theory Bytes
  imports Text
begin

text \<open>
  The canonical byte format (\<^verbatim>\<open>src/bytes.cpp\<close>, \<^verbatim>\<open>include/cif/bytes.hpp\<close>): checked
  arithmetic, the writer and the bounds-checked reader. A writer function is the
  list of bytes it appends to the attached sink. A reader is its buffer, its offset
  and the first failure it recorded; a read returns \<open>None\<close> where the code returns
  \<open>false\<close>. The relation \<open>reads p bs x\<close> says that \<open>p\<close> consumes exactly the
  bytes \<open>bs\<close> and yields \<open>x\<close>; it composes along \<open>rd_bind\<close>, so that every codec of
  the model has a round-trip lemma made of those of its fields.
\<close>

lemma unat_drop_bit7: "unat (drop_bit 7 v) = unat v div 128" for v :: u64
  by (simp add: drop_bit_eq_div unat_div)

section \<open>Checked arithmetic\<close>

definition checked_add :: "u64 \<Rightarrow> u64 \<Rightarrow> u64 option" where
  "checked_add a b = (if a > u64_max - b then None else Some (a + b))"

definition checked_sub :: "u64 \<Rightarrow> u64 \<Rightarrow> u64 option" where
  "checked_sub a b = (if b > a then None else Some (a - b))"

definition checked_mul :: "u64 \<Rightarrow> u64 \<Rightarrow> u64 option" where
  "checked_mul a b = (if a \<noteq> 0 \<and> b > u64_max div a then None else Some (a * b))"

section \<open>Writer\<close>

definition w_u8 :: "u8 \<Rightarrow> bytes" where
  "w_u8 v = [v]"

definition w_u16 :: "u16 \<Rightarrow> bytes" where
  "w_u16 v = [ucast (v AND 0xFF), ucast (drop_bit 8 v AND 0xFF)]"

definition w_u32 :: "u32 \<Rightarrow> bytes" where
  "w_u32 v = map (\<lambda>i. ucast (drop_bit (i * 8) v AND 0xFF)) [0..<4]"

definition w_u64 :: "u64 \<Rightarrow> bytes" where
  "w_u64 v = map (\<lambda>i. ucast (drop_bit (i * 8) v AND 0xFF)) [0..<8]"

function w_varint :: "u64 \<Rightarrow> bytes" where
  "w_varint v =
     (if v \<ge> 0x80 then ucast ((v AND 0x7F) OR 0x80) # w_varint (drop_bit 7 v) else [ucast v])"
  by pat_completeness auto
termination
proof (relation "measure unat")
  fix v :: u64
  assume "0x80 \<le> v"
  then have "unat v \<noteq> 0" by (auto simp: unat_eq_zero)
  then show "(drop_bit 7 v, v) \<in> measure unat" by (simp add: unat_drop_bit7)
qed simp

declare w_varint.simps [simp del]

definition w_boolean :: "bool \<Rightarrow> bytes" where
  "w_boolean b = w_u8 (if b then 1 else 0)"

definition w_count :: "nat \<Rightarrow> bytes" where
  "w_count n = w_varint (of_nat n)"

definition w_raw :: "bytes \<Rightarrow> bytes" where
  "w_raw bs = bs"

definition w_blob :: "bytes \<Rightarrow> bytes" where
  "w_blob bs = w_varint (of_nat (length bs)) @ w_raw bs"

definition w_text :: "string \<Rightarrow> bytes" where
  "w_text s = w_varint (of_nat (length s)) @ bytes_of s"

section \<open>Reader\<close>

record reader =
  rd_data :: bytes
  rd_offset :: nat
  rd_failure :: status

type_synonym 'a rd = "reader \<Rightarrow> 'a option \<times> reader"

definition reader_of :: "bytes \<Rightarrow> reader" where
  "reader_of bs = \<lparr>rd_data = bs, rd_offset = 0, rd_failure = success\<rparr>"

definition rd_remaining :: "reader \<Rightarrow> nat" where
  "rd_remaining r = length (rd_data r) - rd_offset r"

definition rd_at_end :: "reader \<Rightarrow> bool" where
  "rd_at_end r = (rd_offset r = length (rd_data r))"

text \<open>Sequencing: \<^verbatim>\<open>if (!reader.read(x)) return false;\<close>\<close>

definition rd_bind :: "'a rd \<Rightarrow> ('a \<Rightarrow> 'b rd) \<Rightarrow> 'b rd" where
  "rd_bind m f r = (case m r of (None, r') \<Rightarrow> (None, r') | (Some x, r') \<Rightarrow> f x r')"

definition rd_return :: "'a \<Rightarrow> 'a rd" where
  "rd_return x r = (Some x, r)"

definition rd_note :: "status_code \<Rightarrow> string \<Rightarrow> reader \<Rightarrow> reader" where
  "rd_note c m r = (if ok (rd_failure r) then r\<lparr>rd_failure := status_error c m\<rparr> else r)"

text \<open>\<^verbatim>\<open>reader.fail(code, message); return false;\<close>\<close>

definition rd_fail :: "status_code \<Rightarrow> string \<Rightarrow> 'a rd" where
  "rd_fail c m r = (None, rd_note c m r)"

definition rd_ensure :: "nat \<Rightarrow> reader \<Rightarrow> bool \<times> reader" where
  "rd_ensure n r =
     (if \<not> ok (rd_failure r) then (False, r)
      else if n > rd_remaining r then
        (False, rd_note ScTruncated ''canonical read past end of buffer'' r)
      else (True, r))"

definition rd_u8 :: "u8 rd" where
  "rd_u8 r = (case rd_ensure 1 r of
      (False, r') \<Rightarrow> (None, r')
    | (True, r') \<Rightarrow> (Some (rd_data r' ! rd_offset r'), r'\<lparr>rd_offset := rd_offset r' + 1\<rparr>))"

definition rd_u16 :: "u16 rd" where
  "rd_u16 r = (case rd_ensure 2 r of
      (False, r') \<Rightarrow> (None, r')
    | (True, r') \<Rightarrow>
        (Some (ucast (rd_data r' ! rd_offset r') OR push_bit 8 (ucast (rd_data r' ! (rd_offset r' + 1)))),
         r'\<lparr>rd_offset := rd_offset r' + 2\<rparr>))"

definition rd_u32 :: "u32 rd" where
  "rd_u32 r = (case rd_ensure 4 r of
      (False, r') \<Rightarrow> (None, r')
    | (True, r') \<Rightarrow>
        (Some (foldl (\<lambda>v i. v OR push_bit (i * 8) (ucast (rd_data r' ! (rd_offset r' + i)))) 0 [0..<4]),
         r'\<lparr>rd_offset := rd_offset r' + 4\<rparr>))"

definition rd_u64 :: "u64 rd" where
  "rd_u64 r = (case rd_ensure 8 r of
      (False, r') \<Rightarrow> (None, r')
    | (True, r') \<Rightarrow>
        (Some (foldl (\<lambda>v i. v OR push_bit (i * 8) (ucast (rd_data r' ! (rd_offset r' + i)))) 0 [0..<8]),
         r'\<lparr>rd_offset := rd_offset r' + 8\<rparr>))"

text \<open>The loop of \<^verbatim>\<open>varint\<close>: \<open>n\<close> iterations are left, so \<open>i = 10 - n\<close> and \<open>shift = 7 * i\<close>.\<close>

fun rd_varint_loop :: "nat \<Rightarrow> nat \<Rightarrow> nat \<Rightarrow> u64 \<Rightarrow> u64 rd" where
  "rd_varint_loop 0 i shift v = rd_fail ScCorruption ''varint longer than 10 bytes''"
| "rd_varint_loop (Suc n) i shift v =
     rd_bind rd_u8 (\<lambda>byte.
       if shift = 63 \<and> (byte AND 0x7F) > 1 then rd_fail ScCorruption ''varint overflows 64 bits''
       else let v' = v OR push_bit shift (ucast (byte AND 0x7F)) in
         if (byte AND 0x80) = 0 then
           (if i > 0 \<and> byte = 0 then rd_fail ScCorruption ''non-canonical varint encoding''
            else rd_return v')
         else rd_varint_loop n (i + 1) (shift + 7) v')"

definition rd_varint :: "u64 rd" where
  "rd_varint = rd_varint_loop 10 0 0 0"

definition rd_boolean :: "bool rd" where
  "rd_boolean = rd_bind rd_u8 (\<lambda>b.
     if b > 1 then rd_fail ScCorruption ''non-canonical boolean encoding'' else rd_return (b = 1))"

definition rd_count :: "nat \<Rightarrow> nat rd" where
  "rd_count max_count = rd_bind rd_varint (\<lambda>n.
     if unat n > max_count then rd_fail ScCapacityExhausted ''declared count exceeds configured limit''
     else rd_return (unat n))"

definition rd_raw :: "nat \<Rightarrow> bytes rd" where
  "rd_raw n r = (case rd_ensure n r of
      (False, r') \<Rightarrow> (None, r')
    | (True, r') \<Rightarrow> (Some (take n (drop (rd_offset r') (rd_data r'))), r'\<lparr>rd_offset := rd_offset r' + n\<rparr>))"

definition rd_blob :: "nat \<Rightarrow> bytes rd" where
  "rd_blob max_length = rd_bind rd_varint (\<lambda>n.
     if unat n > max_length
     then rd_fail ScCapacityExhausted ''declared blob length exceeds configured limit''
     else rd_raw (unat n))"

definition rd_text :: "nat \<Rightarrow> string rd" where
  "rd_text max_length = rd_bind rd_varint (\<lambda>n.
     if unat n > max_length
     then rd_fail ScCapacityExhausted ''declared string length exceeds configured limit''
     else rd_bind (rd_raw (unat n)) (\<lambda>view. rd_return (string_of view)))"

definition rd_digest :: "bytes rd" where
  "rd_digest = rd_raw 32"

definition rd_skip :: "nat \<Rightarrow> unit rd" where
  "rd_skip n = rd_bind (rd_raw n) (\<lambda>_. rd_return ())"

text \<open>\<open>n\<close> reads in a row, as the loops of the vector codecs make them.\<close>

fun rd_times :: "nat \<Rightarrow> 'a rd \<Rightarrow> 'a list rd" where
  "rd_times 0 p = rd_return []"
| "rd_times (Suc n) p = rd_bind p (\<lambda>x. rd_bind (rd_times n p) (\<lambda>xs. rd_return (x # xs)))"

section \<open>Hexadecimal\<close>

definition hex_digit :: "u8 \<Rightarrow> char" where
  "hex_digit b = ''0123456789abcdef'' ! unat (b AND 0x0F)"

definition hex_encode :: "bytes \<Rightarrow> string" where
  "hex_encode bs = concat (map (\<lambda>b. [hex_digit (drop_bit 4 b), hex_digit b]) bs)"

text \<open>The nibble a character stands for; \<open>-1\<close> for none, as in the code.\<close>

definition hex_value :: "char \<Rightarrow> int" where
  "hex_value c =
     (if CHR ''0'' \<le> c \<and> c \<le> CHR ''9'' then of_char c - 48
      else if CHR ''a'' \<le> c \<and> c \<le> CHR ''f'' then of_char c - 97 + 10
      else if CHR ''A'' \<le> c \<and> c \<le> CHR ''F'' then of_char c - 65 + 10
      else -1)"

fun hex_pairs :: "string \<Rightarrow> bytes option" where
  "hex_pairs (a # b # rest) =
     (let hi = hex_value a; lo = hex_value b in
      if hi < 0 \<or> lo < 0 then None
      else map_option ((#) (of_int (push_bit 4 hi OR lo))) (hex_pairs rest))"
| "hex_pairs _ = Some []"

definition hex_decode :: "string \<Rightarrow> bytes option" where
  "hex_decode hex = (if length hex mod 2 \<noteq> 0 then None else hex_pairs hex)"

section \<open>Round trips of the primitives\<close>

definition reads :: "'a rd \<Rightarrow> bytes \<Rightarrow> 'a \<Rightarrow> bool" where
  "reads p bs x = (\<forall>r suf. ok (rd_failure r) \<and> rd_offset r \<le> length (rd_data r)
      \<and> drop (rd_offset r) (rd_data r) = bs @ suf
      \<longrightarrow> p r = (Some x, r\<lparr>rd_offset := rd_offset r + length bs\<rparr>))"

lemma readsI:
  assumes "\<And>r suf. ok (rd_failure r) \<Longrightarrow> rd_offset r \<le> length (rd_data r) \<Longrightarrow>
    drop (rd_offset r) (rd_data r) = bs @ suf \<Longrightarrow>
    p r = (Some x, r\<lparr>rd_offset := rd_offset r + length bs\<rparr>)"
  shows "reads p bs x"
  using assms by (simp add: reads_def)

lemma reads_bind [reads_intros]:
  assumes "reads m a x" "reads (f x) b y"
  shows "reads (rd_bind m f) (a @ b) y"
proof (rule readsI)
  fix r :: reader and suf
  assume *: "ok (rd_failure r)" "rd_offset r \<le> length (rd_data r)"
    "drop (rd_offset r) (rd_data r) = (a @ b) @ suf"
  let ?r = "r\<lparr>rd_offset := rd_offset r + length a\<rparr>"
  have d: "drop (rd_offset ?r) (rd_data ?r) = b @ suf"
    using arg_cong [OF *(3), of "drop (length a)"] by (simp add: add.commute)
  have l: "rd_offset ?r \<le> length (rd_data ?r)"
    using arg_cong [OF *(3), of length] *(2) unfolding length_drop length_append by simp
  have "m r = (Some x, ?r)"
    using assms(1) * by (auto simp: reads_def)
  moreover have "f x ?r = (Some y, ?r\<lparr>rd_offset := rd_offset ?r + length b\<rparr>)"
    using assms(2) [unfolded reads_def, rule_format, of ?r suf] d l *(1) by simp
  ultimately show "rd_bind m f r = (Some y, r\<lparr>rd_offset := rd_offset r + length (a @ b)\<rparr>)"
    by (simp add: rd_bind_def add.assoc)
qed

lemma reads_return [reads_intros]: "x = y \<Longrightarrow> reads (rd_return x) [] y"
  by (simp add: reads_def rd_return_def)

text \<open>The last read of a chain, and a check that passes.\<close>

lemma reads_bind_Nil:
  assumes "reads m a x" "reads (f x) [] y"
  shows "reads (rd_bind m f) a y"
  using reads_bind [of m a x f "[]" y] assms by simp

lemma reads_if [reads_intros]: "\<not> c \<Longrightarrow> reads p bs x \<Longrightarrow> reads (if c then q else p) bs x"
  by simp

lemma rd_ensure_ok:
  assumes "ok (rd_failure r)" "rd_offset r \<le> length (rd_data r)"
    "drop (rd_offset r) (rd_data r) = bs @ suf"
  shows "rd_ensure (length bs) r = (True, r)"
  using assms(1,2) arg_cong [OF assms(3), of length] by (simp add: rd_ensure_def rd_remaining_def)

lemma nth_of_drop: "drop k xs = ys @ zs \<Longrightarrow> i < length ys \<Longrightarrow> k \<le> length xs \<Longrightarrow> xs ! (k + i) = ys ! i"
  by (metis nth_append nth_drop)

lemma reads_u8 [reads_intros]: "reads rd_u8 (w_u8 v) v"
proof (rule readsI)
  fix r :: reader and suf
  assume *: "ok (rd_failure r)" "rd_offset r \<le> length (rd_data r)"
    "drop (rd_offset r) (rd_data r) = w_u8 v @ suf"
  from rd_ensure_ok [OF *] nth_of_drop [OF *(3) _ *(2), of 0]
  show "rd_u8 r = (Some v, r\<lparr>rd_offset := rd_offset r + length (w_u8 v)\<rparr>)"
    by (simp add: rd_u8_def w_u8_def)
qed

text \<open>Little-endian bytes, at any width.\<close>

lemma bit_foldl_or:
  fixes f :: "nat \<Rightarrow> 'a::len word"
  shows "bit (foldl (\<lambda>v i. v OR f i) a xs) n \<longleftrightarrow> bit a n \<or> (\<exists>i\<in>set xs. bit (f i) n)"
  by (induction xs arbitrary: a) (auto simp: bit_or_iff)

lemma le_bytes_join:
  fixes v :: "'a::len word"
  assumes "LENGTH('a) = 8 * k"
  shows "foldl (\<lambda>a i. a OR push_bit (i * 8) (ucast (ucast (drop_bit (i * 8) v AND 0xFF) :: u8))) 0 [0..<k] = v"
proof (rule bit_word_eqI)
  fix n assume n: "n < LENGTH('a)"
  have mask: "(0xFF :: 'a word) = mask 8" by (simp add: mask_eq_exp_minus_1)
  have "(\<exists>i<k. i * 8 \<le> n \<and> n - i * 8 < 8 \<and> bit v n) \<longleftrightarrow> bit v n"
    using n assms by (auto intro!: exI [of _ "n div 8"] simp: less_mult_imp_div_less)
  moreover have "(\<exists>i<k. i * 8 \<le> n \<and> n - i * 8 < 8 \<and> bit v n) \<longleftrightarrow>
      bit (foldl (\<lambda>a i. a OR push_bit (i * 8) (ucast (ucast (drop_bit (i * 8) v AND 0xFF) :: u8) :: 'a word)) 0 [0..<k]) n"
    using n
    by (auto simp: bit_foldl_or bit_push_bit_iff bit_ucast_iff bit_and_iff bit_drop_bit_eq mask bit_mask_iff)
  ultimately show "bit (foldl (\<lambda>a i. a OR push_bit (i * 8) (ucast (ucast (drop_bit (i * 8) v AND 0xFF) :: u8) :: 'a word)) 0 [0..<k]) n = bit v n"
    by simp
qed

lemma foldl_cong_on:
  "(\<And>a i. i \<in> set xs \<Longrightarrow> f a i = g a i) \<Longrightarrow> foldl f a xs = foldl g a xs"
  by (induction xs arbitrary: a) auto

lemma le_bytes_read:
  fixes v :: "'a::len word"
  assumes "LENGTH('a) = 8 * k" "rd_offset r \<le> length (rd_data r)"
    "drop (rd_offset r) (rd_data r) = map (\<lambda>i. ucast (drop_bit (i * 8) v AND 0xFF)) [0..<k] @ suf"
  shows "foldl (\<lambda>a i. a OR push_bit (i * 8) (ucast (rd_data r ! (rd_offset r + i)))) 0 [0..<k] = v"
  apply (subst le_bytes_join [OF assms(1), of v, symmetric])
  apply (rule foldl_cong_on)
  using nth_of_drop [OF assms(3) _ assms(2)] by simp

lemma reads_u32 [reads_intros]: "reads rd_u32 (w_u32 v) v"
proof (rule readsI)
  fix r :: reader and suf
  assume *: "ok (rd_failure r)" "rd_offset r \<le> length (rd_data r)"
    "drop (rd_offset r) (rd_data r) = w_u32 v @ suf"
  from rd_ensure_ok [OF *] le_bytes_read [of 4 r v suf] *
  show "rd_u32 r = (Some v, r\<lparr>rd_offset := rd_offset r + length (w_u32 v)\<rparr>)"
    by (simp add: rd_u32_def w_u32_def del: upt_Suc upt_rec_numeral)
qed

lemma reads_u64 [reads_intros]: "reads rd_u64 (w_u64 v) v"
proof (rule readsI)
  fix r :: reader and suf
  assume *: "ok (rd_failure r)" "rd_offset r \<le> length (rd_data r)"
    "drop (rd_offset r) (rd_data r) = w_u64 v @ suf"
  from rd_ensure_ok [OF *] le_bytes_read [of 8 r v suf] *
  show "rd_u64 r = (Some v, r\<lparr>rd_offset := rd_offset r + length (w_u64 v)\<rparr>)"
    by (simp add: rd_u64_def w_u64_def del: upt_Suc upt_rec_numeral)
qed

lemma w_u16_alt: "w_u16 v = map (\<lambda>i. ucast (drop_bit (i * 8) v AND 0xFF)) [0..<2]"
  by (simp add: w_u16_def numeral_2_eq_2)

lemma reads_u16 [reads_intros]: "reads rd_u16 (w_u16 v) v"
proof (rule readsI)
  fix r :: reader and suf
  assume *: "ok (rd_failure r)" "rd_offset r \<le> length (rd_data r)"
    "drop (rd_offset r) (rd_data r) = w_u16 v @ suf"
  have two: "[0..<2] = [0, 1 :: nat]" "length (w_u16 v) = 2"
    by (simp_all add: numeral_2_eq_2 w_u16_def)
  have "rd_ensure 2 r = (True, r)"
    using rd_ensure_ok [OF *] two(2) by simp
  moreover have "ucast (rd_data r ! rd_offset r) OR push_bit 8 (ucast (rd_data r ! (rd_offset r + 1))) = v"
    using le_bytes_read [of 2 r v suf] * by (simp add: w_u16_alt two(1))
  ultimately show "rd_u16 r = (Some v, r\<lparr>rd_offset := rd_offset r + length (w_u16 v)\<rparr>)"
    by (simp add: rd_u16_def two(2))
qed

lemma reads_raw [reads_intros]: "n = length bs \<Longrightarrow> reads (rd_raw n) bs bs"
  using rd_ensure_ok by (auto simp: reads_def rd_raw_def)

lemma reads_digest [reads_intros]: "length d = 32 \<Longrightarrow> reads rd_digest d d"
  by (simp add: rd_digest_def reads_raw)

lemma reads_boolean [reads_intros]: "reads rd_boolean (w_boolean b) b"
  unfolding rd_boolean_def w_boolean_def
  by (rule reads_bind_Nil [OF reads_u8]) (auto intro!: reads_intros)

section \<open>Variable-length integers\<close>

lemma bit_7F: "bit (0x7F :: nat) n \<longleftrightarrow> n < 7" "bit (0x7F :: int) n \<longleftrightarrow> n < 7"
proof -
  have m: "(0x7F :: nat) = mask 7" "(0x7F :: int) = mask 7" by (simp_all add: mask_eq_exp_minus_1)
  show "bit (0x7F :: nat) n \<longleftrightarrow> n < 7" unfolding m(1) bit_mask_iff by simp
  show "bit (0x7F :: int) n \<longleftrightarrow> n < 7" unfolding m(2) bit_mask_iff by simp
qed

lemma bit_80: "bit (0x80 :: nat) n \<longleftrightarrow> n = 7" "bit (0x80 :: int) n \<longleftrightarrow> n = 7"
  using bit_exp_iff [where ?'a = nat, of 7 n] bit_exp_iff [where ?'a = int, of 7 n] by auto

lemma varint_low: "push_bit s (v AND 0x7F) OR push_bit (s + 7) (drop_bit 7 v) = push_bit s v"
  for v :: u64
proof (rule bit_word_eqI)
  fix n assume n: "n < LENGTH(64)"
  show "bit (push_bit s (v AND 0x7F) OR push_bit (s + 7) (drop_bit 7 v)) n = bit (push_bit s v) n"
  proof (cases "s + 7 \<le> n")
    case True
    then have "7 + (n - (s + 7)) = n - s" by simp
    with True n show ?thesis by (auto simp: bit_or_iff bit_push_bit_iff bit_and_iff bit_7F bit_drop_bit_eq)
  next
    case False
    with n show ?thesis by (auto simp: bit_or_iff bit_push_bit_iff bit_and_iff bit_7F)
  qed
qed

lemma ucast_low7: "(ucast ((ucast (v AND 0x7F OR 0x80) :: u8) AND 0x7F) :: u64) = v AND 0x7F" for v :: u64
  by (rule bit_word_eqI) (auto simp: bit_and_iff bit_ucast_iff bit_or_iff bit_7F bit_80)

lemma high_bit_set: "(ucast (v AND 0x7F OR 0x80) :: u8) AND 0x80 \<noteq> 0" for v :: u64
proof -
  have "bit ((ucast (v AND 0x7F OR 0x80) :: u8) AND 0x80) 7"
    by (simp add: bit_and_iff bit_ucast_iff bit_or_iff bit_7F bit_80)
  then show ?thesis by auto
qed

lemma small_byte:
  fixes v :: u64
  assumes "v < 0x80"
  shows "(ucast v :: u8) AND 0x7F = ucast v" "(ucast v :: u8) AND 0x80 = 0"
    "(ucast (ucast v :: u8) :: u64) = v" "(ucast v :: u8) = 0 \<longleftrightarrow> v = 0"
proof -
  have u: "unat (ucast v :: u8) = unat v"
    using assms by (simp add: unsigned_ucast_eq word_less_nat_alt take_bit_eq_mod)
  have tb: "take_bit 7 v = v"
    using assms by (simp add: word_unat_eq_iff take_bit_eq_mod word_less_nat_alt unat_mod)
  have hi: "bit v n \<Longrightarrow> n < 7" for n
    by (subst (asm) tb [symmetric]) (simp add: bit_take_bit_iff)
  show "(ucast v :: u8) AND 0x7F = ucast v"
    by (rule bit_word_eqI) (auto simp: bit_and_iff bit_7F bit_ucast_iff not_less dest: hi)
  show "(ucast v :: u8) AND 0x80 = 0"
    by (rule bit_word_eqI) (auto simp: bit_and_iff bit_80 bit_ucast_iff dest: hi)
  show "(ucast (ucast v :: u8) :: u64) = v"
    by (rule bit_word_eqI) (auto simp: bit_ucast_iff not_less dest: hi)
  show "(ucast v :: u8) = 0 \<longleftrightarrow> v = 0"
    using u unat_eq_zero [of v] unat_eq_zero [of "ucast v :: u8"] by simp
qed

lemma reads_varint_loop:
  assumes "unat v < 2 ^ (64 - 7 * i)" "i < 10" "i > 0 \<longrightarrow> v \<noteq> 0"
  shows "reads (rd_varint_loop (10 - i) i (7 * i) a) (w_varint v) (a OR push_bit (7 * i) v)"
  using assms
proof (induction v arbitrary: i a rule: w_varint.induct)
  case (1 v)
  have n: "10 - i = Suc (9 - i)" using "1.prems" by simp
  show ?case
  proof (cases "v \<ge> 0x80")
    case True
    let ?b = "ucast (v AND 0x7F OR 0x80) :: u8"
    have v128: "unat v \<ge> 128" using True by (simp add: word_le_nat_alt)
    have i9: "i < 9"
    proof (rule ccontr)
      assume "\<not> i < 9"
      then have "i = 9" using "1.prems" by simp
      then show False using "1.prems" v128 by simp
    qed
    have small: "unat (drop_bit 7 v) < 2 ^ (64 - 7 * (i + 1))"
    proof -
      have e: "64 - 7 * i = 7 + (64 - 7 * (i + 1))" using i9 by arith
      have "(2::nat) ^ (64 - 7 * i) = 128 * 2 ^ (64 - 7 * (i + 1))"
        unfolding e power_add by simp
      then have "unat v < 128 * 2 ^ (64 - 7 * (i + 1))" using "1.prems"(1) by (simp only:)
      then show ?thesis by (simp add: unat_drop_bit7 div_less_iff_less_mult mult.commute)
    qed
    have nz: "drop_bit 7 v \<noteq> 0"
    proof
      assume "drop_bit 7 v = 0"
      then have "unat v div 128 = 0" using unat_drop_bit7 [of v] by simp
      then show False using v128 by simp
    qed
    have or_eq: "a OR push_bit (7 * i) (v AND 0x7F) OR push_bit (7 * i + 7) (drop_bit 7 v)
        = a OR push_bit (7 * i) v"
      using varint_low [of "7 * i" v] by (simp only: or.assoc)
    have ten: "10 - (i + 1) = 9 - i" "7 * (i + 1) = 7 * i + 7" "i + 1 < 10" using i9 by simp_all
    have ih: "reads (rd_varint_loop (9 - i) (i + 1) (7 * i + 7) (a OR push_bit (7 * i) (v AND 0x7F)))
        (w_varint (drop_bit 7 v)) (a OR push_bit (7 * i) v)"
      using "1.IH" [OF True small ten(3) impI [OF nz], of "a OR push_bit (7 * i) (v AND 0x7F)"]
      by (simp only: or.assoc or_eq ten(1,2))
    have eq: "w_varint v = w_u8 ?b @ w_varint (drop_bit 7 v)"
      using True by (subst w_varint.simps) (simp add: w_u8_def)
    show ?thesis
      unfolding n rd_varint_loop.simps eq
      by (rule reads_bind [OF reads_u8]) (use i9 ih high_bit_set [of v] ucast_low7 [of v] in \<open>simp add: Let_def\<close>)
  next
    case False
    then have lt: "v < 0x80" by (simp add: not_le)
    have eq: "w_varint v = w_u8 (ucast v)"
      using False by (subst w_varint.simps) (simp add: w_u8_def)
    have ov: "\<not> (7 * i = 63 \<and> (ucast v :: u8) > 1)"
    proof
      assume *: "7 * i = 63 \<and> (ucast v :: u8) > 1"
      then have "unat v < 2" using "1.prems"(1) by simp
      moreover have "unat (ucast v :: u8) = unat v"
        using lt by (simp add: unsigned_ucast_eq word_less_nat_alt take_bit_eq_mod)
      ultimately show False using * by (simp add: word_less_nat_alt)
    qed
    show ?thesis
      unfolding n rd_varint_loop.simps eq
      by (rule reads_bind_Nil [OF reads_u8])
        (use "1.prems"(3) ov small_byte [OF lt] in \<open>auto simp: Let_def intro!: reads_return\<close>)
  qed
qed

lemma reads_varint [reads_intros]: "reads rd_varint (w_varint v) v"
proof -
  have "unat v < 2 ^ (64 - 7 * 0)" using unsigned_less [of v, where ?'a = nat] by simp
  from reads_varint_loop [OF this, of 0] show ?thesis by (simp add: rd_varint_def)
qed

lemma unat_of_nat_small [simp]: "n < 2 ^ 64 \<Longrightarrow> unat (of_nat n :: u64) = n"
  by (simp add: unat_of_nat)

lemma reads_count [reads_intros]:
  "n \<le> m \<Longrightarrow> m < 2 ^ 64 \<Longrightarrow> reads (rd_count m) (w_count n) n"
  unfolding rd_count_def w_count_def
  by (rule reads_bind_Nil [OF reads_varint]) (auto intro!: reads_intros)

lemma reads_blob [reads_intros]:
  "length bs \<le> m \<Longrightarrow> m < 2 ^ 64 \<Longrightarrow> reads (rd_blob m) (w_blob bs) bs"
  unfolding rd_blob_def w_blob_def w_raw_def
  by (rule reads_bind [OF reads_varint]) (auto intro!: reads_intros)

lemma reads_text [reads_intros]:
  "length s \<le> m \<Longrightarrow> m < 2 ^ 64 \<Longrightarrow> reads (rd_text m) (w_text s) s"
  unfolding rd_text_def w_text_def
  by (rule reads_bind [OF reads_varint])
    (auto intro!: reads_if reads_bind_Nil [OF reads_raw] reads_return)

lemma reads_times:
  assumes "\<And>x. x \<in> set xs \<Longrightarrow> reads p (w x) x"
  shows "reads (rd_times (length xs) p) (concat (map w xs)) xs"
  using assms
proof (induction xs)
  case (Cons x xs)
  then show ?case
    by (auto intro!: reads_bind [where b = "concat (map w xs)"] reads_bind_Nil [where x = xs] reads_return)
qed (auto intro: reads_return)

section \<open>Checked arithmetic and hexadecimal\<close>

lemma add_overflow_iff: "u64_max - b < a \<longleftrightarrow> \<not> unat a + unat b < 2 ^ 64"
proof -
  have s: "unat (u64_max - b) = 2 ^ 64 - 1 - unat b" by (subst unat_sub) (simp_all add: unat_u64_max)
  have "unat b < 2 ^ 64" using unsigned_less [of b, where ?'a = nat] by simp
  then show ?thesis unfolding word_less_nat_alt s by auto
qed

text \<open>The checked operations compute the exact result whenever it fits 64 bits, and fail
  in every other case.\<close>

theorem checked_arithmetic_exact:
  "map_option unat (checked_add a b)
     = (if unat a + unat b < 2 ^ 64 then Some (unat a + unat b) else None)
   \<and> map_option unat (checked_sub a b)
     = (if unat b \<le> unat a then Some (unat a - unat b) else None)
   \<and> map_option unat (checked_mul a b)
     = (if unat a * unat b < 2 ^ 64 then Some (unat a * unat b) else None)"
proof (intro conjI)
  show "map_option unat (checked_add a b)
     = (if unat a + unat b < 2 ^ 64 then Some (unat a + unat b) else None)"
    using add_overflow_iff [of b a] by (simp add: checked_add_def unat_word_ariths)
  show "map_option unat (checked_sub a b)
     = (if unat b \<le> unat a then Some (unat a - unat b) else None)"
    by (auto simp: checked_sub_def word_less_nat_alt unat_sub word_le_nat_alt)
  have "(a \<noteq> 0 \<and> b > u64_max div a) \<longleftrightarrow> \<not> unat a * unat b < 2 ^ 64"
  proof (cases "a = 0")
    case False
    then have pos: "unat a > 0" by (simp add: unat_gt_0)
    have "b > u64_max div a \<longleftrightarrow> (2 ^ 64 - 1) div unat a < unat b"
      by (simp add: word_less_nat_alt unat_div unat_u64_max)
    also have "\<dots> \<longleftrightarrow> 2 ^ 64 - 1 < unat b * unat a"
      by (simp add: div_less_iff_less_mult [OF pos])
    finally show ?thesis using False by (simp add: mult.commute) linarith
  qed simp
  then show "map_option unat (checked_mul a b)
     = (if unat a * unat b < 2 ^ 64 then Some (unat a * unat b) else None)"
    by (simp add: checked_mul_def unat_word_ariths)
qed

lemma checked_add_Some: "checked_add a b = Some c \<longleftrightarrow> unat a + unat b < 2 ^ 64 \<and> c = a + b"
  using add_overflow_iff [of b a] by (auto simp: checked_add_def)

lemma hex_value_nibble:
  assumes "n < 16"
  shows "hex_value (''0123456789abcdef'' ! n) = int n"
proof -
  have "list_all (\<lambda>n. hex_value (''0123456789abcdef'' ! n) = int n) [0..<16]" by code_simp
  then show ?thesis using assms by (simp add: list_all_iff)
qed

lemma nibble_value: "unat (b AND 0x0F) = unat b mod 16" for b :: u8
proof -
  have "(0x0F :: u8) = mask 4" by (simp add: mask_eq_exp_minus_1)
  then have "b AND 0x0F = take_bit 4 b" by (simp add: take_bit_eq_mask)
  then show ?thesis by (simp add: take_bit_eq_mod unat_mod)
qed

lemma hex_digit_values:
  "hex_value (hex_digit (drop_bit 4 b)) = int (unat b div 16)"
  "hex_value (hex_digit b) = int (unat b mod 16)"
proof -
  have "unat b < 256" using unsigned_less [of b, where ?'a = nat] by simp
  moreover have "unat (drop_bit 4 b) = unat b div 16" by (simp add: drop_bit_eq_div unat_div)
  ultimately show "hex_value (hex_digit (drop_bit 4 b)) = int (unat b div 16)"
    by (simp add: hex_digit_def nibble_value hex_value_nibble less_mult_imp_div_less)
  show "hex_value (hex_digit b) = int (unat b mod 16)"
    by (simp add: hex_digit_def nibble_value hex_value_nibble)
qed

lemma nibbles_join:
  fixes h l :: int
  assumes "0 \<le> l" "l < 16"
  shows "push_bit 4 h OR l = h * 16 + l"
proof -
  have l: "l = take_bit 4 l" using assms by (simp add: take_bit_int_eq_self)
  have "push_bit 4 h + l = push_bit 4 h OR l"
    by (rule disjunctive_add, subst l) (auto simp: bit_push_bit_iff bit_take_bit_iff)
  then show ?thesis by (simp add: push_bit_eq_mult)
qed

lemma hex_round_trip: "hex_decode (hex_encode bs) = Some bs"
proof -
  have len: "length (hex_encode bs) mod 2 = 0"
    by (induction bs) (auto simp: hex_encode_def)
  have "hex_pairs (hex_encode bs) = Some bs"
  proof (induction bs)
    case (Cons b bs)
    have "of_int (push_bit 4 (int (unat b div 16)) OR int (unat b mod 16)) = b"
    proof -
      have "push_bit 4 (int (unat b div 16)) OR int (unat b mod 16) = int (unat b)"
        by (subst nibbles_join) (simp_all add: zdiv_int zmod_int)
      then show ?thesis by simp
    qed
    then show ?case using Cons hex_digit_values [of b]
      by (simp add: hex_encode_def Let_def)
  qed (simp add: hex_encode_def)
  with len show ?thesis by (simp add: hex_decode_def)
qed

end
