(* ===== verification/Hash.thy ===== *)
theory Hash
  imports Bytes
begin

text \<open>
  Digests and checksums (\<^verbatim>\<open>src/hash.cpp\<close>, \<^verbatim>\<open>include/cif/hash.hpp\<close>): streaming
  SHA-256 with its block buffer, CRC-32C with its table, FNV-1a and the
  length-prefixed, domain-separated hasher. A \<^verbatim>\<open>Digest256\<close> is its 32 bytes; the
  all-zero digest means absent. The lemmas show that the block-wise update of
  SHA-256 is the byte-wise one, so that a digest does not depend on how its input
  was cut into calls, and that the CRC table is the bitwise division it stands for.
\<close>

section \<open>Digests\<close>

definition digest_zero :: bytes where
  "digest_zero = replicate 32 0"

definition digest_is_zero :: "bytes \<Rightarrow> bool" where
  "digest_is_zero d = list_all (\<lambda>b. b = 0) d"

definition digest_hex :: "bytes \<Rightarrow> string" where
  "digest_hex d = hex_encode d"

definition digest_parse :: "string \<Rightarrow> bytes option" where
  "digest_parse hex = (if length hex \<noteq> 64 then None else hex_pairs hex)"

section \<open>SHA-256\<close>

text \<open>The round constants and the initial state, in decimal.\<close>

definition sha256_K :: "u32 list" where
  "sha256_K = [
    1116352408, 1899447441, 3049323471, 3921009573, 961987163, 1508970993, 2453635748,
    2870763221, 3624381080, 310598401, 607225278, 1426881987, 1925078388, 2162078206,
    2614888103, 3248222580, 3835390401, 4022224774, 264347078, 604807628, 770255983,
    1249150122, 1555081692, 1996064986, 2554220882, 2821834349, 2952996808, 3210313671,
    3336571891, 3584528711, 113926993, 338241895, 666307205, 773529912, 1294757372,
    1396182291, 1695183700, 1986661051, 2177026350, 2456956037, 2730485921, 2820302411,
    3259730800, 3345764771, 3516065817, 3600352804, 4094571909, 275423344, 430227734,
    506948616, 659060556, 883997877, 958139571, 1322822218, 1537002063, 1747873779,
    1955562222, 2024104815, 2227730452, 2361852424, 2428436474, 2756734187, 3204031479,
    3329325298]"

definition sha256_initial :: "u32 list" where
  "sha256_initial = [1779033703, 3144134277, 1013904242, 2773480762,
     1359893119, 2600822924, 528734635, 1541459225]"

definition rotr :: "u32 \<Rightarrow> nat \<Rightarrow> u32" where
  "rotr x n = drop_bit n x OR push_bit (32 - n) x"

definition big_endian_u32 :: "bytes \<Rightarrow> nat \<Rightarrow> u32" where
  "big_endian_u32 p i =
     push_bit 24 (ucast (p ! i)) OR push_bit 16 (ucast (p ! (i + 1)))
     OR push_bit 8 (ucast (p ! (i + 2))) OR ucast (p ! (i + 3))"

definition store_big_endian_u32 :: "u32 \<Rightarrow> bytes" where
  "store_big_endian_u32 v =
     [ucast (drop_bit 24 v AND 0xFF), ucast (drop_bit 16 v AND 0xFF),
      ucast (drop_bit 8 v AND 0xFF), ucast (v AND 0xFF)]"

record sha256_state =
  h_state :: "u32 list"
  h_buffer :: bytes
  h_total :: u64
  h_len :: nat
  h_finalised :: bool

definition sha256_reset :: sha256_state where
  "sha256_reset = \<lparr>h_state = sha256_initial, h_buffer = replicate 64 0, h_total = 0, h_len = 0,
     h_finalised = False\<rparr>"

definition schedule_step :: "u32 list \<Rightarrow> nat \<Rightarrow> u32 list" where
  "schedule_step w i = (
     let s0 = rotr (w ! (i - 15)) 7 XOR rotr (w ! (i - 15)) 18 XOR drop_bit 3 (w ! (i - 15));
         s1 = rotr (w ! (i - 2)) 17 XOR rotr (w ! (i - 2)) 19 XOR drop_bit 10 (w ! (i - 2))
     in w @ [w ! (i - 16) + s0 + w ! (i - 7) + s1])"

definition message_schedule :: "bytes \<Rightarrow> u32 list" where
  "message_schedule block =
     foldl schedule_step (map (\<lambda>i. big_endian_u32 block (i * 4)) [0..<16]) [16..<64]"

type_synonym sha_vars = "u32 \<times> u32 \<times> u32 \<times> u32 \<times> u32 \<times> u32 \<times> u32 \<times> u32"

definition sha256_round :: "u32 list \<Rightarrow> sha_vars \<Rightarrow> nat \<Rightarrow> sha_vars" where
  "sha256_round w v i = (case v of (a, b, c, d, e, f, g, h) \<Rightarrow>
     let s1 = rotr e 6 XOR rotr e 11 XOR rotr e 25;
         ch = (e AND f) XOR (NOT e AND g);
         temp1 = h + s1 + ch + sha256_K ! i + w ! i;
         s0 = rotr a 2 XOR rotr a 13 XOR rotr a 22;
         maj = (a AND b) XOR (a AND c) XOR (b AND c);
         temp2 = s0 + maj
     in (temp1 + temp2, a, b, c, d + temp1, e, f, g))"

definition sha256_compress :: "u32 list \<Rightarrow> bytes \<Rightarrow> u32 list" where
  "sha256_compress st block =
     (let w = message_schedule block in
      case foldl (sha256_round w) (st ! 0, st ! 1, st ! 2, st ! 3, st ! 4, st ! 5, st ! 6, st ! 7) [0..<64]
      of (a, b, c, d, e, f, g, h) \<Rightarrow>
        [st ! 0 + a, st ! 1 + b, st ! 2 + c, st ! 3 + d, st ! 4 + e, st ! 5 + f, st ! 6 + g, st ! 7 + h])"

text \<open>The three loops of \<^verbatim>\<open>update\<close>: top up a partly filled buffer, compress whole blocks
  straight from the input, and buffer the rest.\<close>

fun fill_buffer :: "bytes \<Rightarrow> nat \<Rightarrow> bytes \<Rightarrow> bytes \<times> nat \<times> bytes" where
  "fill_buffer buf n [] = (buf, n, [])"
| "fill_buffer buf n (b # bs) = (if n < 64 then fill_buffer (buf[n := b]) (n + 1) bs else (buf, n, b # bs))"

function compress_blocks :: "u32 list \<Rightarrow> bytes \<Rightarrow> u32 list \<times> bytes" where
  "compress_blocks st bs =
     (if length bs \<ge> 64 then compress_blocks (sha256_compress st (take 64 bs)) (drop 64 bs) else (st, bs))"
  by pat_completeness auto
termination
  by (relation "measure (\<lambda>(st, bs). length bs)") auto

declare compress_blocks.simps [simp del]

fun buffer_rest :: "bytes \<Rightarrow> nat \<Rightarrow> bytes \<Rightarrow> bytes \<times> nat" where
  "buffer_rest buf n [] = (buf, n)"
| "buffer_rest buf n (b # bs) = buffer_rest (buf[n := b]) (n + 1) bs"

definition sha256_update :: "sha256_state \<Rightarrow> bytes \<Rightarrow> sha256_state" where
  "sha256_update h bs =
     (if h_finalised h \<or> bs = [] then h
      else
        let total = h_total h + of_nat (length bs);
            (buf, n, rest) = (if h_len h > 0 then fill_buffer (h_buffer h) (h_len h) bs
                              else (h_buffer h, h_len h, bs));
            (st, n') = (if h_len h > 0 \<and> n = 64 then (sha256_compress (h_state h) buf, 0)
                        else (h_state h, n));
            (st', rest') = compress_blocks st rest;
            (buf', n'') = buffer_rest buf n' rest'
        in h\<lparr>h_state := st', h_buffer := buf', h_total := total, h_len := n''\<rparr>)"

text \<open>Zero padding: at most 63 bytes are needed to reach position 56 of a block.\<close>

fun pad_zeros :: "nat \<Rightarrow> sha256_state \<Rightarrow> sha256_state" where
  "pad_zeros 0 h = h"
| "pad_zeros (Suc fuel) h = (if h_len h \<noteq> 56 then pad_zeros fuel (sha256_update h [0]) else h)"

definition sha256_finalise :: "sha256_state \<Rightarrow> bytes" where
  "sha256_finalise h = (
     let bit_length = h_total h * 8;
         h1 = pad_zeros 64 (sha256_update h [0x80]);
         length_bytes = rev (map (\<lambda>i. ucast (drop_bit (i * 8) bit_length AND 0xFF)) [0..<8]);
         st = sha256_compress (h_state h1) (take 56 (h_buffer h1) @ length_bytes)
     in concat (map store_big_endian_u32 st))"

definition sha256 :: "bytes \<Rightarrow> bytes" where
  "sha256 bs = sha256_finalise (sha256_update sha256_reset bs)"

section \<open>Checksums\<close>

definition crc_bit :: "u32 \<Rightarrow> u32" where
  "crc_bit crc = (if crc AND 1 \<noteq> 0 then drop_bit 1 crc XOR 0x82F63B78 else drop_bit 1 crc)"

definition crc32c_table :: "u32 list" where
  "crc32c_table = map (\<lambda>i. (crc_bit ^^ 8) (of_nat i)) [0..<256]"

definition crc32c_step :: "u32 \<Rightarrow> u8 \<Rightarrow> u32" where
  "crc32c_step crc b = crc32c_table ! unat ((crc XOR ucast b) AND 0xFF) XOR drop_bit 8 crc"

definition crc32c :: "bytes \<Rightarrow> u32" where
  "crc32c bs = foldl crc32c_step 0xFFFFFFFF bs XOR 0xFFFFFFFF"

definition fnv1a64 :: "bytes \<Rightarrow> u64" where
  "fnv1a64 bs = foldl (\<lambda>h b. (h XOR ucast b) * 1099511628211) 1469598103934665603 bs"

section \<open>Domain-separated hashing\<close>

text \<open>The code feeds the length byte by byte; each is its own \<^verbatim>\<open>update\<close>.\<close>

definition update_bytes :: "sha256_state \<Rightarrow> bytes \<Rightarrow> sha256_state" where
  "update_bytes h bs = foldl (\<lambda>h b. sha256_update h [b]) h bs"

definition domain_hasher :: "string \<Rightarrow> sha256_state" where
  "domain_hasher domain =
     sha256_update (update_bytes sha256_reset (w_u64 (of_nat (length domain)))) (bytes_of domain)"

definition hasher_add :: "sha256_state \<Rightarrow> bytes \<Rightarrow> sha256_state" where
  "hasher_add h part = sha256_update (update_bytes h (w_u64 (of_nat (length part)))) part"

definition hasher_add_u64 :: "sha256_state \<Rightarrow> u64 \<Rightarrow> sha256_state" where
  "hasher_add_u64 h v = sha256_update h (w_u64 v)"

definition canonical_digest :: "string \<Rightarrow> bytes \<Rightarrow> bytes" where
  "canonical_digest domain payload = sha256_finalise (hasher_add (domain_hasher domain) payload)"

section \<open>SHA-256 is the hash of the padded message\<close>

lemma fill_buffer_spec:
  assumes "n \<le> 64" "length buf = 64" "fill_buffer buf n bs = (buf', n', rest)"
  shows "n' = min 64 (n + length bs) \<and> length buf' = 64 \<and> rest = drop (64 - n) bs
    \<and> take n' buf' = take n buf @ take (64 - n) bs"
  using assms
proof (induction bs arbitrary: buf n)
  case (Cons b bs)
  show ?case
  proof (cases "n < 64")
    case True
    have tk: "take (n + 1) (buf[n := b]) = take n buf @ [b]"
      using True Cons.prems(2) by (simp add: take_Suc_conv_app_nth)
    have "64 - n = Suc (64 - (n + 1))" using True by arith
    then show ?thesis
      using Cons.IH [of "n + 1" "buf[n := b]"] Cons.prems True tk by auto
  qed (use Cons.prems in auto)
qed auto

lemma buffer_rest_spec:
  assumes "n + length bs \<le> 64" "length buf = 64" "buffer_rest buf n bs = (buf', n')"
  shows "n' = n + length bs \<and> length buf' = 64 \<and> take n' buf' = take n buf @ bs"
  using assms
proof (induction bs arbitrary: buf n)
  case (Cons b bs)
  have tk: "take (n + 1) (buf[n := b]) = take n buf @ [b]"
    using Cons.prems by (simp add: take_Suc_conv_app_nth)
  show ?case using Cons.IH [of "n + 1" "buf[n := b]"] Cons.prems tk by auto
qed auto

lemma compress_blocks_short: "length bs < 64 \<Longrightarrow> compress_blocks st bs = (st, bs)"
  by (subst compress_blocks.simps) simp

lemma compress_blocks_block:
  "length blk = 64 \<Longrightarrow> compress_blocks st (blk @ bs) = compress_blocks (sha256_compress st blk) bs"
  by (subst compress_blocks.simps) simp

lemma compress_blocks_rest: "length (snd (compress_blocks st bs)) < 64"
proof (induction st bs rule: compress_blocks.induct)
  case (1 st bs)
  then show ?case by (subst compress_blocks.simps) auto
qed

lemma compress_blocks_append:
  "compress_blocks st (xs @ ys)
   = (case compress_blocks st xs of (st', r) \<Rightarrow> compress_blocks st' (r @ ys))"
proof (induction st xs rule: compress_blocks.induct)
  case (1 st xs)
  show ?case
  proof (cases "length xs \<ge> 64")
    case True
    have "compress_blocks st (xs @ ys)
        = compress_blocks (sha256_compress st (take 64 xs)) (drop 64 xs @ ys)"
      using True compress_blocks_block [of "take 64 xs" st "drop 64 xs @ ys"]
      by (simp flip: append_assoc)
    also have "\<dots> = (case compress_blocks st xs of (st', r) \<Rightarrow> compress_blocks st' (r @ ys))"
      using "1.IH" [OF True] True by (simp add: compress_blocks.simps [of st xs])
    finally show ?thesis .
  qed (simp add: compress_blocks_short)
qed

lemma compress_blocks_rest_length: "length (snd (compress_blocks st bs)) = length bs mod 64"
proof (induction st bs rule: compress_blocks.induct)
  case (1 st bs)
  then show ?case by (subst compress_blocks.simps) (auto simp: le_mod_geq)
qed

definition sha_wf :: "sha256_state \<Rightarrow> bool" where
  "sha_wf h = (length (h_buffer h) = 64 \<and> h_len h < 64 \<and> \<not> h_finalised h)"

text \<open>The bytes waiting for a full block.\<close>

definition pending :: "sha256_state \<Rightarrow> bytes" where
  "pending h = take (h_len h) (h_buffer h)"

lemma update_spec:
  assumes "sha_wf h"
  shows "sha_wf (sha256_update h bs)
    \<and> (h_state (sha256_update h bs), pending (sha256_update h bs))
        = compress_blocks (h_state h) (pending h @ bs)
    \<and> h_total (sha256_update h bs) = h_total h + of_nat (length bs)"
proof (cases "bs = []")
  case True
  then show ?thesis using assms
    by (simp add: sha256_update_def compress_blocks_short pending_def sha_wf_def)
next
  case False
  have wf: "length (h_buffer h) = 64" "h_len h < 64" "\<not> h_finalised h"
    using assms by (simp_all add: sha_wf_def)
  obtain buf n rest where fb: "(if h_len h > 0 then fill_buffer (h_buffer h) (h_len h) bs
      else (h_buffer h, h_len h, bs)) = (buf, n, rest)" by (metis prod_cases3)
  obtain st n1 where sn: "(if h_len h > 0 \<and> n = 64 then (sha256_compress (h_state h) buf, 0)
      else (h_state h, n)) = (st, n1)" by fastforce
  obtain st' rest' where cb: "compress_blocks st rest = (st', rest')" by fastforce
  obtain buf' n2 where br: "buffer_rest buf n1 rest' = (buf', n2)" by fastforce
  have upd: "sha256_update h bs = h\<lparr>h_state := st', h_buffer := buf',
      h_total := h_total h + of_nat (length bs), h_len := n2\<rparr>"
    using wf(3) False fb sn cb br unfolding sha256_update_def by (simp split: if_splits)
  have filled: "length buf = 64 \<and> n1 < 64 \<and> (n1 > 0 \<longrightarrow> rest = [])
    \<and> compress_blocks st (take n1 buf @ rest) = compress_blocks (h_state h) (pending h @ bs)"
  proof (cases "h_len h > 0")
    case True
    with fb have f: "fill_buffer (h_buffer h) (h_len h) bs = (buf, n, rest)" by simp
    note spec = fill_buffer_spec [OF _ wf(1) f]
    show ?thesis
    proof (cases "n = 64")
      case True
      have blk: "buf = pending h @ take (64 - h_len h) bs"
        using spec wf(2) True by (auto simp: pending_def)
      have "pending h @ bs = buf @ rest" using blk spec wf(2) by simp
      then show ?thesis using spec wf sn True \<open>h_len h > 0\<close> compress_blocks_block [of buf] by auto
    next
      case False
      then show ?thesis using spec wf(2) sn by (auto simp: pending_def min_def split: if_splits)
    qed
  next
    case False
    then show ?thesis using fb sn wf by (auto simp: pending_def)
  qed
  have rest': "length rest' < 64" using compress_blocks_rest [of st rest] cb by simp
  have both: "compress_blocks st (take n1 buf @ rest) = (st', take n1 buf @ rest')"
    using cb filled by (cases "n1 = 0") (auto simp: compress_blocks_short)
  have len: "n1 + length rest' < 64"
    using compress_blocks_rest [of st "take n1 buf @ rest"] both filled by simp
  from len filled have "n1 + length rest' \<le> 64" "length buf = 64" by simp_all
  from buffer_rest_spec [OF this br]
  have b: "n2 < 64" "length buf' = 64" "take n2 buf' = take n1 buf @ rest'" using len by auto
  then show ?thesis using upd both filled wf(3) by (simp add: sha_wf_def pending_def)
qed

lemma sha_wf_reset: "sha_wf sha256_reset"
  by (simp add: sha_wf_def sha256_reset_def)

lemma pending_length_update:
  assumes "sha_wf h"
  shows "length (pending (sha256_update h [b])) = (h_len h + 1) mod 64"
proof -
  have "length (pending (sha256_update h [b])) = length (snd (compress_blocks (h_state h) (pending h @ [b])))"
    using update_spec [OF assms, of "[b]"] by (simp add: prod_eq_iff)
  also have "\<dots> = (h_len h + 1) mod 64"
    using assms by (simp add: compress_blocks_rest_length sha_wf_def pending_def)
  finally show ?thesis .
qed

lemma pad_zeros_spec:
  assumes "sha_wf h" "(h_len h + k) mod 64 = 56" "k < 64" "k \<le> fuel"
  shows "sha_wf (pad_zeros fuel h) \<and> h_len (pad_zeros fuel h) = 56
    \<and> (h_state (pad_zeros fuel h), pending (pad_zeros fuel h))
        = compress_blocks (h_state h) (pending h @ replicate k 0)"
  using assms
proof (induction k arbitrary: h fuel)
  case 0
  have short: "length (pending h) < 64" using 0 by (simp add: sha_wf_def pending_def)
  have "h_len h = 56" using 0 by (simp add: sha_wf_def)
  then have "pad_zeros fuel h = h" by (cases fuel) auto
  with 0 show ?case using compress_blocks_short [OF short] \<open>h_len h = 56\<close> by simp
next
  case (Suc k)
  obtain f where f: "fuel = Suc f" using Suc.prems by (cases fuel) auto
  have ne: "h_len h \<noteq> 56"
  proof
    assume "h_len h = 56"
    then have "(56 + Suc k) mod 64 = 56" using Suc.prems by simp
    then show False using Suc.prems(3) by (simp add: mod_if split: if_splits)
  qed
  let ?h = "sha256_update h [0]"
  note u = update_spec [OF Suc.prems(1), of "[0]"]
  have "length (pending ?h) = (h_len h + 1) mod 64"
    by (rule pending_length_update [OF Suc.prems(1)])
  then have "h_len ?h = (h_len h + 1) mod 64"
    using u by (simp add: sha_wf_def pending_def)
  then have "(h_len ?h + k) mod 64 = 56" using Suc.prems(2) by (simp add: mod_simps)
  from Suc.IH [OF conjunct1 [OF u] this, of f] Suc.prems(3,4) f ne
  have ih: "sha_wf (pad_zeros fuel h) \<and> h_len (pad_zeros fuel h) = 56
    \<and> (h_state (pad_zeros fuel h), pending (pad_zeros fuel h))
        = compress_blocks (h_state ?h) (pending ?h @ replicate k 0)"
    by simp
  moreover have "compress_blocks (h_state h) (pending h @ replicate (Suc k) 0)
      = compress_blocks (h_state ?h) (pending ?h @ replicate k 0)"
  proof -
    have split: "pending h @ replicate (Suc k) 0 = (pending h @ [0]) @ replicate k 0" by simp
    have one: "compress_blocks (h_state h) (pending h @ [0]) = (h_state ?h, pending ?h)"
      using u by (simp only:)
    show ?thesis
      unfolding split compress_blocks_append [of _ "pending h @ [0]" "replicate k 0"] one by simp
  qed
  ultimately show ?case by simp
qed

definition length_field :: "u64 \<Rightarrow> bytes" where
  "length_field n = rev (map (\<lambda>i. ucast (drop_bit (i * 8) n AND 0xFF)) [0..<8])"

definition sha256_pad :: "bytes \<Rightarrow> bytes" where
  "sha256_pad bs = bs @ [0x80] @ replicate ((119 - length bs mod 64) mod 64) 0
     @ length_field (of_nat (length bs) * 8)"

lemma pad_arith_small:
  fixes m :: nat
  assumes "m < 64"
  shows "((m + 1) mod 64 + (119 - m) mod 64) mod 64 = 56"
proof -
  consider "m < 56" | "56 \<le> m \<and> m < 63" | "m = 63" using assms by linarith
  then show ?thesis
  proof cases
    case 1
    then have "119 - m = 64 + (55 - m)" by arith
    moreover have "(64 + (55 - m)) mod 64 = 55 - m" by simp
    ultimately have "(119 - m) mod 64 = 55 - m" by (simp only:)
    then show ?thesis using 1 by simp
  next
    case 2
    then have "119 - m < 64" "m + 1 < 64" by arith+
    then have "(119 - m) mod 64 = 119 - m" "(m + 1) mod 64 = m + 1" by simp_all
    moreover have "m + 1 + (119 - m) = 120" using 2 by arith
    ultimately show ?thesis by simp
  qed simp
qed

lemma pad_arith: "((n mod 64 + 1) mod 64 + (119 - n mod 64) mod 64) mod 64 = (56 :: nat)"
  by (rule pad_arith_small) simp

lemma pad_length: "(n + 1 + (119 - n mod 64) mod 64 + 8) mod 64 = (0 :: nat)"
proof -
  let ?z = "(119 - n mod 64) mod 64"
  have "(n + 1) mod 64 = (n mod 64 + 1) mod 64" by (rule mod_add_left_eq [symmetric])
  moreover have "(n + 1 + ?z) mod 64 = ((n + 1) mod 64 + ?z) mod 64" by (rule mod_add_left_eq [symmetric])
  ultimately have "(n + 1 + ?z) mod 64 = 56" by (simp only: pad_arith)
  moreover have "(n + 1 + ?z + 8) mod 64 = ((n + 1 + ?z) mod 64 + 8) mod 64"
    by (rule mod_add_left_eq [symmetric])
  ultimately show ?thesis by simp
qed

lemma finalise_spec:
  assumes "sha_wf h" "compress_blocks sha256_initial msg = (h_state h, pending h)"
    "h_total h = of_nat (length msg)" "h_len h = length msg mod 64"
  shows "sha256_finalise h = concat (map store_big_endian_u32 (fst (compress_blocks sha256_initial (sha256_pad msg))))"
proof -
  let ?k = "(119 - length msg mod 64) mod 64"
  let ?h = "sha256_update h [0x80]"
  let ?p = "pad_zeros 64 ?h"
  note u = update_spec [OF assms(1), of "[0x80]"]
  have lp: "length (pending h) = h_len h" "h_len h < 64"
    using assms(1) by (auto simp: sha_wf_def pending_def)
  have "length (pending ?h) = (h_len h + 1) mod 64"
    by (rule pending_length_update [OF assms(1)])
  then have hl: "h_len ?h = (h_len h + 1) mod 64" using u by (simp add: sha_wf_def pending_def)
  have "(h_len ?h + ?k) mod 64 = 56"
    unfolding hl assms(4) by (rule pad_arith)
  from pad_zeros_spec [OF conjunct1 [OF u] this, of 64]
  have p: "sha_wf ?p" "h_len ?p = 56"
    "(h_state ?p, pending ?p) = compress_blocks (h_state ?h) (pending ?h @ replicate ?k 0)" by auto
  have pre: "compress_blocks sha256_initial (msg @ [0x80] @ replicate ?k 0) = (h_state ?p, pending ?p)"
  proof -
    have split: "pending h @ [0x80] @ replicate ?k 0 = (pending h @ [0x80]) @ replicate ?k 0" by simp
    have one: "compress_blocks (h_state h) (pending h @ [0x80]) = (h_state ?h, pending ?h)"
      using u by (simp only:)
    have "compress_blocks sha256_initial (msg @ [0x80] @ replicate ?k 0)
        = compress_blocks (h_state h) (pending h @ [0x80] @ replicate ?k 0)"
      unfolding compress_blocks_append [of _ msg "[0x80] @ replicate ?k 0"] assms(2) by simp
    then show ?thesis
      unfolding split compress_blocks_append [of _ "pending h @ [0x80]" "replicate ?k 0"] one
      using p(3) by simp
  qed
  have blk: "length (pending ?p @ length_field (of_nat (length msg) * 8)) = 64"
    using p(1,2) by (simp add: pending_def sha_wf_def length_field_def)
  have "compress_blocks sha256_initial (sha256_pad msg)
      = compress_blocks (h_state ?p) (pending ?p @ length_field (of_nat (length msg) * 8))"
    using pre compress_blocks_append [of sha256_initial "msg @ [0x80] @ replicate ?k 0"]
    by (simp add: sha256_pad_def)
  also have "\<dots> = (sha256_compress (h_state ?p) (pending ?p @ length_field (of_nat (length msg) * 8)), [])"
    using compress_blocks_block [OF blk, of "h_state ?p" "[]"] by (simp add: compress_blocks_short)
  finally show ?thesis
    using p(2) assms(3) by (simp add: sha256_finalise_def Let_def pending_def length_field_def)
qed

text \<open>What a hasher has absorbed; every way of feeding it keeps this.\<close>

definition absorbed :: "sha256_state \<Rightarrow> bytes \<Rightarrow> bool" where
  "absorbed h msg = (sha_wf h \<and> compress_blocks sha256_initial msg = (h_state h, pending h)
     \<and> h_total h = of_nat (length msg) \<and> h_len h = length msg mod 64)"

lemma absorbed_reset: "absorbed sha256_reset []"
  by (simp add: absorbed_def sha_wf_reset compress_blocks_short) (simp add: sha256_reset_def pending_def)

lemma absorbed_update: "absorbed h msg \<Longrightarrow> absorbed (sha256_update h bs) (msg @ bs)"
proof -
  assume a: "absorbed h msg"
  then have wf: "sha_wf h" by (simp add: absorbed_def)
  note u = update_spec [OF wf, of bs]
  have cb: "compress_blocks sha256_initial (msg @ bs) = (h_state (sha256_update h bs), pending (sha256_update h bs))"
    using a u compress_blocks_append [of sha256_initial msg bs] by (simp add: absorbed_def)
  have "h_len (sha256_update h bs) = length (pending (sha256_update h bs))"
    using u by (simp add: sha_wf_def pending_def)
  also have "\<dots> = length (msg @ bs) mod 64"
    using compress_blocks_rest_length [of sha256_initial "msg @ bs"] unfolding cb by simp
  finally show ?thesis
    using a u cb by (simp add: absorbed_def)
qed

lemma absorbed_digest:
  "absorbed h msg \<Longrightarrow> sha256_finalise h
     = concat (map store_big_endian_u32 (fst (compress_blocks sha256_initial (sha256_pad msg))))"
  by (simp add: absorbed_def finalise_spec)

text \<open>C18. However the input is cut into calls, the digest is that of the FIPS 180-4 padded
  message, compressed block after block, and the padded message is a whole number of blocks.\<close>

theorem sha256_chunks:
  "sha256_finalise (foldl sha256_update sha256_reset parts) = sha256 (concat parts)
   \<and> sha256 msg = concat (map store_big_endian_u32 (fst (compress_blocks sha256_initial (sha256_pad msg))))
   \<and> length (sha256_pad msg) mod 64 = 0"
proof -
  have "absorbed (foldl sha256_update h parts) (m @ concat parts)" if "absorbed h m" for h m
    using that
  proof (induction parts arbitrary: h m)
    case (Cons p ps)
    from Cons.IH [OF absorbed_update [OF Cons.prems, of p]] show ?case by simp
  qed simp
  from this [OF absorbed_reset] have c: "absorbed (foldl sha256_update sha256_reset parts) (concat parts)"
    by simp
  have one: "absorbed (sha256_update sha256_reset m) m" for m
    using absorbed_update [OF absorbed_reset, of m] by simp
  have "length (sha256_pad msg) = length msg + 1 + (119 - length msg mod 64) mod 64 + 8"
    by (simp add: sha256_pad_def length_field_def)
  then have "length (sha256_pad msg) mod 64 = 0" by (simp only: pad_length)
  then show ?thesis
    using absorbed_digest [OF c] absorbed_digest [OF one] by (simp add: sha256_def)
qed

section \<open>The CRC table is bitwise division\<close>

lemma crc_bit_xor: "crc_bit (x XOR y) = crc_bit x XOR crc_bit y"
proof -
  have b: "z AND 1 \<noteq> 0 \<longleftrightarrow> bit z 0" for z :: u32
    by (simp add: and_one_eq bit_0 odd_iff_mod_2_eq_one)
  have d: "drop_bit 1 (x XOR y) = drop_bit 1 x XOR drop_bit 1 y" by (rule drop_bit_xor)
  show ?thesis unfolding crc_bit_def b d bit_xor_iff
    by (auto simp: xor.assoc xor.left_commute xor.commute)
qed

lemma crc_bits_xor: "(crc_bit ^^ n) (x XOR y) = (crc_bit ^^ n) x XOR (crc_bit ^^ n) y"
  by (induction n) (simp_all add: crc_bit_xor)

lemma crc_bits_high: "take_bit n y = 0 \<Longrightarrow> (crc_bit ^^ n) y = drop_bit n y" for y :: u32
proof (induction n arbitrary: y)
  case (Suc n)
  have "take_bit n y = take_bit n (take_bit (Suc n) y)" by (simp add: min_def)
  then have "take_bit n y = 0" using Suc.prems by simp
  from Suc.IH [OF this] have "(crc_bit ^^ Suc n) y = crc_bit (drop_bit n y)" by simp
  moreover have "bit y n = bit (take_bit (Suc n) y) n" by (simp add: bit_take_bit_iff)
  then have "\<not> bit y n" using Suc.prems by simp
  then have "drop_bit n y AND 1 = 0"
    by (simp add: and_one_eq bit_iff_odd_drop_bit even_iff_mod_2_eq_zero)
  then have "crc_bit (drop_bit n y) = drop_bit 1 (drop_bit n y)" by (simp add: crc_bit_def)
  ultimately show ?case by (simp add: drop_bit_drop_bit)
qed simp

lemma crc32c_step_bits: "crc32c_step crc b = (crc_bit ^^ 8) (crc XOR ucast b)"
proof -
  let ?x = "crc XOR ucast b"
  let ?lo = "?x AND 0xFF"
  let ?hi = "push_bit 8 (drop_bit 8 ?x)"
  have m: "(0xFF :: u32) = mask 8" by (simp add: mask_eq_exp_minus_1)
  have lo: "?lo = take_bit 8 ?x" unfolding m by (simp only: take_bit_eq_mask)
  have split: "?x = ?lo XOR ?hi"
  proof (rule bit_word_eqI)
    fix n assume "n < LENGTH(32)"
    then show "bit ?x n = bit (?lo XOR ?hi) n"
      by (cases "n < 8") (auto simp: lo bit_xor_iff bit_take_bit_iff bit_push_bit_iff bit_drop_bit_eq not_less)
  qed
  have "unat ?lo < 256"
    unfolding lo by (simp add: unsigned_take_bit_eq take_bit_eq_mod unat_mod)
  then have t: "crc32c_table ! unat ?lo = (crc_bit ^^ 8) ?lo"
    by (simp add: crc32c_table_def del: upt_rec_numeral)
  have "take_bit 8 (push_bit 8 z) = 0" for z :: u32
    by (rule bit_word_eqI) (simp add: bit_take_bit_iff bit_push_bit_iff)
  then have "take_bit 8 ?hi = 0" .
  then have "(crc_bit ^^ 8) ?hi = drop_bit 8 ?hi" by (rule crc_bits_high)
  also have "drop_bit 8 ?hi = drop_bit 8 crc"
    by (rule bit_word_eqI)
      (auto simp: bit_drop_bit_eq bit_push_bit_iff bit_xor_iff bit_ucast_iff dest: bit_imp_le_length)
  finally have "(crc_bit ^^ 8) ?x = (crc_bit ^^ 8) ?lo XOR drop_bit 8 crc"
    by (subst split) (simp add: crc_bits_xor)
  then show ?thesis using t by (simp add: crc32c_step_def)
qed

text \<open>C19. The table-driven CRC-32C is the bit-by-bit division by the reflected Castagnoli
  polynomial.\<close>

theorem crc32c_bitwise:
  "crc32c bs = foldl (\<lambda>crc b. (crc_bit ^^ 8) (crc XOR ucast b)) 0xFFFFFFFF bs XOR 0xFFFFFFFF"
proof -
  have "crc32c_step = (\<lambda>crc b. (crc_bit ^^ 8) (crc XOR ucast b))"
    by (intro ext) (rule crc32c_step_bits)
  then show ?thesis by (simp only: crc32c_def)
qed

end
