(* ===== verification/Identity.thy ===== *)
theory Identity
  imports Bytes
begin

text \<open>
  Tagged identifiers, counters, incarnations and provenance
  (\<^verbatim>\<open>include/cif/identity.hpp\<close>, \<^verbatim>\<open>src/identity.cpp\<close>) with their canonical codecs.
  An identifier is the string it holds (empty: absent); the phantom tags have no
  run-time content. A counter is its 64-bit value. An incarnation is its 16 bytes.
  \<^verbatim>\<open>IncarnationBits::generate\<close> draws on operating-system entropy: where a fresh
  incarnation is needed it is an argument.
\<close>

section \<open>Identifiers\<close>

definition is_valid_id :: "string \<Rightarrow> bool" where
  "is_valid_id s = is_valid_identifier s kMaxIdentifierBytes"

definition id_parse :: "string \<Rightarrow> string option" where
  "id_parse s = (if \<not> is_valid_id s then None else Some s)"

definition id_from_validated :: "string \<Rightarrow> string" where
  "id_from_validated s = (if is_valid_id s then s else [])"

definition encode_id :: "string \<Rightarrow> bytes" where
  "encode_id s = w_text s"

definition decode_id :: "string rd" where
  "decode_id = rd_bind (rd_text kMaxIdentifierBytes) (\<lambda>raw.
     if raw = [] then rd_return []
     else case id_parse raw of
       None \<Rightarrow> rd_fail ScCorruption ''identifier does not satisfy the CIF identifier grammar''
     | Some s \<Rightarrow> rd_return s)"

section \<open>Counters\<close>

definition can_advance :: "u64 \<Rightarrow> bool" where
  "can_advance c = (c \<noteq> u64_max)"

text \<open>Saturating increment.\<close>

definition advanced :: "u64 \<Rightarrow> u64" where
  "advanced c = (if c = u64_max then u64_max else c + 1)"

definition encode_counter :: "u64 \<Rightarrow> bytes" where
  "encode_counter c = w_u64 c"

definition decode_counter :: "u64 rd" where
  "decode_counter = rd_bind rd_u64 (\<lambda>raw. rd_return raw)"

section \<open>Incarnations\<close>

definition splitmix64 :: "u64 \<Rightarrow> u64 \<times> u64" where
  "splitmix64 state0 = (
     let state = state0 + 0x9E3779B97F4A7C15;
         z1 = (state XOR drop_bit 30 state) * 0xBF58476D1CE4E5B9;
         z2 = (z1 XOR drop_bit 27 z1) * 0x94D049BB133111EB
     in (z2 XOR drop_bit 31 z2, state))"

definition incarnation_is_zero :: "bytes \<Rightarrow> bool" where
  "incarnation_is_zero bs = list_all (\<lambda>b. b = 0) bs"

definition incarnation_from_seed :: "u64 \<Rightarrow> bytes" where
  "incarnation_from_seed seed = (
     let (c0, s1) = splitmix64 seed; (c1, s2) = splitmix64 s1;
         bs = w_u64 c0 @ w_u64 c1
     in if incarnation_is_zero bs then bs[15 := 1] else bs)"

definition incarnation_parse :: "string \<Rightarrow> bytes option" where
  "incarnation_parse hex = (if length hex \<noteq> 32 then None else hex_pairs hex)"

definition incarnation_hex :: "bytes \<Rightarrow> string" where
  "incarnation_hex bs = hex_encode bs"

definition encode_incarnation :: "bytes \<Rightarrow> bytes" where
  "encode_incarnation bs = w_raw bs"

definition decode_incarnation :: "bytes rd" where
  "decode_incarnation = rd_bind (rd_raw 16) (\<lambda>view.
     case incarnation_parse (hex_encode view) of
       None \<Rightarrow> (\<lambda>r. (None, r))
     | Some bits \<Rightarrow> rd_return bits)"

section \<open>Provenance and controller identity\<close>

record provenance =
  pv_client :: string
  pv_origin :: string
  pv_correlation_id :: string
  pv_ingress_sequence :: u64
  pv_observed_tick :: u64

definition no_provenance :: provenance where
  "no_provenance = \<lparr>pv_client = [], pv_origin = [], pv_correlation_id = [],
     pv_ingress_sequence = 0, pv_observed_tick = 0\<rparr>"

definition encode_provenance :: "provenance \<Rightarrow> bytes" where
  "encode_provenance p =
     encode_id (pv_client p) @ w_text (pv_origin p) @ w_text (pv_correlation_id p)
     @ w_u64 (pv_ingress_sequence p) @ encode_counter (pv_observed_tick p)"

definition decode_provenance :: "provenance rd" where
  "decode_provenance =
     rd_bind decode_id (\<lambda>client.
     rd_bind (rd_text kMaxIdentifierBytes) (\<lambda>origin.
     rd_bind (rd_text kMaxIdentifierBytes) (\<lambda>correlation_id.
     rd_bind rd_u64 (\<lambda>ingress_sequence.
     rd_bind decode_counter (\<lambda>observed_tick.
     if \<not> is_valid_utf8 origin \<or> \<not> is_valid_utf8 correlation_id
     then rd_fail ScCorruption ''provenance text is not valid UTF-8''
     else rd_return \<lparr>pv_client = client, pv_origin = origin, pv_correlation_id = correlation_id,
            pv_ingress_sequence = ingress_sequence, pv_observed_tick = observed_tick\<rparr>)))))"

record controller_identity =
  ci_cluster :: string
  ci_generation :: u64
  ci_epoch :: u64
  ci_policy :: u64
  ci_incarnation :: bytes

definition encode_controller_identity :: "controller_identity \<Rightarrow> bytes" where
  "encode_controller_identity c =
     encode_id (ci_cluster c) @ encode_counter (ci_generation c) @ encode_counter (ci_epoch c)
     @ encode_counter (ci_policy c) @ encode_incarnation (ci_incarnation c)"

section \<open>Lemmas\<close>

definition id_ok :: "string \<Rightarrow> bool" where
  "id_ok s = (s = [] \<or> is_valid_id s)"

definition provenance_ok :: "provenance \<Rightarrow> bool" where
  "provenance_ok p = (id_ok (pv_client p)
     \<and> length (pv_origin p) \<le> kMaxIdentifierBytes \<and> is_valid_utf8 (pv_origin p)
     \<and> length (pv_correlation_id p) \<le> kMaxIdentifierBytes \<and> is_valid_utf8 (pv_correlation_id p))"

lemma id_ok_Nil [simp]: "id_ok []"
  by (simp add: id_ok_def)

lemma valid_id_nonempty: "is_valid_id s \<Longrightarrow> s \<noteq> []"
  by (auto simp: is_valid_id_def is_valid_identifier_def)

lemma valid_id_length: "is_valid_id s \<Longrightarrow> length s \<le> kMaxIdentifierBytes"
  by (auto simp: is_valid_id_def is_valid_identifier_def split: if_splits)

lemma reads_id [reads_intros]: "id_ok s \<Longrightarrow> reads decode_id (encode_id s) s"
  unfolding decode_id_def encode_id_def
  by (rule reads_bind_Nil [OF reads_text])
    (auto simp: id_ok_def valid_id_length limit_defs id_parse_def valid_id_nonempty
      dest: valid_id_length intro!: reads_return)

lemma reads_counter [reads_intros]: "reads decode_counter (encode_counter c) c"
  unfolding decode_counter_def encode_counter_def
  by (rule reads_bind_Nil [OF reads_u64]) (simp add: reads_return)

lemma hex_pairs_hex_encode: "hex_pairs (hex_encode bs) = Some bs"
proof -
  have "length (hex_encode bs) mod 2 = 0"
    by (induction bs) (auto simp: hex_encode_def)
  then show ?thesis using hex_round_trip [of bs] by (simp add: hex_decode_def)
qed

lemma length_hex_encode: "length (hex_encode bs) = 2 * length bs"
  by (induction bs) (auto simp: hex_encode_def)

lemma incarnation_parse_hex:
  "length bs = 16 \<Longrightarrow> incarnation_parse (hex_encode bs) = Some bs"
  by (simp add: incarnation_parse_def hex_pairs_hex_encode length_hex_encode)

lemma reads_incarnation [reads_intros]:
  "length bs = 16 \<Longrightarrow> reads decode_incarnation (encode_incarnation bs) bs"
  unfolding decode_incarnation_def encode_incarnation_def w_raw_def
  by (rule reads_bind_Nil [OF reads_raw]) (simp_all add: incarnation_parse_hex reads_return)

lemma reads_provenance [reads_intros]:
  assumes "provenance_ok p"
  shows "reads decode_provenance (encode_provenance p) p"
  using assms unfolding decode_provenance_def encode_provenance_def provenance_ok_def
  by (intro reads_bind) ((rule reads_bind reads_intros reads_bind_Nil; simp add: limit_defs)+)

lemma unat_max_iff: "c = u64_max \<longleftrightarrow> unat c = 2 ^ 64 - 1"
  by (simp add: word_unat_eq_iff unat_u64_max)

lemma unat_advanced: "can_advance c \<Longrightarrow> unat (advanced c) = unat c + 1"
proof -
  assume "can_advance c"
  then have "unat c \<noteq> 2 ^ 64 - 1" by (simp add: can_advance_def unat_max_iff)
  moreover have "unat c < 2 ^ 64" using unsigned_less [of c, where ?'a = nat] by simp
  ultimately have "unat c + 1 < 2 ^ 64" by simp
  then show ?thesis using \<open>can_advance c\<close>
    by (simp add: advanced_def can_advance_def unat_word_ariths)
qed

lemma advanced_less: "can_advance c \<Longrightarrow> c < advanced c"
  by (simp add: word_less_nat_alt unat_advanced)

lemma advanced_le: "c \<le> advanced c"
  by (cases "can_advance c") (simp_all add: word_le_nat_alt unat_advanced, simp add: advanced_def can_advance_def)

end
