(* ===== verification/Tables.thy ===== *)
theory Tables
  imports Text
begin

text \<open>
  The id-sorted tables of the program. Members, paths, exclusions, obligations,
  contracts, grants and attempts all live in vectors sorted by identifier, searched
  with \<^verbatim>\<open>std::lower_bound\<close> (the first position whose key is not below the one
  looked for; the code's comparisons are the byte-lexicographic order of
  \<^verbatim>\<open>std::string\<close>) and changed by \<^verbatim>\<open>insert\<close> and \<^verbatim>\<open>erase\<close> at that position. The
  locale states what a client may rely on; it is interpreted on these operations.
\<close>

section \<open>Operations\<close>

definition lower_bound_index :: "('a \<Rightarrow> string) \<Rightarrow> 'a list \<Rightarrow> string \<Rightarrow> nat" where
  "lower_bound_index key xs k = length (takeWhile (\<lambda>e. key e < k) xs)"

definition present_at :: "('a \<Rightarrow> string) \<Rightarrow> 'a list \<Rightarrow> string \<Rightarrow> nat \<Rightarrow> bool" where
  "present_at key xs k i = (i < length xs \<and> key (xs ! i) = k)"

definition find_index :: "('a \<Rightarrow> string) \<Rightarrow> 'a list \<Rightarrow> string \<Rightarrow> nat option" where
  "find_index key xs k =
     (let i = lower_bound_index key xs k in if present_at key xs k i then Some i else None)"

definition find_sorted :: "('a \<Rightarrow> string) \<Rightarrow> 'a list \<Rightarrow> string \<Rightarrow> 'a option" where
  "find_sorted key xs k = map_option ((!) xs) (find_index key xs k)"

definition insert_at :: "nat \<Rightarrow> 'a \<Rightarrow> 'a list \<Rightarrow> 'a list" where
  "insert_at i x xs = take i xs @ x # drop i xs"

definition erase_at :: "nat \<Rightarrow> 'a list \<Rightarrow> 'a list" where
  "erase_at i xs = take i xs @ drop (i + 1) xs"

text \<open>Replace the entry with this key, or insert it at its place.\<close>

definition table_put :: "('a \<Rightarrow> string) \<Rightarrow> 'a \<Rightarrow> 'a list \<Rightarrow> 'a list" where
  "table_put key x xs =
     (let i = lower_bound_index key xs (key x) in
      if present_at key xs (key x) i then xs[i := x] else insert_at i x xs)"

definition table_remove :: "('a \<Rightarrow> string) \<Rightarrow> string \<Rightarrow> 'a list \<Rightarrow> 'a list" where
  "table_remove key k xs =
     (let i = lower_bound_index key xs k in if present_at key xs k i then erase_at i xs else xs)"

definition sorted_by :: "('a \<Rightarrow> string) \<Rightarrow> 'a list \<Rightarrow> bool" where
  "sorted_by key xs = sorted_wrt (<) (map key xs)"

section \<open>Lemmas\<close>

lemma sorted_by_Nil [simp]: "sorted_by key []"
  by (simp add: sorted_by_def)

lemma sorted_by_Cons: "sorted_by key (x # xs) \<longleftrightarrow> (\<forall>y\<in>set xs. key x < key y) \<and> sorted_by key xs"
  by (auto simp: sorted_by_def)

lemma sorted_by_append:
  "sorted_by key (xs @ ys) \<longleftrightarrow>
    sorted_by key xs \<and> sorted_by key ys \<and> (\<forall>x\<in>set xs. \<forall>y\<in>set ys. key x < key y)"
  by (auto simp: sorted_by_def sorted_wrt_append)

lemma sorted_by_distinct: "sorted_by key xs \<Longrightarrow> distinct (map key xs)"
  unfolding sorted_by_def by (induction xs) auto

lemma sorted_by_update:
  "sorted_by key xs \<Longrightarrow> i < length xs \<Longrightarrow> key x = key (xs ! i) \<Longrightarrow> sorted_by key (xs[i := x])"
  unfolding sorted_by_def by (metis list_update_id map_update)

lemma sorted_by_nth_inj:
  "sorted_by key xs \<Longrightarrow> i < length xs \<Longrightarrow> j < length xs \<Longrightarrow> key (xs ! i) = key (xs ! j) \<Longrightarrow> i = j"
  using sorted_by_distinct [of key xs] by (simp add: distinct_conv_nth) (metis nth_map)

lemma lower_bound_le [simp]: "lower_bound_index key xs k \<le> length xs"
  by (simp add: lower_bound_index_def length_takeWhile_le)

lemma take_lower_bound: "take (lower_bound_index key xs k) xs = takeWhile (\<lambda>e. key e < k) xs"
  by (simp add: lower_bound_index_def) (metis takeWhile_eq_take)

lemma drop_lower_bound: "drop (lower_bound_index key xs k) xs = dropWhile (\<lambda>e. key e < k) xs"
  by (simp add: lower_bound_index_def) (metis dropWhile_eq_drop)

lemma below_bound: "e \<in> set (take (lower_bound_index key xs k) xs) \<Longrightarrow> key e < k"
  by (simp add: take_lower_bound) (metis set_takeWhileD)

lemma not_below_bound:
  "sorted_by key xs \<Longrightarrow> e \<in> set (drop (lower_bound_index key xs k) xs) \<Longrightarrow> k \<le> key e"
  unfolding drop_lower_bound
proof (induction xs)
  case (Cons x xs)
  show ?case
  proof (cases "key x < k")
    case False
    then have "k \<le> key x" by simp
    then show ?thesis using Cons.prems False by (auto simp: sorted_by_Cons)
  qed (use Cons in \<open>auto simp: sorted_by_Cons\<close>)
qed simp

text \<open>Searching finds the one entry with the key, when there is one.\<close>

lemma present_iff:
  assumes "sorted_by key xs"
  shows "present_at key xs k (lower_bound_index key xs k) \<longleftrightarrow> (\<exists>e\<in>set xs. key e = k)"
proof
  assume "present_at key xs k (lower_bound_index key xs k)"
  then show "\<exists>e\<in>set xs. key e = k" by (auto simp: present_at_def)
next
  assume "\<exists>e\<in>set xs. key e = k"
  then obtain e where e: "e \<in> set xs" "key e = k" by blast
  let ?i = "lower_bound_index key xs k"
  have "e \<notin> set (take ?i xs)" using below_bound [of e key xs k] e(2) by auto
  then have d: "e \<in> set (drop ?i xs)" using e(1) by (metis UnE append_take_drop_id set_append)
  then have lt: "?i < length xs" by (metis drop_all empty_iff list.set(1) not_less)
  then have hd: "drop ?i xs = xs ! ?i # drop (Suc ?i) xs" by (simp add: Cons_nth_drop_Suc)
  have sd: "sorted_by key (drop ?i xs)"
    using assms unfolding sorted_by_def drop_map [symmetric] by (rule sorted_wrt_drop)
  have le: "k \<le> key (xs ! ?i)" using not_below_bound [OF assms, of "xs ! ?i" k] hd by simp
  have "key (xs ! ?i) \<le> k" using sd d e(2) unfolding hd sorted_by_Cons by auto
  with le lt show "present_at key xs k ?i" by (simp add: present_at_def)
qed

lemma find_index_Some:
  "find_index key xs k = Some i \<Longrightarrow> i < length xs \<and> key (xs ! i) = k"
  by (auto simp: find_index_def Let_def present_at_def split: if_splits)

lemma find_index_iff:
  assumes "sorted_by key xs"
  shows "find_index key xs k = Some i \<longleftrightarrow> i < length xs \<and> key (xs ! i) = k"
proof
  assume *: "i < length xs \<and> key (xs ! i) = k"
  then have "present_at key xs k (lower_bound_index key xs k)"
    using present_iff [OF assms] by (metis nth_mem)
  then show "find_index key xs k = Some i"
    using sorted_by_nth_inj [OF assms] * by (auto simp: find_index_def present_at_def)
qed (rule find_index_Some)

lemma find_index_None:
  "sorted_by key xs \<Longrightarrow> find_index key xs k = None \<longleftrightarrow> k \<notin> key ` set xs"
  using present_iff [of key xs k] by (auto simp: find_index_def Let_def)

lemma find_sorted_iff:
  "sorted_by key xs \<Longrightarrow> find_sorted key xs k = Some e \<longleftrightarrow> e \<in> set xs \<and> key e = k"
  by (auto simp: find_sorted_def find_index_iff in_set_conv_nth)

lemma find_sorted_Some: "find_sorted key xs k = Some e \<Longrightarrow> e \<in> set xs \<and> key e = k"
  by (auto simp: find_sorted_def dest: find_index_Some)

lemma find_sorted_None:
  "sorted_by key xs \<Longrightarrow> find_sorted key xs k = None \<longleftrightarrow> k \<notin> key ` set xs"
  by (simp add: find_sorted_def find_index_None)

lemma set_insert_at: "set (insert_at i x xs) = insert x (set xs)"
  unfolding insert_at_def by (metis append_take_drop_id list.simps(15) set_append Un_insert_right)

lemma length_insert_at [simp]: "length (insert_at i x xs) = Suc (length xs)"
  by (simp add: insert_at_def)

lemma sorted_insert_at:
  assumes "sorted_by key xs" "\<not> present_at key xs (key x) (lower_bound_index key xs (key x))"
  shows "sorted_by key (insert_at (lower_bound_index key xs (key x)) x xs)"
proof -
  let ?i = "lower_bound_index key xs (key x)"
  have parts: "sorted_by key (take ?i xs)" "sorted_by key (drop ?i xs)"
    "\<forall>a\<in>set (take ?i xs). \<forall>b\<in>set (drop ?i xs). key a < key b"
    using assms(1) sorted_by_append [of key "take ?i xs" "drop ?i xs"] by simp_all
  have "key x < key b" if "b \<in> set (drop ?i xs)" for b
  proof -
    have "key b \<noteq> key x" using assms present_iff [OF assms(1)] in_set_dropD [OF that] by blast
    then show ?thesis using not_below_bound [OF assms(1) that] by auto
  qed
  then show ?thesis
    using parts below_bound [of _ key xs "key x"]
    by (auto simp: insert_at_def sorted_by_append sorted_by_Cons)
qed

lemma sorted_table_put: "sorted_by key xs \<Longrightarrow> sorted_by key (table_put key x xs)"
  by (auto simp: table_put_def Let_def sorted_insert_at present_at_def intro: sorted_by_update)

lemma set_table_put:
  assumes "sorted_by key xs"
  shows "set (table_put key x xs) = insert x {e \<in> set xs. key e \<noteq> key x}"
proof -
  let ?i = "lower_bound_index key xs (key x)"
  show ?thesis
  proof (cases "present_at key xs (key x) ?i")
    case True
    then have i: "?i < length xs" "key (xs ! ?i) = key x" by (auto simp: present_at_def)
    have "set (xs[?i := x]) = insert x (set xs - {xs ! ?i})"
      using set_update_distinct [of xs ?i x] i(1) sorted_by_distinct [OF assms] distinct_map by blast
    also have "b = xs ! ?i \<longleftrightarrow> key b = key x" if "b \<in> set xs" for b
      using that i sorted_by_nth_inj [OF assms _ i(1)] by (metis in_set_conv_nth)
    then have "set xs - {xs ! ?i} = {e \<in> set xs. key e \<noteq> key x}" by auto
    finally show ?thesis using True by (simp add: table_put_def Let_def)
  next
    case False
    then have "{e \<in> set xs. key e \<noteq> key x} = set xs" using present_iff [OF assms, of "key x"] by auto
    then show ?thesis using False by (simp add: table_put_def Let_def set_insert_at)
  qed
qed

lemma sorted_erase_at:
  assumes "sorted_by key xs"
  shows "sorted_by key (erase_at i xs)"
proof (cases "i < length xs")
  case True
  have "sorted_by key (take i xs @ xs ! i # drop (i + 1) xs)"
    using assms id_take_nth_drop [OF True] by simp
  then show ?thesis by (auto simp: erase_at_def sorted_by_append sorted_by_Cons)
qed (use assms in \<open>simp add: erase_at_def\<close>)

lemma set_erase_at:
  assumes "sorted_by key xs" "i < length xs"
  shows "set (erase_at i xs) = {e \<in> set xs. key e \<noteq> key (xs ! i)}"
proof -
  have xs: "xs = take i xs @ xs ! i # drop (i + 1) xs"
    using id_take_nth_drop [OF assms(2)] by simp
  have s: "sorted_by key (take i xs @ xs ! i # drop (i + 1) xs)" using assms(1) xs by simp
  have "{e \<in> set (take i xs @ xs ! i # drop (i + 1) xs). key e \<noteq> key (xs ! i)} = set (erase_at i xs)"
    using s by (auto simp: sorted_by_append sorted_by_Cons erase_at_def)
  then show ?thesis by (simp only: xs [symmetric])
qed

lemma set_table_remove:
  assumes "sorted_by key xs"
  shows "set (table_remove key k xs) = {e \<in> set xs. key e \<noteq> k}"
proof -
  let ?i = "lower_bound_index key xs k"
  show ?thesis
  proof (cases "present_at key xs k ?i")
    case True
    then show ?thesis
      using set_erase_at [OF assms, of ?i] by (simp add: table_remove_def Let_def present_at_def)
  next
    case False
    then show ?thesis using present_iff [OF assms, of k] by (auto simp: table_remove_def Let_def)
  qed
qed

lemma sorted_table_remove: "sorted_by key xs \<Longrightarrow> sorted_by key (table_remove key k xs)"
  by (simp add: table_remove_def Let_def sorted_erase_at)

lemma find_sorted_cong:
  assumes "sorted_by key xs" "sorted_by key ys"
    "\<And>e. key e = k \<Longrightarrow> e \<in> set xs \<longleftrightarrow> e \<in> set ys"
  shows "find_sorted key xs k = find_sorted key ys k"
proof (cases "find_sorted key ys k")
  case None
  then have "k \<notin> key ` set xs" using assms find_sorted_None [OF assms(2), of k] by auto
  then show ?thesis using None find_sorted_None [OF assms(1), of k] by simp
next
  case (Some e)
  then have "e \<in> set ys" "key e = k" by (simp_all add: find_sorted_iff [OF assms(2)])
  then have "find_sorted key xs k = Some e" using assms(3) by (simp add: find_sorted_iff [OF assms(1)])
  then show ?thesis using Some by simp
qed

lemma find_sorted_put:
  assumes "sorted_by key xs"
  shows "find_sorted key (table_put key x xs) k = (if k = key x then Some x else find_sorted key xs k)"
proof (cases "k = key x")
  case True
  then show ?thesis
    using find_sorted_iff [OF sorted_table_put [OF assms, of x], of k x] set_table_put [OF assms, of x] by simp
next
  case False
  then show ?thesis
    using find_sorted_cong [OF sorted_table_put [OF assms, of x] assms, of k] set_table_put [OF assms, of x] False
    by auto
qed

lemma find_sorted_remove:
  assumes "sorted_by key xs"
  shows "find_sorted key (table_remove key k xs) k' = (if k' = k then None else find_sorted key xs k')"
proof (cases "k' = k")
  case True
  then show ?thesis
    using find_sorted_None [OF sorted_table_remove [OF assms, of k], of k'] set_table_remove [OF assms, of k]
    by auto
next
  case False
  then show ?thesis
    using find_sorted_cong [OF sorted_table_remove [OF assms, of k] assms, of k'] set_table_remove [OF assms, of k] False
    by auto
qed

section \<open>The interface of a keyed table\<close>

locale keyed_table =
  fixes key :: "'a \<Rightarrow> string"
    and inv :: "'t \<Rightarrow> bool"
    and empty :: 't
    and lookup :: "'t \<Rightarrow> string \<Rightarrow> 'a option"
    and put :: "'a \<Rightarrow> 't \<Rightarrow> 't"
    and remove :: "string \<Rightarrow> 't \<Rightarrow> 't"
  assumes inv_empty: "inv empty"
    and lookup_empty: "lookup empty k = None"
    and inv_put: "inv t \<Longrightarrow> inv (put x t)"
    and inv_remove: "inv t \<Longrightarrow> inv (remove k t)"
    and lookup_put: "inv t \<Longrightarrow> lookup (put x t) k = (if k = key x then Some x else lookup t k)"
    and lookup_remove: "inv t \<Longrightarrow> lookup (remove k t) k' = (if k' = k then None else lookup t k')"
begin

definition put_all :: "'a list \<Rightarrow> 't \<Rightarrow> 't" where
  "put_all xs t = foldl (\<lambda>t x. put x t) t xs"

lemma inv_put_all: "inv t \<Longrightarrow> inv (put_all xs t)"
  unfolding put_all_def by (induction xs arbitrary: t) (auto simp: inv_put)

lemma put_put: "inv t \<Longrightarrow> key x = key y \<Longrightarrow> lookup (put x (put y t)) k = lookup (put x t) k"
  by (simp add: lookup_put inv_put)

lemma put_commute:
  "inv t \<Longrightarrow> key x \<noteq> key y \<Longrightarrow> lookup (put x (put y t)) k = lookup (put y (put x t)) k"
  by (simp add: lookup_put inv_put)

lemma remove_put: "inv t \<Longrightarrow> lookup (remove (key x) (put x t)) k = lookup (remove (key x) t) k"
  by (simp add: lookup_put lookup_remove inv_put inv_remove)

lemma lookup_put_all:
  assumes "inv t" "distinct (map key xs)" "x \<in> set xs"
  shows "lookup (put_all xs t) (key x) = Some x"
  using assms
proof (induction xs arbitrary: t)
  case (Cons y ys)
  have other: "lookup (put_all ys s) (key y) = lookup s (key y)"
    if "inv s" "key y \<notin> key ` set ys" for s
    using that unfolding put_all_def
    by (induction ys arbitrary: s) (auto simp: lookup_put inv_put)
  show ?case
  proof (cases "x = y")
    case True
    then show ?thesis using Cons.prems other [of "put y t"]
      by (auto simp: put_all_def lookup_put inv_put)
  next
    case False
    then show ?thesis using Cons.IH [of "put y t"] Cons.prems by (auto simp: put_all_def inv_put)
  qed
qed simp

end

interpretation sorted_table: keyed_table key "sorted_by key" "[]" "find_sorted key" "table_put key" "table_remove key"
  for key :: "'a \<Rightarrow> string"
proof
  fix t :: "'a list" and x :: 'a and k k' :: string
  assume inv: "sorted_by key t"
  show "sorted_by key (table_put key x t)" "sorted_by key (table_remove key k t)"
    using inv by (simp_all add: sorted_table_put sorted_table_remove)
  show "find_sorted key (table_put key x t) k = (if k = key x then Some x else find_sorted key t k)"
    by (rule find_sorted_put [OF inv])
  show "find_sorted key (table_remove key k t) k' = (if k' = k then None else find_sorted key t k')"
    by (rule find_sorted_remove [OF inv])
qed (simp_all add: find_sorted_def find_index_def present_at_def)

end
