(* ===== verification/Model.thy ===== *)
theory Model
  imports Hash Identity Tables
begin

text \<open>
  The cluster model (\<^verbatim>\<open>include/cif/model.hpp\<close>, \<^verbatim>\<open>src/model.cpp\<close>): localities and
  failure domains, members with their endpoints and resources, topology paths,
  maintenance exclusions, capacity obligations, and the cluster specification that
  holds them in id-sorted tables together with the controller's coordinate
  (generation, epoch, policy, incarnation, tick). Every mutator returns its status
  and the specification it leaves, also when it fails.
\<close>

section \<open>Enumerations\<close>

datatype member_lifecycle =
    LcEnlisted | LcActive | LcDraining | LcMaintenance | LcFaulted | LcPartitioned | LcRemoved

datatype path_state = PsOperational | PsDegraded | PsDown | PsMaintenance | PsUnknown

datatype maintenance_mode = MmRefuse | MmDegrade | MmAllow

definition member_lifecycles :: "member_lifecycle list" where
  "member_lifecycles = [LcEnlisted, LcActive, LcDraining, LcMaintenance, LcFaulted, LcPartitioned, LcRemoved]"

definition path_states :: "path_state list" where
  "path_states = [PsOperational, PsDegraded, PsDown, PsMaintenance, PsUnknown]"

definition maintenance_modes :: "maintenance_mode list" where
  "maintenance_modes = [MmRefuse, MmDegrade, MmAllow]"

primrec lifecycle_to_string :: "member_lifecycle \<Rightarrow> string" where
  "lifecycle_to_string LcEnlisted = ''ENLISTED''"
| "lifecycle_to_string LcActive = ''ACTIVE''"
| "lifecycle_to_string LcDraining = ''DRAINING''"
| "lifecycle_to_string LcMaintenance = ''MAINTENANCE''"
| "lifecycle_to_string LcFaulted = ''FAULTED''"
| "lifecycle_to_string LcPartitioned = ''PARTITIONED''"
| "lifecycle_to_string LcRemoved = ''REMOVED''"

primrec path_state_to_string :: "path_state \<Rightarrow> string" where
  "path_state_to_string PsOperational = ''OPERATIONAL''"
| "path_state_to_string PsDegraded = ''DEGRADED''"
| "path_state_to_string PsDown = ''DOWN''"
| "path_state_to_string PsMaintenance = ''MAINTENANCE''"
| "path_state_to_string PsUnknown = ''UNKNOWN''"

primrec maintenance_mode_to_string :: "maintenance_mode \<Rightarrow> string" where
  "maintenance_mode_to_string MmRefuse = ''REFUSE''"
| "maintenance_mode_to_string MmDegrade = ''DEGRADE''"
| "maintenance_mode_to_string MmAllow = ''ALLOW''"

definition is_operational :: "member_lifecycle \<Rightarrow> bool" where
  "is_operational l = (l = LcActive)"

definition lifecycle_present :: "member_lifecycle \<Rightarrow> bool" where
  "lifecycle_present l = (l \<noteq> LcRemoved)"

definition lifecycle_terminal :: "member_lifecycle \<Rightarrow> bool" where
  "lifecycle_terminal l = (l = LcRemoved)"

section \<open>Localities\<close>

type_synonym locality = "string list"

definition kMaxDepth :: nat where
  "kMaxDepth = kMaxLocalityDepth"

function locality_parse_loop :: "string \<Rightarrow> locality \<Rightarrow> locality option" where
  "locality_parse_loop rest labels = (
     let label = takeWhile (\<lambda>c. c \<noteq> CHR ''/'') rest;
         tail = dropWhile (\<lambda>c. c \<noteq> CHR ''/'') rest in
     if \<not> is_valid_identifier label kMaxIdentifierBytes then None
     else if length labels \<ge> kMaxDepth then None
     else if tail = [] then Some (labels @ [label])
     else locality_parse_loop (tl tail) (labels @ [label]))"
  by pat_completeness auto
termination
proof (relation "measure (\<lambda>(rest, labels). length rest)")
  fix rest :: string and labels :: locality and label tail
  assume "tail = dropWhile (\<lambda>c. c \<noteq> CHR ''/'') rest" "tail \<noteq> []"
  then have "length tail \<le> length rest" "tail \<noteq> []"
    by (simp_all add: length_dropWhile_le)
  then show "((tl tail, labels @ [label]), rest, labels) \<in> measure (\<lambda>(rest, labels). length rest)"
    by (cases tail) auto
qed simp

declare locality_parse_loop.simps [simp del]

definition locality_parse :: "string \<Rightarrow> locality option" where
  "locality_parse s =
     (if s = [] \<or> length s > kMaxLocalityDepth * (kMaxIdentifierBytes + 1) then None
      else locality_parse_loop s [])"

definition locality_push :: "locality \<Rightarrow> string \<Rightarrow> locality option" where
  "locality_push labels label =
     (if length labels \<ge> kMaxDepth \<or> \<not> is_valid_identifier label kMaxIdentifierBytes then None
      else Some (labels @ [label]))"

fun join_labels :: "string list \<Rightarrow> string" where
  "join_labels [] = []"
| "join_labels [l] = l"
| "join_labels (l # ls) = l @ CHR ''/'' # join_labels ls"

definition locality_to_string :: "locality \<Rightarrow> string" where
  "locality_to_string labels = join_labels labels"

definition domain_key :: "locality \<Rightarrow> nat \<Rightarrow> string" where
  "domain_key labels level =
     (let bounded = (if level < length labels then level else length labels)
      in join_labels (take bounded labels))"

definition is_prefix_of :: "locality \<Rightarrow> locality \<Rightarrow> bool" where
  "is_prefix_of a b =
     (if length a > length b then False else list_all (\<lambda>i. a ! i = b ! i) [0..<length a])"

fun common_prefix :: "locality \<Rightarrow> locality \<Rightarrow> nat" where
  "common_prefix (a # as) (b # bs) = (if a = b then Suc (common_prefix as bs) else 0)"
| "common_prefix _ _ = 0"

text \<open>Null pointers are skipped.\<close>

definition distinct_domains :: "locality option list \<Rightarrow> nat \<Rightarrow> nat" where
  "distinct_domains paths level =
     (if paths = [] then 0
      else length (remdups_adj (sort (map (\<lambda>p. domain_key p level) (concat (map (\<lambda>p. case p of None \<Rightarrow> [] | Some l \<Rightarrow> [l]) paths))))))"

section \<open>Members, paths, exclusions, obligations\<close>

record endpoint =
  en_id :: string
  en_locality :: locality
  en_service_groups :: "string list"
  en_capacity_class :: u64

record resource =
  re_id :: string
  re_kind :: string
  re_total_units :: u64
  re_reservation_generation :: u64
  re_reservable :: bool

record member =
  mb_id :: string
  mb_domain :: string
  mb_generation :: u64
  mb_digest :: bytes
  mb_lifecycle :: member_lifecycle
  mb_locality :: locality
  mb_endpoints :: "endpoint list"
  mb_services :: "string list"
  mb_resources :: "resource list"
  mb_last_observed :: u64
  mb_note :: string

record path =
  pt_id :: string
  pt_generation :: u64
  pt_source_member :: string
  pt_source_endpoint :: string
  pt_destination_member :: string
  pt_destination_endpoint :: string
  pt_resources :: "string list"
  pt_capacity_units :: u64
  pt_exclusive :: bool
  pt_state :: path_state
  pt_declared_hops :: u32

record exclusion =
  ex_id :: string
  ex_domain_prefix :: locality
  ex_members :: "string list"
  ex_paths :: "string list"
  ex_valid_from :: u64
  ex_valid_to :: u64
  ex_mode :: maintenance_mode
  ex_enabled :: bool
  ex_reason :: string

record obligation =
  ob_id :: string
  ob_service :: string
  ob_min_distinct_failure_domains :: u32
  ob_failure_domain_level :: u8
  ob_min_units_per_domain :: u64
  ob_enabled :: bool

definition find_endpoint :: "member \<Rightarrow> string \<Rightarrow> endpoint option" where
  "find_endpoint m i = find (\<lambda>e. en_id e = i) (mb_endpoints m)"

definition find_resource :: "member \<Rightarrow> string \<Rightarrow> resource option" where
  "find_resource m i = find (\<lambda>r. re_id r = i) (mb_resources m)"

definition serves :: "member \<Rightarrow> string \<Rightarrow> bool" where
  "serves m s = List.member (mb_services m) s"

definition effective_locality :: "member \<Rightarrow> string \<Rightarrow> locality" where
  "effective_locality m e = (case find_endpoint m e of
      Some found \<Rightarrow> if en_locality found \<noteq> [] then en_locality found else mb_locality m
    | None \<Rightarrow> mb_locality m)"

definition active_at :: "exclusion \<Rightarrow> u64 \<Rightarrow> bool" where
  "active_at x now =
     (if \<not> ex_enabled x then False
      else if now < ex_valid_from x then False
      else if ex_valid_to x \<noteq> 0 \<and> now > ex_valid_to x then False
      else True)"

definition covers_member :: "exclusion \<Rightarrow> member \<Rightarrow> u64 \<Rightarrow> bool" where
  "covers_member x m now =
     (if \<not> active_at x now then False
      else if ex_members x \<noteq> [] \<and> \<not> List.member (ex_members x) (mb_id m) then False
      else if ex_domain_prefix x \<noteq> [] \<and> \<not> is_prefix_of (ex_domain_prefix x) (mb_locality m) then False
      else True)"

definition covers_path :: "exclusion \<Rightarrow> path \<Rightarrow> u64 \<Rightarrow> bool" where
  "covers_path x p now =
     (if \<not> active_at x now then False
      else if ex_paths x \<noteq> [] \<and> \<not> List.member (ex_paths x) (pt_id p) then False
      else True)"

definition known_capabilities :: "string list" where
  "known_capabilities = [''topology-path-binding'', ''exclusive-path-binding'',
     ''failure-domain-diversity'', ''maintenance-exclusion'', ''capacity-reservation'']"

definition is_known_capability :: "string \<Rightarrow> bool" where
  "is_known_capability c = List.member known_capabilities c"

section \<open>The cluster specification\<close>

record spec =
  sp_cluster_id :: string
  sp_generation :: u64
  sp_epoch :: u64
  sp_policy_generation :: u64
  sp_incarnation :: bytes
  sp_tick :: u64
  sp_revision :: u64
  sp_members :: "member list"
  sp_paths :: "path list"
  sp_exclusions :: "exclusion list"
  sp_obligations :: "obligation list"
  sp_cached_spec_revision :: u64
  sp_cached_topology_revision :: u64
  sp_cached_spec_digest :: bytes
  sp_cached_topology_digest :: bytes

definition zero_incarnation :: bytes where
  "zero_incarnation = replicate 16 0"

definition empty_spec :: spec where
  "empty_spec = \<lparr>sp_cluster_id = [], sp_generation = 0, sp_epoch = 0, sp_policy_generation = 0,
     sp_incarnation = zero_incarnation, sp_tick = 0, sp_revision = 0, sp_members = [], sp_paths = [],
     sp_exclusions = [], sp_obligations = [], sp_cached_spec_revision = u64_max,
     sp_cached_topology_revision = u64_max, sp_cached_spec_digest = digest_zero,
     sp_cached_topology_digest = digest_zero\<rparr>"

definition note_revision :: "spec \<Rightarrow> spec" where
  "note_revision s = s\<lparr>sp_revision := sp_revision s + 1\<rparr>"

definition set_cluster_id :: "string \<Rightarrow> spec \<Rightarrow> status \<times> spec" where
  "set_cluster_id i s =
     (if i = [] then (status_error ScInvalidArgument ''cluster id must not be empty'', s)
      else if sp_cluster_id s \<noteq> [] \<and> sp_cluster_id s \<noteq> i then
        (status_error ScStateMismatch
           ''cluster id is immutable for the lifetime of a controller state file'', s)
      else (success, s\<lparr>sp_cluster_id := i\<rparr>))"

definition set_incarnation :: "bytes \<Rightarrow> spec \<Rightarrow> spec" where
  "set_incarnation i s = note_revision (s\<lparr>sp_incarnation := i\<rparr>)"

definition set_policy_generation :: "u64 \<Rightarrow> spec \<Rightarrow> spec" where
  "set_policy_generation p s = note_revision (s\<lparr>sp_policy_generation := p\<rparr>)"

definition set_tick :: "u64 \<Rightarrow> spec \<Rightarrow> spec" where
  "set_tick t s = note_revision (s\<lparr>sp_tick := t\<rparr>)"

definition restore_counters :: "u64 \<Rightarrow> u64 \<Rightarrow> spec \<Rightarrow> spec" where
  "restore_counters g e s = note_revision (s\<lparr>sp_generation := g, sp_epoch := e\<rparr>)"

definition bump_generation :: "spec \<Rightarrow> status \<times> spec" where
  "bump_generation s =
     (if \<not> can_advance (sp_generation s) then
        (status_error ScCapacityExhausted ''cluster generation is saturated at UINT64_MAX'', s)
      else (success, note_revision (s\<lparr>sp_generation := advanced (sp_generation s)\<rparr>)))"

definition begin_epoch :: "bytes \<Rightarrow> u64 \<Rightarrow> spec \<Rightarrow> status \<times> spec" where
  "begin_epoch incarnation policy s =
     (if \<not> can_advance (sp_epoch s) then
        (status_error ScCapacityExhausted ''cluster epoch is saturated at UINT64_MAX'', s)
      else if \<not> can_advance (sp_generation s) then
        (status_error ScCapacityExhausted ''cluster generation is saturated at UINT64_MAX'', s)
      else
        (success, note_revision
          (s\<lparr>sp_epoch := advanced (sp_epoch s),
             sp_generation := advanced (sp_generation s),
             sp_incarnation := incarnation,
             sp_policy_generation := (if policy \<ge> sp_policy_generation s then policy
                                      else sp_policy_generation s)\<rparr>)))"

definition find_member :: "spec \<Rightarrow> string \<Rightarrow> member option" where
  "find_member s i = find_sorted mb_id (sp_members s) i"

definition find_path :: "spec \<Rightarrow> string \<Rightarrow> path option" where
  "find_path s i = find_sorted pt_id (sp_paths s) i"

definition find_exclusion :: "spec \<Rightarrow> string \<Rightarrow> exclusion option" where
  "find_exclusion s i = find_sorted ex_id (sp_exclusions s) i"

definition find_obligation :: "spec \<Rightarrow> string \<Rightarrow> obligation option" where
  "find_obligation s i = find_sorted ob_id (sp_obligations s) i"

definition upsert_member :: "member \<Rightarrow> spec \<Rightarrow> status \<times> spec" where
  "upsert_member m s =
     (if mb_id m = [] then (status_error ScInvalidArgument ''member id must not be empty'', s)
      else if length (mb_endpoints m) > kMaxEndpointsPerMember then
        (status_error ScLimitExceeded ''member declares too many endpoints'', s)
      else if length (mb_services m) > kMaxServicesPerMember then
        (status_error ScLimitExceeded ''member declares too many service groups'', s)
      else if length (mb_resources m) > kMaxResourcesPerMember then
        (status_error ScLimitExceeded ''member declares too many resources'', s)
      else if \<not> is_valid_utf8 (mb_note m) then
        (status_error ScInvalidArgument ''member note is not valid UTF-8'', s)
      else if length (mb_note m) > kMaxNoteBytes then
        (status_error ScLimitExceeded ''member note exceeds the configured bound'', s)
      else if list_ex (\<lambda>e. en_id e = []) (mb_endpoints m) then
        (status_error ScInvalidArgument ''endpoint id must not be empty'', s)
      else if \<not> digest_is_zero (mb_digest m) \<and> length (mb_digest m) \<noteq> 32 then
        (status_error ScInternal ''unreachable digest size'', s)
      else
        let index = lower_bound_index mb_id (sp_members s) (mb_id m) in
        if present_at mb_id (sp_members s) (mb_id m) index then
          let existing = sp_members s ! index in
          if mb_generation m < mb_generation existing then
            (status_error ScStateMismatch
               (''member update would move generation backwards for '' @ mb_id m), s)
          else if mb_generation m = mb_generation existing \<and> mb_digest m \<noteq> mb_digest existing
                  \<and> \<not> digest_is_zero (mb_digest existing) then
            (status_error ScDuplicateIdentity
               (''member '' @ mb_id m @ '' re-published at the same generation with a different digest''), s)
          else if lifecycle_terminal (mb_lifecycle existing) \<and> \<not> lifecycle_terminal (mb_lifecycle m) then
            (status_error ScStateMismatch
               (''member '' @ mb_id m @ '' was removed and cannot be brought back at the same generation''), s)
          else bump_generation (note_revision (s\<lparr>sp_members := (sp_members s)[index := m]\<rparr>))
        else if length (sp_members s) \<ge> kMaxMembers then
          (status_error ScCapacityExhausted ''cluster member table is full'', s)
        else bump_generation (note_revision (s\<lparr>sp_members := insert_at index m (sp_members s)\<rparr>)))"

definition not_present :: "string \<Rightarrow> string \<Rightarrow> status" where
  "not_present kind i = status_error ScNotFound (kind @ '' '' @ i @ '' is not present'')"

definition remove_member :: "string \<Rightarrow> spec \<Rightarrow> status \<times> spec" where
  "remove_member i s =
     (let index = lower_bound_index mb_id (sp_members s) i in
      if \<not> present_at mb_id (sp_members s) i index then (not_present ''member'' i, s)
      else
        let m = (sp_members s ! index)\<lparr>mb_lifecycle := LcRemoved, mb_endpoints := [],
                   mb_resources := [], mb_services := []\<rparr>
        in bump_generation (note_revision (s\<lparr>sp_members := (sp_members s)[index := m]\<rparr>)))"

definition set_member_lifecycle :: "string \<Rightarrow> member_lifecycle \<Rightarrow> u64 \<Rightarrow> spec \<Rightarrow> status \<times> spec" where
  "set_member_lifecycle i lifecycle at s =
     (let index = lower_bound_index mb_id (sp_members s) i in
      if \<not> present_at mb_id (sp_members s) i index then (not_present ''member'' i, s)
      else
        let m = sp_members s ! index in
        if lifecycle_terminal (mb_lifecycle m) \<and> \<not> lifecycle_terminal lifecycle then
          (status_error ScStateMismatch (''member '' @ i @ '' is retired and cannot be reactivated''), s)
        else bump_generation (note_revision (s\<lparr>sp_members :=
               (sp_members s)[index := m\<lparr>mb_lifecycle := lifecycle, mb_last_observed := at\<rparr>]\<rparr>)))"

definition upsert_path :: "path \<Rightarrow> spec \<Rightarrow> status \<times> spec" where
  "upsert_path p s =
     (if pt_id p = [] then (status_error ScInvalidArgument ''path id must not be empty'', s)
      else if pt_source_member p = [] \<or> pt_destination_member p = [] then
        (status_error ScInvalidArgument ''path must name both endpoints' members'', s)
      else if length (pt_resources p) > kMaxResourcesPerPath then
        (status_error ScLimitExceeded ''path references too many resources'', s)
      else
        let index = lower_bound_index pt_id (sp_paths s) (pt_id p) in
        if present_at pt_id (sp_paths s) (pt_id p) index then
          (if pt_generation p < pt_generation (sp_paths s ! index) then
             (status_error ScStateMismatch
                (''path update would move generation backwards for '' @ pt_id p), s)
           else bump_generation (note_revision (s\<lparr>sp_paths := (sp_paths s)[index := p]\<rparr>)))
        else if length (sp_paths s) \<ge> kMaxPaths then
          (status_error ScCapacityExhausted ''cluster path table is full'', s)
        else bump_generation (note_revision (s\<lparr>sp_paths := insert_at index p (sp_paths s)\<rparr>)))"

definition remove_path :: "string \<Rightarrow> spec \<Rightarrow> status \<times> spec" where
  "remove_path i s =
     (let index = lower_bound_index pt_id (sp_paths s) i in
      if \<not> present_at pt_id (sp_paths s) i index then (not_present ''path'' i, s)
      else bump_generation (note_revision (s\<lparr>sp_paths := erase_at index (sp_paths s)\<rparr>)))"

definition set_path_state :: "string \<Rightarrow> path_state \<Rightarrow> spec \<Rightarrow> status \<times> spec" where
  "set_path_state i st s =
     (let index = lower_bound_index pt_id (sp_paths s) i in
      if \<not> present_at pt_id (sp_paths s) i index then (not_present ''path'' i, s)
      else bump_generation (note_revision
             (s\<lparr>sp_paths := (sp_paths s)[index := (sp_paths s ! index)\<lparr>pt_state := st\<rparr>]\<rparr>)))"

definition upsert_exclusion :: "exclusion \<Rightarrow> spec \<Rightarrow> status \<times> spec" where
  "upsert_exclusion x s =
     (if ex_id x = [] then (status_error ScInvalidArgument ''exclusion id must not be empty'', s)
      else if length (ex_members x) > kMaxExclusionMembers then
        (status_error ScLimitExceeded ''exclusion names too many members'', s)
      else if \<not> is_valid_utf8 (ex_reason x) \<or> length (ex_reason x) > kMaxNoteBytes then
        (status_error ScInvalidArgument ''exclusion reason is not acceptable text'', s)
      else if ex_valid_to x \<noteq> 0 \<and> ex_valid_to x < ex_valid_from x then
        (status_error ScInvalidArgument ''exclusion window ends before it starts'', s)
      else
        let index = lower_bound_index ex_id (sp_exclusions s) (ex_id x) in
        if present_at ex_id (sp_exclusions s) (ex_id x) index then
          bump_generation (note_revision (s\<lparr>sp_exclusions := (sp_exclusions s)[index := x]\<rparr>))
        else if length (sp_exclusions s) \<ge> kMaxExclusions then
          (status_error ScCapacityExhausted ''exclusion table is full'', s)
        else bump_generation (note_revision (s\<lparr>sp_exclusions := insert_at index x (sp_exclusions s)\<rparr>)))"

definition remove_exclusion :: "string \<Rightarrow> spec \<Rightarrow> status \<times> spec" where
  "remove_exclusion i s =
     (let index = lower_bound_index ex_id (sp_exclusions s) i in
      if \<not> present_at ex_id (sp_exclusions s) i index then (not_present ''exclusion'' i, s)
      else bump_generation (note_revision (s\<lparr>sp_exclusions := erase_at index (sp_exclusions s)\<rparr>)))"

definition exclusion_for_member :: "spec \<Rightarrow> member \<Rightarrow> exclusion option" where
  "exclusion_for_member s m = find (\<lambda>x. covers_member x m (sp_tick s)) (sp_exclusions s)"

definition exclusion_for_path :: "spec \<Rightarrow> path \<Rightarrow> exclusion option" where
  "exclusion_for_path s p = find (\<lambda>x. covers_path x p (sp_tick s)) (sp_exclusions s)"

definition upsert_obligation :: "obligation \<Rightarrow> spec \<Rightarrow> status \<times> spec" where
  "upsert_obligation x s =
     (if ob_id x = [] \<or> ob_service x = [] then
        (status_error ScInvalidArgument ''obligation must name an id and a service group'', s)
      else if ob_failure_domain_level x > of_nat kMaxDepth then
        (status_error ScInvalidArgument ''obligation failure-domain level is out of range'', s)
      else
        let index = lower_bound_index ob_id (sp_obligations s) (ob_id x) in
        if present_at ob_id (sp_obligations s) (ob_id x) index then
          bump_generation (note_revision (s\<lparr>sp_obligations := (sp_obligations s)[index := x]\<rparr>))
        else if length (sp_obligations s) \<ge> kMaxObligations then
          (status_error ScCapacityExhausted ''obligation table is full'', s)
        else bump_generation (note_revision (s\<lparr>sp_obligations := insert_at index x (sp_obligations s)\<rparr>)))"

definition remove_obligation :: "string \<Rightarrow> spec \<Rightarrow> status \<times> spec" where
  "remove_obligation i s =
     (let index = lower_bound_index ob_id (sp_obligations s) i in
      if \<not> present_at ob_id (sp_obligations s) i index then (not_present ''obligation'' i, s)
      else bump_generation (note_revision (s\<lparr>sp_obligations := erase_at index (sp_obligations s)\<rparr>)))"

text \<open>A loop that returns the first error it meets.\<close>

definition first_error :: "status list \<Rightarrow> status" where
  "first_error sts = (case find (\<lambda>st. \<not> ok st) sts of None \<Rightarrow> success | Some st \<Rightarrow> st)"

definition validate_spec :: "spec \<Rightarrow> status" where
  "validate_spec s =
     (if sp_cluster_id s = [] then status_error ScInvalidArgument ''cluster id is not set''
      else first_error
        (map (\<lambda>i. let a = sp_members s ! (i - 1); b = sp_members s ! i in
                if mb_id b = mb_id a then
                  status_error ScDuplicateIdentity (''duplicate member id '' @ mb_id b)
                else if mb_id b < mb_id a then status_error ScInternal ''member table is not sorted''
                else success) [1..<length (sp_members s)]
         @ map (\<lambda>i. let a = sp_paths s ! (i - 1); b = sp_paths s ! i in
                if pt_id b = pt_id a then
                  status_error ScDuplicateIdentity (''duplicate path id '' @ pt_id b)
                else success) [1..<length (sp_paths s)]
         @ map (\<lambda>p. if find_member s (pt_source_member p) = None then
                  status_error ScNotFound (''path '' @ pt_id p @ '' references unknown source member'')
                else if find_member s (pt_destination_member p) = None then
                  status_error ScNotFound (''path '' @ pt_id p @ '' references unknown destination member'')
                else success) (sp_paths s)
         @ concat (map (\<lambda>x.
              map (\<lambda>m. if find_member s m = None then
                  status_error ScNotFound (''exclusion '' @ ex_id x @ '' references unknown member'')
                else success) (ex_members x)
              @ map (\<lambda>p. if find_path s p = None then
                  status_error ScNotFound (''exclusion '' @ ex_id x @ '' references unknown path'')
                else success) (ex_paths x)) (sp_exclusions s))))"

end
