(* ===== verification/Model_Codec.thy ===== *)
theory Model_Codec
  imports Model
begin

text \<open>
  The canonical encodings of the cluster model (\<^verbatim>\<open>src/model.cpp\<close>), the digests taken
  over them with their caches, and the round trips: what an encoder wrote, its
  decoder reads back, byte for byte and nothing more.
\<close>

section \<open>Localities and id lists\<close>

definition encode_locality :: "locality \<Rightarrow> bytes" where
  "encode_locality l = w_count (length l) @ concat (map w_text l)"

fun decode_labels :: "nat \<Rightarrow> locality \<Rightarrow> locality rd" where
  "decode_labels 0 parsed = rd_return parsed"
| "decode_labels (Suc n) parsed =
     rd_bind (rd_text kMaxIdentifierBytes) (\<lambda>label.
       case locality_push parsed label of
         None \<Rightarrow> rd_fail ScCorruption ''locality label rejected by the identifier grammar''
       | Some parsed' \<Rightarrow> decode_labels n parsed')"

definition decode_locality :: "locality rd" where
  "decode_locality = rd_bind (rd_count kMaxDepth) (\<lambda>depth. decode_labels depth [])"

definition encode_ids :: "string list \<Rightarrow> bytes" where
  "encode_ids xs = w_count (length xs) @ concat (map encode_id xs)"

definition decode_ids :: "nat \<Rightarrow> string list rd" where
  "decode_ids max_count = rd_bind (rd_count max_count) (\<lambda>n. rd_times n decode_id)"

text \<open>An enumerator as one byte, rejected when out of range.\<close>

definition w_enum :: "'a list \<Rightarrow> 'a \<Rightarrow> bytes" where
  "w_enum cs x = w_u8 (of_nat (ordinal cs x))"

definition rd_enum :: "'a list \<Rightarrow> string \<Rightarrow> 'a rd" where
  "rd_enum cs msg = rd_bind rd_u8 (\<lambda>b.
     if unat b > length cs - 1 then rd_fail ScCorruption msg else rd_return (cs ! unat b))"

section \<open>Members\<close>

definition encode_endpoint :: "endpoint \<Rightarrow> bytes" where
  "encode_endpoint e =
     encode_id (en_id e) @ encode_locality (en_locality e) @ encode_ids (en_service_groups e)
     @ w_u64 (en_capacity_class e)"

definition decode_endpoint :: "endpoint rd" where
  "decode_endpoint =
     rd_bind decode_id (\<lambda>i.
     rd_bind decode_locality (\<lambda>l.
     rd_bind (decode_ids kMaxServicesPerMember) (\<lambda>gs.
     rd_bind rd_u64 (\<lambda>c.
     rd_return \<lparr>en_id = i, en_locality = l, en_service_groups = gs, en_capacity_class = c\<rparr>))))"

definition encode_resource :: "resource \<Rightarrow> bytes" where
  "encode_resource r =
     encode_id (re_id r) @ w_text (re_kind r) @ w_u64 (re_total_units r)
     @ encode_counter (re_reservation_generation r) @ w_boolean (re_reservable r)"

definition decode_resource :: "resource rd" where
  "decode_resource =
     rd_bind decode_id (\<lambda>i.
     rd_bind (rd_text kMaxIdentifierBytes) (\<lambda>k.
     rd_bind rd_u64 (\<lambda>u.
     rd_bind decode_counter (\<lambda>g.
     rd_bind rd_boolean (\<lambda>b.
     rd_return \<lparr>re_id = i, re_kind = k, re_total_units = u, re_reservation_generation = g,
        re_reservable = b\<rparr>)))))"

definition encode_member :: "member \<Rightarrow> bytes" where
  "encode_member m =
     encode_id (mb_id m) @ encode_id (mb_domain m) @ encode_counter (mb_generation m)
     @ w_raw (mb_digest m) @ w_enum member_lifecycles (mb_lifecycle m) @ encode_locality (mb_locality m)
     @ w_count (length (mb_endpoints m)) @ concat (map encode_endpoint (mb_endpoints m))
     @ encode_ids (mb_services m)
     @ w_count (length (mb_resources m)) @ concat (map encode_resource (mb_resources m))
     @ encode_counter (mb_last_observed m) @ w_text (mb_note m)"

definition decode_member :: "member rd" where
  "decode_member =
     rd_bind decode_id (\<lambda>i.
     rd_bind decode_id (\<lambda>dom.
     rd_bind decode_counter (\<lambda>g.
     rd_bind rd_digest (\<lambda>d.
     rd_bind (rd_enum member_lifecycles ''member lifecycle byte out of range'') (\<lambda>lc.
     rd_bind decode_locality (\<lambda>loc.
     rd_bind (rd_count kMaxEndpointsPerMember) (\<lambda>ne.
     rd_bind (rd_times ne decode_endpoint) (\<lambda>es.
     rd_bind (decode_ids kMaxServicesPerMember) (\<lambda>ss.
     rd_bind (rd_count kMaxResourcesPerMember) (\<lambda>nr.
     rd_bind (rd_times nr decode_resource) (\<lambda>rs.
     rd_bind decode_counter (\<lambda>lo.
     rd_bind (rd_text kMaxNoteBytes) (\<lambda>note.
     if \<not> is_valid_utf8 note then rd_fail ScCorruption ''member note is not valid UTF-8''
     else rd_return \<lparr>mb_id = i, mb_domain = dom, mb_generation = g, mb_digest = d, mb_lifecycle = lc,
        mb_locality = loc, mb_endpoints = es, mb_services = ss, mb_resources = rs,
        mb_last_observed = lo, mb_note = note\<rparr>)))))))))))))"

section \<open>Paths, exclusions, obligations\<close>

definition encode_path :: "path \<Rightarrow> bytes" where
  "encode_path p =
     encode_id (pt_id p) @ encode_counter (pt_generation p) @ encode_id (pt_source_member p)
     @ encode_id (pt_source_endpoint p) @ encode_id (pt_destination_member p)
     @ encode_id (pt_destination_endpoint p) @ encode_ids (pt_resources p)
     @ w_u64 (pt_capacity_units p) @ w_boolean (pt_exclusive p) @ w_enum path_states (pt_state p)
     @ w_u32 (pt_declared_hops p)"

definition decode_path :: "path rd" where
  "decode_path =
     rd_bind decode_id (\<lambda>i.
     rd_bind decode_counter (\<lambda>g.
     rd_bind decode_id (\<lambda>sm.
     rd_bind decode_id (\<lambda>se.
     rd_bind decode_id (\<lambda>dm.
     rd_bind decode_id (\<lambda>de.
     rd_bind (decode_ids kMaxResourcesPerPath) (\<lambda>rs.
     rd_bind rd_u64 (\<lambda>c.
     rd_bind rd_boolean (\<lambda>x.
     rd_bind (rd_enum path_states ''path state byte out of range'') (\<lambda>st.
     rd_bind rd_u32 (\<lambda>h.
     rd_return \<lparr>pt_id = i, pt_generation = g, pt_source_member = sm, pt_source_endpoint = se,
        pt_destination_member = dm, pt_destination_endpoint = de, pt_resources = rs,
        pt_capacity_units = c, pt_exclusive = x, pt_state = st, pt_declared_hops = h\<rparr>)))))))))))"

definition encode_exclusion :: "exclusion \<Rightarrow> bytes" where
  "encode_exclusion x =
     encode_id (ex_id x) @ encode_locality (ex_domain_prefix x) @ encode_ids (ex_members x)
     @ encode_ids (ex_paths x) @ encode_counter (ex_valid_from x) @ encode_counter (ex_valid_to x)
     @ w_enum maintenance_modes (ex_mode x) @ w_boolean (ex_enabled x) @ w_text (ex_reason x)"

definition decode_exclusion :: "exclusion rd" where
  "decode_exclusion =
     rd_bind decode_id (\<lambda>i.
     rd_bind decode_locality (\<lambda>l.
     rd_bind (decode_ids kMaxExclusionMembers) (\<lambda>ms.
     rd_bind (decode_ids kMaxPaths) (\<lambda>ps.
     rd_bind decode_counter (\<lambda>vf.
     rd_bind decode_counter (\<lambda>vt.
     rd_bind (rd_enum maintenance_modes ''maintenance mode byte out of range'') (\<lambda>md.
     rd_bind rd_boolean (\<lambda>en.
     rd_bind (rd_text kMaxNoteBytes) (\<lambda>why.
     if \<not> is_valid_utf8 why then rd_fail ScCorruption ''exclusion reason is not valid UTF-8''
     else rd_return \<lparr>ex_id = i, ex_domain_prefix = l, ex_members = ms, ex_paths = ps,
        ex_valid_from = vf, ex_valid_to = vt, ex_mode = md, ex_enabled = en, ex_reason = why\<rparr>)))))))))"

definition encode_obligation :: "obligation \<Rightarrow> bytes" where
  "encode_obligation x =
     encode_id (ob_id x) @ encode_id (ob_service x) @ w_u32 (ob_min_distinct_failure_domains x)
     @ w_u8 (ob_failure_domain_level x) @ w_u64 (ob_min_units_per_domain x) @ w_boolean (ob_enabled x)"

definition decode_obligation :: "obligation rd" where
  "decode_obligation =
     rd_bind decode_id (\<lambda>i.
     rd_bind decode_id (\<lambda>s.
     rd_bind rd_u32 (\<lambda>n.
     rd_bind rd_u8 (\<lambda>l.
     rd_bind rd_u64 (\<lambda>u.
     rd_bind rd_boolean (\<lambda>b.
     rd_return \<lparr>ob_id = i, ob_service = s, ob_min_distinct_failure_domains = n,
        ob_failure_domain_level = l, ob_min_units_per_domain = u, ob_enabled = b\<rparr>))))))"

section \<open>The specification\<close>

definition encode_tables :: "spec \<Rightarrow> bytes" where
  "encode_tables s =
     w_count (length (sp_members s)) @ concat (map encode_member (sp_members s))
     @ w_count (length (sp_paths s)) @ concat (map encode_path (sp_paths s))
     @ w_count (length (sp_exclusions s)) @ concat (map encode_exclusion (sp_exclusions s))
     @ w_count (length (sp_obligations s)) @ concat (map encode_obligation (sp_obligations s))"

definition encode_spec :: "spec \<Rightarrow> bytes" where
  "encode_spec s =
     encode_id (sp_cluster_id s) @ encode_counter (sp_generation s) @ encode_counter (sp_epoch s)
     @ encode_counter (sp_policy_generation s) @ encode_incarnation (sp_incarnation s)
     @ encode_counter (sp_tick s) @ encode_tables s"

text \<open>\<open>n\<close> entries, each checked to sort strictly after the one before.\<close>

fun rd_sorted :: "('a \<Rightarrow> string) \<Rightarrow> string \<Rightarrow> 'a rd \<Rightarrow> nat \<Rightarrow> 'a list \<Rightarrow> 'a list rd" where
  "rd_sorted key msg p 0 acc = rd_return acc"
| "rd_sorted key msg p (Suc n) acc =
     rd_bind p (\<lambda>x.
       if acc \<noteq> [] \<and> \<not> key (last acc) < key x then rd_fail ScCorruption msg
       else rd_sorted key msg p n (acc @ [x]))"

definition decode_spec :: "spec rd" where
  "decode_spec =
     rd_bind decode_id (\<lambda>i.
     rd_bind decode_counter (\<lambda>g.
     rd_bind decode_counter (\<lambda>e.
     rd_bind decode_counter (\<lambda>p.
     rd_bind decode_incarnation (\<lambda>inc.
     rd_bind decode_counter (\<lambda>t.
     rd_bind (rd_count kMaxMembers) (\<lambda>nm.
     rd_bind (rd_sorted mb_id ''member table is not strictly sorted by id'' decode_member nm []) (\<lambda>ms.
     rd_bind (rd_count kMaxPaths) (\<lambda>np.
     rd_bind (rd_sorted pt_id ''path table is not strictly sorted by id'' decode_path np []) (\<lambda>ps.
     rd_bind (rd_count kMaxExclusions) (\<lambda>nx.
     rd_bind (rd_sorted ex_id ''exclusion table is not strictly sorted by id'' decode_exclusion nx []) (\<lambda>xs.
     rd_bind (rd_count kMaxObligations) (\<lambda>no.
     rd_bind (rd_sorted ob_id ''obligation table is not strictly sorted by id'' decode_obligation no []) (\<lambda>os.
     rd_return (empty_spec\<lparr>sp_cluster_id := i, sp_generation := g, sp_epoch := e,
        sp_policy_generation := p, sp_incarnation := inc, sp_tick := t, sp_members := ms,
        sp_paths := ps, sp_exclusions := xs, sp_obligations := os\<rparr>)))))))))))))))"

text \<open>The digests are cached, each keyed by the revision it was computed at.\<close>

definition spec_digest :: "spec \<Rightarrow> bytes \<times> spec" where
  "spec_digest s =
     (if sp_cached_spec_revision s = sp_revision s then (sp_cached_spec_digest s, s)
      else let d = canonical_digest ''cif.cluster.spec.v1'' (encode_spec s) in
        (d, s\<lparr>sp_cached_spec_digest := d, sp_cached_spec_revision := sp_revision s\<rparr>))"

definition topology_digest :: "spec \<Rightarrow> bytes \<times> spec" where
  "topology_digest s =
     (if sp_cached_topology_revision s = sp_revision s then (sp_cached_topology_digest s, s)
      else let d = canonical_digest ''cif.cluster.topology.v1'' (encode_id (sp_cluster_id s) @ encode_tables s) in
        (d, s\<lparr>sp_cached_topology_digest := d, sp_cached_topology_revision := sp_revision s\<rparr>))"

definition member_state_digest :: "member \<Rightarrow> bytes" where
  "member_state_digest m = canonical_digest ''cif.member.state.v1'' (encode_member m)"

section \<open>Round trips\<close>

text \<open>What a value must satisfy for its decoder to accept it.\<close>

definition locality_ok :: "locality \<Rightarrow> bool" where
  "locality_ok l = (length l \<le> kMaxDepth \<and> list_all is_valid_id l)"

definition ids_ok :: "nat \<Rightarrow> string list \<Rightarrow> bool" where
  "ids_ok n xs = (length xs \<le> n \<and> list_all id_ok xs)"

definition endpoint_ok :: "endpoint \<Rightarrow> bool" where
  "endpoint_ok e = (id_ok (en_id e) \<and> locality_ok (en_locality e)
     \<and> ids_ok kMaxServicesPerMember (en_service_groups e))"

definition resource_ok :: "resource \<Rightarrow> bool" where
  "resource_ok r = (id_ok (re_id r) \<and> length (re_kind r) \<le> kMaxIdentifierBytes)"

definition member_ok :: "member \<Rightarrow> bool" where
  "member_ok m = (id_ok (mb_id m) \<and> id_ok (mb_domain m) \<and> length (mb_digest m) = 32
     \<and> locality_ok (mb_locality m)
     \<and> length (mb_endpoints m) \<le> kMaxEndpointsPerMember \<and> list_all endpoint_ok (mb_endpoints m)
     \<and> ids_ok kMaxServicesPerMember (mb_services m)
     \<and> length (mb_resources m) \<le> kMaxResourcesPerMember \<and> list_all resource_ok (mb_resources m)
     \<and> length (mb_note m) \<le> kMaxNoteBytes \<and> is_valid_utf8 (mb_note m))"

definition path_ok :: "path \<Rightarrow> bool" where
  "path_ok p = (id_ok (pt_id p) \<and> id_ok (pt_source_member p) \<and> id_ok (pt_source_endpoint p)
     \<and> id_ok (pt_destination_member p) \<and> id_ok (pt_destination_endpoint p)
     \<and> ids_ok kMaxResourcesPerPath (pt_resources p))"

definition exclusion_ok :: "exclusion \<Rightarrow> bool" where
  "exclusion_ok x = (id_ok (ex_id x) \<and> locality_ok (ex_domain_prefix x)
     \<and> ids_ok kMaxExclusionMembers (ex_members x) \<and> ids_ok kMaxPaths (ex_paths x)
     \<and> length (ex_reason x) \<le> kMaxNoteBytes \<and> is_valid_utf8 (ex_reason x))"

definition obligation_ok :: "obligation \<Rightarrow> bool" where
  "obligation_ok x = (id_ok (ob_id x) \<and> id_ok (ob_service x))"

lemma reads_labels:
  assumes "list_all is_valid_id l" "length (done_labels @ l) \<le> kMaxDepth"
  shows "reads (decode_labels (length l) done_labels) (concat (map w_text l)) (done_labels @ l)"
  using assms
proof (induction l arbitrary: done_labels)
  case (Cons x l)
  have "locality_push done_labels x = Some (done_labels @ [x])"
    using Cons.prems by (simp add: locality_push_def is_valid_id_def)
  moreover have "reads (decode_labels (length l) (done_labels @ [x])) (concat (map w_text l)) (done_labels @ x # l)"
    using Cons.IH [of "done_labels @ [x]"] Cons.prems by simp
  moreover have "length x \<le> kMaxIdentifierBytes" using Cons.prems by (simp add: valid_id_length)
  ultimately show ?case
    by (auto intro!: reads_bind reads_text simp: limit_defs)
qed (simp add: reads_return)

lemma reads_locality [reads_intros]:
  "locality_ok l \<Longrightarrow> reads decode_locality (encode_locality l) l"
  unfolding decode_locality_def encode_locality_def locality_ok_def
  using reads_labels [of l "[]"]
  by (auto intro!: reads_bind [OF reads_count] simp: kMaxDepth_def limit_defs)

lemma reads_times_list:
  assumes "list_all good xs" "\<And>x. good x \<Longrightarrow> reads p (w x) x"
  shows "reads (rd_times (length xs) p) (concat (map w xs)) xs"
  using assms by (intro reads_times) (auto simp: list_all_iff)

lemma reads_ids [reads_intros]:
  "ids_ok n xs \<Longrightarrow> n < 2 ^ 64 \<Longrightarrow> reads (decode_ids n) (encode_ids xs) xs"
  unfolding decode_ids_def encode_ids_def ids_ok_def
  by (auto intro!: reads_bind [OF reads_count] reads_times_list [of id_ok] reads_id)

lemma reads_enum [reads_intros]:
  assumes "x \<in> set cs" "length cs \<le> 256"
  shows "reads (rd_enum cs msg) (w_enum cs x) x"
proof -
  have lt: "ordinal cs x < length cs" using ordinal_less [OF assms(1)] .
  have u: "unat (of_nat (ordinal cs x) :: u8) = ordinal cs x"
    using lt assms(2) by (simp add: unat_of_nat)
  show ?thesis unfolding rd_enum_def w_enum_def
    by (rule reads_bind_Nil [OF reads_u8])
      (use lt u nth_ordinal [OF assms(1)] in \<open>auto intro!: reads_intros\<close>)
qed

lemma member_lifecycles_complete [simp]: "l \<in> set member_lifecycles"
  by (cases l) (simp_all add: member_lifecycles_def)

lemma path_states_complete [simp]: "l \<in> set path_states"
  by (cases l) (simp_all add: path_states_def)

lemma maintenance_modes_complete [simp]: "l \<in> set maintenance_modes"
  by (cases l) (simp_all add: maintenance_modes_def)

lemma enum_sizes [simp]:
  "length member_lifecycles = 7" "length path_states = 5" "length maintenance_modes = 3"
  by (simp_all add: member_lifecycles_def path_states_def maintenance_modes_def)

lemma reads_endpoint [reads_intros]: "endpoint_ok e \<Longrightarrow> reads decode_endpoint (encode_endpoint e) e"
  unfolding decode_endpoint_def encode_endpoint_def endpoint_ok_def
  by ((rule reads_bind | (rule reads_intros; simp add: limit_defs)
      | (rule reads_if, simp) | rule reads_bind_Nil)+)

lemma reads_resource [reads_intros]: "resource_ok r \<Longrightarrow> reads decode_resource (encode_resource r) r"
  unfolding decode_resource_def encode_resource_def resource_ok_def
  by ((rule reads_bind | (rule reads_intros; simp add: limit_defs)
      | (rule reads_if, simp) | rule reads_bind_Nil)+)

lemma reads_raw_digest: "length d = 32 \<Longrightarrow> reads rd_digest (w_raw d) d"
  by (simp add: w_raw_def reads_digest)

lemma reads_endpoints:
  "list_all endpoint_ok es \<Longrightarrow> reads (rd_times (length es) decode_endpoint) (concat (map encode_endpoint es)) es"
  by (rule reads_times_list [OF _ reads_endpoint])

lemma reads_resources:
  "list_all resource_ok es \<Longrightarrow> reads (rd_times (length es) decode_resource) (concat (map encode_resource es)) es"
  by (rule reads_times_list [OF _ reads_resource])

lemma reads_member [reads_intros]: "member_ok m \<Longrightarrow> reads decode_member (encode_member m) m"
  unfolding decode_member_def encode_member_def member_ok_def
  by ((rule reads_bind | (rule reads_raw_digest reads_endpoints reads_resources reads_intros; simp add: limit_defs)
      | (rule reads_if, simp) | rule reads_bind_Nil)+)

lemma reads_path [reads_intros]: "path_ok p \<Longrightarrow> reads decode_path (encode_path p) p"
  unfolding decode_path_def encode_path_def path_ok_def
  by ((rule reads_bind | (rule reads_intros; simp add: limit_defs)
      | (rule reads_if, simp) | rule reads_bind_Nil)+)

lemma reads_exclusion [reads_intros]: "exclusion_ok x \<Longrightarrow> reads decode_exclusion (encode_exclusion x) x"
  unfolding decode_exclusion_def encode_exclusion_def exclusion_ok_def
  by ((rule reads_bind | (rule reads_intros; simp add: limit_defs)
      | (rule reads_if, simp) | rule reads_bind_Nil)+)

lemma reads_obligation [reads_intros]: "obligation_ok x \<Longrightarrow> reads decode_obligation (encode_obligation x) x"
  unfolding decode_obligation_def encode_obligation_def obligation_ok_def
  by ((rule reads_bind | (rule reads_intros; simp add: limit_defs)
      | (rule reads_if, simp) | rule reads_bind_Nil)+)

lemma reads_sorted_acc:
  assumes "list_all good xs" "\<And>x. good x \<Longrightarrow> reads p (w x) x" "sorted_by key (acc @ xs)"
  shows "reads (rd_sorted key msg p (length xs) acc) (concat (map w xs)) (acc @ xs)"
  using assms(1,3)
proof (induction xs arbitrary: acc)
  case (Cons x xs)
  have "acc \<noteq> [] \<Longrightarrow> key (last acc) < key x"
    using Cons.prems(2) by (auto simp: sorted_by_append sorted_by_Cons)
  moreover have "reads (rd_sorted key msg p (length xs) (acc @ [x])) (concat (map w xs)) (acc @ x # xs)"
    using Cons.IH [of "acc @ [x]"] Cons.prems by simp
  ultimately show ?case
    using Cons.prems assms(2) by (auto intro!: reads_bind)
qed (simp add: reads_return)

lemma reads_sorted:
  assumes "list_all good xs" "sorted_by key xs" "\<And>x. good x \<Longrightarrow> reads p (w x) x"
  shows "reads (rd_sorted key msg p (length xs) []) (concat (map w xs)) xs"
  using reads_sorted_acc [OF assms(1,3), of key "[]"] assms(2) by simp

definition spec_ok :: "spec \<Rightarrow> bool" where
  "spec_ok s = (id_ok (sp_cluster_id s) \<and> length (sp_incarnation s) = 16
     \<and> sorted_by mb_id (sp_members s) \<and> sorted_by pt_id (sp_paths s)
     \<and> sorted_by ex_id (sp_exclusions s) \<and> sorted_by ob_id (sp_obligations s)
     \<and> length (sp_members s) \<le> kMaxMembers \<and> length (sp_paths s) \<le> kMaxPaths
     \<and> length (sp_exclusions s) \<le> kMaxExclusions \<and> length (sp_obligations s) \<le> kMaxObligations
     \<and> list_all member_ok (sp_members s) \<and> list_all path_ok (sp_paths s)
     \<and> list_all exclusion_ok (sp_exclusions s) \<and> list_all obligation_ok (sp_obligations s))"

text \<open>The specification as it comes back: revision and caches are not encoded.\<close>

definition spec_historical :: "spec \<Rightarrow> spec" where
  "spec_historical s = s\<lparr>sp_revision := 0, sp_cached_spec_revision := u64_max,
     sp_cached_topology_revision := u64_max, sp_cached_spec_digest := digest_zero,
     sp_cached_topology_digest := digest_zero\<rparr>"

lemmas reads_tables =
  reads_sorted [OF _ _ reads_member] reads_sorted [OF _ _ reads_path]
  reads_sorted [OF _ _ reads_exclusion] reads_sorted [OF _ _ reads_obligation]

lemma reads_spec [reads_intros]:
  "spec_ok s \<Longrightarrow> reads decode_spec (encode_spec s) (spec_historical s)"
  unfolding decode_spec_def encode_spec_def encode_tables_def spec_ok_def
  by ((rule reads_bind | (rule reads_tables reads_intros; simp add: limit_defs spec_historical_def empty_spec_def)
      | (rule reads_if, simp) | rule reads_bind_Nil)+)

end
