(* ===== verification/Model_Inv.thy ===== *)
theory Model_Inv
  imports Model
begin

text \<open>
  What the specification's mutators keep and what they do: the tables stay sorted
  and bounded, the coordinate of the controller other than the generation does not
  move, an accepted change advances the generation by exactly one and is found by
  the next lookup, and a refused change leaves the tables alone.
\<close>

definition spec_wf :: "spec \<Rightarrow> bool" where
  "spec_wf s = (sorted_by mb_id (sp_members s) \<and> sorted_by pt_id (sp_paths s)
     \<and> sorted_by ex_id (sp_exclusions s) \<and> sorted_by ob_id (sp_obligations s)
     \<and> length (sp_members s) \<le> kMaxMembers \<and> length (sp_paths s) \<le> kMaxPaths
     \<and> length (sp_exclusions s) \<le> kMaxExclusions \<and> length (sp_obligations s) \<le> kMaxObligations)"

text \<open>The coordinate fields no table mutator touches.\<close>

definition same_ruler :: "spec \<Rightarrow> spec \<Rightarrow> bool" where
  "same_ruler s s' = (sp_cluster_id s' = sp_cluster_id s \<and> sp_epoch s' = sp_epoch s
     \<and> sp_policy_generation s' = sp_policy_generation s \<and> sp_incarnation s' = sp_incarnation s
     \<and> sp_tick s' = sp_tick s)"

definition same_tables :: "spec \<Rightarrow> spec \<Rightarrow> bool" where
  "same_tables s s' = (sp_members s' = sp_members s \<and> sp_paths s' = sp_paths s
     \<and> sp_exclusions s' = sp_exclusions s \<and> sp_obligations s' = sp_obligations s)"

definition spec_change :: "spec \<Rightarrow> status \<times> spec \<Rightarrow> bool" where
  "spec_change s r = (spec_wf (snd r) \<and> same_ruler s (snd r)
     \<and> (ok (fst r) \<longrightarrow> can_advance (sp_generation s) \<and> sp_generation (snd r) = advanced (sp_generation s)
         \<and> sp_revision (snd r) = sp_revision s + 2)
     \<and> (\<not> ok (fst r) \<longrightarrow> sp_generation (snd r) = sp_generation s
         \<and> (snd r = s \<or> \<not> can_advance (sp_generation s))))"

lemma spec_wf_empty: "spec_wf empty_spec"
  by (simp add: spec_wf_def empty_spec_def)

lemma spec_wf_simps [simp]:
  "spec_wf (s\<lparr>sp_revision := r\<rparr>) = spec_wf s"
  "spec_wf (s\<lparr>sp_generation := r\<rparr>) = spec_wf s"
  "spec_wf (s\<lparr>sp_epoch := r\<rparr>) = spec_wf s"
  "spec_wf (s\<lparr>sp_policy_generation := r\<rparr>) = spec_wf s"
  "spec_wf (s\<lparr>sp_incarnation := i\<rparr>) = spec_wf s"
  "spec_wf (s\<lparr>sp_tick := r\<rparr>) = spec_wf s"
  "spec_wf (s\<lparr>sp_cluster_id := n\<rparr>) = spec_wf s"
  "spec_wf (note_revision s) = spec_wf s"
  by (simp_all add: spec_wf_def note_revision_def)

lemma bump_after_change:
  assumes "spec_wf s1" "same_ruler s s1" "sp_generation s1 = sp_generation s" "sp_revision s1 = sp_revision s"
  shows "spec_change s (bump_generation (note_revision s1))"
  using assms
  by (auto simp: spec_change_def bump_generation_def note_revision_def same_ruler_def spec_wf_def)

lemma refused_change: "spec_wf s \<Longrightarrow> c \<noteq> ScOk \<Longrightarrow> spec_change s (status_error c m, s)"
  by (simp add: spec_change_def same_ruler_def)

lemma not_present_code [simp]: "ok (not_present k i) = False" "st_code (not_present k i) = ScNotFound"
  by (simp_all add: not_present_def)

lemma refused_not_present: "spec_wf s \<Longrightarrow> spec_change s (not_present k i, s)"
  by (simp add: spec_change_def same_ruler_def)

text \<open>Replacing the entry found, and inserting where none was found.\<close>

lemma replace_is_put:
  "present_at key xs (key x) (lower_bound_index key xs (key x)) \<Longrightarrow>
   xs[lower_bound_index key xs (key x) := x] = table_put key x xs"
  by (simp add: table_put_def)

lemma insert_is_put:
  "\<not> present_at key xs (key x) (lower_bound_index key xs (key x)) \<Longrightarrow>
   insert_at (lower_bound_index key xs (key x)) x xs = table_put key x xs"
  by (simp add: table_put_def)

lemma erase_is_remove:
  "present_at key xs k (lower_bound_index key xs k) \<Longrightarrow>
   erase_at (lower_bound_index key xs k) xs = table_remove key k xs"
  by (simp add: table_remove_def)

lemma length_put_replace:
  "present_at key xs (key x) (lower_bound_index key xs (key x)) \<Longrightarrow> length (table_put key x xs) = length xs"
  by (simp add: table_put_def)

lemma length_put_insert:
  "\<not> present_at key xs (key x) (lower_bound_index key xs (key x)) \<Longrightarrow>
   length (table_put key x xs) = Suc (length xs)"
  by (simp add: table_put_def)

lemma put_bounded:
  "present_at key xs (key x) (lower_bound_index key xs (key x)) \<or> length xs < n \<Longrightarrow> length xs \<le> n \<Longrightarrow>
   length (table_put key x xs) \<le> n"
  by (cases "present_at key xs (key x) (lower_bound_index key xs (key x))")
    (simp_all add: length_put_replace length_put_insert)

lemma set_nth_key: "present_at key xs k i \<Longrightarrow> key (xs ! i) = k"
  by (simp add: present_at_def)

text \<open>An accepted change of a table: the new entry and nothing else.\<close>

definition accepted :: "status \<times> spec \<Rightarrow> spec \<Rightarrow> bool" where
  "accepted r s1 = (ok (fst r) \<longrightarrow> same_tables s1 (snd r))"

lemma accepted_bump: "same_tables s1 s2 \<Longrightarrow> accepted (bump_generation (note_revision s2)) s1"
  by (auto simp: accepted_def bump_generation_def note_revision_def same_tables_def)

lemma accepted_error: "c \<noteq> ScOk \<Longrightarrow> accepted (status_error c m, s) s1"
  by (simp add: accepted_def)

lemma accepted_not_present: "accepted (not_present k i, s) s1"
  by (simp add: accepted_def)

lemma same_tables_refl [simp]: "same_tables s s"
  by (simp add: same_tables_def)

lemma spec_change_if:
  "(c \<Longrightarrow> spec_change s a) \<Longrightarrow> (\<not> c \<Longrightarrow> spec_change s b) \<Longrightarrow> spec_change s (if c then a else b)"
  by simp

lemma accepted_if:
  "(c \<Longrightarrow> accepted a s) \<Longrightarrow> (\<not> c \<Longrightarrow> accepted b s) \<Longrightarrow> accepted (if c then a else b) s"
  by simp

lemmas upsert_defs = upsert_member_def upsert_path_def upsert_exclusion_def upsert_obligation_def

lemma upsert_member_change:
  assumes "spec_wf s"
  shows "spec_change s (upsert_member m s)"
    "accepted (upsert_member m s) (s\<lparr>sp_members := table_put mb_id m (sp_members s)\<rparr>)"
proof -
  let ?p = "present_at mb_id (sp_members s) (mb_id m) (lower_bound_index mb_id (sp_members s) (mb_id m))"
  have put: "spec_change s (bump_generation (note_revision (s\<lparr>sp_members := table_put mb_id m (sp_members s)\<rparr>)))"
    if "?p \<or> length (sp_members s) < kMaxMembers"
    by (rule bump_after_change)
      (use assms that in \<open>auto simp: same_ruler_def spec_wf_def sorted_table_put put_bounded\<close>)
  show "spec_change s (upsert_member m s)"
    unfolding upsert_member_def Let_def
    using put by (intro spec_change_if refused_change assms) (simp_all add: replace_is_put insert_is_put)
  show "accepted (upsert_member m s) (s\<lparr>sp_members := table_put mb_id m (sp_members s)\<rparr>)"
    unfolding upsert_member_def Let_def
    by (intro accepted_if accepted_error) (simp_all add: replace_is_put insert_is_put accepted_bump)
qed

lemma upsert_path_change:
  assumes "spec_wf s"
  shows "spec_change s (upsert_path m s)"
    "accepted (upsert_path m s) (s\<lparr>sp_paths := table_put pt_id m (sp_paths s)\<rparr>)"
proof -
  let ?p = "present_at pt_id (sp_paths s) (pt_id m) (lower_bound_index pt_id (sp_paths s) (pt_id m))"
  have put: "spec_change s (bump_generation (note_revision (s\<lparr>sp_paths := table_put pt_id m (sp_paths s)\<rparr>)))"
    if "?p \<or> length (sp_paths s) < kMaxPaths"
    by (rule bump_after_change)
      (use assms that in \<open>auto simp: same_ruler_def spec_wf_def sorted_table_put put_bounded\<close>)
  show "spec_change s (upsert_path m s)"
    unfolding upsert_path_def Let_def
    using put by (intro spec_change_if refused_change assms) (simp_all add: replace_is_put insert_is_put)
  show "accepted (upsert_path m s) (s\<lparr>sp_paths := table_put pt_id m (sp_paths s)\<rparr>)"
    unfolding upsert_path_def Let_def
    by (intro accepted_if accepted_error) (simp_all add: replace_is_put insert_is_put accepted_bump)
qed

lemma upsert_exclusion_change:
  assumes "spec_wf s"
  shows "spec_change s (upsert_exclusion m s)"
    "accepted (upsert_exclusion m s) (s\<lparr>sp_exclusions := table_put ex_id m (sp_exclusions s)\<rparr>)"
proof -
  let ?p = "present_at ex_id (sp_exclusions s) (ex_id m) (lower_bound_index ex_id (sp_exclusions s) (ex_id m))"
  have put: "spec_change s (bump_generation (note_revision (s\<lparr>sp_exclusions := table_put ex_id m (sp_exclusions s)\<rparr>)))"
    if "?p \<or> length (sp_exclusions s) < kMaxExclusions"
    by (rule bump_after_change)
      (use assms that in \<open>auto simp: same_ruler_def spec_wf_def sorted_table_put put_bounded\<close>)
  show "spec_change s (upsert_exclusion m s)"
    unfolding upsert_exclusion_def Let_def
    using put by (intro spec_change_if refused_change assms) (simp_all add: replace_is_put insert_is_put)
  show "accepted (upsert_exclusion m s) (s\<lparr>sp_exclusions := table_put ex_id m (sp_exclusions s)\<rparr>)"
    unfolding upsert_exclusion_def Let_def
    by (intro accepted_if accepted_error) (simp_all add: replace_is_put insert_is_put accepted_bump)
qed

lemma upsert_obligation_change:
  assumes "spec_wf s"
  shows "spec_change s (upsert_obligation m s)"
    "accepted (upsert_obligation m s) (s\<lparr>sp_obligations := table_put ob_id m (sp_obligations s)\<rparr>)"
proof -
  let ?p = "present_at ob_id (sp_obligations s) (ob_id m) (lower_bound_index ob_id (sp_obligations s) (ob_id m))"
  have put: "spec_change s (bump_generation (note_revision (s\<lparr>sp_obligations := table_put ob_id m (sp_obligations s)\<rparr>)))"
    if "?p \<or> length (sp_obligations s) < kMaxObligations"
    by (rule bump_after_change)
      (use assms that in \<open>auto simp: same_ruler_def spec_wf_def sorted_table_put put_bounded\<close>)
  show "spec_change s (upsert_obligation m s)"
    unfolding upsert_obligation_def Let_def
    using put by (intro spec_change_if refused_change assms) (simp_all add: replace_is_put insert_is_put)
  show "accepted (upsert_obligation m s) (s\<lparr>sp_obligations := table_put ob_id m (sp_obligations s)\<rparr>)"
    unfolding upsert_obligation_def Let_def
    by (intro accepted_if accepted_error) (simp_all add: replace_is_put insert_is_put accepted_bump)
qed

text \<open>In-place updates and removals.\<close>

lemma sorted_update_at:
  "sorted_by key xs \<Longrightarrow> present_at key xs k i \<Longrightarrow> key x = k \<Longrightarrow> sorted_by key (xs[i := x])"
  by (auto simp: present_at_def intro: sorted_by_update)

lemma remove_member_change: "spec_wf s \<Longrightarrow> spec_change s (remove_member i s)"
  unfolding remove_member_def Let_def
  by (auto intro!: refused_not_present bump_after_change
      simp: same_ruler_def spec_wf_def sorted_update_at [OF _ _ set_nth_key])

lemma set_member_lifecycle_change: "spec_wf s \<Longrightarrow> spec_change s (set_member_lifecycle i l t s)"
  unfolding set_member_lifecycle_def Let_def
  by (auto intro!: refused_not_present refused_change bump_after_change
      simp: same_ruler_def spec_wf_def sorted_update_at [OF _ _ set_nth_key])

lemma set_path_state_change: "spec_wf s \<Longrightarrow> spec_change s (set_path_state i l s)"
  unfolding set_path_state_def Let_def
  by (auto intro!: refused_not_present bump_after_change
      simp: same_ruler_def spec_wf_def sorted_update_at [OF _ _ set_nth_key])

lemma length_erase_at: "length (erase_at i xs) \<le> length xs"
  by (simp add: erase_at_def)

lemmas erase_facts = sorted_erase_at order_trans [OF length_erase_at]

lemma remove_path_change: "spec_wf s \<Longrightarrow> spec_change s (remove_path i s)"
  unfolding remove_path_def Let_def
  by (auto intro!: refused_not_present bump_after_change simp: same_ruler_def spec_wf_def erase_facts)

lemma remove_exclusion_change: "spec_wf s \<Longrightarrow> spec_change s (remove_exclusion i s)"
  unfolding remove_exclusion_def Let_def
  by (auto intro!: refused_not_present bump_after_change simp: same_ruler_def spec_wf_def erase_facts)

lemma remove_obligation_change: "spec_wf s \<Longrightarrow> spec_change s (remove_obligation i s)"
  unfolding remove_obligation_def Let_def
  by (auto intro!: refused_not_present bump_after_change simp: same_ruler_def spec_wf_def erase_facts)

end
