(* ===== verification/Contract.thy ===== *)
theory Contract
  imports Model_Codec Model_Inv
begin

text \<open>
  Communication contracts and the id-sorted contract store
  (\<^verbatim>\<open>include/cif/contract.hpp\<close>, \<^verbatim>\<open>src/contract.cpp\<close>): validation, the store's
  operations with its revision-keyed digest cache, the codecs and their round trips.
\<close>

section \<open>Contracts\<close>

record contract =
  ct_id :: string
  ct_generation :: u64
  ct_source_service :: string
  ct_destination_service :: string
  ct_min_capacity_units :: u64
  ct_max_capacity_units :: u64
  ct_min_distinct_failure_domains :: u32
  ct_failure_domain_level :: u8
  ct_require_exclusive_path :: bool
  ct_maintenance_mode :: maintenance_mode
  ct_allow_draining :: bool
  ct_allow_faulted :: bool
  ct_allow_partitioned :: bool
  ct_allow_degraded :: bool
  ct_required_capabilities :: "string list"
  ct_enabled :: bool

definition validate_contract :: "contract \<Rightarrow> status" where
  "validate_contract c =
     (if ct_id c = [] then status_error ScInvalidArgument ''contract id must not be empty''
      else if ct_source_service c = [] \<or> ct_destination_service c = [] then
        status_error ScInvalidArgument ''contract must name both a source and a destination service group''
      else if ct_max_capacity_units c \<noteq> 0 \<and> ct_min_capacity_units c > ct_max_capacity_units c then
        status_error ScInvalidArgument ''contract minimum capacity exceeds its maximum capacity''
      else if ct_min_capacity_units c > kMaxCapacityUnits then
        status_error ScLimitExceeded ''contract minimum capacity is out of range''
      else if ct_max_capacity_units c > kMaxCapacityUnits then
        status_error ScLimitExceeded ''contract maximum capacity is out of range''
      else if ct_failure_domain_level c > of_nat kMaxDepth then
        status_error ScInvalidArgument ''failure domain level is out of range''
      else if unat (ct_min_distinct_failure_domains c) > kMaxMembers then
        status_error ScLimitExceeded ''contract demands more failure domains than the member bound allows''
      else if length (ct_required_capabilities c) > kMaxRequiredCapabilities then
        status_error ScLimitExceeded ''contract requires too many capabilities''
      else if list_ex (\<lambda>n. \<not> is_valid_identifier n kMaxIdentifierBytes) (ct_required_capabilities c) then
        status_error ScInvalidArgument ''capability name is not a valid identifier''
      else if \<not> ct_enabled c then status_error ScStateMismatch ''contract is disabled''
      else success)"

definition unsupported_capabilities :: "contract \<Rightarrow> string list" where
  "unsupported_capabilities c = filter (\<lambda>n. \<not> is_known_capability n) (ct_required_capabilities c)"

definition encode_capabilities :: "string list \<Rightarrow> bytes" where
  "encode_capabilities cs = w_count (length cs) @ concat (map w_text cs)"

definition decode_capability :: "string rd" where
  "decode_capability = rd_bind (rd_text kMaxIdentifierBytes) (\<lambda>c.
     if \<not> is_valid_identifier c kMaxIdentifierBytes
     then rd_fail ScCorruption ''capability name is not a valid identifier'' else rd_return c)"

definition decode_capabilities :: "string list rd" where
  "decode_capabilities = rd_bind (rd_count kMaxRequiredCapabilities) (\<lambda>n. rd_times n decode_capability)"

definition encode_contract :: "contract \<Rightarrow> bytes" where
  "encode_contract x =
     encode_id (ct_id x) @ encode_counter (ct_generation x) @ encode_id (ct_source_service x)
     @ encode_id (ct_destination_service x) @ w_u64 (ct_min_capacity_units x)
     @ w_u64 (ct_max_capacity_units x) @ w_u32 (ct_min_distinct_failure_domains x)
     @ w_u8 (ct_failure_domain_level x) @ w_boolean (ct_require_exclusive_path x)
     @ w_enum maintenance_modes (ct_maintenance_mode x) @ w_boolean (ct_allow_draining x)
     @ w_boolean (ct_allow_faulted x) @ w_boolean (ct_allow_partitioned x)
     @ w_boolean (ct_allow_degraded x) @ encode_capabilities (ct_required_capabilities x)
     @ w_boolean (ct_enabled x)"

definition decode_contract :: "contract rd" where
  "decode_contract =
     rd_bind decode_id (\<lambda>z0.
     rd_bind decode_counter (\<lambda>z1.
     rd_bind decode_id (\<lambda>z2.
     rd_bind decode_id (\<lambda>z3.
     rd_bind rd_u64 (\<lambda>z4.
     rd_bind rd_u64 (\<lambda>z5.
     rd_bind rd_u32 (\<lambda>z6.
     rd_bind rd_u8 (\<lambda>z7.
     rd_bind rd_boolean (\<lambda>z8.
     rd_bind (rd_enum maintenance_modes ''contract maintenance mode byte out of range'') (\<lambda>z9.
     rd_bind rd_boolean (\<lambda>z10.
     rd_bind rd_boolean (\<lambda>z11.
     rd_bind rd_boolean (\<lambda>z12.
     rd_bind rd_boolean (\<lambda>z13.
     rd_bind decode_capabilities (\<lambda>z14.
     rd_bind rd_boolean (\<lambda>z15.
     rd_return \<lparr>ct_id = z0, ct_generation = z1, ct_source_service = z2, ct_destination_service = z3
        , ct_min_capacity_units = z4, ct_max_capacity_units = z5
        , ct_min_distinct_failure_domains = z6, ct_failure_domain_level = z7
        , ct_require_exclusive_path = z8, ct_maintenance_mode = z9, ct_allow_draining = z10
        , ct_allow_faulted = z11, ct_allow_partitioned = z12, ct_allow_degraded = z13
        , ct_required_capabilities = z14, ct_enabled = z15\<rparr>))))))))))))))))"

definition contract_digest :: "contract \<Rightarrow> bytes" where
  "contract_digest c = canonical_digest ''cif.contract.v1'' (encode_contract c)"

section \<open>The contract store\<close>

record contract_set =
  cs_contracts :: "contract list"
  cs_revision :: u64
  cs_cached_digest :: bytes
  cs_cached_revision :: u64
  cs_cached_valid :: bool

definition empty_contract_set :: contract_set where
  "empty_contract_set = \<lparr>cs_contracts = [], cs_revision = 0, cs_cached_digest = digest_zero,
     cs_cached_revision = 0, cs_cached_valid = False\<rparr>"

definition contracts_upsert :: "contract \<Rightarrow> contract_set \<Rightarrow> status \<times> contract_set" where
  "contracts_upsert c s =
     cif_try (validate_contract c, s) (\<lambda>s.
       let index = lower_bound_index ct_id (cs_contracts s) (ct_id c) in
       if present_at ct_id (cs_contracts s) (ct_id c) index then
         (if ct_generation c < ct_generation (cs_contracts s ! index) then
            (status_error ScStateMismatch
               (''contract update would move generation backwards for '' @ ct_id c), s)
          else (success, s\<lparr>cs_contracts := (cs_contracts s)[index := c], cs_revision := cs_revision s + 1\<rparr>))
       else if length (cs_contracts s) \<ge> kMaxContracts then
         (status_error ScCapacityExhausted ''contract table is full'', s)
       else (success, s\<lparr>cs_contracts := insert_at index c (cs_contracts s), cs_revision := cs_revision s + 1\<rparr>))"

definition contracts_remove :: "string \<Rightarrow> contract_set \<Rightarrow> status \<times> contract_set" where
  "contracts_remove i s =
     (let index = lower_bound_index ct_id (cs_contracts s) i in
      if \<not> present_at ct_id (cs_contracts s) i index then (not_present ''contract'' i, s)
      else (success, s\<lparr>cs_contracts := erase_at index (cs_contracts s), cs_revision := cs_revision s + 1\<rparr>))"

definition contracts_find :: "contract_set \<Rightarrow> string \<Rightarrow> contract option" where
  "contracts_find s i = find_sorted ct_id (cs_contracts s) i"

definition contracts_clear :: "contract_set \<Rightarrow> contract_set" where
  "contracts_clear s = s\<lparr>cs_contracts := [], cs_revision := cs_revision s + 1\<rparr>"

definition contracts_validate :: "contract_set \<Rightarrow> status" where
  "contracts_validate s = first_error
     (map (\<lambda>i. if ct_id (cs_contracts s ! i) = ct_id (cs_contracts s ! (i - 1))
               then status_error ScDuplicateIdentity (''duplicate contract id '' @ ct_id (cs_contracts s ! i))
               else success) [1..<length (cs_contracts s)]
      @ map validate_contract (cs_contracts s))"

definition encode_contracts :: "contract_set \<Rightarrow> bytes" where
  "encode_contracts s =
     w_count (length (cs_contracts s)) @ concat (map encode_contract (cs_contracts s))"

fun decode_contracts_loop :: "nat \<Rightarrow> contract_set \<Rightarrow> contract_set rd" where
  "decode_contracts_loop 0 s = rd_return s"
| "decode_contracts_loop (Suc n) s =
     rd_bind decode_contract (\<lambda>c.
       case contracts_upsert c s of (st, s') \<Rightarrow>
         if \<not> ok st then rd_fail (st_code st) (st_message st) else decode_contracts_loop n s')"

definition decode_contracts :: "contract_set rd" where
  "decode_contracts = rd_bind (rd_count kMaxContracts) (\<lambda>n. decode_contracts_loop n empty_contract_set)"

definition contracts_digest :: "contract_set \<Rightarrow> bytes \<times> contract_set" where
  "contracts_digest s =
     (if cs_cached_valid s \<and> cs_cached_revision s = cs_revision s then (cs_cached_digest s, s)
      else let d = canonical_digest ''cif.contractset.v1'' (encode_contracts s) in
        (d, s\<lparr>cs_cached_digest := d, cs_cached_revision := cs_revision s, cs_cached_valid := True\<rparr>))"

section \<open>Lemmas\<close>

definition capabilities_ok :: "string list \<Rightarrow> bool" where
  "capabilities_ok cs =
     (length cs \<le> kMaxRequiredCapabilities \<and> list_all (\<lambda>c. is_valid_identifier c kMaxIdentifierBytes) cs)"

lemma reads_capability: "is_valid_identifier c kMaxIdentifierBytes \<Longrightarrow> reads decode_capability (w_text c) c"
  unfolding decode_capability_def
  by (rule reads_bind_Nil [OF reads_text])
    (auto simp: is_valid_identifier_def limit_defs intro!: reads_return split: if_splits)

lemma reads_capabilities [reads_intros]:
  "capabilities_ok cs \<Longrightarrow> reads decode_capabilities (encode_capabilities cs) cs"
  unfolding decode_capabilities_def encode_capabilities_def capabilities_ok_def
  by (rule reads_bind [OF reads_count])
    (auto simp: limit_defs intro!: reads_times_list [of "\<lambda>c. is_valid_identifier c 128"]
      reads_capability [unfolded limit_defs])

definition contract_ok :: "contract \<Rightarrow> bool" where
  "contract_ok x = (id_ok (ct_id x) \<and> id_ok (ct_source_service x) \<and> id_ok (ct_destination_service x)
     \<and> capabilities_ok (ct_required_capabilities x))"

lemma reads_contract [reads_intros]: "contract_ok x \<Longrightarrow> reads decode_contract (encode_contract x) x"
  unfolding decode_contract_def encode_contract_def contract_ok_def
  by ((rule reads_bind | (rule reads_intros; simp add: limit_defs)
      | (rule reads_if, simp) | rule reads_bind_Nil)+)

definition contracts_wf :: "contract_set \<Rightarrow> bool" where
  "contracts_wf s = (sorted_by ct_id (cs_contracts s) \<and> length (cs_contracts s) \<le> kMaxContracts
     \<and> list_all (\<lambda>c. ok (validate_contract c)) (cs_contracts s))"

lemma contracts_wf_empty: "contracts_wf empty_contract_set"
  by (simp add: contracts_wf_def empty_contract_set_def)

lemma list_all_put:
  "sorted_by key xs \<Longrightarrow> list_all P xs \<Longrightarrow> P x \<Longrightarrow> list_all P (table_put key x xs)"
  by (auto simp: list_all_iff set_table_put)

lemma list_all_erase: "list_all P xs \<Longrightarrow> list_all P (erase_at i xs)"
  by (auto simp: list_all_iff erase_at_def dest: in_set_takeD in_set_dropD)

lemma contracts_upsert_put:
  assumes "ok (fst (contracts_upsert c s))"
  shows "ok (validate_contract c)"
    "cs_contracts (snd (contracts_upsert c s)) = table_put ct_id c (cs_contracts s)"
    "length (cs_contracts s) \<le> kMaxContracts \<Longrightarrow> length (table_put ct_id c (cs_contracts s)) \<le> kMaxContracts"
  using assms
  by (auto simp: contracts_upsert_def cif_try_def Let_def replace_is_put insert_is_put put_bounded
      split: if_splits)

lemma contracts_upsert_refused: "\<not> ok (fst (contracts_upsert c s)) \<Longrightarrow> snd (contracts_upsert c s) = s"
  by (auto simp: contracts_upsert_def cif_try_def Let_def split: if_splits)

lemma contracts_upsert_wf: "contracts_wf s \<Longrightarrow> contracts_wf (snd (contracts_upsert c s))"
  using contracts_upsert_put [of c s] contracts_upsert_refused [of c s]
  by (cases "ok (fst (contracts_upsert c s))") (auto simp: contracts_wf_def sorted_table_put list_all_put)

lemma contracts_remove_wf: "contracts_wf s \<Longrightarrow> contracts_wf (snd (contracts_remove i s))"
  by (auto simp: contracts_remove_def Let_def contracts_wf_def erase_facts list_all_erase)

end
