(* ===== verification/Request.thy ===== *)
theory Request
  imports Model_Codec
begin

text \<open>
  What callers send (\<^verbatim>\<open>include/cif/request.hpp\<close>, \<^verbatim>\<open>src/request.cpp\<close>): authority,
  release, resolve, acknowledge and cancel requests, their structural validation and
  their canonical codecs with the round trips.
\<close>

section \<open>Requests\<close>

record authority_request =
  rq_request_id :: string
  rq_contract_id :: string
  rq_contract_generation :: u64
  rq_cluster_id :: string
  rq_cluster_generation :: u64
  rq_epoch :: u64
  rq_incarnation :: bytes
  rq_policy_generation :: u64
  rq_source_member :: string
  rq_source_member_generation :: u64
  rq_source_member_digest :: bytes
  rq_destination_member :: string
  rq_destination_member_generation :: u64
  rq_destination_member_digest :: bytes
  rq_source_endpoint :: string
  rq_destination_endpoint :: string
  rq_path_id :: string
  rq_path_generation :: u64
  rq_resource_id :: string
  rq_reservation_generation :: u64
  rq_requested_units :: u64
  rq_lease_ticks :: u64
  rq_attempt_id :: string
  rq_provenance :: provenance
  rq_allow_degraded :: bool
  rq_renewal :: bool
  rq_renewal_of :: string
  rq_renewal_lease :: string

record release_request =
  rl_request_id :: string
  rl_grant_id :: string
  rl_attempt_id :: string
  rl_lease_id :: string
  rl_cluster_id :: string
  rl_cluster_generation :: u64
  rl_epoch :: u64
  rl_incarnation :: bytes
  rl_provenance :: provenance
  rl_administrative :: bool

record resolve_request =
  rv_request_id :: string
  rv_attempt_id :: string
  rv_cluster_id :: string
  rv_cluster_generation :: u64
  rv_epoch :: u64
  rv_incarnation :: bytes
  rv_provenance :: provenance

record acknowledge_request =
  ak_request_id :: string
  ak_grant_id :: string
  ak_lease_id :: string
  ak_attempt_id :: string
  ak_cluster_generation :: u64
  ak_epoch :: u64
  ak_incarnation :: bytes
  ak_provenance :: provenance

record cancel_request =
  cn_request_id :: string
  cn_attempt_id :: string
  cn_grant_id :: string
  cn_cluster_generation :: u64
  cn_epoch :: u64
  cn_incarnation :: bytes
  cn_reason :: string
  cn_provenance :: provenance

section \<open>Validation\<close>

definition has_member_digests :: "authority_request \<Rightarrow> bool" where
  "has_member_digests q =
     (\<not> digest_is_zero (rq_source_member_digest q) \<and> \<not> digest_is_zero (rq_destination_member_digest q))"

definition has_path_claim :: "authority_request \<Rightarrow> bool" where
  "has_path_claim q = (rq_path_id q \<noteq> [])"

definition has_resource_claim :: "authority_request \<Rightarrow> bool" where
  "has_resource_claim q = (rq_resource_id q \<noteq> [])"

definition validate_authority_request :: "authority_request \<Rightarrow> status" where
  "validate_authority_request q =
     (if rq_request_id q = [] then status_error ScInvalidArgument ''request id must not be empty''
      else if rq_contract_id q = [] then status_error ScInvalidArgument ''request must name a contract''
      else if rq_cluster_id q = [] then status_error ScInvalidArgument ''request must name a cluster''
      else if rq_source_member q = [] \<or> rq_destination_member q = [] then
        status_error ScInvalidArgument ''request must name both a source and a destination member''
      else if rq_source_member q = rq_destination_member q
              \<and> rq_source_endpoint q = rq_destination_endpoint q \<and> rq_source_endpoint q \<noteq> [] then
        status_error ScInvalidArgument ''request source and destination are the same endpoint''
      else if rq_attempt_id q = [] then
        status_error ScInvalidArgument ''request must carry an attempt id so it can be made idempotent''
      else if rq_requested_units q > kMaxRequestedUnits then
        status_error ScLimitExceeded ''requested units exceed the configured bound''
      else if rq_lease_ticks q > kMaxLeaseTicks then
        status_error ScLimitExceeded ''lease length exceeds the configured bound''
      else if rq_renewal q \<and> (rq_renewal_of q = [] \<or> rq_renewal_lease q = []) then
        status_error ScInvalidArgument ''a renewal must name the grant and lease it renews''
      else if \<not> rq_renewal q \<and> (rq_renewal_of q \<noteq> [] \<or> rq_renewal_lease q \<noteq> []) then
        status_error ScInvalidArgument ''a non-renewal request must not name a grant or lease to renew''
      else if \<not> is_valid_utf8 (pv_origin (rq_provenance q))
              \<or> \<not> is_valid_utf8 (pv_correlation_id (rq_provenance q)) then
        status_error ScInvalidArgument ''provenance text must be valid UTF-8''
      else if length (pv_origin (rq_provenance q)) > kMaxIdentifierBytes
              \<or> length (pv_correlation_id (rq_provenance q)) > kMaxIdentifierBytes then
        status_error ScLimitExceeded ''provenance text exceeds the configured bound''
      else success)"

definition validate_release_request :: "release_request \<Rightarrow> status" where
  "validate_release_request q =
     (if rl_request_id q = [] then status_error ScInvalidArgument ''request id must not be empty''
      else if rl_grant_id q = [] \<and> rl_attempt_id q = [] then
        status_error ScInvalidArgument ''release must name a grant or an attempt to identify its target''
      else success)"

definition validate_resolve_request :: "resolve_request \<Rightarrow> status" where
  "validate_resolve_request q =
     (if rv_request_id q = [] then status_error ScInvalidArgument ''request id must not be empty''
      else if rv_attempt_id q = [] then
        status_error ScInvalidArgument ''resolve must name the attempt to resolve''
      else success)"

definition validate_acknowledge_request :: "acknowledge_request \<Rightarrow> status" where
  "validate_acknowledge_request q =
     (if ak_request_id q = [] then status_error ScInvalidArgument ''request id must not be empty''
      else if ak_grant_id q = [] \<or> ak_lease_id q = [] then
        status_error ScInvalidArgument ''acknowledgement must name a grant and its lease''
      else success)"

definition validate_cancel_request :: "cancel_request \<Rightarrow> status" where
  "validate_cancel_request q =
     (if cn_request_id q = [] then status_error ScInvalidArgument ''request id must not be empty''
      else if cn_attempt_id q = [] \<and> cn_grant_id q = [] then
        status_error ScInvalidArgument ''cancel must name an attempt or a grant''
      else if \<not> is_valid_utf8 (cn_reason q) then
        status_error ScInvalidArgument ''cancel reason must be valid UTF-8''
      else if length (cn_reason q) > kMaxNoteBytes then
        status_error ScLimitExceeded ''cancel reason exceeds the configured bound''
      else success)"

section \<open>Codecs\<close>

definition encode_authority_request :: "authority_request \<Rightarrow> bytes" where
  "encode_authority_request x =
     encode_id (rq_request_id x) @ encode_id (rq_contract_id x)
     @ encode_counter (rq_contract_generation x) @ encode_id (rq_cluster_id x)
     @ encode_counter (rq_cluster_generation x) @ encode_counter (rq_epoch x)
     @ encode_incarnation (rq_incarnation x) @ encode_counter (rq_policy_generation x)
     @ encode_id (rq_source_member x) @ encode_counter (rq_source_member_generation x)
     @ w_raw (rq_source_member_digest x) @ encode_id (rq_destination_member x)
     @ encode_counter (rq_destination_member_generation x)
     @ w_raw (rq_destination_member_digest x) @ encode_id (rq_source_endpoint x)
     @ encode_id (rq_destination_endpoint x) @ encode_id (rq_path_id x)
     @ encode_counter (rq_path_generation x) @ encode_id (rq_resource_id x)
     @ encode_counter (rq_reservation_generation x) @ w_u64 (rq_requested_units x)
     @ w_u64 (rq_lease_ticks x) @ encode_id (rq_attempt_id x)
     @ encode_provenance (rq_provenance x) @ w_boolean (rq_allow_degraded x)
     @ w_boolean (rq_renewal x) @ encode_id (rq_renewal_of x) @ encode_id (rq_renewal_lease x)"

definition decode_authority_request :: "authority_request rd" where
  "decode_authority_request =
     rd_bind decode_id (\<lambda>z0.
     rd_bind decode_id (\<lambda>z1.
     rd_bind decode_counter (\<lambda>z2.
     rd_bind decode_id (\<lambda>z3.
     rd_bind decode_counter (\<lambda>z4.
     rd_bind decode_counter (\<lambda>z5.
     rd_bind decode_incarnation (\<lambda>z6.
     rd_bind decode_counter (\<lambda>z7.
     rd_bind decode_id (\<lambda>z8.
     rd_bind decode_counter (\<lambda>z9.
     rd_bind rd_digest (\<lambda>z10.
     rd_bind decode_id (\<lambda>z11.
     rd_bind decode_counter (\<lambda>z12.
     rd_bind rd_digest (\<lambda>z13.
     rd_bind decode_id (\<lambda>z14.
     rd_bind decode_id (\<lambda>z15.
     rd_bind decode_id (\<lambda>z16.
     rd_bind decode_counter (\<lambda>z17.
     rd_bind decode_id (\<lambda>z18.
     rd_bind decode_counter (\<lambda>z19.
     rd_bind rd_u64 (\<lambda>z20.
     rd_bind rd_u64 (\<lambda>z21.
     rd_bind decode_id (\<lambda>z22.
     rd_bind decode_provenance (\<lambda>z23.
     rd_bind rd_boolean (\<lambda>z24.
     rd_bind rd_boolean (\<lambda>z25.
     rd_bind decode_id (\<lambda>z26.
     rd_bind decode_id (\<lambda>z27.
     rd_return \<lparr>rq_request_id = z0, rq_contract_id = z1, rq_contract_generation = z2, rq_cluster_id = z3
        , rq_cluster_generation = z4, rq_epoch = z5, rq_incarnation = z6
        , rq_policy_generation = z7, rq_source_member = z8, rq_source_member_generation = z9
        , rq_source_member_digest = z10, rq_destination_member = z11
        , rq_destination_member_generation = z12, rq_destination_member_digest = z13
        , rq_source_endpoint = z14, rq_destination_endpoint = z15, rq_path_id = z16
        , rq_path_generation = z17, rq_resource_id = z18, rq_reservation_generation = z19
        , rq_requested_units = z20, rq_lease_ticks = z21, rq_attempt_id = z22
        , rq_provenance = z23, rq_allow_degraded = z24, rq_renewal = z25, rq_renewal_of = z26
        , rq_renewal_lease = z27\<rparr>))))))))))))))))))))))))))))"

definition encode_release_request :: "release_request \<Rightarrow> bytes" where
  "encode_release_request x =
     encode_id (rl_request_id x) @ encode_id (rl_grant_id x) @ encode_id (rl_attempt_id x)
     @ encode_id (rl_lease_id x) @ encode_id (rl_cluster_id x)
     @ encode_counter (rl_cluster_generation x) @ encode_counter (rl_epoch x)
     @ encode_incarnation (rl_incarnation x) @ encode_provenance (rl_provenance x)
     @ w_boolean (rl_administrative x)"

definition decode_release_request :: "release_request rd" where
  "decode_release_request =
     rd_bind decode_id (\<lambda>z0.
     rd_bind decode_id (\<lambda>z1.
     rd_bind decode_id (\<lambda>z2.
     rd_bind decode_id (\<lambda>z3.
     rd_bind decode_id (\<lambda>z4.
     rd_bind decode_counter (\<lambda>z5.
     rd_bind decode_counter (\<lambda>z6.
     rd_bind decode_incarnation (\<lambda>z7.
     rd_bind decode_provenance (\<lambda>z8.
     rd_bind rd_boolean (\<lambda>z9.
     rd_return \<lparr>rl_request_id = z0, rl_grant_id = z1, rl_attempt_id = z2, rl_lease_id = z3
        , rl_cluster_id = z4, rl_cluster_generation = z5, rl_epoch = z6, rl_incarnation = z7
        , rl_provenance = z8, rl_administrative = z9\<rparr>))))))))))"

definition encode_resolve_request :: "resolve_request \<Rightarrow> bytes" where
  "encode_resolve_request x =
     encode_id (rv_request_id x) @ encode_id (rv_attempt_id x) @ encode_id (rv_cluster_id x)
     @ encode_counter (rv_cluster_generation x) @ encode_counter (rv_epoch x)
     @ encode_incarnation (rv_incarnation x) @ encode_provenance (rv_provenance x)"

definition decode_resolve_request :: "resolve_request rd" where
  "decode_resolve_request =
     rd_bind decode_id (\<lambda>z0.
     rd_bind decode_id (\<lambda>z1.
     rd_bind decode_id (\<lambda>z2.
     rd_bind decode_counter (\<lambda>z3.
     rd_bind decode_counter (\<lambda>z4.
     rd_bind decode_incarnation (\<lambda>z5.
     rd_bind decode_provenance (\<lambda>z6.
     rd_return \<lparr>rv_request_id = z0, rv_attempt_id = z1, rv_cluster_id = z2, rv_cluster_generation = z3
        , rv_epoch = z4, rv_incarnation = z5, rv_provenance = z6\<rparr>)))))))"

definition encode_acknowledge_request :: "acknowledge_request \<Rightarrow> bytes" where
  "encode_acknowledge_request x =
     encode_id (ak_request_id x) @ encode_id (ak_grant_id x) @ encode_id (ak_lease_id x)
     @ encode_id (ak_attempt_id x) @ encode_counter (ak_cluster_generation x)
     @ encode_counter (ak_epoch x) @ encode_incarnation (ak_incarnation x)
     @ encode_provenance (ak_provenance x)"

definition decode_acknowledge_request :: "acknowledge_request rd" where
  "decode_acknowledge_request =
     rd_bind decode_id (\<lambda>z0.
     rd_bind decode_id (\<lambda>z1.
     rd_bind decode_id (\<lambda>z2.
     rd_bind decode_id (\<lambda>z3.
     rd_bind decode_counter (\<lambda>z4.
     rd_bind decode_counter (\<lambda>z5.
     rd_bind decode_incarnation (\<lambda>z6.
     rd_bind decode_provenance (\<lambda>z7.
     rd_return \<lparr>ak_request_id = z0, ak_grant_id = z1, ak_lease_id = z2, ak_attempt_id = z3
        , ak_cluster_generation = z4, ak_epoch = z5, ak_incarnation = z6, ak_provenance = z7\<rparr>))))))))"

definition encode_cancel_request :: "cancel_request \<Rightarrow> bytes" where
  "encode_cancel_request x =
     encode_id (cn_request_id x) @ encode_id (cn_attempt_id x) @ encode_id (cn_grant_id x)
     @ encode_counter (cn_cluster_generation x) @ encode_counter (cn_epoch x)
     @ encode_incarnation (cn_incarnation x) @ w_text (cn_reason x)
     @ encode_provenance (cn_provenance x)"

definition decode_cancel_request :: "cancel_request rd" where
  "decode_cancel_request =
     rd_bind decode_id (\<lambda>z0.
     rd_bind decode_id (\<lambda>z1.
     rd_bind decode_id (\<lambda>z2.
     rd_bind decode_counter (\<lambda>z3.
     rd_bind decode_counter (\<lambda>z4.
     rd_bind decode_incarnation (\<lambda>z5.
     rd_bind (rd_text kMaxNoteBytes) (\<lambda>z6.
     rd_bind decode_provenance (\<lambda>z7.
     rd_return \<lparr>cn_request_id = z0, cn_attempt_id = z1, cn_grant_id = z2, cn_cluster_generation = z3
        , cn_epoch = z4, cn_incarnation = z5, cn_reason = z6, cn_provenance = z7\<rparr>))))))))"

definition authority_request_digest :: "authority_request \<Rightarrow> bytes" where
  "authority_request_digest q = canonical_digest ''cif.authority.request.v1'' (encode_authority_request q)"

section \<open>Round trips\<close>

definition authority_request_ok :: "authority_request \<Rightarrow> bool" where
  "authority_request_ok x = (id_ok (rq_request_id x) \<and> id_ok (rq_contract_id x) \<and> id_ok (rq_cluster_id x)
     \<and> length (rq_incarnation x) = 16 \<and> id_ok (rq_source_member x)
     \<and> length (rq_source_member_digest x) = 32 \<and> id_ok (rq_destination_member x)
     \<and> length (rq_destination_member_digest x) = 32 \<and> id_ok (rq_source_endpoint x)
     \<and> id_ok (rq_destination_endpoint x) \<and> id_ok (rq_path_id x)
     \<and> id_ok (rq_resource_id x) \<and> id_ok (rq_attempt_id x)
     \<and> provenance_ok (rq_provenance x) \<and> id_ok (rq_renewal_of x)
     \<and> id_ok (rq_renewal_lease x))"

lemma reads_authority_request [reads_intros]: "authority_request_ok x \<Longrightarrow> reads decode_authority_request (encode_authority_request x) x"
  unfolding decode_authority_request_def encode_authority_request_def authority_request_ok_def
  by ((rule reads_bind | (rule reads_raw_digest reads_intros; simp add: limit_defs)
      | (rule reads_if, simp) | rule reads_bind_Nil)+)

definition release_request_ok :: "release_request \<Rightarrow> bool" where
  "release_request_ok x = (id_ok (rl_request_id x) \<and> id_ok (rl_grant_id x) \<and> id_ok (rl_attempt_id x)
     \<and> id_ok (rl_lease_id x) \<and> id_ok (rl_cluster_id x)
     \<and> length (rl_incarnation x) = 16 \<and> provenance_ok (rl_provenance x))"

lemma reads_release_request [reads_intros]: "release_request_ok x \<Longrightarrow> reads decode_release_request (encode_release_request x) x"
  unfolding decode_release_request_def encode_release_request_def release_request_ok_def
  by ((rule reads_bind | (rule reads_raw_digest reads_intros; simp add: limit_defs)
      | (rule reads_if, simp) | rule reads_bind_Nil)+)

definition resolve_request_ok :: "resolve_request \<Rightarrow> bool" where
  "resolve_request_ok x = (id_ok (rv_request_id x) \<and> id_ok (rv_attempt_id x) \<and> id_ok (rv_cluster_id x)
     \<and> length (rv_incarnation x) = 16 \<and> provenance_ok (rv_provenance x))"

lemma reads_resolve_request [reads_intros]: "resolve_request_ok x \<Longrightarrow> reads decode_resolve_request (encode_resolve_request x) x"
  unfolding decode_resolve_request_def encode_resolve_request_def resolve_request_ok_def
  by ((rule reads_bind | (rule reads_raw_digest reads_intros; simp add: limit_defs)
      | (rule reads_if, simp) | rule reads_bind_Nil)+)

definition acknowledge_request_ok :: "acknowledge_request \<Rightarrow> bool" where
  "acknowledge_request_ok x = (id_ok (ak_request_id x) \<and> id_ok (ak_grant_id x) \<and> id_ok (ak_lease_id x)
     \<and> id_ok (ak_attempt_id x) \<and> length (ak_incarnation x) = 16
     \<and> provenance_ok (ak_provenance x))"

lemma reads_acknowledge_request [reads_intros]: "acknowledge_request_ok x \<Longrightarrow> reads decode_acknowledge_request (encode_acknowledge_request x) x"
  unfolding decode_acknowledge_request_def encode_acknowledge_request_def acknowledge_request_ok_def
  by ((rule reads_bind | (rule reads_raw_digest reads_intros; simp add: limit_defs)
      | (rule reads_if, simp) | rule reads_bind_Nil)+)

definition cancel_request_ok :: "cancel_request \<Rightarrow> bool" where
  "cancel_request_ok x = (id_ok (cn_request_id x) \<and> id_ok (cn_attempt_id x) \<and> id_ok (cn_grant_id x)
     \<and> length (cn_incarnation x) = 16 \<and> length (cn_reason x) \<le> kMaxNoteBytes
     \<and> provenance_ok (cn_provenance x))"

lemma reads_cancel_request [reads_intros]: "cancel_request_ok x \<Longrightarrow> reads decode_cancel_request (encode_cancel_request x) x"
  unfolding decode_cancel_request_def encode_cancel_request_def cancel_request_ok_def
  by ((rule reads_bind | (rule reads_raw_digest reads_intros; simp add: limit_defs)
      | (rule reads_if, simp) | rule reads_bind_Nil)+)

end
