(* ===== verification/Grant.thy ===== *)
theory Grant
  imports Request
begin

text \<open>
  What the controller answers and keeps (\<^verbatim>\<open>include/cif/grant.hpp\<close>, \<^verbatim>\<open>src/grant.cpp\<close>):
  grants with their life cycle, attempt records, decisions, the persistent counters,
  their canonical codecs with the round trips, and the digests taken over them.
  Rendering a decision as text (\<^verbatim>\<open>src/render.cpp\<close>) is not part of this theory.
\<close>

section \<open>Life cycle\<close>

datatype grant_state =
    GsPrepared | GsCommitted | GsAcknowledged | GsAmbiguous | GsReleased | GsExpired | GsFenced
  | GsRevoked | GsSuperseded

datatype commit_state = CsNone | CsPrepared | CsCommitted | CsAcknowledged | CsAmbiguous

definition grant_states :: "grant_state list" where
  "grant_states = [GsPrepared, GsCommitted, GsAcknowledged, GsAmbiguous, GsReleased, GsExpired,
     GsFenced, GsRevoked, GsSuperseded]"

definition commit_states :: "commit_state list" where
  "commit_states = [CsNone, CsPrepared, CsCommitted, CsAcknowledged, CsAmbiguous]"

primrec grant_state_to_string :: "grant_state \<Rightarrow> string" where
  "grant_state_to_string GsPrepared = ''PREPARED''"
| "grant_state_to_string GsCommitted = ''COMMITTED''"
| "grant_state_to_string GsAcknowledged = ''ACKNOWLEDGED''"
| "grant_state_to_string GsAmbiguous = ''AMBIGUOUS''"
| "grant_state_to_string GsReleased = ''RELEASED''"
| "grant_state_to_string GsExpired = ''EXPIRED''"
| "grant_state_to_string GsFenced = ''FENCED''"
| "grant_state_to_string GsRevoked = ''REVOKED''"
| "grant_state_to_string GsSuperseded = ''SUPERSEDED''"

primrec commit_state_to_string :: "commit_state \<Rightarrow> string" where
  "commit_state_to_string CsNone = ''NONE''"
| "commit_state_to_string CsPrepared = ''PREPARED''"
| "commit_state_to_string CsCommitted = ''COMMITTED''"
| "commit_state_to_string CsAcknowledged = ''ACKNOWLEDGED''"
| "commit_state_to_string CsAmbiguous = ''AMBIGUOUS''"

definition is_live :: "grant_state \<Rightarrow> bool" where
  "is_live s = (s = GsPrepared \<or> s = GsCommitted \<or> s = GsAcknowledged)"

definition is_quarantined :: "grant_state \<Rightarrow> bool" where
  "is_quarantined s = (s = GsAmbiguous)"

definition holds_capacity :: "grant_state \<Rightarrow> bool" where
  "holds_capacity s = (s = GsCommitted \<or> s = GsAcknowledged \<or> is_quarantined s)"

definition is_terminal :: "grant_state \<Rightarrow> bool" where
  "is_terminal s = (s = GsReleased \<or> s = GsExpired \<or> s = GsFenced \<or> s = GsRevoked \<or> s = GsSuperseded)"

lemmas life_defs = is_live_def is_quarantined_def holds_capacity_def is_terminal_def

section \<open>Grants, attempts, decisions, counters\<close>

record grant =
  gr_grant_id :: string
  gr_cluster_id :: string
  gr_cluster_generation :: u64
  gr_epoch :: u64
  gr_policy_generation :: u64
  gr_incarnation :: bytes
  gr_contract_id :: string
  gr_contract_generation :: u64
  gr_source_service :: string
  gr_destination_service :: string
  gr_source_member :: string
  gr_source_member_generation :: u64
  gr_source_member_digest :: bytes
  gr_destination_member :: string
  gr_destination_member_generation :: u64
  gr_destination_member_digest :: bytes
  gr_source_endpoint :: string
  gr_destination_endpoint :: string
  gr_path_id :: string
  gr_path_generation :: u64
  gr_resource_id :: string
  gr_reservation_generation :: u64
  gr_requested_units :: u64
  gr_capacity_units :: u64
  gr_distinct_failure_domains :: u32
  gr_lease_id :: string
  gr_lease_issued :: u64
  gr_lease_expiry :: u64
  gr_attempt_id :: string
  gr_source_domain :: string
  gr_destination_domain :: string
  gr_outcome :: authority_outcome
  gr_state :: grant_state
  gr_commit :: commit_state
  gr_prepare_sequence :: u64
  gr_commit_sequence :: u64
  gr_release_sequence :: u64
  gr_acknowledgement_sequence :: u64
  gr_acknowledged :: bool
  gr_degraded :: bool
  gr_capacity_reserved :: bool
  gr_reductions :: "reason list"
  gr_provenance :: provenance

record attempt =
  at_attempt_id :: string
  at_request_id :: string
  at_request_digest :: bytes
  at_grant_id :: string
  at_lease_id :: string
  at_outcome :: authority_outcome
  at_primary_reason :: reason_code
  at_first_seen :: u64
  at_terminal_tick :: u64
  at_released :: bool
  at_cancelled :: bool

record decision =
  dc_request_id :: string
  dc_attempt_id :: string
  dc_outcome :: authority_outcome
  dc_reasons :: "reason list"
  dc_grant :: "grant option"
  dc_cluster_id :: string
  dc_cluster_generation :: u64
  dc_epoch :: u64
  dc_policy_generation :: u64
  dc_incarnation :: bytes
  dc_spec_digest :: bytes
  dc_state_digest :: bytes
  dc_decision_sequence :: u64
  dc_decided_at :: u64
  dc_idempotent_replay :: bool
  dc_requires_reconciliation :: bool
  dc_decision_digest :: bytes
  dc_explanation :: string

record counters =
  co_decisions :: u64
  co_grants :: u64
  co_leases :: u64
  co_attempts :: u64
  co_fences :: u64
  co_refusals :: u64
  co_releases :: u64
  co_expiries :: u64
  co_recoveries :: u64
  co_compactions :: u64

definition empty_decision :: decision where
  "empty_decision = \<lparr>dc_request_id = [], dc_attempt_id = [], dc_outcome = OutInvalid, dc_reasons = []
     , dc_grant = None, dc_cluster_id = [], dc_cluster_generation = 0, dc_epoch = 0
     , dc_policy_generation = 0, dc_incarnation = zero_incarnation, dc_spec_digest = digest_zero
     , dc_state_digest = digest_zero, dc_decision_sequence = 0, dc_decided_at = 0
     , dc_idempotent_replay = False, dc_requires_reconciliation = False
     , dc_decision_digest = digest_zero, dc_explanation = []\<rparr>"

definition empty_grant :: grant where
  "empty_grant = \<lparr>gr_grant_id = [], gr_cluster_id = [], gr_cluster_generation = 0, gr_epoch = 0
     , gr_policy_generation = 0, gr_incarnation = zero_incarnation, gr_contract_id = []
     , gr_contract_generation = 0, gr_source_service = [], gr_destination_service = []
     , gr_source_member = [], gr_source_member_generation = 0
     , gr_source_member_digest = digest_zero, gr_destination_member = []
     , gr_destination_member_generation = 0, gr_destination_member_digest = digest_zero
     , gr_source_endpoint = [], gr_destination_endpoint = [], gr_path_id = []
     , gr_path_generation = 0, gr_resource_id = [], gr_reservation_generation = 0
     , gr_requested_units = 0, gr_capacity_units = 0, gr_distinct_failure_domains = 0
     , gr_lease_id = [], gr_lease_issued = 0, gr_lease_expiry = 0, gr_attempt_id = []
     , gr_source_domain = [], gr_destination_domain = [], gr_outcome = OutGranted
     , gr_state = GsPrepared, gr_commit = CsNone, gr_prepare_sequence = 0
     , gr_commit_sequence = 0, gr_release_sequence = 0, gr_acknowledgement_sequence = 0
     , gr_acknowledged = False, gr_degraded = False, gr_capacity_reserved = False
     , gr_reductions = [], gr_provenance = no_provenance\<rparr>"

definition empty_attempt :: attempt where
  "empty_attempt = \<lparr>at_attempt_id = [], at_request_id = [], at_request_digest = digest_zero, at_grant_id = []
     , at_lease_id = [], at_outcome = OutInvalid, at_primary_reason = RcNone, at_first_seen = 0
     , at_terminal_tick = 0, at_released = False, at_cancelled = False\<rparr>"

definition zero_counters :: counters where
  "zero_counters = \<lparr>co_decisions = 0, co_grants = 0, co_leases = 0, co_attempts = 0, co_fences = 0
     , co_refusals = 0, co_releases = 0, co_expiries = 0, co_recoveries = 0, co_compactions = 0\<rparr>"

definition expired_at :: "grant \<Rightarrow> u64 \<Rightarrow> bool" where
  "expired_at g now = (gr_lease_expiry g \<noteq> 0 \<and> now \<ge> gr_lease_expiry g)"

definition attempt_terminal :: "attempt \<Rightarrow> bool" where
  "attempt_terminal a = (at_released a \<or> at_cancelled a)"

definition primary_reason :: "decision \<Rightarrow> reason_code" where
  "primary_reason d =
     (case find (\<lambda>r. rs_code r \<noteq> RcNone) (dc_reasons d) of Some r \<Rightarrow> rs_code r | None \<Rightarrow> RcNone)"

definition authoritative :: "decision \<Rightarrow> bool" where
  "authoritative d = is_authoritative (dc_outcome d)"

section \<open>Codecs\<close>

definition w_enum16 :: "'a list \<Rightarrow> 'a \<Rightarrow> bytes" where
  "w_enum16 cs x = w_u16 (of_nat (ordinal cs x))"

definition rd_enum16 :: "'a list \<Rightarrow> string \<Rightarrow> 'a rd" where
  "rd_enum16 cs msg = rd_bind rd_u16 (\<lambda>b.
     if unat b > length cs - 1 then rd_fail ScCorruption msg else rd_return (cs ! unat b))"

definition encode_reason :: "reason \<Rightarrow> bytes" where
  "encode_reason r = w_enum16 reason_codes (rs_code r) @ w_text (rs_detail r)"

definition decode_reason :: "reason rd" where
  "decode_reason =
     rd_bind (rd_enum16 reason_codes ''reason code out of range'') (\<lambda>c.
     rd_bind (rd_text kMaxReasonDetailBytes) (\<lambda>d.
     if \<not> is_valid_utf8 d then rd_fail ScCorruption ''reason detail is not valid UTF-8''
     else rd_return \<lparr>rs_code = c, rs_detail = d\<rparr>))"

definition encode_reasons :: "reason list \<Rightarrow> bytes" where
  "encode_reasons rs =
     (let bounded = (if length rs < kMaxReasons then length rs else kMaxReasons)
      in w_count bounded @ concat (map encode_reason (take bounded rs)))"

definition decode_reasons :: "reason list rd" where
  "decode_reasons = rd_bind (rd_count kMaxReasons) (\<lambda>n. rd_times n decode_reason)"

definition encode_grant :: "grant \<Rightarrow> bytes" where
  "encode_grant x =
     encode_id (gr_grant_id x) @ encode_id (gr_cluster_id x)
     @ encode_counter (gr_cluster_generation x) @ encode_counter (gr_epoch x)
     @ encode_counter (gr_policy_generation x) @ encode_incarnation (gr_incarnation x)
     @ encode_id (gr_contract_id x) @ encode_counter (gr_contract_generation x)
     @ encode_id (gr_source_service x) @ encode_id (gr_destination_service x)
     @ encode_id (gr_source_member x) @ encode_counter (gr_source_member_generation x)
     @ w_raw (gr_source_member_digest x) @ encode_id (gr_destination_member x)
     @ encode_counter (gr_destination_member_generation x)
     @ w_raw (gr_destination_member_digest x) @ encode_id (gr_source_endpoint x)
     @ encode_id (gr_destination_endpoint x) @ encode_id (gr_path_id x)
     @ encode_counter (gr_path_generation x) @ encode_id (gr_resource_id x)
     @ encode_counter (gr_reservation_generation x) @ w_u64 (gr_requested_units x)
     @ w_u64 (gr_capacity_units x) @ w_u32 (gr_distinct_failure_domains x)
     @ encode_id (gr_lease_id x) @ encode_counter (gr_lease_issued x)
     @ encode_counter (gr_lease_expiry x) @ encode_id (gr_attempt_id x)
     @ encode_id (gr_source_domain x) @ encode_id (gr_destination_domain x)
     @ w_enum authority_outcomes (gr_outcome x) @ w_enum grant_states (gr_state x)
     @ w_enum commit_states (gr_commit x) @ w_u64 (gr_prepare_sequence x)
     @ w_u64 (gr_commit_sequence x) @ w_u64 (gr_release_sequence x)
     @ w_u64 (gr_acknowledgement_sequence x) @ w_boolean (gr_acknowledged x)
     @ w_boolean (gr_degraded x) @ w_boolean (gr_capacity_reserved x)
     @ encode_reasons (gr_reductions x) @ encode_provenance (gr_provenance x)"

definition decode_grant :: "grant rd" where
  "decode_grant =
     rd_bind decode_id (\<lambda>z0.
     rd_bind decode_id (\<lambda>z1.
     rd_bind decode_counter (\<lambda>z2.
     rd_bind decode_counter (\<lambda>z3.
     rd_bind decode_counter (\<lambda>z4.
     rd_bind decode_incarnation (\<lambda>z5.
     rd_bind decode_id (\<lambda>z6.
     rd_bind decode_counter (\<lambda>z7.
     rd_bind decode_id (\<lambda>z8.
     rd_bind decode_id (\<lambda>z9.
     rd_bind decode_id (\<lambda>z10.
     rd_bind decode_counter (\<lambda>z11.
     rd_bind rd_digest (\<lambda>z12.
     rd_bind decode_id (\<lambda>z13.
     rd_bind decode_counter (\<lambda>z14.
     rd_bind rd_digest (\<lambda>z15.
     rd_bind decode_id (\<lambda>z16.
     rd_bind decode_id (\<lambda>z17.
     rd_bind decode_id (\<lambda>z18.
     rd_bind decode_counter (\<lambda>z19.
     rd_bind decode_id (\<lambda>z20.
     rd_bind decode_counter (\<lambda>z21.
     rd_bind rd_u64 (\<lambda>z22.
     rd_bind rd_u64 (\<lambda>z23.
     rd_bind rd_u32 (\<lambda>z24.
     rd_bind decode_id (\<lambda>z25.
     rd_bind decode_counter (\<lambda>z26.
     rd_bind decode_counter (\<lambda>z27.
     rd_bind decode_id (\<lambda>z28.
     rd_bind decode_id (\<lambda>z29.
     rd_bind decode_id (\<lambda>z30.
     rd_bind (rd_enum authority_outcomes ''grant outcome byte out of range'') (\<lambda>z31.
     rd_bind (rd_enum grant_states ''grant state byte out of range'') (\<lambda>z32.
     rd_bind (rd_enum commit_states ''commit state byte out of range'') (\<lambda>z33.
     rd_bind rd_u64 (\<lambda>z34.
     rd_bind rd_u64 (\<lambda>z35.
     rd_bind rd_u64 (\<lambda>z36.
     rd_bind rd_u64 (\<lambda>z37.
     rd_bind rd_boolean (\<lambda>z38.
     rd_bind rd_boolean (\<lambda>z39.
     rd_bind rd_boolean (\<lambda>z40.
     rd_bind decode_reasons (\<lambda>z41.
     rd_bind decode_provenance (\<lambda>z42.
     rd_return \<lparr>gr_grant_id = z0, gr_cluster_id = z1, gr_cluster_generation = z2, gr_epoch = z3
        , gr_policy_generation = z4, gr_incarnation = z5, gr_contract_id = z6
        , gr_contract_generation = z7, gr_source_service = z8, gr_destination_service = z9
        , gr_source_member = z10, gr_source_member_generation = z11
        , gr_source_member_digest = z12, gr_destination_member = z13
        , gr_destination_member_generation = z14, gr_destination_member_digest = z15
        , gr_source_endpoint = z16, gr_destination_endpoint = z17, gr_path_id = z18
        , gr_path_generation = z19, gr_resource_id = z20, gr_reservation_generation = z21
        , gr_requested_units = z22, gr_capacity_units = z23, gr_distinct_failure_domains = z24
        , gr_lease_id = z25, gr_lease_issued = z26, gr_lease_expiry = z27, gr_attempt_id = z28
        , gr_source_domain = z29, gr_destination_domain = z30, gr_outcome = z31, gr_state = z32
        , gr_commit = z33, gr_prepare_sequence = z34, gr_commit_sequence = z35
        , gr_release_sequence = z36, gr_acknowledgement_sequence = z37, gr_acknowledged = z38
        , gr_degraded = z39, gr_capacity_reserved = z40, gr_reductions = z41
        , gr_provenance = z42\<rparr>)))))))))))))))))))))))))))))))))))))))))))"

definition encode_attempt :: "attempt \<Rightarrow> bytes" where
  "encode_attempt x =
     encode_id (at_attempt_id x) @ encode_id (at_request_id x) @ w_raw (at_request_digest x)
     @ encode_id (at_grant_id x) @ encode_id (at_lease_id x)
     @ w_enum authority_outcomes (at_outcome x) @ w_enum16 reason_codes (at_primary_reason x)
     @ encode_counter (at_first_seen x) @ encode_counter (at_terminal_tick x)
     @ w_boolean (at_released x) @ w_boolean (at_cancelled x)"

definition decode_attempt :: "attempt rd" where
  "decode_attempt =
     rd_bind decode_id (\<lambda>z0.
     rd_bind decode_id (\<lambda>z1.
     rd_bind rd_digest (\<lambda>z2.
     rd_bind decode_id (\<lambda>z3.
     rd_bind decode_id (\<lambda>z4.
     rd_bind (rd_enum authority_outcomes ''attempt outcome byte out of range'') (\<lambda>z5.
     rd_bind (rd_enum16 reason_codes ''attempt primary reason out of range'') (\<lambda>z6.
     rd_bind decode_counter (\<lambda>z7.
     rd_bind decode_counter (\<lambda>z8.
     rd_bind rd_boolean (\<lambda>z9.
     rd_bind rd_boolean (\<lambda>z10.
     rd_return \<lparr>at_attempt_id = z0, at_request_id = z1, at_request_digest = z2, at_grant_id = z3
        , at_lease_id = z4, at_outcome = z5, at_primary_reason = z6, at_first_seen = z7
        , at_terminal_tick = z8, at_released = z9, at_cancelled = z10\<rparr>)))))))))))"

definition encode_grant_option :: "grant option \<Rightarrow> bytes" where
  "encode_grant_option og = w_boolean (og \<noteq> None) @ (case og of None \<Rightarrow> [] | Some g \<Rightarrow> encode_grant g)"

definition decode_grant_option :: "grant option rd" where
  "decode_grant_option = rd_bind rd_boolean (\<lambda>has_grant.
     if has_grant then rd_bind decode_grant (\<lambda>g. rd_return (Some g)) else rd_return None)"

definition encode_decision_body :: "decision \<Rightarrow> bytes" where
  "encode_decision_body x =
     encode_id (dc_request_id x) @ encode_id (dc_attempt_id x)
     @ w_enum authority_outcomes (dc_outcome x) @ encode_reasons (dc_reasons x)
     @ encode_grant_option (dc_grant x) @ encode_id (dc_cluster_id x)
     @ encode_counter (dc_cluster_generation x) @ encode_counter (dc_epoch x)
     @ encode_counter (dc_policy_generation x) @ encode_incarnation (dc_incarnation x)
     @ w_raw (dc_spec_digest x) @ w_raw (dc_state_digest x) @ w_u64 (dc_decision_sequence x)
     @ encode_counter (dc_decided_at x) @ w_boolean (dc_idempotent_replay x)
     @ w_boolean (dc_requires_reconciliation x)"

definition compute_digest :: "decision \<Rightarrow> bytes" where
  "compute_digest d = canonical_digest ''cif.authority.decision.v1'' (encode_decision_body d)"

definition encode_decision :: "decision \<Rightarrow> bytes" where
  "encode_decision d = encode_decision_body d @ w_raw (dc_decision_digest d)"

definition decode_decision :: "decision rd" where
  "decode_decision =
     rd_bind decode_id (\<lambda>z0.
     rd_bind decode_id (\<lambda>z1.
     rd_bind (rd_enum authority_outcomes ''decision outcome byte out of range'') (\<lambda>z2.
     rd_bind decode_reasons (\<lambda>z3.
     rd_bind decode_grant_option (\<lambda>z4.
     rd_bind decode_id (\<lambda>z5.
     rd_bind decode_counter (\<lambda>z6.
     rd_bind decode_counter (\<lambda>z7.
     rd_bind decode_counter (\<lambda>z8.
     rd_bind decode_incarnation (\<lambda>z9.
     rd_bind rd_digest (\<lambda>z10.
     rd_bind rd_digest (\<lambda>z11.
     rd_bind rd_u64 (\<lambda>z12.
     rd_bind decode_counter (\<lambda>z13.
     rd_bind rd_boolean (\<lambda>z14.
     rd_bind rd_boolean (\<lambda>z15.
     rd_bind rd_digest (\<lambda>z16.
     rd_return \<lparr>dc_request_id = z0, dc_attempt_id = z1, dc_outcome = z2, dc_reasons = z3, dc_grant = z4
        , dc_cluster_id = z5, dc_cluster_generation = z6, dc_epoch = z7
        , dc_policy_generation = z8, dc_incarnation = z9, dc_spec_digest = z10
        , dc_state_digest = z11, dc_decision_sequence = z12, dc_decided_at = z13
        , dc_idempotent_replay = z14, dc_requires_reconciliation = z15, dc_decision_digest = z16
        , dc_explanation = []\<rparr>)))))))))))))))))"

definition encode_counters :: "counters \<Rightarrow> bytes" where
  "encode_counters x =
     w_u64 (co_decisions x) @ w_u64 (co_grants x) @ w_u64 (co_leases x) @ w_u64 (co_attempts x)
     @ w_u64 (co_fences x) @ w_u64 (co_refusals x) @ w_u64 (co_releases x)
     @ w_u64 (co_expiries x) @ w_u64 (co_recoveries x) @ w_u64 (co_compactions x)"

definition decode_counters :: "counters rd" where
  "decode_counters =
     rd_bind rd_u64 (\<lambda>z0.
     rd_bind rd_u64 (\<lambda>z1.
     rd_bind rd_u64 (\<lambda>z2.
     rd_bind rd_u64 (\<lambda>z3.
     rd_bind rd_u64 (\<lambda>z4.
     rd_bind rd_u64 (\<lambda>z5.
     rd_bind rd_u64 (\<lambda>z6.
     rd_bind rd_u64 (\<lambda>z7.
     rd_bind rd_u64 (\<lambda>z8.
     rd_bind rd_u64 (\<lambda>z9.
     rd_return \<lparr>co_decisions = z0, co_grants = z1, co_leases = z2, co_attempts = z3, co_fences = z4
        , co_refusals = z5, co_releases = z6, co_expiries = z7, co_recoveries = z8
        , co_compactions = z9\<rparr>))))))))))"

definition grant_digest :: "grant \<Rightarrow> bytes" where
  "grant_digest g = canonical_digest ''cif.authority.grant.v1'' (encode_grant g)"

definition attempt_digest :: "attempt \<Rightarrow> bytes" where
  "attempt_digest a = canonical_digest ''cif.authority.attempt.v1'' (encode_attempt a)"

section \<open>Round trips\<close>

lemma reason_count [simp]: "length reason_codes = 77"
  by (simp add: reason_codes_def)

lemma outcome_count [simp]: "length authority_outcomes = 12"
  by (simp add: authority_outcomes_def)

lemma grant_states_complete [simp]: "s \<in> set grant_states" "length grant_states = 9"
  by (cases s) (simp_all add: grant_states_def)

lemma commit_states_complete [simp]: "c \<in> set commit_states" "length commit_states = 5"
  by (cases c) (simp_all add: commit_states_def)

declare reason_codes_complete [simp] authority_outcomes_complete [simp]

lemma reads_enum16 [reads_intros]:
  assumes "x \<in> set cs" "length cs \<le> 65536"
  shows "reads (rd_enum16 cs msg) (w_enum16 cs x) x"
proof -
  have lt: "ordinal cs x < length cs" using ordinal_less [OF assms(1)] .
  have u: "unat (of_nat (ordinal cs x) :: u16) = ordinal cs x"
    using lt assms(2) by (simp add: unat_of_nat)
  show ?thesis unfolding rd_enum16_def w_enum16_def
    by (rule reads_bind_Nil [OF reads_u16])
      (use lt u nth_ordinal [OF assms(1)] in \<open>auto intro!: reads_intros\<close>)
qed

definition reason_ok :: "reason \<Rightarrow> bool" where
  "reason_ok r = (length (rs_detail r) \<le> kMaxReasonDetailBytes \<and> is_valid_utf8 (rs_detail r))"

definition reasons_ok :: "reason list \<Rightarrow> bool" where
  "reasons_ok rs = (length rs \<le> kMaxReasons \<and> list_all reason_ok rs)"

lemma reads_reason [reads_intros]: "reason_ok r \<Longrightarrow> reads decode_reason (encode_reason r) r"
  unfolding decode_reason_def encode_reason_def reason_ok_def
  by ((rule reads_bind | (rule reads_intros; simp add: limit_defs)
      | (rule reads_if, simp) | rule reads_bind_Nil)+)

lemma reads_reasons [reads_intros]: "reasons_ok rs \<Longrightarrow> reads decode_reasons (encode_reasons rs) rs"
proof -
  assume ok: "reasons_ok rs"
  then have enc: "encode_reasons rs = w_count (length rs) @ concat (map encode_reason rs)"
    by (auto simp: encode_reasons_def reasons_ok_def)
  show ?thesis unfolding decode_reasons_def enc
    by (rule reads_bind [OF reads_count])
      (use ok in \<open>auto simp: reasons_ok_def limit_defs intro!: reads_times_list [of reason_ok] reads_reason\<close>)
qed

definition grant_ok :: "grant \<Rightarrow> bool" where
  "grant_ok x = (id_ok (gr_grant_id x) \<and> id_ok (gr_cluster_id x) \<and> length (gr_incarnation x) = 16
     \<and> id_ok (gr_contract_id x) \<and> id_ok (gr_source_service x)
     \<and> id_ok (gr_destination_service x) \<and> id_ok (gr_source_member x)
     \<and> length (gr_source_member_digest x) = 32 \<and> id_ok (gr_destination_member x)
     \<and> length (gr_destination_member_digest x) = 32 \<and> id_ok (gr_source_endpoint x)
     \<and> id_ok (gr_destination_endpoint x) \<and> id_ok (gr_path_id x)
     \<and> id_ok (gr_resource_id x) \<and> id_ok (gr_lease_id x) \<and> id_ok (gr_attempt_id x)
     \<and> id_ok (gr_source_domain x) \<and> id_ok (gr_destination_domain x)
     \<and> reasons_ok (gr_reductions x) \<and> provenance_ok (gr_provenance x))"

lemma reads_grant [reads_intros]: "grant_ok x \<Longrightarrow> reads decode_grant (encode_grant x) x"
  unfolding decode_grant_def encode_grant_def grant_ok_def
  by ((rule reads_bind | (rule reads_raw_digest reads_intros; simp add: limit_defs)
      | (rule reads_if, simp) | rule reads_bind_Nil)+)

definition attempt_ok :: "attempt \<Rightarrow> bool" where
  "attempt_ok x = (id_ok (at_attempt_id x) \<and> id_ok (at_request_id x)
     \<and> length (at_request_digest x) = 32 \<and> id_ok (at_grant_id x)
     \<and> id_ok (at_lease_id x))"

lemma reads_attempt [reads_intros]: "attempt_ok x \<Longrightarrow> reads decode_attempt (encode_attempt x) x"
  unfolding decode_attempt_def encode_attempt_def attempt_ok_def
  by ((rule reads_bind | (rule reads_raw_digest reads_intros; simp add: limit_defs)
      | (rule reads_if, simp) | rule reads_bind_Nil)+)

definition grant_option_ok :: "grant option \<Rightarrow> bool" where
  "grant_option_ok og = (case og of None \<Rightarrow> True | Some g \<Rightarrow> grant_ok g)"

lemma reads_grant_option [reads_intros]:
  "grant_option_ok og \<Longrightarrow> reads decode_grant_option (encode_grant_option og) og"
  unfolding decode_grant_option_def encode_grant_option_def grant_option_ok_def
  by (cases og; (rule reads_bind [OF reads_boolean]; auto intro!: reads_bind_Nil [OF reads_grant] reads_return))

definition decision_ok :: "decision \<Rightarrow> bool" where
  "decision_ok x = (id_ok (dc_request_id x) \<and> id_ok (dc_attempt_id x) \<and> reasons_ok (dc_reasons x)
     \<and> grant_option_ok (dc_grant x) \<and> id_ok (dc_cluster_id x)
     \<and> length (dc_incarnation x) = 16 \<and> length (dc_spec_digest x) = 32
     \<and> length (dc_state_digest x) = 32 \<and> length (dc_decision_digest x) = 32)"

lemma encode_decision_flat: "encode_decision x =
     encode_id (dc_request_id x) @ encode_id (dc_attempt_id x)
     @ w_enum authority_outcomes (dc_outcome x) @ encode_reasons (dc_reasons x)
     @ encode_grant_option (dc_grant x) @ encode_id (dc_cluster_id x)
     @ encode_counter (dc_cluster_generation x) @ encode_counter (dc_epoch x)
     @ encode_counter (dc_policy_generation x) @ encode_incarnation (dc_incarnation x)
     @ w_raw (dc_spec_digest x) @ w_raw (dc_state_digest x) @ w_u64 (dc_decision_sequence x)
     @ encode_counter (dc_decided_at x) @ w_boolean (dc_idempotent_replay x)
     @ w_boolean (dc_requires_reconciliation x) @ w_raw (dc_decision_digest x)"
  by (simp add: encode_decision_def encode_decision_body_def)

text \<open>The explanation is derived text and is not transmitted.\<close>

lemma reads_decision [reads_intros]:
  "decision_ok x \<Longrightarrow> reads decode_decision (encode_decision x) (x\<lparr>dc_explanation := []\<rparr>)"
  unfolding decode_decision_def encode_decision_flat decision_ok_def
  by ((rule reads_bind | (rule reads_raw_digest reads_intros; simp add: limit_defs)
      | (rule reads_if, simp) | rule reads_bind_Nil)+)

lemma reads_counters [reads_intros]: "reads decode_counters (encode_counters x) x"
  unfolding decode_counters_def encode_counters_def
  by ((rule reads_bind | (rule reads_intros; simp add: limit_defs)
      | (rule reads_if, simp) | rule reads_bind_Nil)+)

end
