(* ===== verification/Journal.thy ===== *)
theory Journal
  imports Contract Grant
begin

text \<open>
  The durable log (\<^verbatim>\<open>include/cif/journal.hpp\<close>, \<^verbatim>\<open>src/journal.cpp\<close>): the record
  codec, the framing of a record in the file with its checksums and its chain, the
  append, compaction and scan of the file, and the replay of the entries into a
  recovered state.

  A \<^verbatim>\<open>JournalEntry\<close> is a flat struct of which the record kind says which fields
  mean something; here the kind and those fields are one constructor of
  \<open>payload\<close>. The file is its bytes. What the operating system does with a write,
  a sync, an open, a truncation or a rename is an input of the model: \<open>j_io\<close> lists
  the outcomes to come, \<open>None\<close> for success and \<open>Some n\<close> for failure (a write that
  fails has put \<open>n\<close> bytes in the file); an exhausted list means success. The
  numeric \<^verbatim>\<open>errno\<close> is left out of the messages.
\<close>

section \<open>Entries\<close>

record controller_mark =
  cm_cluster_id :: string
  cm_cluster_generation :: u64
  cm_epoch :: u64
  cm_policy_generation :: u64
  cm_incarnation :: bytes

record grant_mark =
  gm_grant :: grant
  gm_grant_state :: grant_state
  gm_referenced_sequence :: u64

record snapshot =
  sn_spec :: spec
  sn_contracts :: contract_set
  sn_grants :: "grant list"
  sn_attempts :: "attempt list"
  sn_counters :: counters

datatype payload =
    JInvalid
  | JSnapshot snapshot
  | JSetController controller_mark
  | JMemberUpsert member
  | JMemberRemove string
  | JMemberLifecycle string member_lifecycle
  | JPathUpsert path
  | JPathRemove string
  | JPathState string path_state
  | JExclusionUpsert exclusion
  | JExclusionRemove string
  | JObligationUpsert obligation
  | JObligationRemove string
  | JContractUpsert contract
  | JContractRemove string
  | JEpochBegin controller_mark
  | JPolicySet u64
  | JTickMark
  | JGrantPrepared grant_mark
  | JGrantCommitted grant_mark
  | JGrantAcknowledged grant_mark
  | JGrantReleased grant_mark
  | JGrantTerminal grant_mark
  | JAttemptTerminal attempt
  | JAttemptCancelled string string
  | JCountersSync counters

record entry =
  je_payload :: payload
  je_sequence :: u64
  je_tick :: u64

primrec kind_of :: "payload \<Rightarrow> nat" where
  "kind_of JInvalid = 0"
| "kind_of (JSnapshot _) = 1"
| "kind_of (JSetController _) = 2"
| "kind_of (JMemberUpsert _) = 3"
| "kind_of (JMemberRemove _) = 4"
| "kind_of (JMemberLifecycle _ _) = 5"
| "kind_of (JPathUpsert _) = 6"
| "kind_of (JPathRemove _) = 7"
| "kind_of (JPathState _ _) = 8"
| "kind_of (JExclusionUpsert _) = 9"
| "kind_of (JExclusionRemove _) = 10"
| "kind_of (JObligationUpsert _) = 11"
| "kind_of (JObligationRemove _) = 12"
| "kind_of (JContractUpsert _) = 13"
| "kind_of (JContractRemove _) = 14"
| "kind_of (JEpochBegin _) = 15"
| "kind_of (JPolicySet _) = 16"
| "kind_of JTickMark = 17"
| "kind_of (JGrantPrepared _) = 18"
| "kind_of (JGrantCommitted _) = 19"
| "kind_of (JGrantAcknowledged _) = 20"
| "kind_of (JGrantReleased _) = 21"
| "kind_of (JGrantTerminal _) = 22"
| "kind_of (JAttemptTerminal _) = 23"
| "kind_of (JAttemptCancelled _ _) = 24"
| "kind_of (JCountersSync _) = 25"

definition is_known_kind :: "u16 \<Rightarrow> bool" where
  "is_known_kind raw = (raw \<ge> 1 \<and> raw \<le> 25)"

section \<open>Record codec\<close>

definition encode_controller_mark :: "controller_mark \<Rightarrow> bytes" where
  "encode_controller_mark c =
     encode_id (cm_cluster_id c) @ encode_counter (cm_cluster_generation c) @ encode_counter (cm_epoch c)
     @ encode_counter (cm_policy_generation c) @ encode_incarnation (cm_incarnation c)"

definition decode_controller_mark :: "controller_mark rd" where
  "decode_controller_mark =
     rd_bind decode_id (\<lambda>i.
     rd_bind decode_counter (\<lambda>g.
     rd_bind decode_counter (\<lambda>e.
     rd_bind decode_counter (\<lambda>p.
     rd_bind decode_incarnation (\<lambda>inc.
     rd_return \<lparr>cm_cluster_id = i, cm_cluster_generation = g, cm_epoch = e, cm_policy_generation = p,
        cm_incarnation = inc\<rparr>)))))"

definition encode_grant_mark :: "grant_mark \<Rightarrow> bytes" where
  "encode_grant_mark m =
     encode_grant (gm_grant m) @ w_enum grant_states (gm_grant_state m) @ w_u64 (gm_referenced_sequence m)"

definition decode_grant_mark :: "grant_mark rd" where
  "decode_grant_mark =
     rd_bind decode_grant (\<lambda>g.
     rd_bind (rd_enum grant_states ''grant state byte out of range'') (\<lambda>st.
     rd_bind rd_u64 (\<lambda>r.
     rd_return \<lparr>gm_grant = g, gm_grant_state = st, gm_referenced_sequence = r\<rparr>)))"

definition encode_snapshot :: "snapshot \<Rightarrow> bytes" where
  "encode_snapshot s =
     w_u32 1 @ encode_spec (sn_spec s) @ encode_contracts (sn_contracts s)
     @ w_count (length (sn_grants s)) @ concat (map encode_grant (sn_grants s))
     @ w_count (length (sn_attempts s)) @ concat (map encode_attempt (sn_attempts s))
     @ encode_counters (sn_counters s)"

definition decode_snapshot :: "snapshot rd" where
  "decode_snapshot =
     rd_bind rd_u32 (\<lambda>v.
     if v \<noteq> 1 then rd_fail ScVersionMismatch ''snapshot format version not understood''
     else
     rd_bind decode_spec (\<lambda>sp.
     rd_bind decode_contracts (\<lambda>cs.
     rd_bind (rd_count kMaxGrants) (\<lambda>ng.
     rd_bind (rd_times ng decode_grant) (\<lambda>gs.
     rd_bind (rd_count kMaxAttempts) (\<lambda>na.
     rd_bind (rd_times na decode_attempt) (\<lambda>as.
     rd_bind decode_counters (\<lambda>co.
     rd_return \<lparr>sn_spec = sp, sn_contracts = cs, sn_grants = gs, sn_attempts = as,
        sn_counters = co\<rparr>))))))))"

primrec encode_payload :: "payload \<Rightarrow> bytes" where
  "encode_payload JInvalid = []"
| "encode_payload (JSnapshot s) = encode_snapshot s"
| "encode_payload (JSetController c) = encode_controller_mark c"
| "encode_payload (JMemberUpsert m) = encode_member m"
| "encode_payload (JMemberRemove i) = encode_id i"
| "encode_payload (JMemberLifecycle i l) = encode_id i @ w_enum member_lifecycles l"
| "encode_payload (JPathUpsert p) = encode_path p"
| "encode_payload (JPathRemove i) = encode_id i"
| "encode_payload (JPathState i s) = encode_id i @ w_enum path_states s"
| "encode_payload (JExclusionUpsert x) = encode_exclusion x"
| "encode_payload (JExclusionRemove i) = encode_id i"
| "encode_payload (JObligationUpsert x) = encode_obligation x"
| "encode_payload (JObligationRemove i) = encode_id i"
| "encode_payload (JContractUpsert c) = encode_contract c"
| "encode_payload (JContractRemove i) = encode_id i"
| "encode_payload (JEpochBegin c) = encode_controller_mark c"
| "encode_payload (JPolicySet p) = encode_counter p"
| "encode_payload JTickMark = []"
| "encode_payload (JGrantPrepared m) = encode_grant_mark m"
| "encode_payload (JGrantCommitted m) = encode_grant_mark m"
| "encode_payload (JGrantAcknowledged m) = encode_grant_mark m"
| "encode_payload (JGrantReleased m) = encode_grant_mark m"
| "encode_payload (JGrantTerminal m) = encode_grant_mark m"
| "encode_payload (JAttemptTerminal a) = encode_attempt a"
| "encode_payload (JAttemptCancelled i n) = encode_id i @ w_text n"
| "encode_payload (JCountersSync c) = encode_counters c"

definition encode_entry :: "entry \<Rightarrow> bytes" where
  "encode_entry e = encode_counter (je_tick e) @ encode_payload (je_payload e)"

text \<open>The payload of a record whose header carries kind \<open>k\<close>.\<close>

definition rd_map :: "('a \<Rightarrow> 'b) \<Rightarrow> 'a rd \<Rightarrow> 'b rd" where
  "rd_map f p = rd_bind p (\<lambda>x. rd_return (f x))"

definition decode_payload :: "nat \<Rightarrow> payload rd" where
  "decode_payload k =
     (if k = 1 then rd_map JSnapshot decode_snapshot
      else if k = 2 then rd_map JSetController decode_controller_mark
      else if k = 3 then rd_map JMemberUpsert decode_member
      else if k = 4 then rd_map JMemberRemove decode_id
      else if k = 5 then rd_bind decode_id (\<lambda>i.
             rd_map (JMemberLifecycle i) (rd_enum member_lifecycles ''member lifecycle byte out of range''))
      else if k = 6 then rd_map JPathUpsert decode_path
      else if k = 7 then rd_map JPathRemove decode_id
      else if k = 8 then rd_bind decode_id (\<lambda>i.
             rd_map (JPathState i) (rd_enum path_states ''path state byte out of range''))
      else if k = 9 then rd_map JExclusionUpsert decode_exclusion
      else if k = 10 then rd_map JExclusionRemove decode_id
      else if k = 11 then rd_map JObligationUpsert decode_obligation
      else if k = 12 then rd_map JObligationRemove decode_id
      else if k = 13 then rd_map JContractUpsert decode_contract
      else if k = 14 then rd_map JContractRemove decode_id
      else if k = 15 then rd_map JEpochBegin decode_controller_mark
      else if k = 16 then rd_map JPolicySet decode_counter
      else if k = 17 then rd_return JTickMark
      else if k = 18 then rd_map JGrantPrepared decode_grant_mark
      else if k = 19 then rd_map JGrantCommitted decode_grant_mark
      else if k = 20 then rd_map JGrantAcknowledged decode_grant_mark
      else if k = 21 then rd_map JGrantReleased decode_grant_mark
      else if k = 22 then rd_map JGrantTerminal decode_grant_mark
      else if k = 23 then rd_map JAttemptTerminal decode_attempt
      else if k = 24 then rd_bind decode_id (\<lambda>i. rd_bind (rd_text kMaxNoteBytes) (\<lambda>n.
             if \<not> is_valid_utf8 n then rd_fail ScCorruption ''cancel note is not valid UTF-8''
             else rd_return (JAttemptCancelled i n)))
      else rd_map JCountersSync decode_counters)"

definition decode_entry :: "nat \<Rightarrow> u64 \<Rightarrow> entry rd" where
  "decode_entry k sequence =
     (if k = 0 then rd_fail ScCorruption ''record kind INVALID cannot be decoded''
      else rd_bind decode_counter (\<lambda>t. rd_bind (decode_payload k) (\<lambda>p.
        rd_return \<lparr>je_payload = p, je_sequence = sequence, je_tick = t\<rparr>)))"

definition entry_digest :: "entry \<Rightarrow> bytes" where
  "entry_digest e = canonical_digest ''cif.journal.record.v1'' (encode_entry e)"

section \<open>The log file\<close>

definition file_magic :: bytes where
  "file_magic = bytes_of ''CIFJNL01''"

definition record_magic :: u32 where
  "record_magic = 0x52464943"

definition kMaxScanBytes :: nat where
  "kMaxScanBytes = kMaxJournalBytes + kMaxJournalRecordBytes + 4096"

definition file_header :: bytes where
  "file_header =
     (let h = w_raw file_magic @ w_u32 1 @ w_u32 0 @ w_u64 0 in h @ w_u32 (crc32c h) @ w_u32 0)"

text \<open>\<open>None\<close>: the file does not exist.\<close>

record journal =
  j_open :: bool
  j_file :: "bytes option"
  j_byte_count :: nat
  j_record_count :: u64
  j_last_sequence :: u64
  j_chain :: u32
  j_io :: "nat option list"

definition next_io :: "journal \<Rightarrow> nat option \<times> journal" where
  "next_io j = (case j_io j of [] \<Rightarrow> (None, j) | x # xs \<Rightarrow> (x, j\<lparr>j_io := xs\<rparr>))"

definition file_bytes :: "journal \<Rightarrow> bytes" where
  "file_bytes j = (case j_file j of None \<Rightarrow> [] | Some bs \<Rightarrow> bs)"

definition write_exact :: "bytes \<Rightarrow> journal \<Rightarrow> status \<times> journal" where
  "write_exact data j =
     (if data = [] then (success, j)
      else case next_io j of
        (None, j') \<Rightarrow> (success, j'\<lparr>j_file := Some (file_bytes j' @ data)\<rparr>)
      | (Some n, j') \<Rightarrow> (status_error ScIoFailure ''short write to journal'',
                        j'\<lparr>j_file := Some (file_bytes j' @ take (min n (length data - 1)) data)\<rparr>))"

definition platform_call :: "string \<Rightarrow> (journal \<Rightarrow> journal) \<Rightarrow> journal \<Rightarrow> status \<times> journal" where
  "platform_call msg effect j =
     (case next_io j of
        (None, j') \<Rightarrow> (success, effect j')
      | (Some n, j') \<Rightarrow> (status_error ScIoFailure msg, j'))"

definition sync_file :: "journal \<Rightarrow> status \<times> journal" where
  "sync_file j = platform_call ''fsync failed'' id j"

definition should_compact :: "journal \<Rightarrow> bool" where
  "should_compact j = (j_byte_count j \<ge> kMaxJournalBytes \<or> j_record_count j \<ge> kMaxJournalRecords)"

definition record_chain_crc :: "u32 \<Rightarrow> bytes \<Rightarrow> u32" where
  "record_chain_crc chain payload = crc32c (w_u32 chain @ payload)"

definition record_header_fields :: "nat \<Rightarrow> u64 \<Rightarrow> bytes \<Rightarrow> u32 \<Rightarrow> bytes" where
  "record_header_fields k sequence payload record_chain =
     w_u32 record_magic @ w_u16 1 @ w_u16 (of_nat k) @ w_u64 sequence
     @ w_u32 (of_nat (length payload)) @ w_u32 record_chain"

definition record_header :: "nat \<Rightarrow> u64 \<Rightarrow> bytes \<Rightarrow> u32 \<Rightarrow> bytes" where
  "record_header k sequence payload record_chain =
     (let h = record_header_fields k sequence payload record_chain in h @ w_u32 (crc32c h))"

definition write_record :: "entry \<Rightarrow> bool \<Rightarrow> journal \<Rightarrow> status \<times> journal" where
  "write_record e durable j =
     (if \<not> j_open j then (status_error ScClosed ''journal is not open'', j)
      else if kind_of (je_payload e) = 0 then
        (status_error ScInvalidArgument ''cannot append an INVALID record'', j)
      else
        let payload = encode_entry e in
        if length payload > kMaxJournalRecordBytes then
          (status_error ScLimitExceeded (''record payload of '' @ to_decimal (of_nat (length payload))
             @ '' bytes exceeds the configured bound''), j)
        else
          let record_chain = record_chain_crc (j_chain j) payload;
              header = record_header (kind_of (je_payload e)) (je_sequence e) payload record_chain;
              trailer = w_u32 (crc32c payload) in
          cif_try (write_exact header j) (\<lambda>j.
          cif_try (write_exact payload j) (\<lambda>j.
          cif_try (write_exact trailer j) (\<lambda>j.
          cif_try (if durable then sync_file j else (success, j)) (\<lambda>j.
          (success,
           j\<lparr>j_byte_count := j_byte_count j + length header + length payload + length trailer,
             j_record_count := j_record_count j + 1,
             j_last_sequence := je_sequence e + 1,
             j_chain := record_chain\<rparr>))))))"

text \<open>Append stamps the entry with the sequence number it is assigned.\<close>

definition journal_append :: "entry \<Rightarrow> bool \<Rightarrow> journal \<Rightarrow> status \<times> entry \<times> journal" where
  "journal_append e durable j =
     (if should_compact j then
        (status_error ScCapacityExhausted
           ''journal has reached its configured bound; compaction is required'', e, j)
      else
        let e' = e\<lparr>je_sequence := j_last_sequence j\<rparr> in
        case write_record e' durable j of (st, j') \<Rightarrow> (st, e', j'))"

definition journal_close :: "journal \<Rightarrow> status \<times> journal" where
  "journal_close j =
     (if \<not> j_open j then (success, j)
      else case sync_file (j\<lparr>j_open := False\<rparr>) of (synced, j') \<Rightarrow>
        (case platform_call ''fclose failed while closing the journal'' id j' of (closed, j'') \<Rightarrow>
          if \<not> ok synced then (synced, j'') else (closed, j'')))"

definition journal_sync :: "journal \<Rightarrow> status \<times> journal" where
  "journal_sync j =
     (if \<not> j_open j then (status_error ScClosed ''journal is not open'', j) else sync_file j)"

text \<open>\<open>open_raw\<close> creates or clears the file when \<open>reset\<close> is set.\<close>

definition open_raw :: "bool \<Rightarrow> journal \<Rightarrow> status \<times> journal" where
  "open_raw reset j = platform_call ''cannot open journal for writing''
     (\<lambda>j. j\<lparr>j_open := True, j_file := Some (if reset then [] else file_bytes j)\<rparr>) j"

definition journal_open :: "nat \<Rightarrow> bool \<Rightarrow> u32 \<Rightarrow> u64 \<Rightarrow> journal \<Rightarrow> status \<times> journal" where
  "journal_open truncate_to reset initial_chain last_sequence j =
     cif_try (journal_close j) (\<lambda>j.
       let need_header = (reset \<or> file_bytes j = []) in
       cif_try (open_raw need_header j) (\<lambda>j.
         if need_header then
           cif_try (write_exact file_header j) (\<lambda>j.
           cif_try (sync_file j) (\<lambda>j.
           (success, j\<lparr>j_byte_count := length file_header, j_record_count := 0, j_last_sequence := 0,
              j_chain := 0\<rparr>)))
         else
           cif_try (platform_call ''fflush failed while opening the journal'' id j) (\<lambda>j.
           cif_try (if truncate_to > 0
                    then platform_call ''truncate failed''
                      (\<lambda>j. j\<lparr>j_file := Some (take truncate_to (file_bytes j))\<rparr>) (j\<lparr>j_open := False\<rparr>)
                    else (success, j\<lparr>j_open := False\<rparr>)) (\<lambda>j.
           cif_try (open_raw False j) (\<lambda>j.
           cif_try (platform_call ''cannot seek to the end of the journal'' id j) (\<lambda>j.
           (success, j\<lparr>j_byte_count := length (file_bytes j), j_record_count := 0,
              j_last_sequence := last_sequence, j_chain := initial_chain\<rparr>)))))))"

text \<open>
  Compaction writes the snapshot to a sibling file through a journal of its own and
  then moves it over the log. The sibling starts from the outcomes still to come.
\<close>

definition fresh_journal :: "nat option list \<Rightarrow> journal" where
  "fresh_journal io = \<lparr>j_open = False, j_file = None, j_byte_count = 0, j_record_count = 0,
     j_last_sequence = 0, j_chain = 0, j_io = io\<rparr>"

definition journal_compact :: "entry \<Rightarrow> journal \<Rightarrow> status \<times> journal" where
  "journal_compact e j =
     (if kind_of (je_payload e) \<noteq> 1 then
        (status_error ScInvalidArgument ''compaction requires a SNAPSHOT record'', j)
      else
        cif_try (journal_close j) (\<lambda>j.
        case cif_try (journal_open 0 True 0 0 (fresh_journal (j_io j))) (\<lambda>f.
               write_record (e\<lparr>je_sequence := 0\<rparr>) True f) of (st, f) \<Rightarrow>
          if \<not> ok st then (st, j\<lparr>j_io := j_io f\<rparr>)
          else case journal_close f of (closed, f') \<Rightarrow>
            if \<not> ok closed then (closed, j\<lparr>j_io := j_io f'\<rparr>)
            else
              cif_try (platform_call ''rename failed'' (\<lambda>j. j\<lparr>j_file := j_file f'\<rparr>)
                         (j\<lparr>j_io := j_io f'\<rparr>)) (\<lambda>j.
              cif_try (open_raw False j) (\<lambda>j.
              cif_try (platform_call ''cannot seek to the end after compaction'' id j) (\<lambda>j.
              (success, j\<lparr>j_byte_count := j_byte_count f, j_record_count := j_record_count f,
                 j_last_sequence := j_last_sequence f, j_chain := j_chain f\<rparr>))))))"

end
