(* ===== verification/Journal_Scan.thy ===== *)
theory Journal_Scan
  imports Journal
begin

text \<open>
  Reading the log back (\<^verbatim>\<open>Journal::scan\<close> and \<^verbatim>\<open>replay_journal\<close> of
  \<^verbatim>\<open>src/journal.cpp\<close>). The scan stops at the first record that fails a check and
  reports what it discarded; the replay folds the surviving entries into a recovered
  state.
\<close>

section \<open>The scan\<close>

record recovery_report =
  rr_file_present :: bool
  rr_fresh :: bool
  rr_truncated_tail :: bool
  rr_integrity_failure :: bool
  rr_version_mismatch :: bool
  rr_replay_detected :: bool
  rr_discarded_bytes :: nat
  rr_records_read :: nat
  rr_records_applied :: nat
  rr_records_rejected :: nat
  rr_last_sequence :: u64
  rr_valid_bytes :: nat
  rr_last_chain :: u32
  rr_detail :: string

definition empty_report :: recovery_report where
  "empty_report = \<lparr>rr_file_present = False, rr_fresh = False, rr_truncated_tail = False,
     rr_integrity_failure = False, rr_version_mismatch = False, rr_replay_detected = False,
     rr_discarded_bytes = 0, rr_records_read = 0, rr_records_applied = 0, rr_records_rejected = 0,
     rr_last_sequence = 0, rr_valid_bytes = 0, rr_last_chain = 0, rr_detail = []\<rparr>"

definition requires_rebuild :: "recovery_report \<Rightarrow> bool" where
  "requires_rebuild r =
     (rr_truncated_tail r \<or> rr_integrity_failure r \<or> rr_version_mismatch r \<or> rr_replay_detected r)"

definition nat_dec :: "nat \<Rightarrow> string" where
  "nat_dec n = to_decimal (of_nat n)"

record record_head =
  hd_magic :: u32
  hd_version :: u16
  hd_kind :: u16
  hd_sequence :: u64
  hd_length :: u32
  hd_chain :: u32
  hd_crc :: u32

definition read_head :: "record_head rd" where
  "read_head =
     rd_bind rd_u32 (\<lambda>m. rd_bind rd_u16 (\<lambda>v. rd_bind rd_u16 (\<lambda>k. rd_bind rd_u64 (\<lambda>s.
     rd_bind rd_u32 (\<lambda>l. rd_bind rd_u32 (\<lambda>c. rd_bind rd_u32 (\<lambda>x.
     rd_return \<lparr>hd_magic = m, hd_version = v, hd_kind = k, hd_sequence = s, hd_length = l,
        hd_chain = c, hd_crc = x\<rparr>)))))))"

text \<open>One turn of the loop: stop with the report, or go on with the record's entry.\<close>

definition scan_stop :: "recovery_report \<Rightarrow> nat \<Rightarrow> string \<Rightarrow> (recovery_report \<Rightarrow> recovery_report) \<Rightarrow>
    recovery_report + (entry \<times> u32 \<times> u64 \<times> nat)" where
  "scan_stop report discarded detail flags =
     Inl ((flags report)\<lparr>rr_discarded_bytes := discarded, rr_detail := detail\<rparr>)"

definition flag_torn :: "recovery_report \<Rightarrow> recovery_report" where
  "flag_torn r = r\<lparr>rr_truncated_tail := True\<rparr>"

definition flag_integrity :: "recovery_report \<Rightarrow> recovery_report" where
  "flag_integrity r = r\<lparr>rr_integrity_failure := True\<rparr>"

definition scan_record :: "bytes \<Rightarrow> nat \<Rightarrow> u32 \<Rightarrow> u64 \<Rightarrow> recovery_report \<Rightarrow>
    recovery_report + (entry \<times> u32 \<times> u64 \<times> nat)" where
  "scan_record bs offset chain expected report = (
     let rest = drop offset bs; left = length rest in
     if left < 28 then
       scan_stop report left ''trailing bytes are shorter than a record header'' flag_torn
     else case fst (read_head (reader_of rest)) of
       None \<Rightarrow> scan_stop report left [] flag_torn
     | Some h \<Rightarrow>
       if hd_magic h \<noteq> record_magic \<or> hd_crc h \<noteq> crc32c (take 24 rest) then
         scan_stop report left (''record header failed its integrity check at offset '' @ nat_dec offset)
           (flag_integrity \<circ> flag_torn)
       else if hd_version h \<noteq> 1 then
         scan_stop report left (''record format version '' @ nat_dec (unat (hd_version h))
           @ '' is not understood by this build'') (\<lambda>r. r\<lparr>rr_version_mismatch := True\<rparr>)
       else if \<not> is_known_kind (hd_kind h) then
         scan_stop report left (''record kind '' @ nat_dec (unat (hd_kind h)) @ '' is not a known kind'')
           flag_integrity
       else if unat (hd_length h) > kMaxJournalRecordBytes then
         scan_stop report left (''record declares '' @ nat_dec (unat (hd_length h))
           @ '' payload bytes, above the configured bound'') flag_integrity
       else let n = unat (hd_length h); record_total = 28 + n + 4 in
         if left < record_total then
           scan_stop report left (''record at offset '' @ nat_dec offset @ '' is incomplete'') flag_torn
         else let payload = take n (drop 28 rest);
                  stored_crc = fst (rd_u32 (reader_of (take 4 (drop (28 + n) rest)))) in
           if stored_crc \<noteq> Some (crc32c payload) then
             scan_stop report left (''record payload failed its integrity check at offset '' @ nat_dec offset)
               (flag_integrity \<circ> flag_torn)
           else let computed_chain = record_chain_crc chain payload in
             if computed_chain \<noteq> hd_chain h then
               scan_stop report left (''record chain check failed at offset '' @ nat_dec offset
                 @ '': a record was removed, reordered or spliced'') flag_integrity
             else if hd_sequence h \<noteq> expected then
               scan_stop report left (''record sequence '' @ to_decimal (hd_sequence h)
                 @ '' breaks continuity (expected '' @ to_decimal expected @ '')'')
                 (\<lambda>r. (flag_integrity r)\<lparr>rr_replay_detected := True\<rparr>)
             else case decode_entry (unat (hd_kind h)) (hd_sequence h) (reader_of payload) of
               (None, r) \<Rightarrow> scan_stop report left
                 (''record payload could not be decoded: '' @ status_to_string (rd_failure r)) flag_integrity
             | (Some e, r) \<Rightarrow>
                 if \<not> rd_at_end r then
                   scan_stop report left (''record payload has '' @ nat_dec (rd_remaining r)
                     @ '' trailing bytes'') flag_integrity
                 else Inr (e, computed_chain, hd_sequence h + 1, offset + record_total))"

lemma scan_record_advances:
  "scan_record bs offset chain expected report = Inr (e, c, s, offset') \<Longrightarrow>
   offset < offset' \<and> offset' \<le> length bs"
  by (auto simp: scan_record_def scan_stop_def Let_def split: if_splits option.splits prod.splits)

function scan_loop :: "bytes \<Rightarrow> nat \<Rightarrow> u32 \<Rightarrow> u64 \<Rightarrow> entry list \<Rightarrow> recovery_report \<Rightarrow>
    entry list \<times> recovery_report" where
  "scan_loop bs offset chain expected entries report =
     (let finish = (\<lambda>r. (entries, r\<lparr>rr_records_read := length entries, rr_last_sequence := expected,
                         rr_last_chain := chain, rr_valid_bytes := offset,
                         rr_detail := (if rr_detail r = [] \<and> \<not> rr_fresh r
                                       then ''journal scanned cleanly'' else rr_detail r)\<rparr>)) in
      if offset < length bs then
        (case scan_record bs offset chain expected report of
           Inl r \<Rightarrow> finish r
         | Inr (e, chain', expected', offset') \<Rightarrow>
             scan_loop bs offset' chain' expected' (entries @ [e]) report)
      else finish report)"
  by pat_completeness auto
termination
  by (relation "measure (\<lambda>(bs, offset, _). length bs - offset)")
    (auto dest!: scan_record_advances)

declare scan_loop.simps [simp del]

text \<open>The file as the scan finds it (\<open>None\<close>: absent). Reading it may fail in the operating system;
  that outcome is not modelled here, the bytes are an argument.\<close>

definition journal_scan :: "bytes option \<Rightarrow> status \<times> entry list \<times> recovery_report" where
  "journal_scan file = (case file of
      None \<Rightarrow> (success, [], empty_report\<lparr>rr_fresh := True,
                 rr_detail := ''no journal file present; starting with empty state''\<rparr>)
    | Some bs \<Rightarrow>
        let report = empty_report\<lparr>rr_file_present := True\<rparr> in
        if bs = [] then
          (success, [], report\<lparr>rr_fresh := True, rr_detail := ''journal file is empty; starting with empty state''\<rparr>)
        else if length bs > kMaxScanBytes then
          (let d = ''journal exceeds the configured scan bound of '' @ nat_dec kMaxScanBytes @ '' bytes'' in
           (status_error ScLimitExceeded d, [], report\<lparr>rr_integrity_failure := True, rr_detail := d\<rparr>))
        else if length bs < 32 then
          (let d = ''file is smaller than the journal header'' in
           (status_error ScCorruption d, [],
            report\<lparr>rr_integrity_failure := True, rr_discarded_bytes := length bs, rr_detail := d\<rparr>))
        else if take 8 bs \<noteq> file_magic then
          (let d = ''journal magic does not match'' in
           (status_error ScCorruption d, [],
            report\<lparr>rr_integrity_failure := True, rr_discarded_bytes := length bs, rr_detail := d\<rparr>))
        else if fst (rd_u32 (reader_of (drop 24 bs))) \<noteq> Some (crc32c (take 24 bs)) then
          (let d = ''journal file header failed its integrity check'' in
           (status_error ScIntegrityFailure d, [],
            report\<lparr>rr_integrity_failure := True, rr_discarded_bytes := length bs, rr_detail := d\<rparr>))
        else if fst (rd_u32 (reader_of (drop 8 bs))) \<noteq> Some 1 then
          (let d = ''journal format version ''
                   @ nat_dec (case fst (rd_u32 (reader_of (drop 8 bs))) of None \<Rightarrow> 0 | Some v \<Rightarrow> unat v)
                   @ '' is not understood by this build (expected 1)'' in
           (status_error ScVersionMismatch d, [], report\<lparr>rr_version_mismatch := True, rr_detail := d\<rparr>))
        else (success, scan_loop bs 32 0 0 [] report))"

section \<open>Replay\<close>

record recovered_state =
  rc_spec :: spec
  rc_contracts :: contract_set
  rc_grants :: "grant list"
  rc_attempts :: "attempt list"
  rc_counters :: counters
  rc_has_controller :: bool
  rc_tick :: u64

definition empty_recovered :: recovered_state where
  "empty_recovered = \<lparr>rc_spec = empty_spec, rc_contracts = empty_contract_set, rc_grants = [],
     rc_attempts = [], rc_counters = zero_counters, rc_has_controller = False, rc_tick = 0\<rparr>"

definition replay_upsert_grant :: "grant \<Rightarrow> recovered_state \<Rightarrow> status \<times> recovered_state" where
  "replay_upsert_grant g s =
     (let i = lower_bound_index gr_grant_id (rc_grants s) (gr_grant_id g) in
      if present_at gr_grant_id (rc_grants s) (gr_grant_id g) i then
        (success, s\<lparr>rc_grants := (rc_grants s)[i := g]\<rparr>)
      else if length (rc_grants s) \<ge> kMaxGrants then
        (status_error ScCapacityExhausted ''replayed grant table is full'', s)
      else (success, s\<lparr>rc_grants := insert_at i g (rc_grants s)\<rparr>))"

definition replay_upsert_attempt :: "attempt \<Rightarrow> recovered_state \<Rightarrow> status \<times> recovered_state" where
  "replay_upsert_attempt a s =
     (let i = lower_bound_index at_attempt_id (rc_attempts s) (at_attempt_id a) in
      if present_at at_attempt_id (rc_attempts s) (at_attempt_id a) i then
        (success, s\<lparr>rc_attempts := (rc_attempts s)[i := a]\<rparr>)
      else if length (rc_attempts s) \<ge> kMaxAttempts then
        (status_error ScCapacityExhausted ''replayed attempt table is full'', s)
      else (success, s\<lparr>rc_attempts := insert_at i a (rc_attempts s)\<rparr>))"

definition on_spec :: "(spec \<Rightarrow> status \<times> spec) \<Rightarrow> recovered_state \<Rightarrow> status \<times> recovered_state" where
  "on_spec f s = (case f (rc_spec s) of (st, sp) \<Rightarrow> (st, s\<lparr>rc_spec := sp\<rparr>))"

definition on_contracts :: "(contract_set \<Rightarrow> status \<times> contract_set) \<Rightarrow> recovered_state \<Rightarrow> status \<times> recovered_state" where
  "on_contracts f s = (case f (rc_contracts s) of (st, cs) \<Rightarrow> (st, s\<lparr>rc_contracts := cs\<rparr>))"

text \<open>The recorded state is adopted; whether capacity is held is derived from it.\<close>

definition replay_grant :: "grant_mark \<Rightarrow> recovered_state \<Rightarrow> status \<times> recovered_state" where
  "replay_grant m s = replay_upsert_grant
     ((gm_grant m)\<lparr>gr_state := gm_grant_state m, gr_capacity_reserved := holds_capacity (gm_grant_state m)\<rparr>) s"

primrec replay_payload :: "payload \<Rightarrow> u64 \<Rightarrow> recovered_state \<Rightarrow> status \<times> recovered_state" where
  "replay_payload JInvalid t s = (status_error ScCorruption ''journal contains an INVALID record'', s)"
| "replay_payload (JSnapshot n) t s =
     (success, s\<lparr>rc_spec := sn_spec n, rc_contracts := sn_contracts n,
        rc_grants := sort_key gr_grant_id (sn_grants n), rc_attempts := sort_key at_attempt_id (sn_attempts n),
        rc_counters := sn_counters n, rc_has_controller := (sp_cluster_id (sn_spec n) \<noteq> [])\<rparr>)"
| "replay_payload (JSetController c) t s =
     cif_try (on_spec (set_cluster_id (cm_cluster_id c)) s) (\<lambda>s.
       (success, s\<lparr>rc_spec := set_tick (rc_tick s)
          (restore_counters (cm_cluster_generation c) (cm_epoch c)
            (set_policy_generation (cm_policy_generation c)
              (set_incarnation (cm_incarnation c) (rc_spec s)))), rc_has_controller := True\<rparr>))"
| "replay_payload (JMemberUpsert m) t s = on_spec (upsert_member m) s"
| "replay_payload (JMemberRemove i) t s = on_spec (remove_member i) s"
| "replay_payload (JMemberLifecycle i l) t s = on_spec (set_member_lifecycle i l t) s"
| "replay_payload (JPathUpsert p) t s = on_spec (upsert_path p) s"
| "replay_payload (JPathRemove i) t s = on_spec (remove_path i) s"
| "replay_payload (JPathState i st) t s = on_spec (set_path_state i st) s"
| "replay_payload (JExclusionUpsert x) t s = on_spec (upsert_exclusion x) s"
| "replay_payload (JExclusionRemove i) t s = on_spec (remove_exclusion i) s"
| "replay_payload (JObligationUpsert x) t s = on_spec (upsert_obligation x) s"
| "replay_payload (JObligationRemove i) t s = on_spec (remove_obligation i) s"
| "replay_payload (JContractUpsert c) t s = on_contracts (contracts_upsert c) s"
| "replay_payload (JContractRemove i) t s = on_contracts (contracts_remove i) s"
| "replay_payload (JEpochBegin c) t s =
     on_spec (begin_epoch (cm_incarnation c) (cm_policy_generation c)) s"
| "replay_payload (JPolicySet p) t s = (success, s\<lparr>rc_spec := set_policy_generation p (rc_spec s)\<rparr>)"
| "replay_payload JTickMark t s = (success, s\<lparr>rc_spec := set_tick t (rc_spec s)\<rparr>)"
| "replay_payload (JGrantPrepared m) t s = replay_grant m s"
| "replay_payload (JGrantCommitted m) t s = replay_grant m s"
| "replay_payload (JGrantAcknowledged m) t s = replay_grant m s"
| "replay_payload (JGrantReleased m) t s = replay_grant m s"
| "replay_payload (JGrantTerminal m) t s = replay_grant m s"
| "replay_payload (JAttemptTerminal a) t s = replay_upsert_attempt a s"
| "replay_payload (JAttemptCancelled i n) t s =
     (let base = (case find (\<lambda>a. at_attempt_id a = i) (rc_attempts s) of
                    None \<Rightarrow> empty_attempt\<lparr>at_attempt_id := i\<rparr> | Some a \<Rightarrow> a)
      in replay_upsert_attempt (base\<lparr>at_cancelled := True, at_terminal_tick := t,
           at_primary_reason := RcAttemptCancelled\<rparr>) s)"
| "replay_payload (JCountersSync c) t s = (success, s\<lparr>rc_counters := c\<rparr>)"

fun replay_loop :: "entry list \<Rightarrow> u64 option \<Rightarrow> recovered_state \<Rightarrow> status \<times> recovered_state" where
  "replay_loop [] prev s = (success, s)"
| "replay_loop (e # es) prev s =
     (if prev \<noteq> None \<and> prev \<noteq> Some (je_sequence e - 1) then
        (status_error ScCorruption (''journal replay saw a sequence gap at '' @ to_decimal (je_sequence e)), s)
      else
        let s1 = (if je_tick e > rc_tick s then s\<lparr>rc_tick := je_tick e\<rparr> else s) in
        cif_try (replay_payload (je_payload e) (je_tick e) s1)
          (\<lambda>s2. replay_loop es (Some (je_sequence e)) s2))"

text \<open>On failure the caller's output is untouched, so no state comes back.\<close>

definition replay_journal :: "entry list \<Rightarrow> status \<times> recovered_state option" where
  "replay_journal es = (case replay_loop es None empty_recovered of (st, s) \<Rightarrow>
     if \<not> ok st then (st, None)
     else if rc_tick s > sp_tick (rc_spec s) then (success, Some (s\<lparr>rc_spec := set_tick (rc_tick s) (rc_spec s)\<rparr>))
     else (success, Some (s\<lparr>rc_tick := sp_tick (rc_spec s)\<rparr>)))"

end
