(* ===== verification/Journal_Props.thy ===== *)
theory Journal_Props
  imports Journal_Scan
begin

text \<open>
  What the log promises: every record the journal accepted is read back by the scan,
  in order and with a clean report; a record that was only partly written ends the
  scan, and everything before it survives.
\<close>

section \<open>Entries come back\<close>

definition contracts_ok :: "contract_set \<Rightarrow> bool" where
  "contracts_ok s = (contracts_wf s \<and> list_all contract_ok (cs_contracts s))"

definition contracts_historical :: "contract_set \<Rightarrow> contract_set" where
  "contracts_historical s = empty_contract_set\<lparr>cs_contracts := cs_contracts s,
     cs_revision := of_nat (length (cs_contracts s))\<rparr>"

definition snapshot_ok :: "snapshot \<Rightarrow> bool" where
  "snapshot_ok n = (spec_ok (sn_spec n) \<and> contracts_ok (sn_contracts n)
     \<and> length (sn_grants n) \<le> kMaxGrants \<and> list_all grant_ok (sn_grants n)
     \<and> length (sn_attempts n) \<le> kMaxAttempts \<and> list_all attempt_ok (sn_attempts n))"

definition controller_mark_ok :: "controller_mark \<Rightarrow> bool" where
  "controller_mark_ok c = (id_ok (cm_cluster_id c) \<and> length (cm_incarnation c) = 16)"

primrec payload_ok :: "payload \<Rightarrow> bool" where
  "payload_ok JInvalid = False"
| "payload_ok (JSnapshot n) = snapshot_ok n"
| "payload_ok (JSetController c) = controller_mark_ok c"
| "payload_ok (JMemberUpsert m) = member_ok m"
| "payload_ok (JMemberRemove i) = id_ok i"
| "payload_ok (JMemberLifecycle i l) = id_ok i"
| "payload_ok (JPathUpsert p) = path_ok p"
| "payload_ok (JPathRemove i) = id_ok i"
| "payload_ok (JPathState i s) = id_ok i"
| "payload_ok (JExclusionUpsert x) = exclusion_ok x"
| "payload_ok (JExclusionRemove i) = id_ok i"
| "payload_ok (JObligationUpsert x) = obligation_ok x"
| "payload_ok (JObligationRemove i) = id_ok i"
| "payload_ok (JContractUpsert c) = contract_ok c"
| "payload_ok (JContractRemove i) = id_ok i"
| "payload_ok (JEpochBegin c) = controller_mark_ok c"
| "payload_ok (JPolicySet p) = True"
| "payload_ok JTickMark = True"
| "payload_ok (JGrantPrepared m) = grant_ok (gm_grant m)"
| "payload_ok (JGrantCommitted m) = grant_ok (gm_grant m)"
| "payload_ok (JGrantAcknowledged m) = grant_ok (gm_grant m)"
| "payload_ok (JGrantReleased m) = grant_ok (gm_grant m)"
| "payload_ok (JGrantTerminal m) = grant_ok (gm_grant m)"
| "payload_ok (JAttemptTerminal a) = attempt_ok a"
| "payload_ok (JAttemptCancelled i n) =
     (id_ok i \<and> length n \<le> kMaxNoteBytes \<and> is_valid_utf8 n)"
| "payload_ok (JCountersSync c) = True"

text \<open>A snapshot comes back with fresh revisions and caches; every other record as it was.\<close>

definition payload_historical :: "payload \<Rightarrow> payload" where
  "payload_historical p = (case p of
      JSnapshot n \<Rightarrow> JSnapshot (n\<lparr>sn_spec := spec_historical (sn_spec n),
                       sn_contracts := contracts_historical (sn_contracts n)\<rparr>)
    | _ \<Rightarrow> p)"

definition entry_historical :: "entry \<Rightarrow> entry" where
  "entry_historical e = e\<lparr>je_payload := payload_historical (je_payload e)\<rparr>"

definition entry_ok :: "entry \<Rightarrow> bool" where
  "entry_ok e = (payload_ok (je_payload e) \<and> length (encode_entry e) \<le> kMaxJournalRecordBytes)"

lemma put_append:
  assumes "\<forall>y\<in>set xs. key y < key x"
  shows "\<not> present_at key xs (key x) (lower_bound_index key xs (key x))"
    "insert_at (lower_bound_index key xs (key x)) x xs = xs @ [x]"
proof -
  have "lower_bound_index key xs (key x) = length xs"
    using assms by (simp add: lower_bound_index_def takeWhile_eq_all_conv [THEN iffD2])
  then show "\<not> present_at key xs (key x) (lower_bound_index key xs (key x))"
    "insert_at (lower_bound_index key xs (key x)) x xs = xs @ [x]"
    by (simp_all add: present_at_def insert_at_def)
qed

lemma reads_contracts_loop:
  assumes "list_all contract_ok cs" "list_all (\<lambda>c. ok (validate_contract c)) cs"
    "sorted_by ct_id (cs_contracts s @ cs)" "length (cs_contracts s @ cs) \<le> kMaxContracts"
  shows "reads (decode_contracts_loop (length cs) s) (concat (map encode_contract cs))
     (s\<lparr>cs_contracts := cs_contracts s @ cs, cs_revision := cs_revision s + of_nat (length cs)\<rparr>)"
  using assms
proof (induction cs arbitrary: s)
  case (Cons c cs)
  let ?s = "s\<lparr>cs_contracts := cs_contracts s @ [c], cs_revision := cs_revision s + 1\<rparr>"
  have lt: "\<forall>y\<in>set (cs_contracts s). ct_id y < ct_id c"
    using Cons.prems(3) by (auto simp: sorted_by_append)
  have up: "contracts_upsert c s = (success, ?s)"
    using Cons.prems(2,4) put_append [OF lt] by (simp add: contracts_upsert_def Let_def cif_try_def)
  have "reads (decode_contracts_loop (length cs) ?s) (concat (map encode_contract cs))
     (?s\<lparr>cs_contracts := cs_contracts ?s @ cs, cs_revision := cs_revision ?s + of_nat (length cs)\<rparr>)"
    by (rule Cons.IH) (use Cons.prems in auto)
  then show ?case
    using Cons.prems(1) up by (auto intro!: reads_bind [OF reads_contract] simp: add.assoc)
qed (simp add: reads_return)

lemma reads_contracts [reads_intros]:
  "contracts_ok s \<Longrightarrow> reads decode_contracts (encode_contracts s) (contracts_historical s)"
  unfolding decode_contracts_def encode_contracts_def contracts_ok_def contracts_wf_def contracts_historical_def
  using reads_contracts_loop [of "cs_contracts s" empty_contract_set]
  by (auto intro!: reads_bind [OF reads_count] simp: limit_defs empty_contract_set_def)

lemma reads_controller_mark [reads_intros]:
  "controller_mark_ok c \<Longrightarrow> reads decode_controller_mark (encode_controller_mark c) c"
  unfolding decode_controller_mark_def encode_controller_mark_def controller_mark_ok_def
  by ((rule reads_bind | (rule reads_intros; simp add: limit_defs)
      | (rule reads_if, simp) | rule reads_bind_Nil)+)

lemma reads_grant_mark [reads_intros]:
  "grant_ok (gm_grant m) \<Longrightarrow> reads decode_grant_mark (encode_grant_mark m) m"
  unfolding decode_grant_mark_def encode_grant_mark_def
  by ((rule reads_bind | (rule reads_intros; simp add: limit_defs)
      | (rule reads_if, simp) | rule reads_bind_Nil)+)

lemmas reads_entity_lists =
  reads_times_list [OF _ reads_grant] reads_times_list [OF _ reads_attempt]

lemma reads_snapshot [reads_intros]:
  "snapshot_ok n \<Longrightarrow> reads decode_snapshot (encode_snapshot n)
     (n\<lparr>sn_spec := spec_historical (sn_spec n), sn_contracts := contracts_historical (sn_contracts n)\<rparr>)"
  unfolding decode_snapshot_def encode_snapshot_def snapshot_ok_def
  by ((rule reads_bind | (rule reads_entity_lists reads_intros; simp add: limit_defs)
      | (rule reads_if, simp) | rule reads_bind_Nil)+)

lemma reads_map: "reads p bs x \<Longrightarrow> reads (rd_map f p) bs (f x)"
  unfolding rd_map_def by (rule reads_bind_Nil, assumption, rule reads_return) simp

lemma reads_map2: "reads p a x \<Longrightarrow> reads q b y \<Longrightarrow> reads (rd_bind p (\<lambda>x. rd_map (f x) q)) (a @ b) (f x y)"
  by (rule reads_bind, assumption, rule reads_map)

lemma reads_payload:
  "payload_ok p \<Longrightarrow> reads (decode_payload (kind_of p)) (encode_payload p) (payload_historical p)"
proof (cases p)
  case (JAttemptCancelled i n)
  assume ok: "payload_ok p"
  show ?thesis unfolding JAttemptCancelled
    by (simp add: decode_payload_def payload_historical_def)
      (rule reads_bind [OF reads_id], use ok JAttemptCancelled in simp,
        rule reads_bind_Nil [OF reads_text],
        use ok JAttemptCancelled in \<open>auto simp: limit_defs intro!: reads_return\<close>)
qed (simp_all add: decode_payload_def payload_historical_def reads_map reads_map2 reads_return
      reads_snapshot reads_controller_mark reads_member reads_id reads_path reads_exclusion
      reads_obligation reads_contract reads_counter reads_grant_mark reads_attempt reads_counters
      reads_enum)

lemma kind_positive: "payload_ok p \<Longrightarrow> kind_of p \<noteq> 0"
  by (cases p) simp_all

lemma kind_bound: "kind_of p \<le> 25"
  by (cases p) simp_all

lemma reads_entry:
  "payload_ok (je_payload e) \<Longrightarrow>
   reads (decode_entry (kind_of (je_payload e)) (je_sequence e)) (encode_entry e) (entry_historical e)"
  unfolding decode_entry_def encode_entry_def
  by (rule reads_if, simp add: kind_positive, rule reads_bind [OF reads_counter],
      rule reads_bind_Nil [OF reads_payload], simp, rule reads_return, simp add: entry_historical_def)

section \<open>A framed record is read back\<close>

lemma reads_run:
  assumes "reads p bs x"
  shows "p (reader_of (bs @ suf)) = (Some x, (reader_of (bs @ suf))\<lparr>rd_offset := length bs\<rparr>)"
  using assms [unfolded reads_def, rule_format, of "reader_of (bs @ suf)" suf]
  by (simp add: reader_of_def)

definition head_of :: "nat \<Rightarrow> u64 \<Rightarrow> bytes \<Rightarrow> u32 \<Rightarrow> record_head" where
  "head_of k s payload c = \<lparr>hd_magic = record_magic, hd_version = 1, hd_kind = of_nat k, hd_sequence = s,
     hd_length = of_nat (length payload), hd_chain = c, hd_crc = crc32c (record_header_fields k s payload c)\<rparr>"

lemma record_header_flat: "record_header k s p c =
    w_u32 record_magic @ w_u16 1 @ w_u16 (of_nat k) @ w_u64 s @ w_u32 (of_nat (length p)) @ w_u32 c
    @ w_u32 (crc32c (record_header_fields k s p c))"
  by (simp add: record_header_def record_header_fields_def Let_def)

lemma reads_head: "reads read_head (record_header k s p c) (head_of k s p c)"
  unfolding read_head_def record_header_flat head_of_def
  by ((rule reads_bind | (rule reads_u16 reads_u32 reads_u64) | rule reads_bind_Nil | (rule reads_return, simp))+)

lemma width_lengths [simp]: "length (w_u16 a) = 2" "length (w_u32 b) = 4" "length (w_u64 c) = 8"
  by (simp_all add: w_u16_def w_u32_def w_u64_def)

lemma length_header: "length (record_header k s p c) = 28" "length (record_header_fields k s p c) = 24"
  by (simp_all add: record_header_def record_header_fields_def Let_def)

lemma entry_ok_framed:
  assumes "entry_ok e"
  shows "kind_of (je_payload e) \<noteq> 0" "length (encode_entry e) \<le> kMaxJournalRecordBytes"
  using assms kind_positive by (auto simp: entry_ok_def)

definition frame :: "entry \<Rightarrow> u32 \<Rightarrow> bytes" where
  "frame e chain =
     (let p = encode_entry e in
      record_header (kind_of (je_payload e)) (je_sequence e) p (record_chain_crc chain p)
      @ p @ w_u32 (crc32c p))"

lemma length_frame: "length (frame e c) = 28 + length (encode_entry e) + 4"
  by (simp add: frame_def Let_def length_header)

lemma unat_kind: "unat (of_nat (kind_of p) :: u16) = kind_of p"
  using kind_bound [of p] by (simp add: unat_of_nat)

lemma known_kind: "payload_ok p \<Longrightarrow> is_known_kind (of_nat (kind_of p))"
  using kind_bound [of p] kind_positive [of p] unat_kind [of p]
  by (simp add: is_known_kind_def word_le_nat_alt)

lemma take_header: "take 24 (record_header k s p c @ xs) = record_header_fields k s p c"
  by (simp add: record_header_def Let_def length_header)

lemma scan_frame:
  assumes "entry_ok e" "drop offset bs = frame e chain @ suf" "je_sequence e = expected"
  shows "scan_record bs offset chain expected report
    = Inr (entry_historical e, record_chain_crc chain (encode_entry e), expected + 1,
           offset + length (frame e chain))"
proof -
  let ?p = "encode_entry e" and ?k = "kind_of (je_payload e)"
  let ?c = "record_chain_crc chain ?p"
  let ?h = "record_header ?k (je_sequence e) ?p ?c"
  have rest: "drop offset bs = ?h @ ?p @ w_u32 (crc32c ?p) @ suf"
    using assms(2) by (simp add: frame_def Let_def)
  have ok: "payload_ok (je_payload e)" "length ?p \<le> 2 ^ 20"
    using assms(1) by (simp_all add: entry_ok_def kMaxJournalRecordBytes_def)
  have n: "unat (of_nat (length ?p) :: u32) = length ?p"
    using ok(2) by (simp add: unat_of_nat)
  have hd: "fst (read_head (reader_of (?h @ ?p @ w_u32 (crc32c ?p) @ suf))) = Some (head_of ?k (je_sequence e) ?p ?c)"
    using reads_run [OF reads_head] by (metis fst_conv)
  have pl: "take (length ?p) (drop 28 (?h @ ?p @ w_u32 (crc32c ?p) @ suf)) = ?p"
    by (simp add: length_header)
  have cr: "take 4 (drop (28 + length ?p) (?h @ ?p @ w_u32 (crc32c ?p) @ suf)) = w_u32 (crc32c ?p) @ []"
    by (simp add: length_header)
  have crc: "fst (rd_u32 (reader_of (w_u32 (crc32c ?p) @ []))) = Some (crc32c ?p)"
    by (simp only: reads_run [OF reads_u32] fst_conv)
  have dec: "decode_entry ?k (je_sequence e) (reader_of (?p @ []))
      = (Some (entry_historical e), (reader_of (?p @ []))\<lparr>rd_offset := length ?p\<rparr>)"
    by (rule reads_run [OF reads_entry [OF ok(1)]])
  show ?thesis
    unfolding assms(3) [symmetric] scan_record_def Let_def rest hd option.case head_of_def
      record_head.select_convs n unat_kind pl cr crc take_header
    using dec known_kind [OF ok(1)] ok(2)
    by (simp add: length_header length_frame rd_at_end_def reader_of_def kMaxJournalRecordBytes_def)
qed

section \<open>The whole log\<close>

fun log_frames :: "u32 \<Rightarrow> entry list \<Rightarrow> bytes" where
  "log_frames c [] = []"
| "log_frames c (e # es) = frame e c @ log_frames (record_chain_crc c (encode_entry e)) es"

definition chain_after :: "u32 \<Rightarrow> entry list \<Rightarrow> u32" where
  "chain_after c es = foldl (\<lambda>c e. record_chain_crc c (encode_entry e)) c es"

fun contiguous :: "u64 \<Rightarrow> entry list \<Rightarrow> bool" where
  "contiguous s [] = True"
| "contiguous s (e # es) = (je_sequence e = s \<and> contiguous (s + 1) es)"

lemma log_frames_append:
  "log_frames c (es @ fs) = log_frames c es @ log_frames (chain_after c es) fs"
  by (induction es arbitrary: c) (simp_all add: chain_after_def)

lemma contiguous_append:
  "contiguous s (es @ fs) \<longleftrightarrow> contiguous s es \<and> contiguous (s + of_nat (length es)) fs"
  by (induction es arbitrary: s) (simp_all add: algebra_simps)

lemma scan_loop_frames:
  assumes "list_all entry_ok es" "contiguous s es"
    "bs = pre @ log_frames c es @ suf"
  shows "scan_loop bs (length pre) c s acc report
    = scan_loop bs (length pre + length (log_frames c es)) (chain_after c es)
        (s + of_nat (length es)) (acc @ map entry_historical es) report"
  using assms
proof (induction es arbitrary: pre c s acc)
  case (Cons e es)
  let ?c = "record_chain_crc c (encode_entry e)"
  have step: "scan_record bs (length pre) c s report
      = Inr (entry_historical e, ?c, s + 1, length pre + length (frame e c))"
    by (rule scan_frame [where suf = "log_frames ?c es @ suf"]) (use Cons.prems in auto)
  have lt: "length pre < length bs" using Cons.prems(3) by (simp add: length_frame)
  have "scan_loop bs (length pre) c s acc report
      = scan_loop bs (length (pre @ frame e c)) ?c (s + 1) (acc @ [entry_historical e]) report"
    by (subst scan_loop.simps) (simp add: lt step)
  also have "\<dots> = scan_loop bs (length (pre @ frame e c) + length (log_frames ?c es)) (chain_after ?c es)
        (s + 1 + of_nat (length es)) ((acc @ [entry_historical e]) @ map entry_historical es) report"
    by (rule Cons.IH) (use Cons.prems in auto)
  finally show ?case by (simp add: chain_after_def algebra_simps)
qed (simp add: chain_after_def)

definition scan_report :: "nat \<Rightarrow> u32 \<Rightarrow> entry list \<Rightarrow> recovery_report \<Rightarrow> recovery_report" where
  "scan_report valid chain es r = r\<lparr>rr_records_read := length es,
     rr_last_sequence := of_nat (length es), rr_last_chain := chain, rr_valid_bytes := valid,
     rr_detail := (if rr_detail r = [] \<and> \<not> rr_fresh r then ''journal scanned cleanly'' else rr_detail r)\<rparr>"

lemma length_file_header: "length file_header = 32"
  by (simp add: file_header_def file_magic_def w_raw_def Let_def)

lemma file_header_checks:
  "take 8 (file_header @ xs) = file_magic"
  "fst (rd_u32 (reader_of (drop 24 (file_header @ xs)))) = Some (crc32c (take 24 (file_header @ xs)))"
  "fst (rd_u32 (reader_of (drop 8 (file_header @ xs)))) = Some 1"
proof -
  let ?h = "w_raw file_magic @ w_u32 1 @ w_u32 0 @ w_u64 0"
  have m: "length file_magic = 8" by (simp add: file_magic_def)
  have eq: "file_header @ xs = ?h @ w_u32 (crc32c ?h) @ w_u32 0 @ xs"
    by (simp add: file_header_def Let_def)
  show "take 8 (file_header @ xs) = file_magic" unfolding eq using m by (simp add: w_raw_def)
  have d24: "drop 24 (file_header @ xs) = w_u32 (crc32c ?h) @ w_u32 0 @ xs" unfolding eq using m by (simp add: w_raw_def)
  have t24: "take 24 (file_header @ xs) = ?h" unfolding eq using m by (simp add: w_raw_def)
  show "fst (rd_u32 (reader_of (drop 24 (file_header @ xs)))) = Some (crc32c (take 24 (file_header @ xs)))"
    unfolding d24 t24 by (simp only: reads_run [OF reads_u32] fst_conv)
  have d8: "drop 8 (file_header @ xs) = w_u32 1 @ w_u32 0 @ w_u64 0 @ w_u32 (crc32c ?h) @ w_u32 0 @ xs"
    unfolding eq using m by (simp add: w_raw_def)
  show "fst (rd_u32 (reader_of (drop 8 (file_header @ xs)))) = Some 1"
    unfolding d8 by (simp only: reads_run [OF reads_u32] fst_conv)
qed

lemma scan_log:
  assumes "list_all entry_ok es" "contiguous 0 es"
    "length (file_header @ log_frames 0 es @ tail) \<le> kMaxScanBytes"
  shows "journal_scan (Some (file_header @ log_frames 0 es @ tail))
    = (success, scan_loop (file_header @ log_frames 0 es @ tail) (32 + length (log_frames 0 es))
         (chain_after 0 es) (of_nat (length es)) (map entry_historical es)
         (empty_report\<lparr>rr_file_present := True\<rparr>))"
proof -
  let ?bs = "file_header @ log_frames 0 es @ tail"
  have ne: "(?bs = []) = False" "(length ?bs < 32) = False" "(length ?bs > kMaxScanBytes) = False"
    using length_file_header assms(3) by auto
  have "scan_loop ?bs 32 0 0 [] (empty_report\<lparr>rr_file_present := True\<rparr>)
      = scan_loop ?bs (32 + length (log_frames 0 es)) (chain_after 0 es) (of_nat (length es))
         (map entry_historical es) (empty_report\<lparr>rr_file_present := True\<rparr>)"
    using scan_loop_frames [OF assms(1,2), of ?bs file_header 0 tail "[]"] length_file_header by simp
  then show ?thesis
    unfolding journal_scan_def option.case Let_def
    by (simp only: ne file_header_checks [of "log_frames 0 es @ tail"] if_False if_True simp_thms)
qed

text \<open>A log without a torn tail.\<close>

lemma scan_clean_log:
  assumes "list_all entry_ok es" "contiguous 0 es"
    "length (file_header @ log_frames 0 es) \<le> kMaxScanBytes"
  shows "journal_scan (Some (file_header @ log_frames 0 es))
    = (success, map entry_historical es,
       scan_report (32 + length (log_frames 0 es)) (chain_after 0 es) es
         (empty_report\<lparr>rr_file_present := True\<rparr>))"
  using scan_log [OF assms(1,2), of "[]"] assms(3) length_file_header
  by (simp add: scan_loop.simps [of _ "32 + length (log_frames 0 es)"] scan_report_def Let_def)

section \<open>A torn tail\<close>

text \<open>A strict prefix of a frame never passes for a record.\<close>

lemma scan_torn:
  assumes "drop offset bs = take n (frame e chain)" "n < length (frame e chain)"
    "payload_ok (je_payload e)" "length (encode_entry e) \<le> kMaxJournalRecordBytes"
  shows "\<exists>d. scan_record bs offset chain expected report
    = Inl ((flag_torn report)\<lparr>rr_discarded_bytes := n, rr_detail := d\<rparr>) \<and> d \<noteq> []"
proof (cases "n < 28")
  case True
  then show ?thesis using assms(1,2) by (auto simp: scan_record_def scan_stop_def Let_def)
next
  case False
  let ?p = "encode_entry e" and ?k = "kind_of (je_payload e)"
  let ?c = "record_chain_crc chain ?p"
  let ?h = "record_header ?k (je_sequence e) ?p ?c"
  have fr: "frame e chain = ?h @ ?p @ w_u32 (crc32c ?p)" by (simp add: frame_def Let_def)
  obtain suf where rest: "drop offset bs = ?h @ suf" "length suf = n - 28"
    using assms(1,2) False by (auto simp: fr length_header)
  have n: "unat (of_nat (length ?p) :: u32) = length ?p"
    using assms(4) by (simp add: unat_of_nat kMaxJournalRecordBytes_def)
  have hd: "fst (read_head (reader_of (?h @ suf))) = Some (head_of ?k (je_sequence e) ?p ?c)"
    using reads_run [OF reads_head] by (metis fst_conv)
  have short: "28 + length suf < 28 + length ?p + 4"
    using assms(2) rest(2) False by (simp add: length_frame)
  show ?thesis
    unfolding scan_record_def Let_def rest hd option.case head_of_def record_head.select_convs n
      unat_kind take_header
    using short known_kind [OF assms(3)] assms(4) rest(2) False
    by (auto simp: length_header scan_stop_def)
qed

section \<open>The journal keeps its log\<close>

definition journal_holds :: "journal \<Rightarrow> entry list \<Rightarrow> bool" where
  "journal_holds j es = (j_open j \<and> j_file j = Some (file_header @ log_frames 0 es)
     \<and> j_chain j = chain_after 0 es \<and> j_last_sequence j = of_nat (length es)
     \<and> j_byte_count j = length (file_header @ log_frames 0 es)
     \<and> contiguous 0 es \<and> list_all entry_ok es)"

text \<open>What a failed append may leave behind: part of its frame, or all of it when only the sync failed.\<close>

definition journal_torn :: "journal \<Rightarrow> entry list \<Rightarrow> entry \<Rightarrow> bool" where
  "journal_torn j es e = (\<exists>n\<le>length (frame e (chain_after 0 es)).
     (n > 0 \<longrightarrow> length (file_header @ log_frames 0 es) < kMaxJournalBytes)
     \<and> j_file j = Some (file_header @ log_frames 0 es @ take n (frame e (chain_after 0 es))))"

lemma next_io_frame: "next_io j = (r, j') \<Longrightarrow> \<exists>io. j' = j\<lparr>j_io := io\<rparr>"
  by (cases "j_io j") (auto simp: next_io_def intro: exI [of _ "j_io j"])

lemma write_exact_cases:
  assumes "write_exact d j = (st, j')"
  obtains (written) io where "ok st" "j' = j\<lparr>j_io := io, j_file := (if d = [] then j_file j else Some (file_bytes j @ d))\<rparr>"
    | (short) n io where "\<not> ok st" "n < length d" "j' = j\<lparr>j_io := io, j_file := Some (file_bytes j @ take n d)\<rparr>"
proof (cases "d = []")
  case True
  then show ?thesis using assms written [of "j_io j"] by (simp add: write_exact_def)
next
  case False
  obtain r j1 where io: "next_io j = (r, j1)" by fastforce
  obtain io1 where j1: "j1 = j\<lparr>j_io := io1\<rparr>" using next_io_frame [OF io] by blast
  show ?thesis
  proof (cases r)
    case None
    then show ?thesis using written [of io1] False assms io j1 by (auto simp: write_exact_def file_bytes_def)
  next
    case (Some n)
    have "min n (length d - 1) < length d" using False by (cases d) auto
    then show ?thesis using short [of "min n (length d - 1)" io1] False assms io j1 Some
      by (auto simp: write_exact_def file_bytes_def)
  qed
qed

lemma sync_file_cases:
  assumes "sync_file j = (st, j')"
  obtains io where "j' = j\<lparr>j_io := io\<rparr>"
proof -
  obtain r j1 where io: "next_io j = (r, j1)" by fastforce
  obtain io1 where j1: "j1 = j\<lparr>j_io := io1\<rparr>" using next_io_frame [OF io] by blast
  then show ?thesis using that assms io by (cases r) (auto simp: sync_file_def platform_call_def)
qed

text \<open>Writing a record: all of its frame, or part of it and an error.\<close>

lemma write_exact_file:
  assumes "write_exact d j = (st, j')" "d \<noteq> []" "j_file j = Some f"
  obtains (written) io where "ok st" "j' = j\<lparr>j_io := io, j_file := Some (f @ d)\<rparr>"
    | (short) n io where "\<not> ok st" "n < length d" "j' = j\<lparr>j_io := io, j_file := Some (f @ take n d)\<rparr>"
  using write_exact_cases [OF assms(1)] assms(2,3) by (auto simp: file_bytes_def)

lemma write_record_cases:
  assumes open_j: "j_open j" and at_f: "j_file j = Some f"
    and good: "kind_of (je_payload e) \<noteq> 0" "length (encode_entry e) \<le> kMaxJournalRecordBytes"
    and run: "write_record e durable j = (st, j')"
  obtains (written) io where "ok st"
      "j' = j\<lparr>j_io := io, j_file := Some (f @ frame e (j_chain j)),
              j_byte_count := j_byte_count j + length (frame e (j_chain j)),
              j_record_count := j_record_count j + 1, j_last_sequence := je_sequence e + 1,
              j_chain := record_chain_crc (j_chain j) (encode_entry e)\<rparr>"
    | (torn) n io where "\<not> ok st" "n \<le> length (frame e (j_chain j))"
      "j' = j\<lparr>j_io := io, j_file := Some (f @ take n (frame e (j_chain j)))\<rparr>"
proof -
  define p where "p = encode_entry e"
  define c where "c = record_chain_crc (j_chain j) p"
  define h where "h = record_header (kind_of (je_payload e)) (je_sequence e) p c"
  define t where "t = w_u32 (crc32c p)"
  have fr: "frame e (j_chain j) = h @ p @ t" by (simp add: frame_def Let_def p_def c_def h_def t_def)
  have ne: "h \<noteq> []" "p \<noteq> []" "t \<noteq> []"
    using length_header(1) [of "kind_of (je_payload e)" "je_sequence e" p c]
    by (auto simp: h_def p_def t_def w_u32_def encode_entry_def encode_counter_def w_u64_def)
  define fin where "fin = (\<lambda>j :: journal. (success, j\<lparr>j_byte_count := j_byte_count j + length h + length p + length t,
      j_record_count := j_record_count j + 1, j_last_sequence := je_sequence e + 1, j_chain := c\<rparr>))"
  have R: "cif_try (write_exact h j) (\<lambda>j. cif_try (write_exact p j) (\<lambda>j. cif_try (write_exact t j) (\<lambda>j.
      cif_try (if durable then sync_file j else (success, j)) fin))) = (st, j')"
    using run good open_j
    by (simp add: write_record_def Let_def p_def c_def h_def t_def fin_def)
  obtain s1 j1 where w1: "write_exact h j = (s1, j1)" by fastforce
  show ?thesis
  proof (cases rule: write_exact_file [OF w1 ne(1) at_f])
    case (2 n io)
    then show ?thesis using torn [of n io] R w1 by (auto simp: fr)
  next
    case (1 io1)
    have f1: "j_file j1 = Some (f @ h)" using 1 by simp
    obtain s2 j2 where w2: "write_exact p j1 = (s2, j2)" by fastforce
    show ?thesis
    proof (cases rule: write_exact_file [OF w2 ne(2) f1])
      case (2 n io)
      then show ?thesis using torn [of "length h + n" io] R w1 w2 1 by (auto simp: fr)
    next
      case (1 io2)
      note step2 = 1
      have f2: "j_file j2 = Some (f @ h @ p)" using 1 by simp
      obtain s3 j3 where w3: "write_exact t j2 = (s3, j3)" by fastforce
      show ?thesis
      proof (cases rule: write_exact_file [OF w3 ne(3) f2])
        case (2 n io)
        then show ?thesis
          using torn [of "length h + length p + n" io] R w1 w2 w3 \<open>ok s1\<close> \<open>ok s2\<close> step2(2) \<open>j1 = _\<close>
          by (auto simp: fr)
      next
        case (1 io3)
        obtain s4 j4 where w4: "(if durable then sync_file j3 else (success, j3)) = (s4, j4)" by fastforce
        have "\<exists>io. j4 = j3\<lparr>j_io := io\<rparr>"
          using w4 sync_file_cases [of j3 s4 j4] by (cases durable) (auto intro: exI [of _ "j_io j3"])
        then obtain io4 where "j4 = j3\<lparr>j_io := io4\<rparr>" by blast
        then have j4: "j4 = j\<lparr>j_io := io4, j_file := Some (f @ frame e (j_chain j))\<rparr>"
          using 1 step2(2) \<open>j1 = _\<close> by (simp add: fr)
        have R4: "cif_try (s4, j4) fin = (st, j')"
          using R w1 w2 w3 w4 \<open>ok s1\<close> \<open>ok s2\<close> \<open>ok s3\<close> by simp
        show ?thesis
        proof (cases "ok s4")
          case True
          then show ?thesis using written [of io4] R4 j4 by (auto simp: fin_def fr c_def p_def)
        next
          case False
          then show ?thesis using torn [of "length (frame e (j_chain j))" io4] R4 j4 by simp
        qed
      qed
    qed
  qed
qed

text \<open>The append step on a journal that holds \<open>es\<close>.\<close>

lemma append_step:
  assumes holds: "journal_holds j es" and good: "payload_ok (je_payload e)"
    "length (encode_entry e) \<le> kMaxJournalRecordBytes"
    and run: "journal_append e durable j = (st, e', j')"
  shows "ok st \<Longrightarrow> journal_holds j' (es @ [e'])"
    "\<not> ok st \<Longrightarrow> journal_torn j' es (e\<lparr>je_sequence := of_nat (length es)\<rparr>)"
    "ok st \<Longrightarrow> e' = e\<lparr>je_sequence := of_nat (length es)\<rparr> \<and> j_byte_count j < kMaxJournalBytes"
proof -
  let ?e = "e\<lparr>je_sequence := of_nat (length es)\<rparr>"
  have enc: "encode_entry ?e = encode_entry e" by (simp add: encode_entry_def)
  have ok_e: "entry_ok ?e" using good by (simp add: entry_ok_def enc)
  have H: "j_open j" "j_file j = Some (file_header @ log_frames 0 es)" "j_chain j = chain_after 0 es"
    "j_last_sequence j = of_nat (length es)" "j_byte_count j = length (file_header @ log_frames 0 es)"
    "contiguous 0 es" "list_all entry_ok es"
    using holds by (simp_all add: journal_holds_def)
  have "(ok st \<longrightarrow> journal_holds j' (es @ [e']) \<and> e' = ?e \<and> j_byte_count j < kMaxJournalBytes)
    \<and> (\<not> ok st \<longrightarrow> journal_torn j' es ?e)"
  proof (cases "should_compact j")
    case True
    then have "st = status_error ScCapacityExhausted
         ''journal has reached its configured bound; compaction is required''" "j' = j"
      using run by (simp_all add: journal_append_def)
    moreover have "journal_torn j es ?e" unfolding journal_torn_def using H(2) by (intro exI [of _ 0]) simp
    ultimately show ?thesis by simp
  next
    case False
    then have bound: "j_byte_count j < kMaxJournalBytes" by (simp add: should_compact_def)
    have w: "write_record ?e durable j = (st, j')" and e': "e' = ?e"
      using run False H(4) by (auto simp: journal_append_def Let_def split: prod.splits)
    show ?thesis
    proof (cases rule: write_record_cases [OF H(1,2) entry_ok_framed [OF ok_e] w])
      case (1 io)
      have "j_file j' = Some (file_header @ log_frames 0 (es @ [?e]))"
        using 1 H(3) by (simp add: log_frames_append)
      then have "journal_holds j' (es @ [?e])"
        using 1 H ok_e by (simp add: journal_holds_def chain_after_def contiguous_append log_frames_append)
      then show ?thesis using 1 e' bound by simp
    next
      case (2 n io)
      then have "journal_torn j' es ?e" unfolding journal_torn_def H(3)
        by (intro exI [of _ n]) (use bound H(5) in \<open>simp add: H(3)\<close>)
      then show ?thesis using 2 by simp
    qed
  qed
  then show "ok st \<Longrightarrow> journal_holds j' (es @ [e'])"
    "\<not> ok st \<Longrightarrow> journal_torn j' es ?e"
    "ok st \<Longrightarrow> e' = ?e \<and> j_byte_count j < kMaxJournalBytes" by blast+
qed

definition log_bounded :: "entry list \<Rightarrow> bool" where
  "log_bounded es = (length (file_header @ log_frames 0 es) \<le> kMaxJournalBytes + kMaxJournalRecordBytes + 32)"

lemma append_bounded:
  assumes "journal_holds j es" "payload_ok (je_payload e)"
    "length (encode_entry e) \<le> kMaxJournalRecordBytes" "journal_append e durable j = (st, e', j')" "ok st"
  shows "log_bounded (es @ [e'])"
proof -
  note s = append_step(3) [OF assms]
  have "length (frame e' c) \<le> 28 + kMaxJournalRecordBytes + 4" for c
    using s assms(3) by (simp add: length_frame encode_entry_def)
  then show ?thesis
    using s assms(1) by (simp add: log_bounded_def log_frames_append journal_holds_def)
      (smt (verit, best) add.assoc add.commute add_le_mono less_imp_le_nat numeral_Bit0 numeral_plus_numeral order_trans)
qed

lemma scan_holds:
  assumes "journal_holds j es" "log_bounded es"
  shows "journal_scan (j_file j) = (success, map entry_historical es,
       scan_report (32 + length (log_frames 0 es)) (chain_after 0 es) es
         (empty_report\<lparr>rr_file_present := True\<rparr>))"
proof -
  have "length (file_header @ log_frames 0 es) \<le> kMaxScanBytes"
    using assms(2) by (simp add: log_bounded_def kMaxScanBytes_def)
  then show ?thesis using scan_clean_log [of es] assms(1) by (simp add: journal_holds_def)
qed

lemma scan_after_torn:
  assumes "journal_holds j0 es" "log_bounded es" "journal_torn j es e"
    "payload_ok (je_payload e)" "length (encode_entry e) \<le> kMaxJournalRecordBytes"
    "je_sequence e = of_nat (length es)"
  shows "\<exists>extra r. journal_scan (j_file j) = (success, map entry_historical (es @ extra), r) \<and> set extra \<subseteq> {e}
    \<and> length extra \<le> 1"
proof -
  let ?c = "chain_after 0 es"
  obtain n where n: "n \<le> length (frame e ?c)" "n > 0 \<longrightarrow> length (file_header @ log_frames 0 es) < kMaxJournalBytes"
    "j_file j = Some (file_header @ log_frames 0 es @ take n (frame e ?c))"
    using assms(3) by (auto simp: journal_torn_def)
  have es: "list_all entry_ok es" "contiguous 0 es" using assms(1) by (simp_all add: journal_holds_def)
  have len: "length (file_header @ log_frames 0 es @ take n (frame e ?c)) \<le> kMaxScanBytes"
  proof (cases "n = 0")
    case True
    then show ?thesis using assms(2) by (simp add: log_bounded_def kMaxScanBytes_def)
  next
    case False
    then have "length (file_header @ log_frames 0 es) < kMaxJournalBytes" using n(2) by simp
    moreover have "length (take n (frame e ?c)) \<le> 32 + kMaxJournalRecordBytes"
      using assms(5) n(1) by (simp add: length_frame)
    ultimately show ?thesis by (simp add: kMaxScanBytes_def)
  qed
  consider "n = 0" | "0 < n \<and> n < length (frame e ?c)" | "n = length (frame e ?c)" using n(1) by linarith
  then show ?thesis
  proof cases
    case 1
    then show ?thesis using scan_clean_log [OF es] len n(3) by (intro exI [of _ "[]"]) simp
  next
    case 2
    let ?bs = "file_header @ log_frames 0 es @ take n (frame e ?c)"
    let ?o = "32 + length (log_frames 0 es)"
    have d: "drop ?o ?bs = take n (frame e ?c)" using length_file_header by simp
    obtain d' where "scan_record ?bs ?o ?c (of_nat (length es)) (empty_report\<lparr>rr_file_present := True\<rparr>)
        = Inl ((flag_torn (empty_report\<lparr>rr_file_present := True\<rparr>))\<lparr>rr_discarded_bytes := n, rr_detail := d'\<rparr>)"
      using scan_torn [OF d _ assms(4,5)] 2 by blast
    moreover have "?o < length ?bs" using 2 length_file_header n(1) by simp
    ultimately show ?thesis
      using scan_log [OF es len] n(3)
      by (intro exI [of _ "[]"]) (simp add: scan_loop.simps [of ?bs ?o] Let_def)
  next
    case 3
    have "entry_ok e" using assms(4,5) by (simp add: entry_ok_def)
    then have "journal_scan (Some (file_header @ log_frames 0 (es @ [e])))
      = (success, map entry_historical (es @ [e]),
         scan_report (32 + length (log_frames 0 (es @ [e]))) (chain_after 0 (es @ [e])) (es @ [e])
         (empty_report\<lparr>rr_file_present := True\<rparr>))"
      by (intro scan_clean_log)
        (use es assms(6) len 3 in \<open>simp_all add: contiguous_append log_frames_append\<close>)
    then show ?thesis using n(3) 3 by (intro exI [of _ "[e]"]) (simp add: log_frames_append)
  qed
qed

text \<open>Appending until the first failure.\<close>

fun append_all :: "(entry \<times> bool) list \<Rightarrow> entry list \<Rightarrow> journal \<Rightarrow> status \<times> entry list \<times> journal" where
  "append_all [] acked j = (success, acked, j)"
| "append_all ((e, durable) # es) acked j = (case journal_append e durable j of (st, e', j') \<Rightarrow>
     if ok st then append_all es (acked @ [e']) j' else (st, acked, j'))"

lemma append_all_scan:
  assumes "journal_holds j acked0" "log_bounded acked0"
    "list_all (\<lambda>(e, d). payload_ok (je_payload e) \<and> length (encode_entry e) \<le> kMaxJournalRecordBytes) es"
    "append_all es acked0 j = (st, acked, j')"
  shows "\<exists>extra r. journal_scan (j_file j') = (success, map entry_historical (acked @ extra), r)
    \<and> length extra \<le> 1 \<and> (ok st \<longrightarrow> extra = [] \<and> \<not> requires_rebuild r \<and> length acked = length acked0 + length es)"
  using assms
proof (induction es arbitrary: j acked0)
  case Nil
  then show ?case using scan_holds [OF Nil.prems(1,2)]
    by (intro exI [of _ "[]"]) (auto simp: scan_report_def requires_rebuild_def empty_report_def)
next
  case (Cons x es)
  obtain e d where x: "x = (e, d)" by fastforce
  obtain st1 e1 j1 where a: "journal_append e d j = (st1, e1, j1)" by (metis prod_cases3)
  have good: "payload_ok (je_payload e)" "length (encode_entry e) \<le> kMaxJournalRecordBytes"
    using Cons.prems(3) x by simp_all
  note step = append_step [OF Cons.prems(1) good a]
  show ?case
  proof (cases "ok st1")
    case True
    have "append_all es (acked0 @ [e1]) j1 = (st, acked, j')" using Cons.prems(4) x a True by simp
    from Cons.IH [OF step(1) [OF True] append_bounded [OF Cons.prems(1) good a True] _ this] Cons.prems(3)
    show ?thesis by simp
  next
    case False
    then have r: "st = st1" "acked = acked0" "j' = j1" using Cons.prems(4) x a by simp_all
    have "\<exists>extra r. journal_scan (j_file j1) = (success, map entry_historical (acked0 @ extra), r)
        \<and> set extra \<subseteq> {e\<lparr>je_sequence := of_nat (length acked0)\<rparr>} \<and> length extra \<le> 1"
      by (rule scan_after_torn [OF Cons.prems(1,2) step(2) [OF False]])
        (use good in \<open>simp_all add: encode_entry_def\<close>)
    then show ?thesis using r False by auto
  qed
qed

lemma platform_call_open:
  "platform_call m f j = (st, j') \<Longrightarrow> ok st \<Longrightarrow> \<exists>io. j' = f (j\<lparr>j_io := io\<rparr>)"
  using next_io_frame [of j]
  by (auto simp: platform_call_def split: prod.splits option.splits)

lemma open_fresh:
  assumes "journal_open trunc True c s j = (st, j')" "ok st"
  shows "journal_holds j' []"
proof -
  define fin where "fin = (\<lambda>j :: journal. (success, j\<lparr>j_byte_count := length file_header,
        j_record_count := 0, j_last_sequence := 0, j_chain := 0\<rparr>))"
  have r: "cif_try (journal_close j) (\<lambda>j. cif_try (open_raw True j) (\<lambda>j. cif_try (write_exact file_header j)
      (\<lambda>j. cif_try (sync_file j) fin))) = (st, j')"
    using assms(1) by (simp add: journal_open_def Let_def fin_def)
  obtain s0 k0 where "cif_try (open_raw True k0) (\<lambda>j. cif_try (write_exact file_header j)
      (\<lambda>j. cif_try (sync_file j) fin)) = (st, j')"
    by (rule cif_try_okE [OF r assms(2)])
  then obtain s1 k1 where k1: "open_raw True k0 = (s1, k1)" "ok s1"
    and r1: "cif_try (write_exact file_header k1) (\<lambda>j. cif_try (sync_file j) fin) = (st, j')"
    using assms(2) by (rule cif_try_okE)
  obtain s2 k2 where k2: "write_exact file_header k1 = (s2, k2)" "ok s2"
    and r2: "cif_try (sync_file k2) fin = (st, j')"
    by (rule cif_try_okE [OF r1 assms(2)])
  obtain s3 k3 where k3: "sync_file k2 = (s3, k3)" and r3: "fin k3 = (st, j')"
    by (rule cif_try_okE [OF r2 assms(2)])
  obtain io where "k1 = k0\<lparr>j_io := io, j_open := True, j_file := Some []\<rparr>"
    using platform_call_open [OF k1 [unfolded open_raw_def]] by auto
  then have f1: "j_file k1 = Some []" "j_open k1" by simp_all
  have ne: "file_header \<noteq> []" using length_file_header by auto
  have f2: "j_file k2 = Some file_header \<and> j_open k2"
    by (rule write_exact_file [OF k2(1) ne f1(1)]) (use k2(2) f1(2) in simp_all)
  have f3: "j_file k3 = Some file_header \<and> j_open k3"
    by (rule sync_file_cases [OF k3]) (use f2 in simp)
  have "j' = k3\<lparr>j_byte_count := length file_header, j_record_count := 0, j_last_sequence := 0, j_chain := 0\<rparr>"
    using r3 by (simp add: fin_def)
  then show ?thesis using f3 by (simp add: journal_holds_def chain_after_def)
qed

lemma log_bounded_Nil: "log_bounded []"
  by (simp add: log_bounded_def length_file_header)



section \<open>Two failure paths that lose the log\<close>

lemma head_magic_first:
  assumes "fst (read_head (reader_of (w_u32 m @ xs))) = Some h"
  shows "hd_magic h = m"
proof -
  have "rd_u32 (reader_of (w_u32 m @ xs)) = (Some m, (reader_of (w_u32 m @ xs))\<lparr>rd_offset := 4\<rparr>)"
    using reads_run [OF reads_u32, of m xs] by simp
  then show ?thesis using assms unfolding read_head_def
    by (auto simp: rd_bind_def rd_return_def split: prod.splits option.splits)
qed

lemma scan_wrong_magic:
  assumes "drop offset bs = w_u32 m @ xs" "length xs \<ge> 24" "m \<noteq> record_magic"
  shows "\<exists>r. scan_record bs offset chain expected report = Inl r \<and> requires_rebuild r
    \<and> rr_fresh r = rr_fresh report"
proof (cases "fst (read_head (reader_of (w_u32 m @ xs)))")
  case None
  then show ?thesis using assms
    by (auto simp: scan_record_def scan_stop_def Let_def requires_rebuild_def flag_torn_def)
next
  case (Some h)
  then show ?thesis using assms head_magic_first [OF Some]
    by (auto simp: scan_record_def scan_stop_def Let_def requires_rebuild_def flag_torn_def flag_integrity_def)
qed

lemma upt_four: "[0..<4] = [0, 1, 2, 3 :: nat]"
  by (simp add: upt_rec)

lemma magic_bytes: "w_u32 record_magic = [0x43, 0x49, 0x46, 0x52]" "w_u32 0x46494343 = [0x43, 0x43, 0x49, 0x46]"
  by (simp_all add: w_u32_def record_magic_def upt_four)

lemma frame_magic: "\<exists>xs. frame e c = 0x43 # 0x49 # 0x46 # 0x52 # xs \<and> length xs \<ge> 24"
  by (simp add: frame_def Let_def record_header_flat magic_bytes)

lemma first_header_byte: "take 1 (record_header k s p c) = [0x43]" "record_header k s p c \<noteq> []"
  by (simp_all add: record_header_flat magic_bytes)

lemma short_append:
  assumes "journal_holds j es" "\<not> should_compact j" "j_io j = [Some 1]" "entry_ok e"
    "journal_append e durable j = (st, e', j')"
  shows "\<not> ok st \<and> j' = j\<lparr>j_io := [], j_file := Some (file_header @ log_frames 0 es @ [0x43])\<rparr>"
proof -
  have H: "j_open j" "j_file j = Some (file_header @ log_frames 0 es)" using assms(1) by (simp_all add: journal_holds_def)
  have k: "kind_of (je_payload e) \<noteq> 0" "\<not> kMaxJournalRecordBytes < length (encode_entry e)"
    using assms(4) kind_positive by (auto simp: entry_ok_def)
  have "write_exact (record_header k s p c) j = (status_error ScIoFailure ''short write to journal'',
      j\<lparr>j_io := [], j_file := Some (file_header @ log_frames 0 es @ [0x43])\<rparr>)" for k s p c
    using H assms(3) first_header_byte [of k s p c] length_header
    by (simp add: write_exact_def next_io_def file_bytes_def)
  then show ?thesis using assms(2,5) H(1) k
    by (auto simp: journal_append_def write_record_def Let_def cif_try_def encode_entry_def)
qed

lemma append_on_torn:
  assumes "j_open j" "j_file j = Some f" "j_io j = []" "\<not> should_compact j" "entry_ok e"
    "journal_append e durable j = (st, e', j')"
  shows "ok st \<and> j_file j' = Some (f @ frame e' (j_chain j))"
proof -
  define b where "b = e\<lparr>je_sequence := j_last_sequence j\<rparr>"
  have b: "write_record b durable j = (st, j')" "e' = b"
    using assms(4,6) by (auto simp: journal_append_def Let_def b_def split: prod.splits)
  have okb: "entry_ok b" using assms(5) by (simp add: entry_ok_def b_def encode_entry_def)
  have k: "kind_of (je_payload b) \<noteq> 0" "\<not> kMaxJournalRecordBytes < length (encode_entry b)"
    using okb kind_positive by (auto simp: entry_ok_def)
  have ok: "ok st" using b(1) assms(1,3) k
    by (auto simp: write_record_def Let_def write_exact_def next_io_def sync_file_def platform_call_def
        cif_try_def split: if_splits)
  show ?thesis
    by (rule write_record_cases [OF assms(1,2) entry_ok_framed [OF okb] b(1)]) (use ok b(2) in simp_all)
qed


lemma fresh_holds: "journal_holds \<lparr>j_open = True, j_file = Some file_header, j_byte_count = 32,
    j_record_count = 0, j_last_sequence = 0, j_chain = 0, j_io = io\<rparr> []"
  by (simp add: journal_holds_def chain_after_def length_file_header)


end
