(* ===== verification/Sink.thy ===== *)
theory Sink
  imports Journal "HOL-Library.Sublist"
begin

text \<open>
  Where durable transitions go (the sinks of \<^verbatim>\<open>include/cif/authority.hpp\<close> and
  \<^verbatim>\<open>src/authority.cpp\<close>): the in-memory sink, which only counts, and the journal-backed
  sink. A \<^verbatim>\<open>DurabilitySink*\<close> of the code is a value of the type \<open>sink\<close>. The locale states
  what the authority relies on; it is interpreted on each sink and on their sum.
\<close>

section \<open>The two sinks\<close>

definition null_append :: "entry \<Rightarrow> bool \<Rightarrow> u64 \<Rightarrow> status \<times> entry \<times> u64" where
  "null_append e durable n =
     (if kind_of (je_payload e) = 0 then
        (status_error ScInvalidArgument ''cannot record an INVALID transition'', e, n)
      else (success, e\<lparr>je_sequence := n\<rparr>, n + 1))"

definition null_compact :: "entry \<Rightarrow> u64 \<Rightarrow> status \<times> u64" where
  "null_compact e n =
     (if kind_of (je_payload e) \<noteq> 1 then
        (status_error ScInvalidArgument ''compaction requires a SNAPSHOT record'', n)
      else (success, 1))"

definition journal_sink_append :: "entry \<Rightarrow> bool \<Rightarrow> journal \<Rightarrow> status \<times> entry \<times> journal" where
  "journal_sink_append e durable j =
     (if \<not> j_open j then (status_error ScClosed ''journal is not open'', e, j)
      else journal_append e durable j)"

definition journal_sink_compact :: "entry \<Rightarrow> journal \<Rightarrow> status \<times> journal" where
  "journal_sink_compact e j =
     (if \<not> j_open j then (status_error ScClosed ''journal is not open'', j) else journal_compact e j)"

datatype sink = NullSink u64 | JournalSink journal

primrec sink_append :: "entry \<Rightarrow> bool \<Rightarrow> sink \<Rightarrow> status \<times> entry \<times> sink" where
  "sink_append e durable (NullSink n) =
     (case null_append e durable n of (st, e', n') \<Rightarrow> (st, e', NullSink n'))"
| "sink_append e durable (JournalSink j) =
     (case journal_sink_append e durable j of (st, e', j') \<Rightarrow> (st, e', JournalSink j'))"

primrec sink_compact :: "entry \<Rightarrow> sink \<Rightarrow> status \<times> sink" where
  "sink_compact e (NullSink n) = (case null_compact e n of (st, n') \<Rightarrow> (st, NullSink n'))"
| "sink_compact e (JournalSink j) = (case journal_sink_compact e j of (st, j') \<Rightarrow> (st, JournalSink j'))"

primrec sink_durable :: "sink \<Rightarrow> bool" where
  "sink_durable (NullSink _) = False"
| "sink_durable (JournalSink _) = True"

primrec sink_should_compact :: "sink \<Rightarrow> bool" where
  "sink_should_compact (NullSink _) = False"
| "sink_should_compact (JournalSink j) = (j_open j \<and> should_compact j)"

text \<open>The position the next record gets.\<close>

primrec sink_position :: "sink \<Rightarrow> u64" where
  "sink_position (NullSink n) = n"
| "sink_position (JournalSink j) = j_last_sequence j"

section \<open>The contract of a sink\<close>

text \<open>An accepted entry is stamped with the current position and moves it by one; a refused one
  leaves the position; neither changes what the entry says.\<close>

locale durability_sink =
  fixes append :: "entry \<Rightarrow> bool \<Rightarrow> 's \<Rightarrow> status \<times> entry \<times> 's"
    and position :: "'s \<Rightarrow> u64"
  assumes stamped: "append e d s = (st, e', s') \<Longrightarrow> ok st \<Longrightarrow> je_sequence e' = position s"
    and moved: "append e d s = (st, e', s') \<Longrightarrow> position s' = (if ok st then position s + 1 else position s)"
    and payload_kept: "append e d s = (st, e', s') \<Longrightarrow> je_payload e' = je_payload e \<and> je_tick e' = je_tick e"
    and invalid_refused: "append e d s = (st, e', s') \<Longrightarrow> ok st \<Longrightarrow> je_payload e \<noteq> JInvalid"
begin

fun append_run :: "(entry \<times> bool) list \<Rightarrow> 's \<Rightarrow> entry list \<times> 's" where
  "append_run [] s = ([], s)"
| "append_run ((e, d) # es) s = (case append e d s of (st, e', s') \<Rightarrow>
     (case append_run es s' of (acked, s'') \<Rightarrow> (if ok st then e' # acked else acked, s'')))"

text \<open>However many appends fail in between, the accepted records carry consecutive positions.\<close>

lemma append_run_positions:
  "append_run es s = (acked, s') \<Longrightarrow>
   map je_sequence acked = map (\<lambda>i. position s + of_nat i) [0..<length acked]
   \<and> position s' = position s + of_nat (length acked)"
proof (induction es arbitrary: s acked s')
  case (Cons x es)
  obtain e d where x: "x = (e, d)" by fastforce
  obtain st e1 s1 where a: "append e d s = (st, e1, s1)" by (metis prod_cases3)
  obtain rest s2 where r: "append_run es s1 = (rest, s2)" by fastforce
  note ih = Cons.IH [OF r]
  show ?case
  proof (cases "ok st")
    case True
    then have "acked = e1 # rest" "s' = s2" using Cons.prems x a r by simp_all
    then show ?thesis using ih stamped [OF a True] moved [OF a] True
      by (simp add: map_upt_Suc ac_simps del: upt_Suc)
  next
    case False
    then show ?thesis using Cons.prems x a r ih moved [OF a] by simp
  qed
qed simp

lemma append_run_payloads:
  "append_run es s = (acked, s') \<Longrightarrow> subseq (map je_payload acked) (map (je_payload \<circ> fst) es)"
proof (induction es arbitrary: s acked s')
  case (Cons x es)
  obtain e d where x: "x = (e, d)" by fastforce
  obtain st e1 s1 where a: "append e d s = (st, e1, s1)" by (metis prod_cases3)
  obtain rest s2 where r: "append_run es s1 = (rest, s2)" by fastforce
  show ?case using Cons.prems x a r Cons.IH [OF r] payload_kept [OF a] by (auto split: if_splits)
qed simp

end

lemma write_record_position:
  assumes "write_record e d j = (st, j')"
  shows "j_last_sequence j' = (if ok st then je_sequence e + 1 else j_last_sequence j)"
proof -
  have w: "write_exact data j = (s, k) \<Longrightarrow> j_last_sequence k = j_last_sequence j" for data j s k
    by (auto simp: write_exact_def next_io_def split: list.splits option.splits prod.splits if_splits)
  have p: "sync_file j = (s, k) \<Longrightarrow> j_last_sequence k = j_last_sequence j" for j s k
    by (auto simp: sync_file_def platform_call_def next_io_def split: list.splits option.splits prod.splits)
  show ?thesis using assms
    by (auto simp: write_record_def Let_def cif_try_def split: if_splits prod.splits dest!: w p)
qed

lemma journal_append_position:
  assumes "journal_append e d j = (st, e', j')"
  shows "(ok st \<longrightarrow> je_sequence e' = j_last_sequence j)
    \<and> j_last_sequence j' = (if ok st then j_last_sequence j + 1 else j_last_sequence j)
    \<and> je_payload e' = je_payload e \<and> je_tick e' = je_tick e \<and> (ok st \<longrightarrow> je_payload e \<noteq> JInvalid)"
proof (cases "should_compact j")
  case False
  let ?e = "e\<lparr>je_sequence := j_last_sequence j\<rparr>"
  obtain s k where w: "write_record ?e d j = (s, k)" by fastforce
  then have r: "st = s" "e' = ?e" "j' = k" using assms False by (simp_all add: journal_append_def Let_def)
  have "je_payload e \<noteq> JInvalid" if "ok s"
    using w that by (auto simp: write_record_def split: if_splits)
  then show ?thesis using write_record_position [OF w] r by auto
qed (use assms in \<open>auto simp: journal_append_def\<close>)

interpretation null_sink: durability_sink null_append id
  by unfold_locales (auto simp: null_append_def split: if_splits)

interpretation journal_sink: durability_sink journal_sink_append j_last_sequence
  by unfold_locales (auto simp: journal_sink_append_def split: if_splits dest: journal_append_position)

lemma sink_append_cases:
  assumes "sink_append e d s = (st, e', s')"
  obtains (null) n n' where "s = NullSink n" "s' = NullSink n'" "null_append e d n = (st, e', n')"
    | (journal) j j' where "s = JournalSink j" "s' = JournalSink j'" "journal_sink_append e d j = (st, e', j')"
  using assms by (cases s) (auto split: prod.splits)

interpretation any_sink: durability_sink sink_append sink_position
proof
  fix e d s st e' s' assume a: "sink_append e d s = (st, e', s')"
  show "sink_position s' = (if ok st then sink_position s + 1 else sink_position s)"
    using a by (cases rule: sink_append_cases)
      (use null_sink.moved journal_sink.moved in fastforce)+
  show "je_payload e' = je_payload e \<and> je_tick e' = je_tick e"
    using a by (cases rule: sink_append_cases)
      (use null_sink.payload_kept journal_sink.payload_kept in fastforce)+
  assume o: "ok st"
  show "je_sequence e' = sink_position s"
    using a by (cases rule: sink_append_cases)
      (use o null_sink.stamped journal_sink.stamped in fastforce)+
  show "je_payload e \<noteq> JInvalid"
    using a by (cases rule: sink_append_cases)
      (use o null_sink.invalid_refused journal_sink.invalid_refused in fastforce)+
qed

text \<open>The in-memory sink refuses nothing the authority writes.\<close>

lemma null_accepts: "je_payload e \<noteq> JInvalid \<Longrightarrow> sink_append e d (NullSink n) = (success, e\<lparr>je_sequence := n\<rparr>, NullSink (n + 1))"
  by (cases "je_payload e") (simp_all add: null_append_def)

end
