(* ===== verification/Authority.thy ===== *)
theory Authority
  imports Sink Journal_Scan Model_Codec
begin

text \<open>
  The state of the controller and the pieces every operation uses
  (\<^verbatim>\<open>AuthorityCore\<close> of \<^verbatim>\<open>include/cif/authority.hpp\<close> and \<^verbatim>\<open>src/authority.cpp\<close>):
  capability markers, the state record, journalling through the sink, the grant and
  attempt tables, capacity accounting, the audit ring, identifier minting, the state
  digest with its cache, and the construction of decisions.

  Two simplifications of representation: \<^verbatim>\<open>sink_\<close> is the attached sink itself, and a
  pointer into the grant or attempt table is an index or a copy of the entry. The
  digest caches, which the code declares \<^verbatim>\<open>mutable\<close>, are ordinary fields, so computing a
  digest returns a new state.
\<close>

section \<open>Helpers\<close>

definition kMaxExplanationBytes :: nat where "kMaxExplanationBytes = 8192"
definition kMaxHistoryEntries :: nat where "kMaxHistoryEntries = 8192"

definition hardware_markers :: "string list" where
  "hardware_markers = [''rdma'', ''roce'', ''infiniband'', ''ib-fabric'', ''nvlink'', ''nvswitch'', ''cuda'',
     ''pcie'', ''optical'', ''asic'', ''switch'', ''serdes'', ''lane'', ''nic'',
     ''dpu'', ''phy'', ''transceiver'', ''fabric-hardware'', ''qos-hw'']"

definition inter_cluster_markers :: "string list" where
  "inter_cluster_markers = [''inter-cluster'', ''intercluster'', ''cross-cluster'', ''wan'', ''site-to-site'']"

definition lower_char :: "char \<Rightarrow> char" where
  "lower_char c = (if c \<ge> CHR ''A'' \<and> c \<le> CHR ''Z'' then char_of (of_char c + 32 :: nat) else c)"

definition occurs_in :: "string \<Rightarrow> string \<Rightarrow> bool" where
  "occurs_in pat s = list_ex (\<lambda>i. take (length pat) (drop i s) = pat) [0..<length s + 1]"

definition contains_marker :: "string \<Rightarrow> string list \<Rightarrow> bool" where
  "contains_marker s markers = (let lowered = map lower_char s in list_ex (\<lambda>m. occurs_in m lowered) markers)"

definition is_hardware_capability :: "string \<Rightarrow> bool" where
  "is_hardware_capability c = contains_marker c hardware_markers"

definition is_inter_cluster_capability :: "string \<Rightarrow> bool" where
  "is_inter_cluster_capability c = contains_marker c inter_cluster_markers"

text \<open>The decimal number an identifier ends in, saturated at the top of the range.\<close>

fun serial_loop :: "string \<Rightarrow> u64 \<Rightarrow> u64" where
  "serial_loop [] v = v"
| "serial_loop (c # cs) v =
     (if v > (u64_max - digit_value c) div 10 then u64_max else serial_loop cs (v * 10 + digit_value c))"

definition serial_suffix :: "string \<Rightarrow> u64" where
  "serial_suffix i = serial_loop (rev (takeWhile is_digit (rev i))) 0"

definition append_bounded :: "string \<Rightarrow> string \<Rightarrow> string" where
  "append_bounded target s =
     (if length target \<ge> kMaxExplanationBytes then target
      else target @ take (kMaxExplanationBytes - length target) s)"

definition render_reason :: "reason \<Rightarrow> string" where
  "render_reason r = reason_code_to_string (rs_code r) @
     (if rs_detail r = [] then [] else ''('' @ sanitise_for_display (rs_detail r) kMaxReasonDetailBytes @ '')'')"

fun render_reason_list :: "reason list \<Rightarrow> string" where
  "render_reason_list [] = []"
| "render_reason_list [r] = render_reason r"
| "render_reason_list (r # rs) = render_reason r @ '', '' @ render_reason_list rs"

definition render_reasons :: "reason list \<Rightarrow> string" where
  "render_reasons rs = (let out = render_reason_list rs in if out = [] then ''NONE'' else out)"

definition build_explanation :: "decision \<Rightarrow> string" where
  "build_explanation d = foldl append_bounded []
     ([outcome_to_string (dc_outcome d), '' request='', dc_request_id d, '' attempt='', dc_attempt_id d,
       '' reasons='', render_reasons (dc_reasons d)]
      @ (case dc_grant d of None \<Rightarrow> []
         | Some g \<Rightarrow> ['' grant='', gr_grant_id g, '' grant_state='', grant_state_to_string (gr_state g)]))"

definition outcome_for_status :: "status \<Rightarrow> authority_outcome" where
  "outcome_for_status st =
     (if st_code st = ScUnsupported \<or> st_code st = ScVersionMismatch then OutUnsupported else OutInvalid)"

definition reason_for_status :: "status \<Rightarrow> reason_code" where
  "reason_for_status st =
     (if st_code st = ScLimitExceeded \<or> st_code st = ScCapacityExhausted then RcLimitExceeded
      else if st_code st = ScUnsupported \<or> st_code st = ScVersionMismatch then RcUnsupportedCapability
      else RcMalformedRequest)"

definition mk_reason :: "reason_code \<Rightarrow> string \<Rightarrow> reason" where
  "mk_reason c d = \<lparr>rs_code = c, rs_detail = d\<rparr>"

section \<open>State\<close>

datatype recovery_policy = RevalidateAcknowledged | FenceAll

record options =
  op_require_member_digests :: bool
  op_require_path_binding :: bool
  op_reject_unknown_capabilities :: bool
  op_enforce_capacity :: bool
  op_default_lease_ticks :: u64
  op_max_lease_ticks :: u64
  op_audit_history :: nat
  op_recovery_policy :: recovery_policy
  op_durable :: bool
  op_decision_state_digest :: bool

definition default_options :: options where
  "default_options = \<lparr>op_require_member_digests = True, op_require_path_binding = True,
     op_reject_unknown_capabilities = True, op_enforce_capacity = True, op_default_lease_ticks = 4096,
     op_max_lease_ticks = kMaxLeaseTicks, op_audit_history = kMaxHistoryEntries,
     op_recovery_policy = RevalidateAcknowledged, op_durable = True, op_decision_state_digest = True\<rparr>"

record audit_entry =
  ad_sequence :: u64
  ad_tick :: u64
  ad_operation :: string
  ad_request_id :: string
  ad_attempt_id :: string
  ad_grant_id :: string
  ad_outcome :: authority_outcome
  ad_reason :: reason_code
  ad_detail :: string

record authority =
  au_options :: options
  au_sink :: sink
  au_cached_state_digest :: bytes
  au_state_digest_valid :: bool
  au_spec :: spec
  au_contracts :: contract_set
  au_grants :: "grant list"
  au_attempts :: "attempt list"
  au_counters :: counters
  au_recovery :: recovery_report
  au_audit :: "audit_entry list"
  au_initialized :: bool
  au_grant_serial :: u64
  au_lease_serial :: u64
  au_request_digest :: bytes

definition clamp_options :: "options \<Rightarrow> options" where
  "clamp_options p =
     (let p1 = (if op_max_lease_ticks p = 0 \<or> op_max_lease_ticks p > kMaxLeaseTicks
                then p\<lparr>op_max_lease_ticks := kMaxLeaseTicks\<rparr> else p) in
      if op_audit_history p1 = 0 \<or> op_audit_history p1 > kMaxHistoryEntries
      then p1\<lparr>op_audit_history := kMaxHistoryEntries\<rparr> else p1)"

definition new_authority :: "options \<Rightarrow> authority" where
  "new_authority p = \<lparr>au_options = clamp_options p, au_sink = NullSink 0, au_cached_state_digest = digest_zero,
     au_state_digest_valid = False, au_spec = empty_spec, au_contracts = empty_contract_set, au_grants = [],
     au_attempts = [], au_counters = zero_counters, au_recovery = empty_report, au_audit = [],
     au_initialized = False, au_grant_serial = 0, au_lease_serial = 0, au_request_digest = digest_zero\<rparr>"

definition attach_sink :: "sink \<Rightarrow> authority \<Rightarrow> authority" where
  "attach_sink s a = a\<lparr>au_sink := s\<rparr>"

definition clear_state :: "authority \<Rightarrow> authority" where
  "clear_state a = a\<lparr>au_spec := empty_spec, au_contracts := contracts_clear (au_contracts a), au_grants := [],
     au_attempts := [], au_counters := zero_counters, au_recovery := empty_report, au_audit := [],
     au_grant_serial := 0, au_lease_serial := 0, au_state_digest_valid := False\<rparr>"

definition reset :: "options \<Rightarrow> authority \<Rightarrow> authority" where
  "reset p a = (clear_state a)\<lparr>au_options := clamp_options p, au_initialized := False\<rparr>"

section \<open>Journalling\<close>

definition journal_entry :: "payload \<Rightarrow> bool \<Rightarrow> authority \<Rightarrow> status \<times> u64 \<times> authority" where
  "journal_entry p durable a =
     (case sink_append \<lparr>je_payload = p, je_sequence = 0, je_tick = sp_tick (au_spec a)\<rparr>
             (durable \<and> op_durable (au_options a)) (au_sink a) of
        (st, e, s) \<Rightarrow> (st, je_sequence e, a\<lparr>au_sink := s\<rparr>))"

definition journal_put :: "payload \<Rightarrow> authority \<Rightarrow> status \<times> authority" where
  "journal_put p a = (case journal_entry p True a of (st, _, a') \<Rightarrow> (st, a'))"

definition grant_mark_of :: "grant \<Rightarrow> grant_state \<Rightarrow> grant_mark" where
  "grant_mark_of g s = \<lparr>gm_grant = g, gm_grant_state = s, gm_referenced_sequence = 0\<rparr>"

section \<open>Tables\<close>

definition upsert_grant :: "grant \<Rightarrow> authority \<Rightarrow> status \<times> authority" where
  "upsert_grant g a =
     (let slot = lower_bound_index gr_grant_id (au_grants a) (gr_grant_id g) in
      if present_at gr_grant_id (au_grants a) (gr_grant_id g) slot then
        (success, a\<lparr>au_grants := (au_grants a)[slot := g], au_state_digest_valid := False\<rparr>)
      else if length (au_grants a) \<ge> kMaxGrants then
        (status_error ScCapacityExhausted ''grant table is full'', a)
      else (success, a\<lparr>au_grants := insert_at slot g (au_grants a), au_state_digest_valid := False\<rparr>))"

definition upsert_attempt :: "attempt \<Rightarrow> authority \<Rightarrow> status \<times> authority" where
  "upsert_attempt t a =
     (let slot = lower_bound_index at_attempt_id (au_attempts a) (at_attempt_id t) in
      if present_at at_attempt_id (au_attempts a) (at_attempt_id t) slot then
        (success, a\<lparr>au_attempts := (au_attempts a)[slot := t], au_state_digest_valid := False\<rparr>)
      else if length (au_attempts a) \<ge> kMaxAttempts then
        (status_error ScCapacityExhausted ''attempt table is full'', a)
      else (success, a\<lparr>au_attempts := insert_at slot t (au_attempts a), au_state_digest_valid := False\<rparr>))"

definition mutable_grant :: "authority \<Rightarrow> string \<Rightarrow> nat option" where
  "mutable_grant a i = find_index gr_grant_id (au_grants a) i"

definition find_grant :: "authority \<Rightarrow> string \<Rightarrow> grant option" where
  "find_grant a i = find_sorted gr_grant_id (au_grants a) i"

definition mutable_attempt :: "authority \<Rightarrow> string \<Rightarrow> nat option" where
  "mutable_attempt a i = find_index at_attempt_id (au_attempts a) i"

definition find_attempt :: "authority \<Rightarrow> string \<Rightarrow> attempt option" where
  "find_attempt a i = find_sorted at_attempt_id (au_attempts a) i"

section \<open>Accounting\<close>

text \<open>The loops add up with \<^verbatim>\<open>checked_add\<close> and answer the largest value on overflow.\<close>

fun add_units :: "u64 list \<Rightarrow> u64 \<Rightarrow> u64" where
  "add_units [] acc = acc"
| "add_units (u # us) acc = (case checked_add acc u of None \<Rightarrow> u64_max | Some n \<Rightarrow> add_units us n)"

definition units_of :: "(grant \<Rightarrow> bool) \<Rightarrow> grant list \<Rightarrow> u64" where
  "units_of sel gs = add_units (map gr_capacity_units (filter sel gs)) 0"

definition reserved_units :: "authority \<Rightarrow> string \<Rightarrow> u64" where
  "reserved_units a r = units_of (\<lambda>g. gr_resource_id g = r \<and> holds_capacity (gr_state g)) (au_grants a)"

definition path_committed_units :: "authority \<Rightarrow> string \<Rightarrow> u64" where
  "path_committed_units a p = units_of (\<lambda>g. gr_path_id g = p \<and> holds_capacity (gr_state g)) (au_grants a)"

definition quarantined_units :: "authority \<Rightarrow> u64" where
  "quarantined_units a = units_of (\<lambda>g. is_quarantined (gr_state g)) (au_grants a)"

definition live_grants_for_path :: "authority \<Rightarrow> string \<Rightarrow> grant list" where
  "live_grants_for_path a p = filter (\<lambda>g. gr_path_id g = p \<and> holds_capacity (gr_state g)) (au_grants a)"

definition live_grants_for_service :: "authority \<Rightarrow> string \<Rightarrow> grant list" where
  "live_grants_for_service a s =
     filter (\<lambda>g. gr_destination_service g = s \<and> holds_capacity (gr_state g)) (au_grants a)"

section \<open>Audit and minting\<close>

definition record_audit :: "string \<Rightarrow> string \<Rightarrow> string \<Rightarrow> string \<Rightarrow> authority_outcome \<Rightarrow> reason_code \<Rightarrow> string
    \<Rightarrow> authority \<Rightarrow> authority" where
  "record_audit op request attempt grant_id out reason detail a =
     (let e = \<lparr>ad_sequence = co_decisions (au_counters a), ad_tick = sp_tick (au_spec a), ad_operation = op,
               ad_request_id = request, ad_attempt_id = attempt, ad_grant_id = grant_id, ad_outcome = out,
               ad_reason = reason, ad_detail = sanitise_for_display detail kMaxReasonDetailBytes\<rparr>;
          ring = au_audit a @ [e]
      in a\<lparr>au_audit := drop (length ring - op_audit_history (au_options a)) ring\<rparr>)"

definition mint_grant_id :: "authority \<Rightarrow> string \<times> authority" where
  "mint_grant_id a =
     (let n = au_grant_serial a + 1 in
      (''g-'' @ to_decimal n,
       a\<lparr>au_grant_serial := n,
         au_counters := (au_counters a)\<lparr>co_grants := max (co_grants (au_counters a)) n\<rparr>\<rparr>))"

definition mint_lease_id :: "authority \<Rightarrow> string \<times> authority" where
  "mint_lease_id a =
     (let n = au_lease_serial a + 1 in
      (''l-'' @ to_decimal n,
       a\<lparr>au_lease_serial := n,
         au_counters := (au_counters a)\<lparr>co_leases := max (co_leases (au_counters a)) n\<rparr>\<rparr>))"

section \<open>Digests\<close>

definition controller_identity_of :: "authority \<Rightarrow> controller_identity" where
  "controller_identity_of a =
     \<lparr>ci_cluster = sp_cluster_id (au_spec a), ci_generation = sp_generation (au_spec a),
      ci_epoch = sp_epoch (au_spec a), ci_policy = sp_policy_generation (au_spec a),
      ci_incarnation = sp_incarnation (au_spec a)\<rparr>"

definition state_digest :: "authority \<Rightarrow> bytes \<times> authority" where
  "state_digest a =
     (if au_state_digest_valid a then (au_cached_state_digest a, a)
      else case spec_digest (au_spec a) of (sd, sp) \<Rightarrow>
           case contracts_digest (au_contracts a) of (cd, cs) \<Rightarrow>
           let d = canonical_digest ''cif.authority.state.v2''
                (w_raw sd @ w_raw cd
                 @ w_count (length (au_grants a)) @ concat (map encode_grant (au_grants a))
                 @ w_count (length (au_attempts a)) @ concat (map encode_attempt (au_attempts a))
                 @ w_u64 (au_grant_serial a) @ w_u64 (au_lease_serial a))
           in (d, a\<lparr>au_spec := sp, au_contracts := cs, au_cached_state_digest := d,
                    au_state_digest_valid := True\<rparr>))"

definition live_state_digest :: "authority \<Rightarrow> bytes" where
  "live_state_digest a = canonical_digest ''cif.authority.live.v1''
     (concat (map encode_grant (filter (\<lambda>g. holds_capacity (gr_state g)) (au_grants a))))"

section \<open>Decisions\<close>

definition finalize_decision :: "string \<Rightarrow> decision \<Rightarrow> authority \<Rightarrow> decision \<times> authority" where
  "finalize_decision op d a =
     (let d1 = d\<lparr>dc_explanation := build_explanation d\<rparr>;
          d2 = d1\<lparr>dc_decision_digest := compute_digest d1\<rparr>;
          gid = (case dc_grant d2 of None \<Rightarrow> [] | Some g \<Rightarrow> gr_grant_id g)
      in (d2, record_audit op (dc_request_id d2) (dc_attempt_id d2) gid (dc_outcome d2) (primary_reason d2)
                (case dc_reasons d2 of [] \<Rightarrow> [] | r # _ \<Rightarrow> rs_detail r) a))"

text \<open>The coordinate of the controller, written into a decision.\<close>

definition coordinates :: "string \<Rightarrow> string \<Rightarrow> authority_outcome \<Rightarrow> reason list \<Rightarrow> authority
    \<Rightarrow> decision \<times> authority" where
  "coordinates request attempt out reasons a =
     (case spec_digest (au_spec a) of (sd, sp) \<Rightarrow>
        let a1 = a\<lparr>au_spec := sp\<rparr> in
        case (if op_decision_state_digest (au_options a) then state_digest a1 else (digest_zero, a1)) of (td, a2) \<Rightarrow>
        (empty_decision\<lparr>dc_request_id := request, dc_attempt_id := attempt, dc_outcome := out,
           dc_reasons := reasons, dc_cluster_id := sp_cluster_id sp, dc_cluster_generation := sp_generation sp,
           dc_epoch := sp_epoch sp, dc_policy_generation := sp_policy_generation sp,
           dc_incarnation := sp_incarnation sp, dc_spec_digest := sd, dc_state_digest := td,
           dc_decided_at := sp_tick sp\<rparr>, a2))"

definition count_decision :: "authority \<Rightarrow> authority" where
  "count_decision a = a\<lparr>au_counters := (au_counters a)\<lparr>co_decisions := co_decisions (au_counters a) + 1\<rparr>\<rparr>"

definition make_decision :: "string \<Rightarrow> string \<Rightarrow> authority_outcome \<Rightarrow> reason list \<Rightarrow> authority
    \<Rightarrow> decision \<times> authority" where
  "make_decision request attempt out reasons a =
     (case coordinates request attempt out reasons a of (d, a1) \<Rightarrow>
        let a2 = count_decision a1 in
        (d\<lparr>dc_decision_sequence := co_decisions (au_counters a2)\<rparr>, a2))"

definition malformed_decision :: "string \<Rightarrow> string \<Rightarrow> status \<Rightarrow> authority \<Rightarrow> decision \<times> authority" where
  "malformed_decision request attempt st a =
     (case coordinates request attempt (outcome_for_status st) [mk_reason (reason_for_status st) (st_message st)] a
      of (d, a1) \<Rightarrow>
        let d1 = d\<lparr>dc_explanation := build_explanation d\<rparr> in
        (d1\<lparr>dc_decision_digest := compute_digest d1\<rparr>, a1))"

text \<open>The pattern of most answers: build the decision, adjust it, finalize it.\<close>

definition answer :: "string \<Rightarrow> string \<Rightarrow> string \<Rightarrow> authority_outcome \<Rightarrow> reason list \<Rightarrow> (decision \<Rightarrow> decision)
    \<Rightarrow> authority \<Rightarrow> decision \<times> authority" where
  "answer op request attempt out reasons adjust a =
     (case make_decision request attempt out reasons a of (d, a1) \<Rightarrow> finalize_decision op (adjust d) a1)"

end
