(* ===== verification/Authority_Ops.thy ===== *)
theory Authority_Ops
  imports Authority
begin

text \<open>
  What changes the controller's state without being asked for authority
  (\<^verbatim>\<open>src/authority.cpp\<close>): ending a grant, fencing, expiry, the revalidation of live grants,
  the mutations of the specification, initialisation, recovery after a restart, snapshots
  and compaction. Every operation answers a status together with the state it leaves,
  also when it fails.
\<close>

section \<open>Ending a grant\<close>

definition add_reduction :: "reason_code \<Rightarrow> string \<Rightarrow> grant \<Rightarrow> grant" where
  "add_reduction c d g =
     (if list_ex (\<lambda>r. rs_code r = c) (gr_reductions g) \<or> length (gr_reductions g) \<ge> kMaxReasons then g
      else g\<lparr>gr_reductions := gr_reductions g @ [mk_reason c d]\<rparr>)"

definition set_grant :: "nat \<Rightarrow> grant \<Rightarrow> authority \<Rightarrow> authority" where
  "set_grant i g a = a\<lparr>au_grants := (au_grants a)[i := g], au_state_digest_valid := False\<rparr>"

definition count_ended :: "grant_state \<Rightarrow> counters \<Rightarrow> counters" where
  "count_ended s c = c\<lparr>co_releases := co_releases c + (if s = GsReleased then 1 else 0),
     co_expiries := co_expiries c + (if s = GsExpired then 1 else 0),
     co_fences := co_fences c + (if s = GsFenced \<or> s = GsRevoked then 1 else 0)\<rparr>"

definition ended_grant :: "grant_state \<Rightarrow> reason_code \<Rightarrow> string \<Rightarrow> bool \<Rightarrow> grant \<Rightarrow> grant" where
  "ended_grant s rc detail release_capacity g =
     (let u = g\<lparr>gr_state := s,
                gr_capacity_reserved := (if release_capacity then False else gr_capacity_reserved g)\<rparr>
      in if rc = RcNone then u else add_reduction rc detail u)"

definition terminate_grant :: "nat \<Rightarrow> grant_state \<Rightarrow> reason_code \<Rightarrow> string \<Rightarrow> bool \<Rightarrow> authority
    \<Rightarrow> status \<times> authority" where
  "terminate_grant i s rc detail release_capacity a =
     (let u = ended_grant s rc detail release_capacity (au_grants a ! i) in
      case journal_entry (JGrantTerminal (grant_mark_of u s)) True a of (st, sequence, a1) \<Rightarrow>
        if \<not> ok st then (st, a1)
        else
          let a2 = (if release_capacity then a1\<lparr>au_counters := count_ended s (au_counters a1)\<rparr> else a1)
          in (success, set_grant i (u\<lparr>gr_release_sequence := sequence\<rparr>) a2))"

text \<open>A loop over the grants that may fail part way.\<close>

fun each_grant :: "(nat \<Rightarrow> authority \<Rightarrow> status \<times> authority) \<Rightarrow> nat list \<Rightarrow> authority \<Rightarrow> status \<times> authority" where
  "each_grant f [] a = (success, a)"
| "each_grant f (i # is) a = cif_try (f i a) (each_grant f is)"

definition all_grants :: "authority \<Rightarrow> nat list" where
  "all_grants a = [0..<length (au_grants a)]"

definition count_fence :: "authority \<Rightarrow> authority" where
  "count_fence a = a\<lparr>au_counters := (au_counters a)\<lparr>co_fences := co_fences (au_counters a) + 1\<rparr>\<rparr>"

definition stale_digest :: "authority \<Rightarrow> authority" where
  "stale_digest a = a\<lparr>au_state_digest_valid := False\<rparr>"

definition fence_all :: "reason_code \<Rightarrow> string \<Rightarrow> authority \<Rightarrow> status \<times> authority" where
  "fence_all rc detail a =
     cif_try
       (each_grant (\<lambda>i a. if \<not> holds_capacity (gr_state (au_grants a ! i)) then (success, a)
                          else terminate_grant i GsFenced rc detail True a) (all_grants a) a)
       (\<lambda>a. (success, stale_digest (count_fence a)))"

definition expire_grant :: "u64 \<Rightarrow> nat \<Rightarrow> authority \<Rightarrow> status \<times> authority" where
  "expire_grant now i a =
     (let g = au_grants a ! i in
      if \<not> is_live (gr_state g) \<or> \<not> expired_at g now then (success, a)
      else
        cif_try (terminate_grant i GsExpired RcLeaseExpired (''lease elapsed at tick '' @ to_decimal now) True a)
          (\<lambda>a. let base = (case find_attempt a (gr_attempt_id g) of None \<Rightarrow> empty_attempt | Some t \<Rightarrow> t);
                   expired = base\<lparr>at_attempt_id := gr_attempt_id g, at_grant_id := gr_grant_id g,
                                  at_lease_id := gr_lease_id g, at_primary_reason := RcLeaseExpired\<rparr>
               in cif_try (journal_put (JAttemptTerminal expired) a) (upsert_attempt expired)))"

definition expire_leases :: "authority \<Rightarrow> status \<times> authority" where
  "expire_leases a =
     cif_try (each_grant (expire_grant (sp_tick (au_spec a))) (all_grants a) a)
       (\<lambda>a. (success, stale_digest a))"

section \<open>Revalidation\<close>

definition first_guard :: "(bool \<times> 'x) list \<Rightarrow> 'x option" where
  "first_guard gs = map_option snd (find fst gs)"

definition member_obstacle :: "grant \<Rightarrow> member \<Rightarrow> member \<Rightarrow> (reason_code \<times> string) option" where
  "member_obstacle g s d = first_guard
     [(\<not> lifecycle_present (mb_lifecycle s) \<or> \<not> lifecycle_present (mb_lifecycle d),
         RcMemberDeleted, ''a member named by this grant was retired''),
      (mb_generation s \<noteq> gr_source_member_generation g \<or> mb_generation d \<noteq> gr_destination_member_generation g,
         RcMemberGenerationStale, ''a member was replaced: generation moved past this grant''),
      (\<not> digest_is_zero (mb_digest s) \<and> mb_digest s \<noteq> gr_source_member_digest g,
         RcMemberDigestMismatch, ''source member digest changed under this grant''),
      (\<not> digest_is_zero (mb_digest d) \<and> mb_digest d \<noteq> gr_destination_member_digest g,
         RcMemberDigestMismatch, ''destination member digest changed under this grant'')]"

definition path_obstacle :: "grant \<Rightarrow> path \<Rightarrow> (reason_code \<times> string) option" where
  "path_obstacle g p = first_guard
     [(pt_generation p \<noteq> gr_path_generation g,
         RcPathGenerationStale, ''the bound path was re-declared at a new generation''),
      (pt_state p = PsDown \<or> pt_state p = PsUnknown,
         RcPathNotOperational, ''path is '' @ path_state_to_string (pt_state p)),
      (gr_capacity_units g > pt_capacity_units p,
         RcCapacityInsufficient, ''path capacity shrank below this grant's reservation'')]"

text \<open>Why the grant can no longer stand, or the members and contract it stands on.\<close>

definition standing :: "authority \<Rightarrow> grant \<Rightarrow> (reason_code \<times> string) + (member \<times> member \<times> contract)" where
  "standing a g =
     (case (find_member (au_spec a) (gr_source_member g), find_member (au_spec a) (gr_destination_member g)) of
        (Some s, Some d) \<Rightarrow>
          (case member_obstacle g s d of
             Some x \<Rightarrow> Inl x
           | None \<Rightarrow>
             (case find_path (au_spec a) (gr_path_id g) of
                None \<Rightarrow> Inl (RcPathNotFound, ''the bound path no longer exists'')
              | Some p \<Rightarrow>
                (case path_obstacle g p of
                   Some x \<Rightarrow> Inl x
                 | None \<Rightarrow>
                   (case contracts_find (au_contracts a) (gr_contract_id g) of
                      None \<Rightarrow> Inl (RcContractNotFound, ''the contract this grant was issued under no longer exists'')
                    | Some c \<Rightarrow> Inr (s, d, c)))))
      | _ \<Rightarrow> Inl (RcMemberNotFound, ''a member named by this grant no longer exists''))"

datatype participation = Participates | Degrades reason_code | Revokes reason_code

primrec participation_of :: "contract \<Rightarrow> member_lifecycle \<Rightarrow> participation" where
  "participation_of c LcActive = Participates"
| "participation_of c LcEnlisted = Revokes RcMemberNotActive"
| "participation_of c LcDraining =
     (if ct_allow_draining c then Degrades RcDegradedByMemberState else Revokes RcMemberDraining)"
| "participation_of c LcMaintenance =
     (if ct_maintenance_mode c = MmAllow then Participates
      else if ct_maintenance_mode c = MmDegrade then Degrades RcDegradedByMaintenance
      else Revokes RcMemberMaintenance)"
| "participation_of c LcFaulted =
     (if ct_allow_faulted c then Degrades RcDegradedByMemberState else Revokes RcMemberFaulted)"
| "participation_of c LcPartitioned =
     (if ct_allow_partitioned c then Degrades RcDegradedByMemberState else Revokes RcMemberPartitioned)"
| "participation_of c LcRemoved = Revokes RcMemberDeleted"

definition member_detail :: "member \<Rightarrow> string" where
  "member_detail m = ''member '' @ mb_id m @ '' is '' @ lifecycle_to_string (mb_lifecycle m)"

fun degrade_for :: "contract \<Rightarrow> member list \<Rightarrow> grant \<Rightarrow> (reason_code \<times> string) + grant" where
  "degrade_for c [] g = Inr g"
| "degrade_for c (m # ms) g =
     (case participation_of c (mb_lifecycle m) of
        Participates \<Rightarrow> degrade_for c ms g
      | Revokes rc \<Rightarrow> Inl (rc, member_detail m)
      | Degrades rc \<Rightarrow>
          degrade_for c ms ((add_reduction rc (member_detail m) g)\<lparr>gr_degraded := True, gr_outcome := OutDegraded\<rparr>))"

definition reissued :: "spec \<Rightarrow> grant \<Rightarrow> grant" where
  "reissued sp g = g\<lparr>gr_epoch := sp_epoch sp, gr_incarnation := sp_incarnation sp,
     gr_policy_generation := sp_policy_generation sp, gr_cluster_generation := sp_generation sp,
     gr_commit := CsCommitted, gr_state := GsCommitted, gr_capacity_reserved := holds_capacity GsCommitted\<rparr>"

definition revalidate_grant :: "nat \<Rightarrow> bool \<Rightarrow> authority \<Rightarrow> status \<times> authority" where
  "revalidate_grant i allow_reissue a =
     (let g = au_grants a ! i in
      case standing a g of
        Inl (rc, detail) \<Rightarrow> terminate_grant i GsRevoked rc detail True a
      | Inr (s, d, c) \<Rightarrow>
        (case degrade_for c [s, d] g of
           Inl (rc, detail) \<Rightarrow> terminate_grant i GsRevoked rc detail True a
         | Inr u \<Rightarrow>
           let state_changed = (gr_degraded u \<noteq> gr_degraded g
                                \<or> length (gr_reductions u) \<noteq> length (gr_reductions g)) in
           if \<not> state_changed \<and> \<not> allow_reissue then (success, a)
           else
             let u1 = (if allow_reissue then reissued (au_spec a) u else u) in
             case journal_entry (JGrantCommitted (grant_mark_of u1 (gr_state u1))) True a of (st, sequence, a1) \<Rightarrow>
               if \<not> ok st then (st, a1)
               else (success, set_grant i (if allow_reissue then u1\<lparr>gr_commit_sequence := sequence\<rparr> else u1) a1)))"

definition revalidate_live_grants :: "authority \<Rightarrow> status \<times> authority" where
  "revalidate_live_grants a =
     each_grant (\<lambda>i a. if \<not> is_live (gr_state (au_grants a ! i)) then (success, a)
                       else revalidate_grant i True a) (all_grants a) a"

section \<open>Mutations of the specification\<close>

text \<open>All of them write the record first, then change the specification or the contracts.\<close>

definition change_spec :: "(spec \<Rightarrow> status \<times> spec) \<Rightarrow> authority \<Rightarrow> status \<times> authority" where
  "change_spec f a = (case f (au_spec a) of (st, sp) \<Rightarrow> (st, a\<lparr>au_spec := sp\<rparr>))"

definition change_contracts :: "(contract_set \<Rightarrow> status \<times> contract_set) \<Rightarrow> authority \<Rightarrow> status \<times> authority" where
  "change_contracts f a = (case f (au_contracts a) of (st, cs) \<Rightarrow> (st, a\<lparr>au_contracts := cs\<rparr>))"

definition journaled_change :: "payload \<Rightarrow> (authority \<Rightarrow> status \<times> authority) \<Rightarrow> authority \<Rightarrow> status \<times> authority" where
  "journaled_change p f a =
     cif_try (journal_put p a) (\<lambda>a. cif_try (f a) (\<lambda>a. (success, stale_digest a)))"

definition au_upsert_member :: "member \<Rightarrow> authority \<Rightarrow> status \<times> authority" where
  "au_upsert_member m a =
     cif_try (journaled_change (JMemberUpsert m) (change_spec (upsert_member m)) a) revalidate_live_grants"

definition au_remove_member :: "string \<Rightarrow> authority \<Rightarrow> status \<times> authority" where
  "au_remove_member i a =
     cif_try (journaled_change (JMemberRemove i) (change_spec (remove_member i)) a) revalidate_live_grants"

definition au_set_member_lifecycle :: "string \<Rightarrow> member_lifecycle \<Rightarrow> authority \<Rightarrow> status \<times> authority" where
  "au_set_member_lifecycle i l a =
     cif_try (journaled_change (JMemberLifecycle i l)
       (\<lambda>a. change_spec (set_member_lifecycle i l (sp_tick (au_spec a))) a) a) (\<lambda>a.
     cif_try (revalidate_live_grants a) (\<lambda>a.
       (success, if l = LcPartitioned \<or> l = LcFaulted then count_fence a else a)))"

definition au_upsert_path :: "path \<Rightarrow> authority \<Rightarrow> status \<times> authority" where
  "au_upsert_path p a =
     cif_try (journaled_change (JPathUpsert p) (change_spec (upsert_path p)) a) revalidate_live_grants"

definition au_remove_path :: "string \<Rightarrow> authority \<Rightarrow> status \<times> authority" where
  "au_remove_path i a =
     cif_try (journaled_change (JPathRemove i) (change_spec (remove_path i)) a) revalidate_live_grants"

definition au_set_path_state :: "string \<Rightarrow> path_state \<Rightarrow> authority \<Rightarrow> status \<times> authority" where
  "au_set_path_state i s a =
     cif_try (journaled_change (JPathState i s) (change_spec (set_path_state i s)) a) revalidate_live_grants"

definition au_upsert_exclusion :: "exclusion \<Rightarrow> authority \<Rightarrow> status \<times> authority" where
  "au_upsert_exclusion x = journaled_change (JExclusionUpsert x) (change_spec (upsert_exclusion x))"

definition au_remove_exclusion :: "string \<Rightarrow> authority \<Rightarrow> status \<times> authority" where
  "au_remove_exclusion i = journaled_change (JExclusionRemove i) (change_spec (remove_exclusion i))"

definition au_upsert_obligation :: "obligation \<Rightarrow> authority \<Rightarrow> status \<times> authority" where
  "au_upsert_obligation x = journaled_change (JObligationUpsert x) (change_spec (upsert_obligation x))"

definition au_remove_obligation :: "string \<Rightarrow> authority \<Rightarrow> status \<times> authority" where
  "au_remove_obligation i = journaled_change (JObligationRemove i) (change_spec (remove_obligation i))"

definition au_upsert_contract :: "contract \<Rightarrow> authority \<Rightarrow> status \<times> authority" where
  "au_upsert_contract c = journaled_change (JContractUpsert c) (change_contracts (contracts_upsert c))"

definition au_remove_contract :: "string \<Rightarrow> authority \<Rightarrow> status \<times> authority" where
  "au_remove_contract i = journaled_change (JContractRemove i) (change_contracts (contracts_remove i))"

definition au_set_policy_generation :: "u64 \<Rightarrow> authority \<Rightarrow> status \<times> authority" where
  "au_set_policy_generation p a =
     (if p < sp_policy_generation (au_spec a) then
        (status_error ScStateMismatch ''policy generation must not move backwards; policy is append-only'', a)
      else journaled_change (JPolicySet p) (change_spec (\<lambda>s. (success, set_policy_generation p s))) a)"

definition au_advance_tick :: "u64 \<Rightarrow> authority \<Rightarrow> status \<times> authority" where
  "au_advance_tick t a =
     (if t < sp_tick (au_spec a) then
        (status_error ScStateMismatch ''the logical clock must not move backwards'', a)
      else if t = sp_tick (au_spec a) then (success, a)
      else (success, stale_digest (a\<lparr>au_spec := set_tick t (au_spec a)\<rparr>)))"

section \<open>Initialisation\<close>

definition au_mark :: "authority \<Rightarrow> controller_mark" where
  "au_mark a = \<lparr>cm_cluster_id = sp_cluster_id (au_spec a), cm_cluster_generation = sp_generation (au_spec a),
     cm_epoch = sp_epoch (au_spec a), cm_policy_generation = sp_policy_generation (au_spec a),
     cm_incarnation = sp_incarnation (au_spec a)\<rparr>"

definition initialize :: "string \<Rightarrow> bytes \<Rightarrow> u64 \<Rightarrow> u64 \<Rightarrow> sink option \<Rightarrow> authority \<Rightarrow> status \<times> authority" where
  "initialize cluster inc policy t new_sink a =
     (if cluster = [] then (status_error ScInvalidArgument ''cluster id must not be empty'', a)
      else
        let a0 = clear_state (case new_sink of None \<Rightarrow> a | Some s \<Rightarrow> attach_sink s a) in
        cif_try (change_spec (set_cluster_id cluster) a0) (\<lambda>a.
        let a1 = a\<lparr>au_spec := set_tick t (set_incarnation inc (au_spec a))\<rparr> in
        cif_try (journal_put (JSetController \<lparr>cm_cluster_id = cluster, cm_cluster_generation = 0, cm_epoch = 0,
                   cm_policy_generation = policy, cm_incarnation = inc\<rparr>) a1) (\<lambda>a.
        cif_try (change_spec (\<lambda>s. begin_epoch inc policy (set_policy_generation policy s)) a) (\<lambda>a.
        cif_try (journal_put (JEpochBegin ((au_mark a)\<lparr>cm_cluster_id := cluster, cm_incarnation := inc\<rparr>)) a) (\<lambda>a.
        (success, a\<lparr>au_initialized := True,
           au_recovery := (au_recovery a)\<lparr>rr_fresh := True,
             rr_detail := ''controller initialised with fresh state''\<rparr>,
           au_state_digest_valid := False\<rparr>))))))"

section \<open>Recovery\<close>

text \<open>
  What becomes of one recovered grant: a prepare without a commit is released, an
  unacknowledged commit is quarantined, an acknowledged one is revalidated and
  re-issued. Failures to write the records are ignored, as in the code.
\<close>

definition attempt_of_grant :: "authority \<Rightarrow> grant \<Rightarrow> authority_outcome \<Rightarrow> reason_code \<Rightarrow> attempt" where
  "attempt_of_grant a g out rc =
     (case find_attempt a (gr_attempt_id g) of None \<Rightarrow> empty_attempt | Some t \<Rightarrow> t)
       \<lparr>at_attempt_id := gr_attempt_id g, at_grant_id := gr_grant_id g, at_lease_id := gr_lease_id g,
        at_outcome := out, at_primary_reason := rc\<rparr>"

definition record_attempt :: "attempt \<Rightarrow> authority \<Rightarrow> authority" where
  "record_attempt t a = snd (upsert_attempt t (snd (journal_put (JAttemptTerminal t) a)))"

definition recover_prepared :: "nat \<Rightarrow> authority \<Rightarrow> authority" where
  "recover_prepared i a =
     (let g = au_grants a ! i;
          g1 = g\<lparr>gr_state := GsReleased, gr_capacity_reserved := False, gr_release_sequence := 0,
                 gr_commit := CsPrepared,
                 gr_reductions := gr_reductions g
                   @ [mk_reason RcCommitNotDurable ''controller restarted before the commit record'']\<rparr>;
          t = (attempt_of_grant a g OutRefused RcCommitNotDurable)\<lparr>at_terminal_tick := sp_tick (au_spec a)\<rparr>;
          a1 = snd (terminate_grant i GsReleased RcCommitNotDurable
                      ''recovered prepare without a durable commit'' False
                      (a\<lparr>au_grants := (au_grants a)[i := g1]\<rparr>))
      in record_attempt t a1)"

definition recover_unacknowledged :: "nat \<Rightarrow> authority \<Rightarrow> authority" where
  "recover_unacknowledged i a =
     (let g = au_grants a ! i;
          g1 = g\<lparr>gr_state := GsAmbiguous, gr_commit := CsAmbiguous,
                 gr_capacity_reserved := holds_capacity GsAmbiguous,
                 gr_reductions := gr_reductions g @ [mk_reason RcCommitAmbiguous
                   ''durable commit without a recorded acknowledgement; caller must reconcile'']\<rparr>;
          t = attempt_of_grant a g OutIndeterminate RcCommitAmbiguous;
          a1 = snd (journal_put (JGrantTerminal (grant_mark_of g1 GsAmbiguous))
                      (a\<lparr>au_grants := (au_grants a)[i := g1]\<rparr>))
      in record_attempt t a1)"

definition recover_grant :: "nat \<Rightarrow> authority \<Rightarrow> authority" where
  "recover_grant i a =
     (let g = au_grants a ! i in
      if \<not> is_live (gr_state g) then a
      else if gr_commit g = CsPrepared then recover_prepared i a
      else if \<not> (gr_acknowledged g \<or> gr_state g = GsAcknowledged)
              \<or> op_recovery_policy (au_options a) = FenceAll then recover_unacknowledged i a
      else snd (revalidate_grant i True a))"

definition repaired_attempt :: "u64 \<Rightarrow> grant \<Rightarrow> attempt" where
  "repaired_attempt now g =
     (let t = empty_attempt\<lparr>at_attempt_id := gr_attempt_id g, at_grant_id := gr_grant_id g,
                at_lease_id := gr_lease_id g, at_first_seen := now, at_terminal_tick := now,
                at_request_digest := digest_zero\<rparr>;
          first_reason = (\<lambda>rc. case gr_reductions g of [] \<Rightarrow> rc | r # _ \<Rightarrow> rs_code r)
      in case gr_state g of
           GsAmbiguous \<Rightarrow> t\<lparr>at_outcome := OutIndeterminate, at_primary_reason := RcCommitAmbiguous\<rparr>
         | GsReleased \<Rightarrow> t\<lparr>at_outcome := OutRefused, at_released := True,
                           at_primary_reason := first_reason RcCommitNotDurable\<rparr>
         | GsExpired \<Rightarrow> t\<lparr>at_outcome := OutRefused, at_primary_reason := RcGrantExpired\<rparr>
         | GsFenced \<Rightarrow> t\<lparr>at_outcome := OutFenced, at_primary_reason := first_reason RcGrantFenced\<rparr>
         | GsRevoked \<Rightarrow> t\<lparr>at_outcome := OutFenced, at_primary_reason := first_reason RcGrantFenced\<rparr>
         | GsPrepared \<Rightarrow> t\<lparr>at_outcome := OutRefused, at_released := True,
                           at_primary_reason := RcCommitNotDurable\<rparr>
         | GsCommitted \<Rightarrow> t\<lparr>at_outcome := gr_outcome g, at_primary_reason := RcCommitDurable\<rparr>
         | GsAcknowledged \<Rightarrow> t\<lparr>at_outcome := gr_outcome g, at_primary_reason := RcCommitDurable\<rparr>
         | GsSuperseded \<Rightarrow> t\<lparr>at_outcome := OutRefused, at_primary_reason := RcGrantAlreadyReleased\<rparr>)"

definition reconcile_grant :: "grant \<Rightarrow> authority \<Rightarrow> authority" where
  "reconcile_grant g a =
     (if gr_attempt_id g = [] \<or> find_attempt a (gr_attempt_id g) \<noteq> None then a
      else record_attempt (repaired_attempt (sp_tick (au_spec a)) g) a)"

definition reconcile_attempts :: "authority \<Rightarrow> authority" where
  "reconcile_attempts a = fold reconcile_grant (au_grants a) a"

definition apply_recovery_policy :: "authority \<Rightarrow> authority" where
  "apply_recovery_policy a = reconcile_attempts (count_fence (fold recover_grant (all_grants a) a))"

definition adopt :: "spec \<Rightarrow> contract_set \<Rightarrow> grant list \<Rightarrow> attempt list \<Rightarrow> counters \<Rightarrow> recovery_report
    \<Rightarrow> authority \<Rightarrow> authority" where
  "adopt sp cs gs ts co rep a =
     a\<lparr>au_spec := sp, au_contracts := cs, au_grants := sort_key gr_grant_id gs,
       au_attempts := sort_key at_attempt_id ts, au_counters := co,
       au_recovery := rep\<lparr>rr_records_applied := rr_records_read rep, rr_fresh := False\<rparr>,
       au_audit := [], au_state_digest_valid := False\<rparr>"

definition adopt_serials :: "authority \<Rightarrow> authority" where
  "adopt_serials a =
     (let gs = fold (\<lambda>g n. max n (serial_suffix (gr_grant_id g))) (au_grants a) 0;
          ls = fold (\<lambda>g n. max n (serial_suffix (gr_lease_id g))) (au_grants a) 0;
          co = au_counters a
      in a\<lparr>au_grant_serial := gs, au_lease_serial := ls,
           au_counters := co\<lparr>co_grants := max (co_grants co) gs, co_leases := max (co_leases co) ls,
                             co_recoveries := co_recoveries co + 1\<rparr>\<rparr>)"

definition recover :: "spec \<Rightarrow> contract_set \<Rightarrow> grant list \<Rightarrow> attempt list \<Rightarrow> counters \<Rightarrow> recovery_report
    \<Rightarrow> bytes \<Rightarrow> u64 \<Rightarrow> authority \<Rightarrow> status \<times> authority" where
  "recover sp cs gs ts co rep inc t a =
     (let a0 = adopt sp cs gs ts co rep a in
      if sp_cluster_id sp = [] then (status_error ScCorruption ''recovered state has no cluster identity'', a0)
      else
        let a1 = adopt_serials a0;
            a2 = a1\<lparr>au_spec := set_tick (if t > sp_tick (au_spec a1) then t else sp_tick (au_spec a1)) (au_spec a1)\<rparr>
        in cif_try (change_spec (\<lambda>s. begin_epoch inc (sp_policy_generation s) s) a2) (\<lambda>a.
           cif_try (journal_put (JEpochBegin ((au_mark a)\<lparr>cm_incarnation := inc\<rparr>)) a) (\<lambda>a.
           (success, (apply_recovery_policy a)\<lparr>au_initialized := True, au_state_digest_valid := False\<rparr>))))"

section \<open>Snapshots and compaction\<close>

definition make_snapshot :: "authority \<Rightarrow> entry" where
  "make_snapshot a =
     \<lparr>je_payload = JSnapshot \<lparr>sn_spec = au_spec a, sn_contracts = au_contracts a, sn_grants = au_grants a,
        sn_attempts = au_attempts a, sn_counters = au_counters a\<rparr>,
      je_sequence = 0, je_tick = sp_tick (au_spec a)\<rparr>"

definition maybe_compact :: "authority \<Rightarrow> status \<times> authority" where
  "maybe_compact a =
     (if \<not> sink_should_compact (au_sink a) then (success, a)
      else case sink_compact (make_snapshot a) (au_sink a) of (st, s) \<Rightarrow>
        cif_try (st, a\<lparr>au_sink := s\<rparr>) (\<lambda>a.
          let a1 = a\<lparr>au_counters := (au_counters a)\<lparr>co_compactions := co_compactions (au_counters a) + 1\<rparr>\<rparr> in
          case journal_entry (JCountersSync (au_counters a1)) False a1 of (st, _, a2) \<Rightarrow> (st, a2)))"

end
