(* ===== verification/Eligibility.thy ===== *)
theory Eligibility
  imports Authority_Ops
begin

text \<open>
  Whether a request may be granted (\<^verbatim>\<open>AuthorityCore::select_path\<close> and
  \<^verbatim>\<open>AuthorityCore::evaluate\<close> of \<^verbatim>\<open>src/authority.cpp\<close>). The evaluation reads the state and
  changes nothing. Its stages follow the code; a stage answers \<open>Inl\<close> for an early return
  with the result as it stands and \<open>Inr\<close> to go on. A chain of guards that each return is a
  list of them, of which the first that holds decides.
\<close>

section \<open>Results\<close>

record eligibility =
  el_outcome :: authority_outcome
  el_reasons :: "reason list"
  el_degradations :: "reason list"
  el_source_member :: "member option"
  el_destination_member :: "member option"
  el_path :: "path option"
  el_contract :: "contract option"
  el_resource :: "resource option"
  el_authorised_units :: u64
  el_distinct_failure_domains :: u32
  el_obligation_reason :: reason_code
  el_obligation_detail :: string

type_synonym stage = "eligibility + eligibility"

definition start_eligibility :: "contract \<Rightarrow> eligibility" where
  "start_eligibility c = \<lparr>el_outcome = OutGranted, el_reasons = [], el_degradations = [],
     el_source_member = None, el_destination_member = None, el_path = None, el_contract = Some c,
     el_resource = None, el_authorised_units = 0, el_distinct_failure_domains = 0,
     el_obligation_reason = RcNone, el_obligation_detail = []\<rparr>"

definition hard_fail :: "reason_code \<Rightarrow> string \<Rightarrow> authority_outcome \<Rightarrow> eligibility \<Rightarrow> eligibility" where
  "hard_fail c detail out r = r\<lparr>el_outcome := out,
     el_reasons := (if length (el_reasons r) < kMaxReasons then el_reasons r @ [mk_reason c detail]
                    else el_reasons r)\<rparr>"

definition degrade :: "reason_code \<Rightarrow> string \<Rightarrow> eligibility \<Rightarrow> eligibility" where
  "degrade c detail r = r\<lparr>el_degradations := el_degradations r @ [mk_reason c detail]\<rparr>"

definition stage_bind :: "stage \<Rightarrow> (eligibility \<Rightarrow> stage) \<Rightarrow> stage" where
  "stage_bind m k = (case m of Inl r \<Rightarrow> Inl r | Inr r \<Rightarrow> k r)"

definition stage_result :: "stage \<Rightarrow> eligibility" where
  "stage_result m = (case m of Inl r \<Rightarrow> r | Inr r \<Rightarrow> r)"

type_synonym guard = "bool \<times> reason_code \<times> string \<times> authority_outcome"

definition check :: "guard list \<Rightarrow> eligibility \<Rightarrow> stage" where
  "check gs r = (case first_guard gs of None \<Rightarrow> Inr r | Some (c, detail, out) \<Rightarrow> Inl (hard_fail c detail out r))"

section \<open>Members\<close>

definition member_guards :: "options \<Rightarrow> authority_request \<Rightarrow> contract \<Rightarrow> member \<Rightarrow> member \<Rightarrow> guard list" where
  "member_guards p q c s d =
     [(lifecycle_terminal (mb_lifecycle s), RcMemberDeleted, ''source member is retired'', OutRefused),
      (lifecycle_terminal (mb_lifecycle d), RcMemberDeleted, ''destination member is retired'', OutRefused),
      (rq_source_member_generation q < mb_generation s, RcMemberGenerationStale,
         ''source member is at generation '' @ to_decimal (mb_generation s) @ '', request claims ''
           @ to_decimal (rq_source_member_generation q), OutFenced),
      (rq_source_member_generation q > mb_generation s, RcMemberGenerationAhead,
         ''source member generation is ahead of this controller'', OutFenced),
      (rq_destination_member_generation q < mb_generation d, RcMemberGenerationStale,
         ''destination member is at generation '' @ to_decimal (mb_generation d) @ '', request claims ''
           @ to_decimal (rq_destination_member_generation q), OutFenced),
      (rq_destination_member_generation q > mb_generation d, RcMemberGenerationAhead,
         ''destination member generation is ahead of this controller'', OutFenced),
      (op_require_member_digests p \<and> \<not> has_member_digests q, RcMemberDigestMissing,
         (if digest_is_zero (rq_source_member_digest q) then ''source member digest was not supplied''
          else ''destination member digest was not supplied''), OutIncomplete),
      (\<not> digest_is_zero (mb_digest s) \<and> rq_source_member_digest q \<noteq> mb_digest s, RcMemberDigestMismatch,
         ''source member digest does not match the declared member'', OutFenced),
      (\<not> digest_is_zero (mb_digest d) \<and> rq_destination_member_digest q \<noteq> mb_digest d, RcMemberDigestMismatch,
         ''destination member digest does not match the declared member'', OutFenced),
      (rq_source_endpoint q \<noteq> [] \<and> find_endpoint s (rq_source_endpoint q) = None, RcEndpointNotFound,
         ''source endpoint '' @ rq_source_endpoint q @ '' is not declared on '' @ mb_id s, OutUnknown),
      (rq_destination_endpoint q \<noteq> [] \<and> find_endpoint d (rq_destination_endpoint q) = None, RcEndpointNotFound,
         ''destination endpoint '' @ rq_destination_endpoint q @ '' is not declared on '' @ mb_id d, OutUnknown),
      (\<not> serves s (ct_source_service c), RcServiceGroupNotServed,
         ''source member does not serve service group '' @ ct_source_service c, OutRefused),
      (\<not> serves d (ct_destination_service c), RcServiceGroupNotServed,
         ''destination member does not serve service group '' @ ct_destination_service c, OutRefused)]"

primrec lifecycle_ok_for :: "member_lifecycle \<Rightarrow> contract \<Rightarrow> string \<Rightarrow> eligibility \<Rightarrow> stage" where
  "lifecycle_ok_for LcActive c role r = Inr r"
| "lifecycle_ok_for LcDraining c role r =
     (if ct_allow_draining c then Inr (degrade RcDegradedByMemberState (role @ '' member is draining'') r)
      else Inl (hard_fail RcMemberDraining (role @ '' member is draining'') OutRefused r))"
| "lifecycle_ok_for LcMaintenance c role r =
     (if ct_maintenance_mode c = MmAllow then Inr r
      else if ct_maintenance_mode c = MmDegrade then
        Inr (degrade RcDegradedByMaintenance (role @ '' member is in maintenance'') r)
      else Inl (hard_fail RcMemberMaintenance (role @ '' member is in maintenance'') OutRefused r))"
| "lifecycle_ok_for LcFaulted c role r =
     (if ct_allow_faulted c then Inr (degrade RcDegradedByMemberState (role @ '' member is faulted'') r)
      else Inl (hard_fail RcMemberFaulted (role @ '' member is faulted'') OutRefused r))"
| "lifecycle_ok_for LcPartitioned c role r =
     (if ct_allow_partitioned c then Inr (degrade RcDegradedByMemberState (role @ '' member is partitioned'') r)
      else Inl (hard_fail RcMemberPartitioned (role @ '' member is partitioned'') OutRefused r))"
| "lifecycle_ok_for LcEnlisted c role r =
     Inl (hard_fail RcMemberNotActive (role @ '' member is not active'') OutRefused r)"
| "lifecycle_ok_for LcRemoved c role r =
     Inl (hard_fail RcMemberDeleted (role @ '' member is retired'') OutRefused r)"

definition member_exclusion :: "spec \<Rightarrow> member \<Rightarrow> eligibility \<Rightarrow> stage" where
  "member_exclusion sp m r =
     (case exclusion_for_member sp m of
        None \<Rightarrow> Inr r
      | Some x \<Rightarrow>
          if ex_mode x = MmAllow then Inr r
          else if ex_mode x = MmDegrade then
            Inr (degrade RcDegradedByMaintenance (''maintenance exclusion '' @ ex_id x @ '' covers '' @ mb_id m) r)
          else Inl (hard_fail RcMaintenanceExclusionActive
                 (''maintenance exclusion '' @ ex_id x @ '' refuses new authority for '' @ mb_id m) OutRefused r))"

section \<open>Path\<close>

definition better_path :: "path option \<Rightarrow> path \<Rightarrow> path option" where
  "better_path best p = (case best of None \<Rightarrow> Some p | Some b \<Rightarrow> if pt_id p < pt_id b then Some p else Some b)"

definition path_suits :: "authority_request \<Rightarrow> path \<Rightarrow> bool" where
  "path_suits q p = (pt_source_member p = rq_source_member q \<and> pt_destination_member p = rq_destination_member q
     \<and> \<not> (pt_state p = PsDown \<or> pt_state p = PsUnknown)
     \<and> \<not> (rq_source_endpoint q \<noteq> [] \<and> pt_source_endpoint p \<noteq> [] \<and> pt_source_endpoint p \<noteq> rq_source_endpoint q)
     \<and> \<not> (rq_destination_endpoint q \<noteq> [] \<and> pt_destination_endpoint p \<noteq> []
           \<and> pt_destination_endpoint p \<noteq> rq_destination_endpoint q))"

definition select_path :: "spec \<Rightarrow> authority_request \<Rightarrow> path option" where
  "select_path sp q = foldl (\<lambda>best p. if path_suits q p then better_path best p else best) None (sp_paths sp)"

definition named_path_guards :: "authority_request \<Rightarrow> path \<Rightarrow> guard list" where
  "named_path_guards q p =
     [(rq_path_generation q \<noteq> pt_generation p, RcPathGenerationStale,
         ''path is at generation '' @ to_decimal (pt_generation p) @ '', request claims ''
           @ to_decimal (rq_path_generation q), OutStale),
      (pt_source_member p \<noteq> rq_source_member q \<or> pt_destination_member p \<noteq> rq_destination_member q,
         RcContractUnsatisfied, ''the named path does not join the requested members'', OutRefused),
      (rq_source_endpoint q \<noteq> [] \<and> pt_source_endpoint p \<noteq> [] \<and> pt_source_endpoint p \<noteq> rq_source_endpoint q,
         RcContractUnsatisfied, ''the named path starts at a different endpoint'', OutRefused),
      (rq_destination_endpoint q \<noteq> [] \<and> pt_destination_endpoint p \<noteq> []
         \<and> pt_destination_endpoint p \<noteq> rq_destination_endpoint q,
         RcContractUnsatisfied, ''the named path ends at a different endpoint'', OutRefused)]"

definition choose_path :: "authority \<Rightarrow> authority_request \<Rightarrow> eligibility \<Rightarrow> stage" where
  "choose_path a q r =
     (if rq_path_id q \<noteq> [] then
        (case find_path (au_spec a) (rq_path_id q) of
           None \<Rightarrow> Inl (hard_fail RcPathNotFound (''path '' @ rq_path_id q @ '' is not declared'') OutUnknown r)
         | Some p \<Rightarrow> stage_bind (check (named_path_guards q p) r) (\<lambda>r. Inr (r\<lparr>el_path := Some p\<rparr>)))
      else if op_require_path_binding (au_options a) then
        (case select_path (au_spec a) q of
           None \<Rightarrow> Inl (hard_fail RcNoEligiblePath ''no operational path joins the requested members'' OutRefused r)
         | Some p \<Rightarrow> Inr (r\<lparr>el_path := Some p\<rparr>))
      else Inr (r\<lparr>el_path := None\<rparr>))"

primrec path_state_ok :: "path_state \<Rightarrow> contract \<Rightarrow> path \<Rightarrow> eligibility \<Rightarrow> stage" where
  "path_state_ok PsOperational c p r = Inr r"
| "path_state_ok PsDegraded c p r =
     Inr (degrade RcDegradedByRedundancyLoss (''path '' @ pt_id p @ '' is declared degraded'') r)"
| "path_state_ok PsMaintenance c p r =
     (if ct_maintenance_mode c = MmAllow then Inr r
      else if ct_maintenance_mode c = MmDegrade then
        Inr (degrade RcDegradedByMaintenance (''path '' @ pt_id p @ '' is in maintenance'') r)
      else Inl (hard_fail RcPathNotOperational (''path '' @ pt_id p @ '' is in maintenance'') OutRefused r))"
| "path_state_ok PsDown c p r =
     Inl (hard_fail RcPathNotOperational (''path '' @ pt_id p @ '' is '' @ path_state_to_string (pt_state p)) OutRefused r)"
| "path_state_ok PsUnknown c p r =
     Inl (hard_fail RcPathNotOperational (''path '' @ pt_id p @ '' is '' @ path_state_to_string (pt_state p)) OutRefused r)"

definition path_exclusion :: "spec \<Rightarrow> path \<Rightarrow> eligibility \<Rightarrow> stage" where
  "path_exclusion sp p r =
     (case exclusion_for_path sp p of
        None \<Rightarrow> Inr r
      | Some x \<Rightarrow>
          if ex_mode x = MmRefuse then
            Inl (hard_fail RcMaintenanceExclusionActive
              (''maintenance exclusion '' @ ex_id x @ '' refuses new authority for path '' @ pt_id p) OutRefused r)
          else if ex_mode x = MmDegrade then
            Inr (degrade RcDegradedByMaintenance (''maintenance exclusion '' @ ex_id x @ '' covers path '' @ pt_id p) r)
          else Inr r)"

definition examine_path :: "spec \<Rightarrow> contract \<Rightarrow> eligibility \<Rightarrow> stage" where
  "examine_path sp c r =
     (case el_path r of
        None \<Rightarrow> Inr r
      | Some p \<Rightarrow> stage_bind (path_state_ok (pt_state p) c p r) (path_exclusion sp p))"

section \<open>Failure domains\<close>

definition check_locality :: "contract \<Rightarrow> member \<Rightarrow> member \<Rightarrow> eligibility \<Rightarrow> stage" where
  "check_locality c s d r =
     (let level = unat (ct_failure_domain_level c);
          distinct_domains = (if domain_key (mb_locality s) level = domain_key (mb_locality d) level then 1 else 2);
          r1 = r\<lparr>el_distinct_failure_domains := distinct_domains\<rparr>
      in check [(ct_min_distinct_failure_domains c > distinct_domains, RcLocalityConstraintViolated,
           ''contract requires '' @ to_decimal (ucast (ct_min_distinct_failure_domains c))
             @ '' distinct failure domains at level '' @ to_decimal (of_nat level)
             @ '' but source and destination share one'', OutRefused)] r1)"

section \<open>Capacity\<close>

text \<open>What other grants hold: a renewal does not count the grant it renews.\<close>

definition renews :: "authority_request \<Rightarrow> grant \<Rightarrow> bool" where
  "renews q g = (rq_renewal q \<and> rq_renewal_of q \<noteq> [] \<and> gr_grant_id g = rq_renewal_of q)"

definition committed_on_path :: "authority \<Rightarrow> authority_request \<Rightarrow> string \<Rightarrow> u64" where
  "committed_on_path a q p =
     units_of (\<lambda>g. gr_path_id g = p \<and> holds_capacity (gr_state g) \<and> \<not> renews q g) (au_grants a)"

definition reserved_on_resource :: "authority \<Rightarrow> authority_request \<Rightarrow> string \<Rightarrow> u64" where
  "reserved_on_resource a q i =
     units_of (\<lambda>g. gr_resource_id g = i \<and> holds_capacity (gr_state g) \<and> \<not> renews q g) (au_grants a)"

definition wanted_units :: "authority_request \<Rightarrow> contract \<Rightarrow> u64" where
  "wanted_units q c = (if rq_requested_units q = 0 then ct_min_capacity_units c else rq_requested_units q)"

definition size_request :: "authority_request \<Rightarrow> contract \<Rightarrow> eligibility \<Rightarrow> stage" where
  "size_request q c r =
     (let want = wanted_units q c;
          over = (ct_max_capacity_units c \<noteq> 0 \<and> want > ct_max_capacity_units c);
          r1 = (if over then degrade RcDegradedByCapacity
                  (''contract ceilings capacity at '' @ to_decimal (ct_max_capacity_units c) @ '' units'') r else r);
          want1 = (if over then ct_max_capacity_units c else want)
      in stage_bind
           (check [(want1 < ct_min_capacity_units c, RcCapacityInsufficient,
              ''requested '' @ to_decimal want1 @ '' units but the contract requires at least ''
                @ to_decimal (ct_min_capacity_units c), OutRefused)] r1)
           (\<lambda>r. Inr (r\<lparr>el_authorised_units := want1\<rparr>)))"

definition available_units :: "u64 \<Rightarrow> u64 \<Rightarrow> u64" where
  "available_units capacity committed = (if capacity > committed then capacity - committed else 0)"

text \<open>Fit the authorised units into what is free, shrinking them where both sides allow it.\<close>

definition fit_units :: "authority_request \<Rightarrow> contract \<Rightarrow> string \<Rightarrow> u64 \<Rightarrow> u64 \<Rightarrow> eligibility \<Rightarrow> stage" where
  "fit_units q c what available capacity r =
     (let authorised = el_authorised_units r in
      if authorised > available then
        if available > 0 \<and> available \<ge> ct_min_capacity_units c \<and> ct_allow_degraded c \<and> rq_allow_degraded q then
          Inr ((degrade RcDegradedByCapacity (what @ '' has '' @ to_decimal available @ '' units free of ''
                  @ to_decimal capacity) r)\<lparr>el_authorised_units := available\<rparr>)
        else Inl (hard_fail RcCapacityExhausted (what @ '' has '' @ to_decimal available @ '' units free; ''
               @ to_decimal authorised @ '' requested'') OutRefused r)
      else Inr r)"

definition blocking_holder :: "authority \<Rightarrow> authority_request \<Rightarrow> path \<Rightarrow> grant option" where
  "blocking_holder a q p =
     find (\<lambda>g. \<not> (gr_attempt_id g = rq_attempt_id q) \<and> \<not> (rq_renewal q \<and> gr_grant_id g = rq_renewal_of q))
       (live_grants_for_path a (pt_id p))"

definition path_capacity :: "authority \<Rightarrow> authority_request \<Rightarrow> contract \<Rightarrow> eligibility \<Rightarrow> stage" where
  "path_capacity a q c r =
     (case el_path r of
        None \<Rightarrow> Inr r
      | Some p \<Rightarrow>
          if \<not> op_enforce_capacity (au_options a) then Inr r
          else case (if pt_exclusive p then blocking_holder a q p else None) of
            Some h \<Rightarrow> Inl (hard_fail RcPathAlreadyBound (''path '' @ pt_id p
              @ '' is exclusive and already bound by grant '' @ gr_grant_id h) OutConflicting r)
          | None \<Rightarrow> fit_units q c (''path '' @ pt_id p)
              (available_units (pt_capacity_units p) (committed_on_path a q (pt_id p))) (pt_capacity_units p) r)"

definition resource_capacity :: "authority \<Rightarrow> authority_request \<Rightarrow> contract \<Rightarrow> member \<Rightarrow> eligibility \<Rightarrow> stage" where
  "resource_capacity a q c s r =
     (if rq_resource_id q \<noteq> [] then
        (case find_resource s (rq_resource_id q) of
           None \<Rightarrow> Inl (hard_fail RcResourceNotFound (''resource '' @ rq_resource_id q
                     @ '' is not declared on '' @ mb_id s) OutUnknown r)
         | Some e \<Rightarrow>
             stage_bind (check
               [(rq_reservation_generation q \<noteq> re_reservation_generation e, RcReservationGenerationStale,
                   ''resource reservation generation is '' @ to_decimal (re_reservation_generation e)
                     @ '', request claims '' @ to_decimal (rq_reservation_generation q), OutStale),
                (\<not> re_reservable e, RcContractUnsatisfied,
                   ''resource '' @ re_id e @ '' is declared non-reservable'', OutRefused)]
               (r\<lparr>el_resource := Some e\<rparr>)) (\<lambda>r.
             if \<not> op_enforce_capacity (au_options a) then Inr r
             else fit_units q c (''resource '' @ re_id e)
               (available_units (re_total_units e) (reserved_on_resource a q (re_id e))) (re_total_units e) r))
      else case el_path r of
        None \<Rightarrow> Inr r
      | Some p \<Rightarrow> check [(op_enforce_capacity (au_options a) \<and> rq_requested_units q > 0 \<and> pt_resources p \<noteq> [],
            RcReservationGenerationMissing, ''path '' @ pt_id p
              @ '' carries reservable resources but the request names no resource reservation'', OutIncomplete)] r)"

section \<open>Capacity obligations\<close>

text \<open>Units held per failure domain: the \<^verbatim>\<open>std::map\<close> of the code as a key-ordered list.\<close>

type_synonym domain_units = "(string \<times> u64) list"

definition domain_add :: "string \<Rightarrow> u64 \<Rightarrow> domain_units \<Rightarrow> domain_units" where
  "domain_add k u m =
     (let old = (case find_sorted fst m k of None \<Rightarrow> 0 | Some e \<Rightarrow> snd e);
          new = (case checked_add old u of None \<Rightarrow> u64_max | Some n \<Rightarrow> n)
      in table_put fst (k, new) m)"

definition domain_units_of :: "authority \<Rightarrow> obligation \<Rightarrow> domain_units" where
  "domain_units_of a b = foldl (\<lambda>m g.
     if \<not> holds_capacity (gr_state g) \<or> gr_destination_service g \<noteq> ob_service b then m
     else case find_member (au_spec a) (gr_destination_member g) of
       None \<Rightarrow> m
     | Some h \<Rightarrow> domain_add (domain_key (mb_locality h) (unat (ob_failure_domain_level b))) (gr_capacity_units g) m)
     [] (au_grants a)"

definition domains_meeting :: "obligation \<Rightarrow> domain_units \<Rightarrow> nat" where
  "domains_meeting b m = length (filter (\<lambda>e. snd e > 0 \<and> snd e \<ge> ob_min_units_per_domain b) m)"

text \<open>Reading the entry of the new domain creates it with zero units, which never meets the obligation.\<close>

definition check_obligation :: "authority \<Rightarrow> contract \<Rightarrow> string \<Rightarrow> obligation \<Rightarrow> eligibility \<Rightarrow> stage" where
  "check_obligation a c destination_key b r =
     (if \<not> ob_enabled b \<or> ob_service b \<noteq> ct_destination_service c then Inr r
      else
        let per_domain = domain_units_of a b;
            met = domains_meeting b per_domain;
            met_after = domains_meeting b (domain_add destination_key (el_authorised_units r) per_domain)
        in if met_after < unat (ob_min_distinct_failure_domains b) then
             if met_after \<le> met then
               Inl (hard_fail RcContractUnsatisfied (''capacity obligation '' @ ob_id b @ '' requires ''
                 @ to_decimal (ucast (ob_min_distinct_failure_domains b))
                 @ '' distinct failure domains with at least '' @ to_decimal (ob_min_units_per_domain b)
                 @ '' units each, and this relationship does not improve the count'') OutRefused r)
             else Inr (degrade RcDegradedByRedundancyLoss
                 (''capacity obligation '' @ ob_id b @ '' remains unmet after this grant'') r)
           else Inr r)"

fun check_obligations :: "authority \<Rightarrow> contract \<Rightarrow> string \<Rightarrow> obligation list \<Rightarrow> eligibility \<Rightarrow> stage" where
  "check_obligations a c k [] r = Inr r"
| "check_obligations a c k (b # bs) r = stage_bind (check_obligation a c k b r) (check_obligations a c k bs)"

section \<open>Renewal and the whole evaluation\<close>

definition check_renewal :: "authority \<Rightarrow> authority_request \<Rightarrow> eligibility \<Rightarrow> stage" where
  "check_renewal a q r =
     (if \<not> rq_renewal q then Inr r
      else case find_grant a (rq_renewal_of q) of
        None \<Rightarrow> Inl (hard_fail RcGrantNotFound (''renewal names grant '' @ rq_renewal_of q
                  @ '', which is not present'') OutUnknown r)
      | Some g \<Rightarrow> check
          [(gr_lease_id g \<noteq> rq_renewal_lease q, RcLeaseUnknown,
              ''renewal names a lease that does not belong to grant '' @ rq_renewal_of q, OutConflicting),
           (gr_attempt_id g \<noteq> rq_attempt_id q, RcAttemptMismatch,
              ''a renewal must reuse the attempt id of the grant it renews'', OutConflicting),
           (is_terminal (gr_state g), RcGrantAlreadyReleased,
              ''grant '' @ rq_renewal_of q @ '' is '' @ grant_state_to_string (gr_state g)
                @ '' and cannot be renewed'', OutRefused)] r)"

definition evaluate_members :: "authority \<Rightarrow> authority_request \<Rightarrow> contract \<Rightarrow> member \<Rightarrow> member \<Rightarrow> stage" where
  "evaluate_members a q c s d =
     stage_bind (check (member_guards (au_options a) q c s d)
       ((start_eligibility c)\<lparr>el_source_member := Some s, el_destination_member := Some d\<rparr>)) (\<lambda>r.
     stage_bind (lifecycle_ok_for (mb_lifecycle s) c ''source'' r) (\<lambda>r.
     stage_bind (lifecycle_ok_for (mb_lifecycle d) c ''destination'' r) (\<lambda>r.
     stage_bind (member_exclusion (au_spec a) s r) (\<lambda>r.
     stage_bind (member_exclusion (au_spec a) d r) (\<lambda>r.
     stage_bind (choose_path a q r) (\<lambda>r.
     stage_bind (examine_path (au_spec a) c r) (\<lambda>r.
     stage_bind (check_locality c s d r) (\<lambda>r.
     stage_bind (size_request q c r) (\<lambda>r.
     stage_bind (path_capacity a q c r) (\<lambda>r.
     stage_bind (resource_capacity a q c s r) (\<lambda>r.
     stage_bind (check_obligations a c (domain_key (mb_locality d) (unat (ct_failure_domain_level c)))
       (sp_obligations (au_spec a)) r) (\<lambda>r.
     stage_bind (check_renewal a q r) (\<lambda>r.
     Inr (r\<lparr>el_outcome := OutGranted\<rparr>))))))))))))))"

definition evaluate :: "authority \<Rightarrow> authority_request \<Rightarrow> contract \<Rightarrow> eligibility" where
  "evaluate a q c =
     (case find_member (au_spec a) (rq_source_member q) of
        None \<Rightarrow> hard_fail RcMemberNotFound (''source member '' @ rq_source_member q @ '' is not declared'')
                  OutUnknown (start_eligibility c)
      | Some s \<Rightarrow>
        (case find_member (au_spec a) (rq_destination_member q) of
           None \<Rightarrow> hard_fail RcMemberNotFound (''destination member '' @ rq_destination_member q
                     @ '' is not declared'') OutUnknown (start_eligibility c)
         | Some d \<Rightarrow> stage_result (evaluate_members a q c s d)))"

end
