(* ===== verification/Decide.thy ===== *)
theory Decide
  imports Eligibility
begin

text \<open>
  The operations a client asks for (\<^verbatim>\<open>AuthorityCore::submit\<close>, \<^verbatim>\<open>release\<close>, \<^verbatim>\<open>resolve\<close>,
  \<^verbatim>\<open>acknowledge\<close> and \<^verbatim>\<open>cancel\<close> of \<^verbatim>\<open>src/authority.cpp\<close>) and what they are made of: the
  replay of a known attempt, the two-record commit and the renewal; and the self check.
  Every operation answers a decision and the state it leaves.
\<close>

section \<open>Replay of a known attempt\<close>

definition first_reduction :: "grant \<Rightarrow> reason_code \<Rightarrow> reason_code" where
  "first_reduction g rc = (case gr_reductions g of [] \<Rightarrow> rc | r # _ \<Rightarrow> rs_code r)"

definition with_grant :: "grant option \<Rightarrow> decision \<Rightarrow> decision" where
  "with_grant g d = (case g of None \<Rightarrow> d | Some x \<Rightarrow> d\<lparr>dc_grant := Some x\<rparr>)"

definition found_grant :: "authority \<Rightarrow> attempt \<Rightarrow> grant option" where
  "found_grant a t = (if at_grant_id t = [] then None else find_grant a (at_grant_id t))"

definition replayed_grant :: "grant \<Rightarrow> decision \<Rightarrow> decision" where
  "replayed_grant g d0 =
     (let d = d0\<lparr>dc_grant := Some g\<rparr> in
      if is_quarantined (gr_state g) then
        d\<lparr>dc_outcome := OutIndeterminate, dc_requires_reconciliation := True,
          dc_reasons := [mk_reason RcCommitAmbiguous (''a durable commit exists but no acknowledgement was recorded; ''
            @ ''the caller must acknowledge or cancel before this capacity is reusable'')]\<rparr>
      else if gr_state g = GsReleased then
        d\<lparr>dc_outcome := OutRefused,
          dc_reasons := [mk_reason RcGrantAlreadyReleased ''the granted lease was released'']\<rparr>
      else if gr_state g = GsExpired then
        d\<lparr>dc_outcome := OutRefused, dc_reasons := [mk_reason RcGrantExpired ''the granted lease has expired'']\<rparr>
      else if gr_state g = GsFenced \<or> gr_state g = GsRevoked then
        d\<lparr>dc_outcome := OutFenced, dc_requires_reconciliation := True,
          dc_reasons := [mk_reason (first_reduction g RcGrantFenced)
            ''the granted authority was superseded and is no longer usable'']\<rparr>
      else d\<lparr>dc_outcome := gr_outcome g,
          dc_reasons := [mk_reason RcAttemptAlreadyCommitted
            ''returning the previously committed grant for this attempt'']\<rparr>)"

definition unrecoverable_grant :: "grant \<Rightarrow> decision \<Rightarrow> decision" where
  "unrecoverable_grant g d0 =
     (let d = d0\<lparr>dc_grant := Some g\<rparr> in
      if gr_state g = GsAmbiguous then
        d\<lparr>dc_outcome := OutIndeterminate,
          dc_reasons := [mk_reason RcCommitAmbiguous ''a durable commit exists but no acknowledgement was recorded'']\<rparr>
      else d)"

definition replay_attempt :: "attempt \<Rightarrow> authority_request \<Rightarrow> authority \<Rightarrow> decision \<times> authority" where
  "replay_attempt t q a =
     (let answer_submit = answer ''submit'' (rq_request_id q) (rq_attempt_id q) in
      if digest_is_zero (at_request_digest t) \<and> at_grant_id t \<noteq> [] then
        answer_submit OutConflicting
          [mk_reason RcAttemptConflict (''this attempt survived a controller restart and its original request bytes are no ''
             @ ''longer recoverable; resolve it, or re-request under a fresh attempt id'')]
          (\<lambda>d. let d1 = d\<lparr>dc_requires_reconciliation := True, dc_idempotent_replay := True\<rparr> in
             (case find_grant a (at_grant_id t) of None \<Rightarrow> d1 | Some g \<Rightarrow> unrecoverable_grant g d1)) a
      else if at_request_digest t \<noteq> authority_request_digest q then
        make_decision (rq_request_id q) (rq_attempt_id q) OutConflicting
          [mk_reason RcAttemptConflict ''this attempt id was already used for different request content''] a
      else if at_cancelled t then
        answer_submit OutCancelled [mk_reason RcAttemptCancelled ''this attempt was cancelled'']
          (\<lambda>d. d\<lparr>dc_idempotent_replay := True\<rparr>) a
      else if at_released t then
        answer_submit OutRefused [mk_reason RcAttemptAlreadyReleased ''this attempt was released'']
          (\<lambda>d. with_grant (found_grant a t) (d\<lparr>dc_idempotent_replay := True, dc_grant := None\<rparr>)) a
      else
        answer_submit (at_outcome t)
          [mk_reason (if at_primary_reason t = RcNone then RcAttemptAlreadyCommitted else at_primary_reason t)
             ''this attempt was already decided; attempt ids are exactly-once'']
          (\<lambda>d. let d1 = d\<lparr>dc_idempotent_replay := True\<rparr> in
             (case found_grant a t of None \<Rightarrow> d1 | Some g \<Rightarrow> replayed_grant g d1)) a)"

section \<open>Commit\<close>

definition attempt_of_commit :: "grant \<Rightarrow> decision \<Rightarrow> u64 \<Rightarrow> bytes \<Rightarrow> attempt" where
  "attempt_of_commit g d now digest = empty_attempt
     \<lparr>at_attempt_id := gr_attempt_id g, at_request_id := dc_request_id d, at_request_digest := digest,
      at_grant_id := gr_grant_id g, at_lease_id := gr_lease_id g, at_outcome := gr_outcome g,
      at_primary_reason := (if gr_degraded g then first_reduction g RcDegradedByMemberState else RcNone),
      at_first_seen := now\<rparr>"

text \<open>A record that cannot be written makes the decision indeterminate but is no error of the commit.\<close>

definition undecided :: "reason_code \<Rightarrow> string \<Rightarrow> decision \<Rightarrow> decision" where
  "undecided rc detail d = d\<lparr>dc_outcome := OutIndeterminate, dc_requires_reconciliation := True,
     dc_reasons := [mk_reason rc detail]\<rparr>"

definition commit_grant :: "grant \<Rightarrow> decision \<Rightarrow> authority \<Rightarrow> status \<times> decision \<times> authority" where
  "commit_grant g0 d a =
     (let now = sp_tick (au_spec a);
          g = g0\<lparr>gr_lease_issued := now, gr_state := GsPrepared, gr_commit := CsPrepared\<rparr> in
      case journal_entry (JGrantPrepared (grant_mark_of g GsPrepared)) True a of (prepared, prepare_seq, a1) \<Rightarrow>
      if \<not> ok prepared then
        (success, undecided RcCommitIndeterminate
           (''the prepare record could not be made durable: '' @ status_to_string prepared) d, a1)
      else
      let g1 = g\<lparr>gr_prepare_sequence := prepare_seq, gr_state := GsCommitted, gr_commit := CsCommitted\<rparr> in
      case journal_entry (JGrantCommitted (grant_mark_of g1 GsCommitted)) True a1 of (committed, commit_seq, a2) \<Rightarrow>
      if \<not> ok committed then
        (success, undecided RcCommitAmbiguous
           (''the commit record could not be made durable: '' @ status_to_string committed) d, a2)
      else
      let g2 = g1\<lparr>gr_commit_sequence := commit_seq, gr_capacity_reserved := holds_capacity GsCommitted\<rparr>;
          t = attempt_of_commit g2 d now (au_request_digest a);
          result = cif_try (upsert_grant g2 a2) (\<lambda>a.
                   cif_try (upsert_attempt t a) (journal_put (JAttemptTerminal t)))
      in case result of (st, a3) \<Rightarrow>
        if \<not> ok st then (st, d, a3)
        else (success, d\<lparr>dc_outcome := gr_outcome g2, dc_grant := Some g2\<rparr>, stale_digest a3))"

section \<open>Renewal\<close>

definition renewed_grant :: "authority \<Rightarrow> authority_request \<Rightarrow> eligibility \<Rightarrow> authority_outcome \<Rightarrow> grant \<Rightarrow> grant" where
  "renewed_grant a q r out g = g
     \<lparr>gr_requested_units := rq_requested_units q, gr_capacity_units := el_authorised_units r,
      gr_lease_issued := sp_tick (au_spec a),
      gr_lease_expiry := (if rq_lease_ticks q = 0 then 0 else sp_tick (au_spec a) + rq_lease_ticks q),
      gr_epoch := sp_epoch (au_spec a), gr_incarnation := sp_incarnation (au_spec a),
      gr_policy_generation := sp_policy_generation (au_spec a), gr_cluster_generation := sp_generation (au_spec a),
      gr_outcome := out, gr_degraded := (out = OutDegraded), gr_reductions := el_degradations r,
      gr_distinct_failure_domains := el_distinct_failure_domains r\<rparr>"

definition may_degrade :: "contract \<Rightarrow> authority_request \<Rightarrow> bool" where
  "may_degrade c q = (ct_allow_degraded c \<and> rq_allow_degraded q)"

definition renew :: "authority_request \<Rightarrow> contract \<Rightarrow> authority \<Rightarrow> decision \<times> authority" where
  "renew q c a =
     (let r = evaluate a q c;
          answer_renew = answer ''renew'' (rq_request_id q) (rq_attempt_id q) in
      if el_outcome r \<noteq> OutGranted then answer_renew (el_outcome r) (el_reasons r) id a
      else case mutable_grant a (rq_renewal_of q) of
        None \<Rightarrow> answer_renew OutUnknown
          [mk_reason RcGrantNotFound ''the grant to renew disappeared during evaluation''] id a
      | Some i \<Rightarrow>
        if el_degradations r \<noteq> [] \<and> \<not> may_degrade c q then
          answer_renew OutRefused (el_degradations r) id a
        else
          let out = (if el_degradations r \<noteq> [] then OutDegraded else OutGranted);
              u = renewed_grant a q r out (au_grants a ! i) in
          case journal_entry (JGrantCommitted (grant_mark_of u GsCommitted)) True a of (journaled, sequence, a1) \<Rightarrow>
            if \<not> ok journaled then
              answer_renew OutIndeterminate [mk_reason RcCommitAmbiguous
                (''the renewal record could not be made durable: '' @ status_to_string journaled)]
                (\<lambda>d. d\<lparr>dc_requires_reconciliation := True\<rparr>) a1
            else
              let u1 = u\<lparr>gr_commit_sequence := sequence\<rparr> in
              answer_renew out (el_degradations r) (\<lambda>d. d\<lparr>dc_grant := Some u1\<rparr>) (set_grant i u1 a1))"

section \<open>Submit\<close>

text \<open>The fences a request passes before anything else is looked at, in their order.\<close>

definition coordinate_guards :: "spec \<Rightarrow> authority_request \<Rightarrow> guard list" where
  "coordinate_guards sp q =
     [(sp_cluster_id sp \<noteq> [] \<and> rq_cluster_id q \<noteq> sp_cluster_id sp, RcClusterNotFound,
         ''this controller rules cluster '' @ sp_cluster_id sp, OutUnknown),
      (rq_cluster_generation q > sp_generation sp, RcClusterGenerationAhead,
         ''request claims cluster generation '' @ to_decimal (rq_cluster_generation q)
           @ '' but this controller is at '' @ to_decimal (sp_generation sp), OutInvalid),
      (rq_cluster_generation q < sp_generation sp, RcClusterGenerationStale,
         ''request is against cluster generation '' @ to_decimal (rq_cluster_generation q)
           @ ''; current is '' @ to_decimal (sp_generation sp), OutStale),
      (rq_epoch q > sp_epoch sp, RcEpochAhead,
         ''request claims epoch '' @ to_decimal (rq_epoch q) @ '' which is ahead of this controller'', OutInvalid),
      (rq_epoch q < sp_epoch sp, RcEpochStale,
         ''request is against epoch '' @ to_decimal (rq_epoch q) @ ''; current is '' @ to_decimal (sp_epoch sp),
         OutFenced),
      (rq_incarnation q \<noteq> sp_incarnation sp, RcIncarnationStale,
         ''request is against controller incarnation '' @ incarnation_hex (rq_incarnation q)
           @ ''; current is '' @ incarnation_hex (sp_incarnation sp), OutFenced),
      (rq_policy_generation q < sp_policy_generation sp, RcPolicyGenerationStale,
         ''request is against policy generation '' @ to_decimal (rq_policy_generation q)
           @ ''; current is '' @ to_decimal (sp_policy_generation sp), OutStale),
      (rq_policy_generation q > sp_policy_generation sp, RcPolicyGenerationStale,
         ''request claims a policy generation newer than this controller holds'', OutStale)]"

definition capability_refusal :: "contract \<Rightarrow> (reason_code \<times> string) option" where
  "capability_refusal c =
     (case unsupported_capabilities c of
        [] \<Rightarrow> None
      | first # _ \<Rightarrow>
          let named = ''contract requires capability '' @ [CHR 0x27] @ sanitise_for_display first 128 @ [CHR 0x27] in
          if is_inter_cluster_capability first then
            Some (RcInterClusterUnsupported, named @ '', which belongs to a separate inter-cluster runtime'')
          else if is_hardware_capability first then
            Some (RcHardwareSemanticsUnsupported,
              named @ '', which is physical hardware behaviour this runtime does not model'')
          else Some (RcUnsupportedCapability, named @ '', which this build does not implement''))"

definition contract_guards :: "options \<Rightarrow> authority_request \<Rightarrow> contract \<Rightarrow> guard list" where
  "contract_guards p q c =
     [(rq_contract_generation q \<noteq> ct_generation c, RcContractGenerationStale,
         ''contract is at generation '' @ to_decimal (ct_generation c) @ '', request claims ''
           @ to_decimal (rq_contract_generation q), OutStale),
      (\<not> ct_enabled c, RcContractUnsatisfied, ''contract '' @ ct_id c @ '' is disabled'', OutRefused)]
     @ (case (if op_reject_unknown_capabilities p then capability_refusal c else None) of
          None \<Rightarrow> []
        | Some (rc, detail) \<Rightarrow> [(True, rc, detail, OutUnsupported)])"

definition lease_of :: "options \<Rightarrow> authority_request \<Rightarrow> u64" where
  "lease_of p q = (if rq_lease_ticks q = 0 then op_default_lease_ticks p else rq_lease_ticks q)"

definition fill_endpoint :: "string \<Rightarrow> string \<Rightarrow> string" where
  "fill_endpoint named of_path = (if named = [] then of_path else named)"

definition new_grant :: "authority \<Rightarrow> authority_request \<Rightarrow> contract \<Rightarrow> eligibility \<Rightarrow> member \<Rightarrow> member
    \<Rightarrow> authority_outcome \<Rightarrow> string \<Rightarrow> string \<Rightarrow> grant" where
  "new_grant a q c r s d out gid lid = empty_grant
     \<lparr>gr_grant_id := gid, gr_lease_id := lid, gr_attempt_id := rq_attempt_id q,
      gr_cluster_id := sp_cluster_id (au_spec a), gr_cluster_generation := sp_generation (au_spec a),
      gr_epoch := sp_epoch (au_spec a), gr_policy_generation := sp_policy_generation (au_spec a),
      gr_incarnation := sp_incarnation (au_spec a), gr_contract_id := ct_id c,
      gr_contract_generation := ct_generation c, gr_source_service := ct_source_service c,
      gr_destination_service := ct_destination_service c, gr_source_member := mb_id s,
      gr_source_member_generation := mb_generation s, gr_source_member_digest := mb_digest s,
      gr_source_domain := mb_domain s, gr_destination_member := mb_id d,
      gr_destination_member_generation := mb_generation d, gr_destination_member_digest := mb_digest d,
      gr_destination_domain := mb_domain d,
      gr_source_endpoint := (case el_path r of None \<Rightarrow> rq_source_endpoint q
                             | Some p \<Rightarrow> fill_endpoint (rq_source_endpoint q) (pt_source_endpoint p)),
      gr_destination_endpoint := (case el_path r of None \<Rightarrow> rq_destination_endpoint q
                             | Some p \<Rightarrow> fill_endpoint (rq_destination_endpoint q) (pt_destination_endpoint p)),
      gr_path_id := (case el_path r of None \<Rightarrow> [] | Some p \<Rightarrow> pt_id p),
      gr_path_generation := (case el_path r of None \<Rightarrow> 0 | Some p \<Rightarrow> pt_generation p),
      gr_resource_id := (case el_resource r of None \<Rightarrow> [] | Some e \<Rightarrow> re_id e),
      gr_reservation_generation := (case el_resource r of None \<Rightarrow> 0 | Some e \<Rightarrow> re_reservation_generation e),
      gr_requested_units := wanted_units q c, gr_capacity_units := el_authorised_units r,
      gr_distinct_failure_domains := el_distinct_failure_domains r, gr_outcome := out,
      gr_degraded := (out = OutDegraded),
      gr_reductions := (if out = OutDegraded then el_degradations r else []),
      gr_provenance := rq_provenance q\<rparr>"

definition count_refusal :: "authority \<Rightarrow> authority" where
  "count_refusal a = a\<lparr>au_counters := (au_counters a)\<lparr>co_refusals := co_refusals (au_counters a) + 1\<rparr>\<rparr>"

definition refuse_submit :: "authority_request \<Rightarrow> authority_outcome \<Rightarrow> reason list \<Rightarrow> authority \<Rightarrow> decision \<times> authority" where
  "refuse_submit q out rs a =
     (case make_decision (rq_request_id q) (rq_attempt_id q) out rs a of (d, a1) \<Rightarrow>
        finalize_decision ''submit'' d (count_refusal a1))"

definition issue_grant :: "authority_request \<Rightarrow> contract \<Rightarrow> eligibility \<Rightarrow> member \<Rightarrow> member \<Rightarrow> authority
    \<Rightarrow> decision \<times> authority" where
  "issue_grant q c r s d a0 =
     (let out = (if el_degradations r \<noteq> [] then OutDegraded else OutGranted) in
      case mint_grant_id a0 of (gid, a1) \<Rightarrow>
      case mint_lease_id a1 of (lid, a) \<Rightarrow>
      let g = new_grant a q c r s d out (id_from_validated gid) (id_from_validated lid);
          lease = lease_of (au_options a) q in
      if lease > op_max_lease_ticks (au_options a) then
        refuse_submit q OutRefused [mk_reason RcLimitExceeded ''requested lease exceeds the configured maximum''] a
      else
      case commit_grant (g\<lparr>gr_lease_expiry := sp_tick (au_spec a) + lease\<rparr>) empty_decision a of (st, dn, a2) \<Rightarrow>
        if \<not> ok st then
          answer ''submit'' (rq_request_id q) (rq_attempt_id q) OutRefused [mk_reason RcLimitExceeded (st_message st)] id a2
        else
          let d1 = dn\<lparr>dc_request_id := rq_request_id q, dc_attempt_id := rq_attempt_id q\<rparr>;
              d2 = (if dc_outcome d1 = OutDegraded then d1\<lparr>dc_reasons := el_degradations r\<rparr> else d1)
          in finalize_decision ''submit'' d2 a2)"

definition decide_fresh :: "authority_request \<Rightarrow> contract \<Rightarrow> authority \<Rightarrow> decision \<times> authority" where
  "decide_fresh q c a =
     (let r = evaluate a q c in
      if el_outcome r \<noteq> OutGranted then refuse_submit q (el_outcome r) (el_reasons r) a
      else if el_degradations r \<noteq> [] \<and> \<not> may_degrade c q then refuse_submit q OutRefused (el_degradations r) a
      else case (el_source_member r, el_destination_member r) of
        (Some s, Some d) \<Rightarrow> issue_grant q c r s d a
      | _ \<Rightarrow> (empty_decision, a))"

definition submit :: "authority_request \<Rightarrow> authority \<Rightarrow> decision \<times> authority" where
  "submit q a =
     (let shape = validate_authority_request q;
          reject = (\<lambda>(rc, detail, out). answer ''submit'' (rq_request_id q) (rq_attempt_id q) out
                      [mk_reason rc detail] id a) in
      if \<not> ok shape then malformed_decision (rq_request_id q) (rq_attempt_id q) shape a
      else case first_guard (coordinate_guards (au_spec a) q) of
        Some x \<Rightarrow> reject x
      | None \<Rightarrow>
        case (if rq_renewal q then None else find_attempt a (rq_attempt_id q)) of
          Some t \<Rightarrow> replay_attempt t q a
        | None \<Rightarrow>
          case contracts_find (au_contracts a) (rq_contract_id q) of
            None \<Rightarrow> reject (RcContractNotFound, ''contract '' @ rq_contract_id q @ '' is not declared'', OutUnknown)
          | Some c \<Rightarrow>
            case first_guard (contract_guards (au_options a) q c) of
              Some x \<Rightarrow> reject x
            | None \<Rightarrow>
              let a1 = a\<lparr>au_request_digest := authority_request_digest q\<rparr> in
              if rq_renewal q then renew q c a1 else decide_fresh q c a1)"

end
