(* ===== verification/Client_Ops.thy ===== *)
theory Client_Ops
  imports Decide
begin

text \<open>
  The remaining client operations of \<^verbatim>\<open>src/authority.cpp\<close> (\<^verbatim>\<open>release\<close>, \<^verbatim>\<open>resolve\<close>,
  \<^verbatim>\<open>acknowledge\<close>, \<^verbatim>\<open>cancel\<close>) and the structural self check.
\<close>

section \<open>Release\<close>

text \<open>The grant a release names: by its own id, or by the attempt that produced it.\<close>

definition release_target :: "release_request \<Rightarrow> authority \<Rightarrow> nat option" where
  "release_target q a =
     (case (if rl_grant_id q = [] then None else mutable_grant a (rl_grant_id q)) of
        Some i \<Rightarrow> Some i
      | None \<Rightarrow>
          if rl_attempt_id q = [] then None
          else case find_attempt a (rl_attempt_id q) of
            None \<Rightarrow> None
          | Some t \<Rightarrow> if at_grant_id t = [] then None else mutable_grant a (at_grant_id t))"

definition set_attempt :: "nat \<Rightarrow> attempt \<Rightarrow> authority \<Rightarrow> authority" where
  "set_attempt i t a = a\<lparr>au_attempts := (au_attempts a)[i := t]\<rparr>"

definition release_attempt :: "string \<Rightarrow> authority \<Rightarrow> status \<times> authority" where
  "release_attempt i a =
     (case mutable_attempt a i of
        None \<Rightarrow> (success, a)
      | Some k \<Rightarrow>
          let t = (au_attempts a ! k)\<lparr>at_released := True, at_terminal_tick := sp_tick (au_spec a)\<rparr>
          in journal_put (JAttemptTerminal t) (set_attempt k t a))"

definition release :: "release_request \<Rightarrow> authority \<Rightarrow> decision \<times> authority" where
  "release q a =
     (let shape = validate_release_request q;
          reply = answer ''release'' (rl_request_id q) (rl_attempt_id q) in
      if \<not> ok shape then malformed_decision (rl_request_id q) (rl_attempt_id q) shape a
      else case release_target q a of
        None \<Rightarrow> reply OutUnknown
          [mk_reason RcGrantNotFound ''no grant matches the identity supplied to release''] id a
      | Some i \<Rightarrow>
        let g = au_grants a ! i in
        if rl_lease_id q \<noteq> [] \<and> gr_lease_id g \<noteq> rl_lease_id q \<and> \<not> rl_administrative q then
          reply OutConflicting
            [mk_reason RcLeaseUnknown (''the supplied lease does not belong to grant '' @ gr_grant_id g)]
            (\<lambda>d. d\<lparr>dc_grant := Some g\<rparr>) a
        else if is_terminal (gr_state g) then
          reply OutGranted
            [mk_reason RcGrantAlreadyReleased ''the release was already applied; capacity was returned exactly once'']
            (\<lambda>d. d\<lparr>dc_grant := Some g, dc_idempotent_replay := True\<rparr>) a
        else case terminate_grant i GsReleased RcNone [] True a of (terminated, a1) \<Rightarrow>
          if \<not> ok terminated then
            reply OutIndeterminate [mk_reason RcCommitIndeterminate (st_message terminated)]
              (\<lambda>d. d\<lparr>dc_requires_reconciliation := True\<rparr>) a1
          else case release_attempt (gr_attempt_id g) a1 of (journaled, a2) \<Rightarrow>
            if \<not> ok journaled then
              reply OutIndeterminate
                [mk_reason RcCommitIndeterminate
                  (''the grant was released but the attempt record could not be made durable: ''
                   @ status_to_string journaled)]
                (\<lambda>d. d\<lparr>dc_requires_reconciliation := True\<rparr>) a2
            else reply OutGranted [] (with_grant (find_grant a2 (gr_grant_id g))) a2)"

section \<open>Resolve\<close>

definition resolved_grant :: "attempt \<Rightarrow> grant \<Rightarrow> decision \<Rightarrow> decision" where
  "resolved_grant t g d0 =
     (let d = d0\<lparr>dc_grant := Some g\<rparr> in
      if at_cancelled t \<or> at_released t then
        d\<lparr>dc_outcome := (if at_cancelled t then OutCancelled else OutRefused), dc_requires_reconciliation := False\<rparr>
      else if is_quarantined (gr_state g) then
        d\<lparr>dc_outcome := OutIndeterminate, dc_requires_reconciliation := True,
          dc_reasons := [mk_reason RcCommitAmbiguous
            (''a durable commit exists but no acknowledgement was ever recorded; acknowledge it if you ''
             @ ''observed it, otherwise cancel it so the quarantined capacity is returned'')]\<rparr>
      else if gr_state g = GsReleased then
        d\<lparr>dc_outcome := OutRefused,
          dc_reasons := [mk_reason (first_reduction g RcGrantAlreadyReleased)
            ''the grant is no longer live (state RELEASED)'']\<rparr>
      else if gr_state g = GsExpired then
        d\<lparr>dc_outcome := OutRefused, dc_reasons := [mk_reason RcGrantExpired ''the lease elapsed'']\<rparr>
      else if gr_state g = GsFenced \<or> gr_state g = GsRevoked then
        d\<lparr>dc_outcome := OutFenced, dc_requires_reconciliation := True,
          dc_reasons := [mk_reason (first_reduction g RcGrantFenced)
            ''the grant was superseded and must not be used'']\<rparr>
      else d\<lparr>dc_outcome := gr_outcome g,
          dc_reasons := [mk_reason RcCommitDurable
            (''the grant for this attempt is durable and currently '' @ grant_state_to_string (gr_state g))]\<rparr>)"

definition resolve :: "resolve_request \<Rightarrow> authority \<Rightarrow> decision \<times> authority" where
  "resolve q a =
     (let shape = validate_resolve_request q;
          reply = answer ''resolve'' (rv_request_id q) (rv_attempt_id q) in
      if \<not> ok shape then malformed_decision (rv_request_id q) (rv_attempt_id q) shape a
      else case find_attempt a (rv_attempt_id q) of
        None \<Rightarrow> reply OutUnknown
          [mk_reason RcAttemptUnknown ''this controller has no record of that attempt''] id a
      | Some t \<Rightarrow>
        let out = (if at_cancelled t then OutCancelled else if at_released t then OutRefused else at_outcome t);
            rs = (if at_cancelled t then [mk_reason RcAttemptCancelled ''the attempt was cancelled'']
                  else if at_released t then
                    [mk_reason RcAttemptAlreadyReleased ''the attempt was granted and then released'']
                  else [])
        in reply out rs (\<lambda>d. let d1 = d\<lparr>dc_idempotent_replay := True\<rparr> in
             (case found_grant a t of
                Some g \<Rightarrow> resolved_grant t g d1
              | None \<Rightarrow>
                  if \<not> at_cancelled t \<and> \<not> at_released t then
                    d1\<lparr>dc_reasons := [mk_reason
                      (if at_primary_reason t = RcNone then RcAttemptUnknown else at_primary_reason t)
                      ''this attempt never produced a grant'']\<rparr>
                  else d1)) a)"

section \<open>Acknowledge\<close>

definition acknowledged_grant :: "u64 \<Rightarrow> grant \<Rightarrow> grant" where
  "acknowledged_grant sequence g = g\<lparr>gr_acknowledged := True, gr_state := GsAcknowledged,
     gr_commit := CsAcknowledged, gr_acknowledgement_sequence := sequence\<rparr>"

definition confirm_grant :: "acknowledge_request \<Rightarrow> nat \<Rightarrow> authority \<Rightarrow> decision \<times> authority" where
  "confirm_grant q i a =
     (let g = au_grants a ! i;
          reply = answer ''acknowledge'' (ak_request_id q) (ak_attempt_id q) in
      case journal_entry (JGrantAcknowledged (grant_mark_of g GsAcknowledged)) True a of (journaled, sequence, a1) \<Rightarrow>
        if \<not> ok journaled then
          reply OutIndeterminate [mk_reason RcCommitIndeterminate (st_message journaled)]
            (\<lambda>d. d\<lparr>dc_requires_reconciliation := True\<rparr>) a1
        else
          let u = acknowledged_grant sequence g in
          reply (gr_outcome u) [mk_reason RcCommitDurable ''the caller has confirmed it observed this grant'']
            (\<lambda>d. d\<lparr>dc_grant := Some u\<rparr>) (set_grant i u a1))"

definition lift_quarantine :: "acknowledge_request \<Rightarrow> nat \<Rightarrow> authority \<Rightarrow> decision \<times> authority" where
  "lift_quarantine q i a =
     (let reply = answer ''acknowledge'' (ak_request_id q) (ak_attempt_id q) in
      case revalidate_grant i True a of (revalidated, a1) \<Rightarrow>
        if \<not> ok revalidated then
          reply OutIndeterminate [mk_reason RcCommitIndeterminate
            (''the quarantined grant could not be revalidated: '' @ status_to_string revalidated)]
            (\<lambda>d. d\<lparr>dc_requires_reconciliation := True\<rparr>) a1
        else
          let g = au_grants a1 ! i in
          if gr_state g \<noteq> GsCommitted then
            reply OutFenced [mk_reason (first_reduction g RcGrantFenced)
              ''the quarantined grant could not be revalidated against current state'']
              (\<lambda>d. d\<lparr>dc_grant := Some g, dc_requires_reconciliation := True\<rparr>) a1
          else confirm_grant q i a1)"

definition acknowledge :: "acknowledge_request \<Rightarrow> authority \<Rightarrow> decision \<times> authority" where
  "acknowledge q a =
     (let shape = validate_acknowledge_request q;
          reply = answer ''acknowledge'' (ak_request_id q) (ak_attempt_id q) in
      if \<not> ok shape then malformed_decision (ak_request_id q) (ak_attempt_id q) shape a
      else case mutable_grant a (ak_grant_id q) of
        None \<Rightarrow> reply OutUnknown [mk_reason RcGrantNotFound (''grant '' @ ak_grant_id q @ '' is not present'')] id a
      | Some i \<Rightarrow>
        let g = au_grants a ! i in
        if gr_lease_id g \<noteq> ak_lease_id q then
          reply OutConflicting
            [mk_reason RcLeaseUnknown (''the supplied lease does not belong to grant '' @ gr_grant_id g)]
            (\<lambda>d. d\<lparr>dc_grant := Some g\<rparr>) a
        else if gr_state g = GsReleased \<or> gr_state g = GsExpired \<or> gr_state g = GsFenced \<or> gr_state g = GsRevoked then
          reply OutRefused
            [mk_reason RcGrantAlreadyReleased (''the grant is '' @ grant_state_to_string (gr_state g)
               @ '' and no longer carries authority'')] (\<lambda>d. d\<lparr>dc_grant := Some g\<rparr>) a
        else if gr_acknowledged g \<and> gr_state g = GsAcknowledged then
          reply OutGranted [mk_reason RcCommitDurable ''the grant was already acknowledged'']
            (\<lambda>d. d\<lparr>dc_grant := Some g, dc_idempotent_replay := True\<rparr>) a
        else if is_quarantined (gr_state g) then lift_quarantine q i a
        else confirm_grant q i a)"

section \<open>Cancel\<close>

definition cancel_attempt :: "cancel_request \<Rightarrow> authority \<Rightarrow> nat option" where
  "cancel_attempt q a = (if cn_attempt_id q = [] then None else mutable_attempt a (cn_attempt_id q))"

definition cancel_grant :: "cancel_request \<Rightarrow> authority \<Rightarrow> nat option" where
  "cancel_grant q a =
     (case (if cn_grant_id q = [] then None else mutable_grant a (cn_grant_id q)) of
        Some i \<Rightarrow> Some i
      | None \<Rightarrow>
          (case cancel_attempt q a of
             None \<Rightarrow> None
           | Some k \<Rightarrow> let t = au_attempts a ! k in
               if at_grant_id t = [] then None else mutable_grant a (at_grant_id t)))"

definition revoke_cancelled :: "cancel_request \<Rightarrow> nat option \<Rightarrow> authority \<Rightarrow> status \<times> authority" where
  "revoke_cancelled q g a =
     (case g of
        None \<Rightarrow> (success, a)
      | Some i \<Rightarrow>
          if holds_capacity (gr_state (au_grants a ! i)) then
            terminate_grant i GsRevoked RcAttemptCancelled
              (if cn_reason q = [] then ''cancelled'' else cn_reason q) True a
          else (success, a))"

definition close_attempt :: "cancel_request \<Rightarrow> nat option \<Rightarrow> authority \<Rightarrow> status \<times> authority" where
  "close_attempt q t a =
     (case t of
        None \<Rightarrow> (success, a)
      | Some k \<Rightarrow>
          let old = au_attempts a ! k in
          cif_try (journal_put (JAttemptCancelled (at_attempt_id old) (cn_reason q)) a) (\<lambda>a.
            (success, set_attempt k (old\<lparr>at_cancelled := True, at_terminal_tick := sp_tick (au_spec a),
                                        at_primary_reason := RcAttemptCancelled\<rparr>) a)))"

definition cancel :: "cancel_request \<Rightarrow> authority \<Rightarrow> decision \<times> authority" where
  "cancel q a =
     (let shape = validate_cancel_request q;
          reply = answer ''cancel'' (cn_request_id q) (cn_attempt_id q);
          failed = (\<lambda>st. reply OutIndeterminate
                      [mk_reason RcCommitIndeterminate (''the cancel could not be made durable: '' @ status_to_string st)]
                      (\<lambda>d. d\<lparr>dc_requires_reconciliation := True\<rparr>));
          t = cancel_attempt q a;
          g = cancel_grant q a;
          show_grant = (\<lambda>a d. case g of None \<Rightarrow> d | Some i \<Rightarrow> d\<lparr>dc_grant := Some (au_grants a ! i)\<rparr>) in
      if \<not> ok shape then malformed_decision (cn_request_id q) (cn_attempt_id q) shape a
      else if t = None \<and> g = None then
        reply OutUnknown
          [mk_reason RcAttemptUnknown ''neither the attempt nor the grant named by this cancel is known''] id a
      else if (case t of None \<Rightarrow> False | Some k \<Rightarrow> at_cancelled (au_attempts a ! k)) then
        reply OutCancelled [mk_reason RcAttemptCancelled ''the attempt was already cancelled'']
          (\<lambda>d. (show_grant a d)\<lparr>dc_idempotent_replay := True\<rparr>) a
      else case revoke_cancelled q g a of (revoked, a1) \<Rightarrow>
        if \<not> ok revoked then failed revoked a1
        else
          let t1 = (case (t, g) of (None, Some i) \<Rightarrow> mutable_attempt a1 (gr_attempt_id (au_grants a1 ! i)) | _ \<Rightarrow> t) in
          case close_attempt q t1 a1 of (journaled, a2) \<Rightarrow>
          if \<not> ok journaled then failed journaled a2
          else
            let a3 = stale_digest a2 in
            reply OutCancelled
              [mk_reason RcAttemptCancelled (if cn_reason q = [] then ''the attempt is cancelled'' else cn_reason q)]
              (show_grant a3) a3)"

section \<open>Self check\<close>

text \<open>The first grant that contradicts itself or the tables, and the units reserved per resource.\<close>

definition grant_violation :: "authority \<Rightarrow> grant \<Rightarrow> string option" where
  "grant_violation a g = first_guard
     [(holds_capacity (gr_state g) \<noteq> gr_capacity_reserved g,
         ''grant '' @ gr_grant_id g @ '' disagrees with itself about whether it holds capacity''),
      (holds_capacity (gr_state g) \<and> gr_capacity_units g = 0 \<and> gr_resource_id g \<noteq> [],
         ''grant '' @ gr_grant_id g @ '' names resource '' @ gr_resource_id g @ '' but reserves zero units''),
      (gr_capacity_units g > gr_requested_units g \<and> gr_requested_units g > 0,
         ''grant '' @ gr_grant_id g @ '' authorises more units than were requested''),
      (gr_capacity_units g > kMaxCapacityUnits, ''grant '' @ gr_grant_id g @ '' exceeds the capacity bound''),
      (gr_source_member g \<noteq> [] \<and> find_member (au_spec a) (gr_source_member g) = None,
         ''live grant '' @ gr_grant_id g @ '' references a member that no longer exists''),
      (gr_attempt_id g \<noteq> [] \<and> find_attempt a (gr_attempt_id g) = None,
         ''grant '' @ gr_grant_id g @ '' has no attempt record'')]"

fun check_grants :: "authority \<Rightarrow> grant list \<Rightarrow> domain_units \<Rightarrow> status + domain_units" where
  "check_grants a [] m = Inr m"
| "check_grants a (g # gs) m =
     (case grant_violation a g of
        Some msg \<Rightarrow> Inl (status_error ScInternal msg)
      | None \<Rightarrow>
          if \<not> gr_capacity_reserved g \<or> gr_resource_id g = [] then check_grants a gs m
          else
            let old = (case find_sorted fst m (gr_resource_id g) of None \<Rightarrow> 0 | Some e \<Rightarrow> snd e) in
            case checked_add old (gr_capacity_units g) of
              None \<Rightarrow> Inl (status_error ScInternal ''resource accounting overflowed'')
            | Some n \<Rightarrow> check_grants a gs (table_put fst (gr_resource_id g, n) m))"

definition resource_violation :: "spec \<Rightarrow> string \<times> u64 \<Rightarrow> status" where
  "resource_violation sp e =
     (case find (\<lambda>m. find_resource m (id_from_validated (fst e)) \<noteq> None) (sp_members sp) of
        None \<Rightarrow> status_error ScInternal (''capacity is reserved against unknown resource '' @ fst e)
      | Some m \<Rightarrow>
          (case find_resource m (id_from_validated (fst e)) of
             None \<Rightarrow> success
           | Some r \<Rightarrow>
               if snd e > re_total_units r then
                 status_error ScInternal (''resource '' @ fst e @ '' is over-committed: '' @ to_decimal (snd e)
                   @ '' reserved of '' @ to_decimal (re_total_units r))
               else success))"

definition self_check :: "authority \<Rightarrow> status" where
  "self_check a =
     (if \<not> au_initialized a then status_error ScStateMismatch ''authority has not been initialised''
      else first_error
        [validate_spec (au_spec a),
         contracts_validate (au_contracts a),
         if \<not> sorted_by gr_grant_id (au_grants a) then
           status_error ScInternal ''grant table is not strictly sorted by id'' else success,
         if \<not> sorted_by at_attempt_id (au_attempts a) then
           status_error ScInternal ''attempt table is not strictly sorted by id'' else success,
         if length (au_grants a) > kMaxGrants then
           status_error ScInternal ''grant table exceeds its configured bound'' else success,
         if length (au_attempts a) > kMaxAttempts then
           status_error ScInternal ''attempt table exceeds its configured bound'' else success,
         (case check_grants a (au_grants a) [] of
            Inl st \<Rightarrow> st
          | Inr m \<Rightarrow> first_error (map (resource_violation (au_spec a)) m)),
         if au_grant_serial a < co_grants (au_counters a) \<and> co_grants (au_counters a) \<noteq> 0 \<and> au_grant_serial a \<noteq> 0
         then status_error ScInternal ''grant allocation counter moved backwards'' else success])"

end
