(* ===== verification/Authority_Inv.thy ===== *)
theory Authority_Inv
  imports Client_Ops Model_Inv
begin

text \<open>
  What every operation of the controller keeps. First the parts of the state that
  answering touches (digest caches, counters, the audit ring), so that everything else
  is known to stand; then the invariant of the tables and its preservation by each
  operation.
\<close>

section \<open>Bookkeeping\<close>

definition sp_core :: "spec \<Rightarrow> spec" where
  "sp_core s = s\<lparr>sp_cached_spec_revision := 0, sp_cached_topology_revision := 0,
     sp_cached_spec_digest := [], sp_cached_topology_digest := []\<rparr>"

definition cs_core :: "contract_set \<Rightarrow> contract_set" where
  "cs_core s = s\<lparr>cs_cached_digest := [], cs_cached_revision := 0, cs_cached_valid := False\<rparr>"

text \<open>The state without the digest caches, the counters and the audit ring.\<close>

definition au_core :: "authority \<Rightarrow> authority" where
  "au_core a = a\<lparr>au_spec := sp_core (au_spec a), au_contracts := cs_core (au_contracts a),
     au_cached_state_digest := [], au_state_digest_valid := False, au_counters := zero_counters, au_audit := []\<rparr>"

lemma sp_core_eqD:
  "sp_core s = sp_core s' \<Longrightarrow> sp_cluster_id s = sp_cluster_id s' \<and> sp_generation s = sp_generation s'
    \<and> sp_epoch s = sp_epoch s' \<and> sp_policy_generation s = sp_policy_generation s'
    \<and> sp_incarnation s = sp_incarnation s' \<and> sp_tick s = sp_tick s' \<and> sp_members s = sp_members s'
    \<and> sp_paths s = sp_paths s' \<and> sp_exclusions s = sp_exclusions s' \<and> sp_obligations s = sp_obligations s'"
  by (cases s, cases s') (simp add: sp_core_def)

lemma au_core_eqD:
  assumes "au_core a = au_core a'"
  shows "au_grants a = au_grants a'" "au_attempts a = au_attempts a'" "au_options a = au_options a'"
    "au_sink a = au_sink a'" "au_grant_serial a = au_grant_serial a'" "au_lease_serial a = au_lease_serial a'"
    "au_recovery a = au_recovery a'" "au_initialized a = au_initialized a'"
    "au_request_digest a = au_request_digest a'"
    "sp_core (au_spec a) = sp_core (au_spec a')" "cs_core (au_contracts a) = cs_core (au_contracts a')"
  using assms by (cases a, cases a', simp add: au_core_def)+

lemma core_spec_digest: "sp_core (snd (spec_digest s)) = sp_core s"
  by (simp add: spec_digest_def sp_core_def Let_def)

lemma core_contracts_digest: "cs_core (snd (contracts_digest s)) = cs_core s"
  by (simp add: contracts_digest_def cs_core_def Let_def)

lemma au_core_updates [simp]:
  "au_core (a\<lparr>au_counters := c\<rparr>) = au_core a" "au_core (a\<lparr>au_audit := l\<rparr>) = au_core a"
  "au_core (a\<lparr>au_state_digest_valid := b\<rparr>) = au_core a" "au_core (a\<lparr>au_cached_state_digest := d\<rparr>) = au_core a"
  by (simp_all add: au_core_def)

lemma core_state_digest: "au_core (snd (state_digest a)) = au_core a"
proof -
  obtain sd sp where s: "spec_digest (au_spec a) = (sd, sp)" by fastforce
  obtain cd cs where c: "contracts_digest (au_contracts a) = (cd, cs)" by fastforce
  have "sp_core sp = sp_core (au_spec a)" "cs_core cs = cs_core (au_contracts a)"
    using core_spec_digest [of "au_spec a"] core_contracts_digest [of "au_contracts a"] s c by simp_all
  then show ?thesis by (simp add: state_digest_def s c Let_def) (simp add: au_core_def)
qed

lemma core_coordinates: "au_core (snd (coordinates rid aid out rs a)) = au_core a"
proof -
  obtain sd sp where s: "spec_digest (au_spec a) = (sd, sp)" by fastforce
  then have "sp_core sp = sp_core (au_spec a)" using core_spec_digest [of "au_spec a"] by simp
  then have sp: "au_core (a\<lparr>au_spec := sp\<rparr>) = au_core a" by (simp add: au_core_def)
  show ?thesis using core_state_digest [of "a\<lparr>au_spec := sp\<rparr>"] sp
    by (auto simp: coordinates_def s Let_def split: prod.splits)
qed

lemma core_make_decision: "au_core (snd (make_decision rid aid out rs a)) = au_core a"
  using core_coordinates [of rid aid out rs a]
  by (auto simp: make_decision_def count_decision_def Let_def split: prod.splits)

lemma core_malformed_decision: "au_core (snd (malformed_decision rid aid st a)) = au_core a"
  using core_coordinates [of rid aid "outcome_for_status st" "[mk_reason (reason_for_status st) (st_message st)]" a]
  by (auto simp: malformed_decision_def Let_def split: prod.splits)

lemma core_finalize: "au_core (snd (finalize_decision op d a)) = au_core a"
  by (simp add: finalize_decision_def record_audit_def Let_def)

lemma core_answer: "au_core (snd (answer op rid aid out rs f a)) = au_core a"
  using core_make_decision [of rid aid out rs a]
  by (auto simp: answer_def core_finalize split: prod.splits)

lemma core_refuse_submit: "au_core (snd (refuse_submit q out rs a)) = au_core a"
  using core_make_decision [of "rq_request_id q" "rq_attempt_id q" out rs a]
  by (auto simp: refuse_submit_def core_finalize count_refusal_def split: prod.splits)

lemma core_replay_attempt: "au_core (snd (replay_attempt t q a)) = au_core a"
  by (simp add: replay_attempt_def Let_def core_answer core_make_decision)

lemmas core_decisions = core_make_decision core_malformed_decision core_finalize core_answer
  core_refuse_submit core_replay_attempt

text \<open>What a decision says, when it was built by \<open>answer\<close>.\<close>

lemma answer_decision:
  assumes "\<And>d. dc_outcome (f d) = dc_outcome d" "\<And>d. dc_reasons (f d) = dc_reasons d"
  shows "dc_outcome (fst (answer op rid aid out rs f a)) = out"
    "dc_reasons (fst (answer op rid aid out rs f a)) = rs"
  using assms
  by (auto simp: answer_def make_decision_def coordinates_def finalize_decision_def Let_def split: prod.splits)

section \<open>Journalling leaves everything but the sink alone\<close>

lemma journal_entry_state: "journal_entry p d a = (st, n, a') \<Longrightarrow> \<exists>s. a' = a\<lparr>au_sink := s\<rparr>"
  by (auto simp: journal_entry_def split: prod.splits)

lemma journal_put_state: "journal_put p a = (st, a') \<Longrightarrow> \<exists>s. a' = a\<lparr>au_sink := s\<rparr>"
  by (auto simp: journal_put_def dest: journal_entry_state split: prod.splits)

text \<open>The sequence number an accepted record gets is the position of the sink, which it moves by one.\<close>

lemma journal_entry_position:
  assumes "journal_entry p d a = (st, n, a')"
  shows "(ok st \<longrightarrow> n = sink_position (au_sink a))
    \<and> sink_position (au_sink a') = (if ok st then sink_position (au_sink a) + 1 else sink_position (au_sink a))"
  using assms any_sink.stamped any_sink.moved
  by (fastforce simp: journal_entry_def split: prod.splits)

section \<open>The invariant of the tables\<close>

definition grant_sane :: "grant \<Rightarrow> bool" where
  "grant_sane g = (gr_capacity_reserved g = holds_capacity (gr_state g)
     \<and> gr_state g \<noteq> GsPrepared \<and> gr_state g \<noteq> GsSuperseded)"

definition authority_inv :: "authority \<Rightarrow> bool" where
  "authority_inv a = (sorted_by gr_grant_id (au_grants a) \<and> length (au_grants a) \<le> kMaxGrants
     \<and> sorted_by at_attempt_id (au_attempts a) \<and> length (au_attempts a) \<le> kMaxAttempts
     \<and> list_all grant_sane (au_grants a) \<and> spec_wf (au_spec a) \<and> contracts_wf (au_contracts a))"

lemma spec_wf_core: "sp_core s = sp_core s' \<Longrightarrow> spec_wf s = spec_wf s'"
  by (auto simp: spec_wf_def dest!: sp_core_eqD)

lemma contracts_wf_core: "cs_core s = cs_core s' \<Longrightarrow> contracts_wf s = contracts_wf s'"
  by (cases s, cases s') (simp add: cs_core_def contracts_wf_def)

lemma inv_core:
  assumes "au_core a = au_core a'"
  shows "authority_inv a = authority_inv a'"
  using au_core_eqD(1,2) [OF assms] spec_wf_core [OF au_core_eqD(10) [OF assms]]
    contracts_wf_core [OF au_core_eqD(11) [OF assms]]
  by (simp add: authority_inv_def)

lemma inv_updates [simp]:
  "authority_inv (a\<lparr>au_sink := s\<rparr>) = authority_inv a"
  "authority_inv (a\<lparr>au_counters := c\<rparr>) = authority_inv a"
  "authority_inv (a\<lparr>au_audit := l\<rparr>) = authority_inv a"
  "authority_inv (a\<lparr>au_state_digest_valid := b\<rparr>) = authority_inv a"
  "authority_inv (a\<lparr>au_request_digest := d\<rparr>) = authority_inv a"
  "authority_inv (a\<lparr>au_grant_serial := n\<rparr>) = authority_inv a"
  "authority_inv (a\<lparr>au_lease_serial := n\<rparr>) = authority_inv a"
  "authority_inv (a\<lparr>au_recovery := r\<rparr>) = authority_inv a"
  "authority_inv (a\<lparr>au_initialized := b\<rparr>) = authority_inv a"
  "authority_inv (a\<lparr>au_options := p\<rparr>) = authority_inv a"
  "authority_inv (stale_digest a) = authority_inv a"
  "authority_inv (count_fence a) = authority_inv a"
  by (simp_all add: authority_inv_def stale_digest_def count_fence_def)

lemma inv_answer [simp]:
  "authority_inv (snd (answer op rid aid out rs f a)) = authority_inv a"
  "authority_inv (snd (make_decision rid aid out rs a)) = authority_inv a"
  "authority_inv (snd (malformed_decision rid aid st a)) = authority_inv a"
  "authority_inv (snd (finalize_decision op d a)) = authority_inv a"
  "authority_inv (snd (refuse_submit q out rs a)) = authority_inv a"
  "authority_inv (snd (replay_attempt t q a)) = authority_inv a"
  by (rule inv_core, rule core_decisions)+

lemma inv_journal: "journal_entry p d a = (st, n, a') \<Longrightarrow> authority_inv a' = authority_inv a"
  by (auto dest: journal_entry_state)

lemma inv_journal_put: "journal_put p a = (st, a') \<Longrightarrow> authority_inv a' = authority_inv a"
  by (auto dest: journal_put_state)

lemma inv_journal_put_snd [simp]: "authority_inv (snd (journal_put p a)) = authority_inv a"
  by (cases "journal_put p a") (simp add: inv_journal_put)

text \<open>Replacing a grant in place.\<close>

lemma inv_set_grant:
  assumes "authority_inv a" "i < length (au_grants a)"
    "gr_grant_id g = gr_grant_id (au_grants a ! i)" "grant_sane g"
  shows "authority_inv (set_grant i g a)" "authority_inv (a\<lparr>au_grants := (au_grants a)[i := g]\<rparr>)"
  using assms
  by (auto simp: authority_inv_def set_grant_def sorted_by_update list_all_length nth_list_update)

lemma inv_set_attempt:
  "authority_inv a \<Longrightarrow> i < length (au_attempts a) \<Longrightarrow> at_attempt_id t = at_attempt_id (au_attempts a ! i) \<Longrightarrow>
   authority_inv (set_attempt i t a)"
  by (simp add: authority_inv_def set_attempt_def sorted_by_update)

lemma inv_upsert_attempt:
  assumes "authority_inv a"
  shows "authority_inv (snd (upsert_attempt t a))"
proof -
  let ?i = "lower_bound_index at_attempt_id (au_attempts a) (at_attempt_id t)"
  have s: "sorted_by at_attempt_id (au_attempts a)" using assms by (simp add: authority_inv_def)
  show ?thesis
  proof (cases "present_at at_attempt_id (au_attempts a) (at_attempt_id t) ?i")
    case True
    then show ?thesis using assms sorted_table_put [OF s, of t]
      by (simp add: upsert_attempt_def Let_def authority_inv_def replace_is_put length_put_replace)
  next
    case False
    then show ?thesis using assms sorted_insert_at [OF s False]
      by (simp add: upsert_attempt_def Let_def authority_inv_def)
  qed
qed

lemma inv_upsert_grant:
  assumes "authority_inv a" "grant_sane g"
  shows "authority_inv (snd (upsert_grant g a))"
proof -
  let ?i = "lower_bound_index gr_grant_id (au_grants a) (gr_grant_id g)"
  have s: "sorted_by gr_grant_id (au_grants a)" "list_all grant_sane (au_grants a)"
    using assms by (simp_all add: authority_inv_def)
  show ?thesis
  proof (cases "present_at gr_grant_id (au_grants a) (gr_grant_id g) ?i")
    case True
    then have i: "?i < length (au_grants a)" "gr_grant_id g = gr_grant_id (au_grants a ! ?i)"
      by (simp_all add: present_at_def)
    then show ?thesis using inv_set_grant(2) [OF assms(1) i assms(2)] True
      by (simp add: upsert_grant_def Let_def)
  next
    case False
    have "list_all grant_sane (insert_at ?i g (au_grants a))"
      using s(2) assms(2) by (auto simp: list_all_iff set_insert_at)
    then show ?thesis using assms(1) sorted_insert_at [OF s(1) False] False
      by (simp add: upsert_grant_def Let_def authority_inv_def)
  qed
qed

lemma inv_change_spec:
  assumes "authority_inv a" "\<And>s. spec_wf s \<Longrightarrow> spec_wf (snd (f s))"
  shows "authority_inv (snd (change_spec f a))"
  using assms by (auto simp: authority_inv_def change_spec_def split: prod.splits) (metis snd_conv)

lemma inv_change_contracts:
  assumes "authority_inv a" "\<And>s. contracts_wf s \<Longrightarrow> contracts_wf (snd (f s))"
  shows "authority_inv (snd (change_contracts f a))"
  using assms by (auto simp: authority_inv_def change_contracts_def split: prod.splits) (metis snd_conv)

lemma inv_try:
  "authority_inv (snd m) \<Longrightarrow> (\<And>a. authority_inv a \<Longrightarrow> authority_inv (snd (k a))) \<Longrightarrow> authority_inv (snd (cif_try m k))"
  by (cases m) (auto simp: cif_try_def)

end
