(* ===== verification/Authority_Steps.thy ===== *)
theory Authority_Steps
  imports Authority_Inv
begin

text \<open>
  How an operation that issues nothing changes the grants and attempts: every grant
  stays at its place under its id with its path, resource and units, ends or loses its
  capacity but never gains any, and does not change at all once it has ended; every
  attempt stays bound to the request it was made for. The relation is transitive, so the
  loops over the grant table inherit it.
\<close>

section \<open>Evolution\<close>

definition evolve :: "grant \<Rightarrow> grant \<Rightarrow> bool" where
  "evolve g g' = (gr_grant_id g' = gr_grant_id g \<and> gr_path_id g' = gr_path_id g
     \<and> gr_resource_id g' = gr_resource_id g \<and> gr_capacity_units g' = gr_capacity_units g
     \<and> gr_attempt_id g' = gr_attempt_id g \<and> gr_lease_id g' = gr_lease_id g
     \<and> (holds_capacity (gr_state g') \<longrightarrow> holds_capacity (gr_state g))
     \<and> (is_terminal (gr_state g) \<longrightarrow> g' = g))"

definition attempts_kept :: "authority \<Rightarrow> authority \<Rightarrow> bool" where
  "attempts_kept a a' = (\<forall>i t. find_attempt a i = Some t \<longrightarrow>
     (\<exists>t'. find_attempt a' i = Some t' \<and> at_request_digest t' = at_request_digest t
        \<and> (at_cancelled t \<longrightarrow> at_cancelled t') \<and> (at_released t \<longrightarrow> at_released t')))"

definition evolves :: "authority \<Rightarrow> authority \<Rightarrow> bool" where
  "evolves a a' = (authority_inv a \<longrightarrow> authority_inv a'
     \<and> list_all2 evolve (au_grants a) (au_grants a') \<and> attempts_kept a a'
     \<and> au_options a' = au_options a \<and> au_grant_serial a' = au_grant_serial a
     \<and> au_initialized a' = au_initialized a)"

lemma evolve_refl [simp]: "evolve g g"
  by (simp add: evolve_def)

lemma evolve_trans: "evolve g g1 \<Longrightarrow> evolve g1 g2 \<Longrightarrow> evolve g g2"
  by (auto simp: evolve_def)

lemma attempts_kept_refl [simp]: "attempts_kept a a"
  by (simp add: attempts_kept_def)

lemma attempts_kept_trans: "attempts_kept a a1 \<Longrightarrow> attempts_kept a1 a2 \<Longrightarrow> attempts_kept a a2"
  unfolding attempts_kept_def by metis

lemma attempts_kept_same: "au_attempts a' = au_attempts a \<Longrightarrow> attempts_kept a a'"
  by (simp add: attempts_kept_def find_attempt_def)

lemma evolves_refl [simp]: "evolves a a"
  by (simp add: evolves_def list_all2_refl)

lemma evolves_trans:
  assumes "evolves a a1" "evolves a1 a2"
  shows "evolves a a2"
  unfolding evolves_def
proof
  assume inv: "authority_inv a"
  have 1: "authority_inv a1" "list_all2 evolve (au_grants a) (au_grants a1)" "attempts_kept a a1"
    "au_options a1 = au_options a" "au_grant_serial a1 = au_grant_serial a" "au_initialized a1 = au_initialized a"
    using assms(1) inv by (simp_all add: evolves_def)
  have 2: "authority_inv a2" "list_all2 evolve (au_grants a1) (au_grants a2)" "attempts_kept a1 a2"
    "au_options a2 = au_options a1" "au_grant_serial a2 = au_grant_serial a1" "au_initialized a2 = au_initialized a1"
    using assms(2) 1(1) by (simp_all add: evolves_def)
  show "authority_inv a2 \<and> list_all2 evolve (au_grants a) (au_grants a2) \<and> attempts_kept a a2
      \<and> au_options a2 = au_options a \<and> au_grant_serial a2 = au_grant_serial a
      \<and> au_initialized a2 = au_initialized a"
    using 1 2 list_all2_trans [OF evolve_trans 1(2) 2(2)] attempts_kept_trans [OF 1(3) 2(3)] by simp
qed

lemma evolves_core:
  assumes "au_core a' = au_core a"
  shows "evolves a a'"
  using au_core_eqD [OF assms] inv_core [OF assms]
  by (simp add: evolves_def list_all2_refl attempts_kept_same)

lemma evolves_same:
  assumes "au_grants a' = au_grants a" "au_attempts a' = au_attempts a" "au_options a' = au_options a"
    "au_grant_serial a' = au_grant_serial a" "au_initialized a' = au_initialized a"
    "authority_inv a \<Longrightarrow> spec_wf (au_spec a') \<and> contracts_wf (au_contracts a')"
  shows "evolves a a'"
  using assms by (auto simp: evolves_def authority_inv_def list_all2_refl attempts_kept_same)

lemma inv_wf: "authority_inv a \<Longrightarrow> spec_wf (au_spec a) \<and> contracts_wf (au_contracts a)"
  by (simp add: authority_inv_def)

lemma evolves_updates:
  "evolves a (a\<lparr>au_sink := s\<rparr>)" "evolves a (a\<lparr>au_counters := c\<rparr>)" "evolves a (stale_digest a)"
  "evolves a (count_fence a)" "evolves a (a\<lparr>au_request_digest := d\<rparr>)"
  by (rule evolves_same; simp add: stale_digest_def count_fence_def inv_wf)+

lemma evolves_answer:
  "evolves a (snd (answer op rid aid out rs f a))" "evolves a (snd (malformed_decision rid aid st a))"
  "evolves a (snd (make_decision rid aid out rs a))" "evolves a (snd (refuse_submit q out rs a))"
  "evolves a (snd (replay_attempt t q a))"
  by (rule evolves_core, rule core_decisions)+

lemma evolves_journal: "journal_entry p d a = (st, n, a') \<Longrightarrow> evolves a a'"
  by (auto dest: journal_entry_state intro: evolves_updates)

lemma evolves_journal_put: "evolves a (snd (journal_put p a))"
  by (cases "journal_put p a") (auto dest: journal_put_state intro: evolves_updates)

lemma evolves_try:
  "evolves a (snd m) \<Longrightarrow> (\<And>a1. m = (success, a1) \<or> snd m = a1 \<Longrightarrow> evolves a1 (snd (k a1))) \<Longrightarrow> evolves a (snd (cif_try m k))"
  by (cases m) (auto simp: cif_try_def intro: evolves_trans)

lemma evolves_tryI:
  "evolves a (snd m) \<Longrightarrow> (\<And>a1. evolves a1 (snd (k a1))) \<Longrightarrow> evolves a (snd (cif_try m k))"
  by (rule evolves_try) auto

lemma evolves_each: "(\<And>i a. evolves a (snd (f i a))) \<Longrightarrow> evolves a (snd (each_grant f is a))"
  by (induction "is" arbitrary: a) (auto intro: evolves_tryI)

text \<open>Replacing one grant by one it may evolve to.\<close>

lemma evolves_set_grant:
  assumes "i < length (au_grants a) \<Longrightarrow> authority_inv a \<Longrightarrow> evolve (au_grants a ! i) g \<and> grant_sane g"
  shows "evolves a (set_grant i g a)" "evolves a (a\<lparr>au_grants := (au_grants a)[i := g]\<rparr>)"
proof -
  have "evolves a (set_grant i g a) \<and> evolves a (a\<lparr>au_grants := (au_grants a)[i := g]\<rparr>)"
  proof (cases "i < length (au_grants a)")
    case True
    then show ?thesis
      using assms inv_set_grant [of a i g]
      by (auto simp: evolves_def set_grant_def attempts_kept_same evolve_def list_all2_conv_all_nth nth_list_update)
  next
    case False
    then have "(au_grants a)[i := g] = au_grants a" by (simp add: list_update_beyond)
    then show ?thesis by (auto simp: set_grant_def intro!: evolves_same simp: inv_wf)
  qed
  then show "evolves a (set_grant i g a)" "evolves a (a\<lparr>au_grants := (au_grants a)[i := g]\<rparr>)" by simp_all
qed

lemma find_upsert_attempt:
  assumes "authority_inv a"
  shows "find_attempt (snd (upsert_attempt t a)) i =
    (if ok (fst (upsert_attempt t a)) \<and> i = at_attempt_id t then Some t else find_attempt a i)"
proof -
  let ?k = "lower_bound_index at_attempt_id (au_attempts a) (at_attempt_id t)"
  have "sorted_by at_attempt_id (au_attempts a)" using assms by (simp add: authority_inv_def)
  note put = find_sorted_put [OF this, of t i]
  show ?thesis
    using put by (auto simp: upsert_attempt_def Let_def find_attempt_def replace_is_put insert_is_put)
qed

lemma evolves_upsert_attempt:
  assumes "authority_inv a \<Longrightarrow> find_attempt a (at_attempt_id t) = Some old \<Longrightarrow> at_request_digest t = at_request_digest old
    \<and> (at_cancelled old \<longrightarrow> at_cancelled t) \<and> (at_released old \<longrightarrow> at_released t)"
    "authority_inv a \<Longrightarrow> find_attempt a (at_attempt_id t) = None \<or> find_attempt a (at_attempt_id t) = Some old"
  shows "evolves a (snd (upsert_attempt t a))"
  unfolding evolves_def
proof
  assume inv: "authority_inv a"
  have "au_grants (snd (upsert_attempt t a)) = au_grants a" "au_options (snd (upsert_attempt t a)) = au_options a"
    "au_grant_serial (snd (upsert_attempt t a)) = au_grant_serial a"
    "au_initialized (snd (upsert_attempt t a)) = au_initialized a"
    by (simp_all add: upsert_attempt_def Let_def)
  moreover have "attempts_kept a (snd (upsert_attempt t a))"
    using assms inv by (auto simp: attempts_kept_def find_upsert_attempt)
  ultimately show "authority_inv (snd (upsert_attempt t a))
      \<and> list_all2 evolve (au_grants a) (au_grants (snd (upsert_attempt t a)))
      \<and> attempts_kept a (snd (upsert_attempt t a)) \<and> au_options (snd (upsert_attempt t a)) = au_options a
      \<and> au_grant_serial (snd (upsert_attempt t a)) = au_grant_serial a
      \<and> au_initialized (snd (upsert_attempt t a)) = au_initialized a"
    using inv_upsert_attempt [OF inv] by (simp add: list_all2_refl)
qed

lemma evolves_set_attempt:
  assumes "k < length (au_attempts a) \<Longrightarrow> at_attempt_id t = at_attempt_id (au_attempts a ! k)
      \<and> at_request_digest t = at_request_digest (au_attempts a ! k)
      \<and> (at_cancelled (au_attempts a ! k) \<longrightarrow> at_cancelled t) \<and> (at_released (au_attempts a ! k) \<longrightarrow> at_released t)"
  shows "evolves a (set_attempt k t a)"
proof (cases "k < length (au_attempts a)")
  case True
  note t = assms [OF True]
  show ?thesis unfolding evolves_def
  proof
    assume inv: "authority_inv a"
    then have s: "sorted_by at_attempt_id (au_attempts a)" by (simp add: authority_inv_def)
    have s': "sorted_by at_attempt_id ((au_attempts a)[k := t])"
      using s True t by (simp add: sorted_by_update)
    have "attempts_kept a (set_attempt k t a)"
      unfolding attempts_kept_def
    proof (intro allI impI)
      fix i u assume u: "find_attempt a i = Some u"
      then obtain j where j: "j < length (au_attempts a)" "au_attempts a ! j = u" "at_attempt_id u = i"
        by (auto simp: find_attempt_def find_sorted_iff [OF s] in_set_conv_nth)
      let ?u = "(au_attempts a)[k := t] ! j"
      have "?u \<in> set ((au_attempts a)[k := t])" using j(1) by (intro nth_mem) simp
      moreover have "at_attempt_id ?u = i" using j t True by (simp add: nth_list_update)
      ultimately have "find_attempt (set_attempt k t a) i = Some ?u"
        using find_sorted_iff [OF s', of i ?u] by (simp add: find_attempt_def set_attempt_def)
      then show "\<exists>t'. find_attempt (set_attempt k t a) i = Some t' \<and> at_request_digest t' = at_request_digest u
          \<and> (at_cancelled u \<longrightarrow> at_cancelled t') \<and> (at_released u \<longrightarrow> at_released t')"
        using j t True by (cases "j = k") auto
    qed
    then show "authority_inv (set_attempt k t a) \<and> list_all2 evolve (au_grants a) (au_grants (set_attempt k t a))
        \<and> attempts_kept a (set_attempt k t a) \<and> au_options (set_attempt k t a) = au_options a
        \<and> au_grant_serial (set_attempt k t a) = au_grant_serial a
        \<and> au_initialized (set_attempt k t a) = au_initialized a"
      using inv_set_attempt [OF inv True] t by (simp add: set_attempt_def list_all2_refl)
  qed
next
  case False
  then have "(au_attempts a)[k := t] = au_attempts a" by (simp add: list_update_beyond)
  then show ?thesis by (auto simp: set_attempt_def intro!: evolves_same simp: inv_wf)
qed

section \<open>Ending, fencing, expiry\<close>

lemma add_reduction_fields [simp]:
  "gr_grant_id (add_reduction c d g) = gr_grant_id g" "gr_path_id (add_reduction c d g) = gr_path_id g"
  "gr_resource_id (add_reduction c d g) = gr_resource_id g" "gr_state (add_reduction c d g) = gr_state g"
  "gr_capacity_units (add_reduction c d g) = gr_capacity_units g"
  "gr_attempt_id (add_reduction c d g) = gr_attempt_id g" "gr_lease_id (add_reduction c d g) = gr_lease_id g"
  "gr_capacity_reserved (add_reduction c d g) = gr_capacity_reserved g"
  "gr_epoch (add_reduction c d g) = gr_epoch g"
  by (simp_all add: add_reduction_def)

lemma ended_grant_fields [simp]:
  "gr_grant_id (ended_grant s c d r g) = gr_grant_id g" "gr_path_id (ended_grant s c d r g) = gr_path_id g"
  "gr_resource_id (ended_grant s c d r g) = gr_resource_id g" "gr_state (ended_grant s c d r g) = s"
  "gr_capacity_units (ended_grant s c d r g) = gr_capacity_units g"
  "gr_attempt_id (ended_grant s c d r g) = gr_attempt_id g" "gr_lease_id (ended_grant s c d r g) = gr_lease_id g"
  "gr_capacity_reserved (ended_grant s c d r g) = (\<not> r \<and> gr_capacity_reserved g)"
  by (auto simp: ended_grant_def Let_def)

lemma ends_evolve:
  assumes "is_terminal s" "s \<noteq> GsSuperseded" "\<not> is_terminal (gr_state g)"
  shows "evolve g ((ended_grant s c d True g)\<lparr>gr_release_sequence := n\<rparr>)
    \<and> grant_sane ((ended_grant s c d True g)\<lparr>gr_release_sequence := n\<rparr>)"
  using assms by (cases s) (simp_all add: evolve_def grant_sane_def life_defs)

lemma evolves_terminate:
  assumes "is_terminal s" "s \<noteq> GsSuperseded" "i < length (au_grants a) \<Longrightarrow> \<not> is_terminal (gr_state (au_grants a ! i))"
  shows "evolves a (snd (terminate_grant i s c d True a))"
proof -
  let ?u = "ended_grant s c d True (au_grants a ! i)"
  obtain st n a1 where j: "journal_entry (JGrantTerminal (grant_mark_of ?u s)) True a = (st, n, a1)"
    by (metis prod_cases3)
  obtain k where a1: "a1 = a\<lparr>au_sink := k\<rparr>" using journal_entry_state [OF j] by blast
  let ?a2 = "a1\<lparr>au_counters := count_ended s (au_counters a1)\<rparr>"
  have "evolves a ?a2" unfolding a1 by (rule evolves_same) (simp_all add: inv_wf)
  moreover have "evolves ?a2 (set_grant i (?u\<lparr>gr_release_sequence := n\<rparr>) ?a2)"
    by (rule evolves_set_grant) (use assms ends_evolve in \<open>auto simp: a1\<close>)
  ultimately have "evolves a (set_grant i (?u\<lparr>gr_release_sequence := n\<rparr>) ?a2)" by (rule evolves_trans)
  then show ?thesis using evolves_journal [OF j] j by (simp add: terminate_grant_def Let_def)
qed

lemma holds_not_terminal: "holds_capacity s \<Longrightarrow> \<not> is_terminal s"
  by (cases s) (simp_all add: life_defs)

lemma live_not_terminal: "is_live s \<Longrightarrow> \<not> is_terminal s"
  by (cases s) (simp_all add: life_defs)

lemma ending_states [simp]:
  "is_terminal GsReleased" "is_terminal GsExpired" "is_terminal GsFenced" "is_terminal GsRevoked"
  by (simp_all add: life_defs)

lemma evolves_fence_all: "evolves a (snd (fence_all c d a))"
  unfolding fence_all_def
  by (rule evolves_tryI [OF evolves_each])
    (auto intro!: evolves_terminate dest: holds_not_terminal
      intro: evolves_trans [OF evolves_updates(4) evolves_updates(3)])

text \<open>Writing an attempt record after its journal entry.\<close>

definition known_or_empty :: "authority \<Rightarrow> string \<Rightarrow> attempt" where
  "known_or_empty a i = (case find_attempt a i of None \<Rightarrow> empty_attempt | Some t \<Rightarrow> t)"

definition attempt_follows :: "attempt \<Rightarrow> attempt \<Rightarrow> bool" where
  "attempt_follows old t = (at_request_digest t = at_request_digest old
     \<and> (at_cancelled old \<longrightarrow> at_cancelled t) \<and> (at_released old \<longrightarrow> at_released t))"

lemma evolves_upsert_follows:
  assumes "attempt_follows (known_or_empty a (at_attempt_id t)) t"
  shows "evolves a (snd (upsert_attempt t a))"
  by (rule evolves_upsert_attempt [where old = "known_or_empty a (at_attempt_id t)"])
    (use assms in \<open>auto simp: known_or_empty_def attempt_follows_def split: option.splits\<close>)

lemma evolves_record_attempt:
  assumes "attempt_follows (known_or_empty a (at_attempt_id t)) t"
  shows "evolves a (snd (cif_try (journal_put p a) (upsert_attempt t)))" "evolves a (record_attempt t a)"
proof -
  obtain st a1 where p: "journal_put p a = (st, a1)" by fastforce
  obtain st' a2 where p': "journal_put (JAttemptTerminal t) a = (st', a2)" by fastforce
  obtain k k' where a12: "a1 = a\<lparr>au_sink := k\<rparr>" "a2 = a\<lparr>au_sink := k'\<rparr>"
    using journal_put_state [OF p] journal_put_state [OF p'] by blast
  have up: "evolves a (snd (upsert_attempt t (a\<lparr>au_sink := s\<rparr>)))" for s
    by (rule evolves_trans [OF evolves_updates(1) evolves_upsert_follows])
      (use assms in \<open>simp add: known_or_empty_def find_attempt_def\<close>)
  show "evolves a (snd (cif_try (journal_put p a) (upsert_attempt t)))"
    using up by (simp add: p a12 cif_try_def evolves_updates)
  show "evolves a (record_attempt t a)"
    using up by (simp add: record_attempt_def p' a12)
qed

lemma evolves_expire_grant: "evolves a (snd (expire_grant now i a))"
proof (cases "is_live (gr_state (au_grants a ! i)) \<and> expired_at (au_grants a ! i) now")
  case True
  show ?thesis
    unfolding expire_grant_def Let_def known_or_empty_def [symmetric]
    by (rule evolves_tryI [OF evolves_terminate evolves_record_attempt(1)] | simp add: True attempt_follows_def
        live_not_terminal)+
qed (auto simp: expire_grant_def Let_def)

lemma evolves_expire_leases: "evolves a (snd (expire_leases a))"
  unfolding expire_leases_def
  by (rule evolves_tryI [OF evolves_each]) (auto intro: evolves_expire_grant evolves_updates)

section \<open>Revalidation\<close>

lemma degrade_for_fields:
  "degrade_for c ms g = Inr u \<Longrightarrow> gr_grant_id u = gr_grant_id g \<and> gr_path_id u = gr_path_id g
    \<and> gr_resource_id u = gr_resource_id g \<and> gr_capacity_units u = gr_capacity_units g
    \<and> gr_attempt_id u = gr_attempt_id g \<and> gr_lease_id u = gr_lease_id g \<and> gr_state u = gr_state g
    \<and> gr_capacity_reserved u = gr_capacity_reserved g \<and> gr_epoch u = gr_epoch g"
  by (induction ms arbitrary: g) (fastforce split: participation.splits)+

lemma evolves_revalidate_grant:
  assumes "i < length (au_grants a) \<Longrightarrow> holds_capacity (gr_state (au_grants a ! i))"
  shows "evolves a (snd (revalidate_grant i r a))"
proof -
  let ?g = "au_grants a ! i"
  have ends: "evolves a (snd (terminate_grant i GsRevoked rc detail True a))" for rc detail
    by (rule evolves_terminate) (use assms in \<open>auto dest: holds_not_terminal\<close>)
  show ?thesis
  proof (cases "standing a ?g")
    case (Inl x)
    then show ?thesis using ends by (simp add: revalidate_grant_def Let_def split: prod.split)
  next
    case (Inr y)
    obtain s d c where y: "y = (s, d, c)" by (metis prod_cases3)
    show ?thesis
    proof (cases "degrade_for c [s, d] ?g")
      case deg: (Inl x)
      then show ?thesis using ends Inr y by (simp add: revalidate_grant_def Let_def split: prod.split)
    next
      case deg: (Inr u)
      let ?u = "if r then reissued (au_spec a) u else u"
      obtain st n a1 where j: "journal_entry (JGrantCommitted (grant_mark_of ?u (gr_state ?u))) True a = (st, n, a1)"
        by (metis prod_cases3)
      obtain k where a1: "a1 = a\<lparr>au_sink := k\<rparr>" using journal_entry_state [OF j] by blast
      let ?v = "if r then ?u\<lparr>gr_commit_sequence := n\<rparr> else ?u"
      have v: "evolve ?g ?v \<and> grant_sane ?v" if "grant_sane ?g" "holds_capacity (gr_state ?g)"
        using degrade_for_fields [OF deg] that
        by (auto simp: evolve_def reissued_def grant_sane_def life_defs)
      have "evolves a1 (set_grant i ?v a1)"
        by (rule evolves_set_grant) (use v assms in \<open>auto simp: a1 authority_inv_def list_all_length\<close>)
      then have "evolves a (set_grant i ?v a1)" by (rule evolves_trans [OF evolves_journal [OF j]])
      then show ?thesis
        using Inr y deg j evolves_journal [OF j]
        by (cases r) (simp_all add: revalidate_grant_def Let_def del: degrade_for.simps)
    qed
  qed
qed

lemma evolvesI: "(authority_inv a \<Longrightarrow> evolves a b) \<Longrightarrow> evolves a b"
  by (auto simp: evolves_def)

lemma sane_live: "grant_sane g \<Longrightarrow> is_live (gr_state g) \<Longrightarrow> holds_capacity (gr_state g)"
  by (auto simp: grant_sane_def life_defs)

lemma inv_sane: "authority_inv a \<Longrightarrow> i < length (au_grants a) \<Longrightarrow> grant_sane (au_grants a ! i)"
  by (simp add: authority_inv_def list_all_length)

lemma evolves_revalidate_live: "evolves a (snd (revalidate_live_grants a))"
  unfolding revalidate_live_grants_def
  by (rule evolves_each) (auto intro!: evolvesI [OF evolves_revalidate_grant] dest: inv_sane sane_live)

section \<open>Changes of the specification\<close>

lemma evolves_change_spec:
  assumes "\<And>s. spec_wf s \<Longrightarrow> spec_wf (snd (f s))"
  shows "evolves a (snd (change_spec f a))"
  by (rule evolves_same) (use assms [of "au_spec a"] in \<open>auto simp: change_spec_def dest: inv_wf split: prod.splits\<close>)

lemma evolves_change_contracts:
  assumes "\<And>s. contracts_wf s \<Longrightarrow> contracts_wf (snd (f s))"
  shows "evolves a (snd (change_contracts f a))"
  by (rule evolves_same) (use assms [of "au_contracts a"] in \<open>auto simp: change_contracts_def dest: inv_wf split: prod.splits\<close>)

lemma evolves_journaled_change:
  "(\<And>a. evolves a (snd (f a))) \<Longrightarrow> evolves a (snd (journaled_change p f a))"
  unfolding journaled_change_def
  by (rule evolves_tryI [OF evolves_journal_put], rule evolves_tryI) (auto intro: evolves_updates)

lemma change_keeps_wf: "spec_change s r \<Longrightarrow> spec_wf (snd r)"
  by (simp add: spec_change_def)

lemmas mutators_keep_wf = change_keeps_wf [OF upsert_member_change(1)] change_keeps_wf [OF upsert_path_change(1)]
  change_keeps_wf [OF upsert_exclusion_change(1)] change_keeps_wf [OF upsert_obligation_change(1)]
  change_keeps_wf [OF remove_member_change] change_keeps_wf [OF set_member_lifecycle_change]
  change_keeps_wf [OF set_path_state_change] change_keeps_wf [OF remove_path_change]
  change_keeps_wf [OF remove_exclusion_change] change_keeps_wf [OF remove_obligation_change]

lemmas journaled_changes = au_upsert_member_def au_remove_member_def au_set_member_lifecycle_def au_upsert_path_def
  au_remove_path_def au_set_path_state_def au_upsert_exclusion_def au_remove_exclusion_def
  au_upsert_obligation_def au_remove_obligation_def au_upsert_contract_def au_remove_contract_def
  au_set_policy_generation_def

lemma evolves_policy_generation: "evolves a (snd (au_set_policy_generation n a))"
proof -
  have "evolves b (snd (journaled_change p (change_spec (\<lambda>s. (success, set_policy_generation n s))) b))" for p b
    by (rule evolves_journaled_change, rule evolves_change_spec) (simp add: set_policy_generation_def note_revision_def)
  then show ?thesis by (simp add: au_set_policy_generation_def)
qed

lemma evolves_advance_tick: "evolves a (snd (au_advance_tick n a))"
  by (auto simp: au_advance_tick_def set_tick_def note_revision_def stale_digest_def inv_wf intro!: evolves_same)

lemma evolves_mutations:
  "evolves a (snd (au_upsert_member m a))" "evolves a (snd (au_remove_member k a))"
  "evolves a (snd (au_set_member_lifecycle k l a))" "evolves a (snd (au_upsert_path p a))"
  "evolves a (snd (au_remove_path k a))" "evolves a (snd (au_set_path_state k ps a))"
  "evolves a (snd (au_upsert_exclusion x a))" "evolves a (snd (au_remove_exclusion k a))"
  "evolves a (snd (au_upsert_obligation ob a))" "evolves a (snd (au_remove_obligation k a))"
  "evolves a (snd (au_upsert_contract c a))" "evolves a (snd (au_remove_contract k a))"
  unfolding journaled_changes
  by (rule evolves_tryI evolves_journaled_change evolves_change_spec evolves_change_contracts
        evolves_revalidate_live mutators_keep_wf contracts_upsert_wf contracts_remove_wf | assumption
      | simp add: evolves_updates)+

section \<open>Release, resolve, acknowledge, cancel\<close>

lemma evolves_then_answer: "evolves a b \<Longrightarrow> evolves a (snd (answer op rid aid out rs f b))"
  by (rule evolves_trans [OF _ evolves_answer(1)])

lemma evolves_if: "evolves a (snd x) \<Longrightarrow> evolves a (snd y) \<Longrightarrow> evolves a (snd (if c then x else y))"
  by simp

lemma evolves_release_attempt: "evolves a (snd (release_attempt i a))"
proof (cases "mutable_attempt a i")
  case (Some k)
  show ?thesis
    by (simp add: release_attempt_def Some Let_def)
      (rule evolves_trans [OF evolves_set_attempt evolves_journal_put], simp)
qed (simp add: release_attempt_def)

lemma evolves_release: "evolves a (snd (release q a))"
proof (cases "release_target q a")
  case (Some i)
  obtain st a1 where t: "terminate_grant i GsReleased RcNone [] True a = (st, a1)" by fastforce
  obtain st' a2 where r: "release_attempt (gr_attempt_id (au_grants a ! i)) a1 = (st', a2)" by fastforce
  have 1: "evolves a a1" if "\<not> is_terminal (gr_state (au_grants a ! i))"
    using evolves_terminate [of GsReleased i a RcNone "[]"] that t by simp
  have 2: "evolves a a2" if "\<not> is_terminal (gr_state (au_grants a ! i))"
    using evolves_trans [OF 1 [OF that] evolves_release_attempt] r by (metis snd_conv)
  show ?thesis
    using 1 2 by (simp add: release_def Let_def Some t r evolves_answer evolves_then_answer)
qed (simp add: release_def Let_def evolves_answer)

lemma evolves_resolve: "evolves a (snd (resolve q a))"
  by (cases "find_attempt a (rv_attempt_id q)") (simp_all add: resolve_def Let_def evolves_answer)

lemma acknowledged_evolves:
  "holds_capacity (gr_state g) \<Longrightarrow> grant_sane g \<Longrightarrow>
   evolve g (acknowledged_grant n g) \<and> grant_sane (acknowledged_grant n g)"
  using holds_not_terminal [of "gr_state g"]
  by (simp add: acknowledged_grant_def evolve_def grant_sane_def) (simp add: life_defs)

lemma evolves_confirm_grant:
  assumes "i < length (au_grants a) \<Longrightarrow> authority_inv a \<Longrightarrow> holds_capacity (gr_state (au_grants a ! i))"
  shows "evolves a (snd (confirm_grant q i a))"
proof -
  let ?g = "au_grants a ! i"
  obtain st n a1 where j: "journal_entry (JGrantAcknowledged (grant_mark_of ?g GsAcknowledged)) True a = (st, n, a1)"
    by (metis prod_cases3)
  obtain k where a1: "a1 = a\<lparr>au_sink := k\<rparr>" using journal_entry_state [OF j] by blast
  have "evolves a1 (set_grant i (acknowledged_grant n ?g) a1)"
    by (rule evolves_set_grant) (use assms acknowledged_evolves inv_sane in \<open>auto simp: a1\<close>)
  then have "evolves a (set_grant i (acknowledged_grant n ?g) a1)" by (rule evolves_trans [OF evolves_journal [OF j]])
  then show ?thesis
    using evolves_journal [OF j] by (simp add: confirm_grant_def Let_def j evolves_then_answer)
qed

lemma evolves_lift_quarantine:
  assumes "holds_capacity (gr_state (au_grants a ! i))"
  shows "evolves a (snd (lift_quarantine q i a))"
proof -
  obtain st a1 where r: "revalidate_grant i True a = (st, a1)" by fastforce
  have 1: "evolves a a1" using evolves_revalidate_grant [of i a True] assms r by simp
  have 2: "evolves a (snd (confirm_grant q i a1))" if "gr_state (au_grants a1 ! i) = GsCommitted"
    by (rule evolves_trans [OF 1 evolves_confirm_grant]) (use that in \<open>simp add: life_defs\<close>)
  show ?thesis using 1 2 by (simp add: lift_quarantine_def Let_def r evolves_then_answer)
qed

lemma evolves_acknowledge: "evolves a (snd (acknowledge q a))"
proof (cases "mutable_grant a (ak_grant_id q)")
  case (Some i)
  let ?s = "gr_state (au_grants a ! i)"
  have "holds_capacity ?s" if "?s \<noteq> GsReleased" "?s \<noteq> GsExpired" "?s \<noteq> GsFenced" "?s \<noteq> GsRevoked"
    "authority_inv a" "i < length (au_grants a)"
    using inv_sane [OF that(5,6)] that by (cases ?s) (auto simp: grant_sane_def life_defs)
  then have "evolves a (snd (confirm_grant q i a))"
    if "?s \<noteq> GsReleased" "?s \<noteq> GsExpired" "?s \<noteq> GsFenced" "?s \<noteq> GsRevoked"
    using that by (intro evolves_confirm_grant) auto
  moreover have "evolves a (snd (lift_quarantine q i a))" if "is_quarantined ?s"
    using that by (intro evolves_lift_quarantine) (simp add: life_defs)
  ultimately show ?thesis by (auto simp: acknowledge_def Let_def Some evolves_answer)
qed (auto simp: acknowledge_def Let_def evolves_answer)

lemma evolves_revoke_cancelled: "evolves a (snd (revoke_cancelled q g a))"
  by (auto simp: revoke_cancelled_def split: option.split intro!: evolves_terminate dest: holds_not_terminal)

lemma evolves_close_attempt: "evolves a (snd (close_attempt q t a))"
proof (cases t)
  case (Some k)
  show ?thesis
  proof -
    obtain st a1 where p: "journal_put (JAttemptCancelled (at_attempt_id (au_attempts a ! k)) (cn_reason q)) a = (st, a1)"
      by fastforce
    obtain s where a1: "a1 = a\<lparr>au_sink := s\<rparr>" using journal_put_state [OF p] by blast
    have "evolves a (set_attempt k ((au_attempts a ! k)\<lparr>at_cancelled := True,
        at_terminal_tick := sp_tick (au_spec a1), at_primary_reason := RcAttemptCancelled\<rparr>) a1)"
      unfolding a1 by (rule evolves_trans [OF evolves_updates(1) evolves_set_attempt]) simp
    then show ?thesis by (simp add: close_attempt_def Some Let_def p cif_try_def) (simp add: a1 evolves_updates)
  qed
qed (simp add: close_attempt_def)

lemma evolves_cancel: "evolves a (snd (cancel q a))"
proof -
  let ?g = "cancel_grant q a"
  obtain st a1 where r: "revoke_cancelled q ?g a = (st, a1)" by fastforce
  have 1: "evolves a a1" using evolves_revoke_cancelled [of a q ?g] r by simp
  have 2: "evolves a x" if "close_attempt q t a1 = (s, x)" for t s x
    using evolves_trans [OF 1 evolves_close_attempt [of a1 q t]] that by simp
  have 3: "evolves a (stale_digest x)" if "close_attempt q t a1 = (s, x)" for t s x
    by (rule evolves_trans [OF 2 [OF that] evolves_updates(3)])
  show ?thesis
    using 1 by (simp add: cancel_def Let_def r evolves_answer evolves_then_answer 2 3 split: prod.split)
qed

end
