(* ===== verification/Capacity.thy ===== *)
theory Capacity
  imports Authority_Steps
begin

text \<open>
  Capacity: the saturating sums of the accounting loops are the true sums cut off at the
  top of the range, and a request that passes the evaluation fits into what is free on
  its path and its resource. The stages of the evaluation are treated with a rule for
  their composition: an early return is never a grant.
\<close>

section \<open>Sums\<close>

definition held :: "(grant \<Rightarrow> bool) \<Rightarrow> grant list \<Rightarrow> nat" where
  "held sel gs = sum_list (map (\<lambda>g. if sel g then unat (gr_capacity_units g) else 0) gs)"

definition on_path :: "string \<Rightarrow> grant \<Rightarrow> bool" where
  "on_path p g = (gr_path_id g = p \<and> holds_capacity (gr_state g))"

definition on_resource :: "string \<Rightarrow> grant \<Rightarrow> bool" where
  "on_resource r g = (gr_resource_id g = r \<and> holds_capacity (gr_state g))"

lemma unat_le_max: "unat (u :: u64) \<le> 2 ^ 64 - 1"
  using unsigned_less [of u, where ?'a = nat] by simp

lemma add_units_exact: "unat (add_units us acc) = min (unat acc + sum_list (map unat us)) (2 ^ 64 - 1)"
proof (induction us arbitrary: acc)
  case Nil
  show ?case using unat_le_max [of acc] by simp
next
  case (Cons u us)
  show ?case
  proof (cases "checked_add acc u")
    case None
    then have "\<not> unat acc + unat u < 2 ^ 64" using checked_add_Some [of acc u] by auto
    then show ?thesis using None by (simp add: unat_u64_max)
  next
    case (Some n)
    then have "unat acc + unat u < 2 ^ 64" "n = acc + u" by (simp_all add: checked_add_Some)
    then have "unat n = unat acc + unat u" by (simp add: unat_word_ariths)
    then show ?thesis using Cons.IH [of n] Some by (simp add: ac_simps)
  qed
qed

lemma held_filter: "sum_list (map unat (map gr_capacity_units (filter sel gs))) = held sel gs"
  by (induction gs) (auto simp: held_def)

lemma units_of_exact: "unat (units_of sel gs) = min (held sel gs) (2 ^ 64 - 1)"
  unfolding units_of_def add_units_exact held_filter by simp

lemma held_append [simp]: "held sel (xs @ ys) = held sel xs + held sel ys"
  by (simp add: held_def)

lemma held_Cons: "held sel (x # xs) = (if sel x then unat (gr_capacity_units x) else 0) + held sel xs"
  by (simp add: held_def)

lemma held_insert_at: "held sel (insert_at i x xs) = (if sel x then unat (gr_capacity_units x) else 0) + held sel xs"
proof -
  have "held sel xs = held sel (take i xs) + held sel (drop i xs)"
    by (metis append_take_drop_id held_append)
  then show ?thesis by (simp add: insert_at_def held_Cons)
qed

lemma held_update:
  assumes "i < length xs"
  shows "held sel (xs[i := x]) \<le> (if sel x then unat (gr_capacity_units x) else 0) + held sel xs"
proof -
  have "held sel xs = held sel (take i xs) + held sel (drop i xs)"
    by (metis append_take_drop_id held_append)
  moreover have "held sel (drop i xs) = held sel [xs ! i] + held sel (drop (Suc i) xs)"
    using Cons_nth_drop_Suc [OF assms] by (metis append_Cons append_Nil held_append)
  ultimately show ?thesis by (simp add: upd_conv_take_nth_drop [OF assms] held_Cons)
qed

lemma held_put: "held sel (table_put key x xs) \<le> (if sel x then unat (gr_capacity_units x) else 0) + held sel xs"
  using held_update [of _ xs sel x] by (auto simp: table_put_def Let_def held_insert_at present_at_def)

text \<open>Evolution never raises what is held.\<close>

lemma held_evolve:
  "list_all2 evolve gs gs' \<Longrightarrow> held (on_path p) gs' \<le> held (on_path p) gs"
  "list_all2 evolve gs gs' \<Longrightarrow> held (on_resource r) gs' \<le> held (on_resource r) gs"
proof -
  have *: "list_all2 evolve gs gs' \<Longrightarrow> (\<And>g g'. evolve g g' \<Longrightarrow> sel g' \<Longrightarrow> sel g) \<Longrightarrow> held sel gs' \<le> held sel gs" for sel
    by (induction rule: list_all2_induct) (fastforce simp: held_Cons held_def [of _ "[]"] evolve_def)+
  show "list_all2 evolve gs gs' \<Longrightarrow> held (on_path p) gs' \<le> held (on_path p) gs"
    "list_all2 evolve gs gs' \<Longrightarrow> held (on_resource r) gs' \<le> held (on_resource r) gs"
    by (rule *; auto simp: on_path_def on_resource_def evolve_def)+
qed

section \<open>Stages\<close>

definition stage_ok :: "(eligibility \<Rightarrow> bool) \<Rightarrow> stage \<Rightarrow> bool" where
  "stage_ok P m = (case m of Inl r \<Rightarrow> \<not> is_authoritative (el_outcome r) | Inr r \<Rightarrow> P r)"

lemma authoritative_simps [simp]:
  "is_authoritative OutGranted" "is_authoritative OutDegraded" "\<not> is_authoritative OutRefused"
  "\<not> is_authoritative OutFenced" "\<not> is_authoritative OutStale" "\<not> is_authoritative OutConflicting"
  "\<not> is_authoritative OutIncomplete" "\<not> is_authoritative OutIndeterminate" "\<not> is_authoritative OutUnknown"
  "\<not> is_authoritative OutUnsupported" "\<not> is_authoritative OutCancelled" "\<not> is_authoritative OutInvalid"
  by (simp_all add: is_authoritative_def)

lemma stage_ok_Inr [simp]: "stage_ok P (Inr r) = P r"
  by (simp add: stage_ok_def)

lemma stage_ok_fail [simp]: "\<not> is_authoritative out \<Longrightarrow> stage_ok P (Inl (hard_fail c d out r))"
  by (simp add: stage_ok_def hard_fail_def)

lemma stage_ok_bind: "stage_ok P m \<Longrightarrow> (\<And>r. P r \<Longrightarrow> stage_ok Q (k r)) \<Longrightarrow> stage_ok Q (stage_bind m k)"
  by (cases m) (simp_all add: stage_ok_def stage_bind_def)

lemma stage_ok_mono: "stage_ok P m \<Longrightarrow> (\<And>r. P r \<Longrightarrow> Q r) \<Longrightarrow> stage_ok Q m"
  by (auto simp: stage_ok_def split: sum.splits)

text \<open>Degrading keeps everything but the list of degradations.\<close>

definition same_choice :: "eligibility \<Rightarrow> eligibility \<Rightarrow> bool" where
  "same_choice r r' = (el_source_member r' = el_source_member r \<and> el_destination_member r' = el_destination_member r
     \<and> el_path r' = el_path r \<and> el_resource r' = el_resource r \<and> el_contract r' = el_contract r
     \<and> el_authorised_units r' = el_authorised_units r)"

lemma same_choice_degrade [simp]: "same_choice r (degrade c d r)" "same_choice r r"
  by (simp_all add: same_choice_def degrade_def)

lemma stage_ok_same:
  assumes "\<And>r. stage_ok (same_choice r) (f r)" "\<And>r r'. same_choice r r' \<Longrightarrow> P r \<Longrightarrow> P r'" "P r"
    "\<And>r. P r \<Longrightarrow> stage_ok Q (k r)"
  shows "stage_ok Q (stage_bind (f r) k)"
  by (rule stage_ok_bind [where P = P, OF stage_ok_mono [OF assms(1)]]) (use assms in blast)+

lemma first_guard_Nil [simp]: "first_guard [] = None"
  by (simp add: first_guard_def)

lemma first_guard_Cons [simp]: "first_guard ((b, x) # gs) = (if b then Some x else first_guard gs)"
  by (simp add: first_guard_def)

lemma stage_ok_check [simp]:
  "stage_ok P (check [] r) = P r"
  "\<not> is_authoritative out \<Longrightarrow> stage_ok P (check ((b, c, d, out) # gs) r) = (b \<or> stage_ok P (check gs r))"
  by (simp_all add: check_def)

lemma stage_lifecycle: "stage_ok (same_choice r) (lifecycle_ok_for l c role r)"
  by (cases l) simp_all

lemma stage_member_exclusion: "stage_ok (same_choice r) (member_exclusion sp m r)"
  by (auto simp: member_exclusion_def split: option.split)

lemma stage_path_state: "stage_ok (same_choice r) (path_state_ok ps c p r)"
  by (cases ps) simp_all

lemma stage_path_exclusion: "stage_ok (same_choice r) (path_exclusion sp p r)"
  by (auto simp: path_exclusion_def split: option.split)

lemma same_choice_trans: "same_choice r s \<Longrightarrow> same_choice s t \<Longrightarrow> same_choice r t"
  by (simp add: same_choice_def)

lemma stage_examine_path: "stage_ok (same_choice r) (examine_path sp c r)"
  by (auto simp: examine_path_def split: option.split
      intro!: stage_ok_bind [OF stage_path_state] stage_ok_mono [OF stage_path_exclusion] elim: same_choice_trans)

lemma stage_locality: "stage_ok (same_choice r) (check_locality c s d r)"
  by (simp add: check_locality_def Let_def same_choice_def)

lemma stage_obligation: "stage_ok (same_choice r) (check_obligation a c k b r)"
  by (simp add: check_obligation_def Let_def)

lemma stage_obligations: "stage_ok (same_choice r) (check_obligations a c k bs r)"
proof (induction bs arbitrary: r)
  case (Cons b bs)
  show ?case
    using stage_ok_mono [OF Cons.IH same_choice_trans]
    by (auto intro!: stage_ok_bind [OF stage_obligation])
qed simp

section \<open>Choosing the path and fitting the units\<close>

lemma select_path_suits:
  assumes "select_path sp q = Some p"
  shows "p \<in> set (sp_paths sp) \<and> path_suits q p"
proof -
  have "foldl (\<lambda>best p. if path_suits q p then better_path best p else best) b ps = Some p \<Longrightarrow>
      b = Some p \<or> (p \<in> set ps \<and> path_suits q p)" for b ps
    by (induction ps arbitrary: b) (fastforce simp: better_path_def split: if_splits option.splits)+
  then show ?thesis using assms by (auto simp: select_path_def)
qed

definition path_joins :: "authority \<Rightarrow> authority_request \<Rightarrow> path \<Rightarrow> bool" where
  "path_joins a q p = (p \<in> set (sp_paths (au_spec a)) \<and> pt_source_member p = rq_source_member q
     \<and> pt_destination_member p = rq_destination_member q
     \<and> (rq_path_id q \<noteq> [] \<longrightarrow> pt_id p = rq_path_id q \<and> pt_generation p = rq_path_generation q))"

definition bound_path :: "authority \<Rightarrow> authority_request \<Rightarrow> eligibility \<Rightarrow> bool" where
  "bound_path a q r = (rq_path_id q \<noteq> [] \<or> op_require_path_binding (au_options a) \<longrightarrow> el_path r \<noteq> None)"

lemma stage_choose_path:
  assumes "el_resource r = None"
  shows "stage_ok (\<lambda>r'. el_source_member r' = el_source_member r \<and> el_destination_member r' = el_destination_member r
     \<and> el_resource r' = None \<and> (\<forall>p. el_path r' = Some p \<longrightarrow> path_joins a q p) \<and> bound_path a q r') (choose_path a q r)"
proof (cases "rq_path_id q = []")
  case True
  then show ?thesis using assms select_path_suits [of "au_spec a" q]
    by (auto simp: choose_path_def path_joins_def path_suits_def bound_path_def split: option.split)
next
  case False
  show ?thesis
  proof (cases "find_path (au_spec a) (rq_path_id q)")
    case (Some p)
    then have "p \<in> set (sp_paths (au_spec a)) \<and> pt_id p = rq_path_id q"
      using find_sorted_Some by (fastforce simp: find_path_def)
    then have "stage_ok (\<lambda>r'. r' = r \<and> path_joins a q p) (check (named_path_guards q p) r)"
      by (simp add: named_path_guards_def path_joins_def)
    then show ?thesis using Some False assms
      by (simp add: choose_path_def) (rule stage_ok_bind, assumption, simp add: bound_path_def)
  qed (use False in \<open>simp add: choose_path_def\<close>)
qed

definition sized :: "authority_request \<Rightarrow> contract \<Rightarrow> eligibility \<Rightarrow> bool" where
  "sized q c r = (ct_min_capacity_units c \<le> el_authorised_units r \<and> el_authorised_units r \<le> wanted_units q c
     \<and> (ct_max_capacity_units c \<noteq> 0 \<longrightarrow> el_authorised_units r \<le> ct_max_capacity_units c))"

lemma stage_size_request:
  "stage_ok (\<lambda>r'. el_source_member r' = el_source_member r \<and> el_destination_member r' = el_destination_member r
     \<and> el_path r' = el_path r \<and> el_resource r' = el_resource r \<and> sized q c r') (size_request q c r)"
  unfolding size_request_def Let_def
  by (rule stage_ok_bind [where P = "\<lambda>r'. same_choice r r'
      \<and> ct_min_capacity_units c \<le> (if ct_max_capacity_units c \<noteq> 0 \<and> wanted_units q c > ct_max_capacity_units c
           then ct_max_capacity_units c else wanted_units q c)"])
    (auto simp: same_choice_def sized_def degrade_def not_less word_gt_0)

lemma stage_fit_units:
  assumes "sized q c r"
  shows "stage_ok (\<lambda>r'. el_source_member r' = el_source_member r \<and> el_destination_member r' = el_destination_member r
     \<and> el_path r' = el_path r \<and> el_resource r' = el_resource r \<and> sized q c r'
     \<and> el_authorised_units r' \<le> el_authorised_units r \<and> el_authorised_units r' \<le> available)
     (fit_units q c what available capacity r)"
  using assms by (auto simp: fit_units_def Let_def degrade_def sized_def not_less)

lemma available_units_exact:
  "unat (available_units capacity (units_of sel gs)) = unat capacity - held sel gs"
proof -
  have *: "unat (available_units c u) = unat c - unat u" for c u :: u64
    by (auto simp: available_units_def word_less_nat_alt unat_sub_if_size)
  show ?thesis unfolding * units_of_exact using unat_le_max [of capacity] by (cases "held sel gs \<le> 2 ^ 64 - 1") auto
qed

definition fits_path :: "authority \<Rightarrow> authority_request \<Rightarrow> eligibility \<Rightarrow> bool" where
  "fits_path a q r = (\<forall>p. el_path r = Some p \<longrightarrow> op_enforce_capacity (au_options a) \<longrightarrow>
     unat (el_authorised_units r) \<le> unat (pt_capacity_units p)
       - held (\<lambda>g. on_path (pt_id p) g \<and> \<not> renews q g) (au_grants a)
     \<and> (pt_exclusive p \<longrightarrow> blocking_holder a q p = None))"

definition fits_resource :: "authority \<Rightarrow> authority_request \<Rightarrow> eligibility \<Rightarrow> bool" where
  "fits_resource a q r = (\<forall>e. el_resource r = Some e \<longrightarrow>
     (\<exists>s. el_source_member r = Some s \<and> find_resource s (rq_resource_id q) = Some e) \<and> re_reservable e
     \<and> (op_enforce_capacity (au_options a) \<longrightarrow>
     unat (el_authorised_units r) \<le> unat (re_total_units e)
       - held (\<lambda>g. on_resource (re_id e) g \<and> \<not> renews q g) (au_grants a)))"

lemma stage_path_capacity:
  assumes "sized q c r" "el_resource r = None"
  shows "stage_ok (\<lambda>r'. el_source_member r' = el_source_member r \<and> el_destination_member r' = el_destination_member r
     \<and> el_path r' = el_path r \<and> el_resource r' = None \<and> sized q c r' \<and> fits_path a q r') (path_capacity a q c r)"
proof (cases "el_path r")
  case (Some p)
  have avail: "unat (available_units (pt_capacity_units p) (committed_on_path a q (pt_id p)))
      = unat (pt_capacity_units p) - held (\<lambda>g. on_path (pt_id p) g \<and> \<not> renews q g) (au_grants a)"
    by (simp add: committed_on_path_def available_units_exact on_path_def)
  show ?thesis
  proof (cases "op_enforce_capacity (au_options a) \<and> (if pt_exclusive p then blocking_holder a q p else None) = None")
    case True
    then have fit: "path_capacity a q c r = fit_units q c (''path '' @ pt_id p)
        (available_units (pt_capacity_units p) (committed_on_path a q (pt_id p))) (pt_capacity_units p) r"
      by (simp add: path_capacity_def Some)
    show ?thesis unfolding fit
      by (rule stage_ok_mono [OF stage_fit_units [OF assms(1)]])
        (use assms True in \<open>auto simp: Some fits_path_def word_le_nat_alt avail split: if_splits\<close>)
  next
    case False
    then show ?thesis using assms
      by (auto simp: path_capacity_def Some fits_path_def split: option.splits if_splits)
  qed
qed (use assms in \<open>simp add: path_capacity_def fits_path_def\<close>)

lemma stage_resource_capacity:
  assumes "sized q c r" "el_resource r = None" "fits_path a q r" "el_source_member r = Some s"
  shows "stage_ok (\<lambda>r'. el_source_member r' = el_source_member r \<and> el_destination_member r' = el_destination_member r
     \<and> el_path r' = el_path r \<and> sized q c r' \<and> fits_path a q r' \<and> fits_resource a q r'
     \<and> (rq_resource_id q \<noteq> [] \<longrightarrow> el_resource r' \<noteq> None)) (resource_capacity a q c s r)"
proof (cases "rq_resource_id q = []")
  case True
  then show ?thesis using assms by (auto simp: resource_capacity_def fits_resource_def split: option.split)
next
  case named: False
  show ?thesis
  proof (cases "find_resource s (rq_resource_id q)")
    case (Some e)
    have avail: "unat (available_units (re_total_units e) (reserved_on_resource a q (re_id e)))
        = unat (re_total_units e) - held (\<lambda>g. on_resource (re_id e) g \<and> \<not> renews q g) (au_grants a)"
      by (simp add: reserved_on_resource_def available_units_exact on_resource_def)
    let ?r = "r\<lparr>el_resource := Some e\<rparr>"
    have s: "sized q c ?r" using assms(1) by (simp add: sized_def)
    have fit: "stage_ok (\<lambda>r'. el_source_member r' = el_source_member r
        \<and> el_destination_member r' = el_destination_member r \<and> el_path r' = el_path r \<and> sized q c r'
        \<and> fits_path a q r' \<and> fits_resource a q r' \<and> el_resource r' \<noteq> None)
      (if \<not> op_enforce_capacity (au_options a) then Inr ?r
       else fit_units q c (''resource '' @ re_id e)
         (available_units (re_total_units e) (reserved_on_resource a q (re_id e))) (re_total_units e) ?r)"
      if "re_reservable e"
    proof (cases "op_enforce_capacity (au_options a)")
      case True
      show ?thesis using True
        by (simp, intro stage_ok_mono [OF stage_fit_units [OF s]])
          (use assms Some that in \<open>fastforce simp: fits_path_def fits_resource_def word_le_nat_alt avail\<close>)
    qed (use assms Some that s in \<open>simp add: fits_path_def fits_resource_def\<close>)
    show ?thesis using named Some
      by (simp add: resource_capacity_def)
        (rule stage_ok_bind [where P = "\<lambda>r'. r' = ?r \<and> re_reservable e"], use fit in auto)
  qed (use named in \<open>simp add: resource_capacity_def\<close>)
qed

definition renewal_ok :: "authority \<Rightarrow> authority_request \<Rightarrow> bool" where
  "renewal_ok a q = (rq_renewal q \<longrightarrow> (\<exists>g. find_grant a (rq_renewal_of q) = Some g \<and> gr_lease_id g = rq_renewal_lease q
     \<and> gr_attempt_id g = rq_attempt_id q \<and> \<not> is_terminal (gr_state g)))"

lemma stage_renewal: "stage_ok (\<lambda>r'. same_choice r r' \<and> renewal_ok a q) (check_renewal a q r)"
  by (auto simp: check_renewal_def renewal_ok_def split: option.split)

section \<open>What a granted evaluation has established\<close>

definition current_endpoint :: "options \<Rightarrow> u64 \<Rightarrow> bytes \<Rightarrow> member \<Rightarrow> bool" where
  "current_endpoint p n dg m = (mb_generation m = n \<and> \<not> lifecycle_terminal (mb_lifecycle m)
     \<and> (digest_is_zero (mb_digest m) \<or> dg = mb_digest m))"

definition grantable :: "authority \<Rightarrow> authority_request \<Rightarrow> contract \<Rightarrow> eligibility \<Rightarrow> bool" where
  "grantable a q c r = (\<exists>s d. el_source_member r = Some s \<and> el_destination_member r = Some d
     \<and> find_member (au_spec a) (rq_source_member q) = Some s
     \<and> find_member (au_spec a) (rq_destination_member q) = Some d
     \<and> current_endpoint (au_options a) (rq_source_member_generation q) (rq_source_member_digest q) s
     \<and> current_endpoint (au_options a) (rq_destination_member_generation q) (rq_destination_member_digest q) d
     \<and> serves s (ct_source_service c) \<and> serves d (ct_destination_service c)
     \<and> (\<forall>p. el_path r = Some p \<longrightarrow> path_joins a q p) \<and> bound_path a q r
     \<and> sized q c r \<and> fits_path a q r \<and> fits_resource a q r
     \<and> (rq_resource_id q \<noteq> [] \<longrightarrow> el_resource r \<noteq> None))"

lemma same_choice_fits:
  "same_choice r r' \<Longrightarrow> sized q c r \<Longrightarrow> sized q c r'"
  "same_choice r r' \<Longrightarrow> fits_path a q r \<Longrightarrow> fits_path a q r'"
  "same_choice r r' \<Longrightarrow> fits_resource a q r \<Longrightarrow> fits_resource a q r'"
  by (simp_all add: same_choice_def sized_def fits_path_def fits_resource_def)

lemma same_choice_grantable: "same_choice r r' \<Longrightarrow> grantable a q c r \<Longrightarrow> grantable a q c r'"
  using same_choice_fits [of r r'] by (auto simp: grantable_def same_choice_def bound_path_def)

lemma evaluate_members_grantable:
  assumes s: "find_member (au_spec a) (rq_source_member q) = Some s"
    and d: "find_member (au_spec a) (rq_destination_member q) = Some d"
  shows "stage_ok (\<lambda>r. grantable a q c r \<and> renewal_ok a q \<and> el_outcome r = OutGranted) (evaluate_members a q c s d)"
proof -
  define here where "here = (\<lambda>r :: eligibility. el_source_member r = Some s \<and> el_destination_member r = Some d)"
  define start where "start = (\<lambda>r :: eligibility. here r \<and> el_resource r = None)"
  define current where "current \<longleftrightarrow>
       current_endpoint (au_options a) (rq_source_member_generation q) (rq_source_member_digest q) s
     \<and> current_endpoint (au_options a) (rq_destination_member_generation q) (rq_destination_member_digest q) d
     \<and> serves s (ct_source_service c) \<and> serves d (ct_destination_service c)"
  define chosen where "chosen = (\<lambda>r :: eligibility. start r \<and> current
     \<and> (\<forall>p. el_path r = Some p \<longrightarrow> path_joins a q p) \<and> bound_path a q r)"
  have keep: "same_choice r r' \<Longrightarrow> start r \<Longrightarrow> start r'" "same_choice r r' \<Longrightarrow> chosen r \<Longrightarrow> chosen r'" for r r'
    by (simp_all add: same_choice_def start_def here_def chosen_def bound_path_def)
  have guards: "stage_ok (\<lambda>r. start r \<and> current) (check (member_guards (au_options a) q c s d)
       ((start_eligibility c)\<lparr>el_source_member := Some s, el_destination_member := Some d\<rparr>))"
    by (auto simp: member_guards_def start_def here_def current_def current_endpoint_def start_eligibility_def)
  show ?thesis
    unfolding evaluate_members_def
    apply (rule stage_ok_bind [OF guards])
    apply (rule stage_ok_same [where P = "\<lambda>r. start r \<and> current", OF stage_lifecycle], blast intro: keep, assumption)
    apply (rule stage_ok_same [where P = "\<lambda>r. start r \<and> current", OF stage_lifecycle], blast intro: keep, assumption)
    apply (rule stage_ok_same [where P = "\<lambda>r. start r \<and> current", OF stage_member_exclusion], blast intro: keep, assumption)
    apply (rule stage_ok_same [where P = "\<lambda>r. start r \<and> current", OF stage_member_exclusion], blast intro: keep, assumption)
    apply (rule stage_ok_bind [where P = chosen], rule stage_ok_mono [OF stage_choose_path])
      apply (simp add: start_def, force simp: chosen_def start_def here_def)
    apply (rule stage_ok_same [where P = chosen, OF stage_examine_path], blast intro: keep, assumption)
    apply (rule stage_ok_same [where P = chosen, OF stage_locality], blast intro: keep, assumption)
    apply (rule stage_ok_bind [where P = "\<lambda>r. chosen r \<and> sized q c r"], rule stage_ok_mono [OF stage_size_request])
     apply (force simp: chosen_def start_def here_def bound_path_def)
    apply (rule stage_ok_bind [where P = "\<lambda>r. chosen r \<and> sized q c r \<and> fits_path a q r"])
     apply (rule stage_ok_mono [OF stage_path_capacity], blast, simp add: chosen_def start_def)
     apply (force simp: chosen_def start_def here_def bound_path_def)
    apply (rule stage_ok_bind [where P = "grantable a q c"])
     apply (rule stage_ok_mono [OF stage_resource_capacity [of q c _ a s]], blast, simp add: chosen_def start_def, blast)
      apply (simp add: chosen_def start_def here_def)
     apply (force simp: chosen_def start_def here_def grantable_def current_def bound_path_def s d)
    apply (rule stage_ok_same [where P = "grantable a q c", OF stage_obligations], blast intro: same_choice_grantable, assumption)
    apply (rule stage_ok_bind [where P = "\<lambda>r. grantable a q c r \<and> renewal_ok a q"], rule stage_ok_mono [OF stage_renewal], blast intro: same_choice_grantable)
    apply (simp add: grantable_def sized_def fits_path_def fits_resource_def bound_path_def)
    done
qed

lemma evaluate_grantable:
  assumes "is_authoritative (el_outcome (evaluate a q c))"
  shows "grantable a q c (evaluate a q c)" "el_outcome (evaluate a q c) = OutGranted" "renewal_ok a q"
proof -
  have fail: "\<not> is_authoritative (el_outcome (hard_fail rc dt OutUnknown r))" for rc dt r by (simp add: hard_fail_def)
  obtain s d where sd: "find_member (au_spec a) (rq_source_member q) = Some s"
    "find_member (au_spec a) (rq_destination_member q) = Some d"
    using assms fail by (fastforce simp: evaluate_def split: option.splits)
  then show "grantable a q c (evaluate a q c)" "el_outcome (evaluate a q c) = OutGranted" "renewal_ok a q"
    using assms evaluate_members_grantable [OF sd, of c]
    by (auto simp: evaluate_def stage_ok_def stage_result_def split: sum.splits)
qed

end
