(* ===== verification/Submit_Props.thy ===== *)
theory Submit_Props
  imports Capacity
begin

text \<open>
  What a submission that is not a renewal does: either the tables stand as they were, or
  exactly one grant is entered, under an identifier never used before, within the
  capacity of its path and resource, after its two records were written one behind the
  other.
\<close>

section \<open>Minted identifiers\<close>

lemma parse_serial: "parse_loop cs v = Some w \<Longrightarrow> serial_loop cs v = w"
  by (induction cs arbitrary: v) (auto simp: Let_def split: if_splits)

lemma digits_suffix: "list_all is_digit ds \<Longrightarrow> \<not> is_digit c \<Longrightarrow> rev (takeWhile is_digit (rev (xs @ c # ds))) = ds"
proof -
  assume "list_all is_digit ds" "\<not> is_digit c"
  then have "takeWhile is_digit (rev ds @ c # rev xs) = rev ds"
    by (subst takeWhile_append2) (auto simp: list_all_iff)
  then show ?thesis by simp
qed

lemma serial_suffix_minted: "serial_suffix (''g-'' @ to_decimal n) = n" "serial_suffix (''l-'' @ to_decimal n) = n"
proof -
  have "parse_loop (to_decimal n) 0 = Some n"
    using parse_to_decimal [of n] by (simp add: parse_decimal_u64_def split: if_splits)
  then have loop: "serial_loop (to_decimal n) 0 = n" by (rule parse_serial)
  have dash: "\<not> is_digit (CHR ''-'')" by (simp add: is_digit_iff)
  show "serial_suffix (''g-'' @ to_decimal n) = n" "serial_suffix (''l-'' @ to_decimal n) = n"
    using digits_suffix [OF to_decimal_digits dash, of "''g''" n] digits_suffix [OF to_decimal_digits dash, of "''l''" n]
    by (simp_all add: serial_suffix_def loop)
qed

lemma minted_valid: "is_valid_id (''g-'' @ to_decimal n)" "is_valid_id (''l-'' @ to_decimal n)"
proof -
  have "list_all identifier_char (to_decimal n)"
    using to_decimal_digits [of n] by (auto simp: list_all_iff is_digit_identifier_char)
  moreover have "list_all identifier_char ''gl-''" by code_simp
  ultimately show "is_valid_id (''g-'' @ to_decimal n)" "is_valid_id (''l-'' @ to_decimal n)"
    using to_decimal_length [of n] by (simp_all add: is_valid_id_def is_valid_identifier_def kMaxIdentifierBytes_def)
qed

definition serials_cover :: "authority \<Rightarrow> bool" where
  "serials_cover a = (\<forall>g\<in>set (au_grants a). serial_suffix (gr_grant_id g) \<le> au_grant_serial a)"

definition controller_inv :: "authority \<Rightarrow> bool" where
  "controller_inv a = (authority_inv a \<and> serials_cover a)"

lemma minted_fresh:
  assumes "serials_cover a" "au_grant_serial a \<noteq> u64_max"
  shows "''g-'' @ to_decimal (au_grant_serial a + 1) \<notin> gr_grant_id ` set (au_grants a)"
proof
  assume "''g-'' @ to_decimal (au_grant_serial a + 1) \<in> gr_grant_id ` set (au_grants a)"
  then have "serial_suffix (''g-'' @ to_decimal (au_grant_serial a + 1)) \<le> au_grant_serial a"
    using assms(1) by (auto simp: serials_cover_def)
  then have "au_grant_serial a + 1 \<le> au_grant_serial a" by (simp only: serial_suffix_minted)
  moreover have "au_grant_serial a < au_grant_serial a + 1"
    using assms(2) advanced_less [of "au_grant_serial a"] by (simp add: can_advance_def advanced_def)
  ultimately show False by simp
qed

section \<open>The commit\<close>

definition committed_grant :: "grant \<Rightarrow> u64 \<Rightarrow> u64 \<Rightarrow> grant" where
  "committed_grant g now n = g\<lparr>gr_lease_issued := now, gr_state := GsCommitted, gr_commit := CsCommitted,
     gr_prepare_sequence := n, gr_commit_sequence := n + 1, gr_capacity_reserved := True\<rparr>"

lemma upsert_grant_cases:
  "(\<not> ok (fst (upsert_grant g a)) \<and> snd (upsert_grant g a) = a)
   \<or> upsert_grant g a = (success, a\<lparr>au_grants := table_put gr_grant_id g (au_grants a), au_state_digest_valid := False\<rparr>)
     \<and> (length (au_grants a) \<le> kMaxGrants \<longrightarrow> length (table_put gr_grant_id g (au_grants a)) \<le> kMaxGrants)"
  by (auto simp: upsert_grant_def Let_def replace_is_put insert_is_put put_bounded)

lemma upsert_attempt_cases:
  "(\<not> ok (fst (upsert_attempt t a)) \<and> snd (upsert_attempt t a) = a)
   \<or> upsert_attempt t a = (success, a\<lparr>au_attempts := table_put at_attempt_id t (au_attempts a), au_state_digest_valid := False\<rparr>)
     \<and> (length (au_attempts a) \<le> kMaxAttempts \<longrightarrow> length (table_put at_attempt_id t (au_attempts a)) \<le> kMaxAttempts)"
  by (auto simp: upsert_attempt_def Let_def replace_is_put insert_is_put put_bounded)

text \<open>Nothing but the sink moved, or the grant is in its table, and its attempt too unless the commit failed.\<close>

definition enters :: "grant \<Rightarrow> attempt \<Rightarrow> authority \<Rightarrow> bool \<Rightarrow> authority \<Rightarrow> bool" where
  "enters g t a bound a' = (\<exists>T s. au_core a' = au_core (a\<lparr>au_grants := table_put gr_grant_id g (au_grants a),
       au_attempts := T, au_sink := s\<rparr>)
     \<and> (length (au_grants a) \<le> kMaxGrants \<longrightarrow> length (table_put gr_grant_id g (au_grants a)) \<le> kMaxGrants)
     \<and> (T = table_put at_attempt_id t (au_attempts a)
           \<and> (length (au_attempts a) \<le> kMaxAttempts \<longrightarrow> length T \<le> kMaxAttempts)
         \<or> T = au_attempts a \<and> \<not> bound))"

lemma commit_effect:
  assumes "commit_grant g0 d a = (st, dn, a')"
  defines "g \<equiv> committed_grant g0 (sp_tick (au_spec a)) (sink_position (au_sink a))"
  shows "(\<exists>s. a' = a\<lparr>au_sink := s\<rparr>) \<and> (ok st \<longrightarrow> dc_outcome dn = OutIndeterminate \<and> dc_grant dn = dc_grant d)
    \<or> enters g (attempt_of_commit g d (sp_tick (au_spec a)) (au_request_digest a)) a (ok st) a'
      \<and> (ok st \<longrightarrow> dc_outcome dn = gr_outcome g \<and> dc_grant dn = Some g)"
proof -
  let ?now = "sp_tick (au_spec a)"
  let ?t = "attempt_of_commit g d ?now (au_request_digest a)"
  let ?p = "g0\<lparr>gr_lease_issued := ?now, gr_state := GsPrepared, gr_commit := CsPrepared\<rparr>"
  obtain st1 n a1 where j1: "journal_entry (JGrantPrepared (grant_mark_of ?p GsPrepared)) True a = (st1, n, a1)"
    by (metis prod_cases3)
  obtain s1 where a1: "a1 = a\<lparr>au_sink := s1\<rparr>" using journal_entry_state [OF j1] by blast
  show ?thesis
  proof (cases "ok st1")
    case False
    then show ?thesis using assms(1) j1 a1 by (auto simp: commit_grant_def Let_def undecided_def)
  next
    case ok1: True
    let ?c = "?p\<lparr>gr_prepare_sequence := n, gr_state := GsCommitted, gr_commit := CsCommitted\<rparr>"
    obtain st2 m a2 where j2: "journal_entry (JGrantCommitted (grant_mark_of ?c GsCommitted)) True a1 = (st2, m, a2)"
      by (metis prod_cases3)
    obtain s2 where a2: "a2 = a\<lparr>au_sink := s2\<rparr>" using journal_entry_state [OF j2] a1 by auto
    show ?thesis
    proof (cases "ok st2")
      case False
      then show ?thesis using assms(1) j1 j2 a2 ok1 by (auto simp: commit_grant_def Let_def undecided_def)
    next
      case ok2: True
      have "n = sink_position (au_sink a)" "m = n + 1"
        using journal_entry_position [OF j1] journal_entry_position [OF j2] ok1 ok2 by simp_all
      then have g: "?c\<lparr>gr_commit_sequence := m, gr_capacity_reserved := holds_capacity GsCommitted\<rparr> = g"
        by (simp add: g_def committed_grant_def life_defs)
      let ?r = "cif_try (upsert_grant g a2) (\<lambda>a. cif_try (upsert_attempt ?t a) (journal_put (JAttemptTerminal ?t)))"
      have commit: "commit_grant g0 d a = (case ?r of (st, a3) \<Rightarrow> if \<not> ok st then (st, d, a3)
          else (success, d\<lparr>dc_outcome := gr_outcome g, dc_grant := Some g\<rparr>, stale_digest a3))"
        unfolding commit_grant_def Let_def j1 j2 prod.case g using ok1 ok2 by simp
      consider (full) "\<not> ok (fst (upsert_grant g a2))" "snd (upsert_grant g a2) = a2"
        | (put) "upsert_grant g a2 = (success, a2\<lparr>au_grants := table_put gr_grant_id g (au_grants a), au_state_digest_valid := False\<rparr>)"
            "length (au_grants a) \<le> kMaxGrants \<longrightarrow> length (table_put gr_grant_id g (au_grants a)) \<le> kMaxGrants"
        using upsert_grant_cases [of g a2] a2 by auto
      then show ?thesis
      proof cases
        case full
        then have "?r = (fst (upsert_grant g a2), a2)" by (cases "upsert_grant g a2") (simp add: cif_try_def)
        then show ?thesis using assms(1) commit full a2 by auto
      next
        case g_put: put
        let ?a3 = "a2\<lparr>au_grants := table_put gr_grant_id g (au_grants a), au_state_digest_valid := False\<rparr>"
        have r: "?r = cif_try (upsert_attempt ?t ?a3) (journal_put (JAttemptTerminal ?t))"
          using g_put by (simp add: cif_try_def)
        consider (full) "\<not> ok (fst (upsert_attempt ?t ?a3))" "snd (upsert_attempt ?t ?a3) = ?a3"
          | (put) "upsert_attempt ?t ?a3 = (success, ?a3\<lparr>au_attempts := table_put at_attempt_id ?t (au_attempts a), au_state_digest_valid := False\<rparr>)"
              "length (au_attempts a) \<le> kMaxAttempts \<longrightarrow> length (table_put at_attempt_id ?t (au_attempts a)) \<le> kMaxAttempts"
          using upsert_attempt_cases [of ?t ?a3] a2 by auto
        then show ?thesis
        proof cases
          case full
          then have "?r = (fst (upsert_attempt ?t ?a3), ?a3)"
            unfolding r by (cases "upsert_attempt ?t ?a3") (simp add: cif_try_def)
          then have res: "st = fst (upsert_attempt ?t ?a3)" "a' = ?a3" using assms(1) commit full by auto
          have "enters g ?t a (ok st) a'"
            unfolding enters_def by (rule exI [of _ "au_attempts a"], rule exI [of _ s2])
              (use full res g_put in \<open>simp add: a2 au_core_def\<close>)
          then show ?thesis using full res by simp
        next
          case put
          let ?a4 = "?a3\<lparr>au_attempts := table_put at_attempt_id ?t (au_attempts a), au_state_digest_valid := False\<rparr>"
          obtain st5 a5 where p: "journal_put (JAttemptTerminal ?t) ?a4 = (st5, a5)" by fastforce
          obtain s5 where a5: "a5 = ?a4\<lparr>au_sink := s5\<rparr>" using journal_put_state [OF p] by blast
          have "?r = (st5, a5)" unfolding r using put p by (simp add: cif_try_def)
          then have res: "a' = (if ok st5 then stale_digest a5 else a5)"
            "ok st \<longrightarrow> dn = d\<lparr>dc_outcome := gr_outcome g, dc_grant := Some g\<rparr>"
            using assms(1) commit by (auto split: if_splits)
          have "enters g ?t a (ok st) a'"
            unfolding enters_def by (rule exI [of _ "table_put at_attempt_id ?t (au_attempts a)"], rule exI [of _ s5])
              (use g_put put in \<open>simp add: res(1) a5 a2 stale_digest_def au_core_def\<close>)
          then show ?thesis using res by simp
        qed
      qed
    qed
  qed
qed

section \<open>Issuing\<close>

text \<open>The state with a request being decided and its identifiers minted.\<close>

definition issues :: "authority_request \<Rightarrow> authority \<Rightarrow> grant \<Rightarrow> bool \<Rightarrow> authority \<Rightarrow> bool" where
  "issues q a g bound a' = (\<exists>c r t T s.
     contracts_find (au_contracts a) (rq_contract_id q) = Some c \<and> grantable a q c r
     \<and> gr_grant_id g = ''g-'' @ to_decimal (au_grant_serial a + 1)
     \<and> gr_lease_id g = ''l-'' @ to_decimal (au_lease_serial a + 1)
     \<and> gr_attempt_id g = rq_attempt_id q \<and> gr_state g = GsCommitted \<and> gr_capacity_reserved g
     \<and> is_authoritative (gr_outcome g) \<and> gr_epoch g = sp_epoch (au_spec a)
     \<and> gr_path_id g = (case el_path r of None \<Rightarrow> [] | Some p \<Rightarrow> pt_id p)
     \<and> gr_resource_id g = (case el_resource r of None \<Rightarrow> [] | Some e \<Rightarrow> re_id e)
     \<and> gr_capacity_units g = el_authorised_units r
     \<and> gr_prepare_sequence g = sink_position (au_sink a) \<and> gr_commit_sequence g = sink_position (au_sink a) + 1
     \<and> gr_lease_issued g = sp_tick (au_spec a)
     \<and> (\<exists>l. l \<le> op_max_lease_ticks (au_options a) \<and> gr_lease_expiry g = sp_tick (au_spec a) + l)
     \<and> at_attempt_id t = rq_attempt_id q \<and> at_request_digest t = authority_request_digest q
     \<and> \<not> at_cancelled t \<and> \<not> at_released t \<and> at_grant_id t = gr_grant_id g
     \<and> au_core a' = au_core (a\<lparr>au_grants := table_put gr_grant_id g (au_grants a), au_attempts := T, au_sink := s,
          au_request_digest := authority_request_digest q, au_grant_serial := au_grant_serial a + 1,
          au_lease_serial := au_lease_serial a + 1\<rparr>)
     \<and> (length (au_grants a) \<le> kMaxGrants \<longrightarrow> length (table_put gr_grant_id g (au_grants a)) \<le> kMaxGrants)
     \<and> (T = table_put at_attempt_id t (au_attempts a)
           \<and> (length (au_attempts a) \<le> kMaxAttempts \<longrightarrow> length T \<le> kMaxAttempts)
         \<or> T = au_attempts a \<and> \<not> bound))"

text \<open>The tables and the rules stand; only the sink, the serials and the digest of the request may have moved.\<close>

definition refuses :: "authority \<Rightarrow> authority \<Rightarrow> bool" where
  "refuses a a' = (\<exists>s d n m. au_core a' = au_core (a\<lparr>au_sink := s, au_request_digest := d, au_grant_serial := n,
       au_lease_serial := m\<rparr>)
     \<and> (n = au_grant_serial a \<or> n = au_grant_serial a + 1))"

lemma refuses_core: "au_core a' = au_core a \<Longrightarrow> refuses a a'"
  unfolding refuses_def
  by (rule exI [of _ "au_sink a"], rule exI [of _ "au_request_digest a"], rule exI [of _ "au_grant_serial a"],
      rule exI [of _ "au_lease_serial a"]) simp

lemma grantable_request_digest: "grantable (a\<lparr>au_request_digest := d\<rparr>) q c r = grantable a q c r"
  by (simp add: grantable_def path_joins_def bound_path_def fits_path_def fits_resource_def blocking_holder_def
      live_grants_for_path_def)

lemma finalize_outcome: "dc_outcome (fst (finalize_decision op d a)) = dc_outcome d"
  "dc_grant (fst (finalize_decision op d a)) = dc_grant d"
  "dc_idempotent_replay (fst (finalize_decision op d a)) = dc_idempotent_replay d"
  by (simp_all add: finalize_decision_def Let_def)

lemma refuse_submit_outcome: "dc_outcome (fst (refuse_submit q out rs a)) = out"
  by (auto simp: refuse_submit_def finalize_outcome make_decision_def coordinates_def Let_def split: prod.splits)

text \<open>The state in which a grant is built: both identifiers minted.\<close>

definition minted :: "authority_request \<Rightarrow> authority \<Rightarrow> authority" where
  "minted q a = snd (mint_lease_id (snd (mint_grant_id (a\<lparr>au_request_digest := authority_request_digest q\<rparr>))))"

lemma minted_core:
  "au_core (minted q a) = au_core (a\<lparr>au_request_digest := authority_request_digest q,
     au_grant_serial := au_grant_serial a + 1, au_lease_serial := au_lease_serial a + 1\<rparr>)"
  by (simp add: minted_def mint_grant_id_def mint_lease_id_def Let_def au_core_def)

lemma au_core_push:
  "au_core (x\<lparr>au_sink := s\<rparr>) = (au_core x)\<lparr>au_sink := s\<rparr>"
  "au_core (x\<lparr>au_grants := gs\<rparr>) = (au_core x)\<lparr>au_grants := gs\<rparr>"
  "au_core (x\<lparr>au_attempts := ts\<rparr>) = (au_core x)\<lparr>au_attempts := ts\<rparr>"
  by (simp_all add: au_core_def)

lemma minted_fields [simp]:
  "au_spec (minted q a) = au_spec a" "au_options (minted q a) = au_options a" "au_sink (minted q a) = au_sink a"
  "au_grants (minted q a) = au_grants a" "au_attempts (minted q a) = au_attempts a"
  "au_request_digest (minted q a) = authority_request_digest q"
  by (simp_all add: minted_def mint_grant_id_def mint_lease_id_def Let_def)

definition grant_to_commit :: "authority_request \<Rightarrow> contract \<Rightarrow> eligibility \<Rightarrow> member \<Rightarrow> member \<Rightarrow> authority \<Rightarrow> grant" where
  "grant_to_commit q c r s d a =
     (new_grant (minted q a) q c r s d (if el_degradations r \<noteq> [] then OutDegraded else OutGranted)
        (''g-'' @ to_decimal (au_grant_serial a + 1)) (''l-'' @ to_decimal (au_lease_serial a + 1)))
       \<lparr>gr_lease_expiry := sp_tick (au_spec a) + lease_of (au_options a) q\<rparr>"

lemma issue_grant_unfold:
  "issue_grant q c r s d (a\<lparr>au_request_digest := authority_request_digest q\<rparr>) =
    (if lease_of (au_options a) q > op_max_lease_ticks (au_options a) then
       refuse_submit q OutRefused [mk_reason RcLimitExceeded ''requested lease exceeds the configured maximum''] (minted q a)
     else case commit_grant (grant_to_commit q c r s d a) empty_decision (minted q a) of (st, dn, a2) \<Rightarrow>
       if \<not> ok st then
         answer ''submit'' (rq_request_id q) (rq_attempt_id q) OutRefused [mk_reason RcLimitExceeded (st_message st)] id a2
       else let d1 = dn\<lparr>dc_request_id := rq_request_id q, dc_attempt_id := rq_attempt_id q\<rparr> in
         finalize_decision ''submit''
           (if dc_outcome d1 = OutDegraded then d1\<lparr>dc_reasons := el_degradations r\<rparr> else d1) a2)"
proof -
  let ?a0 = "a\<lparr>au_request_digest := authority_request_digest q\<rparr>"
  define b where "b = snd (mint_grant_id ?a0)"
  have m: "mint_grant_id ?a0 = (''g-'' @ to_decimal (au_grant_serial a + 1), b)"
    "mint_lease_id b = (''l-'' @ to_decimal (au_lease_serial a + 1), minted q a)"
    by (simp_all add: b_def minted_def mint_grant_id_def mint_lease_id_def Let_def)
  have v: "id_from_validated (''g-'' @ to_decimal (au_grant_serial a + 1)) = ''g-'' @ to_decimal (au_grant_serial a + 1)"
    "id_from_validated (''l-'' @ to_decimal (au_lease_serial a + 1)) = ''l-'' @ to_decimal (au_lease_serial a + 1)"
    using minted_valid by (simp_all only: id_from_validated_def if_True)
  show ?thesis
    unfolding issue_grant_def m prod.case v Let_def minted_fields grant_to_commit_def by (rule refl)
qed

lemma issue_grant_effect:
  assumes r: "grantable a q c r" "contracts_find (au_contracts a) (rq_contract_id q) = Some c"
    and run: "issue_grant q c r s d (a\<lparr>au_request_digest := authority_request_digest q\<rparr>) = (dn, a')"
  shows "refuses a a' \<and> \<not> is_authoritative (dc_outcome dn)
    \<or> (\<exists>g bound. issues q a g bound a' \<and> is_authoritative (dc_outcome dn) = bound
        \<and> (bound \<longrightarrow> dc_outcome dn = gr_outcome g \<and> dc_grant dn = Some g))"
proof (cases "lease_of (au_options a) q > op_max_lease_ticks (au_options a)")
  case True
  let ?rs = "[mk_reason RcLimitExceeded ''requested lease exceeds the configured maximum'']"
  have res: "(dn, a') = refuse_submit q OutRefused ?rs (minted q a)" using run True by (simp add: issue_grant_unfold)
  have "au_core a' = au_core (minted q a)" using core_refuse_submit res by (metis snd_conv)
  then have "refuses a a'" unfolding refuses_def minted_core
    by (intro exI [of _ "au_sink a"] exI [of _ "authority_request_digest q"] exI [of _ "au_grant_serial a + 1"]
        exI [of _ "au_lease_serial a + 1"]) simp
  moreover have "dc_outcome dn = OutRefused" using refuse_submit_outcome res by (metis fst_conv)
  ultimately show ?thesis by simp
next
  case lease: False
  let ?g0 = "grant_to_commit q c r s d a"
  obtain st d1 a2 where k: "commit_grant ?g0 empty_decision (minted q a) = (st, d1, a2)" by (metis prod_cases3)
  let ?g = "committed_grant ?g0 (sp_tick (au_spec a)) (sink_position (au_sink a))"
  let ?t = "attempt_of_commit ?g empty_decision (sp_tick (au_spec a)) (authority_request_digest q)"
  have run': "dn = fst (issue_grant q c r s d (a\<lparr>au_request_digest := authority_request_digest q\<rparr>))"
    "a' = snd (issue_grant q c r s d (a\<lparr>au_request_digest := authority_request_digest q\<rparr>))"
    using run by simp_all
  have a': "au_core a' = au_core a2"
    unfolding run' issue_grant_unfold using lease by (simp add: k Let_def core_decisions)
  have dn: "ok st \<longrightarrow> dc_outcome dn = dc_outcome d1 \<and> dc_grant dn = dc_grant d1" "\<not> ok st \<longrightarrow> dc_outcome dn = OutRefused"
    unfolding run' issue_grant_unfold using lease by (simp_all add: k Let_def finalize_outcome answer_decision)
  consider (undone) s where "a2 = minted q a\<lparr>au_sink := s\<rparr>" "ok st \<longrightarrow> dc_outcome d1 = OutIndeterminate"
    | (committed) "enters ?g ?t (minted q a) (ok st) a2" "ok st \<longrightarrow> dc_outcome d1 = gr_outcome ?g \<and> dc_grant d1 = Some ?g"
    using commit_effect [OF k] by (simp only: minted_fields) blast
  then show ?thesis
  proof cases
    case s: (undone s)
    have "au_core a' = au_core (a\<lparr>au_sink := s, au_request_digest := authority_request_digest q,
        au_grant_serial := au_grant_serial a + 1, au_lease_serial := au_lease_serial a + 1\<rparr>)"
      unfolding a' s(1) au_core_push minted_core by (simp add: au_core_def)
    then have "refuses a a'" unfolding refuses_def by blast
    then show ?thesis using dn s(2) by (cases "ok st") auto
  next
    case e: committed
    note d1 = e(2)
    obtain T s' where T: "au_core a2 = au_core (minted q a\<lparr>au_grants := table_put gr_grant_id ?g (au_grants a),
        au_attempts := T, au_sink := s'\<rparr>)"
      "length (au_grants a) \<le> kMaxGrants \<longrightarrow> length (table_put gr_grant_id ?g (au_grants a)) \<le> kMaxGrants"
      "T = table_put at_attempt_id ?t (au_attempts a) \<and> (length (au_attempts a) \<le> kMaxAttempts \<longrightarrow> length T \<le> kMaxAttempts)
       \<or> T = au_attempts a \<and> \<not> ok st"
      using e(1) by (auto simp: enters_def)
    have core: "au_core a' = au_core (a\<lparr>au_grants := table_put gr_grant_id ?g (au_grants a), au_attempts := T,
        au_sink := s', au_request_digest := authority_request_digest q, au_grant_serial := au_grant_serial a + 1,
        au_lease_serial := au_lease_serial a + 1\<rparr>)"
      unfolding a' T(1) au_core_push minted_core by (simp add: au_core_def)
    have "issues q a ?g (ok st) a'"
      unfolding issues_def
      apply (rule exI [of _ c], rule exI [of _ r], rule exI [of _ ?t], rule exI [of _ T], rule exI [of _ s'])
      using core T(2,3) r lease
      by (auto simp: committed_grant_def grant_to_commit_def new_grant_def attempt_of_commit_def empty_attempt_def
          not_less split: option.split)
    moreover have "is_authoritative (gr_outcome ?g)"
      by (simp add: committed_grant_def grant_to_commit_def new_grant_def)
    ultimately show ?thesis using dn d1 by (cases "ok st") auto
  qed
qed

section \<open>Submit\<close>

lemma decide_fresh_effect:
  assumes c: "contracts_find (au_contracts a) (rq_contract_id q) = Some c"
    and run: "decide_fresh q c (a\<lparr>au_request_digest := authority_request_digest q\<rparr>) = (dn, a')"
  shows "refuses a a' \<and> \<not> is_authoritative (dc_outcome dn)
    \<or> (\<exists>g bound. issues q a g bound a' \<and> is_authoritative (dc_outcome dn) = bound
        \<and> (bound \<longrightarrow> dc_outcome dn = gr_outcome g \<and> dc_grant dn = Some g))"
proof -
  let ?a = "a\<lparr>au_request_digest := authority_request_digest q\<rparr>"
  let ?r = "evaluate ?a q c"
  have refuse: "refuses a b \<and> \<not> is_authoritative (dc_outcome d)"
    if "refuse_submit q out rs ?a = (d, b)" "\<not> is_authoritative out" for out rs d b
  proof -
    have "au_core b = au_core ?a" using core_refuse_submit that(1) by (metis snd_conv)
    then have "refuses a b" unfolding refuses_def
      by (intro exI [of _ "au_sink a"] exI [of _ "authority_request_digest q"] exI [of _ "au_grant_serial a"]
          exI [of _ "au_lease_serial a"]) simp
    then show ?thesis using refuse_submit_outcome that by (metis fst_conv)
  qed
  show ?thesis
  proof (cases "el_outcome ?r = OutGranted")
    case False
    then have "\<not> is_authoritative (el_outcome ?r)" using evaluate_grantable(2) by blast
    then show ?thesis using refuse run False by (simp add: decide_fresh_def Let_def)
  next
    case True
    then have g: "grantable a q c ?r" using evaluate_grantable(1) [of ?a q c] grantable_request_digest by simp
    then obtain s d where "el_source_member ?r = Some s" "el_destination_member ?r = Some d"
      by (auto simp: grantable_def)
    then show ?thesis using refuse [of OutRefused] run True issue_grant_effect [OF g c, of s d dn a']
      by (auto simp: decide_fresh_def Let_def split: if_splits)
  qed
qed

lemma coordinate_refusal:
  "first_guard (coordinate_guards sp q) = Some (rc, detail, out) \<Longrightarrow> \<not> is_authoritative out"
  by (simp add: coordinate_guards_def split: if_splits)

lemma contract_refusal:
  "first_guard (contract_guards p q c) = Some (rc, detail, out) \<Longrightarrow> \<not> is_authoritative out"
  by (auto simp: contract_guards_def split: if_splits option.splits)

lemma answer_fields:
  "\<exists>d. dc_outcome d = out \<and> dc_outcome (fst (answer op rid aid out rs f a)) = dc_outcome (f d)
     \<and> dc_idempotent_replay (fst (answer op rid aid out rs f a)) = dc_idempotent_replay (f d)
     \<and> dc_grant (fst (answer op rid aid out rs f a)) = dc_grant (f d)"
proof -
  obtain d b where m: "make_decision rid aid out rs a = (d, b)" by fastforce
  have "dc_outcome d = out"
    using m by (auto simp: make_decision_def coordinates_def Let_def split: prod.splits)
  then show ?thesis by (auto simp: answer_def m finalize_outcome)
qed

lemma replayed_flags:
  "dc_idempotent_replay (replayed_grant g d) = dc_idempotent_replay d"
  "dc_idempotent_replay (unrecoverable_grant g d) = dc_idempotent_replay d"
  "dc_idempotent_replay (with_grant x d) = dc_idempotent_replay d"
  by (simp_all add: replayed_grant_def unrecoverable_grant_def with_grant_def Let_def split: option.split)

lemma replay_effect:
  "au_core (snd (replay_attempt t q a)) = au_core a"
  "is_authoritative (dc_outcome (fst (replay_attempt t q a))) \<Longrightarrow> dc_idempotent_replay (fst (replay_attempt t q a))"
proof -
  show "au_core (snd (replay_attempt t q a)) = au_core a" by (rule core_replay_attempt)
  have flagged: "dc_idempotent_replay (fst (answer op rid aid out rs f a))"
    if "\<And>d. dc_idempotent_replay (f d)" for op rid aid out rs f
    using answer_fields [of out op rid aid rs f a] that by auto
  have conflict: "dc_outcome (fst (make_decision rid aid out rs a)) = out" for rid aid out rs
    by (auto simp: make_decision_def coordinates_def Let_def split: prod.splits)
  assume "is_authoritative (dc_outcome (fst (replay_attempt t q a)))"
  then show "dc_idempotent_replay (fst (replay_attempt t q a))"
    by (simp add: replay_attempt_def Let_def conflict flagged replayed_flags split: if_splits option.split)
qed

text \<open>The three ways through a submission: turned away, replayed, decided.\<close>

lemma submit_cases:
  assumes run: "submit q a = (dn, a')"
  obtains (turned_away) "au_core a' = au_core a" "\<not> is_authoritative (dc_outcome dn)"
    | (replayed) t where "\<not> rq_renewal q" "find_attempt a (rq_attempt_id q) = Some t" "(dn, a') = replay_attempt t q a"
        "first_guard (coordinate_guards (au_spec a) q) = None"
    | (decided) c where "contracts_find (au_contracts a) (rq_contract_id q) = Some c"
        "\<not> rq_renewal q \<longrightarrow> find_attempt a (rq_attempt_id q) = None"
        "(dn, a') = (if rq_renewal q then renew q c (a\<lparr>au_request_digest := authority_request_digest q\<rparr>)
           else decide_fresh q c (a\<lparr>au_request_digest := authority_request_digest q\<rparr>))"
        "ok (validate_authority_request q)" "first_guard (coordinate_guards (au_spec a) q) = None"
        "first_guard (contract_guards (au_options a) q c) = None"
proof -
  have reject: thesis
    if "answer ''submit'' (rq_request_id q) (rq_attempt_id q) out rs id a = (dn, a')" "\<not> is_authoritative out" for out rs
  proof -
    have "au_core a' = au_core a" using core_answer that(1) by (metis snd_conv)
    moreover have "dc_outcome dn = out"
      using answer_decision(1) [of id "''submit''" "rq_request_id q" "rq_attempt_id q" out rs a] that(1) by simp
    ultimately show thesis using that(2) turned_away by simp
  qed
  have malformed: thesis if "malformed_decision (rq_request_id q) (rq_attempt_id q) st a = (dn, a')" for st
  proof -
    have "au_core a' = au_core a" using core_malformed_decision that by (metis snd_conv)
    moreover have "dc_outcome (fst (coordinates rid aid out rs a)) = out" for rid aid out rs
      by (simp add: coordinates_def Let_def split: prod.splits)
    then have "dc_outcome dn = outcome_for_status st"
      using that by (auto simp: malformed_decision_def Let_def split: prod.splits) (metis fst_conv)
    then have "\<not> is_authoritative (dc_outcome dn)" by (simp add: outcome_for_status_def)
    ultimately show thesis by (rule turned_away)
  qed
  show thesis
  proof (cases "ok (validate_authority_request q)")
    case False
    then show thesis using malformed run by (simp add: submit_def Let_def)
  next
    case shape: True
    show thesis
    proof (cases "first_guard (coordinate_guards (au_spec a) q)")
      case (Some x)
      then show thesis using reject coordinate_refusal run shape by (cases x) (auto simp: submit_def Let_def)
    next
      case coord: None
      show thesis
      proof (cases "if rq_renewal q then None else find_attempt a (rq_attempt_id q)")
        case (Some t)
        then show thesis using run shape coord by (intro replayed) (auto simp: submit_def Let_def split: if_splits)
      next
        case unknown: None
        show thesis
        proof (cases "contracts_find (au_contracts a) (rq_contract_id q)")
          case None
          then show thesis using reject run shape coord unknown by (simp add: submit_def Let_def)
        next
          case c: (Some c)
          show thesis
          proof (cases "first_guard (contract_guards (au_options a) q c)")
            case (Some x)
            then show thesis using reject contract_refusal run shape coord unknown c
              by (cases x) (auto simp: submit_def Let_def)
          next
            case None
            then show thesis using run shape coord unknown c
              by (intro decided [OF c]) (auto simp: submit_def Let_def split: if_splits)
          qed
        qed
      qed
    qed
  qed
qed

lemma submit_effect:
  assumes run: "submit q a = (dn, a')" and fresh: "\<not> rq_renewal q"
  shows "refuses a a' \<and> (is_authoritative (dc_outcome dn) \<longrightarrow>
       dc_idempotent_replay dn \<and> find_attempt a (rq_attempt_id q) \<noteq> None)
    \<or> (\<exists>g bound. issues q a g bound a' \<and> is_authoritative (dc_outcome dn) = bound
        \<and> (bound \<longrightarrow> dc_outcome dn = gr_outcome g \<and> dc_grant dn = Some g)
        \<and> find_attempt a (rq_attempt_id q) = None)"
  using run
proof (cases rule: submit_cases)
  case (replayed t)
  then show ?thesis using replay_effect [of t q a] refuses_core by (metis fst_conv option.distinct(1) snd_conv)
next
  case (decided c)
  then show ?thesis using decide_fresh_effect [OF decided(1)] fresh by auto
qed (use refuses_core in blast)

section \<open>What an issued grant satisfies\<close>

lemma issued_tables:
  assumes "issues q a g bound a'"
  shows "au_grants a' = table_put gr_grant_id g (au_grants a)" "au_options a' = au_options a"
    "sp_core (au_spec a') = sp_core (au_spec a)" "cs_core (au_contracts a') = cs_core (au_contracts a)"
    "au_initialized a' = au_initialized a" "au_grant_serial a' = au_grant_serial a + 1" "grant_sane g"
    "gr_grant_id g = ''g-'' @ to_decimal (au_grant_serial a + 1)" "gr_attempt_id g = rq_attempt_id q"
    "\<exists>t. (au_attempts a' = table_put at_attempt_id t (au_attempts a) \<or> au_attempts a' = au_attempts a \<and> \<not> bound)
       \<and> at_attempt_id t = rq_attempt_id q \<and> at_request_digest t = authority_request_digest q
       \<and> at_grant_id t = gr_grant_id g \<and> \<not> at_cancelled t \<and> \<not> at_released t"
    "length (au_grants a) \<le> kMaxGrants \<longrightarrow> length (au_grants a') \<le> kMaxGrants"
    "length (au_attempts a) \<le> kMaxAttempts \<longrightarrow> length (au_attempts a') \<le> kMaxAttempts"
proof -
  obtain t T s where core: "au_core a' = au_core (a\<lparr>au_grants := table_put gr_grant_id g (au_grants a), au_attempts := T,
        au_sink := s, au_request_digest := authority_request_digest q, au_grant_serial := au_grant_serial a + 1,
        au_lease_serial := au_lease_serial a + 1\<rparr>)"
    and T: "T = table_put at_attempt_id t (au_attempts a) \<or> T = au_attempts a \<and> \<not> bound"
      "length (au_grants a) \<le> kMaxGrants \<longrightarrow> length (table_put gr_grant_id g (au_grants a)) \<le> kMaxGrants"
      "length (au_attempts a) \<le> kMaxAttempts \<longrightarrow> length T \<le> kMaxAttempts"
    and t: "at_attempt_id t = rq_attempt_id q" "at_request_digest t = authority_request_digest q"
      "at_grant_id t = gr_grant_id g" "\<not> at_cancelled t" "\<not> at_released t"
    using assms unfolding issues_def by metis
  show "au_grants a' = table_put gr_grant_id g (au_grants a)" "au_options a' = au_options a"
    "sp_core (au_spec a') = sp_core (au_spec a)" "cs_core (au_contracts a') = cs_core (au_contracts a)"
    "au_initialized a' = au_initialized a" "au_grant_serial a' = au_grant_serial a + 1"
    using au_core_eqD [OF core] by simp_all
  show "length (au_grants a) \<le> kMaxGrants \<longrightarrow> length (au_grants a') \<le> kMaxGrants"
    "length (au_attempts a) \<le> kMaxAttempts \<longrightarrow> length (au_attempts a') \<le> kMaxAttempts"
    using au_core_eqD(1,2) [OF core] T by simp_all
  show "\<exists>t. (au_attempts a' = table_put at_attempt_id t (au_attempts a) \<or> au_attempts a' = au_attempts a \<and> \<not> bound)
       \<and> at_attempt_id t = rq_attempt_id q \<and> at_request_digest t = authority_request_digest q
       \<and> at_grant_id t = gr_grant_id g \<and> \<not> at_cancelled t \<and> \<not> at_released t"
    using au_core_eqD(2) [OF core] T(1) t by auto
  show "grant_sane g" "gr_grant_id g = ''g-'' @ to_decimal (au_grant_serial a + 1)" "gr_attempt_id g = rq_attempt_id q"
    using assms by (auto simp: issues_def grant_sane_def life_defs)
qed

lemma inv_issues:
  assumes "issues q a g bound a'" "authority_inv a"
  shows "authority_inv a'"
proof -
  note t = issued_tables [OF assms(1)]
  have s: "sorted_by gr_grant_id (au_grants a)" "sorted_by at_attempt_id (au_attempts a)"
    "list_all grant_sane (au_grants a)"
    using assms(2) by (simp_all add: authority_inv_def)
  have "sorted_by at_attempt_id (au_attempts a')" using t(10) s(2) sorted_table_put by auto
  then show ?thesis
    using assms(2) t(11,12) spec_wf_core [OF t(3)] contracts_wf_core [OF t(4)]
      sorted_table_put [OF s(1)] list_all_put [OF s(1,3) t(7)]
    by (simp add: authority_inv_def t(1))
qed

section \<open>Renewal\<close>

text \<open>What may change in the grant that is renewed.\<close>

definition renewed_from :: "grant \<Rightarrow> grant \<Rightarrow> bool" where
  "renewed_from g u = (gr_grant_id u = gr_grant_id g \<and> gr_lease_id u = gr_lease_id g
     \<and> gr_attempt_id u = gr_attempt_id g \<and> gr_state u = gr_state g \<and> gr_path_id u = gr_path_id g
     \<and> gr_resource_id u = gr_resource_id g \<and> gr_capacity_reserved u = gr_capacity_reserved g)"

lemma renew_effect:
  assumes "renew q c a = (dn, a')" "rq_renewal q"
  shows "(\<exists>s. au_core a' = au_core (a\<lparr>au_sink := s\<rparr>))
    \<or> (\<exists>i u s. i < length (au_grants a) \<and> gr_grant_id (au_grants a ! i) = rq_renewal_of q
        \<and> \<not> is_terminal (gr_state (au_grants a ! i)) \<and> gr_attempt_id (au_grants a ! i) = rq_attempt_id q
        \<and> renewed_from (au_grants a ! i) u \<and> au_core a' = au_core (a\<lparr>au_grants := (au_grants a)[i := u], au_sink := s\<rparr>))"
proof -
  let ?r = "evaluate a q c"
  have keep: ?thesis if "answer ''renew'' rid aid out rs f (a\<lparr>au_sink := s\<rparr>) = (dn, a')" for rid aid out rs f s
    using core_answer [of "''renew''" rid aid out rs f "a\<lparr>au_sink := s\<rparr>"] that by auto
  have same: "a\<lparr>au_sink := au_sink a\<rparr> = a" by simp
  show ?thesis
  proof (cases "el_outcome ?r = OutGranted")
    case False
    then show ?thesis using assms(1) keep [where s = "au_sink a"] by (simp add: renew_def Let_def)
  next
    case granted: True
    then obtain g where g: "find_grant a (rq_renewal_of q) = Some g" "gr_attempt_id g = rq_attempt_id q"
      "\<not> is_terminal (gr_state g)"
      using evaluate_grantable(3) [of a q c] assms(2) by (auto simp: renewal_ok_def)
    then obtain i where i: "mutable_grant a (rq_renewal_of q) = Some i" "au_grants a ! i = g"
      by (auto simp: find_grant_def find_sorted_def mutable_grant_def)
    have idx: "i < length (au_grants a)" "gr_grant_id g = rq_renewal_of q"
      using i find_index_Some [of gr_grant_id "au_grants a"] by (auto simp: mutable_grant_def)
    show ?thesis
    proof (cases "el_degradations ?r \<noteq> [] \<and> \<not> may_degrade c q")
      case True
      then show ?thesis using assms(1) keep [where s = "au_sink a"] granted i by (simp add: renew_def Let_def)
    next
      case False
      let ?out = "if el_degradations ?r \<noteq> [] then OutDegraded else OutGranted"
      let ?u = "renewed_grant a q ?r ?out g"
      obtain st n a1 where j: "journal_entry (JGrantCommitted (grant_mark_of ?u GsCommitted)) True a = (st, n, a1)"
        by (metis prod_cases3)
      obtain s where a1: "a1 = a\<lparr>au_sink := s\<rparr>" using journal_entry_state [OF j] by blast
      let ?u1 = "?u\<lparr>gr_commit_sequence := n\<rparr>"
      have u: "renewed_from g ?u1" by (simp add: renewed_from_def renewed_grant_def)
      show ?thesis
      proof (cases "ok st")
        case False
        then show ?thesis using assms(1) keep [where s = s] granted i j a1 \<open>\<not> (_ \<and> _)\<close>
          by (simp add: renew_def Let_def)
      next
        case True
        then have "(dn, a') = answer ''renew'' (rq_request_id q) (rq_attempt_id q) ?out (el_degradations ?r)
            (\<lambda>d. d\<lparr>dc_grant := Some ?u1\<rparr>) (set_grant i ?u1 a1)"
          using assms(1) granted i j \<open>\<not> (_ \<and> _)\<close> by (simp add: renew_def Let_def)
        then have "au_core a' = au_core (set_grant i ?u1 a1)" using core_answer by (metis snd_conv)
        also have "\<dots> = au_core (a\<lparr>au_grants := (au_grants a)[i := ?u1], au_sink := s\<rparr>)"
          by (simp add: set_grant_def a1 au_core_def)
        finally show ?thesis using idx i(2) g u by blast
      qed
    qed
  qed
qed

lemma submit_renewal_effect:
  assumes "submit q a = (dn, a')" "rq_renewal q"
  shows "(\<exists>s d. au_core a' = au_core (a\<lparr>au_sink := s, au_request_digest := d\<rparr>))
    \<or> (\<exists>i u s d. i < length (au_grants a) \<and> gr_grant_id (au_grants a ! i) = rq_renewal_of q
        \<and> \<not> is_terminal (gr_state (au_grants a ! i)) \<and> gr_attempt_id (au_grants a ! i) = rq_attempt_id q
        \<and> renewed_from (au_grants a ! i) u
        \<and> au_core a' = au_core (a\<lparr>au_grants := (au_grants a)[i := u], au_sink := s, au_request_digest := d\<rparr>))"
  using assms(1)
proof (cases rule: submit_cases)
  case turned_away
  have "a\<lparr>au_sink := au_sink a, au_request_digest := au_request_digest a\<rparr> = a" by simp
  then show ?thesis using turned_away(1) by metis
next
  case (decided c)
  let ?d = "authority_request_digest q"
  have swap: "au_core (a\<lparr>au_request_digest := ?d, au_sink := s\<rparr>) = au_core (a\<lparr>au_sink := s, au_request_digest := ?d\<rparr>)"
    "au_core (a\<lparr>au_request_digest := ?d, au_grants := gs, au_sink := s\<rparr>)
      = au_core (a\<lparr>au_grants := gs, au_sink := s, au_request_digest := ?d\<rparr>)" for s gs
    by (simp_all add: au_core_def)
  have gs: "au_grants (a\<lparr>au_request_digest := ?d\<rparr>) = au_grants a" by simp
  have "renew q c (a\<lparr>au_request_digest := ?d\<rparr>) = (dn, a')" using decided(3) assms(2) by simp
  from renew_effect [OF this assms(2)] show ?thesis unfolding swap gs by blast
qed (use assms in simp)

end
