(* ===== verification/Recovery.thy ===== *)
theory Recovery
  imports Submit_Props
begin

text \<open>
  Restarting: what \<open>recover\<close> makes of the grants a journal replay hands over. Each grant is
  judged by itself; a commit the caller never confirmed is quarantined, a prepare
  without a commit is released, and only acknowledged grants can stay live, revalidated.
\<close>

section \<open>One grant at a time\<close>

definition recovered_as :: "recovery_policy \<Rightarrow> grant \<Rightarrow> grant \<Rightarrow> bool" where
  "recovered_as p g g' =
     (gr_grant_id g' = gr_grant_id g \<and> gr_path_id g' = gr_path_id g \<and> gr_resource_id g' = gr_resource_id g
      \<and> gr_capacity_units g' = gr_capacity_units g \<and> gr_attempt_id g' = gr_attempt_id g
      \<and> gr_capacity_reserved g' = holds_capacity (gr_state g')
      \<and> (if \<not> is_live (gr_state g) then g' = g
         else if gr_commit g = CsPrepared then gr_state g' = GsReleased
         else if \<not> (gr_acknowledged g \<or> gr_state g = GsAcknowledged) \<or> p = FenceAll then gr_state g' = GsAmbiguous
         else gr_state g' \<in> {GsRevoked, GsCommitted, gr_state g}))"

text \<open>What the journal hands over for one grant.\<close>

definition replayed_sane :: "grant \<Rightarrow> bool" where
  "replayed_sane g = (gr_capacity_reserved g = holds_capacity (gr_state g) \<and> gr_state g \<noteq> GsSuperseded
     \<and> (gr_state g = GsPrepared \<longrightarrow> gr_commit g = CsPrepared))"

lemma recovered_sane: "replayed_sane g \<Longrightarrow> recovered_as p g g' \<Longrightarrow> grant_sane g'"
  by (auto simp: recovered_as_def replayed_sane_def grant_sane_def life_defs split: if_splits)

text \<open>A step of the recovery touches the grant at one place, and tables other than the grants only lawfully.\<close>

definition touches :: "nat \<Rightarrow> (grant \<Rightarrow> grant \<Rightarrow> bool) \<Rightarrow> authority \<Rightarrow> authority \<Rightarrow> bool" where
  "touches i R a a' = (au_options a' = au_options a \<and> au_spec a' = au_spec a \<and> au_contracts a' = au_contracts a
     \<and> au_grant_serial a' = au_grant_serial a
     \<and> (\<exists>g. au_grants a' = (au_grants a)[i := g] \<and> (i < length (au_grants a) \<longrightarrow> R (au_grants a ! i) g))
     \<and> (sorted_by at_attempt_id (au_attempts a) \<and> length (au_attempts a) \<le> kMaxAttempts \<longrightarrow>
        sorted_by at_attempt_id (au_attempts a') \<and> length (au_attempts a') \<le> kMaxAttempts))"

definition only_attempts :: "authority \<Rightarrow> authority \<Rightarrow> bool" where
  "only_attempts a a' = touches 0 (=) a a'"

lemma touches_same:
  assumes "au_options a' = au_options a" "au_spec a' = au_spec a" "au_contracts a' = au_contracts a"
    "au_grant_serial a' = au_grant_serial a" "au_attempts a' = au_attempts a" "au_grants a' = (au_grants a)[i := g]"
    "i < length (au_grants a) \<Longrightarrow> R (au_grants a ! i) g"
  shows "touches i R a a'"
  using assms by (auto simp: touches_def)

lemma record_attempt_frame:
  "au_options (record_attempt t a) = au_options a" "au_spec (record_attempt t a) = au_spec a"
  "au_contracts (record_attempt t a) = au_contracts a" "au_grants (record_attempt t a) = au_grants a"
  "au_grant_serial (record_attempt t a) = au_grant_serial a"
  "sorted_by at_attempt_id (au_attempts a) \<and> length (au_attempts a) \<le> kMaxAttempts \<Longrightarrow>
   sorted_by at_attempt_id (au_attempts (record_attempt t a)) \<and> length (au_attempts (record_attempt t a)) \<le> kMaxAttempts"
proof -
  obtain st a1 where p: "journal_put (JAttemptTerminal t) a = (st, a1)" by fastforce
  obtain s where a1: "a1 = a\<lparr>au_sink := s\<rparr>" using journal_put_state [OF p] by blast
  have r: "record_attempt t a = snd (upsert_attempt t (a\<lparr>au_sink := s\<rparr>))" by (simp add: record_attempt_def p a1)
  show "au_options (record_attempt t a) = au_options a" "au_spec (record_attempt t a) = au_spec a"
    "au_contracts (record_attempt t a) = au_contracts a" "au_grants (record_attempt t a) = au_grants a"
    "au_grant_serial (record_attempt t a) = au_grant_serial a"
    unfolding r by (simp_all add: upsert_attempt_def Let_def)
  show "sorted_by at_attempt_id (au_attempts (record_attempt t a)) \<and> length (au_attempts (record_attempt t a)) \<le> kMaxAttempts"
    if "sorted_by at_attempt_id (au_attempts a) \<and> length (au_attempts a) \<le> kMaxAttempts"
    using upsert_attempt_cases [of t "a\<lparr>au_sink := s\<rparr>"] that sorted_table_put unfolding r by auto
qed

lemma touches_record: "touches i R a b \<Longrightarrow> touches i R a (record_attempt t b)"
  unfolding touches_def using record_attempt_frame [where t = t and a = b] by auto

lemma terminate_shape:
  "\<exists>s co v n. snd (terminate_grant i s' c d rel a) = a\<lparr>au_sink := s\<rparr>
    \<or> snd (terminate_grant i s' c d rel a) = a\<lparr>au_sink := s, au_counters := co, au_state_digest_valid := v,
        au_grants := (au_grants a)[i := (ended_grant s' c d rel (au_grants a ! i))\<lparr>gr_release_sequence := n\<rparr>]\<rparr>"
proof -
  let ?u = "ended_grant s' c d rel (au_grants a ! i)"
  obtain st n a1 where j: "journal_entry (JGrantTerminal (grant_mark_of ?u s')) True a = (st, n, a1)"
    by (metis prod_cases3)
  obtain k where a1: "a1 = a\<lparr>au_sink := k\<rparr>" using journal_entry_state [OF j] by blast
  show ?thesis
  proof (cases "ok st")
    case True
    have "snd (terminate_grant i s' c d rel a) = a\<lparr>au_sink := k,
        au_counters := (if rel then count_ended s' (au_counters a) else au_counters a), au_state_digest_valid := False,
        au_grants := (au_grants a)[i := ?u\<lparr>gr_release_sequence := n\<rparr>]\<rparr>"
      using True by (simp add: terminate_grant_def Let_def j a1 set_grant_def)
    then show ?thesis by blast
  next
    case False
    then show ?thesis by (intro exI [of _ k]) (simp add: terminate_grant_def Let_def j a1)
  qed
qed

lemma terminate_touches:
  assumes "au_grants b = (au_grants a)[i := g]" "au_options b = au_options a" "au_spec b = au_spec a"
    "au_contracts b = au_contracts a" "au_grant_serial b = au_grant_serial a" "au_attempts b = au_attempts a"
    "i < length (au_grants a)" "R (au_grants a ! i) g"
    "\<And>n. R (au_grants a ! i) ((ended_grant s c d rel g)\<lparr>gr_release_sequence := n\<rparr>)"
  shows "touches i R a (snd (terminate_grant i s c d rel b))"
  using terminate_shape [of i s c d rel b]
proof (elim exE disjE)
  fix k assume "snd (terminate_grant i s c d rel b) = b\<lparr>au_sink := k\<rparr>"
  then show ?thesis using assms by (auto intro!: touches_same [where g = g])
next
  fix k co v n
  assume "snd (terminate_grant i s c d rel b) = b\<lparr>au_sink := k, au_counters := co, au_state_digest_valid := v,
        au_grants := (au_grants b)[i := (ended_grant s c d rel (au_grants b ! i))\<lparr>gr_release_sequence := n\<rparr>]\<rparr>"
  then show ?thesis using assms
    by (auto intro!: touches_same [where g = "(ended_grant s c d rel g)\<lparr>gr_release_sequence := n\<rparr>"])
qed

lemma revalidate_shape:
  assumes "holds_capacity (gr_state (au_grants a ! i))" "grant_sane (au_grants a ! i)" "i < length (au_grants a)"
  shows "touches i (\<lambda>g g'. evolve g g' \<and> grant_sane g' \<and> gr_state g' \<in> {GsRevoked, GsCommitted, gr_state g})
    a (snd (revalidate_grant i True a))"
proof -
  let ?g = "au_grants a ! i"
  let ?R = "\<lambda>g g'. evolve g g' \<and> grant_sane g' \<and> gr_state g' \<in> {GsRevoked, GsCommitted, gr_state g}"
  have ends: "touches i ?R a (snd (terminate_grant i GsRevoked rc detail True a))" for rc detail
  proof -
    have "evolve ?g ((ended_grant GsRevoked rc detail True ?g)\<lparr>gr_release_sequence := n\<rparr>)
        \<and> grant_sane ((ended_grant GsRevoked rc detail True ?g)\<lparr>gr_release_sequence := n\<rparr>)" for n
      using ends_evolve [of GsRevoked ?g] holds_not_terminal assms(1) by simp
    moreover have "?R ?g ?g" using assms(2) by simp
    ultimately show ?thesis using assms(3) by (intro terminate_touches [where g = ?g]) simp_all
  qed
  show ?thesis
  proof (cases "standing a ?g")
    case (Inl x)
    then show ?thesis using ends by (simp add: revalidate_grant_def Let_def split: prod.split)
  next
    case (Inr y)
    obtain s d c where y: "y = (s, d, c)" by (metis prod_cases3)
    show ?thesis
    proof (cases "degrade_for c [s, d] ?g")
      case deg: (Inl x)
      then show ?thesis using ends Inr y by (simp add: revalidate_grant_def Let_def split: prod.split)
    next
      case deg: (Inr u)
      let ?u = "reissued (au_spec a) u"
      obtain st n a1 where j: "journal_entry (JGrantCommitted (grant_mark_of ?u (gr_state ?u))) True a = (st, n, a1)"
        by (metis prod_cases3)
      obtain k where a1: "a1 = a\<lparr>au_sink := k\<rparr>" using journal_entry_state [OF j] by blast
      let ?v = "?u\<lparr>gr_commit_sequence := n\<rparr>"
      have "?R ?g ?v"
        using degrade_for_fields [OF deg] assms by (auto simp: evolve_def reissued_def grant_sane_def life_defs)
      then have "touches i ?R a (set_grant i ?v a1)" by (intro touches_same [where g = ?v]) (simp_all add: a1 set_grant_def)
      moreover have "touches i ?R a a1" using assms by (intro touches_same [where g = ?g]) (simp_all add: a1)
      ultimately have "touches i ?R a (set_grant i ?v a1)" "touches i ?R a a1" by blast+
      then show ?thesis using Inr y deg j
        by (cases "ok st") (simp_all add: revalidate_grant_def Let_def del: degrade_for.simps)
    qed
  qed
qed

lemma recover_grant_touches:
  assumes "i < length (au_grants a)" "replayed_sane (au_grants a ! i)"
  shows "touches i (recovered_as (op_recovery_policy (au_options a))) a (recover_grant i a)"
proof -
  let ?g = "au_grants a ! i" and ?p = "op_recovery_policy (au_options a)"
  show ?thesis
  proof (cases "is_live (gr_state ?g)")
    case False
    then show ?thesis using assms
      by (auto simp: recover_grant_def Let_def recovered_as_def replayed_sane_def intro!: touches_same [where g = ?g])
  next
    case live: True
    show ?thesis
    proof (cases "gr_commit ?g = CsPrepared")
      case prep: True
      let ?g1 = "?g\<lparr>gr_state := GsReleased, gr_capacity_reserved := False, gr_release_sequence := 0,
                 gr_commit := CsPrepared, gr_reductions := gr_reductions ?g
                   @ [mk_reason RcCommitNotDurable ''controller restarted before the commit record'']\<rparr>"
      let ?a = "a\<lparr>au_grants := (au_grants a)[i := ?g1]\<rparr>"
      have R: "recovered_as ?p ?g ?g1" "recovered_as ?p ?g ((ended_grant GsReleased RcCommitNotDurable x False ?g1)\<lparr>gr_release_sequence := n\<rparr>)" for x n
        using live prep by (simp_all add: recovered_as_def life_defs)
      have "touches i (recovered_as ?p) a (snd (terminate_grant i GsReleased RcCommitNotDurable x False ?a))" for x
        using assms(1) R by (intro terminate_touches [where g = ?g1]) simp_all
      then show ?thesis using live prep
        by (simp add: recover_grant_def recover_prepared_def Let_def touches_record)
    next
      case nprep: False
      show ?thesis
      proof (cases "\<not> (gr_acknowledged ?g \<or> gr_state ?g = GsAcknowledged) \<or> ?p = FenceAll")
        case True
        let ?g1 = "?g\<lparr>gr_state := GsAmbiguous, gr_commit := CsAmbiguous,
                 gr_capacity_reserved := holds_capacity GsAmbiguous, gr_reductions := gr_reductions ?g @ [mk_reason RcCommitAmbiguous
                   ''durable commit without a recorded acknowledgement; caller must reconcile'']\<rparr>"
        obtain st b where j: "journal_put (JGrantTerminal (grant_mark_of ?g1 GsAmbiguous)) (a\<lparr>au_grants := (au_grants a)[i := ?g1]\<rparr>) = (st, b)"
          by fastforce
        have "touches i (recovered_as ?p) a b"
          using journal_put_state [OF j] True live nprep
          by (auto simp: recovered_as_def life_defs intro!: touches_same [where g = ?g1])
        then show ?thesis using True live nprep
          by (simp add: recover_grant_def recover_unacknowledged_def Let_def j touches_record)
      next
        case False
        have sane: "grant_sane ?g" "holds_capacity (gr_state ?g)"
          using assms(2) live nprep by (auto simp: replayed_sane_def grant_sane_def life_defs)
        have "recovered_as ?p ?g g'" if "evolve ?g g'" "grant_sane g'" "gr_state g' \<in> {GsRevoked, GsCommitted, gr_state ?g}" for g'
          using that False live nprep by (auto simp: recovered_as_def evolve_def grant_sane_def)
        then have "touches i (recovered_as ?p) a (snd (revalidate_grant i True a))"
          using revalidate_shape [OF sane(2,1) assms(1)] unfolding touches_def by blast
        then show ?thesis using False live nprep by (simp add: recover_grant_def Let_def)
      qed
    qed
  qed
qed

section \<open>The whole table\<close>

definition tables_ok :: "authority \<Rightarrow> bool" where
  "tables_ok a = (sorted_by at_attempt_id (au_attempts a) \<and> length (au_attempts a) \<le> kMaxAttempts)"

definition rules_kept :: "authority \<Rightarrow> authority \<Rightarrow> bool" where
  "rules_kept a a' = (au_options a' = au_options a \<and> au_spec a' = au_spec a \<and> au_contracts a' = au_contracts a
     \<and> au_grant_serial a' = au_grant_serial a \<and> (tables_ok a \<longrightarrow> tables_ok a'))"

lemma rules_kept_trans: "rules_kept a b \<Longrightarrow> rules_kept b c \<Longrightarrow> rules_kept a c"
  by (simp add: rules_kept_def)

lemma recover_grants_upto:
  assumes "list_all replayed_sane (au_grants a)" "n \<le> length (au_grants a)"
  defines "b \<equiv> fold recover_grant [0..<n] a"
  shows "rules_kept a b \<and> length (au_grants b) = length (au_grants a)
    \<and> (\<forall>k<n. recovered_as (op_recovery_policy (au_options a)) (au_grants a ! k) (au_grants b ! k))
    \<and> (\<forall>k\<ge>n. k < length (au_grants a) \<longrightarrow> au_grants b ! k = au_grants a ! k)"
  unfolding b_def using assms(2)
proof (induction n)
  case 0
  then show ?case by (simp add: rules_kept_def)
next
  case (Suc n)
  let ?b = "fold recover_grant [0..<n] a"
  have ih: "rules_kept a ?b" "length (au_grants ?b) = length (au_grants a)" "au_grants ?b ! n = au_grants a ! n"
    "\<forall>k<n. recovered_as (op_recovery_policy (au_options a)) (au_grants a ! k) (au_grants ?b ! k)"
    "\<forall>k\<ge>n. k < length (au_grants a) \<longrightarrow> au_grants ?b ! k = au_grants a ! k"
    using Suc by auto
  have "touches n (recovered_as (op_recovery_policy (au_options ?b))) ?b (recover_grant n ?b)"
    by (rule recover_grant_touches) (use assms(1) Suc.prems ih in \<open>auto simp: list_all_length\<close>)
  then obtain g where t: "rules_kept ?b (recover_grant n ?b)" "au_grants (recover_grant n ?b) = (au_grants ?b)[n := g]"
    "recovered_as (op_recovery_policy (au_options a)) (au_grants a ! n) g"
    using ih Suc.prems by (auto simp: touches_def rules_kept_def tables_ok_def)
  then show ?case using ih rules_kept_trans [OF ih(1) t(1)] Suc.prems
    by (auto simp: nth_list_update less_Suc_eq)
qed

lemma recover_grants:
  assumes "list_all replayed_sane (au_grants a)"
  shows "rules_kept a (fold recover_grant (all_grants a) a)
    \<and> list_all2 (recovered_as (op_recovery_policy (au_options a))) (au_grants a) (au_grants (fold recover_grant (all_grants a) a))"
  using recover_grants_upto [OF assms order_refl] by (simp add: all_grants_def list_all2_conv_all_nth)

lemma reconcile_frame: "rules_kept a (reconcile_grant g a)" "au_grants (reconcile_grant g a) = au_grants a"
  using record_attempt_frame [where a = a]
  by (auto simp: reconcile_grant_def rules_kept_def tables_ok_def)

lemma reconcile_all_frame: "rules_kept a (fold reconcile_grant gs a) \<and> au_grants (fold reconcile_grant gs a) = au_grants a"
proof (induction gs arbitrary: a)
  case (Cons g gs)
  then show ?case using rules_kept_trans [OF reconcile_frame(1) [of a g]] reconcile_frame(2) [of g a] by auto
qed (simp add: rules_kept_def)

lemma apply_recovery_policy_effect:
  assumes "list_all replayed_sane (au_grants a)"
  shows "rules_kept a (apply_recovery_policy a)
    \<and> list_all2 (recovered_as (op_recovery_policy (au_options a))) (au_grants a) (au_grants (apply_recovery_policy a))"
proof -
  let ?b = "fold recover_grant (all_grants a) a"
  have c: "rules_kept ?b (count_fence ?b)" "au_grants (count_fence ?b) = au_grants ?b"
    by (simp_all add: rules_kept_def count_fence_def tables_ok_def)
  have r: "rules_kept (count_fence ?b) (apply_recovery_policy a)" "au_grants (apply_recovery_policy a) = au_grants ?b"
    using reconcile_all_frame [of "count_fence ?b"] c(2) by (simp_all add: apply_recovery_policy_def reconcile_attempts_def)
  show ?thesis using recover_grants [OF assms] rules_kept_trans [OF _ rules_kept_trans [OF c(1) r(1)]] r(2) by auto
qed

section \<open>Recovery as a whole\<close>

text \<open>Tables fit to be adopted.\<close>

definition recoverable :: "spec \<Rightarrow> contract_set \<Rightarrow> grant list \<Rightarrow> attempt list \<Rightarrow> bool" where
  "recoverable sp cs gs ts = (spec_wf sp \<and> contracts_wf cs \<and> distinct (map gr_grant_id gs) \<and> length gs \<le> kMaxGrants
     \<and> distinct (map at_attempt_id ts) \<and> length ts \<le> kMaxAttempts \<and> list_all replayed_sane gs)"

lemma sorted_by_sort_key: "distinct (map key xs) \<Longrightarrow> sorted_by key (sort_key key xs)"
  using sorted_sort_key [of key xs] by (simp add: sorted_by_def strict_sorted_iff distinct_map)

definition serials_cover_fold :: "grant list \<Rightarrow> u64 \<Rightarrow> u64" where
  "serials_cover_fold gs n = fold (\<lambda>g n. max n (serial_suffix (gr_grant_id g))) gs n"

lemma fold_max_covers:
  "n \<le> serials_cover_fold gs n \<and> (\<forall>g\<in>set gs. serial_suffix (gr_grant_id g) \<le> serials_cover_fold gs n)"
proof (induction gs arbitrary: n)
  case (Cons g gs)
  have "max n (serial_suffix (gr_grant_id g)) \<le> serials_cover_fold gs (max n (serial_suffix (gr_grant_id g)))"
    using Cons.IH by blast
  then show ?case using Cons.IH [of "max n (serial_suffix (gr_grant_id g))"] by (auto simp: serials_cover_fold_def)
qed (simp add: serials_cover_fold_def)

lemma adopt_fields:
  "au_grants (adopt_serials (adopt sp cs gs ts co rep a)) = sort_key gr_grant_id gs"
  "au_attempts (adopt_serials (adopt sp cs gs ts co rep a)) = sort_key at_attempt_id ts"
  "au_options (adopt_serials (adopt sp cs gs ts co rep a)) = au_options a"
  "au_spec (adopt_serials (adopt sp cs gs ts co rep a)) = sp"
  "au_contracts (adopt_serials (adopt sp cs gs ts co rep a)) = cs"
  "au_grant_serial (adopt_serials (adopt sp cs gs ts co rep a)) = serials_cover_fold (sort_key gr_grant_id gs) 0"
  by (simp_all add: adopt_serials_def adopt_def Let_def serials_cover_fold_def)

lemma begin_epoch_effect:
  assumes "begin_epoch inc p s = (success, s')"
  shows "unat (sp_epoch s') = unat (sp_epoch s) + 1" "unat (sp_generation s') = unat (sp_generation s) + 1"
    "sp_incarnation s' = inc" "spec_wf s' = spec_wf s" "sp_tick s' = sp_tick s" "sp_cluster_id s' = sp_cluster_id s"
  using assms unat_advanced
  by (auto simp: begin_epoch_def note_revision_def spec_wf_def status_error_def success_def split: if_splits)

lemma recover_effect:
  assumes fit: "recoverable sp cs gs ts" and run: "recover sp cs gs ts co rep inc t a = (success, a')"
  shows "controller_inv a'" "au_options a' = au_options a" "au_initialized a'"
    "unat (sp_epoch (au_spec a')) = unat (sp_epoch sp) + 1" "unat (sp_generation (au_spec a')) = unat (sp_generation sp) + 1"
    "sp_incarnation (au_spec a') = inc"
    "list_all2 (recovered_as (op_recovery_policy (au_options a))) (sort_key gr_grant_id gs) (au_grants a')"
proof -
  let ?a1 = "adopt_serials (adopt sp cs gs ts co rep a)"
  let ?sp = "set_tick (if t > sp_tick sp then t else sp_tick sp) sp"
  let ?a2 = "?a1\<lparr>au_spec := ?sp\<rparr>"
  have "sp_cluster_id sp \<noteq> []"
    using run by (auto simp: recover_def Let_def status_error_def success_def)
  then have run2: "cif_try (change_spec (\<lambda>s. begin_epoch inc (sp_policy_generation s) s) ?a2) (\<lambda>a.
           cif_try (journal_put (JEpochBegin ((au_mark a)\<lparr>cm_incarnation := inc\<rparr>)) a) (\<lambda>a.
           (success, (apply_recovery_policy a)\<lparr>au_initialized := True, au_state_digest_valid := False\<rparr>))) = (success, a')"
    using run unfolding recover_def Let_def adopt_fields by simp
  obtain st sp' where e: "begin_epoch inc (sp_policy_generation ?sp) ?sp = (st, sp')" by fastforce
  let ?a3 = "?a2\<lparr>au_spec := sp'\<rparr>"
  have ok: "ok st" using run2 e by (auto simp: change_spec_def cif_try_def split: if_splits)
  obtain st2 a4 where j: "journal_put (JEpochBegin ((au_mark ?a3)\<lparr>cm_incarnation := inc\<rparr>)) ?a3 = (st2, a4)" by fastforce
  obtain s where a4: "a4 = ?a3\<lparr>au_sink := s\<rparr>" using journal_put_state [OF j] by blast
  have a': "a' = (apply_recovery_policy a4)\<lparr>au_initialized := True, au_state_digest_valid := False\<rparr>"
    using run2 e ok j by (auto simp: change_spec_def cif_try_def split: if_splits)
  have st: "st = success" using ok e by (auto simp: begin_epoch_def split: if_splits)
  note ep = begin_epoch_effect [OF e [unfolded st]]
  have f: "au_grants a4 = sort_key gr_grant_id gs" "au_attempts a4 = sort_key at_attempt_id ts" "au_spec a4 = sp'"
    "au_contracts a4 = cs" "au_options a4 = au_options a" "au_grant_serial a4 = serials_cover_fold (sort_key gr_grant_id gs) 0"
    by (simp_all add: a4 adopt_fields)
  have sane: "list_all replayed_sane (au_grants a4)" using fit by (simp add: f recoverable_def list_all_iff)
  note p = apply_recovery_policy_effect [OF sane]
  have l2: "list_all2 (recovered_as (op_recovery_policy (au_options a))) (sort_key gr_grant_id gs) (au_grants a')"
    using p by (simp add: a' f)
  have ids: "map gr_grant_id (au_grants a') = map gr_grant_id (sort_key gr_grant_id gs)"
    using l2 by (auto simp: list_all2_conv_all_nth recovered_as_def intro: nth_equalityI)
  have tabs: "sorted_by at_attempt_id (au_attempts a')" "length (au_attempts a') \<le> kMaxAttempts"
    using p fit sorted_by_sort_key [of at_attempt_id ts] by (simp_all add: a' f rules_kept_def tables_ok_def recoverable_def)
  have gtab: "sorted_by gr_grant_id (au_grants a')"
    using fit sorted_by_sort_key [of gr_grant_id gs] ids by (simp add: recoverable_def sorted_by_def)
  have "list_all grant_sane (au_grants a')"
    using l2 sane recovered_sane by (fastforce simp: f list_all_length list_all2_conv_all_nth)
  moreover have "length (au_grants a') \<le> kMaxGrants"
    using list_all2_lengthD [OF l2] fit by (simp add: recoverable_def)
  moreover have "spec_wf (au_spec a')" "contracts_wf (au_contracts a')"
    using p fit ep(4) by (simp_all add: a' f rules_kept_def recoverable_def set_tick_def note_revision_def)
  ultimately have "authority_inv a'" using tabs gtab by (simp add: authority_inv_def)
  moreover have "serials_cover a'"
    unfolding serials_cover_def
  proof
    fix g assume "g \<in> set (au_grants a')"
    then have "gr_grant_id g \<in> gr_grant_id ` set (sort_key gr_grant_id gs)"
      using ids by (metis image_eqI list.set_map)
    then show "serial_suffix (gr_grant_id g) \<le> au_grant_serial a'"
      using fold_max_covers [of 0 "sort_key gr_grant_id gs"] p by (auto simp: a' f rules_kept_def)
  qed
  ultimately show "controller_inv a'" by (simp add: controller_inv_def)
  show "au_options a' = au_options a" "au_initialized a'"
    "unat (sp_epoch (au_spec a')) = unat (sp_epoch sp) + 1" "unat (sp_generation (au_spec a')) = unat (sp_generation sp) + 1"
    "sp_incarnation (au_spec a') = inc"
    using p ep by (simp_all add: a' f rules_kept_def set_tick_def note_revision_def)
  show "list_all2 (recovered_as (op_recovery_policy (au_options a))) (sort_key gr_grant_id gs) (au_grants a')" by (rule l2)
qed

end
