(* ===== verification/Runs.thy ===== *)
theory Runs
  imports Recovery
begin

text \<open>
  The controller over time: one datatype of the operations a client or an operator can
  ask for, their effect on the state, and what every run keeps. The general argument is
  a locale: an invariant kept by each step while a budget lasts, and a relation between
  states that composes. The budget is what is left of the 64-bit grant serial.
\<close>

section \<open>Events\<close>

text \<open>Reading a digest fills its cache, which is the only thing a query can change.\<close>

datatype reading = ReadSpec | ReadTopology | ReadContracts | ReadState

primrec read_digest :: "reading \<Rightarrow> authority \<Rightarrow> bytes \<times> authority" where
  "read_digest ReadSpec a = (case spec_digest (au_spec a) of (d, sp) \<Rightarrow> (d, a\<lparr>au_spec := sp\<rparr>))"
| "read_digest ReadTopology a = (case topology_digest (au_spec a) of (d, sp) \<Rightarrow> (d, a\<lparr>au_spec := sp\<rparr>))"
| "read_digest ReadContracts a = (case contracts_digest (au_contracts a) of (d, cs) \<Rightarrow> (d, a\<lparr>au_contracts := cs\<rparr>))"
| "read_digest ReadState a = state_digest a"

datatype event =
    EvSubmit authority_request
  | EvRelease release_request
  | EvResolve resolve_request
  | EvAcknowledge acknowledge_request
  | EvCancel cancel_request
  | EvAdvanceTick u64
  | EvExpireLeases
  | EvFenceAll reason_code string
  | EvUpsertMember member
  | EvRemoveMember string
  | EvMemberLifecycle string member_lifecycle
  | EvUpsertPath path
  | EvRemovePath string
  | EvPathState string path_state
  | EvUpsertExclusion exclusion
  | EvRemoveExclusion string
  | EvUpsertObligation obligation
  | EvRemoveObligation string
  | EvUpsertContract contract
  | EvRemoveContract string
  | EvPolicyGeneration u64
  | EvCompact
  | EvRevalidate
  | EvRead reading

primrec apply_event :: "event \<Rightarrow> authority \<Rightarrow> authority" where
  "apply_event (EvSubmit q) a = snd (submit q a)"
| "apply_event (EvRelease q) a = snd (release q a)"
| "apply_event (EvResolve q) a = snd (resolve q a)"
| "apply_event (EvAcknowledge q) a = snd (acknowledge q a)"
| "apply_event (EvCancel q) a = snd (cancel q a)"
| "apply_event (EvAdvanceTick t) a = snd (au_advance_tick t a)"
| "apply_event EvExpireLeases a = snd (expire_leases a)"
| "apply_event (EvFenceAll c d) a = snd (fence_all c d a)"
| "apply_event (EvUpsertMember m) a = snd (au_upsert_member m a)"
| "apply_event (EvRemoveMember i) a = snd (au_remove_member i a)"
| "apply_event (EvMemberLifecycle i l) a = snd (au_set_member_lifecycle i l a)"
| "apply_event (EvUpsertPath p) a = snd (au_upsert_path p a)"
| "apply_event (EvRemovePath i) a = snd (au_remove_path i a)"
| "apply_event (EvPathState i s) a = snd (au_set_path_state i s a)"
| "apply_event (EvUpsertExclusion x) a = snd (au_upsert_exclusion x a)"
| "apply_event (EvRemoveExclusion i) a = snd (au_remove_exclusion i a)"
| "apply_event (EvUpsertObligation b) a = snd (au_upsert_obligation b a)"
| "apply_event (EvRemoveObligation i) a = snd (au_remove_obligation i a)"
| "apply_event (EvUpsertContract c) a = snd (au_upsert_contract c a)"
| "apply_event (EvRemoveContract i) a = snd (au_remove_contract i a)"
| "apply_event (EvPolicyGeneration n) a = snd (au_set_policy_generation n a)"
| "apply_event EvCompact a = snd (maybe_compact a)"
| "apply_event EvRevalidate a = snd (revalidate_live_grants a)"
| "apply_event (EvRead r) a = snd (read_digest r a)"

lemma core_read_digest: "au_core (snd (read_digest r a)) = au_core a"
proof (cases r)
  case ReadSpec
  then show ?thesis using core_spec_digest [of "au_spec a"] by (cases "spec_digest (au_spec a)") (simp add: au_core_def)
next
  case ReadTopology
  then show ?thesis by (simp add: au_core_def topology_digest_def sp_core_def Let_def)
next
  case ReadContracts
  then show ?thesis using core_contracts_digest [of "au_contracts a"]
    by (cases "contracts_digest (au_contracts a)") (simp add: au_core_def)
qed (simp add: core_state_digest)

lemma evolves_maybe_compact: "evolves a (snd (maybe_compact a))"
proof -
  obtain st s where c: "sink_compact (make_snapshot a) (au_sink a) = (st, s)" by fastforce
  let ?a = "a\<lparr>au_sink := s\<rparr>"
  let ?b = "?a\<lparr>au_counters := (au_counters ?a)\<lparr>co_compactions := co_compactions (au_counters ?a) + 1\<rparr>\<rparr>"
  obtain st' n b' where j: "journal_entry (JCountersSync (au_counters ?b)) False ?b = (st', n, b')" by (metis prod_cases3)
  have "evolves a ?b" by (rule evolves_same) (simp_all add: inv_wf)
  then have "evolves a b'" using evolves_journal [OF j] by (rule evolves_trans)
  then show ?thesis using j by (simp add: maybe_compact_def c cif_try_def Let_def evolves_updates)
qed

lemma evolves_event:
  assumes "\<And>q. e = EvSubmit q \<Longrightarrow> evolves a (snd (submit q a))"
  shows "evolves a (apply_event e a)"
  by (cases e) (simp_all add: assms evolves_release evolves_resolve evolves_acknowledge evolves_cancel evolves_advance_tick
      evolves_expire_leases evolves_fence_all evolves_mutations evolves_policy_generation evolves_maybe_compact
      evolves_revalidate_live evolves_core [OF core_read_digest])

section \<open>Runs under a budget\<close>

locale budgeted_steps =
  fixes step :: "'e \<Rightarrow> 's \<Rightarrow> 's"
    and inv :: "'s \<Rightarrow> bool"
    and budget :: "'s \<Rightarrow> nat"
    and keeps :: "'s \<Rightarrow> 's \<Rightarrow> bool"
  assumes keeps_refl: "keeps s s"
    and keeps_trans: "keeps s t \<Longrightarrow> keeps t u \<Longrightarrow> keeps s u"
    and step_inv: "inv s \<Longrightarrow> 0 < budget s \<Longrightarrow> inv (step e s)"
    and step_keeps: "inv s \<Longrightarrow> 0 < budget s \<Longrightarrow> keeps s (step e s)"
    and step_budget: "inv s \<Longrightarrow> 0 < budget s \<Longrightarrow> budget s \<le> Suc (budget (step e s))"
begin

lemma run_inv_keeps: "inv s \<Longrightarrow> length es \<le> budget s \<Longrightarrow> inv (fold step es s) \<and> keeps s (fold step es s)"
proof (induction es arbitrary: s)
  case (Cons e es)
  have pos: "0 < budget s" using Cons.prems by auto
  note i = step_inv [OF Cons.prems(1) pos, of e]
  have "length es \<le> budget (step e s)" using Cons.prems step_budget [OF Cons.prems(1) pos, of e] by auto
  with Cons.IH [OF i] have "inv (fold step es (step e s))" "keeps (step e s) (fold step es (step e s))" by simp_all
  then show ?case using keeps_trans [OF step_keeps [OF Cons.prems(1) pos]] by simp
qed (simp add: keeps_refl)

lemmas run_inv = run_inv_keeps [THEN conjunct1]
lemmas run_keeps = run_inv_keeps [THEN conjunct2]

end

section \<open>What a run keeps\<close>

definition same_binding :: "grant \<Rightarrow> grant \<Rightarrow> bool" where
  "same_binding g g' = (gr_attempt_id g' = gr_attempt_id g \<and> gr_lease_id g' = gr_lease_id g
     \<and> gr_path_id g' = gr_path_id g \<and> gr_resource_id g' = gr_resource_id g
     \<and> (holds_capacity (gr_state g') \<longrightarrow> holds_capacity (gr_state g))
     \<and> (is_terminal (gr_state g) \<longrightarrow> g' = g))"

definition grants_kept :: "authority \<Rightarrow> authority \<Rightarrow> bool" where
  "grants_kept a a' = (\<forall>i g. find_grant a i = Some g \<longrightarrow> (\<exists>g'. find_grant a' i = Some g' \<and> same_binding g g'))"

definition history_kept :: "authority \<Rightarrow> authority \<Rightarrow> bool" where
  "history_kept a a' = (grants_kept a a' \<and> attempts_kept a a' \<and> au_options a' = au_options a)"

definition serials_left :: "authority \<Rightarrow> nat" where
  "serials_left a = 2 ^ 64 - 1 - unat (au_grant_serial a)"

lemma same_binding_trans: "same_binding g h \<Longrightarrow> same_binding h k \<Longrightarrow> same_binding g k"
  by (auto simp: same_binding_def)

lemma grants_kept_refl: "grants_kept a a"
  by (simp add: grants_kept_def same_binding_def)

lemma grants_kept_trans: "grants_kept a b \<Longrightarrow> grants_kept b c \<Longrightarrow> grants_kept a c"
  unfolding grants_kept_def using same_binding_trans by meson

lemma history_kept_trans: "history_kept a b \<Longrightarrow> history_kept b c \<Longrightarrow> history_kept a c"
  using grants_kept_trans attempts_kept_trans by (auto simp: history_kept_def)

lemma history_kept_refl: "history_kept a a"
  by (simp add: history_kept_def grants_kept_refl)

lemma grants_kept_same: "au_grants a' = au_grants a \<Longrightarrow> grants_kept a a'"
  by (simp add: grants_kept_def find_grant_def same_binding_def)

lemma inv_sorted: "authority_inv a \<Longrightarrow> sorted_by gr_grant_id (au_grants a)" "authority_inv a \<Longrightarrow> sorted_by at_attempt_id (au_attempts a)"
  by (simp_all add: authority_inv_def)

lemma grants_kept_pointwise:
  assumes "authority_inv a" "authority_inv a'"
    "list_all2 (\<lambda>g g'. gr_grant_id g' = gr_grant_id g \<and> same_binding g g') (au_grants a) (au_grants a')"
  shows "grants_kept a a'"
  unfolding grants_kept_def
proof (intro allI impI)
  fix i g assume "find_grant a i = Some g"
  then obtain k where k: "k < length (au_grants a)" "au_grants a ! k = g" "gr_grant_id g = i"
    by (auto simp: find_grant_def find_sorted_iff [OF inv_sorted(1) [OF assms(1)]] in_set_conv_nth)
  let ?g = "au_grants a' ! k"
  have g: "gr_grant_id ?g = i" "same_binding g ?g" "k < length (au_grants a')"
    using list_all2_nthD [OF assms(3) k(1)] k list_all2_lengthD [OF assms(3)] by auto
  have "find_grant a' i = Some ?g"
    using g nth_mem by (simp add: find_grant_def find_sorted_iff [OF inv_sorted(1) [OF assms(2)]])
  then show "\<exists>g'. find_grant a' i = Some g' \<and> same_binding g g'" using g by blast
qed

lemma evolve_binding: "evolve g g' \<Longrightarrow> gr_grant_id g' = gr_grant_id g \<and> same_binding g g'"
  by (simp add: evolve_def same_binding_def)

lemma evolves_history:
  assumes "evolves a a'" "controller_inv a"
  shows "controller_inv a' \<and> history_kept a a' \<and> au_grant_serial a' = au_grant_serial a"
proof -
  have e: "authority_inv a" "authority_inv a'" "list_all2 evolve (au_grants a) (au_grants a')" "attempts_kept a a'"
    "au_options a' = au_options a" "au_grant_serial a' = au_grant_serial a"
    using assms by (simp_all add: evolves_def controller_inv_def)
  have "grants_kept a a'" by (rule grants_kept_pointwise [OF e(1,2) list_all2_mono [OF e(3)]]) (rule evolve_binding)
  moreover have "serials_cover a'"
    unfolding serials_cover_def
  proof
    fix g' assume "g' \<in> set (au_grants a')"
    then obtain k where "k < length (au_grants a')" "g' = au_grants a' ! k" by (auto simp: in_set_conv_nth)
    then have "gr_grant_id g' = gr_grant_id (au_grants a ! k)" "au_grants a ! k \<in> set (au_grants a)"
      using list_all2_nthD2 [OF e(3)] list_all2_lengthD [OF e(3)] by (auto simp: evolve_def)
    then show "serial_suffix (gr_grant_id g') \<le> au_grant_serial a'"
      using assms(2) e(6) by (simp add: controller_inv_def serials_cover_def)
  qed
  ultimately show ?thesis using e by (simp add: controller_inv_def history_kept_def)
qed

section \<open>A submission keeps the history\<close>

lemma refuses_history:
  assumes "refuses a a'" "controller_inv a" "0 < serials_left a"
  shows "controller_inv a' \<and> history_kept a a' \<and> unat (au_grant_serial a') \<le> Suc (unat (au_grant_serial a))"
proof -
  obtain s d n m where core: "au_core a' = au_core (a\<lparr>au_sink := s, au_request_digest := d, au_grant_serial := n,
       au_lease_serial := m\<rparr>)" and n: "n = au_grant_serial a \<or> n = au_grant_serial a + 1"
    using assms(1) by (auto simp: refuses_def)
  have eq: "au_grants a' = au_grants a" "au_attempts a' = au_attempts a" "au_options a' = au_options a"
    "au_grant_serial a' = n"
    using au_core_eqD [OF core] by simp_all
  have inv: "authority_inv a'" using inv_core [OF core] assms(2) by (simp add: controller_inv_def)
  have "can_advance (au_grant_serial a)"
    using assms(3) unat_max_iff [of "au_grant_serial a"] by (auto simp: serials_left_def can_advance_def)
  then have up: "unat (au_grant_serial a + 1) = Suc (unat (au_grant_serial a))"
    using unat_advanced [of "au_grant_serial a"] by (simp add: advanced_def can_advance_def)
  then have le: "au_grant_serial a \<le> n" using n by (auto simp: word_le_nat_alt)
  then have "serials_cover a'"
    using assms(2) eq by (auto simp: controller_inv_def serials_cover_def intro: order_trans)
  then show ?thesis using inv eq n up grants_kept_same [of a' a] attempts_kept_same [of a' a]
    by (auto simp: controller_inv_def history_kept_def)
qed

lemma issues_history:
  assumes i: "issues q a g bound a'" and inv: "controller_inv a" and left: "0 < serials_left a"
    and new: "find_attempt a (rq_attempt_id q) = None"
  shows "controller_inv a' \<and> history_kept a a' \<and> unat (au_grant_serial a') \<le> Suc (unat (au_grant_serial a))"
proof -
  note t = issued_tables [OF i]
  have a: "authority_inv a" "serials_cover a" using inv by (simp_all add: controller_inv_def)
  have max: "au_grant_serial a \<noteq> u64_max"
    using left unat_max_iff [of "au_grant_serial a"] by (auto simp: serials_left_def)
  have up: "unat (au_grant_serial a + 1) = Suc (unat (au_grant_serial a))"
    using max unat_advanced [of "au_grant_serial a"] by (simp add: advanced_def can_advance_def)
  have cover: "serials_cover a'"
    unfolding serials_cover_def t(1,6)
  proof
    fix h assume "h \<in> set (table_put gr_grant_id g (au_grants a))"
    then consider "h = g" | "h \<in> set (au_grants a)" using set_table_put [OF inv_sorted(1) [OF a(1)]] by auto
    then show "serial_suffix (gr_grant_id h) \<le> au_grant_serial a + 1"
    proof cases
      case 1
      then show ?thesis using t(8) serial_suffix_minted(1) by simp
    next
      case 2
      then have "serial_suffix (gr_grant_id h) \<le> au_grant_serial a" using a(2) by (simp add: serials_cover_def)
      then show ?thesis using up by (simp add: word_le_nat_alt)
    qed
  qed
  have "grants_kept a a'"
    unfolding grants_kept_def
  proof (intro allI impI)
    fix k h assume h: "find_grant a k = Some h"
    then have "k \<in> gr_grant_id ` set (au_grants a)"
      using find_sorted_Some [of gr_grant_id "au_grants a" k h] by (auto simp: find_grant_def)
    then have "k \<noteq> gr_grant_id g" using minted_fresh [OF a(2) max] unfolding t(8) by blast
    then show "\<exists>g'. find_grant a' k = Some g' \<and> same_binding h g'"
      using h by (simp add: find_grant_def t(1) find_sorted_put [OF inv_sorted(1) [OF a(1)]] same_binding_def)
  qed
  moreover have "attempts_kept a a'"
    using t(10) new by (auto simp: attempts_kept_def find_attempt_def find_sorted_put [OF inv_sorted(2) [OF a(1)]])
  ultimately show ?thesis using inv_issues [OF i a(1)] cover t(2,6) up by (simp add: controller_inv_def history_kept_def)
qed

lemma renewal_history:
  assumes k: "k < length (au_grants a)" "renewed_from (au_grants a ! k) u" "\<not> is_terminal (gr_state (au_grants a ! k))"
    and core: "au_core a' = au_core (a\<lparr>au_grants := (au_grants a)[k := u], au_sink := s, au_request_digest := d\<rparr>)"
    and inv: "controller_inv a"
  shows "controller_inv a' \<and> history_kept a a' \<and> au_grant_serial a' = au_grant_serial a"
proof -
  have a: "authority_inv a" "serials_cover a" using inv by (simp_all add: controller_inv_def)
  have eq: "au_grants a' = (au_grants a)[k := u]" "au_attempts a' = au_attempts a" "au_options a' = au_options a"
    "au_grant_serial a' = au_grant_serial a"
    using au_core_eqD [OF core] by simp_all
  have u: "gr_grant_id u = gr_grant_id (au_grants a ! k)" "grant_sane u"
    using k inv_sane [OF a(1) k(1)] by (simp_all add: renewed_from_def grant_sane_def)
  have inv': "authority_inv a'"
    using inv_core [OF core] inv_set_grant(2) [OF a(1) k(1) u] by (simp add: authority_inv_def)
  have "list_all2 (\<lambda>g g'. gr_grant_id g' = gr_grant_id g \<and> same_binding g g') (au_grants a) (au_grants a')"
    using k by (auto simp: eq(1) list_all2_conv_all_nth nth_list_update renewed_from_def same_binding_def)
  then have "grants_kept a a'" by (rule grants_kept_pointwise [OF a(1) inv'])
  moreover have "serials_cover a'"
    unfolding serials_cover_def eq
  proof
    fix h assume "h \<in> set ((au_grants a)[k := u])"
    then have "h = u \<or> h \<in> set (au_grants a)" using set_update_subset_insert by fast
    then show "serial_suffix (gr_grant_id h) \<le> au_grant_serial a"
      using a(2) u(1) k(1) by (auto simp: serials_cover_def)
  qed
  ultimately show ?thesis using inv' eq attempts_kept_same [of a' a] by (simp add: controller_inv_def history_kept_def)
qed

lemma submit_history:
  assumes inv: "controller_inv a" and left: "0 < serials_left a"
  shows "controller_inv (snd (submit q a)) \<and> history_kept a (snd (submit q a))
    \<and> unat (au_grant_serial (snd (submit q a))) \<le> Suc (unat (au_grant_serial a))"
proof -
  obtain dn a' where run: "submit q a = (dn, a')" by fastforce
  show ?thesis
  proof (cases "rq_renewal q")
    case False
    show ?thesis using submit_effect [OF run False] refuses_history [of a a'] issues_history [of q a _ _ a'] inv left run
      by auto
  next
    case True
    have core: ?thesis if "au_core a' = au_core (a\<lparr>au_sink := s, au_request_digest := d\<rparr>)" for s d
    proof -
      have "refuses a a'" unfolding refuses_def
        by (rule exI [of _ s], rule exI [of _ d], rule exI [of _ "au_grant_serial a"], rule exI [of _ "au_lease_serial a"])
          (use that in \<open>simp add: au_core_def\<close>)
      then show ?thesis using refuses_history inv left run by simp
    qed
    show ?thesis using submit_renewal_effect [OF run True]
    proof (elim disjE exE conjE)
      fix k u s d
      assume k: "k < length (au_grants a)" "\<not> is_terminal (gr_state (au_grants a ! k))" "renewed_from (au_grants a ! k) u"
        "au_core a' = au_core (a\<lparr>au_grants := (au_grants a)[k := u], au_sink := s, au_request_digest := d\<rparr>)"
      show ?thesis using renewal_history [OF k(1,3,2,4) inv] run by simp
    qed (use core in blast)
  qed
qed

lemma event_history:
  assumes "controller_inv a" "\<And>q. e = EvSubmit q \<Longrightarrow> 0 < serials_left a"
  shows "controller_inv (apply_event e a) \<and> history_kept a (apply_event e a)
    \<and> unat (au_grant_serial (apply_event e a)) \<le> Suc (unat (au_grant_serial a))"
proof (cases "\<exists>q. e = EvSubmit q")
  case True
  then show ?thesis using submit_history [OF assms(1)] assms(2) by auto
next
  case False
  then have "evolves a (apply_event e a)" by (intro evolves_event) blast
  then show ?thesis using evolves_history assms(1) by simp
qed

interpretation controller: budgeted_steps apply_event controller_inv serials_left history_kept
proof
  fix s t u :: authority and e
  show "history_kept s s" by (rule history_kept_refl)
  show "history_kept s t \<Longrightarrow> history_kept t u \<Longrightarrow> history_kept s u" by (rule history_kept_trans)
  assume a: "controller_inv s" "0 < serials_left s"
  note h = event_history [OF a(1), of e, OF a(2)]
  show "controller_inv (apply_event e s)" "history_kept s (apply_event e s)" using h by simp_all
  show "serials_left s \<le> Suc (serials_left (apply_event e s))" using h by (auto simp: serials_left_def)
qed

section \<open>Reachable states\<close>

text \<open>
  A controller starts with \<open>initialize\<close> on any sink, or with \<open>recover\<close> from tables a journal
  replay handed over, and then handles events.
\<close>

inductive reachable :: "options \<Rightarrow> authority \<Rightarrow> bool" where
  started: "initialize cluster inc policy t s (new_authority p) = (success, a) \<Longrightarrow> reachable p a"
| restarted: "recoverable sp cs gs ts \<Longrightarrow>
    recover sp cs gs ts co rep inc t (attach_sink s (new_authority p)) = (success, a) \<Longrightarrow> reachable p a"
| event: "reachable p a \<Longrightarrow> (\<And>q. e = EvSubmit q \<Longrightarrow> 0 < serials_left a) \<Longrightarrow> reachable p (apply_event e a)"

lemma inv_empty:
  "spec_wf (au_spec a) \<Longrightarrow> contracts_wf (au_contracts a) \<Longrightarrow> au_grants a = [] \<Longrightarrow> au_attempts a = [] \<Longrightarrow> controller_inv a"
  by (simp add: controller_inv_def authority_inv_def serials_cover_def)

lemma change_spec_state: "change_spec f a = (st, a') \<Longrightarrow> \<exists>sp. f (au_spec a) = (st, sp) \<and> a' = a\<lparr>au_spec := sp\<rparr>"
  by (auto simp: change_spec_def split: prod.splits)

lemma initialize_effect:
  assumes "initialize cluster inc policy t s a = (success, a')"
  shows "controller_inv a'" "au_grants a' = []" "au_options a' = au_options a" "au_initialized a'"
    "sp_cluster_id (au_spec a') = cluster" "sp_epoch (au_spec a') = 1"
proof -
  let ?a0 = "clear_state (case s of None \<Rightarrow> a | Some k \<Rightarrow> attach_sink k a)"
  have "cluster \<noteq> []" using assms(1) by (auto simp: initialize_def status_error_def success_def)
  then have run: "cif_try (change_spec (set_cluster_id cluster) ?a0) (\<lambda>a.
        let a1 = a\<lparr>au_spec := set_tick t (set_incarnation inc (au_spec a))\<rparr> in
        cif_try (journal_put (JSetController \<lparr>cm_cluster_id = cluster, cm_cluster_generation = 0, cm_epoch = 0,
                   cm_policy_generation = policy, cm_incarnation = inc\<rparr>) a1) (\<lambda>a.
        cif_try (change_spec (\<lambda>s. begin_epoch inc policy (set_policy_generation policy s)) a) (\<lambda>a.
        cif_try (journal_put (JEpochBegin ((au_mark a)\<lparr>cm_cluster_id := cluster, cm_incarnation := inc\<rparr>)) a) (\<lambda>a.
        (success, a\<lparr>au_initialized := True,
           au_recovery := (au_recovery a)\<lparr>rr_fresh := True,
             rr_detail := ''controller initialised with fresh state''\<rparr>,
           au_state_digest_valid := False\<rparr>))))) = (success, a')"
    using assms(1) by (simp add: initialize_def Let_def)
  obtain s1 a1 where c1: "change_spec (set_cluster_id cluster) ?a0 = (s1, a1)" by fastforce
  let ?b1 = "a1\<lparr>au_spec := set_tick t (set_incarnation inc (au_spec a1))\<rparr>"
  obtain s2 a2 where j2: "journal_put (JSetController \<lparr>cm_cluster_id = cluster, cm_cluster_generation = 0, cm_epoch = 0,
           cm_policy_generation = policy, cm_incarnation = inc\<rparr>) ?b1 = (s2, a2)" by fastforce
  obtain s3 a3 where c3: "change_spec (\<lambda>s. begin_epoch inc policy (set_policy_generation policy s)) a2 = (s3, a3)"
    by fastforce
  obtain s4 a4 where j4: "journal_put (JEpochBegin ((au_mark a3)\<lparr>cm_cluster_id := cluster, cm_incarnation := inc\<rparr>)) a3 = (s4, a4)"
    by fastforce
  have ok: "ok s1" "ok s2" "ok s3" "ok s4"
    and a': "a' = a4\<lparr>au_initialized := True, au_recovery := (au_recovery a4)\<lparr>rr_fresh := True,
             rr_detail := ''controller initialised with fresh state''\<rparr>, au_state_digest_valid := False\<rparr>"
    using run by (auto simp: c1 j2 c3 j4 cif_try_def Let_def split: if_splits)
  obtain k2 k4 where k: "a2 = ?b1\<lparr>au_sink := k2\<rparr>" "a4 = a3\<lparr>au_sink := k4\<rparr>"
    using journal_put_state [OF j2] journal_put_state [OF j4] by blast
  have a0: "au_spec ?a0 = empty_spec" "au_grants ?a0 = []" "au_attempts ?a0 = []" "au_options ?a0 = au_options a"
    "au_contracts ?a0 = contracts_clear (au_contracts a)"
    by (auto simp: clear_state_def attach_sink_def split: option.split)
  have sp1: "au_spec a1 = empty_spec\<lparr>sp_cluster_id := cluster\<rparr>"
    and f1: "au_grants a1 = []" "au_attempts a1 = []" "au_options a1 = au_options a"
      "au_contracts a1 = contracts_clear (au_contracts a)"
    using change_spec_state [OF c1] ok(1) a0 by (auto simp: set_cluster_id_def empty_spec_def split: if_splits)
  obtain sp3 where sp3: "begin_epoch inc policy (set_policy_generation policy (au_spec a2)) = (s3, sp3)" "a3 = a2\<lparr>au_spec := sp3\<rparr>"
    using change_spec_state [OF c3] by auto
  have "s3 = success" using sp3(1) ok(3) by (auto simp: begin_epoch_def split: if_splits)
  note ep = begin_epoch_effect [OF sp3(1) [unfolded this]]
  have w: "spec_wf sp3" "sp_cluster_id sp3 = cluster" "unat (sp_epoch sp3) = 1"
    using ep spec_wf_empty
    by (simp_all add: k sp1 set_policy_generation_def set_tick_def set_incarnation_def note_revision_def)
      (simp add: empty_spec_def)
  have c: "contracts_wf (contracts_clear (au_contracts a))" by (simp add: contracts_wf_def contracts_clear_def)
  show "au_grants a' = []" "au_options a' = au_options a" "au_initialized a'"
    "sp_cluster_id (au_spec a') = cluster"
    using w f1 by (simp_all add: a' k sp3)
  show "sp_epoch (au_spec a') = 1" using w(3) by (simp add: a' k sp3 word_unat_eq_iff)
  show "controller_inv a'" using w c f1 by (intro inv_empty) (simp_all add: a' k sp3)
qed

lemma reachable_inv: "reachable p a \<Longrightarrow> controller_inv a \<and> au_options a = clamp_options p"
proof (induction rule: reachable.induct)
  case (started cluster inc policy t s p a)
  from initialize_effect [OF started] show ?case by (simp add: new_authority_def)
next
  case (restarted sp cs gs ts co rep inc t s p a)
  from recover_effect [OF restarted] show ?case by (simp add: new_authority_def attach_sink_def)
next
  case (event p a e)
  then show ?case using event_history [of a e] by (simp add: history_kept_def)
qed

end
