(* ===== verification/Sweeps.thy ===== *)
theory Sweeps
  imports Runs
begin

text \<open>
  The sweeps over the grant table: expiry, fencing and revalidation. Each handles one
  grant at a time and must not disturb the others; the locale states that contract and
  proves once what a sweep that succeeded has established.
\<close>

section \<open>Loops over the grant table\<close>

definition local_step :: "nat \<Rightarrow> authority \<Rightarrow> authority \<Rightarrow> bool" where
  "local_step i a a' = (au_spec a' = au_spec a \<and> au_contracts a' = au_contracts a
     \<and> length (au_grants a') = length (au_grants a)
     \<and> (\<forall>j<length (au_grants a). j \<noteq> i \<longrightarrow> au_grants a' ! j = au_grants a ! j))"

locale grant_sweep =
  fixes f :: "nat \<Rightarrow> authority \<Rightarrow> status \<times> authority"
    and settled :: "authority \<Rightarrow> grant \<Rightarrow> bool"
  assumes local: "f i a = (st, a') \<Longrightarrow> local_step i a a'"
    and settles: "f i a = (st, a') \<Longrightarrow> ok st \<Longrightarrow> i < length (au_grants a) \<Longrightarrow> settled a' (au_grants a' ! i)"
    and settled_cong: "au_spec a' = au_spec a \<Longrightarrow> au_contracts a' = au_contracts a \<Longrightarrow> settled a' g = settled a g"
begin

lemma sweep_local:
  "each_grant f is a = (st, a') \<Longrightarrow> au_spec a' = au_spec a \<and> au_contracts a' = au_contracts a
     \<and> length (au_grants a') = length (au_grants a)
     \<and> (\<forall>j<length (au_grants a). j \<notin> set is \<longrightarrow> au_grants a' ! j = au_grants a ! j)"
proof (induction "is" arbitrary: a)
  case (Cons i "is")
  obtain st1 a1 where f: "f i a = (st1, a1)" by fastforce
  show ?case
  proof (cases "ok st1")
    case True
    then have "each_grant f is a1 = (st, a')" using Cons.prems f by (simp add: cif_try_def)
    from Cons.IH [OF this] local [OF f] show ?thesis by (auto simp: local_step_def)
  next
    case False
    then show ?thesis using Cons.prems f local [OF f] by (auto simp: cif_try_def local_step_def)
  qed
qed simp

lemma sweep_settles:
  "each_grant f is a = (st, a') \<Longrightarrow> ok st \<Longrightarrow> distinct is \<Longrightarrow> i \<in> set is \<Longrightarrow> i < length (au_grants a) \<Longrightarrow>
   settled a' (au_grants a' ! i)"
proof (induction "is" arbitrary: a)
  case (Cons k "is")
  obtain st1 a1 where f: "f k a = (st1, a1)" by fastforce
  then have ok: "ok st1" and rest: "each_grant f is a1 = (st, a')"
    using Cons.prems(1,2) by (auto simp: cif_try_def split: if_splits)
  note l = local [OF f, unfolded local_step_def]
  show ?case
  proof (cases "i = k")
    case True
    have keep: "au_grants a' ! i = au_grants a1 ! i" "au_spec a' = au_spec a1" "au_contracts a' = au_contracts a1"
      using sweep_local [OF rest] Cons.prems True l by auto
    have "settled a1 (au_grants a1 ! i)" using settles [OF f ok] Cons.prems(5) True by simp
    then show ?thesis using settled_cong [OF keep(2,3)] keep(1) by simp
  next
    case False
    then show ?thesis using Cons.IH [OF rest Cons.prems(2)] Cons.prems l by simp
  qed
qed simp

text \<open>A sweep that succeeded has settled every grant of the table.\<close>

lemma sweep_all:
  assumes "each_grant f (all_grants a) a = (st, a')" "ok st" "g \<in> set (au_grants a')"
  shows "settled a' g"
proof -
  obtain i where "i < length (au_grants a')" "g = au_grants a' ! i" using assms(3) by (auto simp: in_set_conv_nth)
  moreover have "length (au_grants a') = length (au_grants a)" using sweep_local [OF assms(1)] by simp
  ultimately show ?thesis using sweep_settles [OF assms(1,2), of i] by (simp add: all_grants_def)
qed

end

section \<open>Ending one grant\<close>

lemma terminate_local: "terminate_grant i s c d r a = (st, a') \<Longrightarrow> local_step i a a'"
  using terminate_shape [of i s c d r a] by (auto simp: local_step_def)

lemma terminate_ends:
  assumes "terminate_grant i s c d r a = (st, a')" "ok st" "i < length (au_grants a)"
  shows "gr_state (au_grants a' ! i) = s" "r \<Longrightarrow> \<not> gr_capacity_reserved (au_grants a' ! i)"
proof -
  let ?u = "ended_grant s c d r (au_grants a ! i)"
  obtain st1 n a1 where j: "journal_entry (JGrantTerminal (grant_mark_of ?u s)) True a = (st1, n, a1)"
    by (metis prod_cases3)
  obtain k where a1: "a1 = a\<lparr>au_sink := k\<rparr>" using journal_entry_state [OF j] by blast
  have "ok st1" using assms(1,2) j by (auto simp: terminate_grant_def Let_def split: if_splits)
  then have "au_grants a' = (au_grants a)[i := ?u\<lparr>gr_release_sequence := n\<rparr>]"
    using assms(1) j by (auto simp: terminate_grant_def Let_def set_grant_def a1)
  then show "gr_state (au_grants a' ! i) = s" "r \<Longrightarrow> \<not> gr_capacity_reserved (au_grants a' ! i)"
    using assms(3) by simp_all
qed

lemma local_step_refl [simp]: "local_step i a a"
  by (simp add: local_step_def)

lemma local_step_sink: "local_step i a (b\<lparr>au_sink := s\<rparr>) = local_step i a b"
  by (simp add: local_step_def)

section \<open>Fencing\<close>

definition fence_one :: "reason_code \<Rightarrow> string \<Rightarrow> nat \<Rightarrow> authority \<Rightarrow> status \<times> authority" where
  "fence_one rc detail i a = (if \<not> holds_capacity (gr_state (au_grants a ! i)) then (success, a)
     else terminate_grant i GsFenced rc detail True a)"

interpretation fencing: grant_sweep "fence_one rc detail" "\<lambda>a g. \<not> holds_capacity (gr_state g)" for rc detail
  by unfold_locales
    (auto simp: fence_one_def split: if_splits dest: terminate_local terminate_ends(1) simp: life_defs)

section \<open>Expiry\<close>

lemma expire_cases:
  assumes "expire_grant now i a = (st, a')"
  obtains (kept) "\<not> (is_live (gr_state (au_grants a ! i)) \<and> expired_at (au_grants a ! i) now)" "st = success" "a' = a"
    | (ended) st1 a1 where "terminate_grant i GsExpired RcLeaseExpired (''lease elapsed at tick '' @ to_decimal now) True a = (st1, a1)"
        "au_grants a' = au_grants a1" "au_spec a' = au_spec a1" "au_contracts a' = au_contracts a1" "ok st \<longrightarrow> ok st1"
proof (cases "is_live (gr_state (au_grants a ! i)) \<and> expired_at (au_grants a ! i) now")
  case False
  then have "expire_grant now i a = (success, a)" unfolding expire_grant_def Let_def by (simp only: de_Morgan_conj if_True)
  then show ?thesis using assms kept [OF False] by simp
next
  case True
  obtain st1 a1 where t: "terminate_grant i GsExpired RcLeaseExpired (''lease elapsed at tick '' @ to_decimal now) True a = (st1, a1)"
    by fastforce
  define x where "x = (case find_attempt a1 (gr_attempt_id (au_grants a ! i)) of None \<Rightarrow> empty_attempt | Some t \<Rightarrow> t)
    \<lparr>at_attempt_id := gr_attempt_id (au_grants a ! i), at_grant_id := gr_grant_id (au_grants a ! i),
     at_lease_id := gr_lease_id (au_grants a ! i), at_primary_reason := RcLeaseExpired\<rparr>"
  have guard: "(\<not> is_live (gr_state (au_grants a ! i)) \<or> \<not> expired_at (au_grants a ! i) now) = False" using True by simp
  have run: "(if ok st1 then cif_try (journal_put (JAttemptTerminal x) a1) (upsert_attempt x) else (st1, a1)) = (st, a')"
    using assms
    unfolding expire_grant_def Let_def t cif_try_def [of "(st1, a1)"] prod.case x_def guard if_False .
  have put: "au_grants b = au_grants a1 \<and> au_spec b = au_spec a1 \<and> au_contracts b = au_contracts a1"
    if "cif_try (journal_put p a1) (upsert_attempt x) = (s, b)" for p s b
  proof -
    obtain s2 a2 where j: "journal_put p a1 = (s2, a2)" by fastforce
    then obtain k where k: "a2 = a1\<lparr>au_sink := k\<rparr>" using journal_put_state by blast
    have "b = a2 \<or> b = snd (upsert_attempt x a2)" using that j by (auto simp: cif_try_def split: if_splits)
    then show ?thesis by (auto simp: k upsert_attempt_def Let_def)
  qed
  show ?thesis
  proof (cases "ok st1")
    case True
    then have "cif_try (journal_put (JAttemptTerminal x) a1) (upsert_attempt x) = (st, a')" using run by simp
    from put [OF this] True show ?thesis by (intro ended [OF t]) simp_all
  next
    case False
    then show ?thesis using run by (intro ended [OF t]) simp_all
  qed
qed

interpretation expiry: grant_sweep "expire_grant now" "\<lambda>a g. \<not> (is_live (gr_state g) \<and> expired_at g now)" for now
proof
  fix i a st a' assume e: "expire_grant now i a = (st, a')"
  show "local_step i a a'" using e
  proof (cases rule: expire_cases)
    case (ended st1 a1)
    then show ?thesis using terminate_local [OF ended(1)] by (simp add: local_step_def)
  qed simp
  assume "ok st" "i < length (au_grants a)"
  note fine = this
  show "\<not> (is_live (gr_state (au_grants a' ! i)) \<and> expired_at (au_grants a' ! i) now)" using e
  proof (cases rule: expire_cases)
    case (ended st1 a1)
    then show ?thesis using terminate_ends(1) [OF ended(1)] fine by (simp add: life_defs)
  qed simp
qed simp

section \<open>Revalidation\<close>

definition stands :: "authority \<Rightarrow> grant \<Rightarrow> bool" where
  "stands a g = (\<exists>x. standing a g = Inr x)"

text \<open>Whether a grant stands depends on the specification, the contracts and what the grant is bound to.\<close>

definition same_bonds :: "grant \<Rightarrow> grant \<Rightarrow> bool" where
  "same_bonds g u = (gr_source_member u = gr_source_member g \<and> gr_destination_member u = gr_destination_member g
     \<and> gr_source_member_generation u = gr_source_member_generation g
     \<and> gr_destination_member_generation u = gr_destination_member_generation g
     \<and> gr_source_member_digest u = gr_source_member_digest g \<and> gr_destination_member_digest u = gr_destination_member_digest g
     \<and> gr_path_id u = gr_path_id g \<and> gr_path_generation u = gr_path_generation g
     \<and> gr_capacity_units u = gr_capacity_units g \<and> gr_contract_id u = gr_contract_id g)"

lemma standing_cong:
  assumes "same_bonds g u" "au_spec b = au_spec a" "au_contracts b = au_contracts a"
  shows "standing b u = standing a g"
proof -
  have o: "member_obstacle u = member_obstacle g" "path_obstacle u = path_obstacle g"
    using assms(1) by (simp_all add: member_obstacle_def [abs_def] path_obstacle_def [abs_def] same_bonds_def fun_eq_iff)
  have b: "gr_source_member u = gr_source_member g" "gr_destination_member u = gr_destination_member g"
    "gr_path_id u = gr_path_id g" "gr_contract_id u = gr_contract_id g"
    using assms(1) by (simp_all add: same_bonds_def)
  show ?thesis unfolding standing_def assms(2,3) o b by (rule refl)
qed

lemma add_reduction_bonds: "same_bonds g (add_reduction c d g)"
  by (simp add: add_reduction_def same_bonds_def)

lemma degrade_for_bonds: "degrade_for c ms g = Inr u \<Longrightarrow> same_bonds g u"
proof (induction ms arbitrary: g)
  case (Cons m ms)
  show ?case
  proof (cases "participation_of c (mb_lifecycle m)")
    case (Degrades rc)
    let ?g = "(add_reduction rc (member_detail m) g)\<lparr>gr_degraded := True, gr_outcome := OutDegraded\<rparr>"
    have "same_bonds ?g u" using Cons.IH Cons.prems Degrades by simp
    moreover have "same_bonds g ?g" using add_reduction_bonds [of g rc "member_detail m"] by (simp add: same_bonds_def)
    ultimately show ?thesis by (simp add: same_bonds_def)
  qed (use Cons in simp_all)
qed (simp add: same_bonds_def)

definition revalidate_one :: "nat \<Rightarrow> authority \<Rightarrow> status \<times> authority" where
  "revalidate_one i a = (if \<not> is_live (gr_state (au_grants a ! i)) then (success, a) else revalidate_grant i True a)"

lemma revalidate_cases:
  assumes "revalidate_grant i True a = (st, a')"
  obtains (revoked) rc detail where "terminate_grant i GsRevoked rc detail True a = (st, a')"
    | (lost) s where "a' = a\<lparr>au_sink := s\<rparr>" "\<not> ok st"
    | (reissued) u s where "ok st" "a' = set_grant i u (a\<lparr>au_sink := s\<rparr>)" "same_bonds (au_grants a ! i) u"
        "gr_state u = GsCommitted" "gr_epoch u = sp_epoch (au_spec a)" "stands a (au_grants a ! i)"
proof (cases "standing a (au_grants a ! i)")
  case (Inl x)
  then show ?thesis using assms revoked by (cases x) (simp add: revalidate_grant_def Let_def)
next
  case (Inr y)
  obtain s d c where y: "y = (s, d, c)" by (metis prod_cases3)
  show ?thesis
  proof (cases "degrade_for c [s, d] (au_grants a ! i)")
    case deg: (Inl x)
    then show ?thesis using assms revoked Inr y
      by (cases x) (simp add: revalidate_grant_def Let_def del: degrade_for.simps)
  next
    case deg: (Inr u)
    let ?u = "Authority_Ops.reissued (au_spec a) u"
    obtain st1 n a1 where j: "journal_entry (JGrantCommitted (grant_mark_of ?u (gr_state ?u))) True a = (st1, n, a1)"
      by (metis prod_cases3)
    obtain k where a1: "a1 = a\<lparr>au_sink := k\<rparr>" using journal_entry_state [OF j] by blast
    have res: "(st, a') = (if ok st1 then (success, set_grant i (?u\<lparr>gr_commit_sequence := n\<rparr>) a1) else (st1, a1))"
      using assms Inr y deg j by (cases "ok st1") (simp_all add: revalidate_grant_def Let_def del: degrade_for.simps)
    show ?thesis
    proof (cases "ok st1")
      case True
      have "same_bonds (au_grants a ! i) (?u\<lparr>gr_commit_sequence := n\<rparr>)"
        using degrade_for_bonds [OF deg] by (simp add: same_bonds_def Authority_Ops.reissued_def)
      then show ?thesis using res True a1 Inr y
        by (intro reissued [of "?u\<lparr>gr_commit_sequence := n\<rparr>" k]) (simp_all add: Authority_Ops.reissued_def stands_def)
    next
      case False
      then show ?thesis using res a1 lost by simp
    qed
  qed
qed

interpretation revalidation: grant_sweep revalidate_one
  "\<lambda>a g. is_live (gr_state g) \<longrightarrow> stands a g \<and> gr_epoch g = sp_epoch (au_spec a)"
proof
  fix i a st a' assume run: "revalidate_one i a = (st, a')"
  show "local_step i a a'"
  proof (cases "is_live (gr_state (au_grants a ! i))")
    case True
    then have "revalidate_grant i True a = (st, a')" using run by (simp add: revalidate_one_def)
    then show ?thesis
    proof (cases rule: revalidate_cases)
      case (revoked rc detail)
      then show ?thesis by (rule terminate_local)
    next
      case (lost s)
      show ?thesis unfolding lost(1) local_step_sink by (rule local_step_refl)
    next
      case (reissued u s)
      show ?thesis unfolding reissued(2) by (simp add: local_step_def set_grant_def)
    qed
  qed (use run in \<open>simp add: revalidate_one_def\<close>)
  assume ok: "ok st" "i < length (au_grants a)"
  show "is_live (gr_state (au_grants a' ! i)) \<longrightarrow> stands a' (au_grants a' ! i)
    \<and> gr_epoch (au_grants a' ! i) = sp_epoch (au_spec a')"
  proof (cases "is_live (gr_state (au_grants a ! i))")
    case True
    then have r: "revalidate_grant i True a = (st, a')" using run by (simp add: revalidate_one_def)
    then show ?thesis
    proof (cases rule: revalidate_cases)
      case (revoked rc detail)
      then show ?thesis using terminate_ends(1) [OF revoked ok] by (simp add: life_defs)
    next
      case (lost s)
      then show ?thesis using ok(1) by simp
    next
      case (reissued u s)
      have f: "au_spec a' = au_spec a" "au_contracts a' = au_contracts a" "au_grants a' ! i = u"
        using ok(2) by (simp_all add: reissued(2) set_grant_def)
      show ?thesis using standing_cong [OF reissued(3) f(1,2)] reissued(5,6) by (simp add: f stands_def)
    qed
  qed (use run in \<open>simp add: revalidate_one_def\<close>)
next
  fix a' a :: authority and g
  assume eq: "au_spec a' = au_spec a" "au_contracts a' = au_contracts a"
  have "same_bonds g g" by (simp add: same_bonds_def)
  from standing_cong [OF this eq]
  show "(is_live (gr_state g) \<longrightarrow> stands a' g \<and> gr_epoch g = sp_epoch (au_spec a'))
      = (is_live (gr_state g) \<longrightarrow> stands a g \<and> gr_epoch g = sp_epoch (au_spec a))"
    by (simp only: stands_def eq)
qed

end
