(* ===== verification/Write_Ahead.thy ===== *)
theory Write_Ahead
  imports Runs
begin

text \<open>
  Write-ahead: with a journal that is closed no record can be written, and then no event
  changes a grant or an attempt.
\<close>

definition sink_closed :: "sink \<Rightarrow> bool" where
  "sink_closed s = (case s of NullSink _ \<Rightarrow> False | JournalSink j \<Rightarrow> \<not> j_open j)"

definition frozen :: "authority \<Rightarrow> authority \<Rightarrow> bool" where
  "frozen a a' = (au_grants a' = au_grants a \<and> au_attempts a' = au_attempts a \<and> au_sink a' = au_sink a)"

lemma frozen_refl [simp]: "frozen a a"
  by (simp add: frozen_def)

lemma frozen_core: "au_core a' = au_core a \<Longrightarrow> frozen a a'"
  using au_core_eqD(1,2,4) [of a' a] by (simp add: frozen_def)

lemma frozen_trans: "frozen a b \<Longrightarrow> frozen b c \<Longrightarrow> frozen a c"
  by (simp add: frozen_def)

lemma closed_journal_entry:
  assumes "sink_closed (au_sink a)"
  shows "\<exists>st n. journal_entry p d a = (st, n, a) \<and> \<not> ok st"
proof -
  obtain j where j: "au_sink a = JournalSink j" "\<not> j_open j"
    using assms by (auto simp: sink_closed_def split: sink.splits)
  have "a\<lparr>au_sink := JournalSink j\<rparr> = a" using j(1) by (metis authority.surjective authority.update_convs(2) authority.select_convs(2))
  then show ?thesis using j by (simp add: journal_entry_def journal_sink_append_def)
qed

lemma closed_journal_put: "sink_closed (au_sink a) \<Longrightarrow> \<exists>st. journal_put p a = (st, a) \<and> \<not> ok st"
  using closed_journal_entry [of a p True] by (auto simp: journal_put_def)

lemma closed_terminate: "sink_closed (au_sink a) \<Longrightarrow> \<exists>st. terminate_grant i s c d r a = (st, a) \<and> \<not> ok st"
  using closed_journal_entry [of a "JGrantTerminal (grant_mark_of (ended_grant s c d r (au_grants a ! i)) s)" True]
  by (auto simp: terminate_grant_def Let_def)

lemma closed_frozen: "sink_closed (au_sink a) \<Longrightarrow> frozen a b \<Longrightarrow> sink_closed (au_sink b)"
  by (simp add: frozen_def)

lemma frozen_try:
  assumes "sink_closed (au_sink a)" "frozen a (snd m)" "\<And>b. sink_closed (au_sink b) \<Longrightarrow> frozen b (snd (k b))"
  shows "frozen a (snd (cif_try m k))"
  using assms closed_frozen frozen_trans by (cases m) (auto simp: cif_try_def)

lemma frozen_each:
  "sink_closed (au_sink a) \<Longrightarrow> (\<And>i b. sink_closed (au_sink b) \<Longrightarrow> frozen b (snd (f i b))) \<Longrightarrow> frozen a (snd (each_grant f is a))"
  by (induction "is" arbitrary: a) (auto intro!: frozen_try)

lemma frozen_updates [simp]: "frozen a (stale_digest b) = frozen a b" "frozen a (count_fence b) = frozen a b"
  "frozen a (b\<lparr>au_spec := s\<rparr>) = frozen a b"
  by (simp_all add: frozen_def stale_digest_def count_fence_def)

lemma frozen_terminate: "sink_closed (au_sink a) \<Longrightarrow> frozen a (snd (terminate_grant i s c d r a))"
  using closed_terminate [of a i s c d r] by auto

lemma frozen_fence_all: "sink_closed (au_sink a) \<Longrightarrow> frozen a (snd (fence_all c d a))"
  unfolding fence_all_def by (rule frozen_try, assumption, rule frozen_each) (auto intro: frozen_terminate)

lemma frozen_expire: "sink_closed (au_sink a) \<Longrightarrow> frozen a (snd (expire_leases a))"
proof -
  have one: "frozen b (snd (expire_grant now i b))" if "sink_closed (au_sink b)" for now i b
    using closed_terminate [OF that, of i GsExpired RcLeaseExpired "''lease elapsed at tick '' @ to_decimal now" True]
    by (auto simp: expire_grant_def Let_def cif_try_def)
  assume c: "sink_closed (au_sink a)"
  show ?thesis unfolding expire_leases_def by (rule frozen_try [OF c frozen_each [OF c one]]) simp_all
qed

lemma closed_revalidate:
  assumes c: "sink_closed (au_sink a)"
  shows "snd (revalidate_grant i True a) = a \<and> \<not> ok (fst (revalidate_grant i True a))"
proof -
  have ends: "snd (terminate_grant i s rc d r a) = a \<and> \<not> ok (fst (terminate_grant i s rc d r a))" for s rc d r
    using closed_terminate [OF c, of i s rc d r] by auto
  show ?thesis
  proof (cases "standing a (au_grants a ! i)")
    case (Inl x)
    then show ?thesis using ends by (cases x) (simp add: revalidate_grant_def Let_def)
  next
    case (Inr y)
    obtain s d k where y: "y = (s, d, k)" by (metis prod_cases3)
    show ?thesis
    proof (cases "degrade_for k [s, d] (au_grants a ! i)")
      case deg: (Inl x)
      then show ?thesis using ends Inr y by (cases x) (simp add: revalidate_grant_def Let_def del: degrade_for.simps)
    next
      case deg: (Inr u)
      let ?u = "reissued (au_spec a) u"
      obtain st n where "journal_entry (JGrantCommitted (grant_mark_of ?u (gr_state ?u))) True a = (st, n, a)" "\<not> ok st"
        using closed_journal_entry [OF c] by blast
      then show ?thesis using Inr y deg by (simp add: revalidate_grant_def Let_def del: degrade_for.simps)
    qed
  qed
qed

lemma frozen_revalidate_live:
  assumes "sink_closed (au_sink a)"
  shows "frozen a (snd (revalidate_live_grants a))"
  unfolding revalidate_live_grants_def
proof (rule frozen_each [OF assms])
  fix i and b :: authority assume "sink_closed (au_sink b)"
  then show "frozen b (snd (if \<not> is_live (gr_state (au_grants b ! i)) then (success, b) else revalidate_grant i True b))"
    using closed_revalidate [of b i] by simp
qed

lemma frozen_mutation:
  assumes "sink_closed (au_sink a)"
  shows "frozen a (snd (journaled_change p f a))" "frozen a (snd (cif_try (journaled_change p f a) k))"
  using closed_journal_put [OF assms, of p] by (auto simp: journaled_change_def cif_try_def)


lemma frozen_answer: "frozen a b \<Longrightarrow> frozen a (snd (answer op rid aid out rs f b))"
  by (rule frozen_trans [OF _ frozen_core [OF core_answer]])

lemma frozen_answers [simp]: "frozen a (snd (answer op rid aid out rs f a))" "frozen a (snd (malformed_decision rid aid st a))"
  by (rule frozen_core, rule core_decisions)+

lemma frozen_release: "sink_closed (au_sink a) \<Longrightarrow> frozen a (snd (release q a))"
proof (cases "release_target q a")
  case (Some i)
  assume c: "sink_closed (au_sink a)"
  obtain st where t: "terminate_grant i GsReleased RcNone [] True a = (st, a)" "\<not> ok st"
    using closed_terminate [OF c] by blast
  show ?thesis by (simp add: release_def Let_def Some t)
qed (simp add: release_def Let_def)

lemma frozen_resolve: "frozen a (snd (resolve q a))"
  by (cases "find_attempt a (rv_attempt_id q)") (simp_all add: resolve_def Let_def)

lemma frozen_confirm:
  assumes "sink_closed (au_sink a)"
  shows "frozen a (snd (confirm_grant q i a))"
  using closed_journal_entry [OF assms, of "JGrantAcknowledged (grant_mark_of (au_grants a ! i) GsAcknowledged)" True]
  by (auto simp: confirm_grant_def Let_def)

lemma frozen_acknowledge: "sink_closed (au_sink a) \<Longrightarrow> frozen a (snd (acknowledge q a))"
proof (cases "mutable_grant a (ak_grant_id q)")
  case (Some i)
  assume c: "sink_closed (au_sink a)"
  have "frozen a (snd (lift_quarantine q i a))"
    using closed_revalidate [OF c, of i] by (cases "revalidate_grant i True a") (simp add: lift_quarantine_def Let_def)
  then show ?thesis using frozen_confirm [OF c, of q i] by (simp add: acknowledge_def Let_def Some)
qed (simp add: acknowledge_def Let_def)

lemma frozen_cancel: "sink_closed (au_sink a) \<Longrightarrow> frozen a (snd (cancel q a))"
proof -
  assume c: "sink_closed (au_sink a)"
  have revoke: "snd (revoke_cancelled q g a) = a" for g
    using closed_terminate [OF c] by (auto simp: revoke_cancelled_def split: option.split) (metis snd_conv)+
  have close: "snd (close_attempt q t a) = a" for t
  proof (cases t)
    case (Some k)
    then show ?thesis
      using closed_journal_put [OF c, of "JAttemptCancelled (at_attempt_id (au_attempts a ! k)) (cn_reason q)"]
      by (auto simp: close_attempt_def Let_def cif_try_def)
  qed (simp add: close_attempt_def)
  obtain s1 where r: "revoke_cancelled q (cancel_grant q a) a = (s1, a)" using revoke by (metis prod.collapse)
  have "\<exists>s. close_attempt q t a = (s, a)" for t using close by (metis prod.collapse)
  then obtain s2 where k: "\<And>t. close_attempt q t a = (s2 t, a)" by metis
  show ?thesis by (simp add: cancel_def Let_def r k frozen_answer)
qed

lemma frozen_commit:
  assumes "sink_closed (au_sink a)"
  shows "\<exists>dn. commit_grant g d a = (success, dn, a)"
  using closed_journal_entry [OF assms, of "JGrantPrepared (grant_mark_of (g\<lparr>gr_lease_issued := sp_tick (au_spec a),
      gr_state := GsPrepared, gr_commit := CsPrepared\<rparr>) GsPrepared)" True]
  by (auto simp: commit_grant_def Let_def)

lemma frozen_minted: "frozen a (minted q a)"
  by (simp add: frozen_def)

lemma frozen_issue:
  assumes "sink_closed (au_sink a)"
  shows "frozen a (snd (issue_grant q c r s d (a\<lparr>au_request_digest := authority_request_digest q\<rparr>)))"
proof -
  have c: "sink_closed (au_sink (minted q a))" using assms by simp
  obtain dn where k: "commit_grant (grant_to_commit q c r s d a) empty_decision (minted q a) = (success, dn, minted q a)"
    using frozen_commit [OF c] by blast
  have "frozen a (snd (refuse_submit q out rs (minted q a)))" for out rs
    by (rule frozen_trans [OF frozen_minted frozen_core], rule core_decisions)
  moreover have "frozen a (snd (finalize_decision op dx (minted q a)))" for op dx
    by (rule frozen_trans [OF frozen_minted frozen_core], rule core_decisions)
  ultimately show ?thesis unfolding issue_grant_unfold k by (simp add: Let_def)
qed

lemma frozen_submit:
  assumes c: "sink_closed (au_sink a)"
  shows "frozen a (snd (submit q a))"
proof -
  obtain dn a' where run: "submit q a = (dn, a')" by fastforce
  let ?a = "a\<lparr>au_request_digest := authority_request_digest q\<rparr>"
  have base: "frozen a b" if "frozen ?a b" for b using that by (simp add: frozen_def)
  have c': "sink_closed (au_sink ?a)" using c by simp
  have "frozen a a'" using run
  proof (cases rule: submit_cases)
    case turned_away
    then show ?thesis by (simp add: frozen_core)
  next
    case (replayed t)
    then show ?thesis using frozen_core [OF replay_effect(1)] by (metis snd_conv)
  next
    case (decided k)
    show ?thesis
    proof (cases "rq_renewal q")
      case True
      then have "(dn, a') = renew q k ?a" using decided(3) by simp
      moreover have "frozen ?a (snd (renew q k ?a))"
      proof (cases "mutable_grant ?a (rq_renewal_of q)")
        case (Some i)
        let ?u = "renewed_grant ?a q (evaluate ?a q k)
          (if el_degradations (evaluate ?a q k) \<noteq> [] then OutDegraded else OutGranted) (au_grants ?a ! i)"
        show ?thesis using closed_journal_entry [OF c', of "JGrantCommitted (grant_mark_of ?u GsCommitted)" True]
          by (auto simp: renew_def Let_def Some)
      qed (simp add: renew_def Let_def)
      ultimately show ?thesis using base by (metis snd_conv)
    next
      case False
      then have d: "a' = snd (decide_fresh q k ?a)" using decided(3) by (metis snd_conv)
      have "frozen ?a (snd (refuse_submit q out rs ?a))" for out rs by (rule frozen_core, rule core_decisions)
      then have refuse: "frozen a (snd (refuse_submit q out rs ?a))" for out rs by (rule base)
      show ?thesis unfolding d decide_fresh_def Let_def
        using refuse frozen_issue [OF c] frozen_refl by (simp split: option.split) (simp add: frozen_def)
    qed
  qed
  then show ?thesis by (simp add: run)
qed

lemma frozen_event:
  assumes "sink_closed (au_sink a)"
  shows "frozen a (apply_event e a)"
proof -
  have "\<not> sink_should_compact (au_sink a)" using assms by (auto simp: sink_closed_def split: sink.splits)
  then have "maybe_compact a = (success, a)" by (simp add: maybe_compact_def)
  moreover have "frozen a (snd (au_advance_tick t a))" for t by (simp add: au_advance_tick_def)
  moreover have "frozen a (snd (au_set_policy_generation n a))" for n
    using frozen_mutation(1) [OF assms] by (simp add: au_set_policy_generation_def)
  moreover have "frozen a (snd (revalidate_live_grants a))"
    by (rule frozen_revalidate_live [OF assms])
  moreover have "frozen a (snd (read_digest r a))" for r by (rule frozen_core, rule core_read_digest)
  ultimately show ?thesis
    by (cases e) (simp_all add: frozen_submit frozen_release frozen_resolve frozen_acknowledge frozen_cancel
        frozen_fence_all frozen_expire assms frozen_mutation au_upsert_member_def au_remove_member_def
        au_set_member_lifecycle_def au_upsert_path_def au_remove_path_def au_set_path_state_def
        au_upsert_exclusion_def au_remove_exclusion_def au_upsert_obligation_def au_remove_obligation_def
        au_upsert_contract_def au_remove_contract_def)
qed

lemma frozen_run: "sink_closed (au_sink a) \<Longrightarrow> frozen a (fold apply_event es a)"
proof (induction es arbitrary: a)
  case (Cons e es)
  note f = frozen_event [OF Cons.prems, of e]
  then show ?case using Cons.IH closed_frozen [OF Cons.prems f] frozen_trans [OF f] by simp
qed simp

end
