(* ===== verification/Demo_Cluster.thy ===== *)
theory Demo_Cluster
  imports Runs
begin

text \<open>
  A small concrete cluster the witnesses run on: two members joined by one exclusive
  path of ten units, a resource of eight units on each, one contract, one request for
  six units, and the controller that rules them, with its records in memory.
\<close>

definition demo_options :: options where
  "demo_options = \<lparr>op_require_member_digests = False, op_require_path_binding = True,
     op_reject_unknown_capabilities = True, op_enforce_capacity = True, op_default_lease_ticks = 4096,
     op_max_lease_ticks = 10000, op_audit_history = 16, op_recovery_policy = RevalidateAcknowledged,
     op_durable = True, op_decision_state_digest = False\<rparr>"

definition demo_member :: "string \<Rightarrow> string \<Rightarrow> member" where
  "demo_member i s = \<lparr>mb_id = i, mb_domain = ''d'', mb_generation = 1, mb_digest = digest_zero, mb_lifecycle = LcActive,
     mb_locality = [i], mb_endpoints = [], mb_services = [s],
     mb_resources = [\<lparr>re_id = ''r'', re_kind = ''k'', re_total_units = 8, re_reservation_generation = 1, re_reservable = True\<rparr>],
     mb_last_observed = 0, mb_note = []\<rparr>"

definition demo_path :: path where
  "demo_path = \<lparr>pt_id = ''p'', pt_generation = 1, pt_source_member = ''m'', pt_source_endpoint = [],
     pt_destination_member = ''n'', pt_destination_endpoint = [], pt_resources = [], pt_capacity_units = 10,
     pt_exclusive = True, pt_state = PsOperational, pt_declared_hops = 1\<rparr>"

definition demo_contract :: contract where
  "demo_contract = \<lparr>ct_id = ''k'', ct_generation = 1, ct_source_service = ''s'', ct_destination_service = ''t'',
     ct_min_capacity_units = 1, ct_max_capacity_units = 0, ct_min_distinct_failure_domains = 1,
     ct_failure_domain_level = 1, ct_require_exclusive_path = False, ct_maintenance_mode = MmRefuse,
     ct_allow_draining = False, ct_allow_faulted = False, ct_allow_partitioned = False, ct_allow_degraded = True,
     ct_required_capabilities = [], ct_enabled = True\<rparr>"

definition demo_spec :: spec where
  "demo_spec = empty_spec\<lparr>sp_cluster_id := ''c'', sp_generation := 4, sp_epoch := 1,
     sp_members := [demo_member ''m'' ''s'', demo_member ''n'' ''t''], sp_paths := [demo_path]\<rparr>"

definition demo :: authority where
  "demo = \<lparr>au_options = demo_options, au_sink = NullSink 0, au_cached_state_digest = digest_zero,
     au_state_digest_valid = False, au_spec = demo_spec,
     au_contracts = empty_contract_set\<lparr>cs_contracts := [demo_contract]\<rparr>, au_grants = [],
     au_attempts = [], au_counters = zero_counters, au_recovery = empty_report, au_audit = [],
     au_initialized = True, au_grant_serial = 0, au_lease_serial = 0, au_request_digest = digest_zero\<rparr>"

definition demo_request :: authority_request where
  "demo_request = \<lparr>rq_request_id = ''q1'', rq_contract_id = ''k'', rq_contract_generation = 1, rq_cluster_id = ''c'',
     rq_cluster_generation = 4, rq_epoch = 1, rq_incarnation = zero_incarnation, rq_policy_generation = 0,
     rq_source_member = ''m'', rq_source_member_generation = 1, rq_source_member_digest = digest_zero,
     rq_destination_member = ''n'', rq_destination_member_generation = 1, rq_destination_member_digest = digest_zero,
     rq_source_endpoint = [], rq_destination_endpoint = [], rq_path_id = ''p'', rq_path_generation = 1,
     rq_resource_id = ''r'', rq_reservation_generation = 1, rq_requested_units = 6, rq_lease_ticks = 0,
     rq_attempt_id = ''a1'', rq_provenance = \<lparr>pv_client = [], pv_origin = [], pv_correlation_id = [],
       pv_ingress_sequence = 0, pv_observed_tick = 0\<rparr>, rq_allow_degraded = True, rq_renewal = False,
     rq_renewal_of = [], rq_renewal_lease = []\<rparr>"

text \<open>The request passes every fence and is eligible.\<close>

lemma demo_fields [simp]:
  "au_spec demo = demo_spec" "au_grants demo = []" "au_attempts demo = []" "au_sink demo = NullSink 0"
  "au_contracts demo = empty_contract_set\<lparr>cs_contracts := [demo_contract]\<rparr>"
  "op_enforce_capacity (au_options demo)" "op_max_lease_ticks (au_options demo) = 10000"
  "op_default_lease_ticks (au_options demo) = 4096" "au_grant_serial demo = 0"
  by (simp_all add: demo_def demo_options_def)

lemma demo_request_ok:
  "ok (validate_authority_request demo_request)"
  "first_guard (coordinate_guards (au_spec demo) demo_request) = None"
  "first_guard (contract_guards (au_options demo) demo_request demo_contract) = None"
  "find_attempt demo (rq_attempt_id demo_request) = None" "\<not> rq_renewal demo_request"
  "contracts_find (au_contracts demo) (rq_contract_id demo_request) = Some demo_contract"
  by code_simp (simp_all add: coordinate_guards_def contract_guards_def demo_request_def demo_spec_def empty_spec_def
      demo_contract_def capability_refusal_def unsupported_capabilities_def find_attempt_def contracts_find_def
      find_sorted_def find_index_def lower_bound_index_def present_at_def Let_def)

lemma demo_eligible:
  "(case evaluate demo demo_request demo_contract of r \<Rightarrow> (el_outcome r, el_degradations r)) = (OutGranted, [])"
  by code_simp

lemma demo_contract_valid: "ok (validate_contract demo_contract)"
  by code_simp

lemma demo_inv: "controller_inv demo"
  by (simp add: controller_inv_def authority_inv_def serials_cover_def demo_spec_def empty_spec_def spec_wf_def
      contracts_wf_def sorted_by_def demo_member_def demo_contract_valid kMaxMembers_def kMaxPaths_def kMaxContracts_def)

end
