(* ===== verification/Authority_Props.thy ===== *)
theory Authority_Props
  imports Demo_Cluster
begin

text \<open>
  The properties of the controller: what is true of every reachable state, of every
  event, and of the decisions clients get.
\<close>

section \<open>The in-memory sink accepts everything the controller writes\<close>

lemma null_journal_entry:
  assumes "au_sink a = NullSink n" "p \<noteq> JInvalid"
  shows "journal_entry p d a = (success, n, a\<lparr>au_sink := NullSink (n + 1)\<rparr>)"
  unfolding journal_entry_def assms(1) using assms(2) by (subst null_accepts) simp_all

lemma null_journal_put:
  "au_sink a = NullSink n \<Longrightarrow> p \<noteq> JInvalid \<Longrightarrow> journal_put p a = (success, a\<lparr>au_sink := NullSink (n + 1)\<rparr>)"
  by (simp add: journal_put_def null_journal_entry)

lemma upsert_not_full:
  "length (au_grants a) < kMaxGrants \<Longrightarrow> fst (upsert_grant g a) = success"
  "length (au_attempts a) < kMaxAttempts \<Longrightarrow> fst (upsert_attempt t a) = success"
  by (simp_all add: upsert_grant_def upsert_attempt_def Let_def)

lemma commit_succeeds:
  assumes "au_sink a = NullSink n" "length (au_grants a) < kMaxGrants" "length (au_attempts a) < kMaxAttempts"
  shows "fst (commit_grant g d a) = success" "dc_outcome (fst (snd (commit_grant g d a))) = gr_outcome g"
proof -
  define m where "m = n + 1 + 1"
  let ?a1 = "a\<lparr>au_sink := NullSink (n + 1)\<rparr>" and ?a2 = "a\<lparr>au_sink := NullSink m\<rparr>"
  have j1: "journal_entry (JGrantPrepared k) True a = (success, n, ?a1)" for k
    using assms by (simp add: null_journal_entry)
  have j2: "journal_entry (JGrantCommitted k) True ?a1 = (success, n + 1, ?a2)" for k
    by (subst null_journal_entry [of _ "n + 1"]) (simp_all add: m_def)
  have u: "upsert_grant k ?a2 = (success, snd (upsert_grant k ?a2))" for k
    using upsert_not_full(1) [of ?a2 k] assms(2) by (simp add: prod_eq_iff)
  have frame: "au_attempts (snd (upsert_grant k ?a2)) = au_attempts a" "au_sink (snd (upsert_grant k ?a2)) = NullSink m" for k
    by (simp_all add: upsert_grant_def Let_def)
  have v: "upsert_attempt t (snd (upsert_grant k ?a2)) = (success, snd (upsert_attempt t (snd (upsert_grant k ?a2))))" for t k
    using upsert_not_full(2) [of "snd (upsert_grant k ?a2)" t] assms(3) frame by (simp add: prod_eq_iff)
  have s: "au_sink (snd (upsert_attempt t (snd (upsert_grant k ?a2)))) = NullSink m" for t k
    using frame by (simp add: upsert_attempt_def Let_def)
  have w: "fst (journal_put (JAttemptTerminal t) (snd (upsert_attempt t (snd (upsert_grant k ?a2))))) = success" for t k
    using null_journal_put [OF s] by simp
  have r: "fst (cif_try (upsert_grant k ?a2) (\<lambda>a. cif_try (upsert_attempt t a) (journal_put (JAttemptTerminal t)))) = success" for t k
    using w [of t k] by (subst u, subst cif_try_def, simp) (subst v, simp add: cif_try_def)
  show "fst (commit_grant g d a) = success" "dc_outcome (fst (snd (commit_grant g d a))) = gr_outcome g"
    using r by (simp_all add: commit_grant_def Let_def j1 j2 split: prod.split) (metis fst_conv ok_success)+
qed

lemma request_digest_fields:
  "au_spec (a\<lparr>au_request_digest := x\<rparr>) = au_spec a" "au_grants (a\<lparr>au_request_digest := x\<rparr>) = au_grants a"
  "au_options (a\<lparr>au_request_digest := x\<rparr>) = au_options a"
  by simp_all

lemma obligation_request_digest: "check_obligation (a\<lparr>au_request_digest := x\<rparr>) = check_obligation a"
  unfolding check_obligation_def [abs_def] domain_units_of_def request_digest_fields by (rule refl)

lemma obligations_request_digest: "check_obligations (a\<lparr>au_request_digest := x\<rparr>) c k bs r = check_obligations a c k bs r"
  by (induction bs arbitrary: r) (simp_all add: obligation_request_digest stage_bind_def split: sum.split)

lemma evaluate_request_digest: "evaluate (a\<lparr>au_request_digest := x\<rparr>) q c = evaluate a q c"
  unfolding evaluate_def evaluate_members_def choose_path_def path_capacity_def resource_capacity_def
    committed_on_path_def reserved_on_resource_def blocking_holder_def live_grants_for_path_def check_renewal_def
    find_grant_def obligations_request_digest request_digest_fields by (rule refl)

lemma granted_when_eligible:
  assumes "au_sink a = NullSink n" "length (au_grants a) < kMaxGrants" "length (au_attempts a) < kMaxAttempts"
    "ok (validate_authority_request q)" "first_guard (coordinate_guards (au_spec a) q) = None" "\<not> rq_renewal q"
    "find_attempt a (rq_attempt_id q) = None" "contracts_find (au_contracts a) (rq_contract_id q) = Some c"
    "first_guard (contract_guards (au_options a) q c) = None" "el_outcome (evaluate a q c) = OutGranted"
    "el_degradations (evaluate a q c) = [] \<or> may_degrade c q" "lease_of (au_options a) q \<le> op_max_lease_ticks (au_options a)"
  shows "\<exists>g. issues q a g True (snd (submit q a)) \<and> dc_grant (fst (submit q a)) = Some g
    \<and> is_authoritative (dc_outcome (fst (submit q a)))"
proof -
  let ?a = "a\<lparr>au_request_digest := authority_request_digest q\<rparr>"
  let ?r = "evaluate a q c"
  have "grantable a q c ?r" using evaluate_grantable(1) [of a q c] assms(10) by simp
  then obtain s d where sd: "el_source_member ?r = Some s" "el_destination_member ?r = Some d" by (auto simp: grantable_def)
  have sub: "submit q a = issue_grant q c ?r s d ?a"
    using assms sd by (auto simp: submit_def decide_fresh_def Let_def evaluate_request_digest)
  have sink: "au_sink (minted q a) = NullSink n" using assms(1) by simp
  have out: "is_authoritative (gr_outcome (grant_to_commit q c ?r s d a))"
    by (simp add: grant_to_commit_def new_grant_def)
  have auth: "is_authoritative (dc_outcome (fst (submit q a)))"
    unfolding sub issue_grant_unfold
    using commit_succeeds [OF sink, of "grant_to_commit q c ?r s d a" empty_decision] assms(2,3,12) out
    by (auto simp: Let_def finalize_outcome split: prod.split)
  obtain dn a' where run: "submit q a = (dn, a')" by fastforce
  then show ?thesis using submit_effect [OF run assms(6)] auth assms(7) by auto
qed

text \<open>C5. With room in its tables and its records in memory, the controller grants every fresh request that
  passes the fences, is eligible (degraded only where both sides allow it) and asks for a lease within the
  limit: the answer is authoritative and its grant is in the table, holding its capacity.\<close>

theorem eligible_request_is_granted:
  assumes "au_sink a = NullSink n" "length (au_grants a) < kMaxGrants" "length (au_attempts a) < kMaxAttempts"
    "ok (validate_authority_request q)" "first_guard (coordinate_guards (au_spec a) q) = None" "\<not> rq_renewal q"
    "find_attempt a (rq_attempt_id q) = None" "contracts_find (au_contracts a) (rq_contract_id q) = Some c"
    "first_guard (contract_guards (au_options a) q c) = None" "el_outcome (evaluate a q c) = OutGranted"
    "el_degradations (evaluate a q c) = [] \<or> may_degrade c q" "lease_of (au_options a) q \<le> op_max_lease_ticks (au_options a)"
  shows "\<exists>g. is_authoritative (dc_outcome (fst (submit q a))) \<and> dc_grant (fst (submit q a)) = Some g
    \<and> g \<in> set (au_grants (snd (submit q a))) \<and> gr_attempt_id g = rq_attempt_id q \<and> gr_state g = GsCommitted"
proof -
  obtain g where g: "issues q a g True (snd (submit q a))" "dc_grant (fst (submit q a)) = Some g"
    "is_authoritative (dc_outcome (fst (submit q a)))"
    using granted_when_eligible [OF assms] by blast
  have "g \<in> set (au_grants (snd (submit q a)))"
    by (auto simp: issued_tables(1) [OF g(1)] table_put_def Let_def set_insert_at present_at_def intro: set_update_memI)
  moreover have "gr_state g = GsCommitted" using g(1) by (auto simp: issues_def)
  ultimately show ?thesis using g issued_tables(9) [OF g(1)] by blast
qed

theorem eligible_request_is_granted_witness:
  "\<exists>g. is_authoritative (dc_outcome (fst (submit demo_request demo))) \<and> dc_grant (fst (submit demo_request demo)) = Some g
    \<and> g \<in> set (au_grants (snd (submit demo_request demo))) \<and> gr_attempt_id g = rq_attempt_id demo_request
    \<and> gr_state g = GsCommitted"
  by (rule eligible_request_is_granted [where n = 0 and c = demo_contract])
    (use demo_request_ok demo_eligible in \<open>simp_all add: kMaxGrants_def kMaxAttempts_def lease_of_def demo_request_def\<close>)


section \<open>A fresh controller\<close>

definition fresh_controller :: authority where
  "fresh_controller = snd (initialize ''c'' [] 0 0 None (new_authority default_options))"

lemma fresh_started: "initialize ''c'' [] 0 0 None (new_authority default_options) = (success, fresh_controller)"
proof -
  have "fst (initialize ''c'' [] 0 0 None (new_authority default_options)) = success"
    by (simp add: initialize_def clear_state_def new_authority_def change_spec_def set_cluster_id_def empty_spec_def
        journal_put_def journal_entry_def null_append_def cif_try_def Let_def begin_epoch_def can_advance_def
        set_policy_generation_def set_tick_def set_incarnation_def note_revision_def)
  then show ?thesis by (simp add: fresh_controller_def prod_eq_iff)
qed

lemma fresh_reachable: "reachable default_options fresh_controller"
  using reachable.started [OF fresh_started] .

section \<open>Reachable states\<close>

text \<open>C1. In every state the controller can reach by starting fresh or recovering and then handling
  any events, the grant and attempt tables are strictly sorted by id and within their bounds, a grant
  is marked as holding capacity exactly when its state says so, none is left half committed, and the
  serial counter is at least the number any grant id ends in.\<close>

theorem reachable_tables:
  assumes "reachable p a"
  shows "sorted_by gr_grant_id (au_grants a) \<and> length (au_grants a) \<le> kMaxGrants
    \<and> sorted_by at_attempt_id (au_attempts a) \<and> length (au_attempts a) \<le> kMaxAttempts
    \<and> list_all (\<lambda>g. gr_capacity_reserved g = holds_capacity (gr_state g) \<and> gr_state g \<noteq> GsPrepared
          \<and> serial_suffix (gr_grant_id g) \<le> au_grant_serial a) (au_grants a)
    \<and> spec_wf (au_spec a) \<and> contracts_wf (au_contracts a)"
  using reachable_inv [OF assms]
  by (simp add: controller_inv_def authority_inv_def serials_cover_def grant_sane_def list_all_iff)

theorem reachable_tables_witness:
  "sorted_by gr_grant_id (au_grants fresh_controller) \<and> spec_wf (au_spec fresh_controller)"
  using reachable_tables [OF fresh_reachable] by simp

section \<open>Capacity\<close>

text \<open>C3. The saturating loops compute the exact number of units held on a path or a resource,
  cut off at the largest 64-bit value.\<close>

theorem accounting_exact:
  "unat (path_committed_units a p) = min (held (on_path p) (au_grants a)) (2 ^ 64 - 1)
   \<and> unat (reserved_units a r) = min (held (on_resource r) (au_grants a)) (2 ^ 64 - 1)"
  using units_of_exact [of "on_path p" "au_grants a"] units_of_exact [of "on_resource r" "au_grants a"]
  by (simp add: path_committed_units_def reserved_units_def on_path_def [abs_def] on_resource_def [abs_def])

lemma held_no_renewal:
  "\<not> rq_renewal q \<Longrightarrow> held (\<lambda>g. sel g \<and> \<not> renews q g) gs = held sel gs"
  by (simp add: renews_def)

lemma issued_within_capacity:
  assumes i: "issues q a g bound a'" and q: "\<not> rq_renewal q" and e: "op_enforce_capacity (au_options a)"
    and p: "p \<noteq> []" and r: "r \<noteq> []"
  shows "held (on_path p) (au_grants a') \<le> held (on_path p) (au_grants a)
      \<or> (\<exists>x\<in>set (sp_paths (au_spec a)). pt_id x = p \<and> held (on_path p) (au_grants a') \<le> unat (pt_capacity_units x))"
    "held (on_resource r) (au_grants a') \<le> held (on_resource r) (au_grants a)
      \<or> (\<exists>m\<in>set (sp_members (au_spec a)). \<exists>x\<in>set (mb_resources m). re_id x = r
            \<and> held (on_resource r) (au_grants a') \<le> unat (re_total_units x))"
proof -
  obtain c el where el: "grantable a q c el"
    "gr_path_id g = (case el_path el of None \<Rightarrow> [] | Some p \<Rightarrow> pt_id p)"
    "gr_resource_id g = (case el_resource el of None \<Rightarrow> [] | Some e \<Rightarrow> re_id e)"
    "gr_capacity_units g = el_authorised_units el"
    using i unfolding issues_def by metis
  note grants = issued_tables(1) [OF i]
  have up: "held sel (au_grants a') \<le> (if sel g then unat (el_authorised_units el) else 0) + held sel (au_grants a)" for sel
    using held_put [of sel gr_grant_id g "au_grants a"] unfolding grants el(4) .
  show "held (on_path p) (au_grants a') \<le> held (on_path p) (au_grants a)
      \<or> (\<exists>x\<in>set (sp_paths (au_spec a)). pt_id x = p \<and> held (on_path p) (au_grants a') \<le> unat (pt_capacity_units x))"
  proof (cases "gr_path_id g = p \<and> 0 < unat (el_authorised_units el)")
    case True
    then obtain x where x: "el_path el = Some x" "pt_id x = p" using el(2) p by (auto split: option.splits)
    have "unat (el_authorised_units el) \<le> unat (pt_capacity_units x) - held (on_path p) (au_grants a)"
      using el(1) x e held_no_renewal [OF q] by (auto simp: grantable_def fits_path_def)
    then have "unat (el_authorised_units el) + held (on_path p) (au_grants a) \<le> unat (pt_capacity_units x)"
      using True by linarith
    then have "held (on_path p) (au_grants a') \<le> unat (pt_capacity_units x)"
      using up [of "on_path p"] by (auto split: if_splits)
    moreover have "x \<in> set (sp_paths (au_spec a))" using el(1) x by (auto simp: grantable_def path_joins_def)
    ultimately show ?thesis using x by blast
  next
    case False
    then show ?thesis using up [of "on_path p"] by (auto simp: on_path_def split: if_splits)
  qed
  show "held (on_resource r) (au_grants a') \<le> held (on_resource r) (au_grants a)
      \<or> (\<exists>m\<in>set (sp_members (au_spec a)). \<exists>x\<in>set (mb_resources m). re_id x = r
            \<and> held (on_resource r) (au_grants a') \<le> unat (re_total_units x))"
  proof (cases "gr_resource_id g = r \<and> 0 < unat (el_authorised_units el)")
    case True
    then obtain x where x: "el_resource el = Some x" "re_id x = r" using el(3) r by (auto split: option.splits)
    obtain m where m: "find_member (au_spec a) (rq_source_member q) = Some m" "find_resource m (rq_resource_id q) = Some x"
      using el(1) x(1) by (auto simp: grantable_def fits_resource_def)
    have "unat (el_authorised_units el) \<le> unat (re_total_units x) - held (on_resource r) (au_grants a)"
      using el(1) x e held_no_renewal [OF q] by (auto simp: grantable_def fits_resource_def)
    then have "unat (el_authorised_units el) + held (on_resource r) (au_grants a) \<le> unat (re_total_units x)"
      using True by linarith
    then have "held (on_resource r) (au_grants a') \<le> unat (re_total_units x)"
      using up [of "on_resource r"] by (auto split: if_splits)
    moreover have "m \<in> set (sp_members (au_spec a))" "x \<in> set (mb_resources m)"
      using m find_sorted_Some [of mb_id "sp_members (au_spec a)"]
      by (auto simp: find_member_def find_resource_def find_Some_iff)
    ultimately show ?thesis using x by blast
  next
    case False
    then show ?thesis using up [of "on_resource r"] by (auto simp: on_resource_def split: if_splits)
  qed
qed

lemma held_Nil: "held sel [] = 0"
  by (simp add: held_def)

text \<open>The demonstration request is granted on its path.\<close>

lemma demo_granted:
  "\<exists>g. issues demo_request demo g True (snd (submit demo_request demo))
    \<and> au_grants (snd (submit demo_request demo)) = [g] \<and> gr_path_id g = ''p''
    \<and> dc_grant (fst (submit demo_request demo)) = Some g"
proof -
  obtain g where g: "issues demo_request demo g True (snd (submit demo_request demo))"
    "dc_grant (fst (submit demo_request demo)) = Some g"
    using granted_when_eligible [where a = demo and q = demo_request and n = 0 and c = demo_contract]
      demo_request_ok demo_eligible
    by (auto simp: kMaxGrants_def kMaxAttempts_def lease_of_def demo_request_def)
  have "au_grants (snd (submit demo_request demo)) = [g]"
    using issued_tables(1) [OF g(1)] by (simp add: table_put_def present_at_def insert_at_def lower_bound_index_def)
  moreover have "gr_path_id g = ''p''"
  proof -
    obtain c r where r: "grantable demo demo_request c r" "gr_path_id g = (case el_path r of None \<Rightarrow> [] | Some p \<Rightarrow> pt_id p)"
      using g(1) unfolding issues_def by metis
    have "rq_path_id demo_request = ''p''" by (simp add: demo_request_def)
    then show ?thesis using r by (auto simp: grantable_def bound_path_def path_joins_def split: option.splits)
  qed
  ultimately show ?thesis using g by blast
qed

text \<open>C2. No event but a renewal over-commits anything: for every path and every resource, either the
  units held do not grow, or they end within the capacity the path, or the resource on a member, is
  declared with.\<close>

theorem never_overcommitted:
  assumes "controller_inv a" "op_enforce_capacity (au_options a)" "\<forall>q. e = EvSubmit q \<longrightarrow> \<not> rq_renewal q"
    "i \<noteq> []"
  defines "a' \<equiv> apply_event e a"
  shows "(held (on_path i) (au_grants a') \<le> held (on_path i) (au_grants a)
      \<or> (\<exists>x\<in>set (sp_paths (au_spec a)). pt_id x = i \<and> held (on_path i) (au_grants a') \<le> unat (pt_capacity_units x)))
    \<and> (held (on_resource i) (au_grants a') \<le> held (on_resource i) (au_grants a)
      \<or> (\<exists>m\<in>set (sp_members (au_spec a)). \<exists>x\<in>set (mb_resources m). re_id x = i
            \<and> held (on_resource i) (au_grants a') \<le> unat (re_total_units x)))"
proof (cases "\<exists>q. e = EvSubmit q")
  case False
  then have "evolves a a'" unfolding a'_def by (intro evolves_event) blast
  then have "list_all2 evolve (au_grants a) (au_grants a')"
    using assms(1) by (simp add: evolves_def controller_inv_def)
  then show ?thesis using held_evolve by blast
next
  case True
  then obtain q where q: "e = EvSubmit q" "\<not> rq_renewal q" using assms(3) by blast
  obtain dn where run: "submit q a = (dn, a')" using q by (simp add: a'_def prod_eq_iff)
  from submit_effect [OF run q(2)] show ?thesis
  proof (elim disjE exE conjE)
    assume "refuses a a'"
    then show ?thesis by (auto simp: refuses_def dest!: au_core_eqD(1))
  next
    fix g bound assume "issues q a g bound a'"
    from issued_within_capacity [OF this q(2) assms(2,4,4)] show ?thesis by blast
  qed
qed

theorem never_overcommitted_witness:
  "held (on_path ''p'') (au_grants (snd (submit demo_request demo))) \<le> 10"
  using never_overcommitted [of demo "EvSubmit demo_request" "''p''"] demo_inv demo_request_ok(5)
  by (auto simp: demo_spec_def demo_path_def held_Nil)



end
