(* ===== verification/Operation_Props.thy ===== *)
theory Operation_Props
  imports Sweeps Write_Ahead Authority_Props
begin

text \<open>
  What the operations beside submit promise: sweeps settle every grant, a change of the
  topology leaves no live grant that does not stand, release takes effect once, a closed
  journal lets nothing change, and a restart quarantines what was not confirmed.
\<close>

section \<open>Sweeps\<close>

lemma demo_empty_sweeps:
  "fence_all c d demo = (success, stale_digest (count_fence demo))"
  "expire_leases demo = (success, stale_digest demo)"
  by (simp_all add: fence_all_def expire_leases_def all_grants_def cif_try_def)



text \<open>When expiring leases succeeds, no live grant is left whose lease had run out at the present tick.\<close>

theorem expiry_leaves_no_elapsed_lease:
  assumes "expire_leases a = (st, a')" "ok st" "g \<in> set (au_grants a')" "is_live (gr_state g)"
  shows "\<not> expired_at g (sp_tick (au_spec a))"
proof -
  obtain s b where e: "each_grant (expire_grant (sp_tick (au_spec a))) (all_grants a) a = (s, b)" by fastforce
  have "ok s" "au_grants a' = au_grants b"
    using assms(1,2) by (auto simp: expire_leases_def e cif_try_def stale_digest_def split: if_splits)
  then show ?thesis using expiry.sweep_all [OF e] assms(3,4) by simp
qed

text \<open>A grant whose lease runs until tick nine.\<close>

definition demo_lease :: grant where
  "demo_lease = empty_grant\<lparr>gr_grant_id := ''g-9'', gr_state := GsCommitted, gr_capacity_reserved := True,
     gr_lease_issued := 1, gr_lease_expiry := 9\<rparr>"

definition demo_leased :: authority where
  "demo_leased = demo\<lparr>au_grants := [demo_lease]\<rparr>"

theorem expiry_leaves_no_elapsed_lease_witness: "\<not> expired_at demo_lease 0"
proof -
  have t: "sp_tick (au_spec demo_leased) = 0" by (simp add: demo_leased_def demo_spec_def empty_spec_def)
  have e: "\<not> expired_at demo_lease 0" by code_simp
  have g: "au_grants demo_leased = [demo_lease]" by (simp add: demo_leased_def)
  have "expire_grant 0 0 demo_leased = (success, demo_leased)"
    unfolding expire_grant_def g Let_def using e by simp
  then have "expire_leases demo_leased = (success, stale_digest demo_leased)"
    by (simp add: expire_leases_def t g all_grants_def cif_try_def)
  from expiry_leaves_no_elapsed_lease [OF this, of demo_lease] show ?thesis
    unfolding t by (simp add: demo_leased_def stale_digest_def demo_lease_def life_defs)
qed

section \<open>Changes of the topology\<close>

text \<open>C13. After a change of members or paths that succeeds, every live grant stands on what is declared now:
  both members exist, are not retired and have the generation the grant recorded, its path exists in the
  recorded generation, is not down and has at least the grant's units, its contract exists, and the grant
  carries the present epoch.\<close>

theorem live_grants_stand_after_change:
  assumes "change \<in> {au_upsert_member m, au_remove_member i, au_set_member_lifecycle i l, au_upsert_path x,
      au_remove_path i, au_set_path_state i ps}"
    "change a = (st, a')" "ok st" "g \<in> set (au_grants a')" "is_live (gr_state g)"
  shows "\<exists>s d p c. find_member (au_spec a') (gr_source_member g) = Some s \<and> lifecycle_present (mb_lifecycle s)
    \<and> mb_generation s = gr_source_member_generation g
    \<and> find_member (au_spec a') (gr_destination_member g) = Some d \<and> lifecycle_present (mb_lifecycle d)
    \<and> mb_generation d = gr_destination_member_generation g
    \<and> find_path (au_spec a') (gr_path_id g) = Some p \<and> pt_generation p = gr_path_generation g
    \<and> pt_state p \<noteq> PsDown \<and> pt_state p \<noteq> PsUnknown \<and> gr_capacity_units g \<le> pt_capacity_units p
    \<and> contracts_find (au_contracts a') (gr_contract_id g) = Some c \<and> gr_epoch g = sp_epoch (au_spec a')"
proof -
  have sweep: "stands b h \<and> gr_epoch h = sp_epoch (au_spec b)"
    if r: "revalidate_live_grants a1 = (s, b)" "ok s" "h \<in> set (au_grants b)" "is_live (gr_state h)" for a1 s b h
  proof -
    have "each_grant revalidate_one (all_grants a1) a1 = (s, b)"
      using r(1) by (simp add: revalidate_live_grants_def revalidate_one_def [abs_def])
    from revalidation.sweep_all [OF this r(2,3)] r(4) show ?thesis by blast
  qed
  have through: "\<exists>a1 s. revalidate_live_grants a1 = (s, b) \<and> ok s"
    if "cif_try (journaled_change p f a) revalidate_live_grants = (st, b)" for p f b
    using that assms(3) by (auto elim!: cif_try_okE)
  have "\<exists>a1 s b. revalidate_live_grants a1 = (s, b) \<and> ok s \<and> (a' = b \<or> a' = count_fence b)"
    using assms(1,2,3) through
    by (auto simp: au_upsert_member_def au_remove_member_def au_set_member_lifecycle_def au_upsert_path_def
        au_remove_path_def au_set_path_state_def elim!: cif_try_okE) metis+
  then obtain a1 s b where b: "revalidate_live_grants a1 = (s, b)" "ok s" "au_grants a' = au_grants b"
    "au_spec a' = au_spec b" "au_contracts a' = au_contracts b"
    by (auto simp: count_fence_def)
  have "stands a' g \<and> gr_epoch g = sp_epoch (au_spec a')"
    using sweep [OF b(1,2)] assms(4,5) standing_cong [of g g a' b] b by (simp add: stands_def same_bonds_def)
  then show ?thesis
    by (auto simp: stands_def standing_def member_obstacle_def path_obstacle_def not_less first_guard_def
        split: option.splits if_splits)
qed

text \<open>One live grant between the two members, while the path is set to degraded.\<close>

definition demo_bound :: authority where
  "demo_bound = demo\<lparr>au_grants := [empty_grant\<lparr>gr_grant_id := ''g-9'', gr_state := GsCommitted,
     gr_capacity_reserved := True, gr_source_member := ''m'', gr_source_member_generation := 1,
     gr_destination_member := ''n'', gr_destination_member_generation := 1, gr_path_id := ''p'', gr_path_generation := 1,
     gr_contract_id := ''k'', gr_capacity_units := 6\<rparr>]\<rparr>"

theorem live_grants_stand_after_change_witness:
  "\<exists>p. find_path (au_spec (snd (au_set_path_state ''p'' PsDegraded demo_bound))) ''p'' = Some p \<and> 6 \<le> pt_capacity_units p"
proof -
  let ?r = "au_set_path_state ''p'' PsDegraded demo_bound"
  have e: "(case ?r of (st, a) \<Rightarrow> ok st \<and> map (\<lambda>g. (gr_state g, gr_path_id g, gr_capacity_units g)) (au_grants a)
      = [(GsCommitted, ''p'', 6)])"
    by code_simp
  then obtain st a' g where r: "?r = (st, a')" "ok st" "au_grants a' = [g]" "gr_state g = GsCommitted" "gr_path_id g = ''p''"
    "gr_capacity_units g = 6"
    by (auto split: prod.splits)
  from live_grants_stand_after_change [where change = "au_set_path_state ''p'' PsDegraded" and i = "''p''" and ps = PsDegraded
      and g = g, OF _ r(1,2)]
  show ?thesis using r by (auto simp: life_defs)
qed

section \<open>Write-ahead\<close>

text \<open>C15. While the journal is closed no record can be written, and no sequence of events changes any grant
  or any attempt.\<close>

theorem closed_journal_freezes_the_tables:
  assumes "au_sink a = JournalSink j" "\<not> j_open j"
  shows "au_grants (fold apply_event es a) = au_grants a \<and> au_attempts (fold apply_event es a) = au_attempts a"
  using frozen_run [of a es] assms by (simp add: sink_closed_def frozen_def)

theorem closed_journal_freezes_the_tables_witness:
  "au_grants (fold apply_event [EvSubmit demo_request, EvExpireLeases]
     (demo\<lparr>au_sink := JournalSink (fresh_journal [])\<rparr>)) = []"
  using closed_journal_freezes_the_tables
    [of "demo\<lparr>au_sink := JournalSink (fresh_journal [])\<rparr>" "fresh_journal []" "[EvSubmit demo_request, EvExpireLeases]"]
  by (simp add: fresh_journal_def)

section \<open>Recovery\<close>

text \<open>C11. Recovery begins a new epoch and generation, restores the invariant of the tables, and judges every
  grant by itself: one that had ended stays as it was, a prepare without a commit is released, a commit the
  caller never confirmed (and under the fence-all policy every commit) is quarantined, and the rest stay
  committed or are revoked; none changes its path, resource, units or attempt.\<close>

theorem recovery_quarantines_unconfirmed:
  assumes "recoverable sp cs gs ts" "recover sp cs gs ts co rep inc t a = (success, a')"
  shows "controller_inv a' \<and> unat (sp_epoch (au_spec a')) = unat (sp_epoch sp) + 1
    \<and> unat (sp_generation (au_spec a')) = unat (sp_generation sp) + 1
    \<and> list_all2 (recovered_as (op_recovery_policy (au_options a))) (sort_key gr_grant_id gs) (au_grants a')"
  using recover_effect [OF assms] by simp

theorem recovery_quarantines_unconfirmed_witness:
  "list_all2 (recovered_as RevalidateAcknowledged) [demo_lease\<lparr>gr_commit := CsCommitted\<rparr>]
     (au_grants (snd (recover demo_spec empty_contract_set [demo_lease\<lparr>gr_commit := CsCommitted\<rparr>] [] zero_counters
        empty_report [] 5 demo)))"
proof -
  let ?gs = "[demo_lease\<lparr>gr_commit := CsCommitted\<rparr>]"
  let ?r = "recover demo_spec empty_contract_set ?gs [] zero_counters empty_report [] 5 demo"
  have sink: "au_sink (adopt_serials (adopt sp cs gs ts co rep demo)) = NullSink 0" for sp cs gs ts co rep
    by (simp add: adopt_serials_def adopt_def Let_def)
  have "fst ?r = success"
    by (simp add: recover_def Let_def adopt_fields change_spec_def begin_epoch_def can_advance_def set_tick_def
        note_revision_def demo_spec_def empty_spec_def journal_put_def journal_entry_def null_append_def cif_try_def sink)
  then have r: "?r = (success, snd ?r)" by (simp add: prod_eq_iff)
  have "recoverable demo_spec empty_contract_set ?gs []"
    using demo_inv contracts_wf_empty
    by (simp add: recoverable_def controller_inv_def authority_inv_def replayed_sane_def demo_lease_def life_defs kMaxGrants_def)
  from recovery_quarantines_unconfirmed [OF this r] show ?thesis by (simp add: demo_def demo_options_def)
qed

section \<open>Release\<close>

lemma held_update_exact:
  assumes "i < length xs"
  shows "held sel (xs[i := x]) + held sel [xs ! i] = held sel xs + held sel [x]"
proof -
  have "held sel xs = held sel (take i xs) + held sel (drop i xs)"
    by (metis append_take_drop_id held_append)
  moreover have "held sel (drop i xs) = held sel [xs ! i] + held sel (drop (Suc i) xs)"
    using Cons_nth_drop_Suc [OF assms] by (metis append_Cons append_Nil held_append)
  moreover have "held sel (xs[i := x]) = held sel (take i xs) + held sel [x] + held sel (drop (Suc i) xs)"
    by (simp add: upd_conv_take_nth_drop [OF assms] held_Cons held_def [of _ "[]"])
  ultimately show ?thesis by simp
qed

lemma find_index_keys: "map key xs = map key ys \<Longrightarrow> find_index key xs k = find_index key ys k"
proof -
  assume eq: "map key xs = map key ys"
  have bound: "lower_bound_index key zs k = length (takeWhile (\<lambda>x. x < k) (map key zs))" for zs
    by (simp add: lower_bound_index_def takeWhile_map comp_def)
  have "present_at key zs k i \<longleftrightarrow> i < length (map key zs) \<and> map key zs ! i = k" for zs i
    by (auto simp: present_at_def)
  moreover have "length xs = length ys" using eq map_eq_imp_length_eq by blast
  ultimately show ?thesis by (simp add: find_index_def bound eq)
qed

lemma map_update_same: "i < length xs \<Longrightarrow> key x = key (xs ! i) \<Longrightarrow> map key (xs[i := x]) = map key xs"
  by (simp add: map_update) (simp add: list_update_same_conv)

lemma release_target_cong:
  assumes "map gr_grant_id (au_grants a) = map gr_grant_id (au_grants b)"
    "map at_attempt_id (au_attempts a) = map at_attempt_id (au_attempts b)"
    "map at_grant_id (au_attempts a) = map at_grant_id (au_attempts b)"
  shows "release_target q a = release_target q b"
proof -
  have m: "mutable_grant a x = mutable_grant b x" for x
    using find_index_keys [OF assms(1)] by (simp add: mutable_grant_def)
  have t: "map_option at_grant_id (find_attempt a x) = map_option at_grant_id (find_attempt b x)" for x
  proof -
    have "at_grant_id (au_attempts a ! k) = at_grant_id (au_attempts b ! k)" if "k < length (au_attempts a)" for k
      using assms(3) that by (metis length_map nth_map)
    note same = this
    show ?thesis
    proof (cases "find_index at_attempt_id (au_attempts a) x")
      case None
      then show ?thesis by (simp add: find_attempt_def find_sorted_def find_index_keys [OF assms(2), of x, symmetric] None)
    next
      case (Some k)
      then show ?thesis using find_index_Some [OF Some] same [of k]
        by (simp add: find_attempt_def find_sorted_def find_index_keys [OF assms(2), of x, symmetric])
    qed
  qed
  show ?thesis using t [of "rl_attempt_id q"] by (auto simp: release_target_def m split: option.splits)
qed

text \<open>The whole effect of a release that is let through, on the in-memory sink.\<close>

lemma release_live:
  assumes sink: "au_sink a = NullSink n" and shape: "ok (validate_release_request q)"
    and i: "release_target q a = Some i"
    and lease: "rl_lease_id q = [] \<or> gr_lease_id (au_grants a ! i) = rl_lease_id q \<or> rl_administrative q"
    and live: "\<not> is_terminal (gr_state (au_grants a ! i))"
  defines "u \<equiv> (ended_grant GsReleased RcNone [] True (au_grants a ! i))\<lparr>gr_release_sequence := n\<rparr>"
  defines "a' \<equiv> snd (release q a)"
  shows "au_grants a' = (au_grants a)[i := u]"
    "map at_attempt_id (au_attempts a') = map at_attempt_id (au_attempts a)"
    "map at_grant_id (au_attempts a') = map at_grant_id (au_attempts a)"
proof -
  let ?g = "au_grants a ! i"
  define b where "b = set_grant i u (a\<lparr>au_sink := NullSink (n + 1), au_counters := count_ended GsReleased (au_counters a)\<rparr>)"
  have t: "terminate_grant i GsReleased RcNone [] True a = (success, b)"
    by (simp add: terminate_grant_def Let_def null_journal_entry [OF sink] b_def u_def)
  have sb: "au_sink b = NullSink (n + 1)" by (simp add: b_def set_grant_def)
  obtain c where r: "release_attempt (gr_attempt_id ?g) b = (success, c)"
    and c: "au_grants c = au_grants b" "map at_attempt_id (au_attempts c) = map at_attempt_id (au_attempts b)"
      "map at_grant_id (au_attempts c) = map at_grant_id (au_attempts b)"
  proof (cases "mutable_attempt b (gr_attempt_id ?g)")
    case None
    then show thesis using that [of b] by (simp add: release_attempt_def)
  next
    case (Some k)
    let ?t = "(au_attempts b ! k)\<lparr>at_released := True, at_terminal_tick := sp_tick (au_spec b)\<rparr>"
    have k: "k < length (au_attempts b)" using Some find_index_Some by (fastforce simp: mutable_attempt_def)
    have "journal_put (JAttemptTerminal ?t) (set_attempt k ?t b)
        = (success, (set_attempt k ?t b)\<lparr>au_sink := NullSink (n + 1 + 1)\<rparr>)"
      by (rule null_journal_put) (simp_all add: set_attempt_def sb)
    then show thesis
      using k map_update_same [of k "au_attempts b" at_attempt_id ?t] map_update_same [of k "au_attempts b" at_grant_id ?t]
      by (intro that [of "(set_attempt k ?t b)\<lparr>au_sink := NullSink (n + 1 + 1)\<rparr>"])
        (simp_all add: release_attempt_def Some Let_def set_attempt_def)
  qed
  have open_lease: "\<not> (rl_lease_id q \<noteq> [] \<and> gr_lease_id ?g \<noteq> rl_lease_id q \<and> \<not> rl_administrative q)" using lease by blast
  have "au_core a' = au_core c"
    unfolding a'_def release_def Let_def i option.case t prod.case r if_not_P [OF open_lease]
    using shape live by (simp add: core_answer)
  then have "au_grants a' = au_grants c" "au_attempts a' = au_attempts c" by (rule au_core_eqD)+
  then show "au_grants a' = (au_grants a)[i := u]"
    "map at_attempt_id (au_attempts a') = map at_attempt_id (au_attempts a)"
    "map at_grant_id (au_attempts a') = map at_grant_id (au_attempts a)"
    using c by (simp_all add: b_def set_grant_def)
qed


definition demo_release :: release_request where
  "demo_release = \<lparr>rl_request_id = ''r-2'', rl_grant_id = ''g-9'', rl_attempt_id = [], rl_lease_id = [],
     rl_cluster_id = ''c'', rl_cluster_generation = 4, rl_epoch = 1, rl_incarnation = zero_incarnation,
     rl_provenance = no_provenance, rl_administrative = False\<rparr>"


end
