(* ===== verification/Decision_Props.thy ===== *)
theory Decision_Props
  imports Authority_Props
begin

text \<open>
  What clients can rely on: no authority without current coordinates, one decision per
  attempt, ended grants stay ended, release returns capacity once, and nothing changes
  that could not be recorded.
\<close>

section \<open>Coordinates\<close>

definition current_coordinates :: "spec \<Rightarrow> authority_request \<Rightarrow> bool" where
  "current_coordinates sp q = ((sp_cluster_id sp = [] \<or> rq_cluster_id q = sp_cluster_id sp)
     \<and> rq_cluster_generation q = sp_generation sp \<and> rq_epoch q = sp_epoch sp
     \<and> rq_incarnation q = sp_incarnation sp \<and> rq_policy_generation q = sp_policy_generation sp)"

lemma coordinates_current: "first_guard (coordinate_guards sp q) = None \<longleftrightarrow> current_coordinates sp q"
  by (auto simp: coordinate_guards_def current_coordinates_def)

text \<open>C8. No submission is answered with authority, neither a fresh grant nor a replay nor a renewal, unless
  the request carries the controller's present cluster, generation, epoch, incarnation and policy generation.\<close>

theorem authority_needs_current_coordinates:
  assumes "is_authoritative (dc_outcome (fst (submit q a)))"
  shows "current_coordinates (au_spec a) q"
proof -
  obtain dn a' where run: "submit q a = (dn, a')" by fastforce
  show ?thesis using run
    by (cases rule: submit_cases) (use assms run coordinates_current in auto)
qed

lemma demo_authoritative: "is_authoritative (dc_outcome (fst (submit demo_request demo)))"
  using granted_when_eligible [where a = demo and q = demo_request and n = 0 and c = demo_contract]
    demo_request_ok demo_eligible
  by (auto simp: kMaxGrants_def kMaxAttempts_def lease_of_def demo_request_def)

theorem authority_needs_current_coordinates_witness: "current_coordinates (au_spec demo) demo_request"
  by (rule authority_needs_current_coordinates [OF demo_authoritative])

text \<open>C9. A request with other coordinates changes nothing but counters, caches and the audit ring, and is
  answered with INVALID or UNSUPPORTED (ill formed), UNKNOWN (another cluster), STALE or FENCED.\<close>

theorem stale_coordinates_change_nothing:
  assumes "\<not> current_coordinates (au_spec a) q"
  shows "au_core (snd (submit q a)) = au_core a
    \<and> dc_outcome (fst (submit q a)) \<in> {OutInvalid, OutUnsupported, OutUnknown, OutStale, OutFenced}"
proof (cases "ok (validate_authority_request q)")
  case True
  obtain rc detail out where g: "first_guard (coordinate_guards (au_spec a) q) = Some (rc, detail, out)"
    using assms coordinates_current [of "au_spec a" q] by (metis not_None_eq prod_cases3)
  have "out \<in> {OutInvalid, OutUnknown, OutStale, OutFenced}"
    using g by (simp add: coordinate_guards_def split: if_splits)
  then show ?thesis using True g answer_decision(1) [of id]
    by (auto simp: submit_def Let_def core_answer)
next
  case False
  have "dc_outcome (fst (coordinates rid aid out rs a)) = out" for rid aid out rs
    by (simp add: coordinates_def Let_def split: prod.splits)
  then have "dc_outcome (fst (malformed_decision rid aid st a)) = outcome_for_status st" for rid aid st
    by (simp add: malformed_decision_def Let_def split: prod.splits) (metis fst_conv)
  then show ?thesis using False by (simp add: submit_def Let_def core_malformed_decision outcome_for_status_def)
qed

theorem stale_coordinates_change_nothing_witness:
  "au_grants (snd (submit (demo_request\<lparr>rq_epoch := 0\<rparr>) demo)) = []"
proof -
  have "\<not> current_coordinates (au_spec demo) (demo_request\<lparr>rq_epoch := 0\<rparr>)"
    by (simp add: current_coordinates_def demo_spec_def)
  from stale_coordinates_change_nothing [OF this]
  have "au_core (snd (submit (demo_request\<lparr>rq_epoch := 0\<rparr>) demo)) = au_core demo" by simp
  from au_core_eqD(1) [OF this] show ?thesis by simp
qed

section \<open>One decision per attempt\<close>

lemma replay_differs:
  assumes "at_request_digest t \<noteq> authority_request_digest q"
  shows "dc_outcome (fst (replay_attempt t q a)) \<in> {OutConflicting, OutIndeterminate}"
proof -
  have made: "dc_outcome (fst (make_decision rid aid out rs a)) = out" for rid aid out rs
    by (auto simp: make_decision_def coordinates_def Let_def split: prod.splits)
  have kept: "dc_outcome (fst (answer op rid aid OutConflicting rs f a)) \<in> {OutConflicting, OutIndeterminate}"
    if "\<And>d. dc_outcome d = OutConflicting \<Longrightarrow> dc_outcome (f d) \<in> {OutConflicting, OutIndeterminate}" for op rid aid rs f
    using answer_fields [of OutConflicting op rid aid rs f a] that by fastforce
  show ?thesis
  proof (cases "digest_is_zero (at_request_digest t) \<and> at_grant_id t \<noteq> []")
    case True
    then have "fst (replay_attempt t q a) = fst (answer ''submit'' (rq_request_id q) (rq_attempt_id q) OutConflicting
          [mk_reason RcAttemptConflict (''this attempt survived a controller restart and its original request bytes are no ''
             @ ''longer recoverable; resolve it, or re-request under a fresh attempt id'')]
          (\<lambda>d. let d1 = d\<lparr>dc_requires_reconciliation := True, dc_idempotent_replay := True\<rparr> in
             (case find_grant a (at_grant_id t) of None \<Rightarrow> d1 | Some g \<Rightarrow> unrecoverable_grant g d1)) a)"
      by (simp only: replay_attempt_def Let_def if_True simp_thms)
    then show ?thesis by (simp only:) (rule kept, simp add: unrecoverable_grant_def Let_def split: option.split)
  next
    case False
    then have "fst (replay_attempt t q a) = fst (make_decision (rq_request_id q) (rq_attempt_id q) OutConflicting
          [mk_reason RcAttemptConflict ''this attempt id was already used for different request content''] a)"
      using assms by (simp only: replay_attempt_def Let_def if_False if_True simp_thms)
    then show ?thesis by (simp add: made)
  qed
qed

lemma known_attempt_replays:
  assumes "find_attempt b (rq_attempt_id q) = Some t" "\<not> rq_renewal q"
  shows "au_core (snd (submit q b)) = au_core b
    \<and> (is_authoritative (dc_outcome (fst (submit q b))) \<longrightarrow> dc_idempotent_replay (fst (submit q b))
        \<and> at_request_digest t = authority_request_digest q)"
proof -
  obtain dn b' where run: "submit q b = (dn, b')" by fastforce
  have "au_core b' = au_core b \<and> (is_authoritative (dc_outcome dn) \<longrightarrow> dc_idempotent_replay dn
      \<and> at_request_digest t = authority_request_digest q)"
    using run
  proof (cases rule: submit_cases)
    case (replayed u)
    then have "u = t" using assms(1) by simp
    then have d: "dn = fst (replay_attempt t q b)" "b' = snd (replay_attempt t q b)" using replayed(3) by (simp_all add: prod_eq_iff)
    show ?thesis using replay_effect [of t q b] replay_differs [of t q b]
      unfolding d by (cases "at_request_digest t = authority_request_digest q") auto
  next
    case (decided c)
    then show ?thesis using assms by simp
  qed simp
  then show ?thesis by (simp add: run)
qed


text \<open>The demonstration controller once it has granted the request.\<close>

lemma demo_after:
  "controller_inv (snd (submit demo_request demo))" "1 \<le> serials_left (snd (submit demo_request demo))"
  "\<exists>t. find_attempt (snd (submit demo_request demo)) (rq_attempt_id demo_request) = Some t"
  "\<exists>g. find_grant (snd (submit demo_request demo)) ''g-1'' = Some g \<and> gr_path_id g = ''p''
     \<and> au_grants (snd (submit demo_request demo)) = [g] \<and> holds_capacity (gr_state g)"
proof -
  obtain g where g: "issues demo_request demo g True (snd (submit demo_request demo))"
    "au_grants (snd (submit demo_request demo)) = [g]" "gr_path_id g = ''p''"
    using demo_granted by blast
  have left: "0 < serials_left demo" by (simp add: serials_left_def)
  show "controller_inv (snd (submit demo_request demo))" using submit_history [OF demo_inv left] by simp
  show "1 \<le> serials_left (snd (submit demo_request demo))"
    using issued_tables(6) [OF g(1)] by (simp add: serials_left_def)
  show "\<exists>t. find_attempt (snd (submit demo_request demo)) (rq_attempt_id demo_request) = Some t"
    using issued_tables(10) [OF g(1)] by (auto simp: find_attempt_def find_sorted_put)
  have "gr_grant_id g = ''g-1''"
  proof -
    have "''g-'' @ to_decimal (0 + 1) = ''g-1''" by code_simp
    then show ?thesis using issued_tables(8) [OF g(1)] by simp
  qed
  moreover have "holds_capacity (gr_state g)" using g(1) by (auto simp: issues_def life_defs)
  ultimately show "\<exists>g. find_grant (snd (submit demo_request demo)) ''g-1'' = Some g \<and> gr_path_id g = ''p''
     \<and> au_grants (snd (submit demo_request demo)) = [g] \<and> holds_capacity (gr_state g)"
    using g by (auto simp: find_grant_def find_sorted_def find_index_def lower_bound_index_def present_at_def)
qed


text \<open>C10. A grant that has been released, has expired, was fenced or revoked stays exactly as it is, and every
  grant stays bound to its attempt, lease, path and resource, through any events the serial counter has room for.\<close>

theorem ended_grants_stay_ended:
  assumes "controller_inv a" "find_grant a i = Some g" "length es \<le> serials_left a"
  shows "\<exists>g'. find_grant (fold apply_event es a) i = Some g' \<and> gr_attempt_id g' = gr_attempt_id g
    \<and> gr_lease_id g' = gr_lease_id g \<and> gr_path_id g' = gr_path_id g \<and> gr_resource_id g' = gr_resource_id g
    \<and> (holds_capacity (gr_state g') \<longrightarrow> holds_capacity (gr_state g)) \<and> (is_terminal (gr_state g) \<longrightarrow> g' = g)"
  using controller.run_keeps [OF assms(1,3)] assms(2)
  by (fastforce simp: history_kept_def grants_kept_def same_binding_def)

theorem ended_grants_stay_ended_witness:
  "\<exists>g'. find_grant (fold apply_event [EvFenceAll RcGrantFenced []] (snd (submit demo_request demo))) ''g-1'' = Some g'
    \<and> gr_path_id g' = ''p''"
proof -
  obtain g where g: "find_grant (snd (submit demo_request demo)) ''g-1'' = Some g" "gr_path_id g = ''p''"
    using demo_after(4) by blast
  from ended_grants_stay_ended [OF demo_after(1) g(1), of "[EvFenceAll RcGrantFenced []]"] show ?thesis
    using demo_after(2) g(2) by auto
qed

text \<open>C7. An authoritative answer to a new attempt carries a grant that is in the table under an identifier no grant had
  before, with its attempt on record for exactly this request; its units lie between the contract's minimum
  and what was asked for, and its commit record directly follows its prepare record in the log.\<close>

theorem granted_as_decided:
  assumes "controller_inv a" "au_grant_serial a \<noteq> u64_max" "\<not> rq_renewal q" "submit q a = (dn, a')"
    "is_authoritative (dc_outcome dn)" "find_attempt a (rq_attempt_id q) = None"
  shows "\<exists>g c t. dc_grant dn = Some g \<and> find_grant a' (gr_grant_id g) = Some g
    \<and> gr_grant_id g \<notin> gr_grant_id ` set (au_grants a)
    \<and> find_attempt a' (rq_attempt_id q) = Some t \<and> at_request_digest t = authority_request_digest q
    \<and> at_grant_id t = gr_grant_id g
    \<and> contracts_find (au_contracts a) (rq_contract_id q) = Some c
    \<and> ct_min_capacity_units c \<le> gr_capacity_units g \<and> gr_capacity_units g \<le> wanted_units q c
    \<and> gr_prepare_sequence g = sink_position (au_sink a) \<and> gr_commit_sequence g = gr_prepare_sequence g + 1"
proof -
  obtain g where g: "issues q a g True a'" "dc_grant dn = Some g"
    using submit_effect [OF assms(4,3)] assms(5,6) by auto
  note t = issued_tables [OF g(1)]
  have inv: "authority_inv a" "serials_cover a" using assms(1) by (simp_all add: controller_inv_def)
  obtain c r where c: "contracts_find (au_contracts a) (rq_contract_id q) = Some c" "grantable a q c r"
    "gr_capacity_units g = el_authorised_units r" "gr_prepare_sequence g = sink_position (au_sink a)"
    "gr_commit_sequence g = sink_position (au_sink a) + 1"
    using g(1) unfolding issues_def by metis
  obtain u where u: "au_attempts a' = table_put at_attempt_id u (au_attempts a)" "at_attempt_id u = rq_attempt_id q"
    "at_request_digest u = authority_request_digest q" "at_grant_id u = gr_grant_id g"
    using t(10) by blast
  have "find_grant a' (gr_grant_id g) = Some g"
    by (simp add: find_grant_def t(1) find_sorted_put [OF inv_sorted(1) [OF inv(1)]])
  moreover have "gr_grant_id g \<notin> gr_grant_id ` set (au_grants a)"
    using minted_fresh [OF inv(2) assms(2)] unfolding t(8) .
  moreover have "find_attempt a' (rq_attempt_id q) = Some u"
    using u(2) by (simp add: find_attempt_def u(1) find_sorted_put [OF inv_sorted(2) [OF inv(1)]])
  moreover have "ct_min_capacity_units c \<le> gr_capacity_units g" "gr_capacity_units g \<le> wanted_units q c"
    using c(2,3) by (auto simp: grantable_def sized_def)
  ultimately show ?thesis using g(2) c u by metis
qed

theorem granted_as_decided_witness:
  "\<exists>g. dc_grant (fst (submit demo_request demo)) = Some g \<and> gr_capacity_units g \<le> 6
    \<and> gr_prepare_sequence g = 0 \<and> gr_commit_sequence g = 1"
proof -
  have "au_grant_serial demo \<noteq> u64_max" by simp
  moreover have "is_authoritative (dc_outcome (fst (submit demo_request demo)))" by (rule demo_authoritative)
  moreover have "wanted_units demo_request demo_contract = 6" by (simp add: wanted_units_def demo_request_def)
  ultimately show ?thesis
    using granted_as_decided [of demo demo_request "fst (submit demo_request demo)" "snd (submit demo_request demo)"]
      demo_inv demo_request_ok(4,5,6) by fastforce
qed

end
