(* ===== verification/Queue.thy ===== *)
theory Queue
  imports Prelude
begin

text \<open>
  The bounded queue between the connection threads and the reducer
  (\<^verbatim>\<open>include/cif/bounded_queue.hpp\<close>). Every operation runs under the one mutex, so it is a
  function of the whole queue; a wait on the condition variable that is not satisfied
  is the answer \<open>Blocked\<close>. The lemmas show that the queue is a FIFO: what was accepted is
  what was taken followed by what is still queued, and never more than the capacity.
\<close>

section \<open>Operations\<close>

record 'a queue =
  q_items :: "'a list"
  q_capacity :: nat
  q_closed :: bool

definition queue_new :: "nat \<Rightarrow> 'a queue" where
  "queue_new n = \<lparr>q_items = [], q_capacity = (if n = 0 then 1 else n), q_closed = False\<rparr>"

definition queue_push :: "'a \<Rightarrow> 'a queue \<Rightarrow> bool \<times> 'a queue" where
  "queue_push x q =
     (if q_closed q \<or> length (q_items q) \<ge> q_capacity q then (False, q)
      else (True, q\<lparr>q_items := q_items q @ [x]\<rparr>))"

text \<open>The tail the three pops share, once the lock is held and there is no more waiting.\<close>

definition queue_take :: "'a queue \<Rightarrow> 'a option \<times> 'a queue" where
  "queue_take q = (case q_items q of [] \<Rightarrow> (None, q) | x # xs \<Rightarrow> (Some x, q\<lparr>q_items := xs\<rparr>))"

definition queue_ready :: "'a queue \<Rightarrow> bool" where
  "queue_ready q = (q_closed q \<or> q_items q \<noteq> [])"

text \<open>Waiting without a deadline blocks until the predicate holds; the answer \<open>None\<close> is that it still waits.\<close>

definition queue_pop_wait :: "'a queue \<Rightarrow> ('a option \<times> 'a queue) option" where
  "queue_pop_wait q = (if queue_ready q then Some (queue_take q) else None)"

text \<open>With a deadline, the predicate as it is when the wait ends decides.\<close>

definition queue_pop_wait_for :: "'a queue \<Rightarrow> 'a option \<times> 'a queue" where
  "queue_pop_wait_for q = (if \<not> queue_ready q \<or> q_items q = [] then (None, q) else queue_take q)"

definition queue_try_pop :: "'a queue \<Rightarrow> 'a option \<times> 'a queue" where
  "queue_try_pop q = queue_take q"

definition queue_reset :: "'a queue \<Rightarrow> 'a queue" where
  "queue_reset q = q\<lparr>q_items := [], q_closed := False\<rparr>"

definition queue_close :: "'a queue \<Rightarrow> 'a queue" where
  "queue_close q = q\<lparr>q_closed := True\<rparr>"

definition queue_size :: "'a queue \<Rightarrow> nat" where
  "queue_size q = length (q_items q)"

section \<open>First in, first out\<close>

text \<open>
  What a queue promises its users, whatever is stored and however it is kept: an offer is
  taken up at the end or leaves everything as it was, and taking removes the front.
\<close>

locale fifo =
  fixes contents :: "'q \<Rightarrow> 'a list"
    and offer :: "'a \<Rightarrow> 'q \<Rightarrow> bool \<times> 'q"
    and take_one :: "'q \<Rightarrow> 'a option \<times> 'q"
  assumes offered: "contents (snd (offer x q)) = contents q @ (if fst (offer x q) then [x] else [])"
    and taken: "contents q = (case fst (take_one q) of None \<Rightarrow> [] | Some x \<Rightarrow> [x]) @ contents (snd (take_one q))"
    and taken_None: "fst (take_one q) = None \<longleftrightarrow> contents q = []"
begin

text \<open>A run of offers and takes, with what was accepted and what was handed out.\<close>

fun run :: "'a option list \<Rightarrow> 'q \<Rightarrow> 'a list \<times> 'a list \<times> 'q" where
  "run [] q = ([], [], q)"
| "run (Some x # ops) q =
     (case offer x q of (b, q1) \<Rightarrow> case run ops q1 of (ins, outs, q2) \<Rightarrow> ((if b then x # ins else ins), outs, q2))"
| "run (None # ops) q =
     (case take_one q of (y, q1) \<Rightarrow> case run ops q1 of (ins, outs, q2) \<Rightarrow>
        (ins, (case y of None \<Rightarrow> outs | Some x \<Rightarrow> x # outs), q2))"

lemma run_in_order: "run ops q = (ins, outs, q') \<Longrightarrow> contents q @ ins = outs @ contents q'"
proof (induction ops q arbitrary: ins outs q' rule: run.induct)
  case (2 x ops q)
  obtain b q1 where o1: "offer x q = (b, q1)" by fastforce
  obtain as bs q2 where r: "run ops q1 = (as, bs, q2)" by (metis prod_cases3)
  show ?case using 2(1) [OF o1 [symmetric] r] 2(2) offered [of x q] o1 r by auto
next
  case (3 ops q)
  obtain y q1 where t: "take_one q = (y, q1)" by fastforce
  obtain as bs q2 where r: "run ops q1 = (as, bs, q2)" by (metis prod_cases3)
  show ?case using 3(1) [OF t [symmetric] r] 3(2) taken [of q] t r by (cases y) auto
qed simp

end

lemma queue_take_contents:
  "q_items q = (case fst (queue_take q) of None \<Rightarrow> [] | Some x \<Rightarrow> [x]) @ q_items (snd (queue_take q))"
  by (simp add: queue_take_def split: list.split)

lemma queue_take_None: "fst (queue_take q) = None \<longleftrightarrow> q_items q = []"
  by (simp add: queue_take_def split: list.split)

interpretation ingress: fifo q_items queue_push queue_try_pop
  by unfold_locales
    (simp_all add: queue_push_def queue_try_pop_def queue_take_None queue_take_contents [symmetric])

section \<open>Any sequence of operations\<close>

datatype 'a queue_op = QPush 'a | QPopWait | QPopWaitFor | QTryPop | QClose | QReset

text \<open>One operation of any thread: what it accepted, what it handed out, whether it still waits.\<close>

fun queue_step :: "'a queue_op \<Rightarrow> 'a queue \<Rightarrow> 'a list \<times> 'a list \<times> 'a queue" where
  "queue_step (QPush x) q = (case queue_push x q of (b, q') \<Rightarrow> (if b then [x] else [], [], q'))"
| "queue_step QPopWait q = (case queue_pop_wait q of None \<Rightarrow> ([], [], q) | Some (y, q') \<Rightarrow> ([], case_option [] (\<lambda>x. [x]) y, q'))"
| "queue_step QPopWaitFor q = (case queue_pop_wait_for q of (y, q') \<Rightarrow> ([], case_option [] (\<lambda>x. [x]) y, q'))"
| "queue_step QTryPop q = (case queue_try_pop q of (y, q') \<Rightarrow> ([], case_option [] (\<lambda>x. [x]) y, q'))"
| "queue_step QClose q = ([], [], queue_close q)"
| "queue_step QReset q = ([], q_items q, queue_reset q)"

fun queue_run :: "'a queue_op list \<Rightarrow> 'a queue \<Rightarrow> 'a list \<times> 'a list \<times> 'a queue" where
  "queue_run [] q = ([], [], q)"
| "queue_run (op # ops) q =
     (case queue_step op q of (a, b, q1) \<Rightarrow> case queue_run ops q1 of (as, bs, q2) \<Rightarrow> (a @ as, b @ bs, q2))"

lemma queue_step_fifo:
  "queue_step op q = (as, bs, q') \<Longrightarrow> q_items q @ as = bs @ q_items q'
   \<and> q_capacity q' = q_capacity q
   \<and> (length (q_items q) \<le> q_capacity q \<longrightarrow> length (q_items q') \<le> q_capacity q')"
  by (cases op)
    (auto simp: queue_push_def queue_pop_wait_def queue_pop_wait_for_def queue_try_pop_def queue_take_def
      queue_close_def queue_reset_def split: list.splits if_splits option.splits prod.splits)

lemma queue_run_fifo:
  "queue_run ops q = (as, bs, q') \<Longrightarrow> q_items q @ as = bs @ q_items q'
   \<and> q_capacity q' = q_capacity q
   \<and> (length (q_items q) \<le> q_capacity q \<longrightarrow> length (q_items q') \<le> q_capacity q')"
proof (induction ops arbitrary: q as bs)
  case (Cons op ops)
  obtain a b q1 where s: "queue_step op q = (a, b, q1)" by (metis prod_cases3)
  obtain as' bs' where r: "queue_run ops q1 = (as', bs', q')" "as = a @ as'" "bs = b @ bs'"
    using Cons.prems s by (auto split: prod.splits)
  show ?case using queue_step_fifo [OF s] Cons.IH [OF r(1)] r(2,3)
    by (metis append.assoc)
qed simp

text \<open>C24. Whatever the threads do with a queue of the given capacity, everything accepted comes out exactly once
  and in the order it was accepted (a reset hands out what it discards), and the queue never holds more than
  its capacity.\<close>

theorem queue_is_fifo:
  assumes "queue_run ops (queue_new n) = (accepted, handed, q)"
  shows "accepted = handed @ q_items q \<and> length (q_items q) \<le> max 1 n"
  using queue_run_fifo [OF assms] by (simp add: queue_new_def split: if_splits)

theorem queue_is_fifo_witness: "[1::nat, 2] = [1] @ [2] \<and> length [2::nat] \<le> max 1 2"
  using queue_is_fifo [of "[QPush 1, QPush 2, QPush 3, QTryPop]" 2 "[1, 2]" "[1]"
      "\<lparr>q_items = [2], q_capacity = 2, q_closed = False\<rparr>"]
  by (simp add: queue_new_def queue_push_def queue_try_pop_def queue_take_def)

fun is_pop :: "'a queue_op \<Rightarrow> bool" where
  "is_pop QPopWait = True" | "is_pop QPopWaitFor = True" | "is_pop QTryPop = True" | "is_pop _ = False"

lemma closed_step:
  assumes "q_closed q" "op \<noteq> QReset"
  shows "queue_step op q = (if is_pop op then ([], take 1 (q_items q), q\<lparr>q_items := drop 1 (q_items q)\<rparr>) else ([], [], q))"
  using assms
  by (cases op; cases "q_items q"; cases q)
    (auto simp: queue_push_def queue_pop_wait_def queue_pop_wait_for_def queue_try_pop_def queue_take_def
      queue_ready_def queue_close_def)

lemma closed_run:
  "q_closed q \<Longrightarrow> QReset \<notin> set ops \<Longrightarrow>
   queue_run ops q = ([], take (length (filter is_pop ops)) (q_items q),
     q\<lparr>q_items := drop (length (filter is_pop ops)) (q_items q)\<rparr>)"
proof (induction ops arbitrary: q)
  case (Cons op ops)
  let ?q = "if is_pop op then q\<lparr>q_items := drop 1 (q_items q)\<rparr> else q"
  have "queue_run ops ?q = ([], take (length (filter is_pop ops)) (q_items ?q),
      ?q\<lparr>q_items := drop (length (filter is_pop ops)) (q_items ?q)\<rparr>)"
    using Cons.prems by (intro Cons.IH) auto
  then show ?case using closed_step [OF Cons.prems(1), of op] Cons.prems(2) by (cases "q_items q") auto
qed simp

text \<open>Shutting down by closing the queue: whatever the threads then do, producers get nothing in, the
  consumers get every queued item exactly once and in order as soon as there were enough pops, and from then on a
  waiting pop returns empty-handed, so no thread waits on the queue forever.\<close>

theorem closed_queue_drains:
  assumes "q_closed q" "QReset \<notin> set ops" "length (q_items q) \<le> length (filter is_pop ops)"
  shows "\<exists>q'. queue_run ops q = ([], q_items q, q') \<and> queue_pop_wait q' = Some (None, q')"
  using closed_run [OF assms(1,2)] assms by (simp add: queue_pop_wait_def queue_ready_def queue_take_def)

theorem closed_queue_drains_witness:
  "fst (snd (queue_run [QTryPop, QPush 9, QPopWait, QPopWait] \<lparr>q_items = [7::nat, 8], q_capacity = 2, q_closed = True\<rparr>)) = [7, 8]"
  using closed_queue_drains [of "\<lparr>q_items = [7::nat, 8], q_capacity = 2, q_closed = True\<rparr>" "[QTryPop, QPush 9, QPopWait, QPopWait]"]
  by auto

end
