(* ===== verification/Wire.thy ===== *)
theory Wire
  imports Contract Request Grant Journal
begin

text \<open>
  The wire protocol (\<^verbatim>\<open>include/cif/wire.hpp\<close>, \<^verbatim>\<open>src/wire.cpp\<close>): message types,
  administrative commands, queries and their results, the payload codec of every message,
  and the frame around a payload with its two checksums. A message is the payload its type
  selects; the other fields of the flat struct of the code are never read or written.
\<close>

section \<open>Message types, administrative commands and queries\<close>

datatype (plugins only: size code) message_type =
    MtInvalid | MtHello | MtHelloAck | MtSubmit | MtRelease | MtResolve | MtAcknowledge | MtCancel
    | MtDecision | MtAdmin | MtAdminResult | MtQuery | MtQueryResult | MtError | MtPing | MtPong
    | MtBye

definition message_types :: "message_type list" where
  "message_types =
     [MtInvalid, MtHello, MtHelloAck, MtSubmit, MtRelease, MtResolve, MtAcknowledge, MtCancel
      , MtDecision, MtAdmin, MtAdminResult, MtQuery, MtQueryResult, MtError, MtPing, MtPong, MtBye]"

primrec message_type_to_string :: "message_type \<Rightarrow> string" where
  "message_type_to_string MtInvalid = ''INVALID''"
| "message_type_to_string MtHello = ''HELLO''"
| "message_type_to_string MtHelloAck = ''HELLO_ACK''"
| "message_type_to_string MtSubmit = ''SUBMIT''"
| "message_type_to_string MtRelease = ''RELEASE''"
| "message_type_to_string MtResolve = ''RESOLVE''"
| "message_type_to_string MtAcknowledge = ''ACKNOWLEDGE''"
| "message_type_to_string MtCancel = ''CANCEL''"
| "message_type_to_string MtDecision = ''DECISION''"
| "message_type_to_string MtAdmin = ''ADMIN''"
| "message_type_to_string MtAdminResult = ''ADMIN_RESULT''"
| "message_type_to_string MtQuery = ''QUERY''"
| "message_type_to_string MtQueryResult = ''QUERY_RESULT''"
| "message_type_to_string MtError = ''ERROR''"
| "message_type_to_string MtPing = ''PING''"
| "message_type_to_string MtPong = ''PONG''"
| "message_type_to_string MtBye = ''BYE''"

datatype (plugins only: size code) admin_kind =
    AkNone | AkUpsertMember | AkRemoveMember | AkSetMemberLifecycle | AkUpsertPath | AkRemovePath
    | AkSetPathState | AkUpsertExclusion | AkRemoveExclusion | AkUpsertObligation
    | AkRemoveObligation | AkUpsertContract | AkRemoveContract | AkSetPolicy | AkAdvanceTick
    | AkFenceAll | AkExpireLeases | AkRevalidate | AkCompact | AkSelfCheck

definition admin_kinds :: "admin_kind list" where
  "admin_kinds =
     [AkNone, AkUpsertMember, AkRemoveMember, AkSetMemberLifecycle, AkUpsertPath, AkRemovePath
      , AkSetPathState, AkUpsertExclusion, AkRemoveExclusion, AkUpsertObligation
      , AkRemoveObligation, AkUpsertContract, AkRemoveContract, AkSetPolicy, AkAdvanceTick
      , AkFenceAll, AkExpireLeases, AkRevalidate, AkCompact, AkSelfCheck]"

primrec admin_kind_to_string :: "admin_kind \<Rightarrow> string" where
  "admin_kind_to_string AkNone = ''NONE''"
| "admin_kind_to_string AkUpsertMember = ''UPSERT_MEMBER''"
| "admin_kind_to_string AkRemoveMember = ''REMOVE_MEMBER''"
| "admin_kind_to_string AkSetMemberLifecycle = ''SET_MEMBER_LIFECYCLE''"
| "admin_kind_to_string AkUpsertPath = ''UPSERT_PATH''"
| "admin_kind_to_string AkRemovePath = ''REMOVE_PATH''"
| "admin_kind_to_string AkSetPathState = ''SET_PATH_STATE''"
| "admin_kind_to_string AkUpsertExclusion = ''UPSERT_EXCLUSION''"
| "admin_kind_to_string AkRemoveExclusion = ''REMOVE_EXCLUSION''"
| "admin_kind_to_string AkUpsertObligation = ''UPSERT_OBLIGATION''"
| "admin_kind_to_string AkRemoveObligation = ''REMOVE_OBLIGATION''"
| "admin_kind_to_string AkUpsertContract = ''UPSERT_CONTRACT''"
| "admin_kind_to_string AkRemoveContract = ''REMOVE_CONTRACT''"
| "admin_kind_to_string AkSetPolicy = ''SET_POLICY''"
| "admin_kind_to_string AkAdvanceTick = ''ADVANCE_TICK''"
| "admin_kind_to_string AkFenceAll = ''FENCE_ALL''"
| "admin_kind_to_string AkExpireLeases = ''EXPIRE_LEASES''"
| "admin_kind_to_string AkRevalidate = ''REVALIDATE''"
| "admin_kind_to_string AkCompact = ''COMPACT''"
| "admin_kind_to_string AkSelfCheck = ''SELF_CHECK''"

datatype (plugins only: size code) query_kind =
    QkNone | QkController | QkState | QkAudit | QkMember | QkPath | QkGrant | QkAttempt
    | QkRecovery | QkVerify | QkVersion

definition query_kinds :: "query_kind list" where
  "query_kinds =
     [QkNone, QkController, QkState, QkAudit, QkMember, QkPath, QkGrant, QkAttempt, QkRecovery
      , QkVerify, QkVersion]"

primrec query_kind_to_string :: "query_kind \<Rightarrow> string" where
  "query_kind_to_string QkNone = ''NONE''"
| "query_kind_to_string QkController = ''CONTROLLER''"
| "query_kind_to_string QkState = ''STATE''"
| "query_kind_to_string QkAudit = ''AUDIT''"
| "query_kind_to_string QkMember = ''MEMBER''"
| "query_kind_to_string QkPath = ''PATH''"
| "query_kind_to_string QkGrant = ''GRANT''"
| "query_kind_to_string QkAttempt = ''ATTEMPT''"
| "query_kind_to_string QkRecovery = ''RECOVERY''"
| "query_kind_to_string QkVerify = ''VERIFY''"
| "query_kind_to_string QkVersion = ''VERSION''"

definition admin_bindings :: "(string \<times> admin_kind) list" where
  "admin_bindings =
     [(''upsert-member'', AkUpsertMember), (''remove-member'', AkRemoveMember)
      , (''set-member-lifecycle'', AkSetMemberLifecycle), (''upsert-path'', AkUpsertPath)
      , (''remove-path'', AkRemovePath), (''set-path-state'', AkSetPathState)
      , (''upsert-exclusion'', AkUpsertExclusion), (''remove-exclusion'', AkRemoveExclusion)
      , (''upsert-obligation'', AkUpsertObligation), (''remove-obligation'', AkRemoveObligation)
      , (''upsert-contract'', AkUpsertContract), (''remove-contract'', AkRemoveContract)
      , (''set-policy'', AkSetPolicy), (''advance-tick'', AkAdvanceTick)
      , (''fence-all'', AkFenceAll), (''expire-leases'', AkExpireLeases)
      , (''revalidate'', AkRevalidate), (''compact'', AkCompact), (''self-check'', AkSelfCheck)]"

definition parse_admin_kind :: "string \<Rightarrow> admin_kind option" where
  "parse_admin_kind s = map_option snd (find (\<lambda>b. s = fst b) admin_bindings)"

definition query_bindings :: "(string \<times> query_kind) list" where
  "query_bindings =
     [(''controller'', QkController), (''state'', QkState), (''audit'', QkAudit)
      , (''member'', QkMember), (''path'', QkPath), (''grant'', QkGrant), (''attempt'', QkAttempt)
      , (''recovery'', QkRecovery), (''verify'', QkVerify), (''version'', QkVersion)]"

definition parse_query_kind :: "string \<Rightarrow> query_kind option" where
  "parse_query_kind s = map_option snd (find (\<lambda>b. s = fst b) query_bindings)"

record admin_command =
  am_kind :: admin_kind
  am_detail :: string
  am_has_expectation :: bool
  am_expect_generation :: u64
  am_member :: member
  am_member_id :: string
  am_lifecycle :: member_lifecycle
  am_path :: path
  am_path_id :: string
  am_path_state :: path_state
  am_exclusion :: exclusion
  am_exclusion_id :: string
  am_obligation :: obligation
  am_obligation_id :: string
  am_contract :: contract
  am_contract_id :: string
  am_policy :: u64
  am_tick :: u64
  am_fence_reason :: reason_code

record admin_result =
  ar_code :: status_code
  ar_message :: string
  ar_generation :: u64
  ar_epoch :: u64
  ar_incarnation :: bytes
  ar_state_digest :: bytes

record query_command =
  qc_kind :: query_kind
  qc_member_id :: string
  qc_path_id :: string
  qc_grant_id :: string
  qc_attempt_id :: string
  qc_include_terminal :: bool

record query_result =
  qr_code :: status_code
  qr_message :: string
  qr_text :: string
  qr_cluster_id :: string
  qr_generation :: u64
  qr_epoch :: u64
  qr_policy :: u64
  qr_incarnation :: bytes
  qr_state_digest :: bytes
  qr_spec_digest :: bytes
  qr_topology_digest :: bytes

definition empty_admin_result :: admin_result where
  "empty_admin_result = \<lparr>ar_code = ScOk, ar_message = [], ar_generation = 0, ar_epoch = 0,
     ar_incarnation = zero_incarnation, ar_state_digest = digest_zero\<rparr>"

definition empty_query_result :: query_result where
  "empty_query_result = \<lparr>qr_code = ScOk, qr_message = [], qr_text = [], qr_cluster_id = [], qr_generation = 0,
     qr_epoch = 0, qr_policy = 0, qr_incarnation = zero_incarnation, qr_state_digest = digest_zero,
     qr_spec_digest = digest_zero, qr_topology_digest = digest_zero\<rparr>"

text \<open>The identifier a command names, and what is said when it is missing.\<close>

definition admin_subject :: "admin_command \<Rightarrow> (string \<times> string) option" where
  "admin_subject c = (case am_kind c of
     AkUpsertMember \<Rightarrow> Some (mb_id (am_member c), ''member to upsert has no id'')
   | AkRemoveMember \<Rightarrow> Some (am_member_id c, ''member to remove has no id'')
   | AkSetMemberLifecycle \<Rightarrow> Some (am_member_id c, ''member lifecycle change has no id'')
   | AkUpsertPath \<Rightarrow> Some (pt_id (am_path c), ''path to upsert has no id'')
   | AkRemovePath \<Rightarrow> Some (am_path_id c, ''path to remove has no id'')
   | AkSetPathState \<Rightarrow> Some (am_path_id c, ''path state change has no id'')
   | AkUpsertExclusion \<Rightarrow> Some (ex_id (am_exclusion c), ''exclusion to upsert has no id'')
   | AkRemoveExclusion \<Rightarrow> Some (am_exclusion_id c, ''exclusion to remove has no id'')
   | AkUpsertObligation \<Rightarrow> Some (ob_id (am_obligation c), ''obligation to upsert has no id'')
   | AkRemoveObligation \<Rightarrow> Some (am_obligation_id c, ''obligation to remove has no id'')
   | AkUpsertContract \<Rightarrow> Some (ct_id (am_contract c), ''contract to upsert has no id'')
   | AkRemoveContract \<Rightarrow> Some (am_contract_id c, ''contract to remove has no id'')
   | _ \<Rightarrow> None)"

definition validate_admin_command :: "admin_command \<Rightarrow> status" where
  "validate_admin_command c =
     (if am_kind c = AkNone then status_error ScInvalidArgument ''admin command kind must be set''
      else case admin_subject c of
        Some (i, missing) \<Rightarrow> if i = [] then status_error ScInvalidArgument missing else success
      | None \<Rightarrow> success)"

definition validate_query_command :: "query_command \<Rightarrow> status" where
  "validate_query_command c =
     (if qc_kind c = QkNone then status_error ScInvalidArgument ''query kind must be set''
      else if qc_kind c = QkMember \<and> qc_member_id c = [] then
        status_error ScInvalidArgument ''member query needs a member id''
      else if qc_kind c = QkPath \<and> qc_path_id c = [] then
        status_error ScInvalidArgument ''path query needs a path id''
      else if qc_kind c = QkGrant \<and> qc_grant_id c = [] then
        status_error ScInvalidArgument ''grant query needs a grant id''
      else if qc_kind c = QkAttempt \<and> qc_attempt_id c = [] then
        status_error ScInvalidArgument ''attempt query needs an attempt id''
      else success)"

section \<open>Payload codecs\<close>

definition status_codes :: "status_code list" where
  "status_codes =
     [ScOk, ScInvalidArgument, ScNotFound, ScAlreadyExists, ScDuplicateIdentity
      , ScCapacityExhausted, ScLimitExceeded, ScIntegrityFailure, ScCorruption, ScTruncated
      , ScVersionMismatch, ScIoFailure, ScUnsupported, ScConflict, ScStateMismatch, ScFenced
      , ScCancelled, ScIndeterminate, ScBusy, ScBackpressure, ScClosed, ScTimeout, ScRemoteError
      , ScInternal]"

text \<open>A reason out of range is read as the default, not rejected.\<close>

definition parse_fence_reason :: "u16 \<Rightarrow> reason_code" where
  "parse_fence_reason raw =
     (if unat raw > length reason_codes - 1 then RcControllerRestarted else reason_codes ! unat raw)"

definition encode_status :: "status \<Rightarrow> bytes" where
  "encode_status s = w_enum status_codes (st_code s) @ w_text (st_message s)"

definition decode_status :: "status rd" where
  "decode_status =
     rd_bind (rd_enum status_codes ''status code byte out of range'') (\<lambda>c.
     rd_bind (rd_text kMaxNoteBytes) (\<lambda>m.
     if \<not> is_valid_utf8 m then rd_fail ScCorruption ''status message is not valid UTF-8''
     else rd_return (status_error c m)))"

definition encode_admin_command :: "admin_command \<Rightarrow> bytes" where
  "encode_admin_command x =
     w_enum16 admin_kinds (am_kind x) @ w_text (am_detail x) @ w_boolean (am_has_expectation x)
     @ encode_counter (am_expect_generation x) @ encode_member (am_member x) @ encode_id (am_member_id x)
     @ w_enum member_lifecycles (am_lifecycle x) @ encode_path (am_path x) @ encode_id (am_path_id x)
     @ w_enum path_states (am_path_state x) @ encode_exclusion (am_exclusion x) @ encode_id (am_exclusion_id x)
     @ encode_obligation (am_obligation x) @ encode_id (am_obligation_id x) @ encode_contract (am_contract x)
     @ encode_id (am_contract_id x) @ encode_counter (am_policy x) @ encode_counter (am_tick x)
     @ w_enum16 reason_codes (am_fence_reason x)"

definition decode_admin_command :: "admin_command rd" where
  "decode_admin_command =
     rd_bind (rd_enum16 admin_kinds ''admin kind out of range'') (\<lambda>z0.
     rd_bind (rd_text kMaxNoteBytes) (\<lambda>z1.
     if \<not> is_valid_utf8 z1 then rd_fail ScCorruption ''admin detail is not valid UTF-8'' else
     rd_bind rd_boolean (\<lambda>z2.
     rd_bind decode_counter (\<lambda>z3.
     rd_bind decode_member (\<lambda>z4.
     rd_bind decode_id (\<lambda>z5.
     rd_bind (rd_enum member_lifecycles ''admin lifecycle byte out of range'') (\<lambda>z6.
     rd_bind decode_path (\<lambda>z7.
     rd_bind decode_id (\<lambda>z8.
     rd_bind (rd_enum path_states ''admin path state byte out of range'') (\<lambda>z9.
     rd_bind decode_exclusion (\<lambda>z10.
     rd_bind decode_id (\<lambda>z11.
     rd_bind decode_obligation (\<lambda>z12.
     rd_bind decode_id (\<lambda>z13.
     rd_bind decode_contract (\<lambda>z14.
     rd_bind decode_id (\<lambda>z15.
     rd_bind decode_counter (\<lambda>z16.
     rd_bind decode_counter (\<lambda>z17.
     rd_bind rd_u16 (\<lambda>z18.
     rd_return \<lparr>am_kind = z0, am_detail = z1, am_has_expectation = z2, am_expect_generation = z3
        , am_member = z4, am_member_id = z5, am_lifecycle = z6, am_path = z7, am_path_id = z8
        , am_path_state = z9, am_exclusion = z10, am_exclusion_id = z11, am_obligation = z12
        , am_obligation_id = z13, am_contract = z14, am_contract_id = z15, am_policy = z16
        , am_tick = z17, am_fence_reason = parse_fence_reason z18\<rparr>)))))))))))))))))))"

definition encode_admin_result :: "admin_result \<Rightarrow> bytes" where
  "encode_admin_result x =
     encode_status (status_error (ar_code x) (ar_message x)) @ encode_counter (ar_generation x)
     @ encode_counter (ar_epoch x) @ encode_incarnation (ar_incarnation x) @ w_raw (ar_state_digest x)"

definition decode_admin_result :: "admin_result rd" where
  "decode_admin_result =
     rd_bind decode_status (\<lambda>z0.
     rd_bind decode_counter (\<lambda>z1.
     rd_bind decode_counter (\<lambda>z2.
     rd_bind decode_incarnation (\<lambda>z3.
     rd_bind rd_digest (\<lambda>z4.
     rd_return \<lparr>ar_code = st_code z0, ar_message = st_message z0, ar_generation = z1, ar_epoch = z2
        , ar_incarnation = z3, ar_state_digest = z4\<rparr>)))))"

definition encode_query_command :: "query_command \<Rightarrow> bytes" where
  "encode_query_command x =
     w_enum16 query_kinds (qc_kind x) @ encode_id (qc_member_id x) @ encode_id (qc_path_id x)
     @ encode_id (qc_grant_id x) @ encode_id (qc_attempt_id x) @ w_boolean (qc_include_terminal x)"

definition decode_query_command :: "query_command rd" where
  "decode_query_command =
     rd_bind (rd_enum16 query_kinds ''query kind out of range'') (\<lambda>z0.
     rd_bind decode_id (\<lambda>z1.
     rd_bind decode_id (\<lambda>z2.
     rd_bind decode_id (\<lambda>z3.
     rd_bind decode_id (\<lambda>z4.
     rd_bind rd_boolean (\<lambda>z5.
     rd_return \<lparr>qc_kind = z0, qc_member_id = z1, qc_path_id = z2, qc_grant_id = z3, qc_attempt_id = z4
        , qc_include_terminal = z5\<rparr>))))))"

definition kMaxFrameBytes :: nat where "kMaxFrameBytes = 2 ^ 20"
definition kMaxFramePayloadBytes :: nat where "kMaxFramePayloadBytes = kMaxFrameBytes - 64"

definition encode_query_result :: "query_result \<Rightarrow> bytes" where
  "encode_query_result x =
     encode_status (status_error (qr_code x) (qr_message x)) @ w_text (qr_text x) @ encode_id (qr_cluster_id x)
     @ encode_counter (qr_generation x) @ encode_counter (qr_epoch x) @ encode_counter (qr_policy x)
     @ encode_incarnation (qr_incarnation x) @ w_raw (qr_state_digest x) @ w_raw (qr_spec_digest x)
     @ w_raw (qr_topology_digest x)"

definition decode_query_result :: "query_result rd" where
  "decode_query_result =
     rd_bind decode_status (\<lambda>z0.
     rd_bind (rd_text kMaxFramePayloadBytes) (\<lambda>z1.
     if \<not> is_valid_utf8 z1 then rd_fail ScCorruption ''query text is not valid UTF-8'' else
     rd_bind decode_id (\<lambda>z2.
     rd_bind decode_counter (\<lambda>z3.
     rd_bind decode_counter (\<lambda>z4.
     rd_bind decode_counter (\<lambda>z5.
     rd_bind decode_incarnation (\<lambda>z6.
     rd_bind rd_digest (\<lambda>z7.
     rd_bind rd_digest (\<lambda>z8.
     rd_bind rd_digest (\<lambda>z9.
     rd_return \<lparr>qr_code = st_code z0, qr_message = st_message z0, qr_text = z1, qr_cluster_id = z2
        , qr_generation = z3, qr_epoch = z4, qr_policy = z5, qr_incarnation = z6, qr_state_digest = z7
        , qr_spec_digest = z8, qr_topology_digest = z9\<rparr>))))))))))"

section \<open>Messages\<close>

record hello_ack =
  ha_banner :: string
  ha_cluster_id :: string
  ha_cluster_generation :: u64
  ha_epoch :: u64
  ha_policy :: u64
  ha_incarnation :: bytes
  ha_state_digest :: bytes

datatype (plugins only: size code) message =
    MInvalid
  | MHello string string
  | MHelloAck hello_ack
  | MSubmit authority_request
  | MRelease release_request
  | MResolve resolve_request
  | MAcknowledge acknowledge_request
  | MCancel cancel_request
  | MDecision decision
  | MAdmin admin_command
  | MAdminResult admin_result
  | MQuery query_command
  | MQueryResult query_result
  | MError string string
  | MPing
  | MPong
  | MBye

record wire_message =
  wm_body :: message
  wm_flags :: u32
  wm_sequence :: u64

primrec type_of_message :: "message \<Rightarrow> message_type" where
  "type_of_message MInvalid = MtInvalid"
| "type_of_message (MHello b c) = MtHello"
| "type_of_message (MHelloAck h) = MtHelloAck"
| "type_of_message (MSubmit q) = MtSubmit"
| "type_of_message (MRelease q) = MtRelease"
| "type_of_message (MResolve q) = MtResolve"
| "type_of_message (MAcknowledge q) = MtAcknowledge"
| "type_of_message (MCancel q) = MtCancel"
| "type_of_message (MDecision d) = MtDecision"
| "type_of_message (MAdmin c) = MtAdmin"
| "type_of_message (MAdminResult r) = MtAdminResult"
| "type_of_message (MQuery c) = MtQuery"
| "type_of_message (MQueryResult r) = MtQueryResult"
| "type_of_message (MError c m) = MtError"
| "type_of_message MPing = MtPing"
| "type_of_message MPong = MtPong"
| "type_of_message MBye = MtBye"

definition encode_hello_ack :: "hello_ack \<Rightarrow> bytes" where
  "encode_hello_ack h =
     w_text (ha_banner h) @ encode_id (ha_cluster_id h) @ encode_counter (ha_cluster_generation h)
     @ encode_counter (ha_epoch h) @ encode_counter (ha_policy h) @ encode_incarnation (ha_incarnation h)
     @ w_raw (ha_state_digest h)"

definition decode_hello_ack :: "hello_ack rd" where
  "decode_hello_ack =
     rd_bind (rd_text kMaxIdentifierBytes) (\<lambda>z0.
     rd_bind decode_id (\<lambda>z1.
     rd_bind decode_counter (\<lambda>z2.
     rd_bind decode_counter (\<lambda>z3.
     rd_bind decode_counter (\<lambda>z4.
     rd_bind decode_incarnation (\<lambda>z5.
     rd_bind rd_digest (\<lambda>z6.
     rd_return \<lparr>ha_banner = z0, ha_cluster_id = z1, ha_cluster_generation = z2, ha_epoch = z3, ha_policy = z4
        , ha_incarnation = z5, ha_state_digest = z6\<rparr>)))))))"

primrec encode_message :: "message \<Rightarrow> bytes" where
  "encode_message MInvalid = []"
| "encode_message (MHello b c) = w_text b @ encode_id c"
| "encode_message (MHelloAck h) = encode_hello_ack h"
| "encode_message (MSubmit q) = encode_authority_request q"
| "encode_message (MRelease q) = encode_release_request q"
| "encode_message (MResolve q) = encode_resolve_request q"
| "encode_message (MAcknowledge q) = encode_acknowledge_request q"
| "encode_message (MCancel q) = encode_cancel_request q"
| "encode_message (MDecision d) = encode_decision d"
| "encode_message (MAdmin c) = encode_admin_command c"
| "encode_message (MAdminResult r) = encode_admin_result r"
| "encode_message (MQuery c) = encode_query_command c"
| "encode_message (MQueryResult r) = encode_query_result r"
| "encode_message (MError c m) = w_text c @ w_text m"
| "encode_message MPing = []"
| "encode_message MPong = []"
| "encode_message MBye = []"

fun decode_message :: "message_type \<Rightarrow> message rd" where
  "decode_message MtInvalid = rd_fail ScCorruption ''message type INVALID cannot be decoded''"
| "decode_message MtHello =
     rd_bind (rd_text kMaxIdentifierBytes) (\<lambda>b. rd_bind decode_id (\<lambda>c. rd_return (MHello b c)))"
| "decode_message MtHelloAck = rd_map MHelloAck decode_hello_ack"
| "decode_message MtSubmit = rd_map MSubmit decode_authority_request"
| "decode_message MtRelease = rd_map MRelease decode_release_request"
| "decode_message MtResolve = rd_map MResolve decode_resolve_request"
| "decode_message MtAcknowledge = rd_map MAcknowledge decode_acknowledge_request"
| "decode_message MtCancel = rd_map MCancel decode_cancel_request"
| "decode_message MtDecision = rd_map MDecision decode_decision"
| "decode_message MtAdmin = rd_map MAdmin decode_admin_command"
| "decode_message MtAdminResult = rd_map MAdminResult decode_admin_result"
| "decode_message MtQuery = rd_map MQuery decode_query_command"
| "decode_message MtQueryResult = rd_map MQueryResult decode_query_result"
| "decode_message MtError =
     rd_bind (rd_text kMaxIdentifierBytes) (\<lambda>c. rd_bind (rd_text kMaxNoteBytes) (\<lambda>m. rd_return (MError c m)))"
| "decode_message MtPing = rd_return MPing"
| "decode_message MtPong = rd_return MPong"
| "decode_message MtBye = rd_return MBye"

section \<open>Frames\<close>

record wire_frame =
  fr_type :: message_type
  fr_flags :: u32
  fr_sequence :: u64
  fr_payload :: bytes

definition frame_magic :: u32 where "frame_magic = 0x57464943"
definition wire_version :: u16 where "wire_version = 1"
definition frame_header_size :: nat where "frame_header_size = 32"

text \<open>The header without its checksum; the sender writes zero into the reserved field.\<close>

definition frame_head :: "message_type \<Rightarrow> u32 \<Rightarrow> u64 \<Rightarrow> u32 \<Rightarrow> u32 \<Rightarrow> bytes" where
  "frame_head t flags seq len reserved =
     w_u32 frame_magic @ w_u16 wire_version @ w_enum16 message_types t @ w_u32 flags @ w_u64 seq
     @ w_u32 len @ w_u32 reserved"

definition encode_frame :: "wire_frame \<Rightarrow> status + bytes" where
  "encode_frame f =
     (let payload = fr_payload f in
      if length payload > kMaxFramePayloadBytes then
        Inl (status_error ScLimitExceeded (''frame payload of '' @ to_decimal (of_nat (length payload))
          @ '' bytes exceeds the configured bound''))
      else
        let head = frame_head (fr_type f) (fr_flags f) (fr_sequence f) (of_nat (length payload)) 0;
            header = head @ w_u32 (crc32c head)
        in if length header \<noteq> frame_header_size then Inl (status_error ScInternal ''frame header size mismatch'')
           else Inr (header @ payload @ w_u32 (crc32c payload)))"

text \<open>The eight fields of a header, as both readers take them off the buffer.\<close>

record frame_fields =
  ff_magic :: u32
  ff_version :: u16
  ff_type :: u16
  ff_flags :: u32
  ff_sequence :: u64
  ff_length :: u32
  ff_reserved :: u32
  ff_crc :: u32

definition read_frame_fields :: "frame_fields rd" where
  "read_frame_fields =
     rd_bind rd_u32 (\<lambda>m. rd_bind rd_u16 (\<lambda>v. rd_bind rd_u16 (\<lambda>t. rd_bind rd_u32 (\<lambda>f.
     rd_bind rd_u64 (\<lambda>s. rd_bind rd_u32 (\<lambda>l. rd_bind rd_u32 (\<lambda>r. rd_bind rd_u32 (\<lambda>c.
     rd_return \<lparr>ff_magic = m, ff_version = v, ff_type = t, ff_flags = f, ff_sequence = s, ff_length = l,
        ff_reserved = r, ff_crc = c\<rparr>))))))))"

text \<open>With a whole header in the buffer the reads cannot fail.\<close>

definition frame_size :: "bytes \<Rightarrow> status \<times> nat" where
  "frame_size buffer =
     (if length buffer < frame_header_size then (status_error ScTruncated ''frame header is incomplete'', 0)
      else case fst (read_frame_fields (reader_of buffer)) of
        None \<Rightarrow> (status_error ScTruncated ''frame header is incomplete'', 0)
      | Some h \<Rightarrow>
        if ff_magic h \<noteq> frame_magic then (status_error ScCorruption ''frame magic does not match'', 0)
        else if ff_crc h \<noteq> crc32c (take 28 buffer) then
          (status_error ScIntegrityFailure ''frame header failed its integrity check'', 0)
        else if unat (ff_length h) > kMaxFramePayloadBytes then
          (status_error ScLimitExceeded (''peer declared a frame payload of '' @ to_decimal (ucast (ff_length h))
             @ '' bytes, above the configured bound''), 0)
        else
          let size = frame_header_size + unat (ff_length h) + 4 in
          if length buffer < size then (status_error ScTruncated ''frame payload is incomplete'', 0)
          else (success, size))"

definition decode_frame :: "bytes \<Rightarrow> status + wire_frame" where
  "decode_frame buffer =
     (case frame_size buffer of (sized, _) \<Rightarrow>
      if \<not> ok sized then Inl sized
      else (case read_frame_fields (reader_of buffer) of
        (None, _) \<Rightarrow> Inl (status_error ScTruncated ''frame header is incomplete'')
      | (Some h, r) \<Rightarrow>
        if ff_version h \<noteq> wire_version then
          Inl (status_error ScVersionMismatch (''peer speaks wire protocol version '' @ to_decimal (ucast (ff_version h))
             @ ''; this build speaks '' @ to_decimal (ucast wire_version)))
        else if unat (ff_type h) > length message_types - 1 then
          Inl (status_error ScCorruption (''message type '' @ to_decimal (ucast (ff_type h))
             @ '' is not a known type''))
        else (case rd_raw (unat (ff_length h)) r of
          (None, _) \<Rightarrow> Inl (status_error ScTruncated ''frame payload is short'')
        | (Some payload, r1) \<Rightarrow>
          (case rd_u32 r1 of
            (None, _) \<Rightarrow> Inl (status_error ScTruncated ''frame trailer is short'')
          | (Some payload_crc, r2) \<Rightarrow>
            if payload_crc \<noteq> crc32c payload then
              Inl (status_error ScIntegrityFailure ''frame payload failed its integrity check'')
            else if \<not> rd_at_end r2 then
              Inl (status_error ScCorruption ''frame has trailing bytes past its declared size'')
            else Inr \<lparr>fr_type = message_types ! unat (ff_type h), fr_flags = ff_flags h,
                       fr_sequence = ff_sequence h, fr_payload = payload\<rparr>))))"

definition pack_message :: "wire_message \<Rightarrow> status + wire_frame" where
  "pack_message m =
     (let payload = encode_message (wm_body m) in
      if length payload > kMaxFramePayloadBytes then
        Inl (status_error ScLimitExceeded (''message of '' @ to_decimal (of_nat (length payload))
          @ '' bytes exceeds the configured frame bound''))
      else Inr \<lparr>fr_type = type_of_message (wm_body m), fr_flags = wm_flags m, fr_sequence = wm_sequence m,
                 fr_payload = payload\<rparr>)"

definition unpack_message :: "wire_frame \<Rightarrow> status + wire_message" where
  "unpack_message f =
     (case decode_message (fr_type f) (reader_of (fr_payload f)) of
        (None, r) \<Rightarrow>
          Inl (status_error (if ok (rd_failure r) then ScCorruption else st_code (rd_failure r))
            (''cannot decode '' @ message_type_to_string (fr_type f) @ '' message: '' @ status_to_string (rd_failure r)))
      | (Some m, r) \<Rightarrow>
          if \<not> rd_at_end r then
            Inl (status_error ScCorruption (message_type_to_string (fr_type f) @ '' message has ''
              @ to_decimal (of_nat (rd_remaining r)) @ '' trailing bytes''))
          else Inr \<lparr>wm_body = m, wm_flags = fr_flags f, wm_sequence = fr_sequence f\<rparr>)"

definition make_error_message :: "string \<Rightarrow> string \<Rightarrow> wire_message" where
  "make_error_message code m = \<lparr>wm_body = MError code m, wm_flags = 0, wm_sequence = 0\<rparr>"

end
