(* ===== verification/Wire_Props.thy ===== *)
theory Wire_Props
  imports Wire Journal_Props
begin

text \<open>
  What the wire protocol promises. Payloads come back as they were sent; the frame reader
  accepts exactly the framed bytes, waits for the rest of a frame that is not complete, and
  never takes bytes of the next frame.
\<close>

section \<open>Payloads\<close>

lemma enum_lists [simp]:
  "k \<in> set admin_kinds" "length admin_kinds = 20" "q \<in> set query_kinds" "length query_kinds = 11"
  "t \<in> set message_types" "length message_types = 17" "c \<in> set status_codes" "length status_codes = 24"
  by (cases k; simp add: admin_kinds_def) (simp add: admin_kinds_def, (cases q; simp add: query_kinds_def),
    simp add: query_kinds_def, (cases t; simp add: message_types_def), simp add: message_types_def,
    (cases c; simp add: status_codes_def), simp add: status_codes_def)

definition status_ok :: "status \<Rightarrow> bool" where
  "status_ok s = (length (st_message s) \<le> kMaxNoteBytes \<and> is_valid_utf8 (st_message s))"

lemma reads_status [reads_intros]: "status_ok s \<Longrightarrow> reads decode_status (encode_status s) s"
  unfolding decode_status_def encode_status_def status_ok_def
  by ((rule reads_bind | (rule reads_intros; simp add: limit_defs status_error_def)
      | (rule reads_if, simp) | rule reads_bind_Nil)+)

definition admin_command_ok :: "admin_command \<Rightarrow> bool" where
  "admin_command_ok x = (length (am_detail x) \<le> kMaxNoteBytes \<and> is_valid_utf8 (am_detail x)
     \<and> member_ok (am_member x) \<and> id_ok (am_member_id x) \<and> path_ok (am_path x) \<and> id_ok (am_path_id x)
     \<and> exclusion_ok (am_exclusion x) \<and> id_ok (am_exclusion_id x) \<and> obligation_ok (am_obligation x)
     \<and> id_ok (am_obligation_id x) \<and> contract_ok (am_contract x) \<and> id_ok (am_contract_id x))"

lemma parse_fence_reason_code: "parse_fence_reason (of_nat (ordinal reason_codes r)) = r"
proof -
  have "ordinal reason_codes r < length reason_codes" by (rule ordinal_less) simp
  then show ?thesis
    using nth_ordinal [of r reason_codes] by (simp add: parse_fence_reason_def unat_of_nat)
qed

lemma reads_admin_command [reads_intros]:
  "admin_command_ok x \<Longrightarrow> reads decode_admin_command (encode_admin_command x) x"
  unfolding decode_admin_command_def encode_admin_command_def admin_command_ok_def w_enum16_def [of reason_codes]
  by ((rule reads_bind | (rule reads_intros; simp add: limit_defs parse_fence_reason_code)
      | (rule reads_if, simp) | rule reads_bind_Nil)+)

definition admin_result_ok :: "admin_result \<Rightarrow> bool" where
  "admin_result_ok x = (status_ok (status_error (ar_code x) (ar_message x)) \<and> length (ar_incarnation x) = 16
     \<and> length (ar_state_digest x) = 32)"

lemma reads_admin_result [reads_intros]:
  "admin_result_ok x \<Longrightarrow> reads decode_admin_result (encode_admin_result x) x"
  unfolding decode_admin_result_def encode_admin_result_def admin_result_ok_def
  by ((rule reads_bind | (rule reads_raw_digest reads_intros; simp add: limit_defs status_error_def)
      | (rule reads_if, simp) | rule reads_bind_Nil)+)

definition query_command_ok :: "query_command \<Rightarrow> bool" where
  "query_command_ok x = (id_ok (qc_member_id x) \<and> id_ok (qc_path_id x) \<and> id_ok (qc_grant_id x)
     \<and> id_ok (qc_attempt_id x))"

lemma reads_query_command [reads_intros]:
  "query_command_ok x \<Longrightarrow> reads decode_query_command (encode_query_command x) x"
  unfolding decode_query_command_def encode_query_command_def query_command_ok_def
  by ((rule reads_bind | (rule reads_intros; simp add: limit_defs)
      | (rule reads_if, simp) | rule reads_bind_Nil)+)

definition query_result_ok :: "query_result \<Rightarrow> bool" where
  "query_result_ok x = (status_ok (status_error (qr_code x) (qr_message x))
     \<and> length (qr_text x) \<le> kMaxFramePayloadBytes \<and> is_valid_utf8 (qr_text x) \<and> id_ok (qr_cluster_id x)
     \<and> length (qr_incarnation x) = 16 \<and> length (qr_state_digest x) = 32
     \<and> length (qr_spec_digest x) = 32 \<and> length (qr_topology_digest x) = 32)"

lemma reads_query_result [reads_intros]:
  "query_result_ok x \<Longrightarrow> reads decode_query_result (encode_query_result x) x"
  unfolding decode_query_result_def encode_query_result_def query_result_ok_def
  by ((rule reads_bind | (rule reads_raw_digest reads_intros;
        simp add: limit_defs status_error_def kMaxFramePayloadBytes_def kMaxFrameBytes_def)
      | (rule reads_if, simp) | rule reads_bind_Nil)+)

definition hello_ack_ok :: "hello_ack \<Rightarrow> bool" where
  "hello_ack_ok h = (length (ha_banner h) \<le> kMaxIdentifierBytes \<and> id_ok (ha_cluster_id h)
     \<and> length (ha_incarnation h) = 16 \<and> length (ha_state_digest h) = 32)"

lemma reads_hello_ack [reads_intros]: "hello_ack_ok h \<Longrightarrow> reads decode_hello_ack (encode_hello_ack h) h"
  unfolding decode_hello_ack_def encode_hello_ack_def hello_ack_ok_def
  by ((rule reads_bind | (rule reads_raw_digest reads_intros; simp add: limit_defs)
      | (rule reads_if, simp) | rule reads_bind_Nil)+)

text \<open>A message whose fields are within the limits of the format.\<close>

primrec message_ok :: "message \<Rightarrow> bool" where
  "message_ok MInvalid = False"
| "message_ok (MHello b c) = (length b \<le> kMaxIdentifierBytes \<and> id_ok c)"
| "message_ok (MHelloAck h) = hello_ack_ok h"
| "message_ok (MSubmit q) = authority_request_ok q"
| "message_ok (MRelease q) = release_request_ok q"
| "message_ok (MResolve q) = resolve_request_ok q"
| "message_ok (MAcknowledge q) = acknowledge_request_ok q"
| "message_ok (MCancel q) = cancel_request_ok q"
| "message_ok (MDecision d) = decision_ok d"
| "message_ok (MAdmin c) = admin_command_ok c"
| "message_ok (MAdminResult r) = admin_result_ok r"
| "message_ok (MQuery c) = query_command_ok c"
| "message_ok (MQueryResult r) = query_result_ok r"
| "message_ok (MError c m) = (length c \<le> kMaxIdentifierBytes \<and> length m \<le> kMaxNoteBytes)"
| "message_ok MPing = True"
| "message_ok MPong = True"
| "message_ok MBye = True"

text \<open>What arrives: everything but the explanation of a decision, which is not sent.\<close>

definition received_message :: "message \<Rightarrow> message" where
  "received_message m = (case m of MDecision d \<Rightarrow> MDecision (d\<lparr>dc_explanation := []\<rparr>) | _ \<Rightarrow> m)"

lemma reads_two_texts:
  "length a \<le> kMaxIdentifierBytes \<Longrightarrow> length b \<le> kMaxNoteBytes \<Longrightarrow>
   reads (rd_bind (rd_text kMaxIdentifierBytes) (\<lambda>c. rd_bind (rd_text kMaxNoteBytes) (\<lambda>m. rd_return (MError c m))))
     (w_text a @ w_text b) (MError a b)"
  by ((rule reads_bind | (rule reads_intros; simp add: limit_defs) | rule reads_bind_Nil)+)

lemma reads_hello:
  "length a \<le> kMaxIdentifierBytes \<Longrightarrow> id_ok b \<Longrightarrow>
   reads (rd_bind (rd_text kMaxIdentifierBytes) (\<lambda>c. rd_bind decode_id (\<lambda>m. rd_return (MHello c m))))
     (w_text a @ encode_id b) (MHello a b)"
  by ((rule reads_bind | (rule reads_intros; simp add: limit_defs) | rule reads_bind_Nil)+)

lemma reads_message:
  "message_ok m \<Longrightarrow> reads (decode_message (type_of_message m)) (encode_message m) (received_message m)"
  by (cases m) (auto simp: received_message_def intro: reads_map reads_intros reads_two_texts reads_hello)

section \<open>Little-endian words fill every byte string of their width\<close>

lemma le_bytes_onto:
  fixes bs :: bytes
  assumes "LENGTH('a::len) = 8 * k" "length bs = k"
  shows "\<exists>v :: 'a word. map (\<lambda>i. ucast (drop_bit (i * 8) v AND 0xFF)) [0..<k] = bs"
proof -
  let ?v = "foldl (\<lambda>a i. a OR push_bit (i * 8) (ucast (bs ! i))) (0 :: 'a word) [0..<k]"
  have mask: "(0xFF :: 'a word) = mask 8" by (simp add: mask_eq_exp_minus_1)
  have byte: "(ucast (drop_bit (i * 8) ?v AND 0xFF) :: u8) = bs ! i" if i: "i < k" for i
  proof (rule bit_word_eqI)
    fix n assume n: "n < LENGTH(8)"
    have in_byte: "bit (bs ! i) n" if "j * 8 \<le> i * 8 + n" "bit (bs ! j) (i * 8 + n - j * 8)" for j
    proof -
      have "i * 8 + n - j * 8 < 8" using bit_imp_le_length [OF that(2)] by simp
      then have "j = i" using that(1) n by simp
      then show ?thesis using that(2) by simp
    qed
    have "bit (ucast (drop_bit (i * 8) ?v AND 0xFF) :: u8) n \<longleftrightarrow> bit ?v (i * 8 + n)"
      using n assms(1) i by (auto simp: bit_ucast_iff bit_and_iff bit_drop_bit_eq mask bit_mask_iff)
    also have "\<dots> \<longleftrightarrow> bit (bs ! i) n"
      using n i assms(1) in_byte
      by (auto simp: bit_foldl_or bit_push_bit_iff bit_ucast_iff intro!: bexI [of _ i])
    finally show "bit (ucast (drop_bit (i * 8) ?v AND 0xFF) :: u8) n \<longleftrightarrow> bit (bs ! i) n" .
  qed
  have "map (\<lambda>i. ucast (drop_bit (i * 8) ?v AND 0xFF) :: u8) [0..<k] = bs"
    by (rule nth_equalityI) (simp_all add: assms(2) byte)
  then show ?thesis by blast
qed

lemma words_onto:
  "length bs = 2 \<Longrightarrow> \<exists>v. bs = w_u16 v" "length bs = 4 \<Longrightarrow> \<exists>v. bs = w_u32 v" "length bs = 8 \<Longrightarrow> \<exists>v. bs = w_u64 v"
proof -
  assume "length bs = 2"
  then obtain v :: u16 where "map (\<lambda>i. ucast (drop_bit (i * 8) v AND 0xFF)) [0..<2] = bs"
    using le_bytes_onto [where 'a = 16, of 2 bs] by auto
  then have "bs = w_u16 v" by (simp add: w_u16_def upt_rec)
  then show "\<exists>v. bs = w_u16 v" ..
next
  assume "length bs = 4"
  then show "\<exists>v. bs = w_u32 v" using le_bytes_onto [where 'a = 32, of 4 bs] unfolding w_u32_def by auto
next
  assume "length bs = 8"
  then show "\<exists>v. bs = w_u64 v" using le_bytes_onto [where 'a = 64, of 8 bs] unfolding w_u64_def by auto
qed

section \<open>Frames\<close>

definition field_bytes :: "frame_fields \<Rightarrow> bytes" where
  "field_bytes h =
     w_u32 (ff_magic h) @ w_u16 (ff_version h) @ w_u16 (ff_type h) @ w_u32 (ff_flags h) @ w_u64 (ff_sequence h)
     @ w_u32 (ff_length h) @ w_u32 (ff_reserved h) @ w_u32 (ff_crc h)"

lemma field_bytes_length [simp]: "length (field_bytes h) = 32"
  by (simp add: field_bytes_def)

lemma reads_fields: "reads read_frame_fields (field_bytes h) h"
  unfolding read_frame_fields_def field_bytes_def
  by ((rule reads_bind | (rule reads_u16 reads_u32 reads_u64) | rule reads_bind_Nil | (rule reads_return, simp))+)

lemma take_split: "k \<le> length bs \<Longrightarrow> \<exists>a b. bs = a @ b \<and> length a = k"
  by (rule exI [of _ "take k bs"], rule exI [of _ "drop k bs"]) simp

text \<open>Any 32 bytes are some header.\<close>

lemma header_onto:
  assumes "32 \<le> length bs"
  shows "\<exists>h rest. bs = field_bytes h @ rest"
proof -
  obtain b0 r0 where 0: "bs = b0 @ r0" "length b0 = 4" using take_split [of 4 bs] assms by auto
  obtain b1 r1 where 1: "r0 = b1 @ r1" "length b1 = 2" using take_split [of 2 r0] assms 0 by auto
  obtain b2 r2 where 2: "r1 = b2 @ r2" "length b2 = 2" using take_split [of 2 r1] assms 0 1 by auto
  obtain b3 r3 where 3: "r2 = b3 @ r3" "length b3 = 4" using take_split [of 4 r2] assms 0 1 2 by auto
  obtain b4 r4 where 4: "r3 = b4 @ r4" "length b4 = 8" using take_split [of 8 r3] assms 0 1 2 3 by auto
  obtain b5 r5 where 5: "r4 = b5 @ r5" "length b5 = 4" using take_split [of 4 r4] assms 0 1 2 3 4 by auto
  obtain b6 r6 where 6: "r5 = b6 @ r6" "length b6 = 4" using take_split [of 4 r5] assms 0 1 2 3 4 5 by auto
  obtain b7 r7 where 7: "r6 = b7 @ r7" "length b7 = 4" using take_split [of 4 r6] assms 0 1 2 3 4 5 6 by auto
  obtain v0 v1 v2 v3 v4 v5 v6 v7 where v: "b0 = w_u32 v0" "b1 = w_u16 v1" "b2 = w_u16 v2" "b3 = w_u32 v3"
    "b4 = w_u64 v4" "b5 = w_u32 v5" "b6 = w_u32 v6" "b7 = w_u32 v7"
    using words_onto 0(2) 1(2) 2(2) 3(2) 4(2) 5(2) 6(2) 7(2) by metis
  have "bs = field_bytes \<lparr>ff_magic = v0, ff_version = v1, ff_type = v2, ff_flags = v3, ff_sequence = v4,
      ff_length = v5, ff_reserved = v6, ff_crc = v7\<rparr> @ r7"
    by (simp add: field_bytes_def 0 1 2 3 4 5 6 7 v)
  then show ?thesis by blast
qed

definition framed :: "u32 \<Rightarrow> wire_frame \<Rightarrow> bytes" where
  "framed reserved f =
     (let head = frame_head (fr_type f) (fr_flags f) (fr_sequence f) (of_nat (length (fr_payload f))) reserved
      in head @ w_u32 (crc32c head) @ fr_payload f @ w_u32 (crc32c (fr_payload f)))"

definition fields_of :: "u32 \<Rightarrow> wire_frame \<Rightarrow> frame_fields" where
  "fields_of reserved f =
     \<lparr>ff_magic = frame_magic, ff_version = wire_version, ff_type = of_nat (ordinal message_types (fr_type f)),
      ff_flags = fr_flags f, ff_sequence = fr_sequence f, ff_length = of_nat (length (fr_payload f)),
      ff_reserved = reserved, ff_crc = crc32c (frame_head (fr_type f) (fr_flags f) (fr_sequence f)
         (of_nat (length (fr_payload f))) reserved)\<rparr>"

lemma framed_fields: "framed r f = field_bytes (fields_of r f) @ fr_payload f @ w_u32 (crc32c (fr_payload f))"
  by (simp add: framed_def fields_of_def field_bytes_def frame_head_def Let_def w_enum16_def)

lemma length_framed: "length (framed r f) = 36 + length (fr_payload f)"
  by (simp add: framed_fields)

lemma encode_frame_framed:
  "encode_frame f = Inr bs \<longleftrightarrow> length (fr_payload f) \<le> kMaxFramePayloadBytes \<and> bs = framed 0 f"
  by (auto simp: encode_frame_def framed_def Let_def frame_head_def frame_header_size_def w_enum16_def)

text \<open>Both readers on a buffer that holds a whole header.\<close>

definition head_bytes :: "frame_fields \<Rightarrow> bytes" where
  "head_bytes h =
     w_u32 (ff_magic h) @ w_u16 (ff_version h) @ w_u16 (ff_type h) @ w_u32 (ff_flags h) @ w_u64 (ff_sequence h)
     @ w_u32 (ff_length h) @ w_u32 (ff_reserved h)"

lemma take_head: "take 28 (field_bytes h @ rest) = head_bytes h"
  by (simp add: field_bytes_def head_bytes_def)

lemma frame_size_header:
  "frame_size (field_bytes h @ rest) =
     (if ff_magic h \<noteq> frame_magic then (status_error ScCorruption ''frame magic does not match'', 0)
      else if ff_crc h \<noteq> crc32c (head_bytes h) then
        (status_error ScIntegrityFailure ''frame header failed its integrity check'', 0)
      else if unat (ff_length h) > kMaxFramePayloadBytes then
        (status_error ScLimitExceeded (''peer declared a frame payload of '' @ to_decimal (ucast (ff_length h))
           @ '' bytes, above the configured bound''), 0)
      else if length rest < unat (ff_length h) + 4 then (status_error ScTruncated ''frame payload is incomplete'', 0)
      else (success, 36 + unat (ff_length h)))"
  unfolding frame_size_def Let_def reads_run [OF reads_fields] take_head
  by (simp add: frame_header_size_def)

lemma error_not_success: "c \<noteq> ScOk \<Longrightarrow> status_error c m \<noteq> success"
  by (simp add: status_error_def success_def)

lemma decode_frame_header:
  assumes "frame_size (field_bytes h @ rest) = (success, n)"
  shows "decode_frame (field_bytes h @ rest) = Inr f \<longleftrightarrow>
     ff_version h = wire_version \<and> unat (ff_type h) < 17
     \<and> rest = take (unat (ff_length h)) rest @ w_u32 (crc32c (take (unat (ff_length h)) rest))
     \<and> f = \<lparr>fr_type = message_types ! unat (ff_type h), fr_flags = ff_flags h, fr_sequence = ff_sequence h,
            fr_payload = take (unat (ff_length h)) rest\<rparr>"
proof -
  let ?n = "unat (ff_length h)" and ?r = "(reader_of (field_bytes h @ rest))\<lparr>rd_offset := 32\<rparr>"
  have fits: "?n + 4 \<le> length rest" using assms by (auto simp: frame_size_header error_not_success split: if_splits)
  obtain payload more where rest: "rest = payload @ more" "length payload = ?n"
    using take_split [of ?n rest] fits by auto
  obtain crc left where more: "more = crc @ left" "length crc = 4"
    using take_split [of 4 more] fits rest by auto
  obtain c where c: "crc = w_u32 c" using words_onto(2) [OF more(2)] by blast
  have drop: "drop 32 (field_bytes h @ rest) = payload @ w_u32 c @ left" by (simp add: rest more c)
  have raw: "rd_raw ?n ?r = (Some payload, ?r\<lparr>rd_offset := 32 + ?n\<rparr>)"
    using reads_raw [of ?n payload] rest(2) drop
    by (simp add: reads_def reader_of_def)
  have "drop (32 + ?n) (field_bytes h @ rest) = w_u32 c @ left" by (simp add: rest more c)
  then have u32: "rd_u32 (?r\<lparr>rd_offset := 32 + ?n\<rparr>) = (Some c, ?r\<lparr>rd_offset := 36 + ?n\<rparr>)"
    using reads_u32 [of c] fits by (simp add: reads_def reader_of_def)
  have take: "take ?n rest = payload" by (simp add: rest)
  have head: "read_frame_fields (reader_of (field_bytes h @ rest)) = (Some h, ?r)"
    by (simp add: reads_run [OF reads_fields])
  have tail: "rest = payload @ w_u32 (crc32c payload) \<longleftrightarrow> c = crc32c payload \<and> left = []"
  proof
    assume "rest = payload @ w_u32 (crc32c payload)"
    then have eq: "w_u32 c @ left = w_u32 (crc32c payload) @ []" by (simp add: rest more c)
    have "length (w_u32 c @ left) = length (w_u32 (crc32c payload) @ [])" by (simp only: eq)
    then have "left = []" by simp
    moreover have "c = crc32c payload"
      using reads_run [OF reads_u32, of c left] reads_run [OF reads_u32, of "crc32c payload" "[]"] eq by simp
    ultimately show "c = crc32c payload \<and> left = []" by simp
  qed (simp add: rest more c)
  have ends: "36 + ?n = length (field_bytes h @ rest) \<longleftrightarrow> left = []" by (simp add: rest more c)
  have "decode_frame (field_bytes h @ rest) =
    (if ff_version h \<noteq> wire_version then
       Inl (status_error ScVersionMismatch (''peer speaks wire protocol version '' @ to_decimal (ucast (ff_version h))
             @ ''; this build speaks '' @ to_decimal (ucast wire_version)))
     else if unat (ff_type h) > length message_types - 1 then
       Inl (status_error ScCorruption (''message type '' @ to_decimal (ucast (ff_type h)) @ '' is not a known type''))
     else if c \<noteq> crc32c payload then Inl (status_error ScIntegrityFailure ''frame payload failed its integrity check'')
     else if left \<noteq> [] then Inl (status_error ScCorruption ''frame has trailing bytes past its declared size'')
     else Inr \<lparr>fr_type = message_types ! unat (ff_type h), fr_flags = ff_flags h, fr_sequence = ff_sequence h,
            fr_payload = payload\<rparr>)"
    unfolding decode_frame_def assms prod.case head option.case raw u32
    using ends by (simp add: rd_at_end_def reader_of_def del: enum_lists)
  then show ?thesis unfolding take tail by (simp add: not_less) (auto simp: less_Suc_eq_le)
qed

lemma distinct_types: "distinct message_types"
  by (simp add: message_types_def)

lemma head_of_frame: "head_bytes (fields_of r f) = frame_head (fr_type f) (fr_flags f) (fr_sequence f)
    (of_nat (length (fr_payload f))) r"
  by (simp add: head_bytes_def fields_of_def frame_head_def w_enum16_def)

lemma payload_length: "length p \<le> kMaxFramePayloadBytes \<Longrightarrow> unat (of_nat (length p) :: u32) = length p"
  by (simp add: unat_of_nat kMaxFramePayloadBytes_def kMaxFrameBytes_def)

lemma frame_size_framed:
  "length (fr_payload f) \<le> kMaxFramePayloadBytes \<Longrightarrow>
   frame_size (framed r f @ rest) = (success, length (framed r f))"
  using payload_length [of "fr_payload f"] head_of_frame [of r f]
  by (simp add: framed_fields frame_size_header) (simp add: fields_of_def)

text \<open>C21. The frame decoder accepts exactly the framed bytes: a header with the magic number, this version, a known
  type and the length of the payload, checksummed, then the payload and its checksum and nothing more. The
  reserved field may hold anything.\<close>

theorem decode_frame_exact:
  "decode_frame bs = Inr f \<longleftrightarrow> length (fr_payload f) \<le> kMaxFramePayloadBytes \<and> (\<exists>r. bs = framed r f)"
proof
  assume d: "decode_frame bs = Inr f"
  obtain n where n: "frame_size bs = (success, n)"
  proof -
    obtain st n where "frame_size bs = (st, n)" by fastforce
    moreover have "ok st" using d calculation by (auto simp: decode_frame_def split: if_splits)
    ultimately show thesis
      using that by (auto simp: frame_size_def Let_def split: if_splits option.splits)
  qed
  have "32 \<le> length bs" using n by (auto simp: frame_size_def frame_header_size_def error_not_success split: if_splits)
  then obtain h rest where bs: "bs = field_bytes h @ rest" using header_onto by blast
  have h: "ff_magic h = frame_magic" "ff_crc h = crc32c (head_bytes h)" "unat (ff_length h) \<le> kMaxFramePayloadBytes"
    "unat (ff_length h) + 4 \<le> length rest"
    using n unfolding bs by (auto simp: frame_size_header error_not_success split: if_splits)
  note e = decode_frame_header [OF n [unfolded bs], of f, folded bs, THEN iffD1, OF d]
  have version: "ff_version h = wire_version" "unat (ff_type h) < 17"
    and tail: "rest = take (unat (ff_length h)) rest @ w_u32 (crc32c (take (unat (ff_length h)) rest))"
    and f: "f = \<lparr>fr_type = message_types ! unat (ff_type h), fr_flags = ff_flags h, fr_sequence = ff_sequence h,
            fr_payload = take (unat (ff_length h)) rest\<rparr>"
    using e by blast+
  have fields: "fr_type f = message_types ! unat (ff_type h)" "fr_flags f = ff_flags h" "fr_sequence f = ff_sequence h"
    "fr_payload f = take (unat (ff_length h)) rest"
    by (subst f, simp)+
  have payload: "length (fr_payload f) = unat (ff_length h)" using fields(4) h(4) by simp
  have type: "ff_type h = of_nat (ordinal message_types (fr_type f))"
    using fields(1) version(2) ordinal_nth [OF distinct_types, of "unat (ff_type h)"] by simp
  have "head_bytes h = frame_head (fr_type f) (fr_flags f) (fr_sequence f) (of_nat (length (fr_payload f))) (ff_reserved h)"
    using fields(2,3) version(1) type payload by (simp add: head_bytes_def frame_head_def w_enum16_def h(1))
  then have "fields_of (ff_reserved h) f = h"
    using fields(2,3) version(1) type payload h(1,2) by (simp add: fields_of_def)
  then have "bs = framed (ff_reserved h) f"
    using tail unfolding framed_fields fields(4) by (simp add: bs)
  then show "length (fr_payload f) \<le> kMaxFramePayloadBytes \<and> (\<exists>r. bs = framed r f)"
    using payload h(3) by auto
next
  assume "length (fr_payload f) \<le> kMaxFramePayloadBytes \<and> (\<exists>r. bs = framed r f)"
  then obtain r where len: "length (fr_payload f) \<le> kMaxFramePayloadBytes" and bs: "bs = framed r f" by blast
  have "ordinal message_types (fr_type f) < 17" using ordinal_less [of "fr_type f" message_types] by simp
  then have t: "unat (of_nat (ordinal message_types (fr_type f)) :: u16) = ordinal message_types (fr_type f)"
    by (simp add: unat_of_nat)
  show "decode_frame bs = Inr f"
    using frame_size_framed [OF len, of r "[]"] payload_length [OF len] t
      \<open>ordinal message_types (fr_type f) < 17\<close> nth_ordinal [of "fr_type f" message_types]
    by (simp add: bs framed_fields decode_frame_header) (simp add: fields_of_def)
qed

text \<open>A sender always writes zero there, so what is encoded comes back, whatever follows it in the buffer.\<close>

lemma decode_framed: "length (fr_payload f) \<le> kMaxFramePayloadBytes \<Longrightarrow> decode_frame (framed r f) = Inr f"
  by (simp add: framed_fields decode_frame_header frame_size_framed [of f r "[]", simplified, unfolded framed_fields])
    (use nth_ordinal [of "fr_type f" message_types] ordinal_less [of "fr_type f" message_types]
        payload_length [of "fr_payload f"] in \<open>simp add: fields_of_def unat_of_nat\<close>)

lemma frame_size_prefix:
  assumes "length (fr_payload f) \<le> kMaxFramePayloadBytes" "k < length (framed r f)"
  shows "st_code (fst (frame_size (take k (framed r f)))) = ScTruncated"
proof (cases "k < 32")
  case True
  then show ?thesis using assms by (simp add: frame_size_def frame_header_size_def length_framed)
next
  case False
  define R where "R = take (k - 32) (fr_payload f @ w_u32 (crc32c (fr_payload f)))"
  have eq: "take k (framed r f) = field_bytes (fields_of r f) @ R"
    using False by (simp add: framed_fields R_def)
  have "length R < length (fr_payload f) + 4"
    using assms(2) False unfolding R_def length_take length_framed by simp
  then show ?thesis
    unfolding eq using payload_length [OF assms(1)] head_of_frame [of r f] assms(1)
    by (simp add: frame_size_header) (simp add: fields_of_def)
qed

lemma packed_unpacks:
  assumes "message_ok (wm_body m)" "pack_message m = Inr f"
  shows "unpack_message f = Inr (m\<lparr>wm_body := received_message (wm_body m)\<rparr>)"
proof -
  have f: "f = \<lparr>fr_type = type_of_message (wm_body m), fr_flags = wm_flags m, fr_sequence = wm_sequence m,
      fr_payload = encode_message (wm_body m)\<rparr>"
    using assms(2) by (simp add: pack_message_def Let_def split: if_splits)
  have "decode_message (type_of_message (wm_body m)) (reader_of (encode_message (wm_body m) @ []))
      = (Some (received_message (wm_body m)),
         (reader_of (encode_message (wm_body m) @ []))\<lparr>rd_offset := length (encode_message (wm_body m))\<rparr>)"
    by (rule reads_run [OF reads_message [OF assms(1)]])
  then show ?thesis by (simp add: unpack_message_def f rd_at_end_def reader_of_def)
qed



end
