(* ===== verification/Channel.thy ===== *)
theory Channel
  imports Wire_Props
begin

text \<open>
  The frame channel over a socket (\<^verbatim>\<open>FrameChannel\<close>, \<^verbatim>\<open>src/runtime.cpp\<close>): bytes arrive in pieces
  of any size, are kept in a buffer that grows up to the frame bound, and are handed out as
  whole frames. What the socket returns, call by call, is the input; a receive that has
  used it up is still waiting, which is the answer \<open>None\<close>.
\<close>

section \<open>Receiving\<close>

text \<open>What one call of the socket's receive brings: bytes (none when the peer has closed), a time-out, with the
  clock telling whether the caller's deadline has passed by then, or a failure.\<close>

datatype arrival = Arrived bytes | TimedOut bool | Failed status

record channel =
  ch_data :: bytes
  ch_size :: nat

definition kInitialBufferBytes :: nat where "kInitialBufferBytes = 8192"

definition new_channel :: channel where
  "new_channel = \<lparr>ch_data = [], ch_size = 0\<rparr>"

definition buffer_full :: "channel \<Rightarrow> bool" where
  "buffer_full ch = (length (ch_data ch) = ch_size ch \<and> ch_size ch \<ge> kMaxFrameBytes)"

definition grow_buffer :: "channel \<Rightarrow> channel" where
  "grow_buffer ch =
     (if length (ch_data ch) = ch_size ch then
        ch\<lparr>ch_size := min (if ch_size ch = 0 then kInitialBufferBytes else ch_size ch * 2) kMaxFrameBytes\<rparr>
      else ch)"

text \<open>The bytes of one call that fit the buffer, and what stays behind in the socket.\<close>

definition left_behind :: "nat \<Rightarrow> bytes \<Rightarrow> arrival list \<Rightarrow> arrival list" where
  "left_behind room bs rest = (if length bs > room then Arrived (drop room bs) # rest else rest)"

definition arrival_size :: "arrival \<Rightarrow> nat" where
  "arrival_size a = (case a of Arrived bs \<Rightarrow> length bs + 1 | _ \<Rightarrow> 1)"

lemma left_behind_size:
  "take room bs \<noteq> [] \<Longrightarrow> sum_list (map arrival_size (left_behind room bs rest))
     < sum_list (map arrival_size (Arrived bs # rest))"
  by (cases bs; cases room) (auto simp: left_behind_def arrival_size_def less_Suc_eq_le)

function receive_frame :: "nat \<Rightarrow> arrival list \<Rightarrow> channel \<Rightarrow> (status + wire_frame) option \<times> arrival list \<times> channel" where
  "receive_frame timeout arrivals ch =
     (case frame_size (ch_data ch) of (sized, n) \<Rightarrow>
      if ok sized then
        (case decode_frame (take n (ch_data ch)) of
           Inl st \<Rightarrow> (Some (Inl st), arrivals, ch)
         | Inr f \<Rightarrow> (Some (Inr f), arrivals, ch\<lparr>ch_data := drop n (ch_data ch)\<rparr>))
      else if st_code sized \<noteq> ScTruncated then (Some (Inl sized), arrivals, ch)
      else if buffer_full ch then
        (Some (Inl (status_error ScLimitExceeded
           ''peer sent more than the configured frame bound without completing a frame'')), arrivals, ch)
      else
        let ch1 = grow_buffer ch; room = ch_size ch1 - length (ch_data ch1) in
        (case arrivals of
           [] \<Rightarrow> (None, [], ch1)
         | TimedOut late # rest \<Rightarrow>
             if timeout > 0 \<and> late then
               (Some (Inl (status_error ScTimeout ''timed out waiting for a frame'')), rest, ch1)
             else receive_frame timeout rest ch1
         | Failed st # rest \<Rightarrow> (Some (Inl st), rest, ch1)
         | Arrived bs # rest \<Rightarrow>
             if take room bs = [] then
               (Some (Inl (if ch_data ch1 = [] then status_error ScClosed ''peer closed the connection''
                           else status_error ScTruncated ''peer closed mid-frame'')), rest, ch1)
             else receive_frame timeout (left_behind room bs rest)
                    (ch1\<lparr>ch_data := ch_data ch1 @ take room bs\<rparr>)))"
  by pat_completeness auto
termination
  by (relation "measure (\<lambda>(timeout, arrivals, ch). sum_list (map arrival_size arrivals))")
    (use left_behind_size in \<open>auto simp: arrival_size_def\<close>)

declare receive_frame.simps [simp del]

text \<open>The loop of a connection: one frame after the other, as long as they arrive.\<close>

fun receive_frames :: "nat \<Rightarrow> nat \<Rightarrow> arrival list \<Rightarrow> channel \<Rightarrow> wire_frame list \<times> arrival list \<times> channel" where
  "receive_frames timeout 0 arrivals ch = ([], arrivals, ch)"
| "receive_frames timeout (Suc k) arrivals ch =
     (case receive_frame timeout arrivals ch of
        (Some (Inr f), arrivals1, ch1) \<Rightarrow>
          (case receive_frames timeout k arrivals1 ch1 of (fs, arrivals2, ch2) \<Rightarrow> (f # fs, arrivals2, ch2))
      | (_, arrivals1, ch1) \<Rightarrow> ([], arrivals1, ch1))"

section \<open>Frames are put together again\<close>

definition bytes_in :: "arrival list \<Rightarrow> bytes" where
  "bytes_in as = concat (map (\<lambda>a. case a of Arrived bs \<Rightarrow> bs | _ \<Rightarrow> []) as)"

text \<open>The connection lives: bytes keep coming, and a time-out is at most a pause.\<close>

definition alive :: "arrival list \<Rightarrow> bool" where
  "alive as = list_all (\<lambda>a. case a of Arrived bs \<Rightarrow> bs \<noteq> [] | TimedOut late \<Rightarrow> \<not> late | Failed st \<Rightarrow> False) as"

definition channel_ok :: "channel \<Rightarrow> bool" where
  "channel_ok ch = (length (ch_data ch) \<le> ch_size ch \<and> ch_size ch \<le> kMaxFrameBytes)"

lemma bytes_in_simps [simp]:
  "bytes_in [] = []" "bytes_in (Arrived bs # as) = bs @ bytes_in as" "bytes_in (TimedOut l # as) = bytes_in as"
  by (simp_all add: bytes_in_def)

lemma alive_simps [simp]:
  "alive []" "alive (Arrived bs # as) = (bs \<noteq> [] \<and> alive as)" "alive (TimedOut l # as) = (\<not> l \<and> alive as)"
  "\<not> alive (Failed st # as)"
  by (simp_all add: alive_def)

lemma left_behind_alive: "alive as \<Longrightarrow> alive (left_behind room bs as)"
  by (simp add: left_behind_def)

lemma left_behind_bytes: "take room bs @ bytes_in (left_behind room bs as) = bs @ bytes_in as"
  by (simp add: left_behind_def)

lemma grow_buffer_ok:
  assumes "channel_ok ch" "\<not> buffer_full ch"
  shows "channel_ok (grow_buffer ch)" "ch_data (grow_buffer ch) = ch_data ch"
    "length (ch_data ch) < ch_size (grow_buffer ch)"
  using assms
  by (auto simp: channel_ok_def buffer_full_def grow_buffer_def kInitialBufferBytes_def kMaxFrameBytes_def)

lemma framed_bound: "length (fr_payload f) \<le> kMaxFramePayloadBytes \<Longrightarrow> length (framed r f) \<le> kMaxFrameBytes"
  by (simp add: length_framed kMaxFramePayloadBytes_def kMaxFrameBytes_def)

lemma receive_frame_whole:
  assumes "length (fr_payload f) \<le> kMaxFramePayloadBytes" "ch_data ch = framed r f @ later"
  shows "receive_frame timeout as ch = (Some (Inr f), as, ch\<lparr>ch_data := later\<rparr>)"
  using frame_size_framed [OF assms(1), of r later] decode_framed [OF assms(1), of r] assms(2)
  by (simp add: receive_frame.simps [of timeout as ch])

text \<open>The buffer holds a proper part of the frame: what one more call of the socket does.\<close>

lemma receive_frame_part:
  assumes f: "length (fr_payload f) \<le> kMaxFramePayloadBytes" and part: "ch_data ch = take k (framed r f)" "k < length (framed r f)"
    and ch: "channel_ok ch"
  shows "\<not> buffer_full ch"
    "receive_frame timeout (TimedOut False # rest) ch = receive_frame timeout rest (grow_buffer ch)"
    "bs \<noteq> [] \<Longrightarrow> receive_frame timeout (Arrived bs # rest) ch
       = receive_frame timeout (left_behind (ch_size (grow_buffer ch) - k) bs rest)
           ((grow_buffer ch)\<lparr>ch_data := ch_data ch @ take (ch_size (grow_buffer ch) - k) bs\<rparr>)"
proof -
  obtain sized n where s: "frame_size (ch_data ch) = (sized, n)" "st_code sized = ScTruncated"
    using frame_size_prefix [OF f part(2)] part(1) by (metis fst_conv prod.exhaust)
  then have nok: "\<not> ok sized" by (simp add: ok_def)
  show room: "\<not> buffer_full ch" using part framed_bound [OF f, of r] by (simp add: buffer_full_def)
  note g = grow_buffer_ok [OF ch room]
  have k: "length (ch_data ch) = k" using part by simp
  show "receive_frame timeout (TimedOut False # rest) ch = receive_frame timeout rest (grow_buffer ch)"
    using s nok room by (simp add: receive_frame.simps [of timeout "TimedOut False # rest" ch] Let_def)
  assume "bs \<noteq> []"
  then have "take (ch_size (grow_buffer ch) - k) bs \<noteq> []" using g(3) k by simp
  then show "receive_frame timeout (Arrived bs # rest) ch
       = receive_frame timeout (left_behind (ch_size (grow_buffer ch) - k) bs rest)
           ((grow_buffer ch)\<lparr>ch_data := ch_data ch @ take (ch_size (grow_buffer ch) - k) bs\<rparr>)"
    using s nok room g(2) k by (simp add: receive_frame.simps [of timeout "Arrived bs # rest" ch] Let_def)
qed

lemma receive_frame_one:
  assumes f: "length (fr_payload f) \<le> kMaxFramePayloadBytes"
  shows "ch_data ch @ bytes_in as = framed r f @ later \<Longrightarrow> alive as \<Longrightarrow> channel_ok ch \<Longrightarrow>
    \<exists>as' ch'. receive_frame timeout as ch = (Some (Inr f), as', ch') \<and> ch_data ch' @ bytes_in as' = later
    \<and> alive as' \<and> channel_ok ch'"
proof (induction "sum_list (map arrival_size as)" arbitrary: as ch rule: less_induct)
  case less
  show ?case
  proof (cases "length (framed r f) \<le> length (ch_data ch)")
    case True
    then have "ch_data ch = framed r f @ drop (length (framed r f)) (ch_data ch)"
      "drop (length (framed r f)) (ch_data ch) @ bytes_in as = later"
      using less.prems(1) by (metis append_eq_append_conv_if append_take_drop_id)+
    then show ?thesis using receive_frame_whole [OF f, of ch] less.prems(2,3) by (auto simp: channel_ok_def)
  next
    case False
    define k where "k = length (ch_data ch)"
    have part: "ch_data ch = take k (framed r f)" "k < length (framed r f)"
      using less.prems(1) False by (auto simp: append_eq_append_conv_if k_def)
    note step = receive_frame_part [OF f part less.prems(3)]
    note g = grow_buffer_ok [OF less.prems(3) step(1)]
    show ?thesis
    proof (cases as)
      case Nil
      then show ?thesis using less.prems(1) False by (metis append_Nil2 bytes_in_simps(1) length_append le_add1)
    next
      case (Cons a rest)
      show ?thesis
      proof (cases a)
        case (TimedOut late)
        then have late: "\<not> late" using less.prems(2) Cons by simp
        show ?thesis
          using less.hyps [of rest "grow_buffer ch"] less.prems g late step(2)
          by (simp add: Cons TimedOut arrival_size_def)
      next
        case (Arrived bs)
        let ?room = "ch_size (grow_buffer ch) - k"
        let ?ch = "(grow_buffer ch)\<lparr>ch_data := ch_data ch @ take ?room bs\<rparr>"
        have bs: "bs \<noteq> []" and rest: "alive rest" using less.prems(2) Cons Arrived by auto
        have "take ?room bs \<noteq> []" using g(3) bs by (simp add: k_def)
        moreover have "channel_ok ?ch" using g by (simp add: channel_ok_def k_def)
        moreover have "ch_data ?ch @ bytes_in (left_behind ?room bs rest) = framed r f @ later"
          using less.prems(1) by (simp add: left_behind_bytes Cons Arrived)
        ultimately show ?thesis
          using less.hyps [of "left_behind ?room bs rest" ?ch] left_behind_size [of ?room bs rest]
            left_behind_alive [OF rest] step(3) [OF bs]
          by (simp add: Cons Arrived)
      next
        case (Failed st)
        then show ?thesis using less.prems(2) Cons by simp
      qed
    qed
  qed
qed

text \<open>C23. However the network cuts the bytes of a sequence of frames into pieces, and whatever time-outs fall in
  between, the channel hands out exactly those frames in order, its buffer within the frame bound.\<close>

theorem stream_reassembled:
  assumes "list_all (\<lambda>f. length (fr_payload f) \<le> kMaxFramePayloadBytes) fs"
    "bytes_in as = concat (map (framed 0) fs)" "alive as"
  shows "\<exists>as' ch. receive_frames timeout (length fs) as new_channel = (fs, as', ch) \<and> ch_data ch = [] \<and> bytes_in as' = []
    \<and> ch_size ch \<le> kMaxFrameBytes"
proof -
  have "\<exists>as' ch'. receive_frames timeout (length fs) as ch = (fs, as', ch') \<and> ch_data ch' @ bytes_in as' = []
      \<and> channel_ok ch'"
    if "list_all (\<lambda>f. length (fr_payload f) \<le> kMaxFramePayloadBytes) fs"
      "ch_data ch @ bytes_in as = concat (map (framed 0) fs)" "alive as" "channel_ok ch" for ch
    using that
  proof (induction fs arbitrary: as ch)
    case (Cons f fs)
    have f: "length (fr_payload f) \<le> kMaxFramePayloadBytes" using Cons.prems(1) by simp
    obtain as1 ch1 where one: "receive_frame timeout as ch = (Some (Inr f), as1, ch1)"
      "ch_data ch1 @ bytes_in as1 = concat (map (framed 0) fs)" "alive as1" "channel_ok ch1"
      using receive_frame_one [OF f, of ch as 0 "concat (map (framed 0) fs)" timeout] Cons.prems by auto
    then show ?case using Cons.IH [OF _ one(2-4)] Cons.prems(1) by auto
  qed simp
  from this [of new_channel] show ?thesis
    using assms by (fastforce simp: new_channel_def channel_ok_def)
qed

text \<open>Two frames in three pieces, cut in the middle of the second.\<close>

definition demo_ping :: wire_frame where
  "demo_ping = \<lparr>fr_type = MtPing, fr_flags = 0, fr_sequence = 7, fr_payload = []\<rparr>"

theorem stream_reassembled_witness:
  "\<exists>as' ch. receive_frames 9 2 [Arrived (take 40 (framed 0 demo_ping @ framed 0 demo_ping)), TimedOut False,
       Arrived (drop 40 (framed 0 demo_ping @ framed 0 demo_ping))] new_channel
     = ([demo_ping, demo_ping], as', ch)"
proof -
  define bs where "bs = framed 0 demo_ping @ framed 0 demo_ping"
  have "length bs = 72" by (simp add: bs_def length_framed demo_ping_def)
  then have cut: "take 40 bs \<noteq> []" "drop 40 bs \<noteq> []" by auto
  have "bytes_in [Arrived (take 40 bs), TimedOut False, Arrived (drop 40 bs)] = concat (map (framed 0) [demo_ping, demo_ping])"
    by (simp add: bs_def del: take_append drop_append)
  moreover have "alive [Arrived (take 40 bs), TimedOut False, Arrived (drop 40 bs)]" using cut by simp
  moreover have "list_all (\<lambda>f. length (fr_payload f) \<le> kMaxFramePayloadBytes) [demo_ping, demo_ping]"
    by (simp add: demo_ping_def)
  ultimately obtain as' ch where "receive_frames 9 (length [demo_ping, demo_ping])
      [Arrived (take 40 bs), TimedOut False, Arrived (drop 40 bs)] new_channel = ([demo_ping, demo_ping], as', ch)"
    using stream_reassembled by blast
  then show ?thesis unfolding bs_def by (simp only: list.size One_nat_def Suc_1 add_0 plus_nat.simps numeral_2_eq_2) blast
qed

end
