(* ===== verification/Render.thy ===== *)
theory Render
  imports Authority
begin

text \<open>
  The text the controller shows (\<^verbatim>\<open>src/render.cpp\<close>, \<^verbatim>\<open>AuthorityCore::render_state\<close>,
  \<^verbatim>\<open>AuthorityCore::render_audit\<close>, \<^verbatim>\<open>RecoveryReport::render\<close>) and the JSON writer. The lemmas
  show that a JSON text written by the writer is the text of the value it was told to
  write, and that no string can end its own quotation.
\<close>

section \<open>Records as text\<close>

definition newline :: string where "newline = [CHR 0x0A]"

definition field :: "string \<Rightarrow> string \<Rightarrow> string" where
  "field key v = ''  '' @ key @ '' = '' @ v @ newline"

definition bool_text :: "bool \<Rightarrow> string" where
  "bool_text b = (if b then ''true'' else ''false'')"

definition quoted :: "string \<Rightarrow> string" where
  "quoted s = CHR 0x22 # sanitise_for_display s kMaxNoteBytes @ [CHR 0x22]"

definition render_grant :: "grant \<Rightarrow> string" where
  "render_grant x =
     ''GRANT '' @ gr_grant_id x @ newline
     @ field ''outcome'' (outcome_to_string (gr_outcome x))
     @ field ''state'' (grant_state_to_string (gr_state x))
     @ field ''commit'' (commit_state_to_string (gr_commit x))
     @ field ''acknowledged'' (bool_text (gr_acknowledged x))
     @ field ''degraded'' (bool_text (gr_degraded x))
     @ field ''cluster'' (gr_cluster_id x)
     @ field ''cluster_generation'' (to_decimal (gr_cluster_generation x))
     @ field ''epoch'' (to_decimal (gr_epoch x))
     @ field ''policy_generation'' (to_decimal (gr_policy_generation x))
     @ field ''incarnation'' (incarnation_hex (gr_incarnation x))
     @ field ''contract'' (gr_contract_id x)
     @ field ''contract_generation'' (to_decimal (gr_contract_generation x))
     @ field ''source_service'' (gr_source_service x)
     @ field ''destination_service'' (gr_destination_service x)
     @ field ''source_member'' (gr_source_member x)
     @ field ''source_member_generation'' (to_decimal (gr_source_member_generation x))
     @ field ''source_member_digest'' (hex_encode (gr_source_member_digest x))
     @ field ''source_domain'' (gr_source_domain x)
     @ field ''destination_member'' (gr_destination_member x)
     @ field ''destination_member_generation'' (to_decimal (gr_destination_member_generation x))
     @ field ''destination_member_digest'' (hex_encode (gr_destination_member_digest x))
     @ field ''destination_domain'' (gr_destination_domain x)
     @ field ''source_endpoint'' (gr_source_endpoint x)
     @ field ''destination_endpoint'' (gr_destination_endpoint x)
     @ field ''path'' (gr_path_id x)
     @ field ''path_generation'' (to_decimal (gr_path_generation x))
     @ field ''resource'' (gr_resource_id x)
     @ field ''reservation_generation'' (to_decimal (gr_reservation_generation x))
     @ field ''capacity_reserved'' (bool_text (gr_capacity_reserved x))
     @ field ''requested_units'' (to_decimal (gr_requested_units x))
     @ field ''capacity_units'' (to_decimal (gr_capacity_units x))
     @ field ''distinct_failure_domains'' (to_decimal (ucast (gr_distinct_failure_domains x)))
     @ field ''lease'' (gr_lease_id x)
     @ field ''lease_issued'' (to_decimal (gr_lease_issued x))
     @ field ''lease_expiry'' (to_decimal (gr_lease_expiry x))
     @ field ''attempt'' (gr_attempt_id x)
     @ field ''prepare_sequence'' (to_decimal (gr_prepare_sequence x))
     @ field ''commit_sequence'' (to_decimal (gr_commit_sequence x))
     @ field ''release_sequence'' (to_decimal (gr_release_sequence x))
     @ field ''acknowledgement_sequence'' (to_decimal (gr_acknowledgement_sequence x))
     @ (if gr_reductions x \<noteq> [] then field ''reductions'' (render_reasons (gr_reductions x)) else [])
     @ field ''digest'' (hex_encode (grant_digest x))"

definition render_attempt :: "attempt \<Rightarrow> string" where
  "render_attempt x =
     ''ATTEMPT '' @ at_attempt_id x @ newline
     @ field ''request'' (at_request_id x)
     @ field ''request_digest'' (hex_encode (at_request_digest x))
     @ field ''grant'' (at_grant_id x)
     @ field ''lease'' (at_lease_id x)
     @ field ''outcome'' (outcome_to_string (at_outcome x))
     @ field ''primary_reason'' (reason_code_to_string (at_primary_reason x))
     @ field ''first_seen'' (to_decimal (at_first_seen x))
     @ field ''terminal_tick'' (to_decimal (at_terminal_tick x))
     @ field ''released'' (bool_text (at_released x))
     @ field ''cancelled'' (bool_text (at_cancelled x))"

definition render_decision :: "decision \<Rightarrow> string" where
  "render_decision x =
     ''DECISION '' @ outcome_to_string (dc_outcome x) @ newline
     @ field ''request'' (dc_request_id x)
     @ field ''attempt'' (dc_attempt_id x)
     @ field ''reasons'' (render_reasons (dc_reasons x))
     @ field ''cluster'' (dc_cluster_id x)
     @ field ''cluster_generation'' (to_decimal (dc_cluster_generation x))
     @ field ''epoch'' (to_decimal (dc_epoch x))
     @ field ''policy_generation'' (to_decimal (dc_policy_generation x))
     @ field ''incarnation'' (incarnation_hex (dc_incarnation x))
     @ field ''decision_sequence'' (to_decimal (dc_decision_sequence x))
     @ field ''decided_at'' (to_decimal (dc_decided_at x))
     @ field ''idempotent_replay'' (bool_text (dc_idempotent_replay x))
     @ field ''requires_reconciliation'' (bool_text (dc_requires_reconciliation x))
     @ field ''spec_digest'' (hex_encode (dc_spec_digest x))
     @ field ''state_digest'' (hex_encode (dc_state_digest x))
     @ field ''decision_digest'' (hex_encode (dc_decision_digest x))
     @ (case dc_grant x of None \<Rightarrow> [] | Some g \<Rightarrow> render_grant g)"

definition render_member :: "member \<Rightarrow> string" where
  "render_member x =
     ''MEMBER '' @ mb_id x @ newline
     @ field ''domain'' (mb_domain x)
     @ field ''generation'' (to_decimal (mb_generation x))
     @ field ''digest'' (hex_encode (mb_digest x))
     @ field ''lifecycle'' (lifecycle_to_string (mb_lifecycle x))
     @ field ''locality'' (locality_to_string (mb_locality x))
     @ field ''last_observed'' (to_decimal (mb_last_observed x))
     @ field ''state_digest'' (hex_encode (member_state_digest x))
     @ concat (map (\<lambda>e. field ''endpoint'' (en_id e @ '' locality='' @
       locality_to_string (if en_locality e = [] then mb_locality x else en_locality e))) (mb_endpoints x))
     @ concat (map (field ''service'') (mb_services x))
     @ concat (map (\<lambda>r. field ''resource'' (re_id r @ '' kind='' @ quoted (re_kind r) @ '' units='' @ to_decimal (re_total_units r)
       @ '' reservation_generation='' @ to_decimal (re_reservation_generation r))) (mb_resources x))"

definition render_path :: "path \<Rightarrow> string" where
  "render_path x =
     ''PATH '' @ pt_id x @ newline
     @ field ''generation'' (to_decimal (pt_generation x))
     @ field ''state'' (path_state_to_string (pt_state x))
     @ field ''source_member'' (pt_source_member x)
     @ field ''source_endpoint'' (pt_source_endpoint x)
     @ field ''destination_member'' (pt_destination_member x)
     @ field ''destination_endpoint'' (pt_destination_endpoint x)
     @ field ''capacity_units'' (to_decimal (pt_capacity_units x))
     @ field ''exclusive'' (bool_text (pt_exclusive x))
     @ field ''declared_hops'' (to_decimal (ucast (pt_declared_hops x)))
     @ concat (map (field ''resource'') (pt_resources x))"

definition render_exclusion :: "exclusion \<Rightarrow> string" where
  "render_exclusion x =
     ''EXCLUSION '' @ ex_id x @ newline
     @ field ''mode'' (maintenance_mode_to_string (ex_mode x))
     @ field ''enabled'' (bool_text (ex_enabled x))
     @ field ''domain_prefix'' (locality_to_string (ex_domain_prefix x))
     @ field ''valid_from'' (to_decimal (ex_valid_from x))
     @ field ''valid_to'' (to_decimal (ex_valid_to x))
     @ field ''reason'' (quoted (ex_reason x))
     @ concat (map (field ''member'') (ex_members x))
     @ concat (map (field ''path'') (ex_paths x))"

definition render_obligation :: "obligation \<Rightarrow> string" where
  "render_obligation x =
     ''OBLIGATION '' @ ob_id x @ newline
     @ field ''service'' (ob_service x)
     @ field ''min_distinct_failure_domains'' (to_decimal (ucast (ob_min_distinct_failure_domains x)))
     @ field ''failure_domain_level'' (to_decimal (ucast (ob_failure_domain_level x)))
     @ field ''min_units_per_domain'' (to_decimal (ob_min_units_per_domain x))
     @ field ''enabled'' (bool_text (ob_enabled x))"

definition render_contract :: "contract \<Rightarrow> string" where
  "render_contract x =
     ''CONTRACT '' @ ct_id x @ newline
     @ field ''generation'' (to_decimal (ct_generation x))
     @ field ''source_service'' (ct_source_service x)
     @ field ''destination_service'' (ct_destination_service x)
     @ field ''min_capacity_units'' (to_decimal (ct_min_capacity_units x))
     @ field ''max_capacity_units'' (to_decimal (ct_max_capacity_units x))
     @ field ''min_distinct_failure_domains'' (to_decimal (ucast (ct_min_distinct_failure_domains x)))
     @ field ''failure_domain_level'' (to_decimal (ucast (ct_failure_domain_level x)))
     @ field ''require_exclusive_path'' (bool_text (ct_require_exclusive_path x))
     @ field ''maintenance_mode'' (maintenance_mode_to_string (ct_maintenance_mode x))
     @ field ''allow_draining'' (bool_text (ct_allow_draining x))
     @ field ''allow_faulted'' (bool_text (ct_allow_faulted x))
     @ field ''allow_partitioned'' (bool_text (ct_allow_partitioned x))
     @ field ''allow_degraded'' (bool_text (ct_allow_degraded x))
     @ field ''enabled'' (bool_text (ct_enabled x))
     @ concat (map (\<lambda>c. field ''capability'' (quoted c)) (ct_required_capabilities x))
     @ concat (map (\<lambda>c. field ''unsupported_capability'' (quoted c)) (unsupported_capabilities x))
     @ field ''digest'' (hex_encode (contract_digest x))"

definition render_controller :: "controller_identity \<Rightarrow> string" where
  "render_controller x =
     ''CONTROLLER'' @ newline
     @ field ''cluster'' (ci_cluster x)
     @ field ''cluster_generation'' (to_decimal (ci_generation x))
     @ field ''epoch'' (to_decimal (ci_epoch x))
     @ field ''policy_generation'' (to_decimal (ci_policy x))
     @ field ''incarnation'' (incarnation_hex (ci_incarnation x))"

definition render_recovery :: "recovery_report \<Rightarrow> string" where
  "render_recovery r =
     ''RECOVERY'' @ newline
     @ field ''file_present'' (bool_text (rr_file_present r))
     @ field ''fresh'' (bool_text (rr_fresh r))
     @ field ''truncated_tail'' (bool_text (rr_truncated_tail r))
     @ field ''integrity_failure'' (bool_text (rr_integrity_failure r))
     @ field ''version_mismatch'' (bool_text (rr_version_mismatch r))
     @ field ''replay_detected'' (bool_text (rr_replay_detected r))
     @ field ''discarded_bytes'' (to_decimal (of_nat (rr_discarded_bytes r)))
     @ field ''records_read'' (to_decimal (of_nat (rr_records_read r)))
     @ field ''records_applied'' (to_decimal (of_nat (rr_records_applied r)))
     @ field ''records_rejected'' (to_decimal (of_nat (rr_records_rejected r)))
     @ field ''last_sequence'' (to_decimal (rr_last_sequence r))
     @ field ''valid_bytes'' (to_decimal (of_nat (rr_valid_bytes r)))
     @ field ''historical'' (bool_text (\<not> rr_fresh r))
     @ (if rr_detail r = [] then [] else field ''detail'' (sanitise_for_display (rr_detail r) kMaxNoteBytes))"

section \<open>The whole controller\<close>

text \<open>The digests are cached, so rendering fills the caches.\<close>

definition with_digests :: "authority \<Rightarrow> (bytes \<times> bytes \<times> bytes \<times> bytes) \<times> authority" where
  "with_digests a =
     (case spec_digest (au_spec a) of (sd, sp1) \<Rightarrow>
      case topology_digest sp1 of (td, sp2) \<Rightarrow>
      case contracts_digest (au_contracts a) of (cd, cs) \<Rightarrow>
      case state_digest (a\<lparr>au_spec := sp2, au_contracts := cs\<rparr>) of (ad, a1) \<Rightarrow> ((sd, td, cd, ad), a1))"

definition render_state :: "authority \<Rightarrow> string \<times> authority" where
  "render_state a =
     (case with_digests a of ((sd, td, cd, ad), a1) \<Rightarrow>
      (render_controller (controller_identity_of a)
       @ field ''spec_digest'' (hex_encode sd) @ field ''topology_digest'' (hex_encode td)
       @ field ''contract_digest'' (hex_encode cd) @ field ''state_digest'' (hex_encode ad)
       @ field ''live_state_digest'' (hex_encode (live_state_digest a))
       @ field ''tick'' (to_decimal (sp_tick (au_spec a)))
       @ field ''durable'' (bool_text (sink_durable (au_sink a)))
       @ field ''members'' (to_decimal (of_nat (length (sp_members (au_spec a)))))
       @ field ''paths'' (to_decimal (of_nat (length (sp_paths (au_spec a)))))
       @ field ''contracts'' (to_decimal (of_nat (length (cs_contracts (au_contracts a)))))
       @ field ''grants'' (to_decimal (of_nat (length (au_grants a))))
       @ field ''attempts'' (to_decimal (of_nat (length (au_attempts a))))
       @ field ''quarantined_units'' (to_decimal (quarantined_units a))
       @ field ''counters.decisions'' (to_decimal (co_decisions (au_counters a)))
       @ field ''counters.grants'' (to_decimal (co_grants (au_counters a)))
       @ field ''counters.refusals'' (to_decimal (co_refusals (au_counters a)))
       @ field ''counters.fences'' (to_decimal (co_fences (au_counters a)))
       @ field ''counters.recoveries'' (to_decimal (co_recoveries (au_counters a)))
       @ concat (map render_member (sp_members (au_spec a)))
       @ concat (map render_path (sp_paths (au_spec a)))
       @ concat (map render_exclusion (sp_exclusions (au_spec a)))
       @ concat (map render_obligation (sp_obligations (au_spec a)))
       @ concat (map render_contract (cs_contracts (au_contracts a)))
       @ concat (map render_grant (filter (\<lambda>g. holds_capacity (gr_state g)) (au_grants a))), a1))"

definition render_audit_entry :: "audit_entry \<Rightarrow> string" where
  "render_audit_entry e =
     ''AUDIT '' @ to_decimal (ad_sequence e) @ '' '' @ ad_operation e @ '' '' @ outcome_to_string (ad_outcome e)
     @ '' '' @ reason_code_to_string (ad_reason e) @ '' request='' @ ad_request_id e @ '' attempt='' @ ad_attempt_id e
     @ '' grant='' @ ad_grant_id e @ '' tick='' @ to_decimal (ad_tick e)
     @ (if ad_detail e = [] then [] else '' detail='' @ ad_detail e) @ newline"

definition render_audit :: "authority \<Rightarrow> string" where
  "render_audit a =
     (if au_audit a = [] then
        ''AUDIT (empty)'' @ newline
        @ ''  note = audit history is diagnostic and is deliberately not persisted; a freshly ''
        @ ''recovered controller reports it as empty'' @ newline
      else concat (map render_audit_entry (au_audit a)))"

section \<open>JSON\<close>

definition json_escape_char :: "char \<Rightarrow> string" where
  "json_escape_char c =
     (if c = CHR 0x22 then [CHR 0x5C, CHR 0x22]
      else if c = CHR 0x5C then [CHR 0x5C, CHR 0x5C]
      else if c = CHR 0x0A then [CHR 0x5C, CHR ''n'']
      else if c = CHR 0x0D then [CHR 0x5C, CHR ''r'']
      else if c = CHR 0x09 then [CHR 0x5C, CHR ''t'']
      else if (of_char c :: nat) < 0x20 \<or> (of_char c :: nat) \<ge> 0x7F then ''?'' else [c])"

definition json_escape :: "string \<Rightarrow> string" where
  "json_escape s = concat (map json_escape_char s)"

record json_writer =
  jw_out :: string
  jw_first :: bool
  jw_after_key :: bool

definition new_writer :: json_writer where
  "new_writer = \<lparr>jw_out = [], jw_first = True, jw_after_key = False\<rparr>"

definition jw_emit :: "string \<Rightarrow> json_writer \<Rightarrow> json_writer" where
  "jw_emit s w = w\<lparr>jw_out := jw_out w @ s\<rparr>"

definition jw_separate :: "json_writer \<Rightarrow> json_writer" where
  "jw_separate w =
     (if jw_after_key w then w\<lparr>jw_after_key := False\<rparr>
      else (if jw_first w then w else jw_emit '','' w)\<lparr>jw_first := False\<rparr>)"

definition jw_begin_object :: "json_writer \<Rightarrow> json_writer" where
  "jw_begin_object w = (jw_emit ''{'' (jw_separate w))\<lparr>jw_first := True\<rparr>"

definition jw_end_object :: "json_writer \<Rightarrow> json_writer" where
  "jw_end_object w = (jw_emit ''}'' w)\<lparr>jw_first := False\<rparr>"

definition jw_begin_array :: "json_writer \<Rightarrow> json_writer" where
  "jw_begin_array w = (jw_emit ''['' (jw_separate w))\<lparr>jw_first := True\<rparr>"

definition jw_end_array :: "json_writer \<Rightarrow> json_writer" where
  "jw_end_array w = (jw_emit '']'' w)\<lparr>jw_first := False\<rparr>"

definition json_quote :: "string \<Rightarrow> string" where
  "json_quote s = CHR 0x22 # json_escape s @ [CHR 0x22]"

definition jw_key :: "string \<Rightarrow> json_writer \<Rightarrow> json_writer" where
  "jw_key name w = (jw_emit (json_quote name @ '':'') (jw_separate w))\<lparr>jw_after_key := True\<rparr>"

definition jw_string :: "string \<Rightarrow> json_writer \<Rightarrow> json_writer" where
  "jw_string s w = jw_emit (json_quote s) (jw_separate w)"

definition jw_number :: "u64 \<Rightarrow> json_writer \<Rightarrow> json_writer" where
  "jw_number n w = jw_emit (to_decimal n) (jw_separate w)"

definition jw_bool :: "bool \<Rightarrow> json_writer \<Rightarrow> json_writer" where
  "jw_bool b w = jw_emit (bool_text b) (jw_separate w)"

definition jw_raw :: "string \<Rightarrow> json_writer \<Rightarrow> json_writer" where
  "jw_raw s w = jw_emit s (jw_separate w)"

section \<open>The writer writes the value\<close>

datatype json = JsObject "(string \<times> json) list" | JsArray "json list" | JsString string | JsNumber u64 | JsBool bool

text \<open>The text of a value, written with separators between neighbours.\<close>

fun sep_by :: "string \<Rightarrow> string list \<Rightarrow> string" where
  "sep_by s [] = []"
| "sep_by s [x] = x"
| "sep_by s (x # y # ys) = x @ s @ sep_by s (y # ys)"

primrec json_text :: "json \<Rightarrow> string" where
  "json_text (JsObject kvs) = ''{'' @ sep_by '','' (map (\<lambda>kv. json_quote (fst kv) @ '':'' @ snd kv) (map (map_prod id json_text) kvs)) @ ''}''"
| "json_text (JsArray vs) = ''['' @ sep_by '','' (map json_text vs) @ '']''"
| "json_text (JsString s) = json_quote s"
| "json_text (JsNumber n) = to_decimal n"
| "json_text (JsBool b) = bool_text b"

text \<open>The calls a client makes for a value.\<close>

fun write_json :: "json \<Rightarrow> json_writer \<Rightarrow> json_writer" where
  "write_json (JsObject kvs) w = jw_end_object (fold (\<lambda>kv w. write_json (snd kv) (jw_key (fst kv) w)) kvs (jw_begin_object w))"
| "write_json (JsArray vs) w = jw_end_array (fold write_json vs (jw_begin_array w))"
| "write_json (JsString s) w = jw_string s w"
| "write_json (JsNumber n) w = jw_number n w"
| "write_json (JsBool b) w = jw_bool b w"


definition writer_lead :: "json_writer \<Rightarrow> string" where
  "writer_lead w = (if jw_after_key w \<or> jw_first w then [] else '','')"

definition writer_ok :: "json_writer \<Rightarrow> bool" where
  "writer_ok w = (jw_after_key w \<longrightarrow> \<not> jw_first w)"

lemmas writer_defs = jw_separate_def jw_emit_def jw_begin_object_def jw_end_object_def jw_begin_array_def
  jw_end_array_def jw_key_def jw_string_def jw_number_def jw_bool_def writer_lead_def writer_ok_def

lemma sep_by_Cons: "sep_by s (x # xs) = x @ concat (map (\<lambda>y. s @ y) xs)"
  by (induction xs arbitrary: x) auto

text \<open>A member written into an object, or a value into an array, that is already under way.\<close>

lemma write_members:
  assumes "\<And>kv w. kv \<in> set kvs \<Longrightarrow> writer_ok (jw_key (fst kv) w) \<Longrightarrow> write_json (snd kv) (jw_key (fst kv) w)
      = \<lparr>jw_out = jw_out (jw_key (fst kv) w) @ writer_lead (jw_key (fst kv) w) @ json_text (snd kv),
         jw_first = False, jw_after_key = False\<rparr>"
    "\<not> jw_after_key w" "\<not> jw_first w"
  shows "fold (\<lambda>kv w. write_json (snd kv) (jw_key (fst kv) w)) kvs w
    = \<lparr>jw_out = jw_out w @ concat (map (\<lambda>kv. '','' @ json_quote (fst kv) @ '':'' @ json_text (snd kv)) kvs),
       jw_first = False, jw_after_key = False\<rparr>"
  using assms
proof (induction kvs arbitrary: w)
  case Nil
  then show ?case by (cases w) simp
next
  case (Cons kv kvs)
  have "write_json (snd kv) (jw_key (fst kv) w) = \<lparr>jw_out = jw_out w @ '','' @ json_quote (fst kv) @ '':'' @ json_text (snd kv),
      jw_first = False, jw_after_key = False\<rparr>"
    using Cons.prems(1) [of kv w] Cons.prems(2,3) by (simp add: writer_defs)
  then show ?case by (simp add: Cons.IH [OF Cons.prems(1)])
qed

lemma write_values:
  assumes "\<And>v w. v \<in> set vs \<Longrightarrow> writer_ok w \<Longrightarrow> write_json v w
      = \<lparr>jw_out = jw_out w @ writer_lead w @ json_text v, jw_first = False, jw_after_key = False\<rparr>"
    "\<not> jw_after_key w" "\<not> jw_first w"
  shows "fold write_json vs w
    = \<lparr>jw_out = jw_out w @ concat (map (\<lambda>v. '','' @ json_text v) vs), jw_first = False, jw_after_key = False\<rparr>"
  using assms
proof (induction vs arbitrary: w)
  case Nil
  then show ?case by (cases w) simp
next
  case (Cons v vs)
  have "write_json v w = \<lparr>jw_out = jw_out w @ '','' @ json_text v, jw_first = False, jw_after_key = False\<rparr>"
    using Cons.prems(1) [of v w] Cons.prems(2,3) by (simp add: writer_defs)
  then show ?case by (simp add: Cons.IH [OF Cons.prems(1)])
qed

lemma write_json_lead:
  "writer_ok w \<Longrightarrow> write_json v w
    = \<lparr>jw_out = jw_out w @ writer_lead w @ json_text v, jw_first = False, jw_after_key = False\<rparr>"
proof (induction v w rule: write_json.induct)
  case (1 kvs w)
  show ?case
  proof (cases kvs)
    case Nil
    then show ?thesis using 1(2) by (simp add: writer_defs)
  next
    case (Cons kv rest)
    have ih: "write_json (snd kv') (jw_key (fst kv') w') = \<lparr>jw_out = jw_out (jw_key (fst kv') w')
        @ writer_lead (jw_key (fst kv') w') @ json_text (snd kv'), jw_first = False, jw_after_key = False\<rparr>"
      if "kv' \<in> set kvs" "writer_ok (jw_key (fst kv') w')" for kv' w'
      using 1(1) that by blast
    show ?thesis
      using ih [of kv "jw_begin_object w"] 1(2) write_members [of rest, OF ih]
      by (simp add: Cons sep_by_Cons comp_def) (simp add: writer_defs)
  qed
next
  case (2 vs w)
  show ?case
  proof (cases vs)
    case Nil
    then show ?thesis using 2(2) by (simp add: writer_defs)
  next
    case (Cons v rest)
    have ih: "write_json v' w' = \<lparr>jw_out = jw_out w' @ writer_lead w' @ json_text v', jw_first = False,
        jw_after_key = False\<rparr>" if "v' \<in> set vs" "writer_ok w'" for v' w'
      using 2(1) that by blast
    show ?thesis
      using ih [of v "jw_begin_array w"] 2(2) write_values [of rest, OF ih]
      by (simp add: Cons sep_by_Cons comp_def) (simp add: writer_defs)
  qed
qed (simp_all add: writer_defs)

text \<open>Writing any value through the writer gives its JSON text: every comma, colon and bracket is where the
  grammar wants it, however deep objects and arrays are nested.\<close>

theorem json_writer_exact: "jw_out (write_json v new_writer) = json_text v"
  by (subst write_json_lead) (simp_all add: new_writer_def writer_ok_def writer_lead_def)

text \<open>Reading a string literal after its opening quote: the characters it stands for and what follows it.\<close>

definition json_unescape :: "char \<Rightarrow> char" where
  "json_unescape c = (if c = CHR ''n'' then CHR 0x0A else if c = CHR ''r'' then CHR 0x0D
     else if c = CHR ''t'' then CHR 0x09 else c)"

fun json_scan :: "string \<Rightarrow> (string \<times> string) option" where
  "json_scan [] = None"
| "json_scan (c # s) =
     (if c = CHR 0x22 then Some ([], s)
      else if c = CHR 0x5C then
        (case s of [] \<Rightarrow> None | d # s' \<Rightarrow> map_option (apfst ((#) (json_unescape d))) (json_scan s'))
      else map_option (apfst ((#) c)) (json_scan s))"

definition json_shown :: "char \<Rightarrow> char" where
  "json_shown c =
     (if c \<noteq> CHR 0x0A \<and> c \<noteq> CHR 0x0D \<and> c \<noteq> CHR 0x09 \<and> ((of_char c :: nat) < 0x20 \<or> (of_char c :: nat) \<ge> 0x7F)
      then CHR ''?'' else c)"

lemma json_scan_char:
  "json_scan (json_escape_char c @ s) = map_option (apfst ((#) (json_shown c))) (json_scan s)"
  by (auto simp: json_escape_char_def json_shown_def json_unescape_def)

text \<open>No string can end its own quotation: read back from a JSON text, a literal yields exactly the characters
  that were written (those that cannot be shown as question marks), and what follows the literal is untouched.\<close>

theorem json_string_is_closed:
  "json_scan (json_escape s @ CHR 0x22 # rest) = Some (map json_shown s, rest)"
  by (induction s) (simp_all add: json_escape_def json_scan_char)

end
