(* ===== verification/Server.thy ===== *)
theory Server
  imports Queue Channel Render Runs
begin

text \<open>
  The daemon (\<^verbatim>\<open>include/cif/server.hpp\<close>, \<^verbatim>\<open>src/server.cpp\<close>): opening or recovering its state, the
  dispatch of every message, the connections with their reply mailboxes, the reducer
  that takes one item after the other from the bounded queue, housekeeping and shutdown.
  Every step here runs under the locks of the code or on the reducer thread alone, so an
  execution of the daemon is an interleaving of these steps. Sockets are represented by
  the frames and failures they deliver and the outcomes of sending.
\<close>

section \<open>Options\<close>

definition kMaxConnections :: nat where "kMaxConnections = 128"
definition kMaxIngressQueue :: nat where "kMaxIngressQueue = 8192"
definition kMaxBatchRequests :: nat where "kMaxBatchRequests = 256"

record server_options =
  so_bind_host :: string
  so_port :: u16
  so_max_connections :: nat
  so_ingress_capacity :: nat
  so_max_batch :: nat
  so_socket_timeout_millis :: u64
  so_housekeeping_period_millis :: u64
  so_require_hello :: bool
  so_journal_path :: string
  so_ready_file :: string
  so_cluster_id :: string
  so_policy :: u64
  so_authority :: options

definition default_server_options :: server_options where
  "default_server_options =
     \<lparr>so_bind_host = ''127.0.0.1'', so_port = 0, so_max_connections = kMaxConnections,
      so_ingress_capacity = kMaxIngressQueue, so_max_batch = kMaxBatchRequests, so_socket_timeout_millis = 200,
      so_housekeeping_period_millis = 0, so_require_hello = True, so_journal_path = [], so_ready_file = [],
      so_cluster_id = [], so_policy = 0, so_authority = default_options\<rparr>"

definition clamp_server_options :: "server_options \<Rightarrow> server_options" where
  "clamp_server_options p =
     p\<lparr>so_max_connections := (if so_max_connections p = 0 then 1 else min (so_max_connections p) kMaxConnections),
       so_max_batch := (if so_max_batch p = 0 then 1 else min (so_max_batch p) kMaxBatchRequests),
       so_socket_timeout_millis := (if so_socket_timeout_millis p = 0 then 200 else so_socket_timeout_millis p)\<rparr>"

section \<open>Administrative commands\<close>

text \<open>The outcome, what is told about a success, and the new state.\<close>

definition told :: "string \<Rightarrow> status \<times> authority \<Rightarrow> status \<times> string \<times> authority" where
  "told detail m = (case m of (st, a) \<Rightarrow> if ok st then (success, detail, a) else (st, [], a))"

definition apply_admin :: "admin_command \<Rightarrow> authority \<Rightarrow> status \<times> string \<times> authority" where
  "apply_admin c a = (case am_kind c of
     AkNone \<Rightarrow> (status_error ScInvalidArgument ''admin command kind is not set'', [], a)
   | AkUpsertMember \<Rightarrow> told (''member '' @ mb_id (am_member c) @ '' upserted'') (au_upsert_member (am_member c) a)
   | AkRemoveMember \<Rightarrow> told (''member '' @ am_member_id c @ '' retired'') (au_remove_member (am_member_id c) a)
   | AkSetMemberLifecycle \<Rightarrow>
       told (''member '' @ am_member_id c @ '' is now '' @ lifecycle_to_string (am_lifecycle c))
         (au_set_member_lifecycle (am_member_id c) (am_lifecycle c) a)
   | AkUpsertPath \<Rightarrow> told (''path '' @ pt_id (am_path c) @ '' upserted'') (au_upsert_path (am_path c) a)
   | AkRemovePath \<Rightarrow> told (''path '' @ am_path_id c @ '' removed'') (au_remove_path (am_path_id c) a)
   | AkSetPathState \<Rightarrow>
       told (''path '' @ am_path_id c @ '' is now '' @ path_state_to_string (am_path_state c))
         (au_set_path_state (am_path_id c) (am_path_state c) a)
   | AkUpsertExclusion \<Rightarrow>
       told (''exclusion '' @ ex_id (am_exclusion c) @ '' upserted'') (au_upsert_exclusion (am_exclusion c) a)
   | AkRemoveExclusion \<Rightarrow>
       told (''exclusion '' @ am_exclusion_id c @ '' removed'') (au_remove_exclusion (am_exclusion_id c) a)
   | AkUpsertObligation \<Rightarrow>
       told (''obligation '' @ ob_id (am_obligation c) @ '' upserted'') (au_upsert_obligation (am_obligation c) a)
   | AkRemoveObligation \<Rightarrow>
       told (''obligation '' @ am_obligation_id c @ '' removed'') (au_remove_obligation (am_obligation_id c) a)
   | AkUpsertContract \<Rightarrow>
       told (''contract '' @ ct_id (am_contract c) @ '' upserted'') (au_upsert_contract (am_contract c) a)
   | AkRemoveContract \<Rightarrow>
       told (''contract '' @ am_contract_id c @ '' removed'') (au_remove_contract (am_contract_id c) a)
   | AkSetPolicy \<Rightarrow>
       told (''policy generation is now '' @ to_decimal (am_policy c)) (au_set_policy_generation (am_policy c) a)
   | AkAdvanceTick \<Rightarrow>
       if am_tick c < sp_tick (au_spec a) then
         (status_error ScStateMismatch ''the logical clock must not move backwards'', [], a)
       else told (''logical clock advanced to '' @ to_decimal (am_tick c))
              (cif_try (au_advance_tick (am_tick c) a) expire_leases)
   | AkFenceAll \<Rightarrow>
       told ''every live grant was fenced''
         (fence_all (am_fence_reason c) (if am_detail c = [] then ''administrative fence'' else am_detail c) a)
   | AkExpireLeases \<Rightarrow> told ''expired leases released'' (expire_leases a)
   | AkRevalidate \<Rightarrow> told ''live grants revalidated against current state'' (revalidate_live_grants a)
   | AkCompact \<Rightarrow> told ''compaction requested'' (maybe_compact a)
   | AkSelfCheck \<Rightarrow> told ''invariants hold'' (self_check a, a))"

section \<open>Dispatch\<close>

text \<open>
  A connection: what the reducer knows of the peer, the reply mailbox, and where its
  worker thread stands. \<open>cn_phase\<close> is the program counter of \<^verbatim>\<open>serve\<close>; the flag \<^verbatim>\<open>finished\<close>
  of the code is \<open>WorkerDone\<close>.
\<close>

datatype worker_phase = WorkerReceiving | WorkerAwaiting | WorkerDone

record connection =
  cn_client :: string
  cn_greeted :: bool
  cn_reply :: "wire_message option"
  cn_stop_requested :: bool
  cn_phase :: worker_phase

definition new_connection :: connection where
  "new_connection = \<lparr>cn_client = [], cn_greeted = False, cn_reply = None, cn_stop_requested = False,
     cn_phase = WorkerReceiving\<rparr>"

definition reply_with :: "message \<Rightarrow> wire_message" where
  "reply_with m = \<lparr>wm_body = m, wm_flags = 0, wm_sequence = 0\<rparr>"

definition hello_reply :: "string \<Rightarrow> authority \<Rightarrow> wire_message \<times> authority" where
  "hello_reply banner a =
     (case state_digest a of (d, a1) \<Rightarrow>
      (reply_with (MHelloAck \<lparr>ha_banner = banner, ha_cluster_id = sp_cluster_id (au_spec a),
         ha_cluster_generation = sp_generation (au_spec a), ha_epoch = sp_epoch (au_spec a),
         ha_policy = sp_policy_generation (au_spec a), ha_incarnation = sp_incarnation (au_spec a),
         ha_state_digest = d\<rparr>), a1))"

definition admin_outcome :: "admin_command \<Rightarrow> authority \<Rightarrow> status_code \<times> string \<times> authority" where
  "admin_outcome c a =
     (let shape = validate_admin_command c in
      if \<not> ok shape then (st_code shape, st_message shape, a)
      else if am_has_expectation c \<and> am_expect_generation c \<noteq> sp_generation (au_spec a) then
        (ScStateMismatch, ''expected cluster generation '' @ to_decimal (am_expect_generation c)
           @ '' but the controller is at '' @ to_decimal (sp_generation (au_spec a)), a)
      else case apply_admin c a of (st, detail, a1) \<Rightarrow>
        (st_code st, if ok st then detail else status_to_string st, a1))"

definition admin_reply :: "admin_command \<Rightarrow> authority \<Rightarrow> wire_message \<times> authority" where
  "admin_reply c a =
     (case admin_outcome c a of (code, message, a1) \<Rightarrow>
      case state_digest a1 of (d, a2) \<Rightarrow>
      (reply_with (MAdminResult \<lparr>ar_code = code, ar_message = message, ar_generation = sp_generation (au_spec a1),
         ar_epoch = sp_epoch (au_spec a1), ar_incarnation = sp_incarnation (au_spec a1), ar_state_digest = d\<rparr>), a2))"

text \<open>The text of a query, or why there is none.\<close>

definition shown :: "string \<Rightarrow> ('x \<Rightarrow> string) \<Rightarrow> 'x option \<Rightarrow> status_code \<times> string \<times> string" where
  "shown missing render x = (case x of None \<Rightarrow> (ScNotFound, missing, []) | Some y \<Rightarrow> (ScOk, [], render y))"

definition query_text :: "query_command \<Rightarrow> recovery_report \<Rightarrow> string \<Rightarrow> authority
    \<Rightarrow> (status_code \<times> string \<times> string) \<times> authority" where
  "query_text c report banner a = (case qc_kind c of
     QkVersion \<Rightarrow> ((ScOk, [], banner), a)
   | QkController \<Rightarrow> ((ScOk, [], render_controller (controller_identity_of a)), a)
   | QkState \<Rightarrow> (case render_state a of (s, a1) \<Rightarrow> ((ScOk, [], s), a1))
   | QkAudit \<Rightarrow> ((ScOk, [], render_audit a), a)
   | QkRecovery \<Rightarrow> ((ScOk, [], render_recovery report), a)
   | QkVerify \<Rightarrow>
       (let checked = self_check a in
        if ok checked then ((ScOk, [], ''OK invariants hold'' @ newline), a)
        else ((st_code checked, st_message checked, ''VIOLATION '' @ status_to_string checked @ newline), a))
   | QkMember \<Rightarrow> (shown (''member '' @ qc_member_id c @ '' is not declared'') render_member
                   (find_member (au_spec a) (qc_member_id c)), a)
   | QkPath \<Rightarrow> (shown (''path '' @ qc_path_id c @ '' is not declared'') render_path
                 (find_path (au_spec a) (qc_path_id c)), a)
   | QkGrant \<Rightarrow> (shown (''grant '' @ qc_grant_id c @ '' is not present'') render_grant
                  (find_grant a (qc_grant_id c)), a)
   | QkAttempt \<Rightarrow> (shown (''attempt '' @ qc_attempt_id c @ '' is not present'') render_attempt
                    (find_attempt a (qc_attempt_id c)), a)
   | QkNone \<Rightarrow> ((ScInvalidArgument, ''query kind is not set'', []), a))"

definition query_reply :: "query_command \<Rightarrow> recovery_report \<Rightarrow> string \<Rightarrow> authority \<Rightarrow> wire_message \<times> authority" where
  "query_reply c report banner a =
     (let shape = validate_query_command c in
      if \<not> ok shape then
        (reply_with (MQueryResult (empty_query_result\<lparr>qr_code := st_code shape, qr_message := st_message shape\<rparr>)), a)
      else
        case read_digest ReadState a of (state_d, a1) \<Rightarrow>
        case read_digest ReadSpec a1 of (spec_d, a2) \<Rightarrow>
        case read_digest ReadTopology a2 of (topology_d, a3) \<Rightarrow>
        case query_text c report banner a3 of ((code, message, t), a4) \<Rightarrow>
        (reply_with (MQueryResult \<lparr>qr_code = code, qr_message = message, qr_text = t,
           qr_cluster_id = sp_cluster_id (au_spec a), qr_generation = sp_generation (au_spec a),
           qr_epoch = sp_epoch (au_spec a), qr_policy = sp_policy_generation (au_spec a),
           qr_incarnation = sp_incarnation (au_spec a), qr_state_digest = state_d,
           qr_spec_digest = spec_d, qr_topology_digest = topology_d\<rparr>), a4))"

text \<open>\<open>conn\<close> is \<open>None\<close> for a request from the hosting process.\<close>

definition decided :: "decision \<times> authority \<Rightarrow> wire_message \<times> authority" where
  "decided r = (case r of (d, a) \<Rightarrow> (reply_with (MDecision d), a))"

definition governed :: "recovery_report \<Rightarrow> string \<Rightarrow> message \<Rightarrow> authority \<Rightarrow> wire_message \<times> authority" where
  "governed report banner m a = (case m of
     MSubmit q \<Rightarrow> decided (submit q a)
   | MRelease q \<Rightarrow> decided (release q a)
   | MResolve q \<Rightarrow> decided (resolve q a)
   | MAcknowledge q \<Rightarrow> decided (acknowledge q a)
   | MCancel q \<Rightarrow> decided (cancel q a)
   | MAdmin c \<Rightarrow> admin_reply c a
   | MQuery c \<Rightarrow> query_reply c report banner a
   | _ \<Rightarrow> (make_error_message ''PROTOCOL'' (''clients must not send '' @ message_type_to_string (type_of_message m)), a))"

definition dispatch :: "string \<Rightarrow> bool \<Rightarrow> recovery_report \<Rightarrow> connection option \<Rightarrow> message \<Rightarrow> authority
    \<Rightarrow> wire_message \<times> connection option \<times> authority" where
  "dispatch banner require_hello report conn m a = (case m of
     MHello peer client \<Rightarrow>
       (case conn of
          None \<Rightarrow> (make_error_message ''PROTOCOL'' ''an in-process request cannot perform a handshake'', conn, a)
        | Some c \<Rightarrow>
            if peer \<noteq> banner then
              (make_error_message ''VERSION_MISMATCH''
                (''peer banner '' @ [CHR 0x27] @ sanitise_for_display peer 96 @ [CHR 0x27] @ '' does not match ''
                 @ [CHR 0x27] @ banner @ [CHR 0x27]), conn, a)
            else case hello_reply banner a of (r, a1) \<Rightarrow>
              (r, Some (c\<lparr>cn_client := client, cn_greeted := True\<rparr>), a1))
   | MPing \<Rightarrow> (reply_with MPong, conn, a)
   | MBye \<Rightarrow> (reply_with MBye, conn, a)
   | _ \<Rightarrow>
       if (case conn of None \<Rightarrow> False | Some c \<Rightarrow> require_hello \<and> \<not> cn_greeted c) then
         (make_error_message ''PROTOCOL'' ''the first message on a connection must be HELLO'', conn, a)
       else case governed report banner m a of (r, a1) \<Rightarrow> (r, conn, a1))"

section \<open>What a message does to the controller\<close>

text \<open>The controller is led on by events that are no submissions.\<close>

definition led :: "authority \<Rightarrow> authority \<Rightarrow> bool" where
  "led a a' = (\<exists>es. a' = fold apply_event es a \<and> (\<forall>q. EvSubmit q \<notin> set es))"

lemma led_refl [simp]: "led a a"
  unfolding led_def by (rule exI [of _ "[]"]) simp

lemma led_trans:
  assumes "led a b" "led b c"
  shows "led a c"
proof -
  obtain es fs where "b = fold apply_event es a" "c = fold apply_event fs b"
    "\<forall>q. EvSubmit q \<notin> set es" "\<forall>q. EvSubmit q \<notin> set fs"
    using assms by (auto simp: led_def)
  then show ?thesis unfolding led_def by (intro exI [of _ "es @ fs"]) simp
qed

lemma led_event: "(\<And>q. e \<noteq> EvSubmit q) \<Longrightarrow> led a (apply_event e a)"
  unfolding led_def by (rule exI [of _ "[e]"]) auto

lemmas led_events = led_event [of "EvRelease q" for q, simplified] led_event [of "EvResolve q" for q, simplified]
  led_event [of "EvAcknowledge q" for q, simplified] led_event [of "EvCancel q" for q, simplified]
  led_event [of "EvAdvanceTick t" for t, simplified] led_event [of EvExpireLeases, simplified]
  led_event [of "EvFenceAll c d" for c d, simplified] led_event [of "EvUpsertMember m" for m, simplified]
  led_event [of "EvRemoveMember i" for i, simplified] led_event [of "EvMemberLifecycle i l" for i l, simplified]
  led_event [of "EvUpsertPath m" for m, simplified] led_event [of "EvRemovePath i" for i, simplified]
  led_event [of "EvPathState i l" for i l, simplified] led_event [of "EvUpsertExclusion m" for m, simplified]
  led_event [of "EvRemoveExclusion i" for i, simplified] led_event [of "EvUpsertObligation m" for m, simplified]
  led_event [of "EvRemoveObligation i" for i, simplified] led_event [of "EvUpsertContract m" for m, simplified]
  led_event [of "EvRemoveContract i" for i, simplified] led_event [of "EvPolicyGeneration n" for n, simplified]
  led_event [of EvCompact, simplified] led_event [of EvRevalidate, simplified]

lemma led_read: "read_digest r a = (d, a1) \<Longrightarrow> led a a1"
  using led_event [of "EvRead r" a] by simp

lemma led_told: "led a (snd m) \<Longrightarrow> led a (snd (snd (told detail m)))"
  by (cases m) (simp add: told_def)

lemma led_try: "led a (snd m) \<Longrightarrow> (\<And>b. led b (snd (k b))) \<Longrightarrow> led a (snd (cif_try m k))"
  by (cases m) (auto simp: cif_try_def intro: led_trans)

lemma led_apply_admin: "led a (snd (snd (apply_admin c a)))"
  by (cases "am_kind c") (simp_all add: apply_admin_def led_told led_events led_try)

lemma led_admin: "led a (snd (admin_reply c a))"
proof -
  obtain code m a1 where o: "admin_outcome c a = (code, m, a1)" by (metis prod_cases3)
  obtain d a2 where d: "state_digest a1 = (d, a2)" by fastforce
  have "led a a1"
    using o led_apply_admin [of a c] by (auto simp: admin_outcome_def Let_def split: if_splits prod.splits)
  moreover have "led a1 a2" using led_read [of ReadState] d by simp
  ultimately show ?thesis using led_trans o d by (simp add: admin_reply_def)
qed

lemma with_digests_reads:
  "with_digests a = (ds, a') \<Longrightarrow> led a a'"
proof -
  assume w: "with_digests a = (ds, a')"
  obtain sd a1 where r1: "read_digest ReadSpec a = (sd, a1)" by fastforce
  obtain td a2 where r2: "read_digest ReadTopology a1 = (td, a2)" by fastforce
  obtain cd a3 where r3: "read_digest ReadContracts a2 = (cd, a3)" by fastforce
  obtain ad a4 where r4: "read_digest ReadState a3 = (ad, a4)" by fastforce
  have "a' = a4" using w r1 r2 r3 r4 by (auto simp: with_digests_def split: prod.splits)
  then show ?thesis using led_trans led_read [OF r1] led_read [OF r2] led_read [OF r3] led_read [OF r4] by blast
qed

lemma led_query_text: "query_text c report banner a = (x, a') \<Longrightarrow> led a a'"
  using with_digests_reads [of a]
  by (cases "qc_kind c") (auto simp: query_text_def Let_def render_state_def split: prod.splits if_splits)

lemma led_query: "led a (snd (query_reply c report banner a))"
proof (cases "ok (validate_query_command c)")
  case True
  obtain sd a1 where r1: "read_digest ReadState a = (sd, a1)" by fastforce
  obtain td a2 where r2: "read_digest ReadSpec a1 = (td, a2)" by fastforce
  obtain cd a3 where r3: "read_digest ReadTopology a2 = (cd, a3)" by fastforce
  obtain code m t a4 where r4: "query_text c report banner a3 = ((code, m, t), a4)" by (metis prod_cases4 surj_pair)
  have "led a a4" using led_trans led_read [OF r1] led_read [OF r2] led_read [OF r3] led_query_text [OF r4] by blast
  then show ?thesis using True unfolding query_reply_def Let_def r1 r2 r3 r4 prod.case by simp
qed (simp add: query_reply_def Let_def)

lemma governed_events:
  "led a (snd (governed report banner m a)) \<or> (\<exists>q. m = MSubmit q \<and> snd (governed report banner m a) = snd (submit q a))"
  by (cases m) (simp_all add: governed_def decided_def led_events led_admin led_query split_beta)

text \<open>A message makes the controller handle events, at most one of them a submission.\<close>

lemma dispatch_events:
  assumes "dispatch banner require_hello report conn m a = (r, conn', a')"
  shows "led a a' \<or> (\<exists>q. m = MSubmit q \<and> a' = apply_event (EvSubmit q) a)"
proof -
  have hello: "led a (snd (hello_reply banner a))"
    using led_read [of ReadState a] by (cases "state_digest a") (simp add: hello_reply_def)
  obtain r1 a1 where g: "governed report banner m a = (r1, a1)" by fastforce
  have gov: "led a a1 \<or> (\<exists>q. m = MSubmit q \<and> a1 = snd (submit q a))"
    using governed_events [of a report banner m] g by simp
  show ?thesis
    using assms hello gov g unfolding dispatch_def by (cases m) (auto split: option.splits if_splits prod.splits)
qed

end
