(* ===== verification/Daemon.thy ===== *)
theory Daemon
  imports Server
begin

text \<open>
  The running daemon (\<^verbatim>\<open>src/server.cpp\<close>): its state, and one definition per step of its threads.
  The reducer owns the engine; connection workers and the hosting process only touch the
  queue and the mailboxes, each under one lock. An execution is a sequence of these steps
  in any order the program counters allow; the relation is \<open>daemon_step\<close>.
\<close>

section \<open>State\<close>

datatype work_item = FrameWork nat wire_frame | StopWork | LocalWork nat message

record server_stats =
  ss_connections_accepted :: u64
  ss_connections_rejected :: u64
  ss_connections_closed :: u64
  ss_frames_in :: u64
  ss_frames_out :: u64
  ss_protocol_errors :: u64
  ss_ingress_rejected :: u64
  ss_housekeeping_rounds :: u64
  ss_compactions :: u64

definition zero_stats :: server_stats where
  "zero_stats = \<lparr>ss_connections_accepted = 0, ss_connections_rejected = 0, ss_connections_closed = 0,
     ss_frames_in = 0, ss_frames_out = 0, ss_protocol_errors = 0, ss_ingress_rejected = 0,
     ss_housekeeping_rounds = 0, ss_compactions = 0\<rparr>"

text \<open>
  Where the reducer thread stands: not started or joined, in its blocking pop, in a batch with
  so many items done, or returned. \<open>sv_live\<close> is the vector of connections; the connection
  objects themselves stay reachable from queued items, so they live in a map by their id.
\<close>

datatype reducer_phase = ReducerAbsent | ReducerWaiting | ReducerBatch nat | ReducerDone

record server =
  sv_options :: server_options
  sv_running :: bool
  sv_stop :: bool
  sv_core :: "authority option"
  sv_journal :: "journal option"
  sv_recovery :: recovery_report
  sv_ingress :: "work_item queue"
  sv_reducer :: reducer_phase
  sv_connections :: "nat \<Rightarrow> connection option"
  sv_live :: "nat list"
  sv_next_id :: nat
  sv_answers :: "nat \<Rightarrow> wire_message option"
  sv_stats :: server_stats
  sv_protocol_errors :: u64

text \<open>The queue is built from the options as given; only then they are clamped.\<close>

definition new_server :: "server_options \<Rightarrow> server" where
  "new_server p = \<lparr>sv_options = clamp_server_options p, sv_running = False, sv_stop = False, sv_core = None,
     sv_journal = None, sv_recovery = empty_report, sv_ingress = queue_new (so_ingress_capacity p),
     sv_reducer = ReducerAbsent, sv_connections = (\<lambda>_. None), sv_live = [], sv_next_id = 1,
     sv_answers = (\<lambda>_. None), sv_stats = zero_stats, sv_protocol_errors = 0\<rparr>"

text \<open>
  The log object is shared: once the controller holds the journal sink, the log is the one in
  that sink, and until then it is as \<open>open_state\<close> left it.
\<close>

definition server_log :: "server \<Rightarrow> journal option" where
  "server_log sv = (case sv_core sv of
      Some a \<Rightarrow> (case au_sink a of JournalSink j \<Rightarrow> Some j | NullSink _ \<Rightarrow> sv_journal sv)
    | None \<Rightarrow> sv_journal sv)"

definition server_durable :: "server \<Rightarrow> bool" where
  "server_durable sv = (sv_journal sv \<noteq> None)"

section \<open>Opening the state\<close>

text \<open>
  The last part, with the log open as \<open>j\<close>: a log without a controller starts a fresh engine on the
  journal sink, any other is recovered. The recovered engine is not given the sink.
\<close>

definition take_rule :: "bytes \<Rightarrow> recovered_state \<Rightarrow> recovery_report \<Rightarrow> journal \<Rightarrow> server \<Rightarrow> status \<times> server" where
  "take_rule inc rc report j sv =
     (let p = sv_options sv; core = new_authority (so_authority p) in
      if \<not> rc_has_controller rc then
        (case initialize (so_cluster_id p) inc (so_policy p) 1 (Some (JournalSink j)) core of (st, a) \<Rightarrow>
         cif_try (st, sv\<lparr>sv_core := Some a\<rparr>) (\<lambda>sv.
         (success, sv\<lparr>sv_recovery := (sv_recovery sv)\<lparr>rr_fresh := True,
            rr_detail := (if rr_detail report = []
                          then ''journal contained no controller binding; state was initialised fresh''
                          else rr_detail report)\<rparr>\<rparr>)))
      else if so_cluster_id p \<noteq> [] \<and> so_cluster_id p \<noteq> sp_cluster_id (rc_spec rc) then
        (status_error ScStateMismatch
           (''journal belongs to cluster '' @ sp_cluster_id (rc_spec rc)
            @ '' but this daemon was told to rule '' @ so_cluster_id p), sv\<lparr>sv_core := Some core\<rparr>)
      else
        (case recover (rc_spec rc) (rc_contracts rc) (rc_grants rc) (rc_attempts rc) (rc_counters rc)
                report inc (if rc_tick rc = 0 then 1 else rc_tick rc + 1) core of (st, a) \<Rightarrow>
         (st, sv\<lparr>sv_core := Some a\<rparr>)))"

text \<open>
  \<open>inc\<close> is the fresh incarnation, \<open>log\<close> the journal file as it is found and \<open>io\<close> the outcomes of the
  file operations to come.
\<close>

definition open_state :: "bytes \<Rightarrow> bytes option \<Rightarrow> nat option list \<Rightarrow> server \<Rightarrow> status \<times> server" where
  "open_state inc log io sv =
     (let p = sv_options sv; sv0 = sv\<lparr>sv_recovery := empty_report\<rparr> in
      if so_journal_path p = [] then
        (case initialize (so_cluster_id p) inc (so_policy p) 1 None (new_authority (so_authority p)) of (st, a) \<Rightarrow>
         cif_try (st, sv0\<lparr>sv_core := Some a\<rparr>) (\<lambda>sv.
         (success, sv\<lparr>sv_recovery := (sv_recovery sv)\<lparr>rr_fresh := True,
            rr_detail := ''no journal configured: authority is in memory only and is not durable''\<rparr>\<rparr>)))
      else
        (case journal_scan log of (scanned, entries, report) \<Rightarrow>
         cif_try (scanned, sv0\<lparr>sv_recovery := report\<rparr>) (\<lambda>sv.
         case replay_journal entries of
           (replayed, None) \<Rightarrow> (replayed, sv)
         | (replayed, Some rc) \<Rightarrow>
             (case journal_open (rr_valid_bytes report) (rr_fresh report) (rr_last_chain report)
                     (rr_last_sequence report) ((fresh_journal io)\<lparr>j_file := log\<rparr>) of (opened, j) \<Rightarrow>
              cif_try (opened, sv\<lparr>sv_journal := Some j\<rparr>) (take_rule inc rc report j)))))"

text \<open>Starting: \<open>bound\<close> and \<open>ready\<close> are the outcomes of binding the listener and writing the ready file.\<close>

definition start :: "bytes \<Rightarrow> bytes option \<Rightarrow> nat option list \<Rightarrow> status \<Rightarrow> status \<Rightarrow> server \<Rightarrow> status \<times> server" where
  "start inc log io bound ready sv =
     (if sv_running sv then (status_error ScAlreadyExists ''server is already running'', sv)
      else
        cif_try (open_state inc log io (sv\<lparr>sv_stop := False, sv_ingress := queue_reset (sv_ingress sv)\<rparr>)) (\<lambda>sv.
        cif_try (bound, sv) (\<lambda>sv.
        cif_try (if so_ready_file (sv_options sv) = [] then success else ready, sv) (\<lambda>sv.
        (success, sv\<lparr>sv_running := True, sv_reducer := ReducerWaiting\<rparr>)))))"

section \<open>The reducer\<close>

definition on_connection :: "nat \<Rightarrow> (connection \<Rightarrow> connection) \<Rightarrow> server \<Rightarrow> server" where
  "on_connection i f sv = sv\<lparr>sv_connections := (sv_connections sv)(i := map_option f (sv_connections sv i))\<rparr>"

definition on_stats :: "(server_stats \<Rightarrow> server_stats) \<Rightarrow> server \<Rightarrow> server" where
  "on_stats f sv = sv\<lparr>sv_stats := f (sv_stats sv)\<rparr>"

definition count_protocol_error :: "server \<Rightarrow> server" where
  "count_protocol_error = on_stats (\<lambda>s. s\<lparr>ss_protocol_errors := ss_protocol_errors s + 1\<rparr>)"

definition deliver :: "nat \<Rightarrow> wire_message \<Rightarrow> server \<Rightarrow> server" where
  "deliver i m = on_connection i (\<lambda>c. c\<lparr>cn_reply := Some m\<rparr>)"

text \<open>
  One frame. The engine exists as long as the reducer runs, and a queued item always has its
  connection; without either there is nothing to do.
\<close>

definition process :: "string \<Rightarrow> nat \<Rightarrow> wire_frame \<Rightarrow> server \<Rightarrow> server" where
  "process banner i f sv = (case (sv_core sv, sv_connections sv i) of
     (Some a, Some c) \<Rightarrow>
       (case unpack_message f of
          Inl st \<Rightarrow>
            deliver i (make_error_message ''MALFORMED_FRAME'' (status_to_string st))
              (count_protocol_error (sv\<lparr>sv_protocol_errors := sv_protocol_errors sv + 1\<rparr>))
        | Inr m \<Rightarrow>
            (case dispatch banner (so_require_hello (sv_options sv)) (sv_recovery sv) (Some c) (wm_body m) a of
               (r, c', a') \<Rightarrow> deliver i (r\<lparr>wm_sequence := fr_sequence f\<rparr>)
                 (sv\<lparr>sv_core := Some a', sv_connections := (sv_connections sv)(i := c')\<rparr>)))
   | _ \<Rightarrow> sv)"

definition answer_local :: "string \<Rightarrow> nat \<Rightarrow> message \<Rightarrow> server \<Rightarrow> server" where
  "answer_local banner k m sv = (case sv_core sv of
     Some a \<Rightarrow>
       (case dispatch banner (so_require_hello (sv_options sv)) (sv_recovery sv) None m a of
          (r, _, a') \<Rightarrow> sv\<lparr>sv_core := Some a', sv_answers := (sv_answers sv)(k := Some r)\<rparr>)
   | None \<Rightarrow> sv)"

definition handle_item :: "string \<Rightarrow> work_item \<Rightarrow> server \<Rightarrow> server" where
  "handle_item banner item sv = (case item of
     FrameWork i f \<Rightarrow> process banner i f sv
   | LocalWork k m \<Rightarrow> answer_local banner k m sv
   | StopWork \<Rightarrow> sv)"

text \<open>The clock moves by one, elapsed leases end and a durable log may be compacted; failures are ignored.\<close>

definition housekeeping :: "server \<Rightarrow> server" where
  "housekeeping sv = (case sv_core sv of
     None \<Rightarrow> sv
   | Some a \<Rightarrow>
       if \<not> can_advance (sp_tick (au_spec a)) then sv
       else
         let a1 = snd (au_advance_tick (sp_tick (au_spec a) + 1) a);
             a2 = snd (expire_leases a1);
             a3 = (if op_durable (au_options a2) then snd (maybe_compact a2) else a2)
         in on_stats (\<lambda>s. s\<lparr>ss_housekeeping_rounds := ss_housekeeping_rounds s + 1\<rparr>) (sv\<lparr>sv_core := Some a3\<rparr>))"

text \<open>What the reducer does with the item it has just popped, after \<open>n\<close> others of the same batch.\<close>

definition take_item :: "string \<Rightarrow> nat \<Rightarrow> work_item \<Rightarrow> server \<Rightarrow> server" where
  "take_item banner n item sv =
     (if item = StopWork then sv\<lparr>sv_reducer := ReducerDone\<rparr>
      else (handle_item banner item sv)
        \<lparr>sv_reducer := (if n + 1 \<ge> so_max_batch (sv_options sv) then ReducerWaiting else ReducerBatch (n + 1))\<rparr>)"

text \<open>The next step of the reducer thread; \<open>None\<close> when it is blocked or there is no such thread.\<close>

definition reducer_step :: "string \<Rightarrow> server \<Rightarrow> server option" where
  "reducer_step banner sv = (case sv_reducer sv of
     ReducerWaiting \<Rightarrow>
       if so_housekeeping_period_millis (sv_options sv) > 0 then
         (case queue_pop_wait_for (sv_ingress sv) of
            (None, q) \<Rightarrow> Some (if q_closed q then sv\<lparr>sv_reducer := ReducerDone\<rparr> else housekeeping sv)
          | (Some item, q) \<Rightarrow> Some (take_item banner 0 item (sv\<lparr>sv_ingress := q\<rparr>)))
       else
         (case queue_pop_wait (sv_ingress sv) of
            None \<Rightarrow> None
          | Some (None, q) \<Rightarrow> Some (sv\<lparr>sv_reducer := ReducerDone\<rparr>)
          | Some (Some item, q) \<Rightarrow> Some (take_item banner 0 item (sv\<lparr>sv_ingress := q\<rparr>)))
   | ReducerBatch n \<Rightarrow>
       (case queue_try_pop (sv_ingress sv) of
          (None, q) \<Rightarrow> Some (sv\<lparr>sv_reducer := ReducerWaiting\<rparr>)
        | (Some item, q) \<Rightarrow> Some (take_item banner n item (sv\<lparr>sv_ingress := q\<rparr>)))
   | _ \<Rightarrow> None)"

section \<open>Connections\<close>

definition empty_frame :: wire_frame where
  "empty_frame = \<lparr>fr_type = MtInvalid, fr_flags = 0, fr_sequence = 0, fr_payload = []\<rparr>"

text \<open>The frame that goes out for an error message made up by the daemon; packing it is not checked.\<close>

definition refusal_frame :: "string \<Rightarrow> string \<Rightarrow> wire_frame" where
  "refusal_frame code m = (case pack_message (make_error_message code m) of Inl _ \<Rightarrow> empty_frame | Inr f \<Rightarrow> f)"

text \<open>The acceptor takes in a connection, or refuses it at the limit; the frames sent come first.\<close>

definition accept_connection :: "server \<Rightarrow> wire_frame list \<times> server" where
  "accept_connection sv =
     (let i = sv_next_id sv;
          sv1 = on_stats (\<lambda>s. s\<lparr>ss_connections_accepted := ss_connections_accepted s + 1\<rparr>) (sv\<lparr>sv_next_id := i + 1\<rparr>)
      in if length (sv_live sv) \<ge> so_max_connections (sv_options sv) then
           ([refusal_frame ''BACKPRESSURE'' ''connection limit reached; retry later''],
            on_stats (\<lambda>s. s\<lparr>ss_connections_rejected := ss_connections_rejected s + 1\<rparr>) sv1)
         else ([], sv1\<lparr>sv_connections := (sv_connections sv)(i := Some new_connection), sv_live := sv_live sv @ [i]\<rparr>))"

definition worker_done :: "server \<Rightarrow> nat \<Rightarrow> bool" where
  "worker_done sv i = (case sv_connections sv i of None \<Rightarrow> True | Some c \<Rightarrow> cn_phase c = WorkerDone)"

definition reap_finished :: "server \<Rightarrow> server" where
  "reap_finished sv =
     on_stats (\<lambda>s. s\<lparr>ss_connections_closed := ss_connections_closed s
                        + of_nat (length (filter (worker_done sv) (sv_live sv)))\<rparr>)
       (sv\<lparr>sv_live := filter (\<lambda>i. \<not> worker_done sv i) (sv_live sv)\<rparr>)"

text \<open>The worker of connection \<open>i\<close> has received a frame.\<close>

definition serve_frame :: "nat \<Rightarrow> wire_frame \<Rightarrow> server \<Rightarrow> wire_frame list \<times> server" where
  "serve_frame i f sv =
     (let sv1 = on_stats (\<lambda>s. s\<lparr>ss_frames_in := ss_frames_in s + 1\<rparr>) sv in
      case queue_push (FrameWork i f) (sv_ingress sv) of
        (True, q) \<Rightarrow> ([], on_connection i (\<lambda>c. c\<lparr>cn_phase := WorkerAwaiting\<rparr>) (sv1\<lparr>sv_ingress := q\<rparr>))
      | (False, q) \<Rightarrow>
          ([refusal_frame ''BACKPRESSURE'' ''ingress queue is full; retry later''],
           on_stats (\<lambda>s. s\<lparr>ss_ingress_rejected := ss_ingress_rejected s + 1\<rparr>) sv1))"

text \<open>Receiving has failed with the status \<open>st\<close>.\<close>

definition serve_failure :: "nat \<Rightarrow> status \<Rightarrow> server \<Rightarrow> server" where
  "serve_failure i st sv =
     (if st_code st = ScTimeout \<and> \<not> sv_stop sv then sv
      else on_connection i (\<lambda>c. c\<lparr>cn_phase := WorkerDone\<rparr>)
             (if \<not> sv_stop sv \<and> st_code st \<noteq> ScClosed then count_protocol_error sv else sv))"

text \<open>
  The worker wakes up: it has a reply to send (\<open>sent\<close> is the outcome), or it is told to stop.
  \<open>None\<close> when it keeps waiting.
\<close>

definition serve_reply :: "nat \<Rightarrow> status \<Rightarrow> server \<Rightarrow> (wire_frame list \<times> server) option" where
  "serve_reply i sent sv = (case sv_connections sv i of
     None \<Rightarrow> None
   | Some c \<Rightarrow>
       (case cn_reply c of
          None \<Rightarrow> if cn_stop_requested c then Some ([], on_connection i (\<lambda>c. c\<lparr>cn_phase := WorkerDone\<rparr>) sv) else None
        | Some r \<Rightarrow>
            let sv1 = on_connection i (\<lambda>c. c\<lparr>cn_reply := None\<rparr>) sv;
                finish = on_connection i (\<lambda>c. c\<lparr>cn_phase := WorkerDone\<rparr>) in
            Some (case pack_message r of
              Inl st \<Rightarrow> ([refusal_frame ''INTERNAL'' (''reply could not be encoded: '' @ status_to_string st)], finish sv1)
            | Inr out \<Rightarrow>
                if \<not> ok sent then ([out], finish sv1)
                else
                  let sv2 = on_stats (\<lambda>s. s\<lparr>ss_frames_out := ss_frames_out s + 1\<rparr>) sv1 in
                  ([out], if wm_body r = MBye \<or> sv_stop sv then finish sv2
                          else on_connection i (\<lambda>c. c\<lparr>cn_phase := WorkerReceiving\<rparr>) sv2))))"

section \<open>Requests of the hosting process\<close>

text \<open>\<open>k\<close> names the caller's mailbox. The request is queued, or refused at once with a status.\<close>

definition request_local :: "nat \<Rightarrow> message \<Rightarrow> server \<Rightarrow> status \<times> server" where
  "request_local k m sv =
     (if \<not> sv_running sv \<or> sv_core sv = None then (status_error ScClosed ''the authority is not running'', sv)
      else case queue_push (LocalWork k m) (sv_ingress sv) of
        (True, q) \<Rightarrow> (success, sv\<lparr>sv_ingress := q\<rparr>)
      | (False, q) \<Rightarrow> (status_error ScBackpressure ''the ingress queue is full'', sv))"

definition remote_error :: "string \<Rightarrow> string \<Rightarrow> status" where
  "remote_error code m = status_error ScRemoteError (code @ '': '' @ sanitise_for_display m 192)"

definition unexpected_reply :: "string \<Rightarrow> message \<Rightarrow> status" where
  "unexpected_reply wanted m =
     status_error ScCorruption (''expected '' @ wanted @ '', received '' @ message_type_to_string (type_of_message m))"

text \<open>What \<^verbatim>\<open>apply\<close> and \<^verbatim>\<open>inspect\<close> make of the reply.\<close>

definition local_admin_result :: "message \<Rightarrow> status + admin_result" where
  "local_admin_result m = (case m of
     MError code e \<Rightarrow> Inl (remote_error code e)
   | MAdminResult r \<Rightarrow> Inr r
   | _ \<Rightarrow> Inl (unexpected_reply ''ADMIN_RESULT'' m))"

definition local_query_result :: "message \<Rightarrow> status + query_result" where
  "local_query_result m = (case m of
     MError code e \<Rightarrow> Inl (remote_error code e)
   | MQueryResult r \<Rightarrow> Inr r
   | _ \<Rightarrow> Inl (unexpected_reply ''QUERY_RESULT'' m))"

section \<open>Shutdown\<close>

definition close_log :: "server \<Rightarrow> server" where
  "close_log sv =
     (case sv_core sv of
        Some a \<Rightarrow>
          (case au_sink a of
             JournalSink j \<Rightarrow> sv\<lparr>sv_core := Some (a\<lparr>au_sink := JournalSink (snd (journal_close j))\<rparr>)\<rparr>
           | NullSink _ \<Rightarrow> sv\<lparr>sv_journal := map_option (\<lambda>j. snd (journal_close j)) (sv_journal sv)\<rparr>)
      | None \<Rightarrow> sv\<lparr>sv_journal := map_option (\<lambda>j. snd (journal_close j)) (sv_journal sv)\<rparr>)"

text \<open>
  \<open>stop\<close> in its three stages. First the flags are set and every worker is told to stop; when all
  of them have returned, the connections are dropped and the stop item is pushed, whether or not
  the queue takes it; when the reducer has returned, the queue and the log are closed. A stop
  with nothing running only closes the log.
\<close>

definition stop_begin :: "server \<Rightarrow> server" where
  "stop_begin sv =
     (if \<not> sv_running sv \<and> sv_reducer sv = ReducerAbsent then close_log (sv\<lparr>sv_running := False\<rparr>)
      else fold (\<lambda>i. on_connection i (\<lambda>c. c\<lparr>cn_stop_requested := True\<rparr>)) (sv_live sv)
             (sv\<lparr>sv_running := False, sv_stop := True\<rparr>))"

definition stop_reducer :: "server \<Rightarrow> server" where
  "stop_reducer sv = sv\<lparr>sv_live := [], sv_ingress := snd (queue_push StopWork (sv_ingress sv))\<rparr>"

definition stop_finish :: "server \<Rightarrow> server" where
  "stop_finish sv = close_log (sv\<lparr>sv_reducer := ReducerAbsent, sv_ingress := queue_close (sv_ingress sv)\<rparr>)"

section \<open>Status\<close>

record server_status =
  us_running :: bool
  us_bind_host :: string
  us_port :: u16
  us_journal_path :: string
  us_durable :: bool
  us_active_connections :: nat
  us_ingest_depth :: nat
  us_recovery :: recovery_report
  us_stats :: server_stats

text \<open>\<open>port\<close> is what the listener reports.\<close>

definition server_status_of :: "u16 \<Rightarrow> server \<Rightarrow> server_status" where
  "server_status_of port sv =
     \<lparr>us_running = sv_running sv, us_bind_host = so_bind_host (sv_options sv), us_port = port,
      us_journal_path = so_journal_path (sv_options sv), us_durable = server_durable sv,
      us_active_connections = length (sv_live sv), us_ingest_depth = queue_size (sv_ingress sv),
      us_recovery = sv_recovery sv, us_stats = sv_stats sv\<rparr>"

section \<open>Executions\<close>

text \<open>
  Any thread takes its next step. A worker receives only while it is in its receive call and
  the daemon is not stopping, and answers only while it waits for its mailbox.
\<close>

inductive daemon_step :: "string \<Rightarrow> server \<Rightarrow> server \<Rightarrow> bool" for banner where
  step_reducer: "reducer_step banner sv = Some sv' \<Longrightarrow> daemon_step banner sv sv'"
| step_accept: "sv_running sv \<Longrightarrow> daemon_step banner sv (snd (accept_connection sv))"
| step_reap: "sv_running sv \<Longrightarrow> daemon_step banner sv (reap_finished sv)"
| step_frame: "sv_connections sv i = Some c \<Longrightarrow> cn_phase c = WorkerReceiving \<Longrightarrow> i \<in> set (sv_live sv)
    \<Longrightarrow> daemon_step banner sv (snd (serve_frame i f sv))"
| step_failure: "sv_connections sv i = Some c \<Longrightarrow> cn_phase c = WorkerReceiving \<Longrightarrow> i \<in> set (sv_live sv)
    \<Longrightarrow> daemon_step banner sv (serve_failure i st sv)"
| step_reply: "sv_connections sv i = Some c \<Longrightarrow> cn_phase c = WorkerAwaiting \<Longrightarrow>
    serve_reply i sent sv = Some (out, sv') \<Longrightarrow> daemon_step banner sv sv'"
| step_local: "daemon_step banner sv (snd (request_local k m sv))"
| step_stop: "daemon_step banner sv (stop_begin sv)"
| step_stop_reducer: "sv_stop sv \<Longrightarrow> \<forall>i\<in>set (sv_live sv). worker_done sv i \<Longrightarrow> daemon_step banner sv (stop_reducer sv)"
| step_stop_finish: "sv_stop sv \<Longrightarrow> sv_reducer sv = ReducerDone \<Longrightarrow> daemon_step banner sv (stop_finish sv)"

definition daemon_run :: "string \<Rightarrow> server \<Rightarrow> server \<Rightarrow> bool" where
  "daemon_run banner = (daemon_step banner)\<^sup>*\<^sup>*"

end
