(* ===== verification/Client.thy ===== *)
theory Client
  imports Daemon
begin

text \<open>
  The blocking client (\<^verbatim>\<open>include/cif/client.hpp\<close>, \<^verbatim>\<open>src/client.cpp\<close>): one connection, strict
  request and reply. The socket is what it will deliver (as for the frame channel), the outcomes of its
  other calls in order, and the bytes that went out; a call that is still waiting for bytes is \<open>None\<close>.
\<close>

section \<open>State\<close>

record client_options =
  ko_host :: string
  ko_port :: u16
  ko_timeout_millis :: nat
  ko_client :: string
  ko_skip_hello :: bool

definition default_client_options :: client_options where
  "default_client_options = \<lparr>ko_host = ''127.0.0.1'', ko_port = 0, ko_timeout_millis = 5000, ko_client = [],
     ko_skip_hello = False\<rparr>"

record server_identity =
  si_banner :: string
  si_cluster_id :: string
  si_generation :: u64
  si_epoch :: u64
  si_policy :: u64
  si_incarnation :: bytes
  si_state_digest :: bytes
  si_valid :: bool

definition no_identity :: server_identity where
  "no_identity = \<lparr>si_banner = [], si_cluster_id = [], si_generation = 0, si_epoch = 0, si_policy = 0,
     si_incarnation = zero_incarnation, si_state_digest = digest_zero, si_valid = False\<rparr>"

text \<open>
  The frame channel with the stream below it. \<open>lk_outcomes\<close> are the outcomes of the coming sends and
  option calls, success when the list is used up; \<open>lk_sent\<close> collects the bytes of the sends that succeeded.
\<close>

record link =
  lk_open :: bool
  lk_channel :: channel
  lk_arrivals :: "arrival list"
  lk_outcomes :: "status list"
  lk_sent :: bytes

definition closed_link :: link where
  "closed_link = \<lparr>lk_open = False, lk_channel = new_channel, lk_arrivals = [], lk_outcomes = [], lk_sent = []\<rparr>"

record client =
  kc_options :: client_options
  kc_link :: link
  kc_server :: server_identity
  kc_sequence :: u64

definition new_client :: client where
  "new_client = \<lparr>kc_options = default_client_options, kc_link = closed_link, kc_server = no_identity, kc_sequence = 0\<rparr>"

section \<open>The stream and the channel\<close>

definition stream_call :: "link \<Rightarrow> status \<times> link" where
  "stream_call l =
     (if \<not> lk_open l then (status_error ScClosed ''stream is not open'', l)
      else case lk_outcomes l of [] \<Rightarrow> (success, l) | st # sts \<Rightarrow> (st, l\<lparr>lk_outcomes := sts\<rparr>))"

definition stream_send_all :: "bytes \<Rightarrow> link \<Rightarrow> status \<times> link" where
  "stream_send_all bs l = cif_try (stream_call l) (\<lambda>l. (success, l\<lparr>lk_sent := lk_sent l @ bs\<rparr>))"

text \<open>Connecting gives the channel a new socket; its buffer stays as it is.\<close>

definition stream_connect :: "status \<Rightarrow> arrival list \<Rightarrow> status list \<Rightarrow> link \<Rightarrow> status \<times> link" where
  "stream_connect connected arrivals outcomes l =
     (let l = l\<lparr>lk_open := False\<rparr> in
      cif_try (connected, l) (\<lambda>l.
      (success, l\<lparr>lk_open := True, lk_arrivals := arrivals, lk_outcomes := outcomes, lk_sent := []\<rparr>)))"

definition stream_close :: "link \<Rightarrow> link" where
  "stream_close l = l\<lparr>lk_open := False\<rparr>"

definition channel_send :: "wire_frame \<Rightarrow> link \<Rightarrow> status \<times> link" where
  "channel_send f l = (case encode_frame f of Inl st \<Rightarrow> (st, l) | Inr bs \<Rightarrow> stream_send_all bs l)"

definition channel_receive :: "nat \<Rightarrow> link \<Rightarrow> (status + wire_frame) option \<times> link" where
  "channel_receive timeout l =
     (if lk_open l then
        (case receive_frame timeout (lk_arrivals l) (lk_channel l) of (r, as, ch) \<Rightarrow>
           (r, l\<lparr>lk_channel := ch, lk_arrivals := as\<rparr>))
      else
        (case receive_frame timeout [Failed (status_error ScClosed ''stream is not open'')] (lk_channel l) of (r, _, ch) \<Rightarrow>
           (r, l\<lparr>lk_channel := ch\<rparr>)))"

section \<open>Calls\<close>

text \<open>A call of the client: its result, unless it is still waiting, and the client.\<close>

type_synonym 'a call = "(status + 'a) option \<times> client"

definition call_bind :: "'a call \<Rightarrow> ('a \<Rightarrow> client \<Rightarrow> 'b call) \<Rightarrow> 'b call" where
  "call_bind m f = (case m of
     (None, k) \<Rightarrow> (None, k)
   | (Some (Inl st), k) \<Rightarrow> (Some (Inl st), k)
   | (Some (Inr x), k) \<Rightarrow> f x k)"

definition on_link :: "(link \<Rightarrow> status \<times> link) \<Rightarrow> client \<Rightarrow> unit call" where
  "on_link f k = (case f (kc_link k) of (st, l) \<Rightarrow>
     (Some (if ok st then Inr () else Inl st), k\<lparr>kc_link := l\<rparr>))"

definition client_send_frame :: "wire_frame \<Rightarrow> client \<Rightarrow> unit call" where
  "client_send_frame f = on_link (channel_send f)"

definition client_send_bytes :: "bytes \<Rightarrow> client \<Rightarrow> unit call" where
  "client_send_bytes bs = on_link (stream_send_all bs)"

definition client_receive_frame :: "client \<Rightarrow> wire_frame call" where
  "client_receive_frame k = (case channel_receive (ko_timeout_millis (kc_options k)) (kc_link k) of (r, l) \<Rightarrow>
     (r, k\<lparr>kc_link := l\<rparr>))"

definition exchange_frame :: "wire_frame \<Rightarrow> client \<Rightarrow> wire_frame call" where
  "exchange_frame f k = call_bind (client_send_frame f k) (\<lambda>_ k. client_receive_frame k)"

definition exchange :: "wire_message \<Rightarrow> client \<Rightarrow> wire_message call" where
  "exchange m k = (case pack_message m of
     Inl st \<Rightarrow> (Some (Inl st), k)
   | Inr f \<Rightarrow>
       let k1 = k\<lparr>kc_sequence := kc_sequence k + 1\<rparr> in
       call_bind (exchange_frame (f\<lparr>fr_sequence := kc_sequence k1\<rparr>) k1) (\<lambda>reply k. (Some (unpack_message reply), k)))"

text \<open>A request and what is made of the reply.\<close>

definition request_reply :: "message \<Rightarrow> (message \<Rightarrow> status + 'a) \<Rightarrow> client \<Rightarrow> 'a call" where
  "request_reply m read k = call_bind (exchange (reply_with m) k) (\<lambda>r k. (Some (read (wm_body r)), k))"

definition expect_decision :: "message \<Rightarrow> status + decision" where
  "expect_decision m = (case m of
     MError code e \<Rightarrow> Inl (remote_error code e)
   | MDecision d \<Rightarrow> Inr d
   | _ \<Rightarrow> Inl (unexpected_reply ''DECISION'' m))"

definition client_submit :: "authority_request \<Rightarrow> client \<Rightarrow> decision call" where
  "client_submit q = request_reply (MSubmit q) expect_decision"

definition client_release :: "release_request \<Rightarrow> client \<Rightarrow> decision call" where
  "client_release q = request_reply (MRelease q) expect_decision"

definition client_resolve :: "resolve_request \<Rightarrow> client \<Rightarrow> decision call" where
  "client_resolve q = request_reply (MResolve q) expect_decision"

definition client_acknowledge :: "acknowledge_request \<Rightarrow> client \<Rightarrow> decision call" where
  "client_acknowledge q = request_reply (MAcknowledge q) expect_decision"

definition client_cancel :: "cancel_request \<Rightarrow> client \<Rightarrow> decision call" where
  "client_cancel q = request_reply (MCancel q) expect_decision"

text \<open>The answers to commands and queries are read as by the daemon's own \<^verbatim>\<open>apply\<close> and \<^verbatim>\<open>inspect\<close>.\<close>

definition client_admin :: "admin_command \<Rightarrow> client \<Rightarrow> admin_result call" where
  "client_admin c = request_reply (MAdmin c) local_admin_result"

definition client_query :: "query_command \<Rightarrow> client \<Rightarrow> query_result call" where
  "client_query c = request_reply (MQuery c) local_query_result"

definition expect_pong :: "message \<Rightarrow> status + unit" where
  "expect_pong m = (if m = MPong then Inr () else Inl (unexpected_reply ''PONG'' m))"

definition client_ping :: "client \<Rightarrow> unit call" where
  "client_ping = request_reply MPing expect_pong"

text \<open>Saying goodbye closes the stream whatever came of the exchange.\<close>

definition client_bye :: "client \<Rightarrow> unit call" where
  "client_bye k = (case request_reply MBye (\<lambda>_. Inr ()) k of (r, k1) \<Rightarrow>
     (r, if r = None then k1 else k1\<lparr>kc_link := stream_close (kc_link k1)\<rparr>))"

section \<open>The handshake\<close>

definition identity_of :: "hello_ack \<Rightarrow> server_identity" where
  "identity_of h = \<lparr>si_banner = ha_banner h, si_cluster_id = ha_cluster_id h, si_generation = ha_cluster_generation h,
     si_epoch = ha_epoch h, si_policy = ha_policy h, si_incarnation = ha_incarnation h,
     si_state_digest = ha_state_digest h, si_valid = True\<rparr>"

definition expect_hello_ack :: "(string \<Rightarrow> string \<Rightarrow> status) \<Rightarrow> message \<Rightarrow> status + hello_ack" where
  "expect_hello_ack refused m = (case m of
     MError code e \<Rightarrow> Inl (refused code e)
   | MHelloAck h \<Rightarrow> Inr h
   | _ \<Rightarrow> Inl (unexpected_reply ''HELLO_ACK'' m))"

definition greet :: "string \<Rightarrow> (string \<Rightarrow> string \<Rightarrow> status) \<Rightarrow> client \<Rightarrow> unit call" where
  "greet banner refused k =
     call_bind (request_reply (MHello banner (ko_client (kc_options k))) (expect_hello_ack refused) k)
       (\<lambda>h k. (Some (Inr ()), k\<lparr>kc_server := identity_of h\<rparr>))"

definition client_refresh :: "string \<Rightarrow> client \<Rightarrow> unit call" where
  "client_refresh banner k =
     (if \<not> lk_open (kc_link k) then (Some (Inl (status_error ScClosed ''client is not connected'')), k)
      else greet banner remote_error k)"

definition name_client :: "client \<Rightarrow> client" where
  "name_client k =
     (if ko_client (kc_options k) = [] then
        k\<lparr>kc_sequence := kc_sequence k + 1,
          kc_options := (kc_options k)\<lparr>ko_client := ''cif-client-'' @ to_decimal (kc_sequence k + 1)\<rparr>\<rparr>
      else k)"

definition client_connect :: "string \<Rightarrow> client_options \<Rightarrow> status \<Rightarrow> arrival list \<Rightarrow> status list \<Rightarrow> client \<Rightarrow> unit call" where
  "client_connect banner p connected arrivals outcomes k =
     call_bind (on_link (stream_connect connected arrivals outcomes) (name_client (k\<lparr>kc_options := p\<rparr>))) (\<lambda>_ k.
     call_bind (on_link stream_call k) (\<lambda>_ k.
       let k1 = k\<lparr>kc_server := no_identity\<rparr> in
       if ko_skip_hello (kc_options k1) then (Some (Inr ()), k1)
       else greet banner
         (\<lambda>code m. status_error ScUnsupported (code @ '': '' @ sanitise_for_display m 192)) k1))"

definition client_close :: "client \<Rightarrow> status \<times> client" where
  "client_close k =
     (if \<not> lk_open (kc_link k) then (success, k)
      else (success, k\<lparr>kc_link := stream_close (kc_link k), kc_server := no_identity\<rparr>))"

end
