(* ===== verification/Written.thy ===== *)
theory Written
  imports Runs
begin

text \<open>
  What the controller ever writes: every event moves its sink only by appends and compactions,
  and each payload it hands over is one the recovery can adopt. The argument walks through
  the operations once, for any predicate on payloads that the ones written satisfy.
\<close>

section \<open>Sinks that were written to\<close>

inductive writes :: "(payload \<Rightarrow> bool) \<Rightarrow> sink \<Rightarrow> sink \<Rightarrow> bool" for P where
  nothing: "writes P s s"
| appended: "writes P s t \<Longrightarrow> P (je_payload e) \<Longrightarrow> sink_append e d t = (st, e', u) \<Longrightarrow> writes P s u"
| compacted: "writes P s t \<Longrightarrow> P (je_payload e) \<Longrightarrow> sink_compact e t = (st, u) \<Longrightarrow> writes P s u"

lemma writes_trans: "writes P t u \<Longrightarrow> writes P s t \<Longrightarrow> writes P s u"
  by (induction rule: writes.induct) (auto intro: writes.intros)

text \<open>The in-memory sink stays what it is: nothing it is told reaches a file.\<close>

definition in_memory :: "sink \<Rightarrow> bool" where
  "in_memory s = (case s of NullSink _ \<Rightarrow> True | JournalSink _ \<Rightarrow> False)"

lemma writes_in_memory: "writes P s t \<Longrightarrow> in_memory t = in_memory s"
proof (induction rule: writes.induct)
  case (appended s t e d st e' u)
  then show ?case by (cases t) (auto simp: in_memory_def split: prod.splits)
next
  case (compacted s t e st u)
  then show ?case by (cases t) (auto simp: in_memory_def split: prod.splits)
qed simp

section \<open>Payloads fit for recovery\<close>

definition mark_sane :: "grant_mark \<Rightarrow> bool" where
  "mark_sane m = (gm_grant_state m \<noteq> GsSuperseded \<and> (gm_grant_state m = GsPrepared \<longrightarrow> gr_commit (gm_grant m) = CsPrepared))"

primrec payload_sane :: "payload \<Rightarrow> bool" where
  "payload_sane JInvalid = True"
| "payload_sane (JSnapshot n) = recoverable (sn_spec n) (sn_contracts n) (sn_grants n) (sn_attempts n)"
| "payload_sane (JSetController c) = True"
| "payload_sane (JMemberUpsert m) = True"
| "payload_sane (JMemberRemove i) = True"
| "payload_sane (JMemberLifecycle i l) = True"
| "payload_sane (JPathUpsert p) = True"
| "payload_sane (JPathRemove i) = True"
| "payload_sane (JPathState i st) = True"
| "payload_sane (JExclusionUpsert x) = True"
| "payload_sane (JExclusionRemove i) = True"
| "payload_sane (JObligationUpsert x) = True"
| "payload_sane (JObligationRemove i) = True"
| "payload_sane (JContractUpsert c) = True"
| "payload_sane (JContractRemove i) = True"
| "payload_sane (JEpochBegin c) = True"
| "payload_sane (JPolicySet p) = True"
| "payload_sane JTickMark = True"
| "payload_sane (JGrantPrepared m) = mark_sane m"
| "payload_sane (JGrantCommitted m) = mark_sane m"
| "payload_sane (JGrantAcknowledged m) = mark_sane m"
| "payload_sane (JGrantReleased m) = mark_sane m"
| "payload_sane (JGrantTerminal m) = mark_sane m"
| "payload_sane (JAttemptTerminal t) = True"
| "payload_sane (JAttemptCancelled i n) = True"
| "payload_sane (JCountersSync c) = True"

lemma replay_mark_sane:
  "mark_sane m \<Longrightarrow> replayed_sane ((gm_grant m)\<lparr>gr_state := gm_grant_state m,
     gr_capacity_reserved := holds_capacity (gm_grant_state m)\<rparr>)"
  by (simp add: mark_sane_def replayed_sane_def)

section \<open>The walk through the operations\<close>

definition wr :: "authority \<Rightarrow> authority \<Rightarrow> bool" where
  "wr a a' = writes payload_sane (au_sink a) (au_sink a')"

lemma wr_sink: "au_sink a' = au_sink a \<Longrightarrow> wr a a'"
  by (simp add: wr_def writes.nothing)

lemma wr_refl [simp]: "wr a a"
  by (simp add: wr_sink)

lemma wr_core: "au_core a' = au_core a \<Longrightarrow> wr a a'"
  using au_core_eqD(4) [of a' a] by (simp add: wr_sink)

lemma wr_trans: "wr a b \<Longrightarrow> wr b c \<Longrightarrow> wr a c"
  using writes_trans by (simp add: wr_def)

lemma wr_entry:
  assumes "journal_entry p d a = (st, n, a')" "payload_sane p"
  shows "wr a a'"
proof -
  let ?e = "\<lparr>je_payload = p, je_sequence = 0, je_tick = sp_tick (au_spec a)\<rparr>"
  obtain e s where "sink_append ?e (d \<and> op_durable (au_options a)) (au_sink a) = (st, e, s)" "a' = a\<lparr>au_sink := s\<rparr>"
    using assms(1) by (auto simp: journal_entry_def split: prod.splits)
  then show ?thesis using writes.appended [OF writes.nothing, of payload_sane ?e] assms(2) by (auto simp: wr_def)
qed

lemma wr_put: "payload_sane p \<Longrightarrow> wr a (snd (journal_put p a))"
  using wr_entry [of p True a] by (auto simp: journal_put_def split: prod.split)

lemma wr_try: "wr a (snd m) \<Longrightarrow> (\<And>b. wr b (snd (k b))) \<Longrightarrow> wr a (snd (cif_try m k))"
  by (cases m) (auto simp: cif_try_def intro: wr_trans)

lemma wr_each: "(\<And>i b. wr b (snd (f i b))) \<Longrightarrow> wr a (snd (each_grant f is a))"
  by (induction "is" arbitrary: a) (auto intro!: wr_try)

lemma wr_updates [simp]:
  "wr a (b\<lparr>au_grants := gs\<rparr>) = wr a b" "wr a (b\<lparr>au_attempts := ts\<rparr>) = wr a b" "wr a (b\<lparr>au_counters := c\<rparr>) = wr a b"
  "wr a (b\<lparr>au_spec := sp\<rparr>) = wr a b" "wr a (b\<lparr>au_contracts := cs\<rparr>) = wr a b" "wr a (stale_digest b) = wr a b"
  "wr a (count_fence b) = wr a b" "wr a (set_grant i g b) = wr a b" "wr a (set_attempt i t b) = wr a b"
  "wr a (b\<lparr>au_state_digest_valid := v\<rparr>) = wr a b"
  by (simp_all add: wr_def stale_digest_def count_fence_def set_grant_def set_attempt_def)

lemma wr_upserts: "wr a (snd (upsert_grant g b)) = wr a b" "wr a (snd (upsert_attempt t b)) = wr a b"
  by (simp_all add: upsert_grant_def upsert_attempt_def Let_def)

lemma wr_answers [simp]: "wr a (snd (answer op rid aid out rs f b)) = wr a b" "wr a (snd (malformed_decision rid aid st b)) = wr a b"
  "wr a (snd (finalize_decision op d b)) = wr a b" "wr a (snd (refuse_submit q out rs b)) = wr a b"
  using au_core_eqD(4) [OF core_answer, of op rid aid out rs f b] au_core_eqD(4) [OF core_malformed_decision, of rid aid st b]
    au_core_eqD(4) [OF core_finalize, of op d b] au_core_eqD(4) [OF core_refuse_submit, of q out rs b]
  by (simp_all add: wr_def)

lemma wr_terminate:
  assumes "s \<noteq> GsSuperseded" "s \<noteq> GsPrepared"
  shows "wr a (snd (terminate_grant i s rc d r a))"
proof -
  let ?u = "ended_grant s rc d r (au_grants a ! i)"
  obtain st n a1 where j: "journal_entry (JGrantTerminal (grant_mark_of ?u s)) True a = (st, n, a1)" by (metis prod_cases3)
  have "wr a a1" by (rule wr_entry [OF j]) (use assms in \<open>simp add: mark_sane_def grant_mark_of_def\<close>)
  then show ?thesis by (simp add: terminate_grant_def Let_def j)
qed

lemma wr_fence_all: "wr a (snd (fence_all rc d a))"
  unfolding fence_all_def by (intro wr_try wr_each) (auto intro: wr_terminate)

lemma wr_expire: "wr a (snd (expire_leases a))"
proof -
  have "wr b (snd (expire_grant now i b))" for now i and b :: authority
    unfolding expire_grant_def Let_def
    by (auto intro!: wr_try wr_terminate wr_put simp: wr_upserts)
  then show ?thesis unfolding expire_leases_def by (intro wr_try wr_each) auto
qed

lemma wr_revalidate: "wr a (snd (revalidate_grant i True a))"
proof (cases "standing a (au_grants a ! i)")
  case (Inl x)
  then show ?thesis by (cases x) (simp add: revalidate_grant_def Let_def wr_terminate)
next
  case (Inr y)
  obtain s d k where y: "y = (s, d, k)" by (metis prod_cases3)
  show ?thesis
  proof (cases "degrade_for k [s, d] (au_grants a ! i)")
    case deg: (Inl x)
    then show ?thesis using Inr y by (cases x) (simp add: revalidate_grant_def Let_def wr_terminate del: degrade_for.simps)
  next
    case deg: (Inr u)
    let ?u = "reissued (au_spec a) u"
    obtain st n a1 where j: "journal_entry (JGrantCommitted (grant_mark_of ?u (gr_state ?u))) True a = (st, n, a1)"
      by (metis prod_cases3)
    have "wr a a1" by (rule wr_entry [OF j]) (simp add: mark_sane_def grant_mark_of_def reissued_def)
    then show ?thesis using Inr y deg j by (simp add: revalidate_grant_def Let_def del: degrade_for.simps)
  qed
qed

lemma wr_revalidate_live: "wr a (snd (revalidate_live_grants a))"
  unfolding revalidate_live_grants_def by (rule wr_each) (simp add: wr_revalidate)

lemma wr_change: "payload_sane p \<Longrightarrow> (\<And>b. wr b (snd (f b))) \<Longrightarrow> wr a (snd (journaled_change p f a))"
  unfolding journaled_change_def by (intro wr_try wr_put) auto

lemma wr_change_tables: "wr a (snd (change_spec f a))" "wr a (snd (change_contracts g a))"
  by (simp_all add: change_spec_def change_contracts_def split: prod.split)

lemma wr_mutations:
  "wr a (snd (au_upsert_member m a))" "wr a (snd (au_remove_member i a))" "wr a (snd (au_set_member_lifecycle i l a))"
  "wr a (snd (au_upsert_path p a))" "wr a (snd (au_remove_path i a))" "wr a (snd (au_set_path_state i s a))"
  "wr a (snd (au_upsert_exclusion x a))" "wr a (snd (au_remove_exclusion i a))"
  "wr a (snd (au_upsert_obligation b a))" "wr a (snd (au_remove_obligation i a))"
  "wr a (snd (au_upsert_contract c a))" "wr a (snd (au_remove_contract i a))"
  "wr a (snd (au_set_policy_generation n a))" "wr a (snd (au_advance_tick t a))"
  by (auto simp: journaled_changes au_set_policy_generation_def au_advance_tick_def
      intro!: wr_try wr_change wr_change_tables wr_revalidate_live)

lemma wr_release: "wr a (snd (release q a))"
proof (cases "release_target q a")
  case (Some i)
  obtain st b where t: "terminate_grant i GsReleased RcNone [] True a = (st, b)" by fastforce
  have b: "wr a b" using wr_terminate [of GsReleased a i RcNone "[]" True] by (simp add: t)
  obtain st2 c where r: "release_attempt (gr_attempt_id (au_grants a ! i)) b = (st2, c)" by fastforce
  have "wr b (snd (release_attempt k b))" for k
    unfolding release_attempt_def Let_def
    by (auto split: option.split intro: wr_trans [OF _ wr_put])
  then have "wr a c" using wr_trans [OF b] r by (metis snd_conv)
  then show ?thesis using b by (simp add: release_def Let_def Some t r)
qed (simp add: release_def Let_def)

lemma wr_resolve: "wr a (snd (resolve q a))"
  by (cases "find_attempt a (rv_attempt_id q)") (simp_all add: resolve_def Let_def)

lemma wr_confirm: "wr a (snd (confirm_grant q i a))"
proof -
  obtain st n b where j: "journal_entry (JGrantAcknowledged (grant_mark_of (au_grants a ! i) GsAcknowledged)) True a = (st, n, b)"
    by (metis prod_cases3)
  have "wr a b" by (rule wr_entry [OF j]) (simp add: mark_sane_def grant_mark_of_def)
  then show ?thesis by (simp add: confirm_grant_def Let_def j)
qed

lemma wr_acknowledge: "wr a (snd (acknowledge q a))"
proof (cases "mutable_grant a (ak_grant_id q)")
  case (Some i)
  obtain st b where r: "revalidate_grant i True a = (st, b)" by fastforce
  have "wr a b" using wr_revalidate [of a i] by (simp add: r)
  then have "wr a (snd (lift_quarantine q i a))"
    using wr_trans [OF _ wr_confirm] by (simp add: lift_quarantine_def Let_def r)
  then show ?thesis using wr_confirm [of a q i] by (simp add: acknowledge_def Let_def Some)
qed (simp add: acknowledge_def Let_def)

lemma wr_cancel: "wr a (snd (cancel q a))"
proof -
  have revoke: "wr a (snd (revoke_cancelled q g a))" for g
    by (simp add: revoke_cancelled_def wr_terminate split: option.split)
  have close: "wr b (snd (close_attempt q t b))" for t b
    unfolding close_attempt_def Let_def
    by (auto split: option.split intro!: wr_try wr_put)
  obtain s1 b where r: "revoke_cancelled q (cancel_grant q a) a = (s1, b)" by fastforce
  have b: "wr a b" using revoke [of "cancel_grant q a"] by (simp add: r)
  have c: "wr a (snd (close_attempt q t b))" for t by (rule wr_trans [OF b close])
  define s2 k where "s2 t = fst (close_attempt q t b)" and "k t = snd (close_attempt q t b)" for t
  then have k: "close_attempt q t b = (s2 t, k t)" for t by simp
  have kk: "wr a (k t)" for t using c [of t] by (simp add: k)
  show ?thesis by (simp add: cancel_def Let_def r k b kk)
qed

lemma wr_commit:
  assumes "commit_grant g d a = (st, dn, a')"
  shows "wr a a'"
proof -
  let ?g = "g\<lparr>gr_lease_issued := sp_tick (au_spec a), gr_state := GsPrepared, gr_commit := CsPrepared\<rparr>"
  obtain s1 n1 a1 where j1: "journal_entry (JGrantPrepared (grant_mark_of ?g GsPrepared)) True a = (s1, n1, a1)"
    by (metis prod_cases3)
  have 1: "wr a a1" by (rule wr_entry [OF j1]) (simp add: mark_sane_def grant_mark_of_def)
  let ?g1 = "?g\<lparr>gr_prepare_sequence := n1, gr_state := GsCommitted, gr_commit := CsCommitted\<rparr>"
  obtain s2 n2 a2 where j2: "journal_entry (JGrantCommitted (grant_mark_of ?g1 GsCommitted)) True a1 = (s2, n2, a2)"
    by (metis prod_cases3)
  have 2: "wr a a2" by (rule wr_trans [OF 1 wr_entry [OF j2]]) (simp add: mark_sane_def grant_mark_of_def)
  let ?run = "\<lambda>h t. cif_try (upsert_grant h a2) (\<lambda>a. cif_try (upsert_attempt t a) (journal_put (JAttemptTerminal t)))"
  have "wr a2 (snd (?run h t))" for h t
    by (intro wr_try wr_put) (simp_all add: wr_upserts)
  then have 3: "?run h t = (s3, a3) \<Longrightarrow> wr a a3" for h t s3 a3 using wr_trans [OF 2] by (metis snd_conv)
  show ?thesis using assms 1 2 unfolding commit_grant_def Let_def j1 j2 prod.case
    by (auto split: if_splits prod.splits dest: 3)
qed

lemma wr_renew: "wr a (snd (renew q k a))"
proof (cases "mutable_grant a (rq_renewal_of q)")
  case (Some i)
  let ?u = "renewed_grant a q (evaluate a q k)
    (if el_degradations (evaluate a q k) \<noteq> [] then OutDegraded else OutGranted) (au_grants a ! i)"
  obtain st n b where j: "journal_entry (JGrantCommitted (grant_mark_of ?u GsCommitted)) True a = (st, n, b)"
    by (metis prod_cases3)
  have "wr a b" by (rule wr_entry [OF j]) (simp add: mark_sane_def grant_mark_of_def)
  then show ?thesis by (simp add: renew_def Let_def Some j)
qed (simp add: renew_def Let_def)

lemma wr_issue: "wr a (snd (issue_grant q c r s d a))"
proof -
  obtain gid a1 where m1: "mint_grant_id a = (gid, a1)" by fastforce
  obtain lid a2 where m2: "mint_lease_id a1 = (lid, a2)" by fastforce
  have 2: "wr a a2" using m1 m2 by (auto simp: mint_grant_id_def mint_lease_id_def Let_def wr_def intro: writes.nothing)
  have c: "commit_grant g dn a2 = (st, dn', a3) \<Longrightarrow> wr a a3" for g dn st dn' a3
    by (rule wr_trans [OF 2 wr_commit])
  show ?thesis unfolding issue_grant_def Let_def m1 m2 prod.case
    by (auto simp: 2 c split: prod.split)
qed

lemma wr_submit: "wr a (snd (submit q a))"
proof -
  obtain dn a' where run: "submit q a = (dn, a')" by fastforce
  let ?a = "a\<lparr>au_request_digest := authority_request_digest q\<rparr>"
  have base: "wr a b" if "wr ?a b" for b using that by (simp add: wr_def)
  have "wr a a'" using run
  proof (cases rule: submit_cases)
    case turned_away
    then show ?thesis by (simp add: wr_core)
  next
    case (replayed t)
    then show ?thesis using wr_core [OF replay_effect(1)] by (metis snd_conv)
  next
    case (decided k)
    show ?thesis
    proof (cases "rq_renewal q")
      case True
      then have "(dn, a') = renew q k ?a" using decided(3) by simp
      then show ?thesis using base [OF wr_renew] by (metis snd_conv)
    next
      case False
      then have "a' = snd (decide_fresh q k ?a)" using decided(3) by (metis snd_conv)
      moreover have "wr ?a (snd (decide_fresh q k ?a))"
        unfolding decide_fresh_def Let_def by (simp add: wr_issue split: option.split)
      ultimately show ?thesis using base by simp
    qed
  qed
  then show ?thesis by (simp add: run)
qed

text \<open>A snapshot of a sound controller can be adopted.\<close>

lemma sane_replayed: "grant_sane g \<Longrightarrow> replayed_sane g"
  by (simp add: grant_sane_def replayed_sane_def)

lemma sound_recoverable:
  assumes "authority_inv a"
  shows "recoverable (au_spec a) (au_contracts a) (au_grants a) (au_attempts a)"
  using assms sane_replayed
  by (auto simp: recoverable_def authority_inv_def sorted_by_def strict_sorted_iff list_all_iff)

lemma wr_compact:
  assumes "authority_inv a"
  shows "wr a (snd (maybe_compact a))"
proof -
  obtain st s where c: "sink_compact (make_snapshot a) (au_sink a) = (st, s)" by fastforce
  have "payload_sane (je_payload (make_snapshot a))" using sound_recoverable [OF assms] by (simp add: make_snapshot_def)
  then have 1: "wr a (a\<lparr>au_sink := s\<rparr>)" using writes.compacted [OF writes.nothing _ c] by (simp add: wr_def)
  have 2: "wr b (snd (let a1 = b\<lparr>au_counters := c\<rparr> in case journal_entry (JCountersSync (au_counters a1)) False a1 of (st, _, a2) \<Rightarrow> (st, a2)))"
    for b c
  proof -
    let ?b = "b\<lparr>au_counters := c\<rparr>"
    obtain st n k where j: "journal_entry (JCountersSync (au_counters ?b)) False ?b = (st, n, k)" by (metis prod_cases3)
    have "wr ?b k" by (rule wr_entry [OF j]) simp
    then have "wr b k" by (simp add: wr_def)
    then show ?thesis by (simp only: Let_def j prod.case snd_conv)
  qed
  show ?thesis unfolding maybe_compact_def c prod.case if_distrib [of snd]
    using 1 wr_try [of a "(st, a\<lparr>au_sink := s\<rparr>)", OF _ 2] by auto
qed

lemma wr_plain_event: "e \<noteq> EvCompact \<Longrightarrow> wr a (apply_event e a)"
  by (cases e) (simp_all add: wr_submit wr_release wr_resolve wr_acknowledge wr_cancel wr_fence_all wr_expire
      wr_mutations wr_revalidate_live wr_core [OF core_read_digest])

lemma wr_event: "authority_inv a \<Longrightarrow> wr a (apply_event e a)"
  using wr_plain_event [of e a] wr_compact [of a] by (cases "e = EvCompact") simp_all

section \<open>Recovery\<close>

lemma wr_record_attempt: "wr a (record_attempt t a)"
  by (simp add: record_attempt_def wr_upserts wr_put)

lemma wr_recover_grant: "wr a (recover_grant i a)"
proof -
  have p: "wr a (recover_prepared i a)" for a
    unfolding recover_prepared_def Let_def
    by (rule wr_trans [OF _ wr_record_attempt]) (rule wr_trans [OF _ wr_terminate], simp_all)
  have u: "wr a (recover_unacknowledged i a)" for a
    unfolding recover_unacknowledged_def Let_def
    by (rule wr_trans [OF _ wr_record_attempt]) (rule wr_trans [OF _ wr_put], simp_all add: mark_sane_def grant_mark_of_def)
  show ?thesis by (simp add: recover_grant_def Let_def p u wr_revalidate)
qed

lemma wr_fold: "(\<And>x b. wr b (f x b)) \<Longrightarrow> wr a (fold f xs a)"
  by (induction xs arbitrary: a) (auto intro: wr_trans)

lemma wr_apply_recovery_policy: "wr a (apply_recovery_policy a)"
proof -
  have "wr b (reconcile_grant g b)" for g b by (simp add: reconcile_grant_def wr_record_attempt)
  then show ?thesis unfolding apply_recovery_policy_def reconcile_attempts_def
    by (intro wr_trans [OF _ wr_fold]) (simp_all add: wr_fold wr_recover_grant)
qed

lemma wr_adopt: "wr a (b\<lparr>au_audit := x\<rparr>) = wr a b" "wr a (adopt sp cs gs ts co rep b) = wr a b" "wr a (adopt_serials b) = wr a b"
  by (simp_all add: wr_def adopt_def adopt_serials_def Let_def)

lemma wr_recover: "wr a (snd (recover sp cs gs ts co rep inc t a))"
proof -
  let ?a2 = "\<lambda>s. (adopt_serials (adopt sp cs gs ts co rep a))\<lparr>au_spec := s\<rparr>"
  have end_ok: "wr b ((apply_recovery_policy b)\<lparr>au_initialized := i\<rparr>)" for b i
    using wr_apply_recovery_policy [of b] by (simp add: wr_def)
  have rest: "wr b (snd (cif_try (journal_put (JEpochBegin ((au_mark b)\<lparr>cm_incarnation := inc\<rparr>)) b) (\<lambda>a.
           (success, (apply_recovery_policy a)\<lparr>au_initialized := True, au_state_digest_valid := False\<rparr>))))" for b
    by (rule wr_try) (simp_all add: wr_put end_ok)
  have base: "wr a (?a2 s)" for s by (simp add: wr_adopt)
  have "wr a (snd (cif_try (change_spec (\<lambda>s. begin_epoch inc (sp_policy_generation s) s) (?a2 s)) (\<lambda>a.
           cif_try (journal_put (JEpochBegin ((au_mark a)\<lparr>cm_incarnation := inc\<rparr>)) a) (\<lambda>a.
           (success, (apply_recovery_policy a)\<lparr>au_initialized := True, au_state_digest_valid := False\<rparr>)))))" for s
    by (rule wr_try [OF wr_trans [OF base wr_change_tables(1)] rest])
  then show ?thesis unfolding recover_def Let_def by (auto simp: wr_adopt)
qed

end
