(* ===== verification/Replay_Inv.thy ===== *)
theory Replay_Inv
  imports Written
begin

text \<open>
  What a replay hands to the recovery: as long as the records are ones the controller writes
  (\<open>payload_sane\<close>), the tables that come out of any log satisfy what \<open>recover\<close> relies on.
\<close>

definition tables_fit :: "recovered_state \<Rightarrow> bool" where
  "tables_fit s = (contracts_wf (rc_contracts s)
     \<and> sorted_by gr_grant_id (rc_grants s) \<and> length (rc_grants s) \<le> kMaxGrants \<and> list_all replayed_sane (rc_grants s)
     \<and> sorted_by at_attempt_id (rc_attempts s) \<and> length (rc_attempts s) \<le> kMaxAttempts)"

definition replayed_fit :: "recovered_state \<Rightarrow> bool" where
  "replayed_fit s = (spec_wf (rc_spec s) \<and> tables_fit s)"

lemma fit_simps [simp]:
  "tables_fit (s\<lparr>rc_counters := c\<rparr>) = tables_fit s" "tables_fit (s\<lparr>rc_has_controller := b\<rparr>) = tables_fit s"
  "tables_fit (s\<lparr>rc_tick := t\<rparr>) = tables_fit s" "tables_fit (s\<lparr>rc_spec := sp\<rparr>) = tables_fit s"
  by (simp_all add: tables_fit_def)

lemma fit_empty: "replayed_fit empty_recovered"
  by (simp add: replayed_fit_def tables_fit_def empty_recovered_def spec_wf_empty contracts_wf_empty)

lemma fit_on_spec:
  assumes "replayed_fit s" "\<And>sp. spec_wf sp \<Longrightarrow> spec_wf (snd (f sp))"
  shows "replayed_fit (snd (on_spec f s))"
  using assms by (auto simp: on_spec_def replayed_fit_def split: prod.splits) (metis snd_conv)

lemma fit_on_contracts:
  assumes "replayed_fit s" "\<And>cs. contracts_wf cs \<Longrightarrow> contracts_wf (snd (f cs))"
  shows "replayed_fit (snd (on_contracts f s))"
  using assms by (auto simp: on_contracts_def replayed_fit_def tables_fit_def split: prod.splits) (metis snd_conv)

lemma fit_upsert_grant:
  assumes "replayed_fit s" "replayed_sane g"
  shows "replayed_fit (snd (replay_upsert_grant g s))"
proof (cases "present_at gr_grant_id (rc_grants s) (gr_grant_id g) (lower_bound_index gr_grant_id (rc_grants s) (gr_grant_id g))")
  case True
  then show ?thesis using assms list_all_put [of gr_grant_id "rc_grants s" replayed_sane g]
    by (simp add: replay_upsert_grant_def Let_def replace_is_put replayed_fit_def tables_fit_def sorted_table_put length_put_replace)
next
  case False
  then show ?thesis using assms list_all_put [of gr_grant_id "rc_grants s" replayed_sane g]
    by (simp add: replay_upsert_grant_def Let_def insert_is_put replayed_fit_def tables_fit_def sorted_table_put length_put_insert)
qed

lemma fit_upsert_attempt:
  assumes "replayed_fit s"
  shows "replayed_fit (snd (replay_upsert_attempt t s))"
proof (cases "present_at at_attempt_id (rc_attempts s) (at_attempt_id t) (lower_bound_index at_attempt_id (rc_attempts s) (at_attempt_id t))")
  case True
  then show ?thesis using assms
    by (simp add: replay_upsert_attempt_def Let_def replace_is_put replayed_fit_def tables_fit_def sorted_table_put length_put_replace)
next
  case False
  then show ?thesis using assms
    by (simp add: replay_upsert_attempt_def Let_def insert_is_put replayed_fit_def tables_fit_def sorted_table_put length_put_insert)
qed

lemma fit_mark: "replayed_fit s \<Longrightarrow> mark_sane m \<Longrightarrow> replayed_fit (snd (replay_grant m s))"
  unfolding replay_grant_def by (intro fit_upsert_grant replay_mark_sane)

lemma begin_epoch_wf: "spec_wf sp \<Longrightarrow> spec_wf (snd (begin_epoch inc p sp))"
  by (simp add: begin_epoch_def)

lemma set_cluster_id_wf: "spec_wf sp \<Longrightarrow> spec_wf (snd (set_cluster_id i sp))"
  by (simp add: set_cluster_id_def)

lemma fit_payload:
  assumes "replayed_fit s" "payload_sane p"
  shows "replayed_fit (snd (replay_payload p t s))"
proof (cases p)
  case (JSnapshot n)
  have r: "recoverable (sn_spec n) (sn_contracts n) (sn_grants n) (sn_attempts n)"
    using assms(2) by (simp add: JSnapshot)
  have "sorted_by gr_grant_id (sort_key gr_grant_id (sn_grants n))"
    "sorted_by at_attempt_id (sort_key at_attempt_id (sn_attempts n))"
    using r unfolding recoverable_def by (simp_all add: sorted_by_sort_key)
  moreover have "list_all replayed_sane (sort_key gr_grant_id (sn_grants n))"
    using r unfolding recoverable_def list_all_iff by simp
  ultimately show ?thesis using r
    unfolding JSnapshot replay_payload.simps snd_conv replayed_fit_def tables_fit_def recoverable_def by simp
next
  case (JSetController c)
  obtain st s1 where o: "on_spec (set_cluster_id (cm_cluster_id c)) s = (st, s1)" by fastforce
  have "replayed_fit (snd (on_spec (set_cluster_id (cm_cluster_id c)) s))"
    by (rule fit_on_spec [OF assms(1)]) (rule set_cluster_id_wf)
  then have "replayed_fit s1" by (simp add: o)
  then show ?thesis using JSetController o
    by (simp add: cif_try_def replayed_fit_def set_tick_def restore_counters_def set_policy_generation_def
        set_incarnation_def)
next
  case (JAttemptCancelled i n)
  then show ?thesis using assms by (simp add: Let_def fit_upsert_attempt)
next
  case (JPolicySet x)
  then show ?thesis using assms by (simp add: replayed_fit_def set_policy_generation_def)
next
  case JTickMark
  then show ?thesis using assms by (simp add: replayed_fit_def set_tick_def)
next
  case (JMemberUpsert m)
  then show ?thesis using fit_on_spec [OF assms(1)] mutators_keep_wf by (simp only: replay_payload.simps)
next
  case (JMemberRemove i)
  then show ?thesis using fit_on_spec [OF assms(1)] mutators_keep_wf by (simp only: replay_payload.simps)
next
  case (JMemberLifecycle i l)
  then show ?thesis using fit_on_spec [OF assms(1)] mutators_keep_wf by (simp only: replay_payload.simps)
next
  case (JPathUpsert x)
  then show ?thesis using fit_on_spec [OF assms(1)] mutators_keep_wf by (simp only: replay_payload.simps)
next
  case (JPathRemove i)
  then show ?thesis using fit_on_spec [OF assms(1)] mutators_keep_wf by (simp only: replay_payload.simps)
next
  case (JPathState i x)
  then show ?thesis using fit_on_spec [OF assms(1)] mutators_keep_wf by (simp only: replay_payload.simps)
next
  case (JExclusionUpsert x)
  then show ?thesis using fit_on_spec [OF assms(1)] mutators_keep_wf by (simp only: replay_payload.simps)
next
  case (JExclusionRemove i)
  then show ?thesis using fit_on_spec [OF assms(1)] mutators_keep_wf by (simp only: replay_payload.simps)
next
  case (JObligationUpsert x)
  then show ?thesis using fit_on_spec [OF assms(1)] mutators_keep_wf by (simp only: replay_payload.simps)
next
  case (JObligationRemove i)
  then show ?thesis using fit_on_spec [OF assms(1)] mutators_keep_wf by (simp only: replay_payload.simps)
next
  case (JContractUpsert c)
  then show ?thesis using fit_on_contracts [OF assms(1)] contracts_upsert_wf contracts_remove_wf by (simp only: replay_payload.simps)
next
  case (JContractRemove i)
  then show ?thesis using fit_on_contracts [OF assms(1)] contracts_upsert_wf contracts_remove_wf by (simp only: replay_payload.simps)
next
  case (JEpochBegin c)
  then show ?thesis using fit_on_spec [OF assms(1) begin_epoch_wf] by (simp only: replay_payload.simps)
next
  case (JGrantPrepared m)
  then show ?thesis using assms fit_mark by simp
next
  case (JGrantCommitted m)
  then show ?thesis using assms fit_mark by simp
next
  case (JGrantAcknowledged m)
  then show ?thesis using assms fit_mark by simp
next
  case (JGrantReleased m)
  then show ?thesis using assms fit_mark by simp
next
  case (JGrantTerminal m)
  then show ?thesis using assms fit_mark by simp
next
  case (JAttemptTerminal x)
  then show ?thesis using fit_upsert_attempt [OF assms(1)] by simp
qed (use assms in \<open>simp_all add: replayed_fit_def\<close>)

lemma fit_loop:
  "replayed_fit s \<Longrightarrow> list_all (\<lambda>e. payload_sane (je_payload e)) es \<Longrightarrow> replayed_fit (snd (replay_loop es prev s))"
proof (induction es arbitrary: prev s)
  case (Cons e es)
  let ?s = "if je_tick e > rc_tick s then s\<lparr>rc_tick := je_tick e\<rparr> else s"
  obtain st s2 where p: "replay_payload (je_payload e) (je_tick e) ?s = (st, s2)" by fastforce
  have "replayed_fit s2" using fit_payload [of ?s "je_payload e" "je_tick e"] Cons.prems p
    by (simp add: replayed_fit_def)
  then show ?case using Cons.IH [of s2] Cons.prems p by (simp add: Let_def cif_try_def)
qed simp

lemma fit_recoverable:
  "replayed_fit s \<Longrightarrow> recoverable (rc_spec s) (rc_contracts s) (rc_grants s) (rc_attempts s)"
  by (auto simp: replayed_fit_def tables_fit_def recoverable_def sorted_by_def strict_sorted_iff)

lemma replay_recoverable:
  assumes "replay_journal es = (st, Some rc)" "list_all (\<lambda>e. payload_sane (je_payload e)) es"
  shows "recoverable (rc_spec rc) (rc_contracts rc) (rc_grants rc) (rc_attempts rc)"
proof -
  obtain st' s where l: "replay_loop es None empty_recovered = (st', s)" by fastforce
  have "replayed_fit s" using fit_loop [OF fit_empty assms(2), of None] by (simp add: l)
  then have "replayed_fit rc" using assms(1)
    by (auto simp: replay_journal_def l set_tick_def replayed_fit_def split: if_splits)
  then show ?thesis by (rule fit_recoverable)
qed

end
