(* ===== verification/Daemon_Inv.thy ===== *)
theory Daemon_Inv
  imports Daemon Replay_Inv
begin

text \<open>
  Invariants of the running daemon: what each step of its threads does to the engine, and the
  bookkeeping of requests and replies between the workers, the queue and the reducer.
\<close>

section \<open>The engine under the daemon\<close>

lemma untouched [simp]:
  "sv_core (on_connection i f sv) = sv_core sv" "sv_core (on_stats g sv) = sv_core sv"
  "sv_core (deliver i m sv) = sv_core sv" "sv_core (count_protocol_error sv) = sv_core sv"
  "sv_options (on_connection i f sv) = sv_options sv" "sv_options (on_stats g sv) = sv_options sv"
  "sv_options (deliver i m sv) = sv_options sv" "sv_options (count_protocol_error sv) = sv_options sv"
  "sv_ingress (on_connection i f sv) = sv_ingress sv" "sv_ingress (on_stats g sv) = sv_ingress sv"
  "sv_ingress (deliver i m sv) = sv_ingress sv" "sv_ingress (count_protocol_error sv) = sv_ingress sv"
  "sv_reducer (on_connection i f sv) = sv_reducer sv" "sv_reducer (on_stats g sv) = sv_reducer sv"
  "sv_reducer (deliver i m sv) = sv_reducer sv" "sv_reducer (count_protocol_error sv) = sv_reducer sv"
  "sv_live (on_connection i f sv) = sv_live sv" "sv_live (on_stats g sv) = sv_live sv"
  "sv_live (deliver i m sv) = sv_live sv" "sv_live (count_protocol_error sv) = sv_live sv"
  "sv_next_id (on_connection i f sv) = sv_next_id sv" "sv_next_id (on_stats g sv) = sv_next_id sv"
  "sv_next_id (deliver i m sv) = sv_next_id sv" "sv_next_id (count_protocol_error sv) = sv_next_id sv"
  "sv_connections (on_stats g sv) = sv_connections sv" "sv_connections (count_protocol_error sv) = sv_connections sv"
  "sv_connections (on_connection i f sv) = (sv_connections sv)(i := map_option f (sv_connections sv i))"
  "sv_connections (deliver i m sv) = (sv_connections sv)(i := map_option (\<lambda>c. c\<lparr>cn_reply := Some m\<rparr>) (sv_connections sv i))"
  "sv_journal (on_connection i f sv) = sv_journal sv" "sv_journal (on_stats g sv) = sv_journal sv"
  "sv_journal (deliver i m sv) = sv_journal sv" "sv_journal (count_protocol_error sv) = sv_journal sv"
  by (simp_all add: on_connection_def on_stats_def deliver_def count_protocol_error_def)

lemma untouched_fold [simp]:
  "sv_core (fold (\<lambda>i. on_connection i f) is sv) = sv_core sv"
  "sv_options (fold (\<lambda>i. on_connection i f) is sv) = sv_options sv"
  "sv_ingress (fold (\<lambda>i. on_connection i f) is sv) = sv_ingress sv"
  "sv_reducer (fold (\<lambda>i. on_connection i f) is sv) = sv_reducer sv"
  "sv_live (fold (\<lambda>i. on_connection i f) is sv) = sv_live sv"
  "sv_next_id (fold (\<lambda>i. on_connection i f) is sv) = sv_next_id sv"
  "sv_journal (fold (\<lambda>i. on_connection i f) is sv) = sv_journal sv"
  by (induction "is" arbitrary: sv) simp_all

text \<open>What one step may do to the engine: events, at most one of them a submission, or closing the log.\<close>

definition moved :: "authority \<Rightarrow> authority \<Rightarrow> bool" where
  "moved a a' = (led a a' \<or> (\<exists>q. a' = apply_event (EvSubmit q) a) \<or> (\<exists>j. au_sink a = JournalSink j
     \<and> a' = a\<lparr>au_sink := JournalSink (snd (journal_close j))\<rparr>))"

lemma moved_refl [simp]: "moved a a"
  by (simp add: moved_def)

lemma moved_dispatch: "dispatch banner h rep conn m a = (r, c', a') \<Longrightarrow> moved a a'"
  using dispatch_events by (fastforce simp: moved_def)

lemma handle_core:
  assumes "sv_core sv = Some a"
  shows "\<exists>a'. sv_core (handle_item banner item sv) = Some a' \<and> moved a a'"
proof (cases item)
  case (FrameWork i f)
  then show ?thesis using assms moved_dispatch [of banner "so_require_hello (sv_options sv)" "sv_recovery sv"]
    by (auto simp: handle_item_def process_def split: option.splits sum.splits prod.splits)
next
  case (LocalWork k m)
  then show ?thesis using assms moved_dispatch [of banner "so_require_hello (sv_options sv)" "sv_recovery sv"]
    by (auto simp: handle_item_def answer_local_def split: prod.splits)
qed (simp add: handle_item_def assms)

lemma take_core:
  assumes "sv_core sv = Some a"
  shows "\<exists>a'. sv_core (take_item banner n item sv) = Some a' \<and> moved a a'"
  using handle_core [OF assms, of banner item] assms by (simp add: take_item_def)

lemma housekeeping_core:
  assumes "sv_core sv = Some a"
  shows "\<exists>a'. sv_core (housekeeping sv) = Some a' \<and> moved a a'"
proof -
  let ?a1 = "snd (au_advance_tick (sp_tick (au_spec a) + 1) a)"
  let ?a2 = "snd (expire_leases ?a1)"
  have "led a ?a2" by (rule led_trans [OF led_events(5) led_events(6)])
  then have "led a ?a2" "led a (snd (maybe_compact ?a2))" using led_trans [OF _ led_events(21)] by simp_all
  then show ?thesis using assms by (auto simp: housekeeping_def Let_def moved_def)
qed

lemma reducer_core:
  assumes "reducer_step banner sv = Some sv'" "sv_core sv = Some a"
  shows "\<exists>a'. sv_core sv' = Some a' \<and> moved a a'"
proof -
  have t: "\<exists>a'. sv_core (take_item banner n item (sv\<lparr>sv_ingress := q\<rparr>)) = Some a' \<and> moved a a'" for n item q
    by (rule take_core) (simp add: assms(2))
  show ?thesis using assms t housekeeping_core [OF assms(2)]
    by (auto simp: reducer_step_def split: reducer_phase.splits if_splits prod.splits option.splits)
qed

lemma close_log_core: "sv_core sv = Some a \<Longrightarrow> \<exists>a'. sv_core (close_log sv) = Some a' \<and> moved a a'"
  by (auto simp: close_log_def moved_def split: sink.split)

lemma step_core:
  assumes "daemon_step banner sv sv'" "sv_core sv = Some a"
  shows "\<exists>a'. sv_core sv' = Some a' \<and> moved a a'"
  using assms
proof (cases rule: daemon_step.cases)
  case step_reducer
  then show ?thesis using reducer_core assms(2) by blast
next
  case (step_reply i c sent out)
  then show ?thesis using assms(2) by (auto simp: serve_reply_def Let_def split: option.splits sum.splits if_splits)
next
  case step_stop
  then show ?thesis using assms(2) close_log_core [of "sv\<lparr>sv_running := False\<rparr>" a] by (auto simp: stop_begin_def)
next
  case step_stop_finish
  then show ?thesis using close_log_core [of "sv\<lparr>sv_reducer := ReducerAbsent, sv_ingress := queue_close (sv_ingress sv)\<rparr>" a] assms(2)
    by (simp add: stop_finish_def)
qed (use assms(2) in \<open>auto simp: accept_connection_def reap_finished_def serve_frame_def serve_failure_def request_local_def
      stop_reducer_def Let_def split: prod.splits bool.splits if_splits\<close>)

text \<open>What moves the engine keeps its invariant and the history, and uses up at most one grant serial.\<close>

lemma led_evolves: "led a a' \<Longrightarrow> evolves a a'"
proof -
  have "evolves a (fold apply_event es a)" if "\<forall>q. EvSubmit q \<notin> set es" for es
    using that
  proof (induction es arbitrary: a)
    case (Cons e es)
    have "evolves a (apply_event e a)" by (rule evolves_event) (use Cons.prems in auto)
    then show ?case using Cons evolves_trans by auto
  qed (simp add: evolves_core)
  then show "led a a' \<Longrightarrow> evolves a a'" by (auto simp: led_def)
qed

lemma evolves_sink: "evolves a (a\<lparr>au_sink := s\<rparr>)"
  by (rule evolves_updates(1))

lemma moved_history:
  assumes "moved a a'" "controller_inv a" "0 < serials_left a"
  shows "controller_inv a' \<and> history_kept a a' \<and> serials_left a \<le> Suc (serials_left a')"
proof -
  have calm: "controller_inv a' \<and> history_kept a a' \<and> serials_left a \<le> Suc (serials_left a')" if "evolves a a'"
    using evolves_history [OF that assms(2)] by (simp add: serials_left_def)
  show ?thesis
    using assms(1) unfolding moved_def
  proof (elim disjE exE conjE)
    fix q assume "a' = apply_event (EvSubmit q) a"
    then show ?thesis using event_history [OF assms(2), of "EvSubmit q", OF assms(3)] by (auto simp: serials_left_def)
  qed (use calm led_evolves evolves_sink in blast)+
qed

lemma steps_history:
  assumes "(daemon_step banner ^^ n) sv sv'" "sv_core sv = Some a" "controller_inv a" "n \<le> serials_left a"
  shows "\<exists>a'. sv_core sv' = Some a' \<and> controller_inv a' \<and> history_kept a a'"
  using assms
proof (induction n arbitrary: sv a)
  case 0
  then show ?case by (auto simp: history_kept_refl)
next
  case (Suc n)
  obtain sv1 where s: "daemon_step banner sv sv1" "(daemon_step banner ^^ n) sv1 sv'"
    using Suc.prems(1) by (metis relpowp_Suc_D2)
  obtain b where b: "sv_core sv1 = Some b" "moved a b" using step_core [OF s(1) Suc.prems(2)] by blast
  have h: "controller_inv b" "history_kept a b" "n \<le> serials_left b"
    using moved_history [OF b(2) Suc.prems(3)] Suc.prems(4) by auto
  from Suc.IH [OF s(2) b(1) h(1,3)] show ?case using history_kept_trans [OF h(2)] by blast
qed

section \<open>Starting\<close>

text \<open>A log with only records of the kinds the controller writes.\<close>

definition log_sane :: "bytes option \<Rightarrow> bool" where
  "log_sane log = (\<forall>st es r. journal_scan log = (st, es, r) \<longrightarrow> list_all (\<lambda>e. payload_sane (je_payload e)) es)"

lemma no_log_sane: "log_sane None"
  by (simp add: log_sane_def journal_scan_def)

lemma initialize_sound:
  "initialize cluster inc policy t s (new_authority p) = (success, a) \<Longrightarrow> controller_inv a \<and> au_options a = clamp_options p"
  using initialize_effect(1,3) [of cluster inc policy t s "new_authority p" a] by (simp add: new_authority_def)

text \<open>Both ways to start an engine answer with plain success or with an error.\<close>

definition plain :: "status \<times> 's \<Rightarrow> bool" where
  "plain m = (ok (fst m) \<longrightarrow> fst m = success)"

lemma plain_try: "(\<And>s. plain (k s)) \<Longrightarrow> plain (cif_try m k)"
  by (cases m) (simp add: plain_def cif_try_def)

lemma plain_if: "plain x \<Longrightarrow> plain y \<Longrightarrow> plain (if b then x else y)"
  by simp

lemma plain_ends: "c \<noteq> ScOk \<Longrightarrow> plain (status_error c m, s)" "plain (success, s)"
  by (simp_all add: plain_def)

lemma plain_initialize: "plain (initialize cluster inc policy t s a)"
  unfolding initialize_def Let_def by (intro plain_if plain_try plain_ends) simp

lemma plain_recover: "plain (recover sp cs gs ts co rep inc t a)"
  unfolding recover_def Let_def by (intro plain_if plain_try plain_ends) simp

lemma replay_None: "replay_journal es = (st, None) \<Longrightarrow> \<not> ok st"
  by (auto simp: replay_journal_def split: prod.splits if_splits)

lemma initialize_ok:
  assumes "initialize cluster inc policy t s (new_authority p) = (st, a)" "ok st"
  shows "controller_inv a \<and> au_options a = clamp_options p"
proof -
  have "st = success" using plain_initialize [of cluster inc policy t s "new_authority p"] assms by (simp add: plain_def)
  then show ?thesis using initialize_sound assms(1) by blast
qed

text \<open>A successful opening of a durable state, taken apart.\<close>

lemma open_state_durable:
  assumes "open_state inc log io sv = (st, sv')" "ok st" "so_journal_path (sv_options sv) \<noteq> []"
  obtains scanned entries report replayed rc opened j where
    "journal_scan log = (scanned, entries, report)" "ok scanned" "replay_journal entries = (replayed, Some rc)"
    "journal_open (rr_valid_bytes report) (rr_fresh report) (rr_last_chain report)
        (rr_last_sequence report) ((fresh_journal io)\<lparr>j_file := log\<rparr>) = (opened, j)" "ok opened"
    "take_rule inc rc report j (sv\<lparr>sv_recovery := report, sv_journal := Some j\<rparr>) = (st, sv')"
proof -
  obtain scanned entries report where s: "journal_scan log = (scanned, entries, report)" by (metis prod_cases3)
  obtain replayed rc' where r: "replay_journal entries = (replayed, rc')" by fastforce
  have ok_s: "ok scanned" using assms s by (cases "ok scanned") (auto simp: open_state_def Let_def)
  obtain rc where rc: "rc' = Some rc"
    using assms s r ok_s replay_None [of entries replayed] by (cases rc') (auto simp: open_state_def Let_def)
  obtain opened j where o: "journal_open (rr_valid_bytes report) (rr_fresh report) (rr_last_chain report)
      (rr_last_sequence report) ((fresh_journal io)\<lparr>j_file := log\<rparr>) = (opened, j)" by fastforce
  have ok_o: "ok opened" using assms s r rc o ok_s by (cases "ok opened") (auto simp: open_state_def Let_def)
  have "take_rule inc rc report j (sv\<lparr>sv_recovery := report, sv_journal := Some j\<rparr>) = (st, sv')"
    using assms s r rc o ok_s ok_o by (simp add: open_state_def Let_def)
  with that s ok_s r rc o ok_o show ?thesis by blast
qed

lemma take_rule_sound:
  assumes "take_rule inc rc report j sv = (st, sv')" "ok st"
    "recoverable (rc_spec rc) (rc_contracts rc) (rc_grants rc) (rc_attempts rc)"
  shows "\<exists>a. sv_core sv' = Some a \<and> controller_inv a \<and> au_options a = clamp_options (so_authority (sv_options sv))"
proof (cases "rc_has_controller rc")
  case False
  obtain st a where i: "initialize (so_cluster_id (sv_options sv)) inc (so_policy (sv_options sv)) 1 (Some (JournalSink j))
      (new_authority (so_authority (sv_options sv))) = (st, a)" by fastforce
  then show ?thesis using initialize_ok [OF i] assms(1,2) False by (cases "ok st") (auto simp: take_rule_def Let_def)
next
  case True
  obtain st1 a where i: "recover (rc_spec rc) (rc_contracts rc) (rc_grants rc) (rc_attempts rc) (rc_counters rc)
      report inc (if rc_tick rc = 0 then 1 else rc_tick rc + 1) (new_authority (so_authority (sv_options sv))) = (st1, a)"
    by fastforce
  have st: "st1 = st" "sv_core sv' = Some a"
    using assms(1,2) True i by (auto simp: take_rule_def Let_def split: if_splits)
  have "st1 = success" using plain_recover i st(1) assms(2) by (metis plain_def fst_conv)
  from recover_effect(1,2) [OF assms(3) i [unfolded this]] show ?thesis using st(2) by (simp add: new_authority_def)
qed

lemma open_state_sound:
  assumes "open_state inc log io sv = (st, sv')" "ok st" "log_sane log"
  shows "\<exists>a. sv_core sv' = Some a \<and> controller_inv a \<and> au_options a = clamp_options (so_authority (sv_options sv))"
proof (cases "so_journal_path (sv_options sv) = []")
  case True
  obtain st a where i: "initialize (so_cluster_id (sv_options sv)) inc (so_policy (sv_options sv)) 1 None
      (new_authority (so_authority (sv_options sv))) = (st, a)" by fastforce
  then show ?thesis using initialize_ok [OF i] assms(1,2) True by (cases "ok st") (auto simp: open_state_def Let_def)
next
  case False
  obtain scanned entries report replayed rc opened j where o: "journal_scan log = (scanned, entries, report)"
    "replay_journal entries = (replayed, Some rc)"
    "take_rule inc rc report j (sv\<lparr>sv_recovery := report, sv_journal := Some j\<rparr>) = (st, sv')"
    using open_state_durable [OF assms(1,2) False] by metis
  have "recoverable (rc_spec rc) (rc_contracts rc) (rc_grants rc) (rc_attempts rc)"
    using replay_recoverable [OF o(2)] assms(3) o(1) unfolding log_sane_def by blast
  from take_rule_sound [OF o(3) assms(2) this] show ?thesis by simp
qed

text \<open>A successful start, taken apart.\<close>

lemma start_cases:
  assumes "start inc log io bound ready sv = (st, sv')" "ok st"
  obtains st1 sv1 where "open_state inc log io (sv\<lparr>sv_stop := False, sv_ingress := queue_reset (sv_ingress sv)\<rparr>) = (st1, sv1)"
    "ok st1" "sv' = sv1\<lparr>sv_running := True, sv_reducer := ReducerWaiting\<rparr>"
proof -
  let ?sv = "sv\<lparr>sv_stop := False, sv_ingress := queue_reset (sv_ingress sv)\<rparr>"
  obtain st1 sv1 where o: "open_state inc log io ?sv = (st1, sv1)" by fastforce
  have "ok st1" "sv' = sv1\<lparr>sv_running := True, sv_reducer := ReducerWaiting\<rparr>"
    using assms o by (auto simp: start_def cif_try_def split: if_splits)
  with that o show ?thesis by blast
qed

lemma start_sound:
  assumes "start inc log io bound ready sv = (st, sv')" "ok st" "log_sane log"
  shows "\<exists>a. sv_core sv' = Some a \<and> controller_inv a \<and> au_options a = clamp_options (so_authority (sv_options sv))"
proof -
  obtain st1 sv1 where o: "open_state inc log io (sv\<lparr>sv_stop := False, sv_ingress := queue_reset (sv_ingress sv)\<rparr>) = (st1, sv1)"
    "ok st1" "sv' = sv1\<lparr>sv_running := True, sv_reducer := ReducerWaiting\<rparr>"
    by (rule start_cases [OF assms(1,2)])
  from open_state_sound [OF o(1,2) assms(3)] show ?thesis by (simp add: o(3))
qed

end
