(* ===== verification/Daemon_Flow.thy ===== *)
theory Daemon_Flow
  imports Daemon_Inv
begin

text \<open>
  Requests and replies in the running daemon: every worker that waits for its mailbox has
  exactly one request in the queue or one reply in the mailbox, whatever the threads do.
  A second part shows that the reducer works off the queue in order, batches or not.
\<close>

section \<open>What a connection is owed\<close>

definition frame_of :: "nat \<Rightarrow> work_item \<Rightarrow> bool" where
  "frame_of i x = (case x of FrameWork k f \<Rightarrow> k = i | _ \<Rightarrow> False)"

definition queued :: "nat \<Rightarrow> work_item list \<Rightarrow> nat" where
  "queued i xs = length (filter (frame_of i) xs)"

lemma queued_simps [simp]:
  "queued i [] = 0" "queued i (x # xs) = (if frame_of i x then 1 else 0) + queued i xs"
  "queued i (xs @ ys) = queued i xs + queued i ys"
  by (simp_all add: queued_def)

lemma frame_of_simps [simp]:
  "frame_of i (FrameWork k f) = (k = i)" "\<not> frame_of i StopWork" "\<not> frame_of i (LocalWork k m)"
  by (simp_all add: frame_of_def)

definition owed :: "nat \<Rightarrow> work_item list \<Rightarrow> connection \<Rightarrow> nat" where
  "owed i xs c = queued i xs + (if cn_reply c = None then 0 else 1)"

definition conn_ok :: "nat \<Rightarrow> work_item list \<Rightarrow> connection \<Rightarrow> bool" where
  "conn_ok i xs c = (owed i xs c \<le> 1 \<and> (cn_phase c = WorkerReceiving \<longrightarrow> owed i xs c = 0)
     \<and> (cn_phase c = WorkerAwaiting \<longrightarrow> owed i xs c = 1))"

definition slot_ok :: "nat \<Rightarrow> work_item list \<Rightarrow> connection option \<Rightarrow> bool" where
  "slot_ok i xs s = (case s of None \<Rightarrow> queued i xs = 0 | Some c \<Rightarrow> conn_ok i xs c)"

definition conns_ok :: "work_item list \<Rightarrow> (nat \<Rightarrow> connection option) \<Rightarrow> bool" where
  "conns_ok xs m = (\<forall>i. slot_ok i xs (m i))"

definition flow_inv :: "server \<Rightarrow> bool" where
  "flow_inv sv = ((sv_reducer sv \<noteq> ReducerAbsent \<longrightarrow> sv_core sv \<noteq> None)
     \<and> conns_ok (q_items (sv_ingress sv)) (sv_connections sv)
     \<and> (\<forall>i\<ge>sv_next_id sv. sv_connections sv i = None)
     \<and> (\<forall>i\<in>set (sv_live sv). i < sv_next_id sv)
     \<and> distinct (sv_live sv) \<and> length (sv_live sv) \<le> so_max_connections (sv_options sv)
     \<and> length (q_items (sv_ingress sv)) \<le> q_capacity (sv_ingress sv))"

lemma slot_ok_cong: "queued i ys = queued i xs \<Longrightarrow> slot_ok i ys s = slot_ok i xs s"
  by (cases s) (simp_all add: slot_ok_def conn_ok_def owed_def)

lemma conns_ok_update:
  assumes "conns_ok xs m" "\<And>k. k \<noteq> i \<Longrightarrow> queued k ys = queued k xs" "conn_ok i ys c"
  shows "conns_ok ys (m(i := Some c))"
  unfolding conns_ok_def
proof
  fix k
  show "slot_ok k ys ((m(i := Some c)) k)"
  proof (cases "k = i")
    case True
    then show ?thesis using assms(3) by (simp add: slot_ok_def)
  next
    case False
    then show ?thesis using assms(1) slot_ok_cong [OF assms(2) [OF False]] by (simp add: conns_ok_def)
  qed
qed

lemma conns_ok_same: "conns_ok xs m \<Longrightarrow> (\<And>k. queued k ys = queued k xs) \<Longrightarrow> conns_ok ys m"
  unfolding conns_ok_def using slot_ok_cong by blast

lemma conns_okD: "conns_ok xs m \<Longrightarrow> m i = Some c \<Longrightarrow> conn_ok i xs c"
  unfolding conns_ok_def slot_ok_def by (metis option.simps(5))

lemma conns_ok_None: "conns_ok xs m \<Longrightarrow> m i = None \<Longrightarrow> queued i xs = 0"
  unfolding conns_ok_def slot_ok_def by (metis option.simps(4))

lemma dispatch_connection:
  assumes "dispatch banner h rep (Some c) m a = (r, c1, a')"
  shows "\<exists>c'. c1 = Some c' \<and> cn_reply c' = cn_reply c \<and> cn_phase c' = cn_phase c \<and> cn_stop_requested c' = cn_stop_requested c"
  using assms unfolding dispatch_def by (cases m) (auto split: if_splits prod.splits)

section \<open>One item\<close>

text \<open>Taking an item off the queue and handling it: the request that leaves becomes the reply.\<close>

lemma handle_flow:
  assumes "flow_inv sv" "sv_core sv \<noteq> None" "q_items (sv_ingress sv) = item # xs"
    "q = (sv_ingress sv)\<lparr>q_items := xs\<rparr>"
  shows "flow_inv (handle_item banner item (sv\<lparr>sv_ingress := q\<rparr>))"
    "sv_ingress (handle_item banner item (sv\<lparr>sv_ingress := q\<rparr>)) = q"
    "sv_options (handle_item banner item (sv\<lparr>sv_ingress := q\<rparr>)) = sv_options sv"
    "sv_core (handle_item banner item (sv\<lparr>sv_ingress := q\<rparr>)) \<noteq> None"
proof -
  obtain a where a: "sv_core sv = Some a" using assms(2) by blast
  have f: "conns_ok (item # xs) (sv_connections sv)" "length xs \<le> q_capacity (sv_ingress sv)"
    using assms(1,3) by (simp_all add: flow_inv_def)
  have core: "sv_core (handle_item banner item (sv\<lparr>sv_ingress := q\<rparr>)) \<noteq> None"
    using handle_core [of "sv\<lparr>sv_ingress := q\<rparr>" a banner item] a by auto
  have keep: "flow_inv (handle_item banner item (sv\<lparr>sv_ingress := q\<rparr>))
      \<and> sv_ingress (handle_item banner item (sv\<lparr>sv_ingress := q\<rparr>)) = q
      \<and> sv_options (handle_item banner item (sv\<lparr>sv_ingress := q\<rparr>)) = sv_options sv"
  proof (cases item)
    case (FrameWork i fr)
    obtain c where c: "sv_connections sv i = Some c"
      using conns_ok_None [OF f(1), of i] FrameWork by fastforce
    have one: "queued i xs = 0" "cn_reply c = None" "cn_phase c \<noteq> WorkerReceiving"
      using conns_okD [OF f(1) c] FrameWork by (auto simp: conn_ok_def owed_def split: if_splits)
    have others: "queued k xs = queued k (item # xs)" if "k \<noteq> i" for k using that FrameWork by simp
    have done1: "conns_ok xs ((sv_connections sv)(i := Some (c'\<lparr>cn_reply := Some m\<rparr>)))"
      if "cn_phase c' = cn_phase c" for c' m
      by (rule conns_ok_update [OF f(1) others])
        (use one that in \<open>auto simp: conn_ok_def owed_def\<close>)
    show ?thesis
    proof (cases "unpack_message fr")
      case (Inl st)
      then show ?thesis using assms a c FrameWork done1 [OF refl] f(2)
        by (auto simp: handle_item_def process_def flow_inv_def)
    next
      case (Inr m)
      obtain r c1 a1 where d: "dispatch banner (so_require_hello (sv_options sv)) (sv_recovery sv) (Some c) (wm_body m) a = (r, c1, a1)"
        by (metis prod_cases3)
      then obtain c' where c': "c1 = Some c'" "cn_phase c' = cn_phase c" using dispatch_connection by blast
      show ?thesis using assms a c FrameWork Inr d c' done1 [OF c'(2)] f(2)
        by (auto simp: handle_item_def process_def flow_inv_def)
    qed
  next
    case (LocalWork k m)
    then have "conns_ok xs (sv_connections sv)" using conns_ok_same [OF f(1)] by simp
    then show ?thesis using assms a LocalWork f(2)
      by (auto simp: handle_item_def answer_local_def flow_inv_def split: prod.split)
  next
    case StopWork
    then have "conns_ok xs (sv_connections sv)" using conns_ok_same [OF f(1)] by simp
    then show ?thesis using assms a StopWork f(2) by (auto simp: handle_item_def flow_inv_def)
  qed
  show "flow_inv (handle_item banner item (sv\<lparr>sv_ingress := q\<rparr>))"
    "sv_ingress (handle_item banner item (sv\<lparr>sv_ingress := q\<rparr>)) = q"
    "sv_options (handle_item banner item (sv\<lparr>sv_ingress := q\<rparr>)) = sv_options sv"
    "sv_core (handle_item banner item (sv\<lparr>sv_ingress := q\<rparr>)) \<noteq> None"
    using keep core by simp_all
qed

lemma flow_reducer_phase:
  "flow_inv sv \<Longrightarrow> sv_core sv \<noteq> None \<Longrightarrow> flow_inv (sv\<lparr>sv_reducer := p\<rparr>)"
  by (simp add: flow_inv_def)

lemma take_flow:
  assumes "flow_inv sv" "sv_core sv \<noteq> None" "q_items (sv_ingress sv) = item # xs"
    "q = (sv_ingress sv)\<lparr>q_items := xs\<rparr>"
  shows "flow_inv (take_item banner n item (sv\<lparr>sv_ingress := q\<rparr>))"
proof (cases "item = StopWork")
  case True
  then show ?thesis using handle_flow(1) [OF assms, of banner] assms(2)
    by (simp add: take_item_def handle_item_def flow_reducer_phase)
next
  case False
  then show ?thesis using handle_flow [OF assms, of banner] by (simp add: take_item_def flow_reducer_phase)
qed

lemma housekeeping_same:
  "sv_connections (housekeeping sv) = sv_connections sv" "sv_ingress (housekeeping sv) = sv_ingress sv"
  "sv_options (housekeeping sv) = sv_options sv" "sv_live (housekeeping sv) = sv_live sv"
  "sv_next_id (housekeeping sv) = sv_next_id sv" "sv_reducer (housekeeping sv) = sv_reducer sv"
  "sv_core (housekeeping sv) = None \<longleftrightarrow> sv_core sv = None"
  by (auto simp: housekeeping_def Let_def split: option.split)

lemma reducer_flow:
  assumes "reducer_step banner sv = Some sv'" "flow_inv sv"
  shows "flow_inv sv'"
proof -
  have core: "sv_reducer sv \<noteq> ReducerAbsent \<Longrightarrow> sv_core sv \<noteq> None" using assms(2) by (simp add: flow_inv_def)
  have house: "flow_inv (housekeeping sv)" using assms(2) by (simp add: flow_inv_def housekeeping_same)
  have pop: "flow_inv (take_item banner n item (sv\<lparr>sv_ingress := q\<rparr>))"
    if "queue_take (sv_ingress sv) = (Some item, q)" "sv_reducer sv \<noteq> ReducerAbsent" for n item q
    using take_flow [OF assms(2) core, of item _ q banner n] that
    by (auto simp: queue_take_def split: list.splits)
  show ?thesis using assms house pop core flow_reducer_phase
    by (auto simp: reducer_step_def queue_pop_wait_for_def queue_pop_wait_def queue_try_pop_def
        split: reducer_phase.splits if_splits prod.splits option.splits)
qed

section \<open>Every step\<close>

lemma flow_unfold:
  "flow_inv sv \<longleftrightarrow> ((sv_reducer sv \<noteq> ReducerAbsent \<longrightarrow> sv_core sv \<noteq> None)
     \<and> conns_ok (q_items (sv_ingress sv)) (sv_connections sv)
     \<and> (\<forall>i\<ge>sv_next_id sv. sv_connections sv i = None)
     \<and> (\<forall>i\<in>set (sv_live sv). i < sv_next_id sv)
     \<and> distinct (sv_live sv) \<and> length (sv_live sv) \<le> so_max_connections (sv_options sv)
     \<and> length (q_items (sv_ingress sv)) \<le> q_capacity (sv_ingress sv))"
  by (rule flow_inv_def)

text \<open>Changing one connection where its request and its reply stay what they are.\<close>

lemma flow_on_connection:
  assumes "flow_inv sv" "\<And>c. sv_connections sv i = Some c \<Longrightarrow> conn_ok i (q_items (sv_ingress sv)) (f c)"
  shows "flow_inv (on_connection i f sv)"
proof (cases "sv_connections sv i")
  case None
  then have "on_connection i f sv = sv" by (cases sv) (simp add: on_connection_def fun_upd_idem)
  then show ?thesis using assms(1) by simp
next
  case (Some c)
  then have "conns_ok (q_items (sv_ingress sv)) ((sv_connections sv)(i := Some (f c)))"
    using assms by (intro conns_ok_update) (auto simp: flow_inv_def)
  then show ?thesis using assms(1) Some by (auto simp: flow_inv_def)
qed

lemma flow_stats [simp]: "flow_inv (on_stats g sv) = flow_inv sv" "flow_inv (count_protocol_error sv) = flow_inv sv"
  by (simp_all add: flow_inv_def)

lemma flow_accept: "flow_inv sv \<Longrightarrow> flow_inv (snd (accept_connection sv))"
proof -
  assume f: "flow_inv sv"
  let ?i = "sv_next_id sv"
  have "conn_ok ?i (q_items (sv_ingress sv)) new_connection"
    using conns_ok_None [of "q_items (sv_ingress sv)" "sv_connections sv" ?i] f
    by (simp add: flow_inv_def conn_ok_def owed_def new_connection_def)
  then have "conns_ok (q_items (sv_ingress sv)) ((sv_connections sv)(?i := Some new_connection))"
    using f by (intro conns_ok_update) (auto simp: flow_inv_def)
  then show ?thesis using f by (auto simp: accept_connection_def Let_def flow_inv_def)
qed

lemma flow_reap: "flow_inv sv \<Longrightarrow> flow_inv (reap_finished sv)"
  by (auto simp: reap_finished_def flow_inv_def intro: le_trans [OF length_filter_le])

lemma flow_push:
  assumes "flow_inv sv" "queue_push x (sv_ingress sv) = (b, q)" "\<And>i. \<not> frame_of i x"
  shows "flow_inv (sv\<lparr>sv_ingress := q\<rparr>)"
proof -
  have "conns_ok (q_items (sv_ingress sv) @ [x]) (sv_connections sv)"
  proof (rule conns_ok_same)
    show "conns_ok (q_items (sv_ingress sv)) (sv_connections sv)" using assms(1) by (simp add: flow_inv_def)
  qed (simp add: assms(3))
  then show ?thesis using assms(1,2) by (auto simp: queue_push_def flow_inv_def split: if_splits)
qed

lemma flow_serve_frame:
  assumes "flow_inv sv" "sv_connections sv i = Some c" "cn_phase c = WorkerReceiving"
  shows "flow_inv (snd (serve_frame i f sv))"
proof (cases "q_closed (sv_ingress sv) \<or> length (q_items (sv_ingress sv)) \<ge> q_capacity (sv_ingress sv)")
  case True
  then show ?thesis using assms(1) by (simp add: serve_frame_def queue_push_def)
next
  case False
  let ?xs = "q_items (sv_ingress sv)"
  have ok: "conns_ok ?xs (sv_connections sv)" using assms(1) by (simp add: flow_inv_def)
  have "conn_ok i (?xs @ [FrameWork i f]) (c\<lparr>cn_phase := WorkerAwaiting\<rparr>)"
    using conns_okD [OF ok assms(2)] assms(3) by (auto simp: conn_ok_def owed_def split: if_splits)
  then have "conns_ok (?xs @ [FrameWork i f]) ((sv_connections sv)(i := Some (c\<lparr>cn_phase := WorkerAwaiting\<rparr>)))"
    by (intro conns_ok_update [OF ok]) auto
  then show ?thesis using assms(1,2) False by (auto simp: serve_frame_def queue_push_def flow_inv_def)
qed

lemma flow_serve_failure:
  assumes "flow_inv sv" "sv_connections sv i = Some c" "cn_phase c = WorkerReceiving"
  shows "flow_inv (serve_failure i st sv)"
proof -
  have ok: "conns_ok (q_items (sv_ingress sv)) (sv_connections sv)" using assms(1) by (simp add: flow_inv_def)
  then have "conn_ok i (q_items (sv_ingress sv)) (c\<lparr>cn_phase := WorkerDone\<rparr>)"
    using conns_okD [OF ok assms(2)] assms(3) by (fastforce simp: conn_ok_def owed_def)
  then show ?thesis using assms(1,2)
    by (auto simp: serve_failure_def intro!: flow_on_connection)
qed

lemma flow_serve_reply:
  assumes "flow_inv sv" "sv_connections sv i = Some c" "cn_phase c = WorkerAwaiting"
    "serve_reply i sent sv = Some (out, sv')"
  shows "flow_inv sv'"
proof (cases "cn_reply c")
  case None
  have ok: "conns_ok (q_items (sv_ingress sv)) (sv_connections sv)" using assms(1) by (simp add: flow_inv_def)
  then have "conn_ok i (q_items (sv_ingress sv)) (c\<lparr>cn_phase := WorkerDone\<rparr>)"
    using conns_okD [OF ok assms(2)] assms(3) by (fastforce simp: conn_ok_def owed_def)
  then show ?thesis using assms None by (auto simp: serve_reply_def intro!: flow_on_connection split: if_splits)
next
  case (Some r)
  have ok: "conns_ok (q_items (sv_ingress sv)) (sv_connections sv)" using assms(1) by (simp add: flow_inv_def)
  then have q0: "queued i (q_items (sv_ingress sv)) = 0"
    using conns_okD [OF ok assms(2)] assms(3) Some by (fastforce simp: conn_ok_def owed_def)
  then have free: "conn_ok i (q_items (sv_ingress sv)) (c\<lparr>cn_reply := None, cn_phase := p\<rparr>)" if "p \<noteq> WorkerAwaiting" for p
    using that by (simp add: conn_ok_def owed_def)
  have two: "on_connection i (\<lambda>c. c\<lparr>cn_phase := p\<rparr>) (on_connection i (\<lambda>c. c\<lparr>cn_reply := None\<rparr>) sv)
      = on_connection i (\<lambda>c. c\<lparr>cn_reply := None, cn_phase := p\<rparr>) sv" for p
    by (simp add: on_connection_def option.map_comp comp_def)
  have stats: "on_connection i g (on_stats h s) = on_stats h (on_connection i g s)" for g h s
    by (simp add: on_connection_def on_stats_def)
  have one: "flow_inv (on_connection i (\<lambda>c. c\<lparr>cn_reply := None, cn_phase := p\<rparr>) sv)"
    if "p \<noteq> WorkerAwaiting" for p
    by (rule flow_on_connection [OF assms(1)]) (use assms(2) free [OF that] in simp)
  show ?thesis using assms(2,4) Some
    by (auto simp: serve_reply_def Let_def two stats one split: sum.splits if_splits)
qed

lemma close_log_same:
  "sv_connections (close_log sv) = sv_connections sv" "sv_ingress (close_log sv) = sv_ingress sv"
  "sv_options (close_log sv) = sv_options sv" "sv_live (close_log sv) = sv_live sv"
  "sv_next_id (close_log sv) = sv_next_id sv" "sv_reducer (close_log sv) = sv_reducer sv"
  "sv_core (close_log sv) = None \<longleftrightarrow> sv_core sv = None"
  by (auto simp: close_log_def split: option.split sink.split)

lemma flow_close_log [simp]: "flow_inv (close_log sv) = flow_inv sv"
  by (simp add: flow_inv_def close_log_same)

lemma flow_stop_flags:
  "flow_inv sv \<Longrightarrow> flow_inv (fold (\<lambda>i. on_connection i (\<lambda>c. c\<lparr>cn_stop_requested := True\<rparr>)) is sv)"
proof (induction "is" arbitrary: sv)
  case (Cons i "is")
  have "flow_inv (on_connection i (\<lambda>c. c\<lparr>cn_stop_requested := True\<rparr>) sv)"
  proof (rule flow_on_connection [OF Cons.prems])
    fix c assume c: "sv_connections sv i = Some c"
    have "conns_ok (q_items (sv_ingress sv)) (sv_connections sv)" using Cons.prems by (simp add: flow_inv_def)
    from conns_okD [OF this c] show "conn_ok i (q_items (sv_ingress sv)) (c\<lparr>cn_stop_requested := True\<rparr>)"
      by (simp add: conn_ok_def owed_def)
  qed
  then show ?case using Cons.IH by simp
qed simp

lemma flow_step:
  assumes "daemon_step banner sv sv'" "flow_inv sv"
  shows "flow_inv sv'"
  using assms
proof (cases rule: daemon_step.cases)
  case step_reducer
  then show ?thesis using reducer_flow assms(2) by blast
next
  case (step_local k m)
  then show ?thesis using flow_push [OF assms(2), of "LocalWork k m"] assms(2)
    by (auto simp: request_local_def split: prod.split bool.split)
next
  case step_stop
  have "flow_inv (sv\<lparr>sv_running := b, sv_stop := s\<rparr>)" "flow_inv (sv\<lparr>sv_running := b\<rparr>)" for b s
    using assms(2) by (simp_all add: flow_inv_def)
  then show ?thesis using step_stop flow_stop_flags by (simp add: stop_begin_def)
next
  case step_stop_reducer
  obtain b q where p: "queue_push StopWork (sv_ingress sv) = (b, q)" by fastforce
  from flow_push [OF assms(2) p] have "flow_inv (sv\<lparr>sv_ingress := q\<rparr>)" by simp
  then show ?thesis using step_stop_reducer p by (auto simp: stop_reducer_def flow_inv_def)
next
  case step_stop_finish
  have "flow_inv (sv\<lparr>sv_reducer := ReducerAbsent, sv_ingress := queue_close (sv_ingress sv)\<rparr>)"
    using assms(2) by (simp add: flow_inv_def queue_close_def)
  then show ?thesis using step_stop_finish by (simp add: stop_finish_def)
qed (use assms(2) flow_accept flow_reap flow_serve_frame flow_serve_failure flow_serve_reply in blast)+

section \<open>The reducer works off its queue\<close>

definition reducer_steps :: "string \<Rightarrow> nat \<Rightarrow> server \<Rightarrow> server \<Rightarrow> bool" where
  "reducer_steps banner n = (\<lambda>sv sv'. reducer_step banner sv = Some sv') ^^ n"

lemma reducer_steps_0 [simp]: "reducer_steps banner 0 sv sv' = (sv = sv')"
  by (simp add: reducer_steps_def)

lemma reducer_steps_Suc: "reducer_step banner sv = Some sv1 \<Longrightarrow> reducer_steps banner n sv1 sv' \<Longrightarrow> reducer_steps banner (Suc n) sv sv'"
  unfolding reducer_steps_def by (rule relpowp_Suc_I2)

lemma handle_commutes:
  "handle_item banner item (sv\<lparr>sv_ingress := q\<rparr>) = (handle_item banner item sv)\<lparr>sv_ingress := q\<rparr>"
  "handle_item banner item (sv\<lparr>sv_reducer := p\<rparr>) = (handle_item banner item sv)\<lparr>sv_reducer := p\<rparr>"
  by (auto simp: handle_item_def process_def answer_local_def deliver_def on_connection_def count_protocol_error_def
      on_stats_def split: work_item.split option.split sum.split prod.split)

lemma handle_all_commutes:
  "fold (handle_item banner) xs (sv\<lparr>sv_ingress := q\<rparr>) = (fold (handle_item banner) xs sv)\<lparr>sv_ingress := q\<rparr>"
  "fold (handle_item banner) xs (sv\<lparr>sv_reducer := p\<rparr>) = (fold (handle_item banner) xs sv)\<lparr>sv_reducer := p\<rparr>"
  by (induction xs arbitrary: sv) (simp_all add: handle_commutes)

definition working :: "reducer_phase \<Rightarrow> bool" where
  "working p = (case p of ReducerWaiting \<Rightarrow> True | ReducerBatch n \<Rightarrow> True | _ \<Rightarrow> False)"

lemma reducer_pops:
  assumes "working (sv_reducer sv)" "q_items (sv_ingress sv) = x # xs" "x \<noteq> StopWork"
  shows "\<exists>p. working p \<and> reducer_step banner sv
    = Some ((handle_item banner x sv)\<lparr>sv_ingress := (sv_ingress sv)\<lparr>q_items := xs\<rparr>, sv_reducer := p\<rparr>)"
proof -
  let ?q = "(sv_ingress sv)\<lparr>q_items := xs\<rparr>"
  have pop: "queue_take (sv_ingress sv) = (Some x, ?q)" "queue_ready (sv_ingress sv)"
    using assms(2) by (simp_all add: queue_take_def queue_ready_def)
  have take: "\<exists>p. working p \<and> take_item banner n x (sv\<lparr>sv_ingress := ?q\<rparr>)
      = (handle_item banner x sv)\<lparr>sv_ingress := ?q, sv_reducer := p\<rparr>" for n
    using assms(3) by (auto simp: take_item_def handle_commutes working_def split: reducer_phase.split)
  show ?thesis
  proof (cases "sv_reducer sv")
    case ReducerWaiting
    then show ?thesis using take [of 0] pop assms(2)
      by (auto simp: reducer_step_def queue_pop_wait_for_def queue_pop_wait_def)
  next
    case (ReducerBatch n)
    then show ?thesis using take [of n] pop by (auto simp: reducer_step_def queue_try_pop_def)
  qed (use assms(1) in \<open>simp_all add: working_def\<close>)
qed

lemma reducer_drains:
  assumes "working (sv_reducer sv)" "q_items (sv_ingress sv) = xs" "StopWork \<notin> set xs"
  shows "\<exists>n\<le>length xs + 1. reducer_steps banner n sv
    ((fold (handle_item banner) xs sv)\<lparr>sv_ingress := (sv_ingress sv)\<lparr>q_items := []\<rparr>, sv_reducer := ReducerWaiting\<rparr>)"
  using assms
proof (induction xs arbitrary: sv)
  case Nil
  have same: "sv\<lparr>sv_ingress := (sv_ingress sv)\<lparr>q_items := []\<rparr>\<rparr> = sv" using Nil.prems(2) by (cases sv; cases "sv_ingress sv") simp
  show ?case
  proof (cases "sv_reducer sv")
    case ReducerWaiting
    then have "reducer_steps banner 0 sv (sv\<lparr>sv_ingress := (sv_ingress sv)\<lparr>q_items := []\<rparr>, sv_reducer := ReducerWaiting\<rparr>)"
      unfolding same by (cases sv) simp
    then show ?thesis by (intro exI [of _ 0]) simp
  next
    case (ReducerBatch k)
    then have "reducer_step banner sv = Some (sv\<lparr>sv_reducer := ReducerWaiting\<rparr>)"
      using Nil.prems(2) by (simp add: reducer_step_def queue_try_pop_def queue_take_def)
    then have "reducer_steps banner 1 sv (sv\<lparr>sv_ingress := (sv_ingress sv)\<lparr>q_items := []\<rparr>, sv_reducer := ReducerWaiting\<rparr>)"
      unfolding same One_nat_def by (rule reducer_steps_Suc) simp
    then show ?thesis by (intro exI [of _ 1]) simp
  qed (use Nil.prems(1) in \<open>simp_all add: working_def\<close>)
next
  case (Cons x xs)
  obtain p where p: "working p" "reducer_step banner sv
      = Some ((handle_item banner x sv)\<lparr>sv_ingress := (sv_ingress sv)\<lparr>q_items := xs\<rparr>, sv_reducer := p\<rparr>)"
    using reducer_pops [OF Cons.prems(1,2), of banner] Cons.prems(3) by auto
  let ?sv1 = "(handle_item banner x sv)\<lparr>sv_ingress := (sv_ingress sv)\<lparr>q_items := xs\<rparr>, sv_reducer := p\<rparr>"
  obtain n where n: "n \<le> length xs + 1" "reducer_steps banner n ?sv1
      ((fold (handle_item banner) xs ?sv1)\<lparr>sv_ingress := (sv_ingress ?sv1)\<lparr>q_items := []\<rparr>, sv_reducer := ReducerWaiting\<rparr>)"
    using Cons.IH [of ?sv1] p(1) Cons.prems(3) by auto
  have "(fold (handle_item banner) xs ?sv1)\<lparr>sv_ingress := (sv_ingress ?sv1)\<lparr>q_items := []\<rparr>, sv_reducer := ReducerWaiting\<rparr>
      = (fold (handle_item banner) (x # xs) sv)\<lparr>sv_ingress := (sv_ingress sv)\<lparr>q_items := []\<rparr>, sv_reducer := ReducerWaiting\<rparr>"
    by (simp add: handle_all_commutes)
  then have "reducer_steps banner (Suc n) sv
      ((fold (handle_item banner) (x # xs) sv)\<lparr>sv_ingress := (sv_ingress sv)\<lparr>q_items := []\<rparr>, sv_reducer := ReducerWaiting\<rparr>)"
    using reducer_steps_Suc [OF p(2) n(2)] by simp
  then show ?case using n(1) by (intro exI [of _ "Suc n"]) simp
qed

lemma reducer_steps_run: "reducer_steps banner n sv sv' \<Longrightarrow> (daemon_step banner ^^ n) sv sv'"
  unfolding reducer_steps_def
  by (rule relpowp_mono) (auto intro: daemon_step.intros)

lemma flow_steps: "(daemon_step banner ^^ n) sv sv' \<Longrightarrow> flow_inv sv \<Longrightarrow> flow_inv sv'"
  by (induction n arbitrary: sv') (auto intro: flow_step)

text \<open>Handling items leaves the workers where they stand.\<close>

definition phase_of :: "nat \<Rightarrow> server \<Rightarrow> worker_phase option" where
  "phase_of i sv = map_option cn_phase (sv_connections sv i)"

lemma handle_phase: "phase_of i (handle_item banner item sv) = phase_of i sv"
proof (cases item)
  case (FrameWork k f)
  show ?thesis
  proof (cases "sv_core sv"; cases "sv_connections sv k"; cases "unpack_message f")
    fix a c m assume *: "sv_core sv = Some a" "sv_connections sv k = Some c" "unpack_message f = Inr m"
    obtain r c1 a1 where d: "dispatch banner (so_require_hello (sv_options sv)) (sv_recovery sv) (Some c) (wm_body m) a = (r, c1, a1)"
      by (metis prod_cases3)
    then obtain c' where "c1 = Some c'" "cn_phase c' = cn_phase c" using dispatch_connection by blast
    then show ?thesis using * d FrameWork by (simp add: handle_item_def process_def phase_of_def)
  qed (simp_all add: FrameWork handle_item_def process_def phase_of_def)
next
  case (LocalWork k m)
  then show ?thesis by (simp add: handle_item_def answer_local_def phase_of_def split: option.split prod.split)
qed (simp add: handle_item_def)

lemma handle_all_phase: "phase_of i (fold (handle_item banner) xs sv) = phase_of i sv"
  by (induction xs arbitrary: sv) (simp_all add: handle_phase)

text \<open>A daemon that has just been started.\<close>

lemma open_state_same:
  assumes "open_state inc log io sv = (st, sv')"
  shows "sv_connections sv' = sv_connections sv \<and> sv_ingress sv' = sv_ingress sv \<and> sv_live sv' = sv_live sv
    \<and> sv_next_id sv' = sv_next_id sv \<and> sv_options sv' = sv_options sv \<and> sv_reducer sv' = sv_reducer sv"
  using assms
  by (auto simp: open_state_def take_rule_def Let_def cif_try_def split: if_splits prod.splits option.splits)

lemma start_flow:
  assumes "start inc log io bound ready (new_server p) = (st, sv)" "ok st" "log_sane log"
  shows "flow_inv sv"
proof -
  obtain st1 sv1 where o: "open_state inc log io ((new_server p)\<lparr>sv_stop := False, sv_ingress := queue_reset (sv_ingress (new_server p))\<rparr>) = (st1, sv1)"
    "ok st1" "sv = sv1\<lparr>sv_running := True, sv_reducer := ReducerWaiting\<rparr>"
    by (rule start_cases [OF assms(1,2)])
  obtain a where "sv_core sv = Some a" using start_sound [OF assms] by blast
  then show ?thesis using open_state_same [OF o(1)] o(3)
    by (simp add: flow_inv_def new_server_def queue_reset_def queue_new_def conns_ok_def slot_ok_def)
qed

end
