(* ===== verification/Daemon_Props.thy ===== *)
theory Daemon_Props
  imports Daemon_Flow Demo_Cluster
begin

text \<open>
  The properties of the daemon and their instances: the engine under any interleaving, requests and
  replies, the handshake, optimistic concurrency.
\<close>

section \<open>A demonstration daemon\<close>

definition daemon_options :: server_options where
  "daemon_options = default_server_options\<lparr>so_cluster_id := ''c''\<rparr>"

definition demo_daemon :: server where
  "demo_daemon = snd (start [] None [] success success (new_server daemon_options))"

lemmas initialize_unfold = initialize_def clear_state_def new_authority_def change_spec_def set_cluster_id_def empty_spec_def
  journal_put_def journal_entry_def null_append_def cif_try_def Let_def begin_epoch_def can_advance_def
  set_policy_generation_def set_tick_def set_incarnation_def note_revision_def

lemma demo_started: "start [] None [] success success (new_server daemon_options) = (success, demo_daemon)"
proof -
  have "fst (start [] None [] success success (new_server daemon_options)) = success"
    by (simp add: start_def open_state_def daemon_options_def default_server_options_def new_server_def
        clamp_server_options_def initialize_unfold split: prod.split)
  then show ?thesis by (simp add: demo_daemon_def prod_eq_iff)
qed

lemma demo_engine:
  obtains a where "sv_core demo_daemon = Some a" "controller_inv a" "au_grant_serial a = 0"
proof -
  obtain a where a: "sv_core demo_daemon = Some a" "controller_inv a"
    using start_sound [OF demo_started ok_success no_log_sane] by blast
  have "map_option au_grant_serial (sv_core demo_daemon) = Some 0"
    unfolding demo_daemon_def
    by (simp add: start_def open_state_def daemon_options_def default_server_options_def new_server_def
        clamp_server_options_def initialize_unfold au_mark_def split: prod.split)
  then show ?thesis using that a by simp
qed

text \<open>A client connects and sends a ping before it has said hello.\<close>

definition demo_connected :: server where
  "demo_connected = snd (accept_connection demo_daemon)"

definition ping_frame :: wire_frame where
  "ping_frame = \<lparr>fr_type = MtPing, fr_flags = 0, fr_sequence = 5, fr_payload = []\<rparr>"

definition demo_pinged :: server where
  "demo_pinged = snd (serve_frame 1 ping_frame demo_connected)"

lemma demo_frame:
  "sv_connections demo_daemon = (\<lambda>_. None)" "sv_live demo_daemon = []" "sv_next_id demo_daemon = 1"
  "sv_running demo_daemon" "sv_reducer demo_daemon = ReducerWaiting" "q_items (sv_ingress demo_daemon) = []"
  "q_capacity (sv_ingress demo_daemon) = 8192" "\<not> q_closed (sv_ingress demo_daemon)"
  "so_max_connections (sv_options demo_daemon) = 128"
proof -
  obtain st1 sv1 where o: "open_state [] None [] ((new_server daemon_options)\<lparr>sv_stop := False,
      sv_ingress := queue_reset (sv_ingress (new_server daemon_options))\<rparr>) = (st1, sv1)"
    "ok st1" "demo_daemon = sv1\<lparr>sv_running := True, sv_reducer := ReducerWaiting\<rparr>"
    by (rule start_cases [OF demo_started ok_success])
  show "sv_connections demo_daemon = (\<lambda>_. None)" "sv_live demo_daemon = []" "sv_next_id demo_daemon = 1"
    "sv_running demo_daemon" "sv_reducer demo_daemon = ReducerWaiting" "q_items (sv_ingress demo_daemon) = []"
    "q_capacity (sv_ingress demo_daemon) = 8192" "\<not> q_closed (sv_ingress demo_daemon)"
    "so_max_connections (sv_options demo_daemon) = 128"
    unfolding o(3) using open_state_same [OF o(1)]
    by (simp_all add: new_server_def daemon_options_def default_server_options_def queue_reset_def queue_new_def
        clamp_server_options_def kMaxConnections_def kMaxIngressQueue_def)
qed

lemma demo_pinged_frame:
  "sv_connections demo_pinged 1 = Some (new_connection\<lparr>cn_phase := WorkerAwaiting\<rparr>)"
  "q_items (sv_ingress demo_pinged) = [FrameWork 1 ping_frame]" "sv_reducer demo_pinged = ReducerWaiting"
  "sv_core demo_pinged = sv_core demo_daemon"
  using demo_frame
  by (simp_all add: demo_pinged_def serve_frame_def demo_connected_def accept_connection_def Let_def queue_push_def)

lemma demo_run: "(daemon_step banner ^^ 2) demo_daemon demo_pinged"
proof -
  have "daemon_step banner demo_daemon demo_connected"
    unfolding demo_connected_def by (rule step_accept) (rule demo_frame)
  moreover have "daemon_step banner demo_connected demo_pinged"
    unfolding demo_pinged_def
    by (rule step_frame [where c = new_connection])
      (use demo_frame in \<open>simp_all add: demo_connected_def accept_connection_def Let_def new_connection_def\<close>)
  ultimately show ?thesis unfolding numeral_2_eq_2 by (auto intro: relpowp_Suc_I)
qed

section \<open>The engine under any interleaving\<close>



section \<open>Requests and replies\<close>

text \<open>C26. No request is lost and none is answered twice: in every state of every execution, a worker that waits
  for its mailbox has exactly one request in the queue and no reply, or one reply and no request; a worker that
  is receiving has neither. The limits on connections and on the queue are kept.\<close>

theorem no_request_is_lost:
  assumes "start inc log io bound ready (new_server p) = (st, sv)" "ok st" "log_sane log"
    "(daemon_step banner ^^ n) sv sv'" "sv_connections sv' i = Some c"
  shows "(cn_phase c = WorkerAwaiting \<longrightarrow> (cn_reply c = None) = (queued i (q_items (sv_ingress sv')) = 1)
        \<and> queued i (q_items (sv_ingress sv')) \<le> 1)
    \<and> (cn_phase c = WorkerReceiving \<longrightarrow> cn_reply c = None \<and> queued i (q_items (sv_ingress sv')) = 0)
    \<and> length (q_items (sv_ingress sv')) \<le> q_capacity (sv_ingress sv')
    \<and> length (sv_live sv') \<le> so_max_connections (sv_options sv')"
proof -
  have f: "flow_inv sv'" using flow_steps [OF assms(4) start_flow [OF assms(1,2,3)]] .
  then have "conn_ok i (q_items (sv_ingress sv')) c"
    using conns_okD [of _ "sv_connections sv'" i c] assms(5) by (simp add: flow_inv_def)
  then show ?thesis using f by (auto simp: conn_ok_def owed_def flow_inv_def split: if_splits)
qed

theorem no_request_is_lost_witness:
  "cn_reply (new_connection\<lparr>cn_phase := WorkerAwaiting\<rparr>) = None \<and> queued 1 (q_items (sv_ingress demo_pinged)) = 1"
  using no_request_is_lost [OF demo_started ok_success no_log_sane demo_run demo_pinged_frame(1)]
  by (simp add: new_connection_def)

text \<open>C27. Every queued request is answered: from any state of any execution in which the reducer runs and no stop is
  queued, the reducer alone, in at most one step more than there are items, reaches a state in which every
  waiting worker has its reply.\<close>

theorem requests_are_answered:
  assumes "start inc log io bound ready (new_server p) = (st, sv)" "ok st" "log_sane log"
    "(daemon_step banner ^^ n) sv sv1" "working (sv_reducer sv1)" "StopWork \<notin> set (q_items (sv_ingress sv1))"
  shows "\<exists>m\<le>length (q_items (sv_ingress sv1)) + 1. \<exists>sv2. reducer_steps banner m sv1 sv2 \<and> q_items (sv_ingress sv2) = []
    \<and> (\<forall>i c. sv_connections sv1 i = Some c \<and> cn_phase c = WorkerAwaiting
         \<longrightarrow> (\<exists>c'. sv_connections sv2 i = Some c' \<and> cn_reply c' \<noteq> None))"
proof -
  let ?xs = "q_items (sv_ingress sv1)"
  let ?sv2 = "(fold (handle_item banner) ?xs sv1)\<lparr>sv_ingress := (sv_ingress sv1)\<lparr>q_items := []\<rparr>, sv_reducer := ReducerWaiting\<rparr>"
  obtain m where m: "m \<le> length ?xs + 1" "reducer_steps banner m sv1 ?sv2"
    using reducer_drains [OF assms(5) refl assms(6)] by blast
  have f: "flow_inv ?sv2"
    by (rule flow_steps [OF reducer_steps_run [OF m(2)] flow_steps [OF assms(4) start_flow [OF assms(1,2,3)]]])
  have "\<exists>c'. sv_connections ?sv2 i = Some c' \<and> cn_reply c' \<noteq> None"
    if c: "sv_connections sv1 i = Some c" "cn_phase c = WorkerAwaiting" for i c
  proof -
    have "phase_of i ?sv2 = Some WorkerAwaiting"
      using handle_all_phase [of i banner ?xs sv1] c by (simp add: phase_of_def)
    then obtain c' where c': "sv_connections ?sv2 i = Some c'" "cn_phase c' = WorkerAwaiting"
      unfolding phase_of_def map_option_eq_Some by blast
    have "conns_ok [] (sv_connections ?sv2)" using f by (simp add: flow_inv_def)
    from conns_okD [OF this c'(1)] show ?thesis using c' by (auto simp: conn_ok_def owed_def split: if_splits)
  qed
  then show ?thesis using m by (intro exI [of _ m]) (auto intro!: exI [of _ ?sv2])
qed

theorem requests_are_answered_witness:
  "\<exists>m\<le>2. \<exists>sv2. reducer_steps [] m demo_pinged sv2
    \<and> (\<exists>c'. sv_connections sv2 1 = Some c' \<and> cn_reply c' \<noteq> None)"
proof -
  obtain m sv2 where m: "m \<le> length (q_items (sv_ingress demo_pinged)) + 1" "reducer_steps [] m demo_pinged sv2"
    and r: "\<forall>i c. sv_connections demo_pinged i = Some c \<and> cn_phase c = WorkerAwaiting
         \<longrightarrow> (\<exists>c'. sv_connections sv2 i = Some c' \<and> cn_reply c' \<noteq> None)"
    using requests_are_answered [OF demo_started ok_success no_log_sane demo_run, of "[]"]
    by (auto simp: demo_pinged_frame working_def)
  have "\<exists>c'. sv_connections sv2 1 = Some c' \<and> cn_reply c' \<noteq> None"
    using r [rule_format, of 1] demo_pinged_frame(1) by simp
  moreover have "m \<le> 2" using m(1) by (simp add: demo_pinged_frame)
  ultimately show ?thesis using m(2) by blast
qed

section \<open>The conversation on a connection\<close>



text \<open>C29. A change made under a wrong assumption is refused: when an administrative command states the cluster
  generation it expects and the controller is at another one, nothing of the tables, the specification, the
  contracts or the sink changes, and the answer is STATE_MISMATCH with the present generation.\<close>

theorem stale_expectation_changes_nothing:
  assumes "am_has_expectation c" "am_expect_generation c \<noteq> sp_generation (au_spec a)" "ok (validate_admin_command c)"
    "dispatch banner require_hello report conn (MAdmin c) a = (r, conn', a')"
    "\<And>x. conn = Some x \<Longrightarrow> cn_greeted x"
  shows "au_core a' = au_core a \<and> (\<exists>x. wm_body r = MAdminResult x \<and> ar_code x = ScStateMismatch
    \<and> ar_generation x = sp_generation (au_spec a))"
proof -
  have "dispatch banner require_hello report conn (MAdmin c) a = (fst (admin_reply c a), conn, snd (admin_reply c a))"
    using assms(5) by (cases conn) (auto simp: dispatch_def governed_def split: prod.split)
  then have r: "r = fst (admin_reply c a)" "a' = snd (admin_reply c a)" using assms(4) by simp_all
  show ?thesis using assms(1,2,3) core_state_digest [of a] unfolding r admin_reply_def admin_outcome_def Let_def
    by (cases "state_digest a") (simp add: reply_with_def)
qed

definition demo_command :: "admin_kind \<Rightarrow> admin_command" where
  "demo_command k = \<lparr>am_kind = k, am_detail = [], am_has_expectation = True, am_expect_generation = 7,
     am_member = demo_member ''m'' ''s'', am_member_id = ''ghost'', am_lifecycle = LcActive, am_path = demo_path,
     am_path_id = ''p'', am_path_state = PsOperational,
     am_exclusion = \<lparr>ex_id = ''x'', ex_domain_prefix = [], ex_members = [], ex_paths = [], ex_valid_from = 0,
       ex_valid_to = 0, ex_mode = MmRefuse, ex_enabled = False, ex_reason = []\<rparr>, am_exclusion_id = ''x'',
     am_obligation = \<lparr>ob_id = ''b'', ob_service = [], ob_min_distinct_failure_domains = 0,
       ob_failure_domain_level = 0, ob_min_units_per_domain = 0, ob_enabled = False\<rparr>, am_obligation_id = ''b'',
     am_contract = demo_contract, am_contract_id = ''k'', am_policy = 0, am_tick = 0, am_fence_reason = RcNone\<rparr>"

theorem stale_expectation_changes_nothing_witness:
  "au_core (snd (snd (dispatch [] True empty_report None (MAdmin (demo_command AkExpireLeases)) (new_authority default_options))))
    = au_core (new_authority default_options)"
proof -
  obtain r conn a' where d: "dispatch [] True empty_report None (MAdmin (demo_command AkExpireLeases)) (new_authority default_options) = (r, conn, a')"
    by (metis prod_cases3)
  have "au_core a' = au_core (new_authority default_options)"
    using stale_expectation_changes_nothing [OF _ _ _ d]
    by (simp add: demo_command_def validate_admin_command_def admin_subject_def new_authority_def empty_spec_def)
  then show ?thesis by (simp add: d)
qed

text \<open>C30. One frame, one reply: handling a frame of a connection puts exactly one message into the mailbox of that
  connection and of no other. It carries the sequence number of the request whenever the frame can be decoded;
  otherwise it is the error MALFORMED_FRAME, the protocol errors are counted and the engine is not touched.\<close>

theorem one_frame_one_reply:
  assumes "sv_core sv = Some a" "sv_connections sv i = Some c" "sv' = process banner i f sv"
  shows "\<exists>r c'. sv_connections sv' i = Some c' \<and> cn_reply c' = Some r
    \<and> (\<forall>k. k \<noteq> i \<longrightarrow> sv_connections sv' k = sv_connections sv k)
    \<and> (case unpack_message f of
         Inr m \<Rightarrow> wm_sequence r = fr_sequence f \<and> sv_protocol_errors sv' = sv_protocol_errors sv
       | Inl st \<Rightarrow> (\<exists>t. wm_body r = MError ''MALFORMED_FRAME'' t) \<and> wm_sequence r = 0 \<and> sv_core sv' = sv_core sv
           \<and> sv_protocol_errors sv' = sv_protocol_errors sv + 1)"
proof (cases "unpack_message f")
  case (Inl st)
  then show ?thesis using assms
    by (auto simp: process_def make_error_message_def deliver_def on_connection_def count_protocol_error_def on_stats_def)
next
  case (Inr m)
  obtain r c1 a1 where d: "dispatch banner (so_require_hello (sv_options sv)) (sv_recovery sv) (Some c) (wm_body m) a = (r, c1, a1)"
    by (metis prod_cases3)
  then obtain c' where "c1 = Some c'" using dispatch_connection by blast
  then show ?thesis using assms Inr d by (simp add: process_def deliver_def on_connection_def)
qed

theorem one_frame_one_reply_witness:
  "\<exists>r c'. sv_connections (process [] 1 ping_frame demo_pinged) 1 = Some c' \<and> cn_reply c' = Some r"
proof (rule demo_engine)
  fix a assume "sv_core demo_daemon = Some a"
  then have "sv_core demo_pinged = Some a" by (simp add: demo_pinged_frame)
  from one_frame_one_reply [OF this demo_pinged_frame(1) refl] show ?thesis by blast
qed

end
