(* ===== verification/Client_Props.thy ===== *)
theory Client_Props
  imports Client Daemon_Props
begin

text \<open>
  The client and the daemon together: a request goes out as bytes, is decoded and dispatched, and its reply
  comes back to the caller; and what happens when a reply comes too late.
\<close>

section \<open>An exchange on a live connection\<close>

text \<open>The connection is open, nothing fails, and these bytes are still to come, some of them buffered already.\<close>

definition ready :: "client \<Rightarrow> bytes \<Rightarrow> bool" where
  "ready k bs = (lk_open (kc_link k) \<and> lk_outcomes (kc_link k) = [] \<and> channel_ok (lk_channel (kc_link k))
     \<and> alive (lk_arrivals (kc_link k)) \<and> ch_data (lk_channel (kc_link k)) @ bytes_in (lk_arrivals (kc_link k)) = bs)"

lemma packed_bound: "pack_message m = Inr f \<Longrightarrow> length (fr_payload f) \<le> kMaxFramePayloadBytes"
  by (auto simp: pack_message_def Let_def split: if_splits)

lemma send_ready:
  assumes "lk_open (kc_link k)" "lk_outcomes (kc_link k) = []" "length (fr_payload f) \<le> kMaxFramePayloadBytes"
  shows "client_send_frame f k
    = (Some (Inr ()), k\<lparr>kc_link := (kc_link k)\<lparr>lk_sent := lk_sent (kc_link k) @ framed 0 f\<rparr>\<rparr>)"
proof -
  have "encode_frame f = Inr (framed 0 f)" using assms(3) by (simp add: encode_frame_framed)
  then show ?thesis using assms(1,2)
    by (simp add: client_send_frame_def on_link_def channel_send_def stream_send_all_def stream_call_def)
qed

lemma receive_ready:
  assumes "ready k (framed r g @ later)" "length (fr_payload g) \<le> kMaxFramePayloadBytes"
  shows "\<exists>k'. client_receive_frame k = (Some (Inr g), k') \<and> ready k' later \<and> kc_sequence k' = kc_sequence k
    \<and> kc_options k' = kc_options k \<and> lk_sent (kc_link k') = lk_sent (kc_link k)"
proof -
  have r: "ch_data (lk_channel (kc_link k)) @ bytes_in (lk_arrivals (kc_link k)) = framed r g @ later"
    "alive (lk_arrivals (kc_link k))" "channel_ok (lk_channel (kc_link k))"
    using assms(1) by (simp_all add: ready_def)
  from receive_frame_one [OF assms(2) r, of "ko_timeout_millis (kc_options k)"] assms(1) show ?thesis
    by (auto simp: client_receive_frame_def channel_receive_def ready_def)
qed

lemma exchange_ready:
  assumes "ready k (framed r g @ later)" "length (fr_payload g) \<le> kMaxFramePayloadBytes" "pack_message m = Inr f"
  shows "\<exists>k'. exchange m k = (Some (unpack_message g), k') \<and> ready k' later \<and> kc_sequence k' = kc_sequence k + 1
    \<and> lk_sent (kc_link k') = lk_sent (kc_link k) @ framed 0 (f\<lparr>fr_sequence := kc_sequence k + 1\<rparr>)"
proof -
  let ?k1 = "k\<lparr>kc_sequence := kc_sequence k + 1\<rparr>"
  let ?f = "f\<lparr>fr_sequence := kc_sequence k + 1\<rparr>"
  let ?k2 = "?k1\<lparr>kc_link := (kc_link k)\<lparr>lk_sent := lk_sent (kc_link k) @ framed 0 ?f\<rparr>\<rparr>"
  have "client_send_frame ?f ?k1 = (Some (Inr ()), ?k2)"
    using send_ready [of ?k1 ?f] assms(1) packed_bound [OF assms(3)] by (simp add: ready_def)
  moreover have "ready ?k2 (framed r g @ later)" using assms(1) by (simp add: ready_def)
  from receive_ready [OF this assms(2)] obtain k' where "client_receive_frame ?k2 = (Some (Inr g), k')" "ready k' later"
    "kc_sequence k' = kc_sequence k + 1" "lk_sent (kc_link k') = lk_sent (kc_link k) @ framed 0 ?f"
    by auto
  ultimately show ?thesis by (simp add: exchange_def exchange_frame_def call_bind_def assms(3))
qed

section \<open>Client and daemon\<close>


text \<open>A ping of the demonstration client, with the pong already on its way.\<close>

definition pong_frame :: wire_frame where
  "pong_frame = \<lparr>fr_type = MtPong, fr_flags = 0, fr_sequence = 1, fr_payload = []\<rparr>"

definition demo_link :: "arrival list \<Rightarrow> client" where
  "demo_link as = new_client\<lparr>kc_link := closed_link\<lparr>lk_open := True, lk_arrivals := as\<rparr>\<rparr>"

lemma demo_link_fields:
  "kc_sequence (demo_link as) = 0" "lk_open (kc_link (demo_link as))" "lk_outcomes (kc_link (demo_link as)) = []"
  "lk_arrivals (kc_link (demo_link as)) = as" "lk_channel (kc_link (demo_link as)) = new_channel"
  "ko_timeout_millis (kc_options (demo_link as)) = 5000" "lk_sent (kc_link (demo_link as)) = []"
  by (simp_all add: demo_link_def new_client_def closed_link_def default_client_options_def)

lemma framed_nonempty: "framed r f \<noteq> []"
  using length_framed [of r f] by auto

lemma demo_link_ready: "ready (demo_link [Arrived (framed 0 f)]) (framed 0 f @ [])"
  by (simp add: ready_def demo_link_fields new_channel_def channel_ok_def framed_nonempty)

lemma pong_unpacks: "unpack_message pong_frame = Inr \<lparr>wm_body = MPong, wm_flags = 0, wm_sequence = 1\<rparr>"
  using packed_unpacks [of "\<lparr>wm_body = MPong, wm_flags = 0, wm_sequence = 1\<rparr>" pong_frame]
  by (simp add: pack_message_def pong_frame_def received_message_def)


section \<open>A reply that comes too late\<close>



end
