(* ===== verification/Daemon_Faults.thy ===== *)
theory Daemon_Faults
  imports Daemon_Props Journal_Props
begin

text \<open>
  What can go wrong with the running daemon: a refused change that makes its log unreadable, a
  restart after which nothing reaches the log any more, and a stop that is lost on a full queue.
\<close>

section \<open>A refused change in the log\<close>

definition entry_clock :: "entry \<Rightarrow> recovered_state \<Rightarrow> recovered_state" where
  "entry_clock e s = (if je_tick e > rc_tick s then s\<lparr>rc_tick := je_tick e\<rparr> else s)"

lemma replay_loop_Cons:
  "replay_loop (e # es) prev s =
     (if prev \<noteq> None \<and> prev \<noteq> Some (je_sequence e - 1) then
        (status_error ScCorruption (''journal replay saw a sequence gap at '' @ to_decimal (je_sequence e)), s)
      else cif_try (replay_payload (je_payload e) (je_tick e) (entry_clock e s))
          (\<lambda>s2. replay_loop es (Some (je_sequence e)) s2))"
  by (simp add: Let_def entry_clock_def)

lemma cif_try_fst_ok: "ok (fst (cif_try m k)) \<longleftrightarrow> ok (fst m) \<and> ok (fst (k (snd m)))"
  by (cases m) (auto simp: cif_try_def)

lemma replay_loop_last:
  "ok (fst (replay_loop (es @ [e]) prev s)) \<Longrightarrow>
   ok (fst (replay_loop es prev s))
   \<and> ok (fst (replay_payload (je_payload e) (je_tick e) (entry_clock e (snd (replay_loop es prev s)))))"
proof (induction es arbitrary: prev s)
  case Nil
  then show ?case
    by (auto simp: replay_loop_Cons cif_try_fst_ok split: if_splits simp del: replay_loop.simps(2))
next
  case (Cons x es)
  obtain st s2 where p: "replay_payload (je_payload x) (je_tick x) (entry_clock x s) = (st, s2)" by fastforce
  have g: "\<not> (prev \<noteq> None \<and> prev \<noteq> Some (je_sequence x - 1))" "ok st"
    "ok (fst (replay_loop (es @ [e]) (Some (je_sequence x)) s2))"
    using Cons.prems p by (auto simp: replay_loop_Cons cif_try_fst_ok split: if_splits simp del: replay_loop.simps(2))
  have "replay_loop (x # es) prev s = replay_loop es (Some (je_sequence x)) s2"
    unfolding replay_loop_Cons p using g(1,2) by (simp only: if_False cif_try_def prod.case if_True simp_thms)
  then show ?case using Cons.IH [OF g(3)] by (simp only:)
qed

lemma replay_keeps_spec:
  "replay_journal es = (st, Some rc) \<Longrightarrow> replay_loop es None empty_recovered = (st1, s1) \<Longrightarrow>
   find_member (rc_spec rc) i = find_member (rc_spec s1) i"
  by (auto simp: replay_journal_def set_tick_def note_revision_def find_member_def split: if_splits)

lemma removal_refused:
  "find_member s i = None \<Longrightarrow> remove_member i s = (not_present ''member'' i, s)"
  by (simp add: remove_member_def find_member_def find_sorted_def find_index_def Let_def split: if_splits)

lemma refused_removal_replay:
  assumes "replay_journal es = (st, Some rc)" "find_member (rc_spec rc) i = None" "je_payload e = JMemberRemove i"
  shows "\<exists>st'. replay_journal (es @ [e]) = (st', None) \<and> \<not> ok st'"
proof -
  obtain st1 s1 where s1: "replay_loop es None empty_recovered = (st1, s1)" by fastforce
  have "find_member (rc_spec (entry_clock e s1)) i = None"
    using replay_keeps_spec [OF assms(1) s1, of i] assms(2) by (simp add: entry_clock_def)
  then have "\<not> ok (fst (replay_payload (je_payload e) (je_tick e) (entry_clock e s1)))"
    by (simp add: assms(3) on_spec_def removal_refused not_present_def)
  then have "\<not> ok (fst (replay_loop (es @ [e]) None empty_recovered))"
    using replay_loop_last [of es e None empty_recovered] s1 by auto
  then show ?thesis by (cases "replay_loop (es @ [e]) None empty_recovered") (simp add: replay_journal_def)
qed

text \<open>No start comes past a log that cannot be replayed.\<close>

lemma unreadable_log_blocks_start:
  assumes "journal_scan log = (st, es, report)" "replay_journal es = (st', None)" "so_journal_path p \<noteq> []"
  shows "\<not> ok (fst (start inc log io bound ready (new_server p)))"
proof -
  let ?sv = "(new_server p)\<lparr>sv_stop := False, sv_ingress := queue_reset (sv_ingress (new_server p))\<rparr>"
  have "\<not> ok st'" using replay_None [OF assms(2)] .
  moreover have "so_journal_path (sv_options ?sv) \<noteq> []"
    using assms(3) by (simp add: new_server_def clamp_server_options_def)
  ultimately have "\<not> ok (fst (open_state inc log io ?sv))"
    using assms(1,2) by (simp add: open_state_def Let_def cif_try_def split: prod.split)
  moreover have "\<not> sv_running (new_server p)" by (simp add: new_server_def)
  ultimately show ?thesis unfolding start_def by (simp only: if_False cif_try_fst_ok) simp
qed

lemma steps_never_not_found:
  "write_exact xs j = (st, j') \<Longrightarrow> st_code st \<noteq> ScNotFound" "sync_file j = (st, j') \<Longrightarrow> st_code st \<noteq> ScNotFound"
  by (auto simp: write_exact_def sync_file_def platform_call_def next_io_def success_def status_error_def
      split: if_splits prod.splits list.splits option.splits)

lemma try_never_not_found:
  "st_code (fst m) \<noteq> ScNotFound \<Longrightarrow> (\<And>s. st_code (fst (k s)) \<noteq> ScNotFound) \<Longrightarrow> st_code (fst (cif_try m k)) \<noteq> ScNotFound"
  by (cases m) (simp add: cif_try_def)

lemma append_never_not_found:
  assumes "journal_append e d j = (st, e', j')"
  shows "st_code st \<noteq> ScNotFound"
proof -
  have w: "st_code (fst (write_exact xs k)) \<noteq> ScNotFound" for xs k
    using steps_never_not_found(1) [of xs k] by (cases "write_exact xs k") simp
  have y: "st_code (fst (if d then sync_file k else (success, k))) \<noteq> ScNotFound" for d k
    using steps_never_not_found(2) [of k] by (cases "sync_file k") (simp add: success_def)
  have "st_code (fst (write_record f d j)) \<noteq> ScNotFound" for f
    unfolding write_record_def Let_def
    by simp (intro impI try_never_not_found w y, simp add: success_def)
  from this [of "e\<lparr>je_sequence := j_last_sequence j\<rparr>"] show ?thesis
    using assms by (cases "write_record (e\<lparr>je_sequence := j_last_sequence j\<rparr>) d j")
      (auto simp: journal_append_def Let_def split: if_splits)
qed

lemma w_varint_short: "length (w_varint v) \<le> unat v + 1"
proof (induction v rule: w_varint.induct)
  case (1 v)
  show ?case
  proof (cases "v \<ge> 0x80")
    case True
    then have "0 < unat v" by (auto simp: unat_gt_0)
    then have "unat (drop_bit 7 v) < unat v" by (simp add: unat_drop_bit7)
    then show ?thesis using 1 [OF True] True by (simp add: w_varint.simps [of v])
  qed (simp add: w_varint.simps [of v])
qed

lemma w_text_short: "length s < 2 ^ 64 \<Longrightarrow> length (w_text s) \<le> 2 * length s + 1"
  using w_varint_short [of "of_nat (length s)"] by (simp add: w_text_def unat_of_nat)

lemma encode_id_short: "id_ok i \<Longrightarrow> length (encode_id i) \<le> 257"
  using w_varint_short [of "of_nat (length i)"]
  by (auto simp: encode_id_def w_text_def id_ok_def is_valid_id_def is_valid_identifier_def limit_defs unat_of_nat
      split: if_splits intro: order_trans)

text \<open>A journalled change that is refused after its record went out, with the log it leaves behind.\<close>

lemma refused_removal:
  assumes "au_sink a = JournalSink j" "journal_holds j es" "id_ok i" "find_member (au_spec a) i = None"
    "au_remove_member i a = (st, a')" "st_code st = ScNotFound"
  shows "\<exists>j' e. au_sink a' = JournalSink j' \<and> je_payload e = JMemberRemove i \<and> journal_holds j' (es @ [e])
    \<and> log_bounded (es @ [e])"
proof -
  let ?e = "\<lparr>je_payload = JMemberRemove i, je_sequence = 0, je_tick = sp_tick (au_spec a)\<rparr>"
  have o: "j_open j" using assms(2) by (simp add: journal_holds_def)
  obtain st1 e j' where ap: "journal_append ?e (op_durable (au_options a)) j = (st1, e, j')" by (metis prod_cases3)
  have good: "payload_ok (je_payload ?e)" "length (encode_entry ?e) \<le> kMaxJournalRecordBytes"
    using assms(3) encode_id_short [OF assms(3)]
    by (simp_all add: encode_entry_def encode_counter_def kMaxJournalRecordBytes_def)
  have put: "journal_put (JMemberRemove i) a = (st1, a\<lparr>au_sink := JournalSink j'\<rparr>)"
    using assms(1) o ap by (simp add: journal_put_def journal_entry_def journal_sink_append_def)
  show ?thesis
  proof (cases "ok st1")
    case False
    then have "st = st1" using assms(5) put by (simp add: au_remove_member_def journaled_change_def cif_try_def)
    then show ?thesis using append_never_not_found [OF ap] assms(6) by simp
  next
    case True
    have "a' = a\<lparr>au_sink := JournalSink j'\<rparr>"
      using assms(4,5) put True by (simp add: au_remove_member_def journaled_change_def cif_try_def change_spec_def
          removal_refused not_present_def)
    moreover have "je_payload e = JMemberRemove i" using append_step(3) [OF assms(2) good ap True] by simp
    ultimately show ?thesis
      using append_step(1) [OF assms(2) good ap True] append_bounded [OF assms(2) good ap True] by auto
  qed
qed

text \<open>C32. A refused change can cost the whole log: removing a member that is not declared is written to the log
  before it is checked. The command is answered NOT_FOUND and nothing has changed, but from then on the record
  stops every replay, and no start of a daemon on this log succeeds, whatever its other options.\<close>

theorem rejected_change_poisons_the_log:
  assumes "au_sink a = JournalSink j" "journal_holds j es"
    "replay_journal (map entry_historical es) = (st, Some rc)" "find_member (rc_spec rc) i = None"
    "find_member (au_spec a) i = None" "id_ok i" "am_kind c = AkRemoveMember" "am_member_id c = i"
    "admin_outcome c a = (ScNotFound, text, a')" "so_journal_path p \<noteq> []"
  shows "\<exists>j'. au_sink a' = JournalSink j' \<and> (\<forall>inc io bound ready.
    \<not> ok (fst (start inc (j_file j') io bound ready (new_server p))))"
proof -
  obtain st1 a1 where r: "au_remove_member i a = (st1, a1)" by fastforce
  have admin: "st_code (validate_admin_command c) \<noteq> ScNotFound"
    by (simp add: validate_admin_command_def success_def status_error_def split: option.split prod.split)
  have "st_code st1 = ScNotFound" "a' = a1"
    using assms(7,8,9) r admin
    by (auto simp: admin_outcome_def Let_def apply_admin_def told_def success_def split: if_splits)
  from refused_removal [OF assms(1,2,6,5) r this(1)] obtain j' e where
    j': "au_sink a' = JournalSink j'" "je_payload e = JMemberRemove i" "journal_holds j' (es @ [e])"
      "log_bounded (es @ [e])" using \<open>a' = a1\<close> by auto
  have e: "je_payload (entry_historical e) = JMemberRemove i"
    using j'(2) by (simp add: entry_historical_def payload_historical_def)
  obtain st2 where "replay_journal (map entry_historical (es @ [e])) = (st2, None)"
    using refused_removal_replay [OF assms(3,4) e] by auto
  then show ?thesis using unreadable_log_blocks_start [OF scan_holds [OF j'(3,4)] _ assms(10)] j'(1) by blast
qed

definition demo_journal :: journal where
  "demo_journal = \<lparr>j_open = True, j_file = Some file_header, j_byte_count = 32, j_record_count = 0,
     j_last_sequence = 0, j_chain = 0, j_io = []\<rparr>"

definition demo_removal :: admin_command where
  "demo_removal = (demo_command AkRemoveMember)\<lparr>am_has_expectation := False\<rparr>"

definition journalled_engine :: authority where
  "journalled_engine = (new_authority default_options)\<lparr>au_sink := JournalSink demo_journal\<rparr>"

lemma demo_journal_holds: "journal_holds demo_journal []"
  unfolding demo_journal_def by (rule fresh_holds)

lemma demo_append:
  assumes "kind_of (je_payload e) \<noteq> 0" "length (encode_entry e) \<le> kMaxJournalRecordBytes"
  shows "\<exists>e' j'. journal_append e d demo_journal = (success, e', j')"
  using assms
  by (simp add: demo_journal_def journal_append_def should_compact_def limit_defs write_record_def Let_def cif_try_def
      write_exact_def sync_file_def platform_call_def next_io_def encode_entry_def split: prod.split)

lemma ghost_removal: "st_code (fst (au_remove_member ''ghost'' journalled_engine)) = ScNotFound"
proof -
  let ?e = "\<lparr>je_payload = JMemberRemove ''ghost'', je_sequence = 0, je_tick = 0\<rparr>"
  have "id_ok ''ghost''" by (simp add: id_ok_def is_valid_id_def is_valid_identifier_def limit_defs identifier_char_def)
  then have "length (encode_entry ?e) \<le> kMaxJournalRecordBytes"
    using encode_id_short [of "''ghost''"] by (simp add: encode_entry_def encode_counter_def kMaxJournalRecordBytes_def)
  then obtain e' j' where ap: "journal_append ?e (op_durable (au_options journalled_engine)) demo_journal = (success, e', j')"
    using demo_append [of ?e "op_durable (au_options journalled_engine)"] by auto
  have f: "au_sink journalled_engine = JournalSink demo_journal" "au_spec journalled_engine = empty_spec"
    by (simp_all add: journalled_engine_def new_authority_def)
  have "j_open demo_journal" "sp_tick empty_spec = 0" by (simp_all add: demo_journal_def empty_spec_def)
  then have "journal_put (JMemberRemove ''ghost'') journalled_engine = (success, journalled_engine\<lparr>au_sink := JournalSink j'\<rparr>)"
    using ap by (simp add: journal_put_def journal_entry_def journal_sink_append_def f)
  moreover have "find_member empty_spec ''ghost'' = None"
    by (simp add: find_member_def find_sorted_def empty_spec_def find_index_def present_at_def)
  ultimately show ?thesis
    by (simp add: au_remove_member_def journaled_change_def change_spec_def removal_refused not_present_def f cif_try_def)
qed

theorem rejected_change_poisons_the_log_witness:
  "case admin_outcome demo_removal journalled_engine of (code, text, a') \<Rightarrow> code = ScNotFound
     \<and> (\<exists>j'. au_sink a' = JournalSink j' \<and> (\<forall>inc io bound ready.
          \<not> ok (fst (start inc (j_file j') io bound ready (new_server (daemon_options\<lparr>so_journal_path := ''log''\<rparr>))))))"
proof -
  obtain code t a' where o: "admin_outcome demo_removal journalled_engine = (code, t, a')" by (metis prod_cases3)
  have c: "am_kind demo_removal = AkRemoveMember" "am_member_id demo_removal = ''ghost''" "\<not> am_has_expectation demo_removal"
    by (simp_all add: demo_removal_def demo_command_def)
  have "ok (validate_admin_command demo_removal)"
    by (simp add: validate_admin_command_def admin_subject_def demo_removal_def demo_command_def)
  then have code: "code = ScNotFound"
    using o ghost_removal c
    by (auto simp: admin_outcome_def Let_def apply_admin_def told_def ok_def split: prod.splits if_splits)
  have e: "find_member empty_spec ''ghost'' = None" "id_ok ''ghost''"
    by (simp_all add: find_member_def find_sorted_def empty_spec_def find_index_def present_at_def
        id_ok_def is_valid_id_def is_valid_identifier_def limit_defs identifier_char_def)
  obtain st rc where rc: "replay_journal (map entry_historical []) = (st, Some rc)" "rc_spec rc = empty_spec"
    by (simp add: replay_journal_def empty_recovered_def empty_spec_def)
  have f: "au_sink journalled_engine = JournalSink demo_journal" "au_spec journalled_engine = empty_spec"
    by (simp_all add: journalled_engine_def new_authority_def)
  have "\<exists>j'. au_sink a' = JournalSink j' \<and> (\<forall>inc io bound ready.
      \<not> ok (fst (start inc (j_file j') io bound ready (new_server (daemon_options\<lparr>so_journal_path := ''log''\<rparr>)))))"
    by (rule rejected_change_poisons_the_log [OF f(1) demo_journal_holds rc(1) _ _ e(2) c(1,2) o [unfolded code]])
      (simp_all add: rc(2) f e)
  then show ?thesis by (simp add: o code)
qed

section \<open>A stop that is lost\<close>

lemma queue_emptied: "sv_ingress sv = q \<Longrightarrow> q_items q = [] \<Longrightarrow> sv\<lparr>sv_ingress := q\<lparr>q_items := []\<rparr>\<rparr> = sv"
  by (cases sv; cases q) simp

lemma reducer_stops:
  assumes "working (sv_reducer sv)" "q_items (sv_ingress sv) = xs @ [StopWork]" "StopWork \<notin> set xs"
  shows "reducer_steps banner (length xs + 1) sv
    ((fold (handle_item banner) xs sv)\<lparr>sv_ingress := (sv_ingress sv)\<lparr>q_items := []\<rparr>, sv_reducer := ReducerDone\<rparr>)"
  using assms
proof (induction xs arbitrary: sv)
  case Nil
  have pop: "queue_take (sv_ingress sv) = (Some StopWork, (sv_ingress sv)\<lparr>q_items := []\<rparr>)" "queue_ready (sv_ingress sv)"
    using Nil.prems(2) by (simp_all add: queue_take_def queue_ready_def)
  then have "reducer_step banner sv = Some (sv\<lparr>sv_ingress := (sv_ingress sv)\<lparr>q_items := []\<rparr>, sv_reducer := ReducerDone\<rparr>)"
    using Nil.prems(1,2) by (cases "sv_reducer sv")
      (auto simp: reducer_step_def take_item_def queue_pop_wait_for_def queue_pop_wait_def queue_try_pop_def working_def)
  from reducer_steps_Suc [OF this, of 0] show ?case by simp
next
  case (Cons x xs)
  obtain p where p: "working p" "reducer_step banner sv
      = Some ((handle_item banner x sv)\<lparr>sv_ingress := (sv_ingress sv)\<lparr>q_items := xs @ [StopWork]\<rparr>, sv_reducer := p\<rparr>)"
    using reducer_pops [OF Cons.prems(1), of x "xs @ [StopWork]" banner] Cons.prems(2,3) by auto
  let ?sv1 = "(handle_item banner x sv)\<lparr>sv_ingress := (sv_ingress sv)\<lparr>q_items := xs @ [StopWork]\<rparr>, sv_reducer := p\<rparr>"
  have "reducer_steps banner (length xs + 1) ?sv1
      ((fold (handle_item banner) xs ?sv1)\<lparr>sv_ingress := (sv_ingress ?sv1)\<lparr>q_items := []\<rparr>, sv_reducer := ReducerDone\<rparr>)"
    by (rule Cons.IH) (use p(1) Cons.prems(3) in simp_all)
  from reducer_steps_Suc [OF p(2) this] show ?case by (simp add: handle_all_commutes)
qed

text \<open>Without a stop item in its open queue the reducer never returns.\<close>

definition unstopped :: "server \<Rightarrow> bool" where
  "unstopped sv = (working (sv_reducer sv) \<and> StopWork \<notin> set (q_items (sv_ingress sv)) \<and> \<not> q_closed (sv_ingress sv))"

lemma unstopped_step:
  assumes "unstopped sv" "reducer_step banner sv = Some sv'"
  shows "unstopped sv'"
proof (cases "q_items (sv_ingress sv)")
  case Nil
  then show ?thesis using assms housekeeping_same [of sv]
    by (auto simp: unstopped_def reducer_step_def working_def queue_pop_wait_for_def queue_pop_wait_def queue_try_pop_def
        queue_take_def queue_ready_def split: reducer_phase.splits if_splits)
next
  case (Cons x xs)
  then obtain p where "working p" "sv' = (handle_item banner x sv)\<lparr>sv_ingress := (sv_ingress sv)\<lparr>q_items := xs\<rparr>, sv_reducer := p\<rparr>"
    using reducer_pops [of sv x xs banner] assms by (auto simp: unstopped_def)
  then show ?thesis using assms(1) Cons by (simp add: unstopped_def)
qed

lemma unstopped_steps: "reducer_steps banner n sv sv' \<Longrightarrow> unstopped sv \<Longrightarrow> unstopped sv'"
  unfolding reducer_steps_def by (induction n arbitrary: sv') (auto intro: unstopped_step)

text \<open>C34. A stop reaches the reducer exactly when the queue has room for it. With room, the reducer works off
  what was accepted and returns; with a full queue the stop item is dropped, and the thread that stops the daemon
  waits for a reducer that never returns, however long it runs.\<close>

theorem stop_needs_room:
  assumes "working (sv_reducer sv)" "StopWork \<notin> set (q_items (sv_ingress sv))" "\<not> q_closed (sv_ingress sv)"
  shows "(\<exists>n sv'. reducer_steps banner n (stop_reducer sv) sv' \<and> sv_reducer sv' = ReducerDone)
    \<longleftrightarrow> length (q_items (sv_ingress sv)) < q_capacity (sv_ingress sv)"
proof
  assume room: "length (q_items (sv_ingress sv)) < q_capacity (sv_ingress sv)"
  have "q_items (sv_ingress (stop_reducer sv)) = q_items (sv_ingress sv) @ [StopWork]" "working (sv_reducer (stop_reducer sv))"
    using room assms(1,3) by (simp_all add: stop_reducer_def queue_push_def)
  from reducer_stops [OF this(2,1) assms(2)]
  show "\<exists>n sv'. reducer_steps banner n (stop_reducer sv) sv' \<and> sv_reducer sv' = ReducerDone" by fastforce
next
  assume "\<exists>n sv'. reducer_steps banner n (stop_reducer sv) sv' \<and> sv_reducer sv' = ReducerDone"
  then obtain n sv' where run: "reducer_steps banner n (stop_reducer sv) sv'" "sv_reducer sv' = ReducerDone" by blast
  show "length (q_items (sv_ingress sv)) < q_capacity (sv_ingress sv)"
  proof (rule ccontr)
    assume "\<not> ?thesis"
    then have "unstopped (stop_reducer sv)" using assms by (simp add: unstopped_def stop_reducer_def queue_push_def)
    from unstopped_steps [OF run(1) this] run(2) show False by (simp add: unstopped_def working_def)
  qed
qed

definition full_daemon :: server where
  "full_daemon = demo_pinged\<lparr>sv_ingress := (sv_ingress demo_pinged)\<lparr>q_capacity := 1, q_closed := False\<rparr>\<rparr>"

theorem stop_needs_room_witness:
  "\<not> (\<exists>n sv'. reducer_steps [] n (stop_reducer full_daemon) sv' \<and> sv_reducer sv' = ReducerDone)"
  using stop_needs_room [of full_daemon "[]"] by (simp add: full_daemon_def demo_pinged_frame working_def)

section \<open>A restart that is not durable\<close>

lemma memory_event:
  assumes "in_memory (au_sink a)"
  shows "in_memory (au_sink (apply_event e a))"
proof (cases "e = EvCompact")
  case True
  then show ?thesis using assms by (cases "au_sink a") (simp_all add: maybe_compact_def in_memory_def)
next
  case False
  then show ?thesis using wr_plain_event [OF False, of a] writes_in_memory assms by (auto simp: wr_def)
qed

lemma memory_moved:
  assumes "moved a a'" "in_memory (au_sink a)"
  shows "in_memory (au_sink a')"
proof -
  have "in_memory (au_sink (fold apply_event es a))" for es
    using assms(2) by (induction es arbitrary: a) (simp_all add: memory_event)
  moreover have "in_memory (au_sink (snd (submit q a)))" for q using memory_event [OF assms(2), of "EvSubmit q"] by simp
  moreover have "au_sink a \<noteq> JournalSink j" for j using assms(2) by (auto simp: in_memory_def)
  ultimately show ?thesis using assms(1) by (auto simp: moved_def led_def)
qed

lemma close_keeps_file: "j_file (snd (journal_close j)) = j_file j"
  by (auto simp: journal_close_def sync_file_def platform_call_def next_io_def split: list.split option.split)

lemma handle_journal [simp]: "sv_journal (handle_item banner item sv) = sv_journal sv"
  by (auto simp: handle_item_def process_def answer_local_def split: work_item.split option.split sum.split prod.split)

lemma reducer_journal: "reducer_step banner sv = Some sv' \<Longrightarrow> sv_journal sv' = sv_journal sv"
  by (auto simp: reducer_step_def take_item_def housekeeping_def Let_def split: reducer_phase.splits if_splits option.splits prod.splits)

lemma memory_close_log:
  "sv_core sv = Some a \<Longrightarrow> in_memory (au_sink a) \<Longrightarrow>
   map_option j_file (sv_journal (close_log sv)) = map_option j_file (sv_journal sv)"
  by (cases "sv_journal sv") (auto simp: close_log_def in_memory_def close_keeps_file split: sink.splits)

lemma step_journal:
  assumes "daemon_step banner sv sv'" "sv_core sv = Some a" "in_memory (au_sink a)"
  shows "map_option j_file (sv_journal sv') = map_option j_file (sv_journal sv)"
  using assms
proof (cases rule: daemon_step.cases)
  case step_reducer
  then show ?thesis using reducer_journal by simp
next
  case (step_reply i c sent out)
  then show ?thesis by (auto simp: serve_reply_def Let_def split: option.splits sum.splits if_splits)
next
  case step_stop
  then show ?thesis using memory_close_log [of "sv\<lparr>sv_running := False\<rparr>" a] assms(2,3) by (auto simp: stop_begin_def)
next
  case step_stop_finish
  then show ?thesis
    using memory_close_log [of "sv\<lparr>sv_reducer := ReducerAbsent, sv_ingress := queue_close (sv_ingress sv)\<rparr>" a] assms(2,3)
    by (simp add: stop_finish_def)
qed (auto simp: accept_connection_def reap_finished_def serve_frame_def serve_failure_def request_local_def
      stop_reducer_def Let_def split: prod.splits bool.splits if_splits)

lemma memory_steps:
  assumes "(daemon_step banner ^^ n) sv sv'" "sv_core sv = Some a" "in_memory (au_sink a)"
  shows "map_option j_file (sv_journal sv') = map_option j_file (sv_journal sv)
    \<and> (\<exists>a'. sv_core sv' = Some a' \<and> in_memory (au_sink a'))"
  using assms
proof (induction n arbitrary: sv')
  case (Suc n)
  then obtain sv1 a1 where s: "(daemon_step banner ^^ n) sv sv1" "daemon_step banner sv1 sv'"
    "map_option j_file (sv_journal sv1) = map_option j_file (sv_journal sv)" "sv_core sv1 = Some a1" "in_memory (au_sink a1)"
    by (metis relpowp_Suc_E)
  then show ?case using step_core [OF s(2,4)] memory_moved step_journal [OF s(2,4,5)] by fastforce
qed simp

text \<open>What a start finds in a log with a controller.\<close>

lemma scan_loop_report:
  "scan_loop bs offset chain expected entries report = (es, r) \<Longrightarrow> offset \<le> rr_valid_bytes r"
proof (induction bs offset chain expected entries report rule: scan_loop.induct)
  case (1 bs offset chain expected entries report)
  show ?case
  proof (cases "offset < length bs")
    case True
    show ?thesis
    proof (cases "scan_record bs offset chain expected report")
      case (Inl r')
      then show ?thesis using 1(2) True by (auto simp: scan_loop.simps [of bs offset] Let_def)
    next
      case (Inr y)
      obtain e c s o' where y: "y = (e, c, s, o')" by (metis prod_cases4)
      have "scan_loop bs o' c s (entries @ [e]) report = (es, r)"
        using 1(2) True Inr y by (simp add: scan_loop.simps [of bs offset])
      then show ?thesis using 1(1) [OF refl True Inr [unfolded y] refl refl refl] scan_record_advances Inr y by fastforce
    qed
  qed (use 1(2) in \<open>auto simp: scan_loop.simps [of bs offset] Let_def\<close>)
qed

lemma scanned_log:
  assumes "journal_scan log = (st, es, report)" "ok st" "\<not> rr_fresh report"
  obtains f where "log = Some f" "f \<noteq> []" "0 < rr_valid_bytes report"
proof -
  obtain f where f: "log = Some f" using assms(1,3) by (cases log) (auto simp: journal_scan_def)
  have l: "scan_loop f 32 0 0 [] (empty_report\<lparr>rr_file_present := True\<rparr>) = (es, report)" "f \<noteq> []"
    using assms f by (auto simp: journal_scan_def Let_def split: if_splits)
  show ?thesis using that [OF f l(2)] scan_loop_report [OF l(1)] by simp
qed

lemma open_existing:
  assumes "journal_open n False c s ((fresh_journal io)\<lparr>j_file := Some f\<rparr>) = (st, j)" "ok st" "f \<noteq> []" "0 < n"
  shows "j_file j = Some (take n f)"
  using assms
  by (auto simp: journal_open_def journal_close_def open_raw_def fresh_journal_def file_bytes_def platform_call_def next_io_def
      cif_try_def Let_def split: list.splits option.splits if_splits)

lemma recovered_start:
  assumes "open_state inc log io sv = (st, sv')" "ok st" "\<not> rr_fresh (sv_recovery sv')"
  shows "\<exists>a j. sv_core sv' = Some a \<and> in_memory (au_sink a) \<and> sv_journal sv' = Some j
    \<and> j_file j = map_option (take (rr_valid_bytes (sv_recovery sv'))) log"
proof -
  have path: "so_journal_path (sv_options sv) \<noteq> []"
    using assms by (auto simp: open_state_def Let_def cif_try_def split: prod.splits if_splits)
  obtain scanned entries report replayed rc opened j where o: "journal_scan log = (scanned, entries, report)" "ok scanned"
    "journal_open (rr_valid_bytes report) (rr_fresh report) (rr_last_chain report)
        (rr_last_sequence report) ((fresh_journal io)\<lparr>j_file := log\<rparr>) = (opened, j)" "ok opened"
    "take_rule inc rc report j (sv\<lparr>sv_recovery := report, sv_journal := Some j\<rparr>) = (st, sv')"
    by (rule open_state_durable [OF assms(1,2) path])
  have rule_known: "rc_has_controller rc"
    using o(5) assms(2,3) by (auto simp: take_rule_def Let_def cif_try_def split: prod.splits if_splits)
  obtain st1 a where r: "recover (rc_spec rc) (rc_contracts rc) (rc_grants rc) (rc_attempts rc) (rc_counters rc)
      report inc (if rc_tick rc = 0 then 1 else rc_tick rc + 1) (new_authority (so_authority (sv_options sv))) = (st1, a)"
    by fastforce
  have sv': "sv' = sv\<lparr>sv_recovery := report, sv_journal := Some j, sv_core := Some a\<rparr>"
    using o(5) assms(2) rule_known r by (auto simp: take_rule_def Let_def split: if_splits)
  have "in_memory (au_sink (new_authority p))" for p by (simp add: new_authority_def in_memory_def)
  then have memory: "in_memory (au_sink a)"
    using wr_recover [of "new_authority (so_authority (sv_options sv))" "rc_spec rc" "rc_contracts rc" "rc_grants rc"
        "rc_attempts rc" "rc_counters rc" report inc "if rc_tick rc = 0 then 1 else rc_tick rc + 1"] writes_in_memory
    unfolding r wr_def by fastforce
  have fresh: "\<not> rr_fresh report" using assms(3) sv' by simp
  obtain f where f: "log = Some f" "f \<noteq> []" "0 < rr_valid_bytes report" by (rule scanned_log [OF o(1,2) fresh])
  have "j_file j = Some (take (rr_valid_bytes report) f)"
    by (rule open_existing [OF _ o(4) f(2,3)]) (use o(3) f(1) fresh in simp)
  then show ?thesis using memory f(1) by (simp add: sv')
qed

text \<open>C31. A restarted daemon is not durable. Once it has recovered a controller from its log, the daemon reports itself
  durable for as long as it runs, but whatever it is asked to do and however its threads interleave, its log file
  stays the valid part of what it found: no grant, no release and no change reaches it, so the next start knows
  nothing of this one.\<close>

theorem restarted_daemon_is_not_durable:
  assumes "start inc log io bound ready (new_server p) = (st, sv)" "ok st" "\<not> rr_fresh (sv_recovery sv)"
    "(daemon_step banner ^^ n) sv sv'"
  shows "us_durable (server_status_of port sv') \<and> (\<exists>j. server_log sv' = Some j
    \<and> j_file j = map_option (take (rr_valid_bytes (sv_recovery sv))) log)"
proof -
  obtain st1 sv1 where o: "open_state inc log io ((new_server p)\<lparr>sv_stop := False,
      sv_ingress := queue_reset (sv_ingress (new_server p))\<rparr>) = (st1, sv1)"
    "ok st1" "sv = sv1\<lparr>sv_running := True, sv_reducer := ReducerWaiting\<rparr>"
    by (rule start_cases [OF assms(1,2)])
  obtain a j where s: "sv_core sv = Some a" "in_memory (au_sink a)" "sv_journal sv = Some j"
    "j_file j = map_option (take (rr_valid_bytes (sv_recovery sv))) log"
    using recovered_start [OF o(1,2)] assms(3) by (auto simp: o(3))
  from memory_steps [OF assms(4) s(1,2)] obtain a' j' where
    e: "sv_core sv' = Some a'" "in_memory (au_sink a')" "sv_journal sv' = Some j'" "j_file j' = j_file j"
    using s(3) by auto
  then show ?thesis using s(4)
    by (auto simp: server_status_of_def server_durable_def server_log_def in_memory_def split: sink.splits)
qed

definition controller_entry :: entry where
  "controller_entry = \<lparr>je_payload = JSetController \<lparr>cm_cluster_id = ''c'', cm_cluster_generation = 0, cm_epoch = 0,
     cm_policy_generation = 0, cm_incarnation = replicate 16 0\<rparr>, je_sequence = 0, je_tick = 1\<rparr>"

definition ruled_log :: bytes where
  "ruled_log = file_header @ log_frames 0 [controller_entry]"

definition ruled_daemon :: server where
  "ruled_daemon = snd (start [] (Some ruled_log) [] success success (new_server (daemon_options\<lparr>so_journal_path := ''log''\<rparr>)))"

lemma ruled_log_scan:
  "journal_scan (Some ruled_log) = (success, [controller_entry],
     scan_report (length ruled_log) (chain_after 0 [controller_entry]) [controller_entry] (empty_report\<lparr>rr_file_present := True\<rparr>))"
proof -
  have i: "id_ok ''c''" by (simp add: id_ok_def is_valid_id_def is_valid_identifier_def limit_defs identifier_char_def)
  have small: "length (encode_entry controller_entry) \<le> 400"
    using encode_id_short [OF i] by (simp add: encode_entry_def controller_entry_def encode_controller_mark_def
        encode_counter_def encode_incarnation_def w_raw_def)
  then have "entry_ok controller_entry" using i
    by (simp add: entry_ok_def limit_defs) (simp add: controller_entry_def controller_mark_ok_def)
  moreover have "length ruled_log \<le> kMaxScanBytes" using small
    by (simp add: ruled_log_def length_frame length_file_header kMaxScanBytes_def kMaxJournalBytes_def)
  moreover have "contiguous 0 [controller_entry]" by (simp add: controller_entry_def)
  ultimately show ?thesis
    using scan_clean_log [of "[controller_entry]"] length_file_header
    by (simp add: ruled_log_def entry_historical_def payload_historical_def controller_entry_def)
qed

lemma ruled_start:
  "start [] (Some ruled_log) [] success success (new_server (daemon_options\<lparr>so_journal_path := ''log''\<rparr>)) = (success, ruled_daemon)"
  "\<not> rr_fresh (sv_recovery ruled_daemon)"
proof -
  have ne: "ruled_log \<noteq> []" using length_file_header by (auto simp: ruled_log_def)
  define sv0 where "sv0 = (new_server (daemon_options\<lparr>so_journal_path := ''log''\<rparr>))\<lparr>sv_stop := False,
      sv_ingress := queue_reset (sv_ingress (new_server (daemon_options\<lparr>so_journal_path := ''log''\<rparr>)))\<rparr>"
  have p: "so_journal_path (sv_options sv0) = ''log''" "so_cluster_id (sv_options sv0) = ''c''"
    by (simp_all add: sv0_def new_server_def clamp_server_options_def daemon_options_def)
  obtain rc where rc: "replay_journal [controller_entry] = (success, Some rc)" "rc_has_controller rc"
    "sp_cluster_id (rc_spec rc) = ''c''" "rc_grants rc = []" "sp_generation (rc_spec rc) = 0" "sp_epoch (rc_spec rc) = 0"
    by (simp add: replay_journal_def controller_entry_def on_spec_def set_cluster_id_def empty_recovered_def empty_spec_def
        set_tick_def restore_counters_def set_policy_generation_def set_incarnation_def note_revision_def)
  let ?r = "scan_report (length ruled_log) (chain_after 0 [controller_entry]) [controller_entry] (empty_report\<lparr>rr_file_present := True\<rparr>)"
  have fresh: "\<not> rr_fresh ?r" by (simp add: scan_report_def empty_report_def)
  obtain j where j: "journal_open (rr_valid_bytes ?r) False (rr_last_chain ?r) (rr_last_sequence ?r)
      ((fresh_journal [])\<lparr>j_file := Some ruled_log\<rparr>) = (success, j)"
    using ne by (simp add: journal_open_def journal_close_def open_raw_def fresh_journal_def file_bytes_def platform_call_def
        next_io_def cif_try_def Let_def scan_report_def)
  obtain st a where r: "recover (rc_spec rc) (rc_contracts rc) (rc_grants rc) (rc_attempts rc) (rc_counters rc)
      ?r [] (if rc_tick rc = 0 then 1 else rc_tick rc + 1) (new_authority (so_authority (sv_options sv0))) = (st, a)"
    by fastforce
  have "ok (fst (recover (rc_spec rc) (rc_contracts rc) (rc_grants rc) (rc_attempts rc) (rc_counters rc)
      ?r [] (if rc_tick rc = 0 then 1 else rc_tick rc + 1) (new_authority (so_authority (sv_options sv0)))))"
    using rc(3,5,6) unfolding recover_def Let_def
    by (simp add: cif_try_fst_ok change_spec_def begin_epoch_def can_advance_def adopt_def adopt_serials_def Let_def
        set_tick_def note_revision_def journal_put_def journal_entry_def null_append_def new_authority_def)
  then have st: "st = success" using plain_recover r unfolding plain_def by (metis fst_conv)
  have o: "open_state [] (Some ruled_log) [] sv0 = (success, sv0\<lparr>sv_recovery := ?r, sv_journal := Some j, sv_core := Some a\<rparr>)"
    using p rc(1,2,3) fresh j r st by (simp add: open_state_def ruled_log_scan take_rule_def)
  have run: "start [] (Some ruled_log) [] success success (new_server (daemon_options\<lparr>so_journal_path := ''log''\<rparr>))
      = (success, sv0\<lparr>sv_recovery := ?r, sv_journal := Some j, sv_core := Some a, sv_running := True, sv_reducer := ReducerWaiting\<rparr>)"
    using o by (simp add: start_def sv0_def new_server_def cif_try_def)
  then show "start [] (Some ruled_log) [] success success (new_server (daemon_options\<lparr>so_journal_path := ''log''\<rparr>)) = (success, ruled_daemon)"
    by (simp add: ruled_daemon_def)
  show "\<not> rr_fresh (sv_recovery ruled_daemon)" using fresh by (simp add: ruled_daemon_def run)
qed

theorem restarted_daemon_is_not_durable_witness:
  "case request_local 1 (MAdmin (demo_command AkExpireLeases)) ruled_daemon of (st, sv') \<Rightarrow>
     us_durable (server_status_of 0 sv')
     \<and> (\<exists>j. server_log sv' = Some j \<and> j_file j = Some (take (rr_valid_bytes (sv_recovery ruled_daemon)) ruled_log))"
proof -
  obtain st sv' where l: "request_local 1 (MAdmin (demo_command AkExpireLeases)) ruled_daemon = (st, sv')" by fastforce
  then have "daemon_step [] ruled_daemon sv'"
    using step_local [of "[]" ruled_daemon 1 "MAdmin (demo_command AkExpireLeases)"] by simp
  then have "(daemon_step [] ^^ 1) ruled_daemon sv'" unfolding relpowp_1 .
  from restarted_daemon_is_not_durable [OF ruled_start(1) ok_success ruled_start(2) this]
  show ?thesis by (simp only: l prod.case option.map)
qed

end
