(* ===== verification/Cancel_Faults.thy ===== *)
theory Cancel_Faults
  imports Daemon_Faults
begin

text \<open>
  What a long cancel reason does to the log. A reason of a cancel request may have 512 bytes
  (\<^verbatim>\<open>CancelRequest::validate_shape\<close>, \<^verbatim>\<open>src/request.cpp\<close>), the detail of a reduction of a grant, where cancel
  puts it, at most 256 (\<^verbatim>\<open>decode_reasons\<close>, \<^verbatim>\<open>src/grant.cpp\<close>): the record is written and acknowledged, but no
  reader accepts it. The relation \<open>fails p bs\<close>, the counterpart of \<open>reads\<close>, says that \<open>p\<close> refuses any
  input that begins with \<open>bs\<close>.
\<close>

section \<open>Readers that refuse\<close>

definition fails :: "'a rd \<Rightarrow> bytes \<Rightarrow> bool" where
  "fails p bs = (\<forall>r suf. ok (rd_failure r) \<and> rd_offset r \<le> length (rd_data r)
      \<and> drop (rd_offset r) (rd_data r) = bs @ suf \<longrightarrow> fst (p r) = None)"

lemma fails_fail: "fails (rd_fail c m) bs"
  by (simp add: fails_def rd_fail_def)

lemma fails_here: "fails m a \<Longrightarrow> fails (rd_bind m f) (a @ b)"
  by (auto simp: fails_def rd_bind_def split: option.split prod.split)

lemma fails_after:
  assumes "reads m a x" "fails (f x) b"
  shows "fails (rd_bind m f) (a @ b)"
  unfolding fails_def
proof (intro allI impI, elim conjE)
  fix r :: reader and suf
  assume *: "ok (rd_failure r)" "rd_offset r \<le> length (rd_data r)" "drop (rd_offset r) (rd_data r) = (a @ b) @ suf"
  let ?r = "r\<lparr>rd_offset := rd_offset r + length a\<rparr>"
  have d: "drop (rd_offset ?r) (rd_data ?r) = b @ suf"
    using arg_cong [OF *(3), of "drop (length a)"] by (simp add: add.commute)
  have l: "rd_offset ?r \<le> length (rd_data ?r)"
    using arg_cong [OF *(3), of length] *(2) unfolding length_drop length_append by simp
  have "m r = (Some x, ?r)" using assms(1) * by (auto simp: reads_def)
  moreover have "fst (f x ?r) = None" using assms(2) d l *(1) unfolding fails_def by auto
  ultimately show "fst (rd_bind m f r) = None" by (simp add: rd_bind_def)
qed

lemma fails_here_all: "fails m a \<Longrightarrow> fails (rd_bind m f) a"
  using fails_here [of m a f "[]"] by simp

lemma fails_map: "fails p bs \<Longrightarrow> fails (rd_map f p) bs"
  by (simp add: rd_map_def fails_here_all)

lemma fails_times:
  assumes "\<And>x. x \<in> set xs \<Longrightarrow> reads p (w x) x" "fails p (w y)"
  shows "fails (rd_times (Suc (length xs)) p) (concat (map w xs) @ w y)"
  using assms(1)
proof (induction xs)
  case Nil
  then show ?case using assms(2) by (simp add: fails_here_all)
next
  case (Cons x xs)
  then have "fails (rd_times (Suc (length xs)) p) (concat (map w xs) @ w y)" by simp
  then have "fails (rd_bind p (\<lambda>x. rd_bind (rd_times (Suc (length xs)) p) (\<lambda>xs. rd_return (x # xs))))
      (w x @ concat (map w xs) @ w y)"
    using Cons.prems by (intro fails_after [of p "w x" x] fails_here_all) auto
  then show ?case by simp
qed

lemma fails_run: "fails p bs \<Longrightarrow> \<exists>r. p (reader_of (bs @ suf)) = (None, r)"
  unfolding fails_def
  by (cases "p (reader_of (bs @ suf))", drule spec [of _ "reader_of (bs @ suf)"])
    (auto simp: reader_of_def ok_def success_def)

section \<open>A reason that is too long\<close>

lemma fails_text: "m < length s \<Longrightarrow> length s < 2 ^ 64 \<Longrightarrow> fails (rd_text m) (w_text s)"
  unfolding rd_text_def w_text_def
  by (rule fails_after [OF reads_varint]) (simp add: unat_of_nat fails_fail)

definition overlong :: "reason \<Rightarrow> bool" where
  "overlong r = (kMaxReasonDetailBytes < length (rs_detail r) \<and> length (rs_detail r) < 2 ^ 64)"

lemma fails_reason: "overlong r \<Longrightarrow> fails decode_reason (encode_reason r)"
  unfolding decode_reason_def encode_reason_def overlong_def
  by (rule fails_after, (rule reads_intros; simp), rule fails_here_all, rule fails_text) simp_all

lemma fails_reasons:
  assumes "reasons_ok xs" "length xs < kMaxReasons" "overlong y"
  shows "fails decode_reasons (encode_reasons (xs @ [y]))"
proof -
  have enc: "encode_reasons (xs @ [y]) = w_count (Suc (length xs)) @ concat (map encode_reason xs) @ encode_reason y"
    using assms(2) by (cases "Suc (length xs) = kMaxReasons") (simp_all add: encode_reasons_def)
  have "fails (rd_times (Suc (length xs)) decode_reason) (concat (map encode_reason xs) @ encode_reason y)"
    using assms(1) by (intro fails_times fails_reason [OF assms(3)]) (auto simp: reasons_ok_def list_all_iff intro: reads_reason)
  then show ?thesis unfolding decode_reasons_def enc
    by (rule fails_after [OF reads_count, rotated 2]) (use assms(2) in \<open>simp_all add: limit_defs\<close>)
qed

lemma fails_grant:
  "grant_ok (x\<lparr>gr_reductions := []\<rparr>) \<Longrightarrow> fails decode_reasons (encode_reasons (gr_reductions x)) \<Longrightarrow>
   fails decode_grant (encode_grant x)"
  unfolding decode_grant_def encode_grant_def grant_ok_def
  by ((rule fails_after, (rule reads_raw_digest reads_intros; (simp add: limit_defs; fail)))+,
      intro fails_here, simp)

lemma fails_terminal:
  assumes "fails decode_grant (encode_grant (gm_grant m))" "je_payload e = JGrantTerminal m"
  shows "fails (decode_entry (kind_of (je_payload e)) n) (encode_entry e)"
  using assms unfolding decode_entry_def encode_entry_def
  by (simp add: decode_payload_def)
    (rule fails_after, rule reads_intros, rule fails_here_all, rule fails_map,
      simp add: decode_grant_mark_def encode_grant_mark_def fails_here)

section \<open>A record no reader accepts\<close>

text \<open>What the log accepts as a record, whether it can be decoded or not.\<close>

lemma scan_undecodable:
  assumes "kind_of (je_payload e) \<noteq> 0" "length (encode_entry e) \<le> kMaxJournalRecordBytes"
    "fails (decode_entry (kind_of (je_payload e)) (je_sequence e)) (encode_entry e)"
    "drop offset bs = frame e chain @ suf" "je_sequence e = expected"
  shows "\<exists>r. scan_record bs offset chain expected report = Inl r \<and> rr_integrity_failure r
    \<and> rr_fresh r = rr_fresh report"
proof -
  let ?p = "encode_entry e" and ?k = "kind_of (je_payload e)"
  let ?c = "record_chain_crc chain ?p"
  let ?h = "record_header ?k (je_sequence e) ?p ?c"
  have rest: "drop offset bs = ?h @ ?p @ w_u32 (crc32c ?p) @ suf"
    using assms(4) by (simp add: frame_def Let_def)
  have n: "unat (of_nat (length ?p) :: u32) = length ?p"
    using assms(2) by (simp add: unat_of_nat kMaxJournalRecordBytes_def)
  have hd: "fst (read_head (reader_of (?h @ ?p @ w_u32 (crc32c ?p) @ suf))) = Some (head_of ?k (je_sequence e) ?p ?c)"
    using reads_run [OF reads_head] by (metis fst_conv)
  have pl: "take (length ?p) (drop 28 (?h @ ?p @ w_u32 (crc32c ?p) @ suf)) = ?p"
    by (simp add: length_header)
  have cr: "take 4 (drop (28 + length ?p) (?h @ ?p @ w_u32 (crc32c ?p) @ suf)) = w_u32 (crc32c ?p) @ []"
    by (simp add: length_header)
  have crc: "fst (rd_u32 (reader_of (w_u32 (crc32c ?p) @ []))) = Some (crc32c ?p)"
    by (simp only: reads_run [OF reads_u32] fst_conv)
  obtain r where dec: "decode_entry ?k (je_sequence e) (reader_of ?p) = (None, r)"
    using fails_run [OF assms(3), of "[]"] by auto
  have known: "is_known_kind (of_nat ?k)"
    using kind_bound [of "je_payload e"] assms(1) unat_kind [of "je_payload e"]
    by (simp add: is_known_kind_def word_le_nat_alt)
  show ?thesis
    unfolding assms(5) [symmetric] scan_record_def Let_def rest hd option.case head_of_def
      record_head.select_convs n unat_kind pl cr crc take_header
    using dec known assms(2)
    by (simp add: length_header scan_stop_def flag_integrity_def kMaxJournalRecordBytes_def)
qed

lemma undecodable_cuts_the_log:
  assumes "journal_holds j es" "kind_of (je_payload e) \<noteq> 0" "length (encode_entry e) \<le> kMaxJournalRecordBytes"
    "\<And>n. fails (decode_entry (kind_of (je_payload e)) n) (encode_entry e)" "je_sequence e = of_nat (length es)"
    "bs = file_header @ log_frames 0 es @ frame e (chain_after 0 es) @ tail" "length bs \<le> kMaxScanBytes"
  shows "\<exists>r. journal_scan (Some bs) = (success, map entry_historical es, r) \<and> rr_integrity_failure r"
proof -
  let ?off = "32 + length (log_frames 0 es)"
  have H: "contiguous 0 es" "list_all entry_ok es" using assms(1) by (simp_all add: journal_holds_def)
  have at_off: "drop ?off bs = frame e (chain_after 0 es) @ tail" by (simp add: assms(6) length_file_header)
  obtain r where r: "scan_record bs ?off (chain_after 0 es) (of_nat (length es))
      (empty_report\<lparr>rr_file_present := True\<rparr>) = Inl r" "rr_integrity_failure r"
    using scan_undecodable [OF assms(2,3,4) at_off assms(5)] by blast
  have lt: "?off < length bs" by (simp add: assms(6) length_file_header length_frame)
  have loop: "scan_loop bs ?off (chain_after 0 es) (of_nat (length es)) (map entry_historical es)
      (empty_report\<lparr>rr_file_present := True\<rparr>) = (map entry_historical es, scan_report ?off (chain_after 0 es) es r)"
    by (subst scan_loop.simps) (simp only: lt r(1) if_True sum.case Let_def scan_report_def length_map)
  have "journal_scan (Some bs) = (success, map entry_historical es, scan_report ?off (chain_after 0 es) es r)"
    using scan_log [OF H(2,1), of "frame e (chain_after 0 es) @ tail"] assms(7) unfolding assms(6) [symmetric] loop .
  then show ?thesis using r(2) by (simp add: scan_report_def)
qed

section \<open>Files only grow\<close>

definition grown :: "journal \<Rightarrow> journal \<Rightarrow> bool" where
  "grown j j' = (\<exists>t. file_bytes j' = file_bytes j @ t)"

lemma grown_refl: "file_bytes j' = file_bytes j \<Longrightarrow> grown j j'"
  by (simp add: grown_def)

lemma grown_trans: "grown j k \<Longrightarrow> grown k l \<Longrightarrow> grown j l"
  by (auto simp: grown_def)

lemma grown_try:
  "grown j (snd m) \<Longrightarrow> (\<And>k. grown j k \<Longrightarrow> grown j (snd (f k))) \<Longrightarrow> grown j (snd (cif_try m f))"
  by (cases m) (auto simp: cif_try_def)

lemma write_exact_grown: "grown j (snd (write_exact d j))"
  by (auto simp: write_exact_def grown_def next_io_def file_bytes_def split: prod.split list.split option.split if_splits)

lemma sync_grown: "grown j (snd (if d then sync_file j else (success, j)))"
  by (auto simp: sync_file_def platform_call_def grown_def next_io_def file_bytes_def split: prod.split list.split option.split)

lemma write_record_grown: "grown j (snd (write_record e d j))"
proof -
  have w: "grown j (snd (write_exact xs k))" if "grown j k" for xs k
    using grown_trans [OF that write_exact_grown] .
  have y: "grown j (snd (if d then sync_file k else (success, k)))" if "grown j k" for k
    using grown_trans [OF that sync_grown] .
  have z: "grown j (snd (success, k\<lparr>j_byte_count := b, j_record_count := n, j_last_sequence := s, j_chain := c\<rparr>))"
    if "grown j k" for k b n s c using that by (simp add: grown_def file_bytes_def)
  have r: "grown j j" by (simp add: grown_refl)
  have "grown j (snd (cif_try (write_exact h j) (\<lambda>k. cif_try (write_exact p k) (\<lambda>k. cif_try (write_exact t k) (\<lambda>k.
      cif_try (if d then sync_file k else (success, k)) (\<lambda>k.
      (success, k\<lparr>j_byte_count := j_byte_count k + length h + length p + length t, j_record_count := j_record_count k + 1,
         j_last_sequence := s, j_chain := c\<rparr>)))))))" for h p t s c
    by (intro grown_try w y z r)
  then show ?thesis unfolding write_record_def Let_def using r by (simp only: snd_conv split: if_split) simp
qed

lemma append_grown: "journal_append e d j = (st, e', j') \<Longrightarrow> grown j j'"
  using write_record_grown [of j "e\<lparr>je_sequence := j_last_sequence j\<rparr>" d]
  by (auto simp: journal_append_def Let_def grown_refl split: if_splits prod.splits)

lemma append_all_grown: "append_all es acked j = (st, acked', j') \<Longrightarrow> grown j j'"
proof (induction es arbitrary: acked j)
  case (Cons x es)
  obtain st1 e1 j1 where a: "journal_append (fst x) (snd x) j = (st1, e1, j1)" by (metis prod_cases3)
  show ?case using Cons a append_grown [OF a]
    by (cases x) (auto split: if_splits intro: grown_trans)
qed (simp add: grown_refl)

section \<open>Cancelling\<close>

lemma append_accepted:
  assumes "j_open j" "j_file j = Some f" "journal_append e d j = (st, e', j')" "ok st"
  shows "j_file j' = Some (f @ frame e' (j_chain j))" "e' = e\<lparr>je_sequence := j_last_sequence j\<rparr>"
    "kind_of (je_payload e') \<noteq> 0" "length (encode_entry e') \<le> kMaxJournalRecordBytes"
proof -
  have w: "write_record e' d j = (st, j')" "e' = e\<lparr>je_sequence := j_last_sequence j\<rparr>"
    using assms(3,4) by (auto simp: journal_append_def Let_def split: if_splits prod.splits)
  have k: "kind_of (je_payload e') \<noteq> 0" "length (encode_entry e') \<le> kMaxJournalRecordBytes"
    using w(1) assms(4) by (auto simp: write_record_def Let_def split: if_splits)
  then show "kind_of (je_payload e') \<noteq> 0" "length (encode_entry e') \<le> kMaxJournalRecordBytes"
    "e' = e\<lparr>je_sequence := j_last_sequence j\<rparr>" using w(2) by auto
  show "j_file j' = Some (f @ frame e' (j_chain j))"
    by (rule write_record_cases [OF assms(1,2) k w(1)]) (use assms(4) in simp_all)
qed

lemma journalled:
  assumes "au_sink a = JournalSink j" "j_open j" "journal_entry p d a = (st, n, a1)"
  shows "\<exists>e j1. journal_append \<lparr>je_payload = p, je_sequence = 0, je_tick = sp_tick (au_spec a)\<rparr>
      (d \<and> op_durable (au_options a)) j = (st, e, j1) \<and> a1 = a\<lparr>au_sink := JournalSink j1\<rparr> \<and> n = je_sequence e"
  using assms by (auto simp: journal_entry_def journal_sink_append_def split: prod.splits)

lemma terminate_accepted:
  assumes "au_sink a = JournalSink j" "j_open j" "j_file j = Some f"
    "terminate_grant i s rc detail rel a = (st, a1)" "ok st"
  shows "\<exists>e j1. au_sink a1 = JournalSink j1 \<and> j_file j1 = Some (f @ frame e (j_chain j))
    \<and> je_payload e = JGrantTerminal (grant_mark_of (ended_grant s rc detail rel (au_grants a ! i)) s)
    \<and> je_sequence e = j_last_sequence j \<and> length (encode_entry e) \<le> kMaxJournalRecordBytes"
proof -
  let ?p = "JGrantTerminal (grant_mark_of (ended_grant s rc detail rel (au_grants a ! i)) s)"
  obtain st1 n b where j: "journal_entry ?p True a = (st1, n, b)" by (metis prod_cases3)
  have st: "ok st1" using assms(4,5) j by (auto simp: terminate_grant_def Let_def split: if_splits)
  then have sink: "au_sink a1 = au_sink b"
    using assms(4) j by (auto simp: terminate_grant_def Let_def set_grant_def)
  show ?thesis using journalled [OF assms(1,2) j] append_accepted [OF assms(2,3) _ st] sink by fastforce
qed

lemma closing_grows:
  assumes "au_sink a = JournalSink j" "close_attempt q t a = (st, a1)"
  shows "\<exists>j1. au_sink a1 = JournalSink j1 \<and> grown j j1"
proof -
  have put: "\<exists>j1. au_sink b = JournalSink j1 \<and> grown j j1" if "journal_put p a = (s, b)" for p s b
  proof (cases "j_open j")
    case True
    then show ?thesis using that journalled [OF assms(1) True] append_grown
      by (fastforce simp: journal_put_def split: prod.splits)
  next
    case False
    then show ?thesis using that assms(1) grown_refl
      by (fastforce simp: journal_put_def journal_entry_def journal_sink_append_def split: prod.splits)
  qed
  show ?thesis
  proof (cases t)
    case None
    then show ?thesis using assms grown_refl by (auto simp: close_attempt_def)
  next
    case (Some k)
    obtain s b where p: "journal_put (JAttemptCancelled (at_attempt_id (au_attempts a ! k)) (cn_reason q)) a = (s, b)"
      by fastforce
    then have "au_sink a1 = au_sink b"
      using assms(2) Some by (auto simp: close_attempt_def Let_def cif_try_def set_attempt_def split: if_splits)
    then show ?thesis using put [OF p] by simp
  qed
qed

lemma ended_overlong:
  assumes "grant_ok g" "length (gr_reductions g) < kMaxReasons" "\<forall>r\<in>set (gr_reductions g). rs_code r \<noteq> rc"
    "rc \<noteq> RcNone" "overlong (mk_reason rc detail)"
  shows "fails decode_grant (encode_grant (ended_grant s rc detail rel g))"
proof (rule fails_grant)
  let ?x = "ended_grant s rc detail rel g"
  have red: "gr_reductions ?x = gr_reductions g @ [mk_reason rc detail]"
    using assms(2-4) by (auto simp: ended_grant_def add_reduction_def Let_def list_ex_iff)
  show "grant_ok (?x\<lparr>gr_reductions := []\<rparr>)"
    using assms(1) by (simp add: grant_ok_def ended_grant_def add_reduction_def Let_def reasons_ok_def)
  have "reasons_ok (gr_reductions g)" using assms(1) by (simp add: grant_ok_def)
  then show "fails decode_reasons (encode_reasons (gr_reductions ?x))"
    unfolding red by (rule fails_reasons [OF _ assms(2,5)])
qed

text \<open>A cancel that was carried out: the grant that held capacity was revoked, the attempt closed behind it.\<close>

lemma cancel_carried_out:
  assumes "cancel q a = (d, a')" "dc_outcome d = OutCancelled" "\<not> dc_idempotent_replay d" "cancel_grant q a = Some i"
    "holds_capacity (gr_state (au_grants a ! i))"
  shows "\<exists>st1 a1 t st2 a2. ok (validate_cancel_request q) \<and> ok st1 \<and> terminate_grant i GsRevoked RcAttemptCancelled
      (if cn_reason q = [] then ''cancelled'' else cn_reason q) True a = (st1, a1)
    \<and> close_attempt q t a1 = (st2, a2) \<and> au_sink a' = au_sink a2"
proof -
  let ?g = "cancel_grant q a" and ?t = "cancel_attempt q a"
  obtain st1 a1 where r: "revoke_cancelled q ?g a = (st1, a1)" by fastforce
  define t1 where "t1 = (case ?t of
      None \<Rightarrow> (case ?g of None \<Rightarrow> ?t | Some i \<Rightarrow> mutable_attempt a1 (gr_attempt_id (au_grants a1 ! i))) | Some k \<Rightarrow> ?t)"
  obtain st2 a2 where c: "close_attempt q t1 a1 = (st2, a2)" by fastforce
  have shape: "ok (validate_cancel_request q)"
  proof (rule ccontr)
    assume "\<not> ok (validate_cancel_request q)"
    then show False using assms(1,2)
      by (auto simp: cancel_def malformed_decision_def coordinates_def outcome_for_status_def Let_def split: prod.splits if_splits)
  qed
  have failed: False if "answer ''cancel'' r1 r2 OutIndeterminate rs (\<lambda>d. d\<lparr>dc_requires_reconciliation := True\<rparr>) b
      = (d, a')" for r1 r2 rs b
    using answer_decision(1) [of "\<lambda>d. d\<lparr>dc_requires_reconciliation := True\<rparr>" "''cancel''" r1 r2 OutIndeterminate rs b]
      that assms(2) by simp
  have replay: False if "answer ''cancel'' r1 r2 o1 rs (\<lambda>d. (f d)\<lparr>dc_idempotent_replay := True\<rparr>) b = (d, a')"
    for r1 r2 o1 rs f b
    using answer_fields [of o1 "''cancel''" r1 r2 rs "\<lambda>d. (f d)\<lparr>dc_idempotent_replay := True\<rparr>" b] that assms(3) by auto
  have kept: "au_sink a' = au_sink b" if "answer ''cancel'' r1 r2 o1 rs f b = (d, a')" for r1 r2 o1 rs f b
    using au_core_eqD(4) [OF core_answer [of "''cancel''" r1 r2 o1 rs f b]] that by simp
  note run = assms(1) [unfolded cancel_def Let_def r prod.case, folded t1_def, unfolded c prod.case]
  have fresh: "\<not> (case ?t of None \<Rightarrow> False | Some k \<Rightarrow> at_cancelled (au_attempts a ! k))"
    using run shape assms(4) replay by (simp split: if_splits)
  have st1: "ok st1" using run shape fresh assms(4) failed by (simp split: if_splits)
  have st2: "ok st2" using run shape fresh st1 assms(4) failed by (simp split: if_splits)
  have "au_sink a' = au_sink (stale_digest a2)"
    by (rule kept) (use run shape fresh st1 st2 assms(4) in \<open>simp split: if_splits\<close>)
  then have "au_sink a' = au_sink a2" by (simp add: stale_digest_def)
  moreover have "terminate_grant i GsRevoked RcAttemptCancelled
      (if cn_reason q = [] then ''cancelled'' else cn_reason q) True a = (st1, a1)"
    using r assms(4,5) by (simp add: revoke_cancelled_def)
  ultimately show ?thesis using shape st1 c by blast
qed

text \<open>C33. A cancel reason of more than 256 bytes costs the log everything after it: the cancel is answered
  CANCELLED and its record acknowledged as durable, but no reader accepts that record, so from then on, whatever
  is appended and acknowledged behind it, reading the log gives back only what was there before the cancel.\<close>

theorem long_cancel_reason_cuts_the_log:
  assumes "au_sink a = JournalSink j" "journal_holds j es" "cancel_grant q a = Some i" "au_grants a ! i = g"
    "holds_capacity (gr_state g)" "grant_ok g" "length (gr_reductions g) < kMaxReasons"
    "\<forall>r\<in>set (gr_reductions g). rs_code r \<noteq> RcAttemptCancelled" "256 < length (cn_reason q)"
    "cancel q a = (d, a')" "dc_outcome d = OutCancelled" "\<not> dc_idempotent_replay d"
  shows "\<exists>j1. au_sink a' = JournalSink j1 \<and> (\<forall>later st acked j2.
    append_all later [] j1 = (st, acked, j2) \<and> length (file_bytes j2) \<le> kMaxScanBytes \<longrightarrow>
    (\<exists>r. journal_scan (j_file j2) = (success, map entry_historical es, r) \<and> requires_rebuild r))"
proof -
  have reason: "(if cn_reason q = [] then ''cancelled'' else cn_reason q) = cn_reason q" using assms(9) by auto
  obtain st1 a1 t st2 a2 where c: "ok (validate_cancel_request q)" "ok st1"
    "terminate_grant i GsRevoked RcAttemptCancelled (cn_reason q) True a = (st1, a1)"
    "close_attempt q t a1 = (st2, a2)" "au_sink a' = au_sink a2"
    using cancel_carried_out [OF assms(10-12,3)] assms(4,5) reason by auto
  have H: "j_open j" "j_file j = Some (file_header @ log_frames 0 es)" "j_chain j = chain_after 0 es"
    "j_last_sequence j = of_nat (length es)" using assms(2) by (simp_all add: journal_holds_def)
  obtain e j0 where e: "au_sink a1 = JournalSink j0" "j_file j0 = Some ((file_header @ log_frames 0 es) @ frame e (j_chain j))"
    "je_payload e = JGrantTerminal (grant_mark_of (ended_grant GsRevoked RcAttemptCancelled (cn_reason q) True g) GsRevoked)"
    "je_sequence e = j_last_sequence j" "length (encode_entry e) \<le> kMaxJournalRecordBytes"
    using terminate_accepted [OF assms(1) H(1,2) c(3,2)] assms(4) by auto
  obtain j1 where j1: "au_sink a2 = JournalSink j1" "grown j0 j1" using closing_grows [OF e(1) c(4)] by blast
  have "length (cn_reason q) \<le> kMaxNoteBytes"
    using c(1) by (auto simp: validate_cancel_request_def split: if_splits)
  then have over: "overlong (mk_reason RcAttemptCancelled (cn_reason q))"
    using assms(9) by (simp add: overlong_def mk_reason_def limit_defs)
  have bad: "fails (decode_entry (kind_of (je_payload e)) n) (encode_entry e)" for n
    by (rule fails_terminal [OF _ e(3)])
      (simp add: grant_mark_of_def ended_overlong [OF assms(6-8) _ over])
  have "\<exists>r. journal_scan (j_file j2) = (success, map entry_historical es, r) \<and> requires_rebuild r"
    if l: "append_all later [] j1 = (st, acked, j2)" "length (file_bytes j2) \<le> kMaxScanBytes" for later st acked j2
  proof -
    obtain tl where f: "file_bytes j2 = file_header @ log_frames 0 es @ frame e (chain_after 0 es) @ tl"
      using grown_trans [OF j1(2) append_all_grown [OF l(1)]] e(2) H(3) by (auto simp: grown_def file_bytes_def)
    then have "j_file j2 = Some (file_bytes j2)"
      using length_file_header by (auto simp: file_bytes_def split: option.splits)
    then show ?thesis
      using undecodable_cuts_the_log [OF assms(2) _ e(5) bad e(4) [unfolded H(4)] f l(2)] e(3)
      by (auto simp: requires_rebuild_def)
  qed
  then show ?thesis using c(5) j1(1) by auto
qed

section \<open>An instance\<close>

definition lent :: grant where
  "lent = empty_grant\<lparr>gr_grant_id := ''g-1'', gr_state := GsCommitted, gr_capacity_reserved := True\<rparr>"

definition lending_engine :: authority where
  "lending_engine = demo\<lparr>au_grants := [lent], au_sink := JournalSink demo_journal\<rparr>"

definition long_cancel :: cancel_request where
  "long_cancel = \<lparr>cn_request_id = ''x'', cn_attempt_id = [], cn_grant_id = ''g-1'', cn_cluster_generation = 0,
     cn_epoch = 0, cn_incarnation = zero_incarnation, cn_reason = replicate 300 CHR ''x'', cn_provenance = no_provenance\<rparr>"

abbreviation "revoked_lent \<equiv> ended_grant GsRevoked RcAttemptCancelled (cn_reason long_cancel) True lent"

lemma lending_fields:
  "au_sink lending_engine = JournalSink demo_journal" "au_grants lending_engine = [lent]"
  "au_attempts lending_engine = []" "au_options lending_engine = demo_options" "au_spec lending_engine = demo_spec"
  by (simp_all add: lending_engine_def demo_def)

lemma lent_ok: "grant_ok lent" "gr_reductions lent = []" "holds_capacity (gr_state lent)"
  by (simp_all add: lent_def empty_grant_def grant_ok_def reasons_ok_def id_ok_def is_valid_id_def is_valid_identifier_def
      limit_defs identifier_char_def zero_incarnation_def digest_zero_def no_provenance_def provenance_ok_def holds_capacity_def
      is_valid_utf8_def utf8_from.simps [of "[]" 0])

lemma long_cancel_ok: "ok (validate_cancel_request long_cancel)"
proof -
  have "is_valid_utf8 (replicate 300 CHR ''x'')"
    unfolding is_valid_utf8_def by (rule ascii_utf8) (simp add: bytes_of_def byte_of_def list_all_iff)
  then show ?thesis by (simp add: validate_cancel_request_def long_cancel_def limit_defs)
qed

lemma revoked_lent_short:
  "length (encode_entry \<lparr>je_payload = JGrantTerminal (grant_mark_of revoked_lent GsRevoked), je_sequence = n, je_tick = t\<rparr>)
    \<le> kMaxJournalRecordBytes"
proof -
  have "length (w_text (replicate 300 CHR ''x'')) \<le> 601" "length (w_text []) \<le> 1" "length (w_text ''g-1'') \<le> 7"
    "length (w_count 1) \<le> 2"
    using w_text_short [of "replicate 300 CHR ''x''"] w_text_short [of "[]"] w_text_short [of "''g-1''"]
      w_varint_short [of 1] by (simp_all add: w_count_def)
  then show ?thesis
    by (simp add: encode_entry_def encode_counter_def encode_grant_mark_def grant_mark_of_def ended_grant_def add_reduction_def
        encode_grant_def encode_id_def encode_incarnation_def encode_provenance_def encode_reasons_def encode_reason_def
        lent_def empty_grant_def long_cancel_def mk_reason_def no_provenance_def Let_def kMaxReasons_def
        w_raw_def w_boolean_def w_enum_def w_enum16_def w_u8_def zero_incarnation_def digest_zero_def kMaxJournalRecordBytes_def)
qed

lemma lent_revoked:
  obtains e j1 a1 where "terminate_grant 0 GsRevoked RcAttemptCancelled (cn_reason long_cancel) True lending_engine = (success, a1)"
    "au_sink a1 = JournalSink j1" "au_attempts a1 = []" "j_file j1 = Some (file_header @ frame e 0)"
    "length (encode_entry e) \<le> kMaxJournalRecordBytes"
proof -
  let ?e = "\<lparr>je_payload = JGrantTerminal (grant_mark_of revoked_lent GsRevoked), je_sequence = 0,
    je_tick = sp_tick demo_spec\<rparr>"
  obtain e j1 where ap: "journal_append ?e True demo_journal = (success, e, j1)"
    using demo_append [of ?e True] revoked_lent_short by auto
  have o: "j_open demo_journal" "j_file demo_journal = Some file_header" "j_chain demo_journal = 0"
    by (simp_all add: demo_journal_def)
  obtain a1 where t: "terminate_grant 0 GsRevoked RcAttemptCancelled (cn_reason long_cancel) True lending_engine = (success, a1)"
      "au_sink a1 = JournalSink j1" "au_attempts a1 = []"
    using ap o(1) by (simp add: terminate_grant_def journal_entry_def journal_sink_append_def lending_fields demo_options_def
        set_grant_def Let_def)
  show ?thesis
    by (rule that [OF t])
      (use append_accepted [OF o(1,2) ap] o(3) in \<open>simp_all add: ok_def success_def\<close>)
qed

theorem long_cancel_reason_cuts_the_log_witness:
  "case cancel long_cancel lending_engine of (d, a') \<Rightarrow> dc_outcome d = OutCancelled
     \<and> (\<exists>j1 r. au_sink a' = JournalSink j1 \<and> journal_scan (j_file j1) = (success, [], r) \<and> requires_rebuild r)"
proof -
  obtain e j1 a1 where a1: "terminate_grant 0 GsRevoked RcAttemptCancelled (cn_reason long_cancel) True lending_engine = (success, a1)"
    "au_sink a1 = JournalSink j1" "au_attempts a1 = []" "j_file j1 = Some (file_header @ frame e 0)"
    "length (encode_entry e) \<le> kMaxJournalRecordBytes" using lent_revoked .
  have g: "cancel_grant long_cancel lending_engine = Some 0" "cancel_attempt long_cancel lending_engine = None"
    by (simp_all add: cancel_grant_def cancel_attempt_def long_cancel_def mutable_grant_def lending_fields find_index_def
        lower_bound_index_def present_at_def lent_def Let_def)
  have ne: "cn_reason long_cancel \<noteq> []" by (simp add: long_cancel_def)
  have rev: "revoke_cancelled long_cancel (Some 0) lending_engine = (success, a1)"
    using a1(1) ne lent_ok(3) by (simp add: revoke_cancelled_def lending_fields)
  have none: "mutable_attempt a1 i = None" for i
    by (simp add: mutable_attempt_def a1(3) find_index_def present_at_def Let_def)
  let ?show = "\<lambda>d. d\<lparr>dc_grant := Some (au_grants (stale_digest a1) ! 0)\<rparr>"
  have c: "cancel long_cancel lending_engine = answer ''cancel'' (cn_request_id long_cancel) (cn_attempt_id long_cancel)
      OutCancelled [mk_reason RcAttemptCancelled (cn_reason long_cancel)] ?show (stale_digest a1)"
    using long_cancel_ok ne by (simp add: cancel_def Let_def g rev none close_attempt_def)
  obtain d a' where d: "cancel long_cancel lending_engine = (d, a')" by fastforce
  have out: "dc_outcome d = OutCancelled"
    using answer_decision(1) [of ?show "''cancel''" "cn_request_id long_cancel" "cn_attempt_id long_cancel" OutCancelled
        "[mk_reason RcAttemptCancelled (cn_reason long_cancel)]" "stale_digest a1"] d unfolding c by simp
  have first: "\<not> dc_idempotent_replay d"
    using d unfolding c
    by (auto simp: answer_def make_decision_def coordinates_def finalize_decision_def empty_decision_def Let_def split: prod.splits)
  have "au_core a' = au_core (stale_digest a1)"
    using core_answer [of "''cancel''" "cn_request_id long_cancel" "cn_attempt_id long_cancel" OutCancelled
        "[mk_reason RcAttemptCancelled (cn_reason long_cancel)]" ?show "stale_digest a1"] d unfolding c by simp
  from au_core_eqD(4) [OF this] have sink: "au_sink a' = JournalSink j1" by (simp add: stale_digest_def a1(2))
  have bound: "length (file_bytes j1) \<le> kMaxScanBytes"
    using a1(4,5) by (simp add: file_bytes_def length_file_header length_frame kMaxScanBytes_def)
  have red: "\<forall>r\<in>set (gr_reductions lent). rs_code r \<noteq> RcAttemptCancelled" "length (gr_reductions lent) < kMaxReasons"
    "256 < length (cn_reason long_cancel)" "au_grants lending_engine ! 0 = lent"
    by (simp_all add: lent_ok(2) kMaxReasons_def long_cancel_def lending_fields)
  have "\<forall>later st acked j2. append_all later [] j1 = (st, acked, j2) \<and> length (file_bytes j2) \<le> kMaxScanBytes \<longrightarrow>
      (\<exists>r. journal_scan (j_file j2) = (success, map entry_historical [], r) \<and> requires_rebuild r)"
    using long_cancel_reason_cuts_the_log [OF lending_fields(1) demo_journal_holds g(1) red(4) lent_ok(3,1) red(2,1,3) d out first]
    by (simp only: sink sink.inject) blast
  from this [rule_format, of "[]" success "[]" j1] bound
  have "\<exists>r. journal_scan (j_file j1) = (success, [], r) \<and> requires_rebuild r" by simp
  then show ?thesis using d out sink by simp
qed

end
