(* ===== verification/Version.thy ===== *)
theory Version
  imports Text
begin

text \<open>
  Build identification (\<^verbatim>\<open>include/cif/version.hpp\<close>, \<^verbatim>\<open>src/version.cpp\<close>). The configuration, the
  compiler and the test hooks are fixed when the program is built; they are arguments here.
\<close>

definition version_string :: string where
  "version_string = ''1.0.0''"

definition journal_format_version :: nat where
  "journal_format_version = 1"

definition wire_protocol_version :: nat where
  "wire_protocol_version = 1"

record build =
  bd_configuration :: string
  bd_toolchain :: string
  bd_test_hooks :: bool

definition on_off :: "bool \<Rightarrow> string" where
  "on_off b = (if b then ''on'' else ''off'')"

definition version_banner :: "build \<Rightarrow> string" where
  "version_banner b =
     ''cif/'' @ version_string
     @ '' journal='' @ to_decimal (of_nat journal_format_version)
     @ '' wire='' @ to_decimal (of_nat wire_protocol_version)
     @ '' config='' @ bd_configuration b
     @ '' toolchain='' @ bd_toolchain b
     @ '' testhooks='' @ on_off (bd_test_hooks b)"

end
