(* ===== verification/Cifd.thy ===== *)
theory Cifd
  imports Daemon Version
begin

text \<open>
  The daemon program (\<^verbatim>\<open>apps/cifd_main.cpp\<close>): its command line, what it prints, when it stops and with
  which exit code. What it prints is the text on each stream; files, signals and clocks are arguments.
\<close>

section \<open>The command line\<close>

definition cifd_usage :: string where
  "cifd_usage = concat (map (\<lambda>l. l @ newline)
     [''cifd '' @ version_string @ '' -- cluster interconnect fabric authority daemon'',
      [],
      ''usage: cifd --cluster <id> [options]'',
      [],
      ''required'',
      ''  --cluster <id>              cluster identity this daemon rules'',
      [],
      ''options'',
      ''  --host <addr>               bind address (default 127.0.0.1)'',
      ''  --port <n>                  bind port, 0 picks a free port (default 0)'',
      ''  --journal <path>            durable transition log; omit for in-memory state'',
      ''  --ready-file <path>         written once the listener is bound'',
      ''  --stop-file <path>          stop when this file appears'',
      ''  --policy <n>                initial policy generation (default 1)'',
      ''  --housekeeping-ms <n>       logical clock period; 0 disables (default 50)'',
      ''  --max-connections <n>       connection ceiling (default 128)'',
      ''  --ingress <n>               bounded ingress queue depth (default 8192)'',
      ''  --recovery <policy>         revalidate-acknowledged | fence-all'',
      ''  --duration-seconds <n>      stop after n seconds (0 = run until signalled)'',
      ''  --log <path>                append a status line per housekeeping round'',
      ''  --no-durable                accept a journal path but do not fsync (never default)'',
      ''  --help                      this text'',
      [],
      ''exit codes: 0 clean stop, 2 bad arguments, 3 start failure, 4 invariant violation''])"

record cifd_arguments =
  ca_server :: server_options
  ca_duration_seconds :: u64
  ca_log_path :: string
  ca_stop_file :: string
  ca_help :: bool

definition no_arguments :: cifd_arguments where
  "no_arguments = \<lparr>ca_server = default_server_options, ca_duration_seconds = 0, ca_log_path = [],
     ca_stop_file = [], ca_help = False\<rparr>"

definition on_server :: "(server_options \<Rightarrow> server_options) \<Rightarrow> cifd_arguments \<Rightarrow> cifd_arguments" where
  "on_server f out = out\<lparr>ca_server := f (ca_server out)\<rparr>"

text \<open>A number, or the complaint.\<close>

definition cifd_number :: "string \<Rightarrow> string \<Rightarrow> (u64 \<Rightarrow> cifd_arguments) \<Rightarrow> string + cifd_arguments" where
  "cifd_number flag v change = (case parse_decimal_u64 v of
     None \<Rightarrow> Inl (flag @ '' must be a non-negative integer'')
   | Some n \<Rightarrow> Inr (change n))"

text \<open>What a flag with a value does; \<open>None\<close> for any other argument.\<close>

definition cifd_flag :: "string \<Rightarrow> (string \<Rightarrow> cifd_arguments \<Rightarrow> string + cifd_arguments) option" where
  "cifd_flag flag =
     (if flag = ''--cluster'' then Some (\<lambda>v out. case id_parse v of
        None \<Rightarrow> Inl ''--cluster value is not a valid CIF identifier''
      | Some i \<Rightarrow> Inr (on_server (so_cluster_id_update (\<lambda>_. i)) out))
      else if flag = ''--host'' then Some (\<lambda>v out. Inr (on_server (so_bind_host_update (\<lambda>_. v)) out))
      else if flag = ''--port'' then Some (\<lambda>v out. case parse_decimal_u64 v of
        None \<Rightarrow> Inl ''--port must be 0..65535''
      | Some n \<Rightarrow> if n > 65535 then Inl ''--port must be 0..65535''
                  else Inr (on_server (so_port_update (\<lambda>_. ucast n)) out))
      else if flag = ''--journal'' then Some (\<lambda>v out. Inr (on_server (so_journal_path_update (\<lambda>_. v)) out))
      else if flag = ''--ready-file'' then Some (\<lambda>v out. Inr (on_server (so_ready_file_update (\<lambda>_. v)) out))
      else if flag = ''--stop-file'' then Some (\<lambda>v out. Inr (out\<lparr>ca_stop_file := v\<rparr>))
      else if flag = ''--policy'' then
        Some (\<lambda>v out. cifd_number flag v (\<lambda>n. on_server (so_policy_update (\<lambda>_. n)) out))
      else if flag = ''--housekeeping-ms'' then
        Some (\<lambda>v out. cifd_number flag v (\<lambda>n. on_server (so_housekeeping_period_millis_update (\<lambda>_. n)) out))
      else if flag = ''--max-connections'' then
        Some (\<lambda>v out. cifd_number flag v (\<lambda>n. on_server (so_max_connections_update (\<lambda>_. unat n)) out))
      else if flag = ''--ingress'' then
        Some (\<lambda>v out. cifd_number flag v (\<lambda>n. on_server (so_ingress_capacity_update (\<lambda>_. unat n)) out))
      else if flag = ''--recovery'' then Some (\<lambda>v out.
        if v = ''revalidate-acknowledged'' then
          Inr (on_server (\<lambda>p. p\<lparr>so_authority := (so_authority p)\<lparr>op_recovery_policy := RevalidateAcknowledged\<rparr>\<rparr>) out)
        else if v = ''fence-all'' then
          Inr (on_server (\<lambda>p. p\<lparr>so_authority := (so_authority p)\<lparr>op_recovery_policy := FenceAll\<rparr>\<rparr>) out)
        else Inl ''--recovery must be revalidate-acknowledged or fence-all'')
      else if flag = ''--duration-seconds'' then
        Some (\<lambda>v out. cifd_number flag v (\<lambda>n. out\<lparr>ca_duration_seconds := n\<rparr>))
      else if flag = ''--log'' then Some (\<lambda>v out. Inr (out\<lparr>ca_log_path := v\<rparr>))
      else None)"

fun parse_cifd_arguments :: "string list \<Rightarrow> cifd_arguments \<Rightarrow> string + cifd_arguments" where
  "parse_cifd_arguments [] out = Inr out"
| "parse_cifd_arguments (flag # rest) out =
     (if flag = ''--help'' \<or> flag = ''-h'' then Inr (out\<lparr>ca_help := True\<rparr>)
      else if flag = ''--no-durable'' then
        parse_cifd_arguments rest (on_server (\<lambda>p. p\<lparr>so_authority := (so_authority p)\<lparr>op_durable := False\<rparr>\<rparr>) out)
      else case cifd_flag flag of
        None \<Rightarrow> Inl (''unrecognised argument '' @ [CHR 0x27] @ sanitise_for_display flag 64 @ [CHR 0x27])
      | Some change \<Rightarrow>
          (case rest of
             [] \<Rightarrow> Inl (flag @ '' requires a value'')
           | v # rest' \<Rightarrow> (case change v out of
               Inl complaint \<Rightarrow> Inl complaint
             | Inr out' \<Rightarrow> parse_cifd_arguments rest' out')))"

section \<open>Running\<close>

text \<open>The exit code and the texts on the standard and the error stream.\<close>

type_synonym program_exit = "nat \<times> string \<times> string"

definition cifd_complain :: "string \<Rightarrow> string" where
  "cifd_complain m = ''cifd: '' @ m @ newline"

text \<open>Up to the start: either the program is over, or the daemon runs and the greeting is out.\<close>

text \<open>A path is printed in quotes, quotes and backslashes in it escaped.\<close>

definition path_quoted :: "string \<Rightarrow> string" where
  "path_quoted s = CHR 0x22 # concat (map (\<lambda>c. if c = CHR 0x22 \<or> c = CHR 0x5C then [CHR 0x5C, c] else [c]) s) @ [CHR 0x22]"

definition cifd_greeting :: "build \<Rightarrow> u16 \<Rightarrow> cifd_arguments \<Rightarrow> server \<Rightarrow> string" where
  "cifd_greeting b port args sv =
     ''cifd '' @ version_banner b @ newline
     @ ''cluster '' @ so_cluster_id (ca_server args) @ newline
     @ ''listening '' @ so_bind_host (ca_server args) @ '':'' @ to_decimal (ucast port) @ newline
     @ ''durable '' @ (if so_journal_path (ca_server args) = [] then ''false'' else ''true'') @ newline
     @ (if so_journal_path (ca_server args) = [] then [] else path_quoted (so_journal_path (ca_server args)) @ newline)
     @ render_recovery (sv_recovery sv)"

definition cifd_boot :: "build \<Rightarrow> u16 \<Rightarrow> (server \<Rightarrow> status \<times> server) \<Rightarrow> string list
    \<Rightarrow> program_exit + (cifd_arguments \<times> string \<times> server)" where
  "cifd_boot b port start_it argv = (case parse_cifd_arguments argv no_arguments of
     Inl complaint \<Rightarrow> Inl (2, cifd_usage, cifd_complain complaint)
   | Inr args \<Rightarrow>
       if ca_help args then Inl (0, cifd_usage, [])
       else if so_cluster_id (ca_server args) = [] then Inl (2, cifd_usage, cifd_complain ''--cluster is required'')
       else (case start_it (new_server (ca_server args)) of (started, sv) \<Rightarrow>
         if \<not> ok started then Inl (3, [], cifd_complain (''failed to start: '' @ status_to_string started))
         else Inr (args, cifd_greeting b port args sv, sv)))"

text \<open>The loop goes on while nobody asks it to stop; seconds are whole.\<close>

definition cifd_goes_on :: "cifd_arguments \<Rightarrow> bool \<Rightarrow> bool \<Rightarrow> nat \<Rightarrow> bool" where
  "cifd_goes_on args stop_requested stop_file_exists elapsed_seconds =
     (\<not> stop_requested \<and> \<not> (ca_stop_file args \<noteq> [] \<and> stop_file_exists)
      \<and> \<not> (ca_duration_seconds args > 0 \<and> elapsed_seconds \<ge> unat (ca_duration_seconds args)))"

text \<open>One turn of the loop: the line for the log file, if any, and the round logged last.\<close>

definition cifd_log_round :: "cifd_arguments \<Rightarrow> server_status \<Rightarrow> u64 \<Rightarrow> string \<times> u64" where
  "cifd_log_round args us logged =
     (let round = ss_housekeeping_rounds (us_stats us) in
      if ca_log_path args \<noteq> [] \<and> round \<noteq> logged then
        (''round='' @ to_decimal round
         @ '' connections='' @ to_decimal (of_nat (us_active_connections us))
         @ '' frames_in='' @ to_decimal (ss_frames_in (us_stats us))
         @ '' frames_out='' @ to_decimal (ss_frames_out (us_stats us))
         @ '' ingest='' @ to_decimal (of_nat (us_ingest_depth us)) @ newline, round)
      else ([], logged))"

text \<open>The end: the engine is checked, read straight from the main thread, and only then the daemon is stopped.\<close>

definition cifd_finish :: "server \<Rightarrow> status \<Rightarrow> program_exit" where
  "cifd_finish sv stopped =
     (let checked = (case sv_core sv of None \<Rightarrow> success | Some a \<Rightarrow> self_check a);
          violation = (if ok checked then []
                       else cifd_complain (''invariant violation at shutdown: '' @ status_to_string checked))
      in if \<not> ok stopped then (3, [], violation @ cifd_complain (''stop failed: '' @ status_to_string stopped))
         else (if ok checked then 0 else 4, ''stopped'' @ newline, violation))"

end
