(* ===== verification/Lines.thy ===== *)
theory Lines
  imports Text
begin

text \<open>
  Reading a text line by line, the way the tools scan what the daemon renders
  (\<^verbatim>\<open>apps/cif_main.cpp\<close>, \<^verbatim>\<open>src/process.cpp\<close>), and the lemmas about texts written line by line.
\<close>

text \<open>The lines of a text; what follows the last line break is a line unless it is empty.\<close>

function text_lines :: "string \<Rightarrow> string list" where
  "text_lines s =
     (if s = [] then [] else takeWhile (\<lambda>c. c \<noteq> CHR 0x0A) s # text_lines (drop 1 (dropWhile (\<lambda>c. c \<noteq> CHR 0x0A) s)))"
  by pat_completeness auto
termination
proof (relation "measure length")
  fix s :: string assume "s \<noteq> []"
  moreover have "length (dropWhile (\<lambda>c. c \<noteq> CHR 0x0A) s) \<le> length s" by (rule length_dropWhile_le)
  ultimately show "(drop 1 (dropWhile (\<lambda>c. c \<noteq> CHR 0x0A) s), s) \<in> measure length"
    by (simp add: less_imp_diff_less order_le_less) (cases s; auto)
qed simp

declare text_lines.simps [simp del]

section \<open>Texts written line by line\<close>

abbreviation one_line :: "string \<Rightarrow> bool" where
  "one_line l \<equiv> CHR 0x0A \<notin> set l"

lemma text_lines_Nil [simp]: "text_lines [] = []"
  by (simp add: text_lines.simps)

lemma text_lines_line: "one_line l \<Longrightarrow> text_lines (l @ CHR 0x0A # s) = l # text_lines s"
proof -
  assume l: "one_line l"
  then have "takeWhile (\<lambda>c. c \<noteq> CHR 0x0A) (l @ CHR 0x0A # s) = l"
    "dropWhile (\<lambda>c. c \<noteq> CHR 0x0A) (l @ CHR 0x0A # s) = CHR 0x0A # s"
    by (induction l) auto
  then show ?thesis by (subst text_lines.simps) simp
qed

lemma text_lines_append:
  "list_all one_line ls \<Longrightarrow> text_lines (concat (map (\<lambda>l. l @ [CHR 0x0A]) ls) @ s) = ls @ text_lines s"
  by (induction ls) (simp_all add: text_lines_line)

lemma to_decimal_one_line [simp]: "one_line (to_decimal n)"
  using to_decimal_digits [of n] by (auto simp: list_all_iff is_digit_iff)

end
