(* ===== verification/Cli.thy ===== *)
theory Cli
  imports Client Cifd Lines
begin

text \<open>
  The command line tool (\<^verbatim>\<open>apps/cif_main.cpp\<close>): its options, the reading of rendered reports, and the
  requests it makes up from both. What it prints is the text on each stream.
\<close>

section \<open>Options\<close>

definition cli_usage :: string where
  "cli_usage = concat (map (\<lambda>l. l @ newline)
     [''cif '' @ version_string @ '' -- cluster interconnect fabric tooling'',
      [],
      ''usage: cif <command> [options]'',
      [],
      ''  cif version'',
      ''  cif --port <n> [--host <addr>] query <controller|state|audit|recovery|verify|version>'',
      ''  cif --port <n> query member <id> | path <id> | grant <id> | attempt <id>'',
      ''  cif --port <n> admin <kind> [--option value ...]'',
      ''  cif --port <n> submit --contract <id> --source <member> --dest <member>'',
      ''        [--source-endpoint <id>] [--dest-endpoint <id>] [--path <id>] [--resource <id>]'',
      ''        [--units <n>] [--lease-ticks <n>] [--attempt <id>] [--renew <grant>]'',
      ''        [--allow-degraded] [--json]'',
      ''  cif --port <n> release --grant <id> [--lease <id>] [--attempt <id>]'',
      ''  cif --port <n> resolve --attempt <id>'',
      ''  cif --port <n> ack --grant <id> --lease <id> [--attempt <id>]'',
      ''  cif --port <n> cancel --attempt <id> [--grant <id>] [--reason <text>]'',
      ''  cif --port <n> load --contract <id> --source <m> --dest <m> --attempts <n> [--units <n>]'',
      ''  cif journal <scan|replay> --path <file>'',
      ''  cif digest --path <file>'',
      ''  cif --help'',
      [],
      ''admin kinds: upsert-member remove-member set-member-lifecycle upsert-path remove-path'',
      ''  set-path-state upsert-exclusion remove-exclusion upsert-obligation remove-obligation'',
      ''  upsert-contract remove-contract set-policy advance-tick fence-all expire-leases'',
      ''  revalidate compact self-check'',
      [],
      ''exit codes: 0 success, 1 remote refusal, 2 bad arguments, 3 transport failure,'',
      ''            4 authority returned a non-authoritative outcome''])"

record cli_options =
  co_host :: string
  co_port :: u16
  co_has_port :: bool
  co_timeout_millis :: u64
  co_json :: bool
  co_positional :: "string list"
  co_flags :: "string \<Rightarrow> string option"

definition no_options :: cli_options where
  "no_options = \<lparr>co_host = ''127.0.0.1'', co_port = 0, co_has_port = False, co_timeout_millis = 5000,
     co_json = False, co_positional = [], co_flags = (\<lambda>_. None)\<rparr>"

definition put_flag :: "string \<Rightarrow> string \<Rightarrow> cli_options \<Rightarrow> cli_options" where
  "put_flag key v out = out\<lparr>co_flags := (co_flags out)(key := Some v)\<rparr>"

text \<open>The switches, which take no value, and the key each one sets.\<close>

definition cli_switch :: "string \<Rightarrow> (cli_options \<Rightarrow> cli_options) option" where
  "cli_switch token =
     (if token = ''--help'' \<or> token = ''-h'' then Some (put_flag ''help'' ''1'')
      else if token = ''--json'' then Some (\<lambda>out. out\<lparr>co_json := True\<rparr>)
      else if token = ''--allow-degraded'' then Some (put_flag ''allow-degraded'' ''1'')
      else if token = ''--administrative'' then Some (put_flag ''administrative'' ''1'')
      else if token = ''--no-durable'' then Some (put_flag ''no-durable'' ''1'')
      else None)"

definition cli_value :: "string \<Rightarrow> string \<Rightarrow> cli_options \<Rightarrow> string + cli_options" where
  "cli_value key v out =
     (if key = ''host'' then Inr (out\<lparr>co_host := v\<rparr>)
      else if key = ''port'' then
        (case parse_decimal_u64 v of
           None \<Rightarrow> Inl ''--port must be 0..65535''
         | Some n \<Rightarrow> if n > 65535 then Inl ''--port must be 0..65535''
                     else Inr (out\<lparr>co_port := ucast n, co_has_port := True\<rparr>))
      else if key = ''timeout-ms'' then
        (case parse_decimal_u64 v of
           None \<Rightarrow> Inl ''--timeout-ms must be a non-negative integer''
         | Some n \<Rightarrow> Inr (out\<lparr>co_timeout_millis := n\<rparr>))
      else Inr (put_flag key v out))"

fun parse_cli_options :: "string list \<Rightarrow> cli_options \<Rightarrow> string + cli_options" where
  "parse_cli_options [] out = Inr out"
| "parse_cli_options (token # rest) out =
     (case cli_switch token of
        Some change \<Rightarrow> parse_cli_options rest (change out)
      | None \<Rightarrow>
          if length token > 2 \<and> take 2 token = ''--'' then
            (case rest of
               [] \<Rightarrow> Inl (token @ '' requires a value'')
             | v # rest' \<Rightarrow> (case cli_value (drop 2 token) v out of
                 Inl complaint \<Rightarrow> Inl complaint
               | Inr out' \<Rightarrow> parse_cli_options rest' out'))
          else parse_cli_options rest (out\<lparr>co_positional := co_positional out @ [token]\<rparr>))"

definition flag_or :: "cli_options \<Rightarrow> string \<Rightarrow> string \<Rightarrow> string" where
  "flag_or p key fallback = (case co_flags p key of None \<Rightarrow> fallback | Some v \<Rightarrow> v)"

definition flag_present :: "cli_options \<Rightarrow> string \<Rightarrow> bool" where
  "flag_present p key = (co_flags p key \<noteq> None)"

text \<open>An identifier given as an option; one that is no identifier counts as left out.\<close>

definition flag_id :: "cli_options \<Rightarrow> string \<Rightarrow> string" where
  "flag_id p key = id_from_validated (flag_or p key [])"

section \<open>Reading reports\<close>

definition parse_rendered :: "string \<Rightarrow> string \<Rightarrow> string option" where
  "parse_rendered s key =
     (let needle = ''  '' @ key @ '' = '' in
      map_option (drop (length needle)) (find (\<lambda>l. take (length needle) l = needle) (text_lines s)))"

text \<open>The block of a contract in the rendered state: from its line up to the next such line.\<close>

fun before_mark :: "string \<Rightarrow> string \<Rightarrow> string" where
  "before_mark mark [] = []"
| "before_mark mark (c # s) = (if take (length mark) (c # s) = mark then [] else c # before_mark mark s)"

function contract_block :: "string \<Rightarrow> string \<Rightarrow> string option" where
  "contract_block i s =
     (if s = [] then None
      else if takeWhile (\<lambda>c. c \<noteq> CHR 0x0A) s = ''CONTRACT '' @ i then
        Some (hd s # before_mark (newline @ ''CONTRACT '') (tl s))
      else contract_block i (drop 1 (dropWhile (\<lambda>c. c \<noteq> CHR 0x0A) s)))"
  by pat_completeness auto
termination
proof (relation "measure (\<lambda>(i, s). length s)")
  fix i s :: string assume "s \<noteq> []"
  moreover have "length (dropWhile (\<lambda>c. c \<noteq> CHR 0x0A) s) \<le> length s" by (rule length_dropWhile_le)
  ultimately show "((i, drop 1 (dropWhile (\<lambda>c. c \<noteq> CHR 0x0A) s)), i, s) \<in> measure (\<lambda>(i, s). length s)"
    by (simp add: less_imp_diff_less order_le_less) (cases s; auto)
qed simp

declare contract_block.simps [simp del]

definition rendered_number :: "string \<Rightarrow> string \<Rightarrow> u64 option" where
  "rendered_number s key = Option.bind (parse_rendered s key) parse_decimal_u64"

definition contract_generation_in :: "string \<Rightarrow> string \<Rightarrow> u64 option" where
  "contract_generation_in i s = Option.bind (contract_block i s) (\<lambda>b. rendered_number b ''generation'')"

text \<open>Generation and digest of a member.\<close>

definition member_evidence :: "string \<Rightarrow> (u64 \<times> bytes) option" where
  "member_evidence s =
     Option.bind (rendered_number s ''generation'') (\<lambda>n.
     Option.bind (Option.bind (parse_rendered s ''digest'') digest_parse) (\<lambda>d. Some (n, d)))"

end
