(* ===== verification/Cli_Commands.thy ===== *)
theory Cli_Commands
  imports Cli
begin

text \<open>
  The commands of the tool (\<^verbatim>\<open>apps/cif_main.cpp\<close>), each from the options to the exit code, over the
  client's calls. A command that is waiting for the daemon has no exit yet.
\<close>

section \<open>Outcomes\<close>

type_synonym command = "program_exit option \<times> client"

definition cli_complain :: "string \<Rightarrow> string" where
  "cli_complain m = ''cif: '' @ m @ newline"

definition bad_arguments :: "string \<Rightarrow> program_exit" where
  "bad_arguments m = (2, [], cli_complain m)"

definition finished :: "program_exit \<Rightarrow> client \<Rightarrow> command" where
  "finished e k = (Some e, k)"

text \<open>A call whose failure ends the command with exit code 3.\<close>

definition cli_call :: "'a call \<Rightarrow> ('a \<Rightarrow> client \<Rightarrow> command) \<Rightarrow> command" where
  "cli_call m f = (case m of
     (None, k) \<Rightarrow> (None, k)
   | (Some (Inl st), k) \<Rightarrow> finished (3, [], cli_complain (status_to_string st)) k
   | (Some (Inr x), k) \<Rightarrow> f x k)"

definition sum_bind :: "'e + 'a \<Rightarrow> ('a \<Rightarrow> 'e + 'b) \<Rightarrow> 'e + 'b" where
  "sum_bind m f = (case m of Inl e \<Rightarrow> Inl e | Inr x \<Rightarrow> f x)"

section \<open>Decisions\<close>

definition decision_json :: "decision \<Rightarrow> string" where
  "decision_json d = jw_out (fold (\<lambda>f w. f w)
     ([jw_begin_object,
       jw_key ''outcome'', jw_string (outcome_to_string (dc_outcome d)),
       jw_key ''request'', jw_string (dc_request_id d),
       jw_key ''attempt'', jw_string (dc_attempt_id d),
       jw_key ''decision_sequence'', jw_number (dc_decision_sequence d),
       jw_key ''idempotent_replay'', jw_bool (dc_idempotent_replay d),
       jw_key ''requires_reconciliation'', jw_bool (dc_requires_reconciliation d),
       jw_key ''state_digest'', jw_string (digest_hex (dc_state_digest d)),
       jw_key ''decision_digest'', jw_string (digest_hex (dc_decision_digest d)),
       jw_key ''reasons'', jw_begin_array]
      @ map (\<lambda>r. jw_string (reason_code_to_string (rs_code r))) (dc_reasons d)
      @ [jw_end_array]
      @ (case dc_grant d of
           None \<Rightarrow> []
         | Some g \<Rightarrow>
             [jw_key ''grant'', jw_string (gr_grant_id g),
              jw_key ''grant_state'', jw_string (grant_state_to_string (gr_state g)),
              jw_key ''lease'', jw_string (gr_lease_id g),
              jw_key ''capacity_units'', jw_number (gr_capacity_units g)])
      @ [jw_end_object]) new_writer)"

definition decision_exit_code :: "decision \<Rightarrow> nat" where
  "decision_exit_code d =
     (if is_authoritative (dc_outcome d) then 0 else if dc_outcome d = OutInvalid then 2 else 4)"

definition report_decision :: "cli_options \<Rightarrow> decision \<Rightarrow> program_exit" where
  "report_decision p d =
     (decision_exit_code d, if co_json p then decision_json d @ newline else render_decision d, [])"

text \<open>Send a request of a well-formed shape and report the decision.\<close>

definition decide_command :: "cli_options \<Rightarrow> status \<Rightarrow> (client \<Rightarrow> decision call) \<Rightarrow> client \<Rightarrow> command" where
  "decide_command p shape ask k =
     (if \<not> ok shape then finished (bad_arguments (status_to_string shape)) k
      else cli_call (ask k) (\<lambda>d k. finished (report_decision p d) k))"

section \<open>Version and queries\<close>

definition command_version :: "build \<Rightarrow> program_exit" where
  "command_version b =
     (0, version_banner b @ newline
         @ ''journal_format '' @ to_decimal (of_nat journal_format_version) @ newline
         @ ''wire_protocol '' @ to_decimal (of_nat wire_protocol_version) @ newline
         @ ''test_hooks '' @ on_off (bd_test_hooks b) @ newline
         @ ''known_capabilities'' @ newline
         @ concat (map (\<lambda>c. ''  '' @ c @ newline) known_capabilities), [])"

definition empty_query_command :: query_command where
  "empty_query_command = \<lparr>qc_kind = QkNone, qc_member_id = [], qc_path_id = [], qc_grant_id = [], qc_attempt_id = [],
     qc_include_terminal = False\<rparr>"

definition quoted_name :: "string \<Rightarrow> string" where
  "quoted_name s = [CHR 0x27] @ sanitise_for_display s 32 @ [CHR 0x27]"

definition query_for :: "query_kind \<Rightarrow> string list \<Rightarrow> query_command" where
  "query_for kind arguments =
     (let c = empty_query_command\<lparr>qc_kind := kind\<rparr> in
      case arguments of
        [] \<Rightarrow> c
      | i # _ \<Rightarrow>
          (case kind of
             QkMember \<Rightarrow> c\<lparr>qc_member_id := id_from_validated i\<rparr>
           | QkPath \<Rightarrow> c\<lparr>qc_path_id := id_from_validated i\<rparr>
           | QkGrant \<Rightarrow> c\<lparr>qc_grant_id := id_from_validated i\<rparr>
           | QkAttempt \<Rightarrow> c\<lparr>qc_attempt_id := id_from_validated i\<rparr>
           | _ \<Rightarrow> c))"

definition command_query :: "cli_options \<Rightarrow> client \<Rightarrow> command" where
  "command_query p k = (case co_positional p of
     _ # kind # arguments \<Rightarrow>
       (case parse_query_kind kind of
          None \<Rightarrow> finished (bad_arguments (''unknown query kind '' @ quoted_name kind)) k
        | Some q \<Rightarrow>
            let c = query_for q arguments; shape = validate_query_command c in
            if \<not> ok shape then finished (bad_arguments (status_to_string shape)) k
            else cli_call (client_query c k) (\<lambda>r k. finished
              (if qr_code r = ScOk then (0, qr_text r, [])
               else (1, qr_text r, cli_complain (status_code_to_string (qr_code r) @ '': ''
                       @ sanitise_for_display (qr_message r) 192))) k))
   | _ \<Rightarrow> finished (bad_arguments ''query needs a kind'') k)"

section \<open>Administration\<close>

definition empty_admin_command :: admin_command where
  "empty_admin_command = \<lparr>am_kind = AkNone, am_detail = [], am_has_expectation = False, am_expect_generation = 0,
     am_member = \<lparr>mb_id = [], mb_domain = [], mb_generation = 0, mb_digest = digest_zero, mb_lifecycle = LcEnlisted,
       mb_locality = [], mb_endpoints = [], mb_services = [], mb_resources = [], mb_last_observed = 0, mb_note = []\<rparr>,
     am_member_id = [], am_lifecycle = LcEnlisted,
     am_path = \<lparr>pt_id = [], pt_generation = 0, pt_source_member = [], pt_source_endpoint = [],
       pt_destination_member = [], pt_destination_endpoint = [], pt_resources = [], pt_capacity_units = 0,
       pt_exclusive = False, pt_state = PsOperational, pt_declared_hops = 0\<rparr>,
     am_path_id = [], am_path_state = PsOperational,
     am_exclusion = \<lparr>ex_id = [], ex_domain_prefix = [], ex_members = [], ex_paths = [], ex_valid_from = 0,
       ex_valid_to = 0, ex_mode = MmRefuse, ex_enabled = True, ex_reason = []\<rparr>, am_exclusion_id = [],
     am_obligation = \<lparr>ob_id = [], ob_service = [], ob_min_distinct_failure_domains = 1, ob_failure_domain_level = 0,
       ob_min_units_per_domain = 0, ob_enabled = True\<rparr>, am_obligation_id = [],
     am_contract = \<lparr>ct_id = [], ct_generation = 0, ct_source_service = [], ct_destination_service = [],
       ct_min_capacity_units = 0, ct_max_capacity_units = 0, ct_min_distinct_failure_domains = 1,
       ct_failure_domain_level = 0, ct_require_exclusive_path = False, ct_maintenance_mode = MmRefuse,
       ct_allow_draining = False, ct_allow_faulted = False, ct_allow_partitioned = False, ct_allow_degraded = True,
       ct_required_capabilities = [], ct_enabled = True\<rparr>, am_contract_id = [], am_policy = 0, am_tick = 0,
     am_fence_reason = RcControllerRestarted\<rparr>"

definition lifecycle_words :: "(string \<times> member_lifecycle) list" where
  "lifecycle_words = [(''active'', LcActive), (''draining'', LcDraining), (''maintenance'', LcMaintenance),
     (''faulted'', LcFaulted), (''partitioned'', LcPartitioned), (''removed'', LcRemoved), (''enlisted'', LcEnlisted)]"

definition path_state_words :: "(string \<times> path_state) list" where
  "path_state_words = [(''operational'', PsOperational), (''degraded'', PsDegraded), (''down'', PsDown),
     (''maintenance'', PsMaintenance), (''unknown'', PsUnknown)]"

text \<open>An option that is a number or a word from a list; left out, or empty, it changes nothing.\<close>

definition with_number :: "cli_options \<Rightarrow> string \<Rightarrow> (u64 \<Rightarrow> 'c \<Rightarrow> 'c) \<Rightarrow> 'c \<Rightarrow> string + 'c" where
  "with_number p key change c =
     (let v = flag_or p key [] in
      if v = [] then Inr c
      else case parse_decimal_u64 v of
        None \<Rightarrow> Inl (''--'' @ key @ '' must be a non-negative integer'')
      | Some n \<Rightarrow> Inr (change n c))"

definition with_word :: "cli_options \<Rightarrow> string \<Rightarrow> string \<Rightarrow> (string \<times> 'w) list \<Rightarrow> ('w \<Rightarrow> 'c \<Rightarrow> 'c) \<Rightarrow> 'c \<Rightarrow> string + 'c" where
  "with_word p key what words change c =
     (let v = flag_or p key [] in
      if v = [] then Inr c
      else case map_of words v of
        None \<Rightarrow> Inl (''unknown '' @ what @ '' '' @ quoted_name v)
      | Some w \<Rightarrow> Inr (change w c))"

definition admin_for :: "cli_options \<Rightarrow> admin_kind \<Rightarrow> string + admin_command" where
  "admin_for p kind =
     sum_bind (with_number p ''generation'' (\<lambda>n c. c\<lparr>am_expect_generation := n, am_has_expectation := True\<rparr>)
       (empty_admin_command\<lparr>am_kind := kind, am_member_id := flag_id p ''member'', am_path_id := flag_id p ''path'',
          am_contract_id := flag_id p ''contract'', am_detail := flag_or p ''detail'' []\<rparr>)) (\<lambda>c.
     sum_bind (with_number p ''tick'' (\<lambda>n c. c\<lparr>am_tick := n\<rparr>) c) (\<lambda>c.
     sum_bind (with_number p ''policy'' (\<lambda>n c. c\<lparr>am_policy := n\<rparr>) c) (\<lambda>c.
     sum_bind (with_word p ''lifecycle'' ''lifecycle'' lifecycle_words (\<lambda>w c. c\<lparr>am_lifecycle := w\<rparr>) c) (\<lambda>c.
     with_word p ''state'' ''path state'' path_state_words (\<lambda>w c. c\<lparr>am_path_state := w\<rparr>) c))))"

definition command_admin :: "cli_options \<Rightarrow> client \<Rightarrow> command" where
  "command_admin p k = (case co_positional p of
     _ # kind # _ \<Rightarrow>
       (case parse_admin_kind kind of
          None \<Rightarrow> finished (bad_arguments (''unknown admin kind '' @ quoted_name kind)) k
        | Some a \<Rightarrow>
            (case admin_for p a of
               Inl complaint \<Rightarrow> finished (bad_arguments complaint) k
             | Inr c \<Rightarrow>
                 if \<not> ok (validate_admin_command c) then
                   finished (bad_arguments (status_to_string (validate_admin_command c))) k
                 else cli_call (client_admin c k) (\<lambda>r k. finished
                   (if ar_code r = ScOk then 0 else 1,
                    status_code_to_string (ar_code r) @ '': '' @ sanitise_for_display (ar_message r) 256 @ newline
                    @ ''  cluster_generation = '' @ to_decimal (ar_generation r) @ newline
                    @ ''  epoch = '' @ to_decimal (ar_epoch r) @ newline
                    @ ''  state_digest = '' @ digest_hex (ar_state_digest r) @ newline, []) k)))
   | _ \<Rightarrow> finished (bad_arguments ''admin needs a kind'') k)"

section \<open>Requests\<close>

text \<open>A step of the preparation: a complaint or a value, unless the tool still waits for the daemon.\<close>

type_synonym 'a preparation = "(string + 'a) option \<times> client"

definition prep_bind :: "'a preparation \<Rightarrow> ('a \<Rightarrow> client \<Rightarrow> 'b preparation) \<Rightarrow> 'b preparation" where
  "prep_bind m f = (case m of
     (None, k) \<Rightarrow> (None, k)
   | (Some (Inl e), k) \<Rightarrow> (Some (Inl e), k)
   | (Some (Inr x), k) \<Rightarrow> f x k)"

text \<open>The text of a successful query, \<open>None\<close> when the call or the query failed.\<close>

definition ask_text :: "query_command \<Rightarrow> client \<Rightarrow> string option preparation" where
  "ask_text c k = (case client_query c k of
     (None, k1) \<Rightarrow> (None, k1)
   | (Some (Inl st), k1) \<Rightarrow> (Some (Inr None), k1)
   | (Some (Inr r), k1) \<Rightarrow> (Some (Inr (if qr_code r = ScOk then Some (qr_text r) else None)), k1))"

definition cli_provenance :: "string \<Rightarrow> provenance" where
  "cli_provenance correlation = no_provenance\<lparr>pv_client := ''cif-cli'', pv_origin := ''cif-cli'', pv_correlation_id := correlation\<rparr>"

definition empty_request :: authority_request where
  "empty_request = \<lparr>rq_request_id = [], rq_contract_id = [], rq_contract_generation = 0, rq_cluster_id = [],
     rq_cluster_generation = 0, rq_epoch = 0, rq_incarnation = zero_incarnation, rq_policy_generation = 0,
     rq_source_member = [], rq_source_member_generation = 0, rq_source_member_digest = digest_zero,
     rq_destination_member = [], rq_destination_member_generation = 0, rq_destination_member_digest = digest_zero,
     rq_source_endpoint = [], rq_destination_endpoint = [], rq_path_id = [], rq_path_generation = 0,
     rq_resource_id = [], rq_reservation_generation = 0, rq_requested_units = 0, rq_lease_ticks = 0,
     rq_attempt_id = [], rq_provenance = no_provenance, rq_allow_degraded = False, rq_renewal = False,
     rq_renewal_of = [], rq_renewal_lease = []\<rparr>"

text \<open>A number that must be readable; \<open>0\<close> when it is left out.\<close>

definition required_number :: "cli_options \<Rightarrow> string \<Rightarrow> (u64 \<Rightarrow> 'c \<Rightarrow> 'c) \<Rightarrow> 'c \<Rightarrow> string + 'c" where
  "required_number p key change c = (case parse_decimal_u64 (flag_or p key ''0'') of
     None \<Rightarrow> Inl (''--'' @ key @ '' must be a non-negative integer'')
   | Some n \<Rightarrow> Inr (change n c))"

text \<open>What the options and the handshake say.\<close>

definition claimed_request :: "cli_options \<Rightarrow> server_identity \<Rightarrow> string + authority_request" where
  "claimed_request p si =
     (if flag_or p ''contract'' [] = [] \<or> flag_or p ''source'' [] = [] \<or> flag_or p ''dest'' [] = [] then
        Inl ''--contract, --source and --dest are required''
      else
        sum_bind (required_number p ''units'' (\<lambda>n q. q\<lparr>rq_requested_units := n\<rparr>)
          (empty_request\<lparr>rq_contract_id := flag_id p ''contract'', rq_source_member := flag_id p ''source'',
             rq_destination_member := flag_id p ''dest'', rq_source_endpoint := flag_id p ''source-endpoint'',
             rq_destination_endpoint := flag_id p ''dest-endpoint'', rq_path_id := flag_id p ''path'',
             rq_resource_id := flag_id p ''resource''\<rparr>)) (\<lambda>q.
        sum_bind (required_number p ''lease-ticks'' (\<lambda>n q. q\<lparr>rq_lease_ticks := n\<rparr>) q) (\<lambda>q.
        with_number p ''reservation-generation'' (\<lambda>n q. q\<lparr>rq_reservation_generation := n\<rparr>)
          (q\<lparr>rq_allow_degraded := flag_present p ''allow-degraded'', rq_cluster_id := si_cluster_id si,
             rq_cluster_generation := si_generation si, rq_epoch := si_epoch si, rq_incarnation := si_incarnation si,
             rq_policy_generation := si_policy si\<rparr>))))"

definition fetch_member :: "string \<Rightarrow> string \<Rightarrow> client \<Rightarrow> (u64 \<times> bytes) preparation" where
  "fetch_member role i k =
     prep_bind (ask_text (empty_query_command\<lparr>qc_kind := QkMember, qc_member_id := i\<rparr>) k) (\<lambda>answer k.
       (Some (case Option.bind answer member_evidence of
          None \<Rightarrow> Inl (''cannot read evidence for '' @ role @ '' member '' @ i)
        | Some e \<Rightarrow> Inr e), k))"

text \<open>The generation of the contract as the rendered state shows it, left at zero when it cannot be read.\<close>

definition fetch_contract :: "authority_request \<Rightarrow> client \<Rightarrow> authority_request preparation" where
  "fetch_contract q k =
     prep_bind (ask_text (empty_query_command\<lparr>qc_kind := QkState\<rparr>) k) (\<lambda>answer k.
       (Some (Inr (case Option.bind answer (contract_generation_in (rq_contract_id q)) of
          None \<Rightarrow> q
        | Some n \<Rightarrow> q\<lparr>rq_contract_generation := n\<rparr>)), k))"

definition fetch_path :: "cli_options \<Rightarrow> authority_request \<Rightarrow> client \<Rightarrow> authority_request preparation" where
  "fetch_path p q k =
     (if flag_or p ''path-generation'' [] \<noteq> [] then
        (Some (with_number p ''path-generation'' (\<lambda>n q. q\<lparr>rq_path_generation := n\<rparr>) q), k)
      else if rq_path_id q \<noteq> [] then
        prep_bind (ask_text (empty_query_command\<lparr>qc_kind := QkPath, qc_path_id := rq_path_id q\<rparr>) k) (\<lambda>answer k.
          (Some (Inr (case Option.bind answer (\<lambda>s. rendered_number s ''generation'') of
             None \<Rightarrow> q
           | Some n \<Rightarrow> q\<lparr>rq_path_generation := n\<rparr>)), k))
      else (Some (Inr q), k))"

definition next_sequence :: "client \<Rightarrow> u64 \<times> client" where
  "next_sequence k = (kc_sequence k + 1, k\<lparr>kc_sequence := kc_sequence k + 1\<rparr>)"

text \<open>Identities: an attempt that is not named gets its number from the sequence of this client.\<close>

definition name_request :: "cli_options \<Rightarrow> authority_request \<Rightarrow> client \<Rightarrow> authority_request \<times> client" where
  "name_request p q k =
     (let named = flag_or p ''attempt'' [];
          (attempt, k1) = (if named = [] then (case next_sequence k of (n, k) \<Rightarrow> (id_from_validated (''att-'' @ to_decimal n), k))
                           else (id_from_validated named, k));
          renew = flag_or p ''renew'' [];
          q1 = q\<lparr>rq_attempt_id := attempt\<rparr>;
          q2 = (if renew = [] then q1
                else q1\<lparr>rq_renewal := True, rq_renewal_of := id_from_validated renew, rq_renewal_lease := flag_id p ''renew-lease''\<rparr>)
      in case next_sequence k1 of (n, k2) \<Rightarrow>
        (q2\<lparr>rq_request_id := id_from_validated (''req-'' @ to_decimal n), rq_provenance := cli_provenance (flag_or p ''correlation'' ''cli'')\<rparr>, k2))"

definition prepare_request :: "cli_options \<Rightarrow> client \<Rightarrow> authority_request preparation" where
  "prepare_request p k =
     prep_bind (Some (claimed_request p (kc_server k)), k) (\<lambda>q k.
     prep_bind (fetch_member ''source'' (rq_source_member q) k) (\<lambda>(n, d) k.
     prep_bind (fetch_member ''destination'' (rq_destination_member q) k) (\<lambda>(n', d') k.
     prep_bind (fetch_contract
       (q\<lparr>rq_source_member_generation := n, rq_source_member_digest := d,
          rq_destination_member_generation := n', rq_destination_member_digest := d'\<rparr>) k) (\<lambda>q k.
     prep_bind (fetch_path p q k) (\<lambda>q k.
       case name_request p q k of (q, k) \<Rightarrow> (Some (Inr q), k))))))"

text \<open>Run a command on what was prepared; a complaint ends it with exit code 2.\<close>

definition prepared :: "'a preparation \<Rightarrow> ('a \<Rightarrow> client \<Rightarrow> command) \<Rightarrow> command" where
  "prepared m f = (case m of
     (None, k) \<Rightarrow> (None, k)
   | (Some (Inl e), k) \<Rightarrow> finished (bad_arguments e) k
   | (Some (Inr x), k) \<Rightarrow> f x k)"

definition command_submit :: "cli_options \<Rightarrow> client \<Rightarrow> command" where
  "command_submit p k =
     prepared (prepare_request p k) (\<lambda>q. decide_command p (validate_authority_request q) (client_submit q))"

text \<open>The load run: \<open>todo\<close> requests, numbered from \<open>i\<close>; the outcomes so far, newest first.\<close>

fun load_run :: "cli_options \<Rightarrow> nat \<Rightarrow> nat \<Rightarrow> authority_outcome list
    \<Rightarrow> (authority_outcome list \<Rightarrow> client \<Rightarrow> command) \<Rightarrow> client \<Rightarrow> command" where
  "load_run p i 0 outs report k = report outs k"
| "load_run p i (Suc todo) outs report k =
     prepared (prepare_request p k) (\<lambda>q k.
       cli_call (client_submit (q\<lparr>rq_attempt_id := id_from_validated (''att-load-'' @ to_decimal (of_nat i)),
                                 rq_request_id := id_from_validated (''req-load-'' @ to_decimal (of_nat i))\<rparr>) k) (\<lambda>d k.
       load_run p (i + 1) todo (dc_outcome d # outs) report k))"

definition load_report :: "nat \<Rightarrow> authority_outcome list \<Rightarrow> string" where
  "load_report n outs =
     (let names = map outcome_to_string outs in
      ''LOAD attempts='' @ to_decimal (of_nat n)
      @ '' authoritative='' @ to_decimal (of_nat (length (filter is_authoritative outs))) @ newline
      @ concat (map (\<lambda>s. ''  '' @ s @ '' = '' @ to_decimal (of_nat (count_list names s)) @ newline) (sort (remdups names))))"

definition command_load :: "cli_options \<Rightarrow> client \<Rightarrow> command" where
  "command_load p k = (case parse_decimal_u64 (flag_or p ''attempts'' []) of
     None \<Rightarrow> finished (bad_arguments ''--attempts must be a positive integer'') k
   | Some n \<Rightarrow>
       if n = 0 then finished (bad_arguments ''--attempts must be a positive integer'') k
       else load_run p 0 (unat n) [] (\<lambda>outs. finished (0, load_report (unat n) outs, [])) k)"

section \<open>Operations on grants and attempts\<close>

text \<open>Each takes the next number for its request first.\<close>

definition numbered :: "(string \<Rightarrow> client \<Rightarrow> command) \<Rightarrow> client \<Rightarrow> command" where
  "numbered f k = (case next_sequence k of (n, k) \<Rightarrow> f (id_from_validated (''req-'' @ to_decimal n)) k)"

definition command_release :: "cli_options \<Rightarrow> client \<Rightarrow> command" where
  "command_release p = numbered (\<lambda>i k.
     let q = \<lparr>rl_request_id = i, rl_grant_id = flag_id p ''grant'', rl_attempt_id = flag_id p ''attempt'',
           rl_lease_id = flag_id p ''lease'', rl_cluster_id = [], rl_cluster_generation = 0, rl_epoch = 0,
           rl_incarnation = zero_incarnation, rl_provenance = cli_provenance [],
           rl_administrative = flag_present p ''administrative''\<rparr>
     in decide_command p (validate_release_request q) (client_release q) k)"

definition command_resolve :: "cli_options \<Rightarrow> client \<Rightarrow> command" where
  "command_resolve p = numbered (\<lambda>i k.
     let q = \<lparr>rv_request_id = i, rv_attempt_id = flag_id p ''attempt'', rv_cluster_id = [],
           rv_cluster_generation = 0, rv_epoch = 0, rv_incarnation = zero_incarnation, rv_provenance = cli_provenance []\<rparr>
     in decide_command p (validate_resolve_request q) (client_resolve q) k)"

definition command_ack :: "cli_options \<Rightarrow> client \<Rightarrow> command" where
  "command_ack p = numbered (\<lambda>i k.
     let q = \<lparr>ak_request_id = i, ak_grant_id = flag_id p ''grant'', ak_lease_id = flag_id p ''lease'',
           ak_attempt_id = flag_id p ''attempt'', ak_cluster_generation = 0, ak_epoch = 0,
           ak_incarnation = zero_incarnation, ak_provenance = cli_provenance []\<rparr>
     in decide_command p (validate_acknowledge_request q) (client_acknowledge q) k)"

definition command_cancel :: "cli_options \<Rightarrow> client \<Rightarrow> command" where
  "command_cancel p = numbered (\<lambda>i k.
     let q = \<lparr>cn_request_id = i, cn_attempt_id = flag_id p ''attempt'', cn_grant_id = flag_id p ''grant'',
           cn_cluster_generation = 0, cn_epoch = 0, cn_incarnation = zero_incarnation,
           cn_reason = flag_or p ''reason'' [], cn_provenance = cli_provenance []\<rparr>
     in decide_command p (validate_cancel_request q) (client_cancel q) k)"

section \<open>Journal tools\<close>

definition journal_kind_names :: "string list" where
  "journal_kind_names = [''INVALID'', ''SNAPSHOT'', ''SET_CONTROLLER'', ''MEMBER_UPSERT'', ''MEMBER_REMOVE'',
     ''MEMBER_LIFECYCLE'', ''PATH_UPSERT'', ''PATH_REMOVE'', ''PATH_STATE'', ''EXCLUSION_UPSERT'', ''EXCLUSION_REMOVE'',
     ''OBLIGATION_UPSERT'', ''OBLIGATION_REMOVE'', ''CONTRACT_UPSERT'', ''CONTRACT_REMOVE'', ''EPOCH_BEGIN'',
     ''POLICY_SET'', ''TICK_MARK'', ''GRANT_PREPARED'', ''GRANT_COMMITTED'', ''GRANT_ACKNOWLEDGED'',
     ''GRANT_RELEASED'', ''GRANT_TERMINAL'', ''ATTEMPT_TERMINAL'', ''ATTEMPT_CANCELLED'', ''COUNTERS_SYNC'']"

definition journal_kind_to_string :: "payload \<Rightarrow> string" where
  "journal_kind_to_string p = journal_kind_names ! kind_of p"

definition entry_line :: "entry \<Rightarrow> string" where
  "entry_line e = ''  seq='' @ to_decimal (je_sequence e) @ '' kind='' @ journal_kind_to_string (je_payload e)
     @ '' tick='' @ to_decimal (je_tick e) @ '' digest='' @ digest_hex (entry_digest e) @ newline"

definition replayed_text :: "recovered_state \<Rightarrow> string" where
  "replayed_text rc =
     ''REPLAYED cluster='' @ sp_cluster_id (rc_spec rc)
     @ '' generation='' @ to_decimal (sp_generation (rc_spec rc))
     @ '' epoch='' @ to_decimal (sp_epoch (rc_spec rc)) @ newline
     @ field ''members'' (nat_dec (length (sp_members (rc_spec rc))))
     @ field ''paths'' (nat_dec (length (sp_paths (rc_spec rc))))
     @ field ''contracts'' (nat_dec (length (cs_contracts (rc_contracts rc))))
     @ field ''grants'' (nat_dec (length (rc_grants rc)))
     @ field ''attempts'' (nat_dec (length (rc_attempts rc)))
     @ field ''topology_digest'' (digest_hex (fst (topology_digest (rc_spec rc))))
     @ field ''live_grants'' (nat_dec (length (filter (\<lambda>g. holds_capacity (gr_state g)) (rc_grants rc))))"

text \<open>\<open>log\<close> is the file that \<^verbatim>\<open>--path\<close> names.\<close>

definition command_journal :: "cli_options \<Rightarrow> bytes option \<Rightarrow> program_exit" where
  "command_journal p log = (case co_positional p of
     _ # mode # _ \<Rightarrow>
       if flag_or p ''path'' [] = [] then bad_arguments ''journal requires --path''
       else (case journal_scan log of (scanned, entries, report) \<Rightarrow>
         let head = render_recovery report in
         if \<not> ok scanned then (1, head, cli_complain (''scan failed: '' @ status_to_string scanned))
         else
           let listed = head @ ''RECORDS '' @ nat_dec (length entries) @ newline in
           if mode = ''scan'' then (0, listed @ concat (map entry_line entries), [])
           else (case replay_journal entries of
             (_, Some rc) \<Rightarrow> (0, listed @ replayed_text rc, [])
           | (replayed, None) \<Rightarrow> (1, listed, cli_complain (''replay failed: '' @ status_to_string replayed))))
   | _ \<Rightarrow> bad_arguments ''journal needs a mode (scan|replay)'')"

definition command_digest :: "cli_options \<Rightarrow> bytes option \<Rightarrow> program_exit" where
  "command_digest p log =
     (if flag_or p ''path'' [] = [] then bad_arguments ''digest requires --path''
      else (case journal_scan log of (scanned, entries, report) \<Rightarrow>
        if \<not> ok scanned then (1, [], cli_complain (''scan failed: '' @ status_to_string scanned))
        else (case replay_journal entries of
          (_, Some rc) \<Rightarrow>
            (case topology_digest (rc_spec rc) of (t, sp) \<Rightarrow>
             (0, ''topology_digest '' @ digest_hex t @ newline
                 @ ''spec_digest '' @ digest_hex (fst (spec_digest sp)) @ newline
                 @ ''contract_digest '' @ digest_hex (fst (contracts_digest (rc_contracts rc))) @ newline
                 @ ''valid_bytes '' @ nat_dec (rr_valid_bytes report) @ newline
                 @ ''records '' @ nat_dec (length entries) @ newline, []))
        | (replayed, None) \<Rightarrow> (1, [], cli_complain (''replay failed: '' @ status_to_string replayed)))))"

section \<open>The program\<close>

text \<open>Reaching the daemon; the socket's part is given as for the client.\<close>

definition cli_connect :: "build \<Rightarrow> cli_options \<Rightarrow> status \<Rightarrow> arrival list \<Rightarrow> status list \<Rightarrow> unit preparation" where
  "cli_connect b p connected arrivals outcomes =
     (if \<not> co_has_port p then (Some (Inl ''--port is required for daemon commands''), new_client)
      else (case client_connect (version_banner b)
               (default_client_options\<lparr>ko_host := co_host p, ko_port := co_port p,
                  ko_timeout_millis := unat (co_timeout_millis p), ko_client := ''cif-cli''\<rparr>)
               connected arrivals outcomes new_client of
          (None, k) \<Rightarrow> (None, k)
        | (Some (Inl st), k) \<Rightarrow> (Some (Inl (''cannot reach '' @ co_host p @ '':'' @ to_decimal (ucast (co_port p)) @ '': ''
                                  @ status_to_string st)), k)
        | (Some (Inr _), k) \<Rightarrow> (Some (Inr ()), k)))"

definition daemon_commands :: "(string \<times> (cli_options \<Rightarrow> client \<Rightarrow> command)) list" where
  "daemon_commands = [(''query'', command_query), (''admin'', command_admin), (''submit'', command_submit),
     (''load'', command_load), (''release'', command_release), (''resolve'', command_resolve), (''ack'', command_ack),
     (''cancel'', command_cancel)]"

definition cli_main :: "build \<Rightarrow> string list \<Rightarrow> bytes option \<Rightarrow> status \<Rightarrow> arrival list \<Rightarrow> status list \<Rightarrow> program_exit option" where
  "cli_main b argv log connected arrivals outcomes = (case parse_cli_options argv no_options of
     Inl complaint \<Rightarrow> Some (2, cli_usage, cli_complain complaint)
   | Inr p \<Rightarrow>
       (case co_positional p of
          [] \<Rightarrow> Some (if flag_present p ''help'' then 0 else 2, cli_usage, [])
        | name # _ \<Rightarrow>
            if flag_present p ''help'' then Some (0, cli_usage, [])
            else if name = ''version'' then Some (command_version b)
            else if name = ''journal'' then Some (command_journal p log)
            else if name = ''digest'' then Some (command_digest p log)
            else (case cli_connect b p connected arrivals outcomes of
              (None, _) \<Rightarrow> None
            | (Some (Inl e), _) \<Rightarrow> Some (3, [], cli_complain e)
            | (Some (Inr _), k) \<Rightarrow>
                (case map_of daemon_commands name of
                   Some run \<Rightarrow> fst (run p k)
                 | None \<Rightarrow> Some (2, cli_usage, cli_complain (''unknown command '' @ quoted_name name))))))"

end
