(* ===== verification/Cli_Props.thy ===== *)
theory Cli_Props
  imports Cli_Commands Demo_Cluster Client_Props Daemon_Faults
begin

text \<open>
  The tool reads the daemon's reports: what it takes out of a rendered member or path is exactly what the
  daemon put in, because every field is one line and the first lines are the ones looked for. And the numbers
  the tool draws: they depend on the calls made so far and on nothing else.
\<close>

section \<open>Fields\<close>

lemma field_line: "field key v = (''  '' @ key @ '' = '' @ v) @ [CHR 0x0A]"
  by (simp add: field_def newline_def)

lemma lines_of_field [simp]:
  "one_line key \<Longrightarrow> one_line v \<Longrightarrow> text_lines (field key v @ s) = (''  '' @ key @ '' = '' @ v) # text_lines s"
  using text_lines_line [of "''  '' @ key @ '' = '' @ v" s] by (simp add: field_line)

lemma lines_of_title [simp]:
  "one_line l \<Longrightarrow> text_lines (l @ newline @ s) = l # text_lines s"
  by (simp add: newline_def text_lines_line)

text \<open>The first line with the key sought gives its value; a line with another first key is passed over.\<close>

definition sought :: "string \<Rightarrow> string \<Rightarrow> string option" where
  "sought key l = (let needle = ''  '' @ key @ '' = '' in
     if take (length needle) l = needle then Some (drop (length needle) l) else None)"

fun first_sought :: "string \<Rightarrow> string list \<Rightarrow> string option" where
  "first_sought key [] = None"
| "first_sought key (l # ls) = (case sought key l of None \<Rightarrow> first_sought key ls | Some v \<Rightarrow> Some v)"

lemma parse_rendered_first: "parse_rendered s key = first_sought key (text_lines s)"
proof -
  have "map_option (drop n) (find (\<lambda>l. take n l = needle) ls) = first_sought key ls"
    if "needle = ''  '' @ key @ '' = ''" "n = length needle" for n needle ls
    using that by (induction ls) (auto simp: sought_def)
  then show ?thesis by (simp add: parse_rendered_def Let_def)
qed

lemma sought_hit [simp]: "sought key (CHR '' '' # CHR '' '' # key @ CHR '' '' # CHR ''='' # CHR '' '' # v) = Some v"
  by (simp add: sought_def)

lemma hex_encode_digits: "set (hex_encode bs) \<subseteq> set ''0123456789abcdef''"
proof -
  have "hex_digit b \<in> set ''0123456789abcdef''" for b
  proof -
    have "unat (b AND 0x0F) < 16" using word_and_le1 [of b "0x0F"] by (simp add: word_le_nat_alt)
    then show ?thesis by (simp only: hex_digit_def, intro nth_mem) simp
  qed
  then show ?thesis by (force simp: hex_encode_def)
qed

lemma hex_one_line [simp]: "one_line (hex_encode bs)"
  using hex_encode_digits [of bs] by auto

section \<open>What the tool reads\<close>

lemma rendered_number_first:
  "first_sought key (text_lines s) = Some (to_decimal n) \<Longrightarrow> rendered_number s key = Some n"
  by (simp add: rendered_number_def parse_rendered_first parse_to_decimal)

lemma sought_title:
  "sought ''generation'' (''MEMBER '' @ i) = None" "sought ''digest'' (''MEMBER '' @ i) = None"
  "sought ''generation'' (''PATH '' @ i) = None"
  by (simp_all add: sought_def)

lemma sought_other:
  "sought ''generation'' (''  domain = '' @ v) = None" "sought ''digest'' (''  domain = '' @ v) = None"
  "sought ''digest'' (''  generation = '' @ v) = None"
  "sought ''generation'' (''  generation = '' @ v) = Some v" "sought ''digest'' (''  digest = '' @ v) = Some v"
  by (simp_all add: sought_def)

lemma member_lines:
  assumes "one_line (mb_id m)" "one_line (mb_domain m)"
  obtains ls where "text_lines (render_member m)
    = (''MEMBER '' @ mb_id m) # (''  domain = '' @ mb_domain m) # (''  generation = '' @ to_decimal (mb_generation m))
      # (''  digest = '' @ hex_encode (mb_digest m)) # ls"
proof -
  have "one_line (''MEMBER '' @ mb_id m)" using assms(1) by simp
  from lines_of_title [OF this] show ?thesis
    by (rule_tac that) (simp add: render_member_def assms(2) del: append_Cons append_Nil)
qed

text \<open>The tool's evidence for a request is read from a rendered report, and what it reads is exactly the
  generation and the digest of the member the daemon rendered.\<close>

theorem evidence_read_back:
  assumes "one_line (mb_id m)" "one_line (mb_domain m)" "length (mb_digest m) = 32"
  shows "member_evidence (render_member m) = Some (mb_generation m, mb_digest m)"
proof -
  obtain ls where ls: "text_lines (render_member m)
    = (''MEMBER '' @ mb_id m) # (''  domain = '' @ mb_domain m) # (''  generation = '' @ to_decimal (mb_generation m))
      # (''  digest = '' @ hex_encode (mb_digest m)) # ls"
    using member_lines [OF assms(1,2)] .
  have "rendered_number (render_member m) ''generation'' = Some (mb_generation m)"
    by (rule rendered_number_first)
      (simp only: ls first_sought.simps sought_title sought_other option.case)
  moreover have "parse_rendered (render_member m) ''digest'' = Some (hex_encode (mb_digest m))"
    by (simp only: parse_rendered_first ls first_sought.simps sought_title sought_other option.case)
  moreover have "digest_parse (hex_encode (mb_digest m)) = Some (mb_digest m)"
    by (simp add: digest_parse_def length_hex_encode assms(3) hex_pairs_hex_encode)
  ultimately show ?thesis by (simp add: member_evidence_def)
qed

theorem evidence_read_back_witness:
  "member_evidence (render_member (demo_member ''m'' ''s'')) = Some (1, digest_zero)"
  using evidence_read_back [of "demo_member ''m'' ''s''"] by (simp add: demo_member_def digest_zero_def)

section \<open>The numbers of the client\<close>

definition packs :: "message \<Rightarrow> bool" where
  "packs m = (\<exists>f. pack_message (reply_with m) = Inr f)"

lemma sequence_call_bind:
  assumes "\<And>x k. kc_sequence (snd (f x k)) = kc_sequence k"
  shows "kc_sequence (snd (call_bind m f)) = kc_sequence (snd m)"
  using assms by (simp add: call_bind_def split: prod.split option.split sum.split)

lemma sequence_exchange_frame: "kc_sequence (snd (exchange_frame f k)) = kc_sequence k"
  unfolding exchange_frame_def
  by (subst sequence_call_bind)
    (simp_all add: client_receive_frame_def client_send_frame_def on_link_def split: prod.split)

lemma sequence_request_reply:
  "kc_sequence (snd (request_reply m f k)) = kc_sequence k + (if packs m then 1 else 0)"
proof -
  have "kc_sequence (snd (exchange (reply_with m) k)) = kc_sequence k + (if packs m then 1 else 0)"
  proof (cases "pack_message (reply_with m)")
    case (Inr fr)
    then have "kc_sequence (snd (exchange (reply_with m) k)) = kc_sequence k + 1"
      by (simp add: exchange_def Let_def sequence_call_bind sequence_exchange_frame)
    then show ?thesis using Inr by (simp add: packs_def)
  qed (simp add: exchange_def packs_def)
  then show ?thesis by (simp add: request_reply_def sequence_call_bind)
qed

lemma sequence_ask_text:
  "ask_text c k = (Some x, k') \<Longrightarrow> kc_sequence k' = kc_sequence k + (if packs (MQuery c) then 1 else 0)"
  using sequence_request_reply [of "MQuery c" local_query_result k]
  by (auto simp: ask_text_def client_query_def split: prod.splits option.splits sum.splits)

lemma prep_bind_result:
  assumes "prep_bind m f = (Some (Inr y), k')"
  obtains x k where "m = (Some (Inr x), k)" "f x k = (Some (Inr y), k')"
  using assms by (auto simp: prep_bind_def split: prod.splits option.splits sum.splits)

definition member_query :: "string \<Rightarrow> message" where
  "member_query i = MQuery (empty_query_command\<lparr>qc_kind := QkMember, qc_member_id := i\<rparr>)"

lemma sequence_fetch_member:
  assumes "fetch_member role i k = (Some (Inr x), k')"
  shows "kc_sequence k' = kc_sequence k + (if packs (member_query i) then 1 else 0)"
  using assms sequence_ask_text unfolding fetch_member_def
  by (fastforce elim: prep_bind_result simp: member_query_def)

lemma sequence_fetch_contract:
  assumes "fetch_contract q k = (Some (Inr q'), k')"
  shows "kc_sequence k' = kc_sequence k + (if packs (MQuery (empty_query_command\<lparr>qc_kind := QkState\<rparr>)) then 1 else 0)"
    "rq_path_id q' = rq_path_id q"
  using assms sequence_ask_text unfolding fetch_contract_def
  by (fastforce elim!: prep_bind_result split: option.splits)+

definition path_calls :: "cli_options \<Rightarrow> string \<Rightarrow> u64" where
  "path_calls p i =
     (if flag_or p ''path-generation'' [] = [] \<and> i \<noteq> []
         \<and> packs (MQuery (empty_query_command\<lparr>qc_kind := QkPath, qc_path_id := i\<rparr>)) then 1 else 0)"

lemma sequence_fetch_path:
  assumes "fetch_path p q k = (Some (Inr q'), k')"
  shows "kc_sequence k' = kc_sequence k + path_calls p (rq_path_id q)"
  using assms sequence_ask_text unfolding fetch_path_def path_calls_def
  by (fastforce elim!: prep_bind_result split: option.splits if_splits)

lemma sum_bind_result:
  assumes "sum_bind m f = Inr y"
  obtains x where "m = Inr x" "f x = Inr y"
  using assms by (auto simp: sum_bind_def split: sum.splits)

lemma claimed_names:
  assumes "claimed_request p si = Inr q"
  shows "rq_source_member q = flag_id p ''source''" "rq_destination_member q = flag_id p ''dest''"
    "rq_path_id q = flag_id p ''path''"
  using assms
  by (auto simp: claimed_request_def required_number_def with_number_def Let_def
      elim!: sum_bind_result split: if_splits option.splits)

text \<open>How many numbers are drawn before the attempt is named: a matter of the options alone.\<close>

definition prepare_calls :: "cli_options \<Rightarrow> u64" where
  "prepare_calls p =
     (if packs (member_query (flag_id p ''source'')) then 1 else 0)
     + (if packs (member_query (flag_id p ''dest'')) then 1 else 0)
     + (if packs (MQuery (empty_query_command\<lparr>qc_kind := QkState\<rparr>)) then 1 else 0)
     + path_calls p (flag_id p ''path'')"

lemma prepared_attempt:
  assumes "prepare_request p k = (Some (Inr q), k')" "flag_or p ''attempt'' [] = []"
  shows "rq_attempt_id q = id_from_validated (''att-'' @ to_decimal (kc_sequence k + prepare_calls p + 1))"
proof -
  obtain q0 n d n' d' q1 q2 k1 k2 k3 k4 where steps:
    "claimed_request p (kc_server k) = Inr q0"
    "fetch_member ''source'' (rq_source_member q0) k = (Some (Inr (n, d)), k1)"
    "fetch_member ''destination'' (rq_destination_member q0) k1 = (Some (Inr (n', d')), k2)"
    "fetch_contract (q0\<lparr>rq_source_member_generation := n, rq_source_member_digest := d,
        rq_destination_member_generation := n', rq_destination_member_digest := d'\<rparr>) k2 = (Some (Inr q1), k3)"
    "fetch_path p q1 k3 = (Some (Inr q2), k4)" "name_request p q2 k4 = (q, k')"
    using assms(1) unfolding prepare_request_def
    by (elim prep_bind_result) (fastforce elim!: prep_bind_result split: prod.splits)
  have "kc_sequence k4 = kc_sequence k + prepare_calls p"
    using sequence_fetch_member [OF steps(2)] sequence_fetch_member [OF steps(3)] sequence_fetch_contract [OF steps(4)]
      sequence_fetch_path [OF steps(5)] claimed_names [OF steps(1)]
    by (simp add: prepare_calls_def)
  then show ?thesis
    using steps(6) assms(2)
    by (auto simp: name_request_def next_sequence_def Let_def split: if_splits)
qed

text \<open>A connection draws one number, for the greeting.\<close>

lemma call_bind_result:
  assumes "call_bind m f = (Some (Inr y), k')"
  obtains x k where "m = (Some (Inr x), k)" "f x k = (Some (Inr y), k')"
  using assms by (auto simp: call_bind_def split: prod.splits option.splits sum.splits)

lemma request_reply_packed: "request_reply m f k = (Some (Inr x), k') \<Longrightarrow> packs m"
  by (auto simp: request_reply_def exchange_def packs_def elim!: call_bind_result split: sum.splits)

lemma sequence_on_link: "on_link f k = (r, k') \<Longrightarrow> kc_sequence k' = kc_sequence k"
  by (auto simp: on_link_def split: prod.splits)

lemma sequence_greet:
  assumes "greet banner refused k = (Some (Inr x), k')"
  shows "kc_sequence k' = kc_sequence k + 1"
proof -
  obtain h k1 where hello: "request_reply (MHello banner (ko_client (kc_options k))) (expect_hello_ack refused) k
      = (Some (Inr h), k1)" and "k' = k1\<lparr>kc_server := identity_of h\<rparr>"
    using assms unfolding greet_def by (elim call_bind_result) auto
  then show ?thesis
    using request_reply_packed [OF hello] hello
      sequence_request_reply [of "MHello banner (ko_client (kc_options k))" "expect_hello_ack refused" k] by simp
qed

lemma sequence_connect:
  assumes "client_connect banner p connected arrivals outcomes new_client = (Some (Inr x), k)"
    and "ko_client p \<noteq> []" "\<not> ko_skip_hello p"
  shows "kc_sequence k = 1"
proof -
  let ?k0 = "name_client (new_client\<lparr>kc_options := p\<rparr>)"
  have start: "kc_sequence ?k0 = 0" "kc_options ?k0 = p" using assms(2) by (simp_all add: name_client_def new_client_def)
  obtain k1 k2 where calls: "on_link (stream_connect connected arrivals outcomes) ?k0 = (Some (Inr ()), k1)"
    "on_link stream_call k1 = (Some (Inr ()), k2)"
    and rest: "(let k1 = k2\<lparr>kc_server := no_identity\<rparr> in if ko_skip_hello (kc_options k1) then (Some (Inr ()), k1)
       else greet banner (\<lambda>code m. status_error ScUnsupported (code @ '': '' @ sanitise_for_display m 192)) k1)
       = (Some (Inr x), k)"
    using assms(1) unfolding client_connect_def by (elim call_bind_result) auto
  have "kc_options k2 = p" using calls start(2) by (auto simp: on_link_def split: prod.splits)
  then show ?thesis
    using rest assms(3) sequence_greet sequence_on_link [OF calls(1)] sequence_on_link [OF calls(2)] start(1)
    by (fastforce simp: Let_def)
qed

lemma sequence_connected:
  assumes "cli_connect b p connected arrivals outcomes = (Some (Inr ()), k)"
  shows "kc_sequence k = 1"
proof -
  obtain x where "client_connect (version_banner b)
      (default_client_options\<lparr>ko_host := co_host p, ko_port := co_port p,
         ko_timeout_millis := unat (co_timeout_millis p), ko_client := ''cif-cli''\<rparr>)
      connected arrivals outcomes new_client = (Some (Inr x), k)"
    using assms by (auto simp: cli_connect_def split: if_splits prod.splits option.splits sum.splits)
  then show ?thesis by (rule sequence_connect) (simp_all add: default_client_options_def)
qed


section \<open>A run of the tool\<close>

text \<open>A daemon that greets in epoch \<open>e\<close> and answers every query with the same member evidence.\<close>

definition demo_evidence :: string where
  "demo_evidence = field ''generation'' (to_decimal 1) @ field ''digest'' (hex_encode digest_zero)"

definition demo_ack :: "u64 \<Rightarrow> wire_message" where
  "demo_ack e = reply_with (MHelloAck \<lparr>ha_banner = ''b'', ha_cluster_id = ''c'', ha_cluster_generation = 1, ha_epoch = e,
     ha_policy = 0, ha_incarnation = zero_incarnation, ha_state_digest = digest_zero\<rparr>)"

definition demo_answer :: wire_message where
  "demo_answer = reply_with (MQueryResult \<lparr>qr_code = ScOk, qr_message = [], qr_text = demo_evidence, qr_cluster_id = ''c'',
     qr_generation = 1, qr_epoch = 1, qr_policy = 0, qr_incarnation = zero_incarnation, qr_state_digest = digest_zero,
     qr_spec_digest = digest_zero, qr_topology_digest = digest_zero\<rparr>)"

definition demo_submission :: cli_options where
  "demo_submission = put_flag ''contract'' ''k'' (put_flag ''source'' ''m'' (put_flag ''dest'' ''n''
     (no_options\<lparr>co_port := 7000, co_has_port := True\<rparr>)))"

definition demo_build :: build where
  "demo_build = \<lparr>bd_configuration = ''Release'', bd_toolchain = ''gcc'', bd_test_hooks = False\<rparr>"

lemma demo_evidence_length: "length demo_evidence = 93"
  by (simp add: demo_evidence_def field_def newline_def length_hex_encode digest_zero_def to_decimal_def decimal_loop.simps)

lemma demo_evidence_utf8: "is_valid_utf8 demo_evidence"
  unfolding is_valid_utf8_def
  by (rule ascii_utf8)
    (simp add: demo_evidence_def field_def newline_def to_decimal_def decimal_loop.simps hex_encode_def digest_zero_def
      hex_digit_def bytes_of_def byte_of_def digit_char_def list_all_iff)

lemma small_counters: "length (w_text ''b'') \<le> 3" "length (w_text ''c'') \<le> 3" "length (w_text []) \<le> 1"
    "length (w_text ''cif-cli'') \<le> 15" "length (w_text ''m'') \<le> 3" "length (w_text ''n'') \<le> 3"
    "length (w_text demo_evidence) \<le> 187"
  using w_text_short [of "''b''"] w_text_short [of "''c''"] w_text_short [of "[]"] w_text_short [of "''cif-cli''"]
    w_text_short [of "''m''"] w_text_short [of "''n''"] w_text_short [of demo_evidence]
  by (simp_all add: demo_evidence_length)

lemma demo_ack_packs:
  obtains g where "pack_message (demo_ack e) = Inr g"
proof -
  have "length (encode_message (wm_body (demo_ack e))) \<le> kMaxFramePayloadBytes"
    using small_counters
    by (simp add: demo_ack_def reply_with_def encode_hello_ack_def encode_id_def encode_counter_def encode_incarnation_def
        w_raw_def w_u64_def zero_incarnation_def digest_zero_def kMaxFramePayloadBytes_def kMaxFrameBytes_def)
  then show ?thesis by (intro that) (simp add: pack_message_def Let_def)
qed

lemma demo_answer_packs:
  obtains g where "pack_message demo_answer = Inr g"
proof -
  have "length (encode_message (wm_body demo_answer)) \<le> kMaxFramePayloadBytes"
    using small_counters
    by (simp add: demo_answer_def reply_with_def encode_query_result_def encode_status_def w_enum_def w_u8_def status_error_def
        encode_id_def encode_counter_def encode_incarnation_def
        w_raw_def w_u64_def zero_incarnation_def digest_zero_def kMaxFramePayloadBytes_def kMaxFrameBytes_def)
  then show ?thesis by (intro that) (simp add: pack_message_def Let_def)
qed

lemma demo_packs:
  assumes "qc_member_id c \<in> {[], ''m'', ''n''}" "qc_path_id c = []" "qc_grant_id c = []" "qc_attempt_id c = []"
  shows "packs (MQuery c)"
proof -
  have "length (encode_message (MQuery c)) \<le> kMaxFramePayloadBytes"
    using assms small_counters
    by (auto simp: encode_query_command_def w_enum16_def w_u16_def encode_id_def w_boolean_def w_u8_def
        kMaxFramePayloadBytes_def kMaxFrameBytes_def)
  then show ?thesis by (simp add: packs_def pack_message_def reply_with_def Let_def)
qed

lemma demo_hello_packs: "packs (MHello (version_banner demo_build) ''cif-cli'')"
proof -
  have "length (version_banner demo_build) \<le> 200"
    by (simp add: version_banner_def demo_build_def version_string_def on_off_def journal_format_version_def
        wire_protocol_version_def to_decimal_def decimal_loop.simps)
  then have "length (encode_message (MHello (version_banner demo_build) ''cif-cli'')) \<le> kMaxFramePayloadBytes"
    using w_text_short [of "version_banner demo_build"] small_counters
    by (simp add: encode_id_def kMaxFramePayloadBytes_def kMaxFrameBytes_def)
  then show ?thesis by (simp add: packs_def pack_message_def reply_with_def Let_def)
qed

lemma demo_ack_unpacks:
  "pack_message (demo_ack e) = Inr g \<Longrightarrow> unpack_message g = Inr (demo_ack e)"
  using packed_unpacks [of "demo_ack e" g]
  by (simp add: demo_ack_def reply_with_def hello_ack_ok_def limit_defs zero_incarnation_def digest_zero_def
      received_message_def id_ok_def is_valid_id_def is_valid_identifier_def identifier_char_def)

lemma demo_answer_unpacks:
  "pack_message demo_answer = Inr g \<Longrightarrow> unpack_message g = Inr demo_answer"
  using packed_unpacks [of demo_answer g] demo_evidence_utf8
  by (simp add: demo_answer_def reply_with_def query_result_ok_def status_ok_def status_error_def limit_defs
      zero_incarnation_def digest_zero_def demo_evidence_length kMaxFramePayloadBytes_def kMaxFrameBytes_def
      is_valid_utf8_def utf8_from.simps
      received_message_def id_ok_def is_valid_id_def is_valid_identifier_def identifier_char_def)

text \<open>A client whose connection brings the given bytes gets the answer they spell.\<close>

lemma request_answered:
  assumes "ready k (framed 0 g @ later)" "pack_message w = Inr g" "unpack_message g = Inr w" "packs m"
    "read (wm_body w) = Inr x"
  shows "\<exists>k'. request_reply m read k = (Some (Inr x), k') \<and> ready k' later"
proof -
  obtain f where "pack_message (reply_with m) = Inr f" using assms(4) by (auto simp: packs_def)
  from exchange_ready [OF assms(1) packed_bound [OF assms(2)] this] assms(3,5) show ?thesis
    by (auto simp: request_reply_def call_bind_def)
qed

definition demo_run :: "u64 \<Rightarrow> arrival list" where
  "demo_run e = (case (pack_message (demo_ack e), pack_message demo_answer) of
     (Inr g, Inr h) \<Rightarrow> [Arrived (framed 0 g), Arrived (framed 0 h @ framed 0 h), Arrived (framed 0 h)]
   | _ \<Rightarrow> [])"

lemma demo_connects:
  assumes "pack_message demo_answer = Inr h"
  shows "\<exists>k. cli_connect demo_build demo_submission success (demo_run e) [] = (Some (Inr ()), k)
    \<and> ready k (framed 0 h @ framed 0 h @ framed 0 h)"
proof -
  obtain g where g: "pack_message (demo_ack e) = Inr g" using demo_ack_packs .
  define k0 where "k0 = new_client\<lparr>kc_options := default_client_options\<lparr>ko_port := 7000, ko_client := ''cif-cli''\<rparr>,
    kc_link := closed_link\<lparr>lk_open := True, lk_arrivals := demo_run e\<rparr>\<rparr>"
  have "ready k0 (framed 0 g @ framed 0 h @ framed 0 h @ framed 0 h)"
    by (simp add: ready_def k0_def demo_run_def g assms closed_link_def new_channel_def channel_ok_def framed_nonempty
        new_client_def)
  from request_answered [OF this g demo_ack_unpacks [OF g] demo_hello_packs, of "expect_hello_ack refused"
      "case wm_body (demo_ack e) of MHelloAck a \<Rightarrow> a" for refused]
  have "\<exists>k'. request_reply (MHello (version_banner demo_build) ''cif-cli'') (expect_hello_ack refused) k0
      = (Some (Inr (case wm_body (demo_ack e) of MHelloAck a \<Rightarrow> a)), k') \<and> ready k' (framed 0 h @ framed 0 h @ framed 0 h)"
    for refused by (simp add: expect_hello_ack_def demo_ack_def reply_with_def)
  then obtain k1 where k1: "request_reply (MHello (version_banner demo_build) ''cif-cli'')
      (expect_hello_ack (\<lambda>code m. status_error ScUnsupported (code @ '': '' @ sanitise_for_display m 192))) k0
      = (Some (Inr (case wm_body (demo_ack e) of MHelloAck a \<Rightarrow> a)), k1)"
    "ready k1 (framed 0 h @ framed 0 h @ framed 0 h)" by blast
  have "cli_connect demo_build demo_submission success (demo_run e) []
      = (Some (Inr ()), k1\<lparr>kc_server := identity_of (case wm_body (demo_ack e) of MHelloAck a \<Rightarrow> a)\<rparr>)"
    using k1(1)
    by (simp add: cli_connect_def demo_submission_def put_flag_def no_options_def client_connect_def name_client_def
        default_client_options_def new_client_def on_link_def stream_connect_def stream_call_def closed_link_def
        call_bind_def greet_def k0_def)
  then show ?thesis using k1(2) by (auto simp: ready_def)
qed

lemma demo_asked:
  assumes "pack_message demo_answer = Inr h" "ready k (framed 0 h @ later)" "packs (MQuery c)"
  shows "\<exists>k'. ask_text c k = (Some (Inr (Some demo_evidence)), k') \<and> ready k' later"
  using request_answered [OF assms(2,1) demo_answer_unpacks [OF assms(1)] assms(3), of local_query_result
      "case wm_body demo_answer of MQueryResult r \<Rightarrow> r"]
  by (auto simp: ask_text_def client_query_def demo_answer_def reply_with_def local_query_result_def)

lemma demo_evidence_read: "member_evidence demo_evidence = Some (1, digest_zero)"
proof -
  have lines: "text_lines demo_evidence
      = [''  generation = '' @ to_decimal 1, ''  digest = '' @ hex_encode digest_zero]"
    using lines_of_field [of "''generation''" "to_decimal 1" "field ''digest'' (hex_encode digest_zero)"]
      lines_of_field [of "''digest''" "hex_encode digest_zero" "[]"]
    by (simp add: demo_evidence_def)
  have "rendered_number demo_evidence ''generation'' = Some 1"
    by (rule rendered_number_first) (simp only: lines first_sought.simps sought_other option.case)
  moreover have "parse_rendered demo_evidence ''digest'' = Some (hex_encode digest_zero)"
    by (simp only: parse_rendered_first lines first_sought.simps sought_other option.case)
  moreover have "digest_parse (hex_encode digest_zero) = Some digest_zero"
    by (simp add: digest_parse_def length_hex_encode digest_zero_def hex_pairs_hex_encode)
  ultimately show ?thesis by (simp add: member_evidence_def)
qed

lemma demo_prepares:
  assumes h: "pack_message demo_answer = Inr h" and "ready k (framed 0 h @ framed 0 h @ framed 0 h)"
  shows "\<exists>q k'. prepare_request demo_submission k = (Some (Inr q), k')"
proof -
  have flags: "flag_or demo_submission ''contract'' [] = ''k''" "flag_or demo_submission ''source'' [] = ''m''"
    "flag_or demo_submission ''dest'' [] = ''n''" "flag_or demo_submission ''units'' ''0'' = ''0''"
    "flag_or demo_submission ''lease-ticks'' ''0'' = ''0''" "flag_or demo_submission ''path'' [] = []"
    "flag_or demo_submission ''reservation-generation'' [] = []" "flag_or demo_submission ''path-generation'' [] = []"
    "flag_id demo_submission ''source'' = ''m''" "flag_id demo_submission ''dest'' = ''n''"
    "flag_id demo_submission ''path'' = []"
    by (simp_all add: flag_or_def flag_id_def demo_submission_def put_flag_def no_options_def id_from_validated_def
        is_valid_id_def is_valid_identifier_def identifier_char_def limit_defs)
  have zero: "parse_decimal_u64 ''0'' = Some 0" using parse_to_decimal [of 0] by (simp add: to_decimal_def)
  obtain q where q: "claimed_request demo_submission (kc_server k) = Inr q" "rq_source_member q = ''m''"
    "rq_destination_member q = ''n''" "rq_path_id q = []"
    by (simp add: claimed_request_def flags sum_bind_def required_number_def zero with_number_def empty_request_def)
  have evidence: "member_evidence demo_evidence = Some (1, digest_zero)" by (rule demo_evidence_read)
  have packs: "packs (MQuery (empty_query_command\<lparr>qc_kind := QkMember, qc_member_id := ''m''\<rparr>))"
    "packs (MQuery (empty_query_command\<lparr>qc_kind := QkMember, qc_member_id := ''n''\<rparr>))"
    "packs (MQuery (empty_query_command\<lparr>qc_kind := QkState\<rparr>))"
    by (rule demo_packs; simp add: empty_query_command_def)+
  from demo_asked [OF assms packs(1)] obtain k1 where k1:
    "ask_text (empty_query_command\<lparr>qc_kind := QkMember, qc_member_id := ''m''\<rparr>) k = (Some (Inr (Some demo_evidence)), k1)"
    "ready k1 (framed 0 h @ framed 0 h)" by auto
  from demo_asked [OF h k1(2) packs(2)] obtain k2 where k2:
    "ask_text (empty_query_command\<lparr>qc_kind := QkMember, qc_member_id := ''n''\<rparr>) k1 = (Some (Inr (Some demo_evidence)), k2)"
    "ready k2 (framed 0 h @ [])" by auto
  from demo_asked [OF h k2(2) packs(3)] obtain k3 where k3:
    "ask_text (empty_query_command\<lparr>qc_kind := QkState\<rparr>) k2 = (Some (Inr (Some demo_evidence)), k3)" by auto
  show ?thesis
    by (simp add: prepare_request_def prep_bind_def q fetch_member_def k1 k2 k3 evidence fetch_contract_def fetch_path_def
        flags split: prod.split option.split)
qed


end
