(* ===== verification/Platform.thy ===== *)
theory Platform
  imports Status Text
begin

text \<open>
  The platform layer (\<^verbatim>\<open>src/platform.cpp\<close>), POSIX branch: what each call makes of the results of the
  system calls under it, which are its arguments. A call that reports an error number gets it with its result.
\<close>

section \<open>Errors\<close>

definition signed_text :: "int \<Rightarrow> string" where
  "signed_text i = (if i < 0 then CHR ''-'' # to_decimal (of_int (- i)) else to_decimal (of_int i))"

definition error_text :: "string \<Rightarrow> int \<Rightarrow> string" where
  "error_text what code = what @ '' failed (errno='' @ signed_text code @ '')''"

text \<open>The outcome of a system call: \<open>None\<close> when it succeeded, its error number otherwise.\<close>

type_synonym call_outcome = "int option"

definition io_outcome :: "string \<Rightarrow> call_outcome \<Rightarrow> status" where
  "io_outcome what r = (case r of None \<Rightarrow> success | Some e \<Rightarrow> status_error ScIoFailure (error_text what e))"

section \<open>Files\<close>

definition platform_sync_file :: "bool \<Rightarrow> call_outcome \<Rightarrow> bool \<Rightarrow> call_outcome \<Rightarrow> status" where
  "platform_sync_file stream flushed has_descriptor synced =
     (if \<not> stream then status_error ScInvalidArgument ''sync_file received a null stream''
      else if \<not> ok (io_outcome ''fflush'' flushed) then io_outcome ''fflush'' flushed
      else if \<not> has_descriptor then status_error ScIoFailure ''invalid file descriptor''
      else io_outcome ''fsync'' synced)"

text \<open>The calls of the filesystem library report a text in place of a number.\<close>

definition atomic_replace :: "string option \<Rightarrow> status" where
  "atomic_replace renamed = (case renamed of None \<Rightarrow> success | Some e \<Rightarrow> status_error ScIoFailure (''rename failed: '' @ e))"

definition remove_file :: "string \<Rightarrow> string + bool \<Rightarrow> status" where
  "remove_file path removed = (case removed of
     Inl e \<Rightarrow> status_error ScIoFailure (''remove failed: '' @ e)
   | Inr existed \<Rightarrow> if existed then success else status_error ScNotFound (''file does not exist: '' @ path))"

definition file_exists :: "string + bool \<Rightarrow> bool" where
  "file_exists found = (found = Inr True)"

definition file_size_bytes :: "string + u64 \<Rightarrow> u64" where
  "file_size_bytes measured = (case measured of Inl e \<Rightarrow> 0 | Inr n \<Rightarrow> n)"

definition truncate_file :: "call_outcome \<Rightarrow> status" where
  "truncate_file truncated = io_outcome ''truncate'' truncated"

text \<open>
  Reading the whole file: \<open>reads\<close> is what the calls of \<^verbatim>\<open>fread\<close> bring, one after the other; a call gives no
  more than it was asked for, and nothing once the list is used up.
\<close>

fun read_loop :: "nat \<Rightarrow> bytes list \<Rightarrow> bytes \<Rightarrow> bytes" where
  "read_loop n [] got = got"
| "read_loop n (chunk # reads) got =
     (let piece = take (n - length got) chunk in
      if length got < n \<and> piece \<noteq> [] then read_loop n reads (got @ piece) else got)"

definition read_file :: "string \<Rightarrow> u64 \<Rightarrow> string + u64 \<Rightarrow> call_outcome \<Rightarrow> bytes list \<Rightarrow> bool \<Rightarrow> status + bytes" where
  "read_file path max_bytes measured opened reads read_error =
     (let n = file_size_bytes measured in
      if n > max_bytes then
        Inl (status_error ScLimitExceeded (''file exceeds the configured read bound of '' @ to_decimal max_bytes @ '' bytes''))
      else case opened of
        Some e \<Rightarrow> Inl (status_error ScIoFailure (''cannot open '' @ [CHR 0x27] @ path @ [CHR 0x27] @ '' for reading (errno=''
                    @ signed_text e @ '')''))
      | None \<Rightarrow>
          let got = read_loop (unat n) reads [] in
          if read_error then Inl (status_error ScIoFailure (''read error while reading '' @ [CHR 0x27] @ path @ [CHR 0x27]))
          else if length got \<noteq> unat n then
            Inl (status_error ScTruncated (''short read: expected '' @ to_decimal n @ '' bytes, got '' @ to_decimal (of_nat (length got))))
          else Inr got)"

definition ensure_parent_directory :: "string \<Rightarrow> string option \<Rightarrow> status" where
  "ensure_parent_directory parent created =
     (if parent = [] then success
      else case created of None \<Rightarrow> success
      | Some e \<Rightarrow> status_error ScIoFailure (''cannot create directory '' @ [CHR 0x27] @ parent @ [CHR 0x27] @ '': '' @ e))"

text \<open>The probe writes sixteen bytes; \<open>wrote\<close> is how many went out.\<close>

definition durability_probe :: "bool \<Rightarrow> nat \<Rightarrow> status \<Rightarrow> bool" where
  "durability_probe opened wrote synced = (opened \<and> wrote = 16 \<and> ok synced)"

section \<open>Properties\<close>

lemma read_loop_prefix:
  "length got \<le> n \<Longrightarrow> \<exists>rest. got @ concat reads = read_loop n reads got @ rest"
proof (induction n reads got rule: read_loop.induct)
  case (2 n chunk reads got)
  let ?piece = "take (n - length got) chunk"
  show ?case
  proof (cases "length got < n \<and> ?piece \<noteq> []")
    case True
    show ?thesis
    proof (cases "length chunk \<le> n - length got")
      case True
      then show ?thesis using 2 \<open>length got < n \<and> ?piece \<noteq> []\<close> by (fastforce simp: Let_def)
    next
      case False
      then have "length (got @ ?piece) = n" using 2(2) by simp
      then have "read_loop n reads (got @ ?piece) = got @ ?piece" by (cases reads) (simp_all add: Let_def)
      then show ?thesis using True by (simp add: Let_def) (metis append.assoc append_take_drop_id)
    qed
  next
    case False
    then show ?thesis by (simp only: read_loop.simps Let_def if_False) blast
  qed
qed simp

lemma read_loop_bound: "length got \<le> n \<Longrightarrow> length (read_loop n reads got) \<le> n"
  by (induction n reads got rule: read_loop.induct) (auto simp: Let_def)

text \<open>What is read is the beginning of what the file holds, as long as its n said and within the bound.\<close>

lemma read_file_exact:
  assumes "read_file path m n opened reads e = Inr bs"
  shows "length bs = unat (file_size_bytes n) \<and> file_size_bytes n \<le> m \<and> (\<exists>rest. concat reads = bs @ rest)"
  using assms read_loop_prefix [of "[]" "unat (file_size_bytes n)" reads]
  by (auto simp: read_file_def Let_def split: if_splits option.splits)

end
