(* ===== verification/Process.thy ===== *)
theory Process
  imports Platform Lines
begin

text \<open>
  Child processes (\<^verbatim>\<open>include/cif/process.hpp\<close>, \<^verbatim>\<open>src/process.cpp\<close>), POSIX branch, with the quoting of
  the other platform: spawning, watching, killing and reaping a child, waiting for a file, and reading what the
  daemon writes into its ready file. The results of the system calls are arguments.
\<close>

section \<open>Quoting an argument\<close>

text \<open>\<open>n\<close> is the number of backslashes just written.\<close>

fun quote_loop :: "nat \<Rightarrow> string \<Rightarrow> string" where
  "quote_loop n [] = replicate n (CHR 0x5C) @ [CHR 0x22]"
| "quote_loop n (c # cs) =
     (if c = CHR 0x5C then c # quote_loop (n + 1) cs
      else if c = CHR 0x22 then replicate (n + 1) (CHR 0x5C) @ CHR 0x22 # quote_loop 0 cs
      else c # quote_loop 0 cs)"

definition quote_argument :: "string \<Rightarrow> string" where
  "quote_argument argument = CHR 0x22 # quote_loop 0 argument"

definition command_line :: "string \<Rightarrow> string list \<Rightarrow> string" where
  "command_line executable arguments =
     quote_argument executable @ concat (map (\<lambda>a. CHR 0x20 # quote_argument a) arguments)"

section \<open>Children\<close>

record process_options =
  po_executable :: string
  po_arguments :: "string list"
  po_working_directory :: string
  po_output_file :: string

record child =
  cp_pid :: int
  cp_reaped :: bool
  cp_exit_code :: u32
  cp_output_file :: string

text \<open>How a process ended, and what a call of \<^verbatim>\<open>waitpid\<close> brings: its result, its error number and the ending.\<close>

datatype ending = Exited u8 | Killed

record waited =
  wt_result :: int
  wt_errno :: int
  wt_ending :: ending

definition exit_code_of :: "ending \<Rightarrow> u32" where
  "exit_code_of e = (case e of Exited c \<Rightarrow> ucast c | Killed \<Rightarrow> 128)"

definition reaped :: "waited \<Rightarrow> child \<Rightarrow> child" where
  "reaped w c = c\<lparr>cp_reaped := True, cp_exit_code := exit_code_of (wt_ending w)\<rparr>"

text \<open>The argument vector of the new program.\<close>

definition argument_vector :: "process_options \<Rightarrow> string list" where
  "argument_vector p = po_executable p # po_arguments p"

text \<open>\<open>forked\<close> is what \<^verbatim>\<open>fork\<close> returns to the parent. The handle is left alone when nothing was started.\<close>

definition spawn_checks :: "process_options \<Rightarrow> bool \<Rightarrow> status" where
  "spawn_checks p executable_exists =
     (if po_executable p = [] then status_error ScInvalidArgument ''spawn requires an executable path''
      else if \<not> executable_exists then status_error ScNotFound (''executable not found: '' @ po_executable p)
      else success)"

definition spawn :: "process_options \<Rightarrow> bool \<Rightarrow> int \<Rightarrow> child option \<Rightarrow> status \<times> child option" where
  "spawn p executable_exists forked handle =
     (if \<not> ok (spawn_checks p executable_exists) then (spawn_checks p executable_exists, handle)
      else if forked < 0 then (status_error ScIoFailure ''fork failed'', handle)
      else (success, Some \<lparr>cp_pid = forked, cp_reaped = False, cp_exit_code = 0, cp_output_file = po_output_file p\<rparr>))"

definition child_running :: "waited \<Rightarrow> child option \<Rightarrow> bool \<times> child option" where
  "child_running w handle = (case handle of
     None \<Rightarrow> (False, handle)
   | Some c \<Rightarrow>
       if cp_reaped c then (False, handle)
       else if wt_result w = cp_pid c then (False, Some (reaped w c))
       else (wt_result w = 0, handle))"

text \<open>The loop goes on after an interrupted call, and also after a result that is neither an error nor the child.\<close>

fun wait_loop :: "waited list \<Rightarrow> child \<Rightarrow> (status \<times> child) option" where
  "wait_loop [] c = None"
| "wait_loop (w # ws) c =
     (if wt_result w = cp_pid c then Some (success, reaped w c)
      else if wt_result w < 0 \<and> wt_errno w \<noteq> 4 then Some (status_error ScIoFailure ''waitpid failed'', c)
      else wait_loop ws c)"

text \<open>The exit code is given back on success only; \<open>None\<close> is a wait that has not ended.\<close>

definition child_wait :: "waited list \<Rightarrow> child option \<Rightarrow> ((status + u32) \<times> child option) option" where
  "child_wait ws handle = (case handle of
     None \<Rightarrow> Some (Inl (status_error ScInvalidArgument ''no child process handle''), None)
   | Some c \<Rightarrow>
       if cp_reaped c then Some (Inr (cp_exit_code c), handle)
       else map_option (\<lambda>(st, c). (if ok st then Inr (cp_exit_code c) else Inl st, Some c)) (wait_loop ws c))"

definition child_terminate :: "bool \<Rightarrow> waited list \<Rightarrow> child option \<Rightarrow> (status \<times> child option) option" where
  "child_terminate killed ws handle =
     (let live = (case handle of None \<Rightarrow> False | Some c \<Rightarrow> \<not> cp_reaped c) in
      if \<not> live then Some (status_error ScInvalidArgument ''no live child process to terminate'', handle)
      else if \<not> killed then Some (status_error ScIoFailure ''kill(SIGKILL) failed'', handle)
      else map_option (\<lambda>(r, h). (case r of Inl st \<Rightarrow> st | Inr _ \<Rightarrow> success, h)) (child_wait ws handle))"

definition read_output :: "string option \<Rightarrow> child option \<Rightarrow> string" where
  "read_output contents handle = (case handle of
     None \<Rightarrow> []
   | Some c \<Rightarrow> if cp_output_file c = [] then [] else case contents of None \<Rightarrow> [] | Some t \<Rightarrow> t)"

section \<open>Files of other processes\<close>

text \<open>Looking for a tool next to the program and then in the directory of the installed ones.\<close>

definition find_sibling_tool :: "string \<Rightarrow> string \<Rightarrow> (string \<Rightarrow> bool) \<Rightarrow> string \<Rightarrow> string" where
  "find_sibling_tool directory parent exists_at tool =
     (if directory = [] then []
      else if exists_at (directory @ ''/'' @ tool) then directory @ ''/'' @ tool
      else if exists_at (parent @ ''/bin/'' @ tool) then parent @ ''/bin/'' @ tool
      else [])"

text \<open>The polls: whether the file was there with something in it, and the clock after that.\<close>

fun poll_file :: "string \<Rightarrow> u64 \<Rightarrow> (bool \<times> u64) list \<Rightarrow> status option" where
  "poll_file path deadline [] = None"
| "poll_file path deadline ((present, now) # polls) =
     (if present then Some success
      else if now \<ge> deadline then Some (status_error ScTimeout (''timed out waiting for '' @ [CHR 0x27] @ path @ [CHR 0x27]))
      else poll_file path deadline polls)"

definition wait_for_file :: "string \<Rightarrow> u64 \<Rightarrow> u64 \<Rightarrow> (bool \<times> u64) list \<Rightarrow> status option" where
  "wait_for_file path timeout_millis start polls = poll_file path (start + timeout_millis * 1000000) polls"

definition read_text_file :: "string \<Rightarrow> string option \<Rightarrow> status + string" where
  "read_text_file path contents = (case contents of
     None \<Rightarrow> Inl (status_error ScIoFailure (''cannot read '' @ [CHR 0x27] @ path @ [CHR 0x27]))
   | Some t \<Rightarrow> Inr t)"

text \<open>The first line with the key gives its value; a carriage return at the end of a line is dropped.\<close>

definition ready_line :: "string \<Rightarrow> (string \<times> string) option" where
  "ready_line l =
     (let l = (if l \<noteq> [] \<and> List.last l = CHR 0x0D then butlast l else l)
      in if CHR 0x20 \<notin> set l then None
         else Some (takeWhile (\<lambda>c. c \<noteq> CHR 0x20) l, drop 1 (dropWhile (\<lambda>c. c \<noteq> CHR 0x20) l)))"

fun lookup_lines :: "string \<Rightarrow> string list \<Rightarrow> string option" where
  "lookup_lines key [] = None"
| "lookup_lines key (l # ls) = (case ready_line l of
     None \<Rightarrow> lookup_lines key ls
   | Some (k, v) \<Rightarrow> if k = key then Some v else lookup_lines key ls)"

definition lookup_ready_value :: "string \<Rightarrow> string \<Rightarrow> string option" where
  "lookup_ready_value s key = lookup_lines key (text_lines s)"

section \<open>The quoting is read back\<close>

text \<open>
  The documented rules by which the other platform splits a command line: white space separates words outside
  quotes; \<open>2n\<close> backslashes before a quote stand for \<open>n\<close> and the quote opens or closes, \<open>2n + 1\<close> for \<open>n\<close> and a quote
  that is meant; other backslashes stand for themselves. \<open>n\<close> counts the backslashes just read.
\<close>

definition flush_word :: "nat \<Rightarrow> string option \<Rightarrow> string list" where
  "flush_word n word = (case word of
     None \<Rightarrow> if n = 0 then [] else [replicate n (CHR 0x5C)]
   | Some w \<Rightarrow> [w @ replicate n (CHR 0x5C)])"

definition word_so_far :: "string option \<Rightarrow> string" where
  "word_so_far word = (case word of None \<Rightarrow> [] | Some w \<Rightarrow> w)"

fun split_words :: "bool \<Rightarrow> nat \<Rightarrow> string option \<Rightarrow> string \<Rightarrow> string list" where
  "split_words quoted n word [] = flush_word n word"
| "split_words quoted n word (c # cs) =
     (if c = CHR 0x5C then split_words quoted (n + 1) word cs
      else if c = CHR 0x22 then
        (if even n then split_words (\<not> quoted) 0 (Some (word_so_far word @ replicate (n div 2) (CHR 0x5C))) cs
         else split_words quoted 0 (Some (word_so_far word @ replicate (n div 2) (CHR 0x5C) @ [c])) cs)
      else if (c = CHR 0x20 \<or> c = CHR 0x09) \<and> \<not> quoted then flush_word n word @ split_words False 0 None cs
      else split_words quoted 0 (Some (word_so_far word @ replicate n (CHR 0x5C) @ [c])) cs)"

lemma split_backslashes:
  "split_words q n word (replicate m (CHR 0x5C) @ cs) = split_words q (n + m) word cs"
  by (induction m arbitrary: n) simp_all

lemma split_quoted:
  "split_words True n (Some w) (quote_loop n a @ cs) = split_words False 0 (Some (w @ replicate n (CHR 0x5C) @ a)) cs"
proof (induction a arbitrary: n w)
  case Nil
  show ?case by (simp add: split_backslashes word_so_far_def)
next
  case (Cons c a)
  have "split_words True n (Some w) (replicate (n + 1) (CHR 0x5C) @ CHR 0x22 # quote_loop 0 a @ cs)
      = split_words True 0 (Some (w @ replicate n (CHR 0x5C) @ [CHR 0x22])) (quote_loop 0 a @ cs)"
    by (subst split_backslashes) (simp add: word_so_far_def)
  then show ?case
    using Cons [of "n + 1" w] Cons [of 0 "w @ replicate n (CHR 0x5C) @ [CHR 0x22]"]
      Cons [of 0 "w @ replicate n (CHR 0x5C) @ [c]"]
    by (auto simp: word_so_far_def replicate_app_Cons_same)
qed

lemma split_arguments:
  "split_words False 0 (Some w) (concat (map (\<lambda>a. CHR 0x20 # quote_argument a) arguments)) = w # arguments"
proof (induction arguments arbitrary: w)
  case (Cons a as)
  have "split_words False 0 None (quote_argument a @ cs) = split_words False 0 (Some a) cs" for cs
    using split_quoted [of 0 "[]" a cs] by (simp add: quote_argument_def word_so_far_def)
  then show ?case using Cons by (simp add: flush_word_def)
qed (simp add: flush_word_def)

text \<open>Quoting and splitting are inverse: whatever the arguments hold, quotes, blanks and runs of backslashes, the
  command line splits by the rules of the platform into exactly the program and these arguments.\<close>

theorem command_line_splits:
  "split_words False 0 None (command_line executable arguments) = executable # arguments"
  using split_quoted [of 0 "[]" executable "concat (map (\<lambda>a. CHR 0x20 # quote_argument a) arguments)"]
  by (simp add: command_line_def quote_argument_def word_so_far_def split_arguments [unfolded quote_argument_def])

section \<open>A child is reaped once\<close>

lemma wait_loop_reaps: "wait_loop ws c = Some (st, c') \<Longrightarrow> if ok st then cp_reaped c' else c' = c"
proof (induction ws c rule: wait_loop.induct)
  case (2 w ws c)
  then show ?case by (auto simp: reaped_def success_def status_error_def ok_def split: if_splits)
qed simp

lemma wait_loop_ends:
  "\<exists>w \<in> set ws. wt_result w = cp_pid c \<or> (wt_result w < 0 \<and> wt_errno w \<noteq> 4) \<Longrightarrow> wait_loop ws c \<noteq> None"
  by (induction ws) auto

text \<open>A child is reaped once: after a wait has given its exit code, every later wait gives the same code at once
  whatever the system would answer, it counts as not running, and it is never killed again, by then the number may
  belong to another process.\<close>

theorem child_reaped_once:
  assumes "child_wait ws handle = Some (Inr code, handle')"
  shows "child_wait ws' handle' = Some (Inr code, handle') \<and> child_running w handle' = (False, handle')
    \<and> child_terminate killed ws' handle'
        = Some (status_error ScInvalidArgument ''no live child process to terminate'', handle')"
proof -
  have "\<exists>c. handle' = Some c \<and> cp_reaped c \<and> cp_exit_code c = code"
    using assms wait_loop_reaps by (fastforce simp: child_wait_def split: option.splits if_splits)
  then show ?thesis by (auto simp: child_wait_def child_running_def child_terminate_def)
qed

theorem child_reaped_once_witness:
  "let c = \<lparr>cp_pid = 7, cp_reaped = True, cp_exit_code = 3, cp_output_file = []\<rparr> in
   child_wait [\<lparr>wt_result = -1, wt_errno = 4, wt_ending = Killed\<rparr>, \<lparr>wt_result = 7, wt_errno = 0, wt_ending = Exited 3\<rparr>]
     (Some (c\<lparr>cp_reaped := False, cp_exit_code := 0\<rparr>)) = Some (Inr 3, Some c)
   \<and> child_wait [] (Some c) = Some (Inr 3, Some c)"
proof -
  let ?c = "\<lparr>cp_pid = 7, cp_reaped = True, cp_exit_code = 3, cp_output_file = []\<rparr>"
  let ?ws = "[\<lparr>wt_result = -1, wt_errno = 4, wt_ending = Killed\<rparr>, \<lparr>wt_result = 7, wt_errno = 0, wt_ending = Exited 3\<rparr>]"
  have "child_wait ?ws (Some (?c\<lparr>cp_reaped := False, cp_exit_code := 0\<rparr>)) = Some (Inr 3, Some ?c)"
    by (simp add: child_wait_def reaped_def exit_code_of_def success_def ok_def)
  from this child_reaped_once [OF this, of "[]"] show ?thesis by (simp add: Let_def)
qed

end
