(* ===== verification/Ready.thy ===== *)
theory Ready
  imports Cli_Props Process
begin

text \<open>
  The ready file: what the daemon writes once its listener is bound (\<^verbatim>\<open>AuthorityServer::start\<close>,
  \<^verbatim>\<open>src/server.cpp\<close>) and what other processes read out of it (\<^verbatim>\<open>lookup_ready_value\<close>, \<^verbatim>\<open>src/process.cpp\<close>).
\<close>

definition ready_entry :: "string \<Rightarrow> string \<Rightarrow> string" where
  "ready_entry key v = key @ '' '' @ v @ newline"

definition ready_text :: "u16 \<Rightarrow> u32 \<Rightarrow> server \<Rightarrow> authority \<Rightarrow> string" where
  "ready_text port pid sv a =
     ready_entry ''cifd'' version_string
     @ ready_entry ''host'' (so_bind_host (sv_options sv))
     @ ready_entry ''port'' (to_decimal (ucast port))
     @ ready_entry ''cluster'' (sp_cluster_id (au_spec a))
     @ ready_entry ''incarnation'' (hex_encode (sp_incarnation (au_spec a)))
     @ ready_entry ''epoch'' (to_decimal (sp_epoch (au_spec a)))
     @ ready_entry ''durable'' (bool_text (server_durable sv))
     @ ready_entry ''pid'' (to_decimal (ucast pid))"

section \<open>Reading it back\<close>

lemma lines_of_entry [simp]:
  "one_line key \<Longrightarrow> one_line v \<Longrightarrow> text_lines (ready_entry key v @ s) = (key @ CHR 0x20 # v) # text_lines s"
  using text_lines_line [of "key @ CHR 0x20 # v" s] by (simp add: ready_entry_def newline_def)

lemma takeWhile_key: "CHR 0x20 \<notin> set key \<Longrightarrow>
    takeWhile (\<lambda>c. c \<noteq> CHR 0x20) (key @ CHR 0x20 # v) = key \<and> dropWhile (\<lambda>c. c \<noteq> CHR 0x20) (key @ CHR 0x20 # v) = CHR 0x20 # v"
  by (induction key) auto

lemma ready_line_entry:
  assumes "CHR 0x20 \<notin> set key" "CHR 0x0D \<notin> set v"
  shows "ready_line (key @ CHR 0x20 # v) = Some (key, v)"
proof -
  have "v = [] \<or> List.last v \<noteq> CHR 0x0D" using assms(2) last_in_set by metis
  then have "List.last (key @ CHR 0x20 # v) \<noteq> CHR 0x0D" by auto
  then show ?thesis using takeWhile_key [OF assms(1), of v] by (simp add: ready_line_def Let_def)
qed

lemma ready_line_key:
  "CHR 0x20 \<notin> set key \<Longrightarrow> \<exists>v'. ready_line (key @ CHR 0x20 # v) = Some (key, v')"
proof (cases "v \<noteq> [] \<and> List.last v = CHR 0x0D")
  case True
  then have "butlast (key @ CHR 0x20 # v) = key @ CHR 0x20 # butlast v" by (simp add: butlast_append)
  then show "CHR 0x20 \<notin> set key \<Longrightarrow> ?thesis" using True takeWhile_key [of key "butlast v"] by (auto simp: ready_line_def Let_def)
next
  case False
  then show "CHR 0x20 \<notin> set key \<Longrightarrow> ?thesis" using takeWhile_key [of key v] by (auto simp: ready_line_def Let_def)
qed

lemma no_return [simp]:
  "CHR 0x0D \<notin> set (to_decimal n)" "CHR 0x0D \<notin> set (hex_encode bs)" "CHR 0x0D \<notin> set (bool_text b)"
  "one_line (bool_text b)"
  using to_decimal_digits [of n] hex_encode_digits [of bs] by (auto simp: list_all_iff is_digit_iff bool_text_def)

lemma identifier_plain: "id_ok i \<Longrightarrow> one_line i \<and> CHR 0x0D \<notin> set i"
proof -
  have "\<not> identifier_char (CHR 0x0A)" "\<not> identifier_char (CHR 0x0D)" by (simp_all add: identifier_char_def)
  then show "id_ok i \<Longrightarrow> one_line i \<and> CHR 0x0D \<notin> set i"
    by (auto simp: id_ok_def is_valid_id_def is_valid_identifier_def list_all_iff split: if_splits)
qed

text \<open>C38. Whoever reads the ready file finds the daemon: port, process, cluster, incarnation, epoch and durability read
  back exactly as the daemon had them when it was written.\<close>

theorem ready_file_read_back:
  assumes "one_line (so_bind_host (sv_options sv))" "id_ok (sp_cluster_id (au_spec a))" "length (sp_incarnation (au_spec a)) = 16"
  shows "let look = lookup_ready_value (ready_text port pid sv a) in
      Option.bind (look ''port'') parse_decimal_u64 = Some (ucast port)
    \<and> Option.bind (look ''pid'') parse_decimal_u64 = Some (ucast pid)
    \<and> Option.bind (look ''epoch'') parse_decimal_u64 = Some (sp_epoch (au_spec a))
    \<and> look ''cluster'' = Some (sp_cluster_id (au_spec a))
    \<and> Option.bind (look ''incarnation'') incarnation_parse = Some (sp_incarnation (au_spec a))
    \<and> look ''durable'' = Some (bool_text (server_durable sv))"
proof -
  have id: "one_line (sp_cluster_id (au_spec a))" "CHR 0x0D \<notin> set (sp_cluster_id (au_spec a))"
    using identifier_plain [OF assms(2)] by auto
  have lines: "text_lines (ready_text port pid sv a) =
     [''cifd'' @ CHR 0x20 # version_string, ''host'' @ CHR 0x20 # so_bind_host (sv_options sv),
      ''port'' @ CHR 0x20 # to_decimal (ucast port), ''cluster'' @ CHR 0x20 # sp_cluster_id (au_spec a),
      ''incarnation'' @ CHR 0x20 # hex_encode (sp_incarnation (au_spec a)),
      ''epoch'' @ CHR 0x20 # to_decimal (sp_epoch (au_spec a)), ''durable'' @ CHR 0x20 # bool_text (server_durable sv),
      ''pid'' @ CHR 0x20 # to_decimal (ucast pid)]"
    using lines_of_entry [of "''pid''" "to_decimal (ucast pid)" "[]"] assms(1) id(1)
    by (simp add: ready_text_def version_string_def del: append_Cons append_Nil append.simps)
  obtain h c where other: "ready_line (''host'' @ CHR 0x20 # so_bind_host (sv_options sv)) = Some (''host'', h)"
    "ready_line (''cifd'' @ CHR 0x20 # version_string) = Some (''cifd'', c)"
    using ready_line_key [of "''host''" "so_bind_host (sv_options sv)"] ready_line_key [of "''cifd''" version_string] by auto
  have entries: "ready_line (''port'' @ CHR 0x20 # to_decimal (ucast port)) = Some (''port'', to_decimal (ucast port))"
    "ready_line (''cluster'' @ CHR 0x20 # sp_cluster_id (au_spec a)) = Some (''cluster'', sp_cluster_id (au_spec a))"
    "ready_line (''incarnation'' @ CHR 0x20 # hex_encode (sp_incarnation (au_spec a)))
       = Some (''incarnation'', hex_encode (sp_incarnation (au_spec a)))"
    "ready_line (''epoch'' @ CHR 0x20 # to_decimal (sp_epoch (au_spec a))) = Some (''epoch'', to_decimal (sp_epoch (au_spec a)))"
    "ready_line (''durable'' @ CHR 0x20 # bool_text (server_durable sv)) = Some (''durable'', bool_text (server_durable sv))"
    "ready_line (''pid'' @ CHR 0x20 # to_decimal (ucast pid)) = Some (''pid'', to_decimal (ucast pid))"
    using id(2) by (simp_all add: ready_line_entry del: append_Cons append.simps)
  show ?thesis
    unfolding lookup_ready_value_def lines lookup_lines.simps other entries Let_def
    by (simp add: parse_to_decimal incarnation_parse_hex assms(3))
qed

theorem ready_file_read_back_witness:
  "let look = lookup_ready_value (ready_text 7000 4321 (new_server default_server_options) demo) in
     Option.bind (look ''port'') parse_decimal_u64 = Some 7000 \<and> look ''cluster'' = Some ''c''
     \<and> look ''durable'' = Some ''false''"
proof -
  have ok: "one_line (so_bind_host (sv_options (new_server default_server_options)))" "id_ok (sp_cluster_id (au_spec demo))"
    "length (sp_incarnation (au_spec demo)) = 16"
    by (simp_all add: new_server_def clamp_server_options_def default_server_options_def demo_spec_def empty_spec_def zero_incarnation_def
        id_ok_def is_valid_id_def is_valid_identifier_def identifier_char_def limit_defs)
  from ready_file_read_back [OF ok, of 7000 4321] show ?thesis
    by (simp add: Let_def demo_spec_def server_durable_def new_server_def bool_text_def)
qed

end
