(* ===== verification/Sockets.thy ===== *)
theory Sockets
  imports Platform
begin

text \<open>
  Sockets (\<^verbatim>\<open>src/platform_sockets.cpp\<close>, POSIX branch, and the handles over them in \<^verbatim>\<open>src/runtime.cpp\<close>). The
  operating system is the list of answers its coming calls give; what the code holds of it, open descriptors and
  address lists not yet given back, is counted, so that what an error path forgets is seen.
\<close>

section \<open>The operating system\<close>

text \<open>An answer: the result, the error number that goes with a negative one, and the IPv4 address the call filled
  in, if it did.\<close>

record answer =
  an_result :: int
  an_errno :: int
  an_address :: "(string \<times> u16) option"

record os =
  os_answers :: "answer list"
  os_errno :: int
  os_strerror :: "int \<Rightarrow> string"
  os_open :: "int list"
  os_lists :: nat
  os_users :: u32
  os_sent :: bytes
  os_incoming :: bytes
  os_timeouts :: "(u64 \<times> u64) list"

definition no_answer :: answer where
  "no_answer = \<lparr>an_result = -1, an_errno = 0, an_address = None\<rparr>"

text \<open>A system call; one for which no answer is left fails.\<close>

definition system_call :: "os \<Rightarrow> answer \<times> os" where
  "system_call s =
     (let a = (case os_answers s of [] \<Rightarrow> no_answer | a # _ \<Rightarrow> a)
      in (a, s\<lparr>os_answers := drop 1 (os_answers s),
               os_errno := if an_result a < 0 then an_errno a else os_errno s\<rparr>))"

definition kInvalidSocket :: int where "kInvalidSocket = -1"

definition would_block :: "os \<Rightarrow> bool" where
  "would_block s = (os_errno s = 11)"

definition errno_text :: "os \<Rightarrow> string" where
  "errno_text s = os_strerror s (os_errno s) @ '' (errno='' @ signed_text (os_errno s) @ '')''"

definition socket_error :: "string \<Rightarrow> os \<Rightarrow> status" where
  "socket_error what s = status_error ScIoFailure (what @ '': '' @ errno_text s)"

text \<open>The count of users of the socket library; only another platform does something at its ends.\<close>

definition ensure_socket_runtime :: "os \<Rightarrow> os" where
  "ensure_socket_runtime s = s\<lparr>os_users := os_users s + 1\<rparr>"

definition shutdown_socket_runtime :: "os \<Rightarrow> os" where
  "shutdown_socket_runtime s = s\<lparr>os_users := os_users s - 1\<rparr>"

definition socket_runtime_ready :: "os \<Rightarrow> bool" where
  "socket_runtime_ready s = (0 <s os_users s)"

section \<open>Descriptors\<close>

definition open_socket :: "os \<Rightarrow> int \<times> os" where
  "open_socket s = (case system_call s of (a, s) \<Rightarrow>
     (an_result a, if an_result a = kInvalidSocket then s else s\<lparr>os_open := an_result a # os_open s\<rparr>))"

definition close_socket :: "int \<Rightarrow> os \<Rightarrow> os" where
  "close_socket h s =
     (if h = kInvalidSocket then s
      else case system_call s of (_, s) \<Rightarrow> s\<lparr>os_open := remove1 h (os_open s)\<rparr>)"

definition shutdown_socket :: "int \<Rightarrow> os \<Rightarrow> os" where
  "shutdown_socket h s = (if h = kInvalidSocket then s else snd (system_call s))"

definition close_listener :: "int \<Rightarrow> os \<Rightarrow> os" where
  "close_listener h s = (if h = kInvalidSocket then s else close_socket h (shutdown_socket h s))"

text \<open>The time-outs as the system gets them, in seconds and microseconds; those it has accepted are noted.\<close>

definition timeout_value :: "u64 \<Rightarrow> u64 \<times> u64" where
  "timeout_value millis = (millis div 1000, (millis mod 1000) * 1000)"

definition set_socket_timeouts :: "int \<Rightarrow> u64 \<Rightarrow> u64 \<Rightarrow> os \<Rightarrow> status \<times> os" where
  "set_socket_timeouts h read_millis write_millis s =
     (case system_call s of (a, s) \<Rightarrow>
        if an_result a \<noteq> 0 then (socket_error ''setsockopt SO_RCVTIMEO failed'' s, s)
        else case system_call (s\<lparr>os_timeouts := timeout_value read_millis # os_timeouts s\<rparr>) of (a, s) \<Rightarrow>
          if an_result a \<noteq> 0 then (socket_error ''setsockopt SO_SNDTIMEO failed'' s, s)
          else (success, snd (system_call (s\<lparr>os_timeouts := timeout_value write_millis # os_timeouts s\<rparr>))))"

definition socket_local_port :: "int \<Rightarrow> os \<Rightarrow> (status + u16) \<times> os" where
  "socket_local_port h s = (case system_call s of (a, s) \<Rightarrow>
     (if an_result a \<noteq> 0 then Inl (socket_error ''getsockname failed'' s)
      else case an_address a of
        None \<Rightarrow> Inl (status_error ScUnsupported ''only IPv4 endpoints are supported'')
      | Some (_, port) \<Rightarrow> Inr port, s))"

section \<open>Listening, accepting, connecting\<close>

text \<open>Resolving a name gives a list of candidates, to be given back; \<open>None\<close> when it cannot be resolved.\<close>

definition resolve_name :: "nat option \<Rightarrow> os \<Rightarrow> os" where
  "resolve_name candidates s = (if candidates = None \<or> candidates = Some 0 then s else s\<lparr>os_lists := os_lists s + 1\<rparr>)"

definition free_list :: "os \<Rightarrow> os" where
  "free_list s = s\<lparr>os_lists := os_lists s - 1\<rparr>"

fun bind_candidates :: "nat \<Rightarrow> os \<Rightarrow> int \<times> os" where
  "bind_candidates 0 s = (kInvalidSocket, s)"
| "bind_candidates (Suc n) s = (case open_socket s of (h, s) \<Rightarrow>
     if h = kInvalidSocket then bind_candidates n s
     else case system_call s of (_, s) \<Rightarrow>
       case system_call s of (a, s) \<Rightarrow>
         if an_result a = 0 then (h, s) else bind_candidates n (close_socket h s))"

definition listen_on :: "string \<Rightarrow> nat option \<Rightarrow> os \<Rightarrow> (status + int \<times> u16) \<times> os" where
  "listen_on host candidates s =
     (let s = resolve_name candidates (ensure_socket_runtime s) in
      case candidates of
        None \<Rightarrow> (Inl (status_error ScInvalidArgument (''cannot resolve bind address '' @ [CHR 0x27] @ host @ [CHR 0x27])), s)
      | Some 0 \<Rightarrow> (Inl (status_error ScInvalidArgument (''cannot resolve bind address '' @ [CHR 0x27] @ host @ [CHR 0x27])), s)
      | Some n \<Rightarrow> (case bind_candidates n s of (h, s) \<Rightarrow>
          let s = free_list s in
          if h = kInvalidSocket then (Inl (socket_error ''bind failed'' s), s)
          else case system_call s of (a, s) \<Rightarrow>
            if an_result a \<noteq> 0 then (Inl (socket_error ''listen failed'' s), close_socket h s)
            else case socket_local_port h s of
              (Inl st, s) \<Rightarrow> (Inl st, s)
            | (Inr port, s) \<Rightarrow> (Inr (h, port), s)))"

definition accept_one :: "os \<Rightarrow> (status + int \<times> string) \<times> os" where
  "accept_one s = (case system_call s of (a, s) \<Rightarrow>
     if an_result a = kInvalidSocket then (Inl (socket_error ''accept failed'' s), s)
     else (Inr (an_result a, case an_address a of
                 None \<Rightarrow> ''peer''
               | Some (host, port) \<Rightarrow> host @ '':'' @ to_decimal (ucast port)),
           s\<lparr>os_open := an_result a # os_open s\<rparr>))"

text \<open>One candidate after the other; a failure to set the time-outs ends it on the spot.\<close>

fun connect_candidates :: "nat \<Rightarrow> u64 \<Rightarrow> status \<Rightarrow> os \<Rightarrow> (status + int) \<times> os" where
  "connect_candidates 0 timeout failure s = (Inl failure, free_list s)"
| "connect_candidates (Suc n) timeout failure s = (case open_socket s of (h, s) \<Rightarrow>
     if h = kInvalidSocket then connect_candidates n timeout (socket_error ''socket failed'' s) s
     else case set_socket_timeouts h timeout timeout s of (st, s) \<Rightarrow>
       if \<not> ok st then (Inl st, s)
       else case system_call s of (a, s) \<Rightarrow>
         if an_result a = 0 then (Inr h, free_list s)
         else connect_candidates n timeout (socket_error ''connect failed'' s) (close_socket h s))"

definition connect_to :: "string \<Rightarrow> nat option \<Rightarrow> u64 \<Rightarrow> os \<Rightarrow> (status + int) \<times> os" where
  "connect_to host candidates timeout_millis s =
     (let s = resolve_name candidates (ensure_socket_runtime s) in
      case candidates of
        None \<Rightarrow> (Inl (status_error ScInvalidArgument (''cannot resolve '' @ [CHR 0x27] @ host @ [CHR 0x27])), s)
      | Some 0 \<Rightarrow> (Inl (status_error ScInvalidArgument (''cannot resolve '' @ [CHR 0x27] @ host @ [CHR 0x27])), s)
      | Some n \<Rightarrow> connect_candidates n (if timeout_millis = 0 then 5000 else timeout_millis)
                    (status_error ScIoFailure ''no address candidates'') s)"

section \<open>Sending and receiving\<close>

definition kChunk :: nat where "kChunk = 2 ^ 20"

text \<open>The bytes the system takes of a send are counted as sent.\<close>

function send_loop :: "bytes \<Rightarrow> os \<Rightarrow> status \<times> os" where
  "send_loop bs s =
     (if bs = [] then (success, s)
      else case system_call s of (a, s) \<Rightarrow>
        if an_result a \<le> 0 then
          (if an_result a < 0 \<and> would_block s then status_error ScTimeout ''socket send timed out''
           else socket_error ''send failed'' s, s)
        else
          let n = min (nat (an_result a)) (min (length bs) kChunk)
          in send_loop (drop n bs) (s\<lparr>os_sent := os_sent s @ take n bs\<rparr>))"
  by pat_completeness auto
termination
  by (relation "measure (\<lambda>(bs, s). length bs)") (auto simp: kChunk_def Let_def)

declare send_loop.simps [simp del]

definition socket_receive :: "nat \<Rightarrow> os \<Rightarrow> (status + bytes) \<times> os" where
  "socket_receive capacity s =
     (if capacity = 0 then (Inr [], s)
      else case system_call s of (a, s) \<Rightarrow>
        if an_result a = 0 then (Inr [], s)
        else if an_result a < 0 then
          (Inl (if would_block s then status_error ScTimeout ''socket receive timed out''
                else socket_error ''recv failed'' s), s)
        else
          let n = min (nat (an_result a)) (min capacity kChunk)
          in (Inr (take n (os_incoming s)), s\<lparr>os_incoming := drop n (os_incoming s)\<rparr>))"

definition socket_wait_readable :: "os \<Rightarrow> (status + bool) \<times> os" where
  "socket_wait_readable s = (case system_call s of (a, s) \<Rightarrow>
     (if an_result a < 0 then Inl (socket_error ''select failed'' s) else Inr (an_result a > 0), s))"

section \<open>Handles\<close>

text \<open>A listener: its descriptor and its port; a stream is its descriptor.\<close>

record listener =
  ln_socket :: int
  ln_port :: u16

definition new_listener :: listener where
  "new_listener = \<lparr>ln_socket = kInvalidSocket, ln_port = 0\<rparr>"

definition listener_close :: "listener \<Rightarrow> os \<Rightarrow> listener \<times> os" where
  "listener_close l s =
     (if ln_socket l = kInvalidSocket then (l, s)
      else (l\<lparr>ln_socket := kInvalidSocket\<rparr>, close_listener (ln_socket l) s))"

definition listener_bind :: "string \<Rightarrow> nat option \<Rightarrow> listener \<Rightarrow> os \<Rightarrow> status \<times> listener \<times> os" where
  "listener_bind host candidates l s = (case listener_close l s of (l, s) \<Rightarrow>
     (case listen_on host candidates s of
        (Inl st, s) \<Rightarrow> (st, l, s)
      | (Inr (h, port), s) \<Rightarrow> (success, \<lparr>ln_socket = h, ln_port = port\<rparr>, s)))"

definition tcp_close :: "int \<Rightarrow> os \<Rightarrow> int \<times> os" where
  "tcp_close h s = (if h = kInvalidSocket then (h, s) else (kInvalidSocket, close_socket h s))"

definition tcp_adopt :: "int \<Rightarrow> int \<Rightarrow> os \<Rightarrow> int \<times> os" where
  "tcp_adopt h old s = (h, snd (tcp_close old s))"

definition listener_accept :: "listener \<Rightarrow> int \<Rightarrow> os \<Rightarrow> (status + string) \<times> int \<times> os" where
  "listener_accept l out s =
     (if ln_socket l = kInvalidSocket then (Inl (status_error ScClosed ''listener is not open''), out, s)
      else case accept_one s of
        (Inl st, s) \<Rightarrow> (Inl st, out, s)
      | (Inr (h, peer), s) \<Rightarrow> (Inr peer, tcp_adopt h out s))"

definition tcp_connect :: "string \<Rightarrow> nat option \<Rightarrow> u64 \<Rightarrow> int \<Rightarrow> os \<Rightarrow> status \<times> int \<times> os" where
  "tcp_connect host candidates timeout_millis h s = (case tcp_close h s of (h, s) \<Rightarrow>
     (case connect_to host candidates timeout_millis s of
        (Inl st, s) \<Rightarrow> (st, h, s)
      | (Inr h', s) \<Rightarrow> (success, h', s)))"

definition tcp_abort :: "int \<Rightarrow> os \<Rightarrow> os" where
  "tcp_abort h s = shutdown_socket h s"

definition not_open :: status where
  "not_open = status_error ScClosed ''stream is not open''"

definition tcp_set_timeouts :: "u64 \<Rightarrow> u64 \<Rightarrow> int \<Rightarrow> os \<Rightarrow> status \<times> os" where
  "tcp_set_timeouts read_millis write_millis h s =
     (if h = kInvalidSocket then (not_open, s)
      else set_socket_timeouts h (if read_millis = 0 then 1 else read_millis) (if write_millis = 0 then 1 else write_millis) s)"

definition tcp_send_all :: "bytes \<Rightarrow> int \<Rightarrow> os \<Rightarrow> status \<times> os" where
  "tcp_send_all bs h s = (if h = kInvalidSocket then (not_open, s) else send_loop bs s)"

definition tcp_receive :: "nat \<Rightarrow> int \<Rightarrow> os \<Rightarrow> (status + bytes) \<times> os" where
  "tcp_receive capacity h s = (if h = kInvalidSocket then (Inl not_open, s) else socket_receive capacity s)"

section \<open>Nothing is forgotten, but for two error paths\<close>

text \<open>What the program holds of the system.\<close>

definition holds :: "os \<Rightarrow> int list \<times> nat" where
  "holds s = (os_open s, os_lists s)"

lemma holds_call [simp]: "system_call s = (a, s') \<Longrightarrow> holds s' = holds s"
  by (auto simp: system_call_def holds_def Let_def)

lemma holds_open_socket:
  "open_socket s = (h, s') \<Longrightarrow> holds s' = (if h = kInvalidSocket then holds s else (h # os_open s, os_lists s))"
  using holds_call [of s] by (auto simp: open_socket_def holds_def split: prod.splits if_splits)

lemma holds_close_socket:
  assumes "h \<noteq> kInvalidSocket"
  shows "holds (close_socket h s) = (remove1 h (os_open s), os_lists s)"
proof -
  obtain a s' where "system_call s = (a, s')" by fastforce
  then show ?thesis using assms holds_call [of s a s'] by (simp add: close_socket_def holds_def)
qed

lemma holds_timeouts:
  assumes "set_socket_timeouts h r w s = (st, s')"
  shows "holds s' = holds s"
    and "\<not> ok st \<Longrightarrow> \<exists>what \<in> {''setsockopt SO_RCVTIMEO failed'', ''setsockopt SO_SNDTIMEO failed''}. st = socket_error what s'"
proof -
  have update: "holds (s\<lparr>os_timeouts := ts\<rparr>) = holds s" for s ts by (simp add: holds_def)
  have snd_call: "holds (snd (system_call s)) = holds s" for s by (cases "system_call s") simp
  show "holds s' = holds s"
    using assms holds_call by (fastforce simp: set_socket_timeouts_def update snd_call split: prod.splits if_splits)
  show "\<exists>what \<in> {''setsockopt SO_RCVTIMEO failed'', ''setsockopt SO_SNDTIMEO failed''}. st = socket_error what s'"
    if "\<not> ok st"
    using assms that by (auto simp: set_socket_timeouts_def success_def ok_def split: prod.splits if_splits)
qed

text \<open>How connecting ends that began with these descriptors and one of these lists: with the descriptor asked
  for, with nothing, or, when the time-outs could not be set, with a descriptor and a list left over.\<close>

definition accounted :: "int list \<Rightarrow> nat \<Rightarrow> status + int \<Rightarrow> os \<Rightarrow> bool" where
  "accounted fds k r s = (case r of
      Inr h \<Rightarrow> holds s = (h # fds, k - 1)
    | Inl st \<Rightarrow> holds s = (fds, k - 1)
        \<or> (\<exists>h. holds s = (h # fds, k)
             \<and> (\<exists>what \<in> {''setsockopt SO_RCVTIMEO failed'', ''setsockopt SO_SNDTIMEO failed''}. st = socket_error what s)))"

lemma connect_candidates_holds:
  assumes "connect_candidates n t failure s = (r, s')"
  shows "accounted (os_open s) (os_lists s) r s'"
  using assms
proof (induction n t failure s rule: connect_candidates.induct)
  case (1 t failure s)
  then show ?case by (auto simp: accounted_def free_list_def holds_def)
next
  case (2 n t failure s)
  obtain h s1 where h: "open_socket s = (h, s1)" by fastforce
  show ?case
  proof (cases "h = kInvalidSocket")
    case True
    then have "os_open s1 = os_open s" "os_lists s1 = os_lists s"
      using holds_open_socket [OF h] by (simp_all add: holds_def)
    then show ?thesis using 2(1) [OF h [symmetric] True] 2(3) h True by simp
  next
    case False
    obtain st s2 where t: "set_socket_timeouts h t t s1 = (st, s2)" by fastforce
    obtain a s3 where c: "system_call s2 = (a, s3)" by fastforce
    have s2: "holds s2 = (h # os_open s, os_lists s)"
      using holds_open_socket [OF h] holds_timeouts(1) [OF t] False by simp
    have s3: "holds s3 = (h # os_open s, os_lists s)" using s2 holds_call [OF c] by simp
    show ?thesis
    proof (cases "ok st")
      case False
      then have "r = Inl st" "s' = s2" using 2(3) h t \<open>h \<noteq> kInvalidSocket\<close> by auto
      then show ?thesis using s2 holds_timeouts(2) [OF t False] by (simp add: accounted_def; blast)
    next
      case True
      show ?thesis
      proof (cases "an_result a = 0")
        case True
        then have "r = Inr h" "s' = free_list s3" using 2(3) h t c \<open>ok st\<close> False by auto
        then show ?thesis using s3 by (simp add: accounted_def holds_def free_list_def)
      next
        case refused: False
        have "holds (close_socket h s3) = (os_open s, os_lists s)"
          using holds_close_socket [OF False, of s3] s3 by (simp add: holds_def)
        then have "os_open (close_socket h s3) = os_open s" "os_lists (close_socket h s3) = os_lists s"
          by (simp_all add: holds_def)
        moreover have "connect_candidates n t (socket_error ''connect failed'' s3) (close_socket h s3) = (r, s')"
          using 2(3) h t c False True refused by simp
        ultimately show ?thesis
          using 2(2) [OF h [symmetric] False t [symmetric] _ c [symmetric] refused] True by simp
      qed
    qed
  qed
qed

lemma bind_candidates_holds:
  "bind_candidates n s = (h, s') \<Longrightarrow> holds s' = (if h = kInvalidSocket then holds s else (h # os_open s, os_lists s))"
proof (induction n s rule: bind_candidates.induct)
  case (2 n s)
  obtain f s1 a s2 b s3 where calls: "open_socket s = (f, s1)" "system_call s1 = (a, s2)" "system_call s2 = (b, s3)"
    by (metis surj_pair)
  have s1: "holds s1 = (if f = kInvalidSocket then holds s else (f # os_open s, os_lists s))"
    using holds_open_socket [OF calls(1)] .
  have s3: "holds s3 = holds s1" using holds_call [OF calls(2)] holds_call [OF calls(3)] by simp
  show ?case
  proof (cases "f = kInvalidSocket")
    case True
    then show ?thesis using 2(1) [OF calls(1) [symmetric] True] 2(3) calls(1) s1 by (auto simp: holds_def)
  next
    case False
    show ?thesis
    proof (cases "an_result b = 0")
      case True
      then have "h = f" "s' = s3" using 2(3) calls False by auto
      then show ?thesis using s1 s3 False by simp
    next
      case refused: False
      have "holds (close_socket f s3) = holds s"
        using holds_close_socket [OF False, of s3] s1 s3 False by (simp add: holds_def)
      moreover have "bind_candidates n (close_socket f s3) = (h, s')" using 2(3) calls False refused by simp
      ultimately show ?thesis
        using 2(2) [OF calls(1) [symmetric] False calls(2) [symmetric] calls(3) [symmetric] refused]
        by (auto simp: holds_def)
    qed
  qed
qed simp

definition left_listening :: "int list \<Rightarrow> nat \<Rightarrow> status \<Rightarrow> os \<Rightarrow> bool" where
  "left_listening fds k st s = (holds s = (fds, k)
     \<or> (\<exists>h. holds s = (h # fds, k)
          \<and> (st = socket_error ''getsockname failed'' s \<or> st = status_error ScUnsupported ''only IPv4 endpoints are supported'')))"

lemma connect_holds:
  assumes "connect_to host candidates t s = (r, s')"
  shows "accounted (os_open s) (os_lists s + 1) r s'"
proof (cases "candidates = None \<or> candidates = Some 0")
  case True
  then show ?thesis using assms
    by (auto simp: connect_to_def resolve_name_def ensure_socket_runtime_def Let_def accounted_def holds_def)
next
  case False
  then obtain n where n: "candidates = Some (Suc n)" by (metis not0_implies_Suc option.exhaust)
  let ?s = "resolve_name candidates (ensure_socket_runtime s)"
  have "connect_candidates (Suc n) (if t = 0 then 5000 else t) (status_error ScIoFailure ''no address candidates'') ?s = (r, s')"
    using assms by (simp add: connect_to_def n Let_def del: connect_candidates.simps)
  moreover have "os_open ?s = os_open s" "os_lists ?s = os_lists s + 1"
    by (simp_all add: resolve_name_def ensure_socket_runtime_def n)
  ultimately show ?thesis using connect_candidates_holds by metis
qed

lemma listen_holds:
  assumes "listen_on host candidates s = (r, s')"
  shows "case r of Inr (h, port) \<Rightarrow> holds s' = (h # os_open s, os_lists s)
    | Inl st \<Rightarrow> left_listening (os_open s) (os_lists s) st s'"
proof (cases "candidates = None \<or> candidates = Some 0")
  case True
  then show ?thesis using assms
    by (auto simp: listen_on_def resolve_name_def ensure_socket_runtime_def Let_def left_listening_def holds_def)
next
  case False
  then obtain n where n: "candidates = Some (Suc n)" by (metis not0_implies_Suc option.exhaust)
  obtain h s1 where b: "bind_candidates (Suc n) (resolve_name candidates (ensure_socket_runtime s)) = (h, s1)" by fastforce
  obtain a s2 where c: "system_call (free_list s1) = (a, s2)" by fastforce
  have s1: "holds (free_list s1) = (if h = kInvalidSocket then holds s else (h # os_open s, os_lists s))"
    using bind_candidates_holds [OF b] n by (auto simp: resolve_name_def ensure_socket_runtime_def holds_def free_list_def)
  then have s2: "holds s2 = (if h = kInvalidSocket then holds s else (h # os_open s, os_lists s))"
    using holds_call [OF c] by simp
  have r: "(r, s') = (if h = kInvalidSocket then (Inl (socket_error ''bind failed'' (free_list s1)), free_list s1)
      else if an_result a \<noteq> 0 then (Inl (socket_error ''listen failed'' s2), close_socket h s2)
      else case socket_local_port h s2 of (Inl st, s) \<Rightarrow> (Inl st, s) | (Inr port, s) \<Rightarrow> (Inr (h, port), s))"
    using assms b c by (auto simp: listen_on_def n Let_def simp del: bind_candidates.simps split: prod.splits sum.splits if_splits)
  obtain q s3 where p: "socket_local_port h s2 = (q, s3)" by fastforce
  have q: "holds s3 = holds s2" "\<And>st. q = Inl st \<Longrightarrow> st = socket_error ''getsockname failed'' s3
      \<or> st = status_error ScUnsupported ''only IPv4 endpoints are supported''"
    using p holds_call by (auto simp: socket_local_port_def split: prod.splits if_splits option.splits)
  show ?thesis
    using r s1 s2 p q holds_close_socket [of h s2]
    by (auto simp: left_listening_def holds_def split: if_splits sum.splits)
qed


text \<open>The two paths are taken: one candidate, a socket, and a refused option or a refused name.\<close>

definition quiet :: "answer list \<Rightarrow> os" where
  "quiet as = \<lparr>os_answers = as, os_errno = 0, os_strerror = (\<lambda>_. ''?''), os_open = [], os_lists = 0, os_users = 0,
     os_sent = [], os_incoming = [], os_timeouts = []\<rparr>"

definition answers :: "int list \<Rightarrow> answer list" where
  "answers rs = map (\<lambda>r. \<lparr>an_result = r, an_errno = 22, an_address = None\<rparr>) rs"

lemma connect_can_leak: "holds (snd (connect_to ''h'' (Some 1) 0 (quiet (answers [7, -1])))) = ([7], 1)"
  by (simp add: holds_def connect_to_def quiet_def answers_def resolve_name_def ensure_socket_runtime_def open_socket_def
      system_call_def kInvalidSocket_def set_socket_timeouts_def socket_error_def status_error_def ok_def Let_def)

lemma listen_can_leak: "holds (snd (listen_on ''h'' (Some 1) (quiet (answers [7, 0, 0, 0, -1])))) = ([7], 0)"
  by (simp add: holds_def listen_on_def quiet_def answers_def resolve_name_def ensure_socket_runtime_def open_socket_def
      system_call_def kInvalidSocket_def free_list_def socket_local_port_def Let_def)

section \<open>Bytes\<close>

text \<open>Sending everything means everything, in order: whatever the system takes at a time, what has gone out when
  the call returns is a prefix of the data, all of it exactly when the call succeeds; and the call returns.\<close>

theorem send_all_in_order:
  "case send_loop bs s of (st, s') \<Rightarrow>
     \<exists>n \<le> length bs. os_sent s' = os_sent s @ take n bs \<and> (ok st \<longleftrightarrow> n = length bs)"
proof (induction bs s rule: send_loop.induct)
  case (1 bs s)
  show ?case
  proof (cases "bs = []")
    case False
    obtain a s1 where c: "system_call s = (a, s1)" by fastforce
    have sent: "os_sent s1 = os_sent s" using c by (auto simp: system_call_def Let_def)
    show ?thesis
    proof (cases "an_result a \<le> 0")
      case True
      have "\<not> ok (status_error ScTimeout m)" "\<not> ok (socket_error m s1)" for m
        by (simp_all add: status_error_def socket_error_def ok_def)
      then show ?thesis using False True c sent by (subst send_loop.simps) (auto intro!: exI [of _ 0])
    next
      case go: False
      define n where "n = min (nat (an_result a)) (min (length bs) kChunk)"
      obtain st s' where r: "send_loop (drop n bs) (s1\<lparr>os_sent := os_sent s1 @ take n bs\<rparr>) = (st, s')" by fastforce
      with 1 [OF False c [symmetric] go n_def] obtain m where
        "m \<le> length bs - n" "os_sent s' = os_sent s @ take n bs @ take m (drop n bs)" "ok st \<longleftrightarrow> m = length bs - n"
        using sent by auto
      moreover have "n \<le> length bs" by (simp add: n_def)
      moreover have "send_loop bs s = (st, s')" using False c go r by (subst send_loop.simps) (simp add: n_def Let_def)
      ultimately show ?thesis by (auto intro!: exI [of _ "n + m"] simp: take_add)
    qed
  qed (subst send_loop.simps, simp)
qed

lemma receive_in_order:
  "socket_receive capacity s = (Inr bs, s') \<Longrightarrow> bs @ os_incoming s' = os_incoming s \<and> length bs \<le> capacity"
  by (auto simp: socket_receive_def system_call_def Let_def split: if_splits)

end
