(* ===== verification/Rng.thy ===== *)
theory Rng
  imports Text
begin

text \<open>
  Deterministic randomness (\<^verbatim>\<open>include/cif/rng.hpp\<close>, \<^verbatim>\<open>src/rng.cpp\<close>): the 64/32 permuted congruential
  generator, the rejection loop that draws below a bound, and the splitting generator for sub-streams.
\<close>

section \<open>The generator\<close>

definition kMultiplier :: u64 where
  "kMultiplier = 6364136223846793005"

record pcg =
  pcg_state :: u64
  pcg_stream :: u64

definition pcg_step :: "pcg \<Rightarrow> pcg" where
  "pcg_step g = g\<lparr>pcg_state := pcg_state g * kMultiplier + pcg_stream g\<rparr>"

definition pcg_output :: "u64 \<Rightarrow> u32" where
  "pcg_output previous =
     (let xorshifted = ucast (drop_bit 27 (drop_bit 18 previous XOR previous)) :: u32;
          rotation = unat (ucast (drop_bit 59 previous) :: u32)
      in drop_bit rotation xorshifted OR push_bit (unat ((32 - of_nat rotation :: u32) AND 31)) xorshifted)"

definition next_u32 :: "pcg \<Rightarrow> u32 \<times> pcg" where
  "next_u32 g = (pcg_output (pcg_state g), pcg_step g)"

definition next_u64 :: "pcg \<Rightarrow> u64 \<times> pcg" where
  "next_u64 g = (case next_u32 g of (high, g) \<Rightarrow> case next_u32 g of (low, g) \<Rightarrow>
     (push_bit 32 (ucast high) OR ucast low, g))"

definition reseed :: "u64 \<Rightarrow> u64 \<Rightarrow> pcg" where
  "reseed seed stream =
     (let g = snd (next_u32 \<lparr>pcg_state = 0, pcg_stream = push_bit 1 stream OR 1\<rparr>)
      in snd (next_u32 (g\<lparr>pcg_state := pcg_state g + seed\<rparr>)))"

text \<open>\<open>advance_loop delta accumulator multiplier current\<close>.\<close>

function advance_loop :: "u64 \<Rightarrow> u64 \<Rightarrow> u64 \<Rightarrow> u64 \<Rightarrow> u64 \<Rightarrow> u64" where
  "advance_loop stream delta accumulator multiplier current =
     (if delta = 0 then accumulator
      else advance_loop stream (drop_bit 1 delta)
             (if delta AND 1 \<noteq> 0 then accumulator * multiplier + current else accumulator)
             (multiplier * multiplier) (current * multiplier + stream))"
  by pat_completeness auto
termination
proof (relation "measure (\<lambda>(stream, delta, _). unat delta)")
  fix stream delta accumulator multiplier current :: u64
  assume "delta \<noteq> 0"
  then have "0 < unat delta" by (simp add: unat_gt_0)
  then have "unat (drop_bit 1 delta) < unat delta" by (simp add: drop_bit_eq_div unat_div)
  then show "((stream, drop_bit 1 delta, if delta AND 1 \<noteq> 0 then accumulator * multiplier + current else accumulator,
      multiplier * multiplier, current * multiplier + stream), stream, delta, accumulator, multiplier, current)
      \<in> measure (\<lambda>(stream, delta, _). unat delta)"
    by simp
qed simp

declare advance_loop.simps [simp del]

definition advance :: "u64 \<Rightarrow> pcg \<Rightarrow> pcg" where
  "advance delta g = g\<lparr>pcg_state := advance_loop (pcg_stream g) delta 0 kMultiplier (pcg_state g)\<rparr>"

section \<open>Drawing below a bound\<close>

definition bounded_threshold :: "u64 \<Rightarrow> u64" where
  "bounded_threshold bound = (0 - bound) mod bound"

text \<open>The loop returns with the first draw that is not below the threshold; \<open>None\<close> if there is none.\<close>

partial_function (option) bounded_loop :: "u64 \<Rightarrow> pcg \<Rightarrow> (u64 \<times> pcg) option" where
  "bounded_loop bound g = (case next_u64 g of (v, g') \<Rightarrow>
     if v \<ge> bounded_threshold bound then Some (v mod bound, g') else bounded_loop bound g')"

definition bounded :: "u64 \<Rightarrow> pcg \<Rightarrow> (u64 \<times> pcg) option" where
  "bounded bound g = (if bound = 0 then Some (0, g) else bounded_loop bound g)"

definition range_between :: "u64 \<Rightarrow> u64 \<Rightarrow> pcg \<Rightarrow> (u64 \<times> pcg) option" where
  "range_between low high g =
     (if high \<le> low then Some (low, g)
      else let span = high - low + 1 in
        if span = 0 then Some (next_u64 g)
        else map_option (\<lambda>(v, g). (low + v, g)) (bounded span g))"

definition chance :: "u32 \<Rightarrow> u32 \<Rightarrow> pcg \<Rightarrow> (bool \<times> pcg) option" where
  "chance numerator denominator g =
     (if denominator = 0 then Some (False, g)
      else map_option (\<lambda>(v, g). (v < ucast numerator, g)) (bounded (ucast denominator) g))"

definition random_identifier :: "string \<Rightarrow> u32 \<Rightarrow> pcg \<Rightarrow> (string \<times> pcg) option" where
  "random_identifier prefix max_suffix g =
     (let digits = (\<lambda>v :: u32. map (\<lambda>i. ''0123456789abcdef'' ! unat (drop_bit (i * 4) v AND 0x0F)) (rev [0..<8])) in
      map_option (\<lambda>(v, g). (prefix @ digits v, g))
        (if max_suffix = 0xFFFFFFFF then Some (next_u32 g)
         else map_option (\<lambda>(v, g). (ucast v, g)) (bounded (ucast (max_suffix + 1)) g)))"

section \<open>Sub-streams\<close>

definition splitmix_next :: "u64 \<Rightarrow> u64 \<times> u64" where
  "splitmix_next s =
     (let s = s + 0x9E3779B97F4A7C15;
          z = (s XOR drop_bit 30 s) * 0xBF58476D1CE4E5B9;
          z = (z XOR drop_bit 27 z) * 0x94D049BB133111EB
      in (z XOR drop_bit 31 z, s))"

text \<open>The language leaves open which of the two arguments, seed or stream, is drawn first; that is \<open>seed_first\<close>.\<close>

definition make_stream :: "bool \<Rightarrow> u64 \<Rightarrow> pcg \<times> u64" where
  "make_stream seed_first s =
     (case splitmix_next s of (x, s) \<Rightarrow> case splitmix_next s of (y, s) \<Rightarrow>
        (if seed_first then reseed x (y OR 1) else reseed y (x OR 1), s))"

section \<open>Properties\<close>

text \<open>The \<open>n\<close>-th draw of 64 bits.\<close>

definition after_draws :: "nat \<Rightarrow> pcg \<Rightarrow> pcg" where
  "after_draws n g = ((\<lambda>g. snd (next_u64 g)) ^^ n) g"

definition draw :: "nat \<Rightarrow> pcg \<Rightarrow> u64" where
  "draw n g = fst (next_u64 (after_draws n g))"

lemma after_draws_Suc: "after_draws (Suc n) g = after_draws n (snd (next_u64 g))"
  by (simp add: after_draws_def funpow_Suc_right del: funpow.simps)

lemma draw_Suc: "draw (Suc n) g = draw n (snd (next_u64 g))"
  by (simp add: draw_def after_draws_Suc)

lemma draw_0: "draw 0 g = fst (next_u64 g)"
  by (simp add: draw_def after_draws_def)

lemma after_draws_1: "after_draws (Suc 0) g = snd (next_u64 g)"
  by (simp add: after_draws_def)

text \<open>The loop takes the first accepted draw.\<close>

lemma bounded_loop_accepts:
  assumes "\<forall>i<n. draw i g < bounded_threshold b" "draw n g \<ge> bounded_threshold b"
  shows "bounded_loop b g = Some (draw n g mod b, after_draws (Suc n) g)"
  using assms
proof (induction n arbitrary: g)
  case 0
  then show ?case
    by (subst bounded_loop.simps) (auto simp: draw_0 after_draws_1 split_beta)
next
  case (Suc n)
  have rejected: "\<not> fst (next_u64 g) \<ge> bounded_threshold b"
    using Suc.prems(1) by (auto simp: draw_0 [symmetric])
  have "\<forall>i<n. draw i (snd (next_u64 g)) < bounded_threshold b"
    using Suc.prems(1) by (auto simp: draw_Suc [symmetric])
  then have "bounded_loop b (snd (next_u64 g))
      = Some (draw n (snd (next_u64 g)) mod b, after_draws (Suc n) (snd (next_u64 g)))"
    using Suc.prems(2) by (intro Suc.IH) (simp_all add: draw_Suc)
  then show ?case
    using rejected
    by (subst bounded_loop.simps) (simp add: draw_Suc after_draws_Suc [of "Suc n" g] split_beta)
qed

lemma first_accepted:
  assumes "\<exists>n. draw n g \<ge> bounded_threshold b"
  shows "\<exists>n. (\<forall>i<n. draw i g < bounded_threshold b) \<and> draw n g \<ge> bounded_threshold b"
proof -
  have "draw (LEAST n. draw n g \<ge> bounded_threshold b) g \<ge> bounded_threshold b" using assms by (rule LeastI_ex)
  moreover have "\<forall>i < (LEAST n. draw n g \<ge> bounded_threshold b). draw i g < bounded_threshold b"
    by (meson not_less not_less_Least)
  ultimately show ?thesis by blast
qed

lemma bounded_loop_returns:
  assumes "bounded_loop b g = Some y"
  shows "\<exists>n. (\<forall>i<n. draw i g < bounded_threshold b) \<and> draw n g \<ge> bounded_threshold b"
proof -
  have "\<exists>n. draw n g \<ge> bounded_threshold b"
  proof (rule bounded_loop.raw_induct [where P = "\<lambda>b g y. \<exists>n. draw n g \<ge> bounded_threshold b", OF _ assms])
    fix loop and b :: u64 and g :: pcg and y :: "u64 \<times> pcg"
    assume 1: "\<And>b g y. loop b g = Some y \<Longrightarrow> \<exists>n. draw n g \<ge> bounded_threshold b"
      "(case next_u64 g of (v, g') \<Rightarrow>
          if v \<ge> bounded_threshold b then Some (v mod b, g') else loop b g') = Some y"
    show "\<exists>n. draw n g \<ge> bounded_threshold b"
    proof (cases "fst (next_u64 g) \<ge> bounded_threshold b")
      case True
      then show ?thesis by (intro exI [of _ 0]) (simp add: draw_0)
    next
      case False
      then have "loop b (snd (next_u64 g)) = Some y" using 1(2) by (simp add: split_beta)
      then obtain n where "draw n (snd (next_u64 g)) \<ge> bounded_threshold b" using 1(1) by blast
      then show ?thesis by (intro exI [of _ "Suc n"]) (simp add: draw_Suc)
    qed
  qed
  then show ?thesis by (rule first_accepted)
qed

lemma bounded_loop_iff:
  "bounded_loop b g = Some (x, g') \<longleftrightarrow>
     (\<exists>n. (\<forall>i<n. draw i g < bounded_threshold b) \<and> draw n g \<ge> bounded_threshold b
        \<and> x = draw n g mod b \<and> g' = after_draws (Suc n) g)"
proof
  assume loop: "bounded_loop b g = Some (x, g')"
  then obtain n where n: "\<forall>i<n. draw i g < bounded_threshold b" "draw n g \<ge> bounded_threshold b"
    using bounded_loop_returns by blast
  then have "x = draw n g mod b \<and> g' = after_draws (Suc n) g" using bounded_loop_accepts [OF n] loop by simp
  then show "\<exists>n. (\<forall>i<n. draw i g < bounded_threshold b) \<and> draw n g \<ge> bounded_threshold b
        \<and> x = draw n g mod b \<and> g' = after_draws (Suc n) g" using n by blast
qed (auto simp: bounded_loop_accepts)

text \<open>How many numbers up from a point leave a given remainder.\<close>

lemma one_residue_per_block:
  fixes b :: nat
  assumes "r < b"
  shows "card {v. m \<le> v \<and> v < m + b \<and> v mod b = r} = 1"
proof -
  define v where "v = m + (r + b - m mod b) mod b"
  have mb: "m mod b < b" using assms by simp
  have "v mod b = (m mod b + (r + b - m mod b)) mod b" by (simp add: v_def mod_simps)
  also have "\<dots> = (r + b) mod b" using mb by (intro arg_cong2 [where f = "(mod)"]) linarith+
  also have "\<dots> = r" using assms by simp
  finally have v: "m \<le> v" "v < m + b" "v mod b = r" using assms by (auto simp: v_def)
  have apart: "x = y" if "x \<le> y" "m \<le> x" "y < m + b" "x mod b = r" "y mod b = r" for x y
  proof -
    have "b dvd y - x" using that by (simp add: mod_eq_dvd_iff_nat [symmetric])
    moreover have "y - x < b" using that by linarith
    ultimately show "x = y" using that(1) by (auto dest: dvd_imp_le)
  qed
  have same: "w = v" if "m \<le> w" "w < m + b" "w mod b = r" for w
    using apart [of w v] apart [of v w] that v by linarith
  have "{v. m \<le> v \<and> v < m + b \<and> v mod b = r} = {v}" using v same by blast
  then show ?thesis by simp
qed

lemma residues_balanced:
  fixes b :: nat
  assumes "r < b"
  shows "card {v. t \<le> v \<and> v < t + q * b \<and> v mod b = r} = q"
proof (induction q)
  case (Suc q)
  let ?low = "{v. t \<le> v \<and> v < t + q * b \<and> v mod b = r}"
  let ?top = "{v. t + q * b \<le> v \<and> v < t + q * b + b \<and> v mod b = r}"
  have "{v. t \<le> v \<and> v < t + Suc q * b \<and> v mod b = r} = ?low \<union> ?top" by auto
  moreover have "card (?low \<union> ?top) = card ?low + card ?top"
    by (rule card_Un_disjoint) auto
  ultimately show ?case using Suc one_residue_per_block [OF assms, of "t + q * b"] by simp
qed simp

lemma unat_minus_mod: "b \<noteq> 0 \<Longrightarrow> unat (bounded_threshold b) = 2 ^ 64 mod unat b"
proof -
  assume b: "b \<noteq> 0"
  have "unat (0 - b) = 2 ^ 64 - unat b"
  proof -
    have "0 < unat b" using b by (simp add: unat_gt_0)
    moreover have "unat b < 2 ^ 64" using unsigned_less [of b, where ?'a = nat] by simp
    ultimately have "of_nat (2 ^ 64 - unat b) = 0 - b" by (simp add: of_nat_diff)
    moreover have "unat (of_nat (2 ^ 64 - unat b) :: u64) = 2 ^ 64 - unat b"
      using \<open>0 < unat b\<close> by (subst unat_of_nat) simp
    ultimately show ?thesis by simp
  qed
  moreover have "unat b \<le> 2 ^ 64" using unsigned_less [of b, where ?'a = nat] by simp
  ultimately show ?thesis by (simp add: bounded_threshold_def unat_mod le_mod_geq)
qed

lemma accepted_balanced:
  assumes "b \<noteq> 0" "r < b"
  shows "card {v :: u64. v \<ge> bounded_threshold b \<and> v mod b = r} = 2 ^ 64 div unat b"
proof -
  let ?t = "2 ^ 64 mod unat b" and ?q = "2 ^ 64 div unat b"
  have total: "?t + ?q * unat b = 2 ^ 64" by (simp add: mult.commute)
  have "bij_betw unat {v :: u64. v \<ge> bounded_threshold b \<and> v mod b = r}
          {n. ?t \<le> n \<and> n < ?t + ?q * unat b \<and> n mod unat b = unat r}"
    unfolding total
  proof (rule bij_betw_byWitness [where f' = of_nat])
    show "of_nat ` {n. ?t \<le> n \<and> n < 2 ^ 64 \<and> n mod unat b = unat r}
        \<subseteq> {v :: u64. v \<ge> bounded_threshold b \<and> v mod b = r}"
      by (auto simp: word_le_nat_alt word_unat_eq_iff unat_minus_mod [OF assms(1)] unat_of_nat unat_mod)
    show "unat ` {v :: u64. v \<ge> bounded_threshold b \<and> v mod b = r}
        \<subseteq> {n. ?t \<le> n \<and> n < 2 ^ 64 \<and> n mod unat b = unat r}"
      using unsigned_less [where ?'b = 64 and ?'a = nat]
      by (auto simp: word_le_nat_alt unat_minus_mod [OF assms(1)] unat_mod [symmetric] simp del: unat_mod)
  qed (auto simp: unat_of_nat)
  then have "card {v :: u64. v \<ge> bounded_threshold b \<and> v mod b = r}
      = card {n. ?t \<le> n \<and> n < ?t + ?q * unat b \<and> n mod unat b = unat r}" by (rule bij_betw_same_card)
  then show ?thesis using residues_balanced [of "unat r" "unat b" ?t ?q] assms(2) by (simp add: word_less_nat_alt)
qed

text \<open>C40. Drawing below a bound: the result is the remainder of the first draw that is not below the threshold,
  every remainder belongs to equally many accepted draws, so none is favoured, and the loop returns exactly when
  some draw is accepted.\<close>

theorem bounded_is_uniform:
  assumes "b \<noteq> 0"
  shows "(\<forall>x g'. bounded b g = Some (x, g') \<longleftrightarrow>
            (\<exists>n. (\<forall>i<n. draw i g < bounded_threshold b) \<and> draw n g \<ge> bounded_threshold b
               \<and> x = draw n g mod b \<and> g' = after_draws (Suc n) g))
       \<and> ((\<exists>y. bounded b g = Some y) \<longleftrightarrow> (\<exists>n. draw n g \<ge> bounded_threshold b))
       \<and> (\<forall>r<b. card {v. v \<ge> bounded_threshold b \<and> v mod b = r} = 2 ^ 64 div unat b)"
proof (intro conjI allI impI)
  fix x g'
  show "bounded b g = Some (x, g') \<longleftrightarrow>
          (\<exists>n. (\<forall>i<n. draw i g < bounded_threshold b) \<and> draw n g \<ge> bounded_threshold b
             \<and> x = draw n g mod b \<and> g' = after_draws (Suc n) g)"
    using assms by (simp add: bounded_def bounded_loop_iff)
  show "(\<exists>y. bounded b g = Some y) \<longleftrightarrow> (\<exists>n. draw n g \<ge> bounded_threshold b)"
    using assms first_accepted [of b g] by (auto simp: bounded_def bounded_loop_iff)
  show "card {v. v \<ge> bounded_threshold b \<and> v mod b = r} = 2 ^ 64 div unat b" if "r < b" for r
    using accepted_balanced [OF assms that] .
qed

theorem bounded_is_uniform_witness:
  "card {v :: u64. v \<ge> bounded_threshold 3 \<and> v mod 3 = 2} = 2 ^ 64 div 3"
  using bounded_is_uniform [of 3 "reseed 0 0"] by simp

text \<open>The jump ahead is none: jumping nowhere clears the state, jumping one step stays in place.\<close>

lemma advance_zero: "pcg_state (advance 0 g) = 0"
  by (simp add: advance_def advance_loop.simps)

lemma advance_one: "advance 1 g = g"
  by (simp add: advance_def advance_loop.simps)

text \<open>The sub-stream derived from a seed depends on the order in which the compiler evaluates the two
  arguments, and so does the first number drawn from it.\<close>

lemma sub_stream_depends_on_order:
  "fst (next_u32 (fst (make_stream True 0))) \<noteq> fst (next_u32 (fst (make_stream False 0)))"
  by (simp add: make_stream_def splitmix_next_def reseed_def next_u32_def pcg_step_def pcg_output_def Let_def
      kMultiplier_def)

end
