(* ===== verification/Incarnation.thy ===== *)
theory Incarnation
  imports Model
begin

text \<open>
  Fresh incarnations (\<^verbatim>\<open>IncarnationBits::generate\<close>, \<^verbatim>\<open>src/identity.cpp\<close>): the state mixed from what the
  operating system gives, which is an argument, and the sixteen bytes derived from it; and why two different
  states can never give the same incarnation.
\<close>

record entropy =
  ey_first :: u32
  ey_second :: u32
  ey_clock :: u64
  ey_process :: u64
  ey_counter :: u64
  ey_thread :: u64

definition entropy_state :: "entropy \<Rightarrow> u64" where
  "entropy_state e =
     push_bit 32 (ucast (ey_first e)) XOR ucast (ey_second e) XOR ey_clock e XOR push_bit 17 (ey_process e)
     XOR (ey_counter e * 0x9E3779B97F4A7C15) XOR ey_thread e"

definition incarnation_generate :: "entropy \<Rightarrow> bytes" where
  "incarnation_generate e =
     (let (c0, s1) = splitmix64 (entropy_state e); (c1, s2) = splitmix64 s1;
          bs = w_u64 c0 @ w_u64 c1
      in if incarnation_is_zero bs then bs[0 := 1] else bs)"

section \<open>The mixing loses nothing\<close>

definition xor_shift :: "nat \<Rightarrow> u64 \<Rightarrow> u64" where
  "xor_shift k z = z XOR drop_bit k z"

lemma drop_bit_xor: "drop_bit k (x XOR y) = drop_bit k x XOR drop_bit k y" for x y :: u64
  by (rule bit_word_eqI) (simp add: bit_drop_bit_eq bit_xor_iff)

lemma shifted_fixpoint:
  fixes d :: u64
  assumes "d = drop_bit k d" "0 < k"
  shows "d = 0"
proof -
  have d: "d = drop_bit (k * m) d" for m
  proof (induction m)
    case (Suc m)
    have "drop_bit (k * Suc m) d = drop_bit (k * m) (drop_bit k d)" by (simp add: drop_bit_drop_bit add.commute)
    then show ?case using Suc assms(1) by simp
  qed simp
  have "d = drop_bit (k * 64) d" by (rule d)
  also have "\<dots> = 0" using assms(2) by (intro bit_word_eqI) (simp add: bit_drop_bit_eq bit_imp_le_length)
  finally show ?thesis .
qed

lemma xor_shift_inj:
  assumes k: "0 < k" and eq: "xor_shift k x = xor_shift k y"
  shows "x = y"
proof -
  have bits: "bit (xor_shift k x) n = bit (xor_shift k y) n" for n by (simp only: eq)
  have "x XOR y = drop_bit k x XOR drop_bit k y"
    using bits by (intro bit_word_eqI) (auto simp: xor_shift_def bit_xor_iff)
  then have "x XOR y = drop_bit k (x XOR y)" by (rule trans) (rule drop_bit_xor [symmetric])
  then have zero: "x XOR y = 0" using k by (rule shifted_fixpoint)
  have "\<not> bit (x XOR y) n" for n by (simp add: zero)
  then show ?thesis by (intro bit_word_eqI) (simp add: bit_xor_iff)
qed

lemma odd_factor_inj:
  fixes x y a i :: u64
  assumes "x * a = y * a" "a * i = 1"
  shows "x = y"
proof -
  have "x * (a * i) = y * (a * i)" using arg_cong [OF assms(1), of "\<lambda>w. w * i"] by (simp only: mult.assoc)
  then show ?thesis by (simp only: assms(2) mult_1_right)
qed

definition mix :: "u64 \<Rightarrow> u64" where
  "mix s = xor_shift 31 (xor_shift 27 (xor_shift 30 s * 0xBF58476D1CE4E5B9) * 0x94D049BB133111EB)"

lemma mix_inj: "mix s = mix t \<Longrightarrow> s = t"
proof -
  assume "mix s = mix t"
  then have "xor_shift 27 (xor_shift 30 s * 0xBF58476D1CE4E5B9) * 0x94D049BB133111EB
      = xor_shift 27 (xor_shift 30 t * 0xBF58476D1CE4E5B9) * 0x94D049BB133111EB"
    unfolding mix_def by (rule xor_shift_inj [rotated]) simp
  then have "xor_shift 27 (xor_shift 30 s * 0xBF58476D1CE4E5B9) = xor_shift 27 (xor_shift 30 t * 0xBF58476D1CE4E5B9)"
    by (rule odd_factor_inj [where i = 3573116690164977347]) simp
  then have "xor_shift 30 s * 0xBF58476D1CE4E5B9 = xor_shift 30 t * 0xBF58476D1CE4E5B9"
    by (rule xor_shift_inj [rotated]) simp
  then have "xor_shift 30 s = xor_shift 30 t" by (rule odd_factor_inj [where i = 10871156337175269513]) simp
  then show "s = t" by (rule xor_shift_inj [rotated]) simp
qed

lemma splitmix64_mix: "splitmix64 s = (mix (s + 0x9E3779B97F4A7C15), s + 0x9E3779B97F4A7C15)"
  by (simp add: splitmix64_def mix_def xor_shift_def Let_def)

section \<open>Incarnations\<close>

text \<open>The bytes derived from a state, before the guard against zero.\<close>

definition derived :: "u64 \<Rightarrow> bytes" where
  "derived s = w_u64 (mix (s + 0x9E3779B97F4A7C15)) @ w_u64 (mix (s + 0x9E3779B97F4A7C15 + 0x9E3779B97F4A7C15))"

lemma w_u64_inj: "w_u64 x = w_u64 y \<Longrightarrow> x = y"
proof -
  have "rd_u64 (reader_of (w_u64 z)) = (Some z, (reader_of (w_u64 z))\<lparr>rd_offset := length (w_u64 z)\<rparr>)" for z
    using reads_u64 [of z] by (simp add: reads_def reader_of_def)
  then show "w_u64 x = w_u64 y \<Longrightarrow> x = y" by (metis option.inject prod.inject)
qed

lemma derived_inj: "derived s = derived t \<Longrightarrow> s = t"
  using w_u64_inj mix_inj by (fastforce simp: derived_def w_u64_def)

lemma derived_not_zero: "\<not> incarnation_is_zero (derived s)"
proof
  assume zero: "incarnation_is_zero (derived s)"
  have "w_u64 x = w_u64 y" if "list_all (\<lambda>b. b = 0) (w_u64 x @ w_u64 y)" for x y
  proof -
    have "length (w_u64 z) = 8" for z by (simp add: w_u64_def)
    then have "w_u64 x = replicate 8 0" "w_u64 y = replicate 8 0"
      using that by (auto intro!: replicate_eqI simp: list_all_iff simp del: replicate.simps)
    then show ?thesis by simp
  qed
  then have "w_u64 (mix (s + 0x9E3779B97F4A7C15)) = w_u64 (mix (s + 0x9E3779B97F4A7C15 + 0x9E3779B97F4A7C15))"
    using zero by (simp only: incarnation_is_zero_def derived_def)
  then have "s + 0x9E3779B97F4A7C15 = s + 0x9E3779B97F4A7C15 + 0x9E3779B97F4A7C15" using w_u64_inj mix_inj by blast
  then show False by simp
qed

lemma incarnation_derived:
  "incarnation_generate e = derived (entropy_state e)" "incarnation_from_seed s = derived s"
  using derived_not_zero
  by (simp_all add: incarnation_generate_def incarnation_from_seed_def splitmix64_mix derived_def Let_def)

text \<open>Incarnations stay apart: two fresh incarnations are equal exactly when the mixed states were, an incarnation
  derived from a seed determines the seed, and none is ever zero, so the guards against zero never act.\<close>

theorem incarnations_distinct:
  "(incarnation_generate e = incarnation_generate e' \<longleftrightarrow> entropy_state e = entropy_state e')
   \<and> (incarnation_from_seed s = incarnation_from_seed t \<longleftrightarrow> s = t)
   \<and> incarnation_generate e \<noteq> zero_incarnation \<and> incarnation_from_seed s \<noteq> zero_incarnation"
proof -
  have "derived u \<noteq> zero_incarnation" for u
    using derived_not_zero [of u] by (auto simp: incarnation_is_zero_def zero_incarnation_def list_all_iff)
  then show ?thesis using derived_inj by (auto simp: incarnation_derived)
qed

end
