(* ===== verification/Spec2Isabelle.thy ===== *)
theory Spec2Isabelle
  imports Journal_Props Model_Inv Operation_Props Decision_Props Queue Channel Render Client_Props Cancel_Faults
    Cli_Props Ready Sockets Rng Incarnation
begin

text \<open>
  Verification of the cluster interconnect fabric: a single authority that decides which contract may use which
  path between which members, how many units it holds there and for how long, keeps its decisions in a durable
  log, and serves clients over a framed binary protocol. The paths below are relative to \<^verbatim>\<open>src/\<close>, where the
  repository is.

  \<^bold>\<open>How the program is put together.\<close> \<^verbatim>\<open>AuthorityCore\<close> is a deterministic machine: a declared specification of
  members, paths and exclusions, a contract store, a table of grants and one of decided attempts, and the
  coordinates (cluster, generation, epoch, policy, incarnation) every request has to name. It hands each change
  to a durability sink, which is either a counter or the journal, a file of checksummed records that recovery
  reads back. The daemon gives the machine to one reducer thread; connection threads turn bytes into frames and
  frames into items of a bounded queue, and wait for their reply in a mailbox. Client library and command line
  tool sit on the other side of the wire.

  \<^bold>\<open>Which theory models what.\<close> A C++ class is a \<open>record\<close> with the members as fields, an enumeration or variant a
  \<open>datatype\<close>, a method a function of the object's value that returns the new value beside its result. Types
  and functions keep their names, fields get a short prefix. \<^verbatim>\<open>CIF_TRY\<close> is \<open>cif_try\<close>; a function with an output
  parameter returns a status and the output or, where it writes the output only on success, \<open>status + 'a\<close>.

  \<^item> \<^verbatim>\<open>Prelude\<close>: machine integers, bytes and strings, generic lemmas.
  \<^item> \<^verbatim>\<open>Status\<close>, \<^verbatim>\<open>Text\<close>, \<^verbatim>\<open>Lines\<close>, \<^verbatim>\<open>Version\<close>: status and reason codes (\<^verbatim>\<open>include/cif/status.hpp\<close>), text checks,
    limits, numbers in text, scanning of lines (\<^verbatim>\<open>src/text.cpp\<close>, \<^verbatim>\<open>include/cif/limits.hpp\<close>), versions
    (\<^verbatim>\<open>src/version.cpp\<close>).
  \<^item> \<^verbatim>\<open>Bytes\<close>, \<^verbatim>\<open>Hash\<close>, \<^verbatim>\<open>Rng\<close>: the canonical byte format (\<^verbatim>\<open>src/bytes.cpp\<close>), SHA-256, CRC-32C and FNV-1a
    (\<^verbatim>\<open>src/hash.cpp\<close>), the random number generator of the simulations (\<^verbatim>\<open>src/rng.cpp\<close>).
  \<^item> \<^verbatim>\<open>Identity\<close>, \<^verbatim>\<open>Incarnation\<close>, \<^verbatim>\<open>Tables\<close>: identifiers, counters, provenance, incarnations
    (\<^verbatim>\<open>src/identity.cpp\<close>), and the vectors sorted by identifier in which the program keeps everything.
  \<^item> \<^verbatim>\<open>Model\<close>, \<^verbatim>\<open>Model_Codec\<close>, \<^verbatim>\<open>Model_Inv\<close>, \<^verbatim>\<open>Contract\<close>: the specification of a cluster and its mutators
    (\<^verbatim>\<open>src/model.cpp\<close>), the contract store (\<^verbatim>\<open>src/contract.cpp\<close>).
  \<^item> \<^verbatim>\<open>Request\<close>, \<^verbatim>\<open>Grant\<close>: what callers send and what they get (\<^verbatim>\<open>src/request.cpp\<close>, \<^verbatim>\<open>src/grant.cpp\<close>).
  \<^item> \<^verbatim>\<open>Journal\<close>, \<^verbatim>\<open>Journal_Scan\<close>, \<^verbatim>\<open>Journal_Props\<close>, \<^verbatim>\<open>Sink\<close>: the log (\<^verbatim>\<open>src/journal.cpp\<close>) on a file whose writes
    may fail, stop short or not be synced, its scan and replay, and the sinks.
  \<^item> \<^verbatim>\<open>Authority\<close>, \<^verbatim>\<open>Authority_Ops\<close>, \<^verbatim>\<open>Eligibility\<close>, \<^verbatim>\<open>Decide\<close>, \<^verbatim>\<open>Client_Ops\<close>: the state of \<^verbatim>\<open>AuthorityCore\<close> and all
    its operations (\<^verbatim>\<open>src/authority.cpp\<close>), in the order of the file; \<^verbatim>\<open>Render\<close>: its reports (\<^verbatim>\<open>src/render.cpp\<close>).
  \<^item> \<^verbatim>\<open>Authority_Inv\<close>, \<^verbatim>\<open>Authority_Steps\<close>, \<^verbatim>\<open>Capacity\<close>, \<^verbatim>\<open>Submit_Props\<close>, \<^verbatim>\<open>Recovery\<close>, \<^verbatim>\<open>Runs\<close>, \<^verbatim>\<open>Sweeps\<close>,
    \<^verbatim>\<open>Write_Ahead\<close>, \<^verbatim>\<open>Written\<close>, \<^verbatim>\<open>Replay_Inv\<close>: what each operation keeps and does, and what all sequences of
    operations keep; \<^verbatim>\<open>Authority_Props\<close>, \<^verbatim>\<open>Decision_Props\<close>, \<^verbatim>\<open>Operation_Props\<close>: the properties;
    \<^verbatim>\<open>Demo_Cluster\<close>: the small cluster on which their instances are evaluated.
  \<^item> \<^verbatim>\<open>Wire\<close>, \<^verbatim>\<open>Wire_Props\<close>, \<^verbatim>\<open>Channel\<close>: messages and frames (\<^verbatim>\<open>src/wire.cpp\<close>), reassembly from a stream
    (\<^verbatim>\<open>FrameChannel\<close> of \<^verbatim>\<open>src/runtime.cpp\<close>).
  \<^item> \<^verbatim>\<open>Queue\<close>, \<^verbatim>\<open>Server\<close>, \<^verbatim>\<open>Daemon\<close>: the bounded queue (\<^verbatim>\<open>include/cif/bounded_queue.hpp\<close>), starting, dispatch
    and the threads of the daemon (\<^verbatim>\<open>src/server.cpp\<close>); \<^verbatim>\<open>Daemon_Inv\<close>, \<^verbatim>\<open>Daemon_Flow\<close>, \<^verbatim>\<open>Daemon_Props\<close>,
    \<^verbatim>\<open>Daemon_Faults\<close>, \<^verbatim>\<open>Cancel_Faults\<close>: its invariants, and what goes wrong.
  \<^item> \<^verbatim>\<open>Client\<close>, \<^verbatim>\<open>Client_Props\<close>, \<^verbatim>\<open>Cifd\<close>, \<^verbatim>\<open>Cli\<close>, \<^verbatim>\<open>Cli_Commands\<close>, \<^verbatim>\<open>Cli_Props\<close>: the client library
    (\<^verbatim>\<open>src/client.cpp\<close>) and both programs (\<^verbatim>\<open>apps/cifd_main.cpp\<close>, \<^verbatim>\<open>apps/cif_main.cpp\<close>).
  \<^item> \<^verbatim>\<open>Platform\<close>, \<^verbatim>\<open>Sockets\<close>, \<^verbatim>\<open>Process\<close>, \<^verbatim>\<open>Ready\<close>: files, sockets and child processes as the code handles the
    answers of the system calls (\<^verbatim>\<open>src/platform.cpp\<close>, \<^verbatim>\<open>src/platform_sockets.cpp\<close>, \<^verbatim>\<open>src/process.cpp\<close>), and the ready
    file between daemon and launcher.

  \<^bold>\<open>What the groups of lemmas show.\<close>

  \<^item> Tables of any state the controller reaches are sorted, bounded and consistent with each other
    (\<open>controller_inv\<close>), by one argument for all events: the locale \<open>budgeted_steps\<close>, interpreted on
    \<open>apply_event\<close>. The budget is what is left of the 64-bit grant serial, of which an event uses at most one; no
    statement about runs needs more than that the run is not longer than the serials left, 2 to the 64 less one for
    a new controller.
  \<^item> Capacity: the saturating accounting loops are the true sums; nothing is over-committed, a declared exclusive
    path has one holder, an eligible request is granted.
  \<^item> Decisions: one per attempt, only on current coordinates, and what has ended stays ended. A request that is
    refused for its coordinates moves only \<open>refuses\<close>-related parts (counters, caches, the audit ring).
  \<^item> Sweeps (expiry, fencing, revalidation) share the locale \<open>grant_sweep\<close>, one grant at a time without disturbing
    the others.
  \<^item> The sinks satisfy \<open>durability_sink\<close>. The journal returns from any file its appends left behind exactly what was
    acknowledged, as long as no append failed half way and every record can be decoded;
    what happens otherwise is at the end of \<^verbatim>\<open>Journal_Props\<close> and in \<^verbatim>\<open>Cancel_Faults\<close>.
  \<^item> Codecs: round trips for every encoder, composed up to whole messages; the frame reader accepts exactly the
    framed bytes; a stream cut anyhow is reassembled.
  \<^item> Daemon: an execution is a sequence of steps of the threads in any order the program counters allow
    (\<open>daemon_step\<close>, \<open>daemon_run\<close>). Requests and replies are conserved in it, the reducer works off its queue, and
    what it does to the engine is a run of the controller, so the controller's properties hold of it.
  \<^item> Algorithms agree with references: SHA-256 with the padded message of FIPS 180-4, CRC-32C with polynomial
    division, bounded random draws with rejection sampling.

  \<^bold>\<open>Loops.\<close> Every loop of the code that always ends is a total function. The one loop that need not end, drawing
  until a number falls below a bound, is a \<open>partial_function\<close> whose \<open>None\<close> is not returning; it is proved to return
  exactly when some later draw is accepted. The padding loop of SHA-256 has fuel 64, enough because it ends at the
  first position 56 of a block of 64 (\<open>pad_zeros\<close> and the lemma on it need only that the distance is below 64).
  Loops over what the outside delivers (socket and process answers) recurse over the list of these answers; a
  list used up means still waiting, which is \<open>None\<close> where the caller can tell.

  \<^bold>\<open>The outside.\<close> What the operating system answers is an input: a list of results of the coming system calls, the
  outcome of each file operation, the clock readings, the process id. Text the operating system makes (\<^verbatim>\<open>strerror\<close>) is a
  function given to the model. Threads are interleavings of steps that each run under one lock or on the reducer
  alone; memory below that granularity is not modelled, and neither is exhaustion of memory.

  \<^bold>\<open>Not modelled.\<close> The branches for Windows, other than the quoting of command lines, which is pure; name resolution
  beyond how many addresses it finds; reading the log file in pieces (\<^verbatim>\<open>read_prefix\<close>: the scan is given the bytes that
  are there); finding the path of the running program; move constructors, destructors
  and accessors without logic; benchmarks, examples and tests, which only call what is modelled here.
\<close>

end
